(* ===== verification/Ppp_Prelude.thy ===== *)
theory Ppp_Prelude
  imports Main "HOL-Library.Word"
begin

text \<open>
  Prelude of the PPP daemon development: the machine types of the C sources, the inline
  get/put macros of \<^verbatim>\<open>pppd.h\<close>, writes into fixed-size buffers, optional function pointers,
  and the list, arithmetic and word lemmas the component theories share. The collections
  \<open>ppp_frame\<close> (what an operation leaves unchanged) and \<open>ppp_consts\<close> (values of the
  preprocessor constants) are filled by the component theories.
\<close>

unbundle bit_operations_syntax

named_theorems ppp_frame \<open>fields that an operation leaves unchanged\<close>
named_theorems ppp_consts \<open>values of preprocessor constants\<close>

type_synonym u8 = "8 word"
type_synonym u32 = "32 word"
type_synonym bytes = "8 word list"

section \<open>Definitions\<close>

text \<open>
  \<^verbatim>\<open>GETSHORT\<close>, \<^verbatim>\<open>PUTSHORT\<close>, \<^verbatim>\<open>GETLONG\<close>, \<^verbatim>\<open>PUTLONG\<close>: big-endian 16 and 32 bit fields. A short
  is read into an \<open>int\<close> (or an unsigned short that is promoted to \<open>int\<close>), a long into a
  \<^verbatim>\<open>uint32_t\<close>; a put keeps the low bits of its argument, as the \<^verbatim>\<open>(u_char)\<close> casts do.
\<close>

definition getshort :: "u8 \<Rightarrow> u8 \<Rightarrow> int" where
  "getshort a b = uint a * 256 + uint b"

definition putshort :: "int \<Rightarrow> bytes" where
  "putshort v = [word_of_int (v div 256), word_of_int v]"

definition getlong :: "u8 \<Rightarrow> u8 \<Rightarrow> u8 \<Rightarrow> u8 \<Rightarrow> u32" where
  "getlong a b c d =
     push_bit 24 (ucast a) OR push_bit 16 (ucast b) OR push_bit 8 (ucast c) OR ucast d"

definition putlong :: "u32 \<Rightarrow> bytes" where
  "putlong v = [ucast (drop_bit 24 v), ucast (drop_bit 16 v), ucast (drop_bit 8 v), ucast v]"

text \<open>Overwriting part of a buffer; the caller checks that the write stays inside.\<close>

definition buf_write :: "nat \<Rightarrow> 'a list \<Rightarrow> 'a list \<Rightarrow> 'a list" where
  "buf_write off bs buf = take off buf @ bs @ drop (off + length bs) buf"

text \<open>A function pointer that may be \<^verbatim>\<open>NULL\<close>: \<^verbatim>\<open>if (p) ( *p)(w)\<close>.\<close>

definition call_opt :: "('w \<Rightarrow> 'w) option \<Rightarrow> 'w \<Rightarrow> 'w" where
  "call_opt g w = (case g of None \<Rightarrow> w | Some h \<Rightarrow> h w)"

section \<open>Lemmas\<close>

lemma call_opt_None [simp]: "call_opt None w = w"
  by (simp add: call_opt_def)

lemma call_opt_Some [simp]: "call_opt (Some h) w = h w"
  by (simp add: call_opt_def)

lemma call_opt_cases:
  "(g = None \<Longrightarrow> P w) \<Longrightarrow> (\<And>h. g = Some h \<Longrightarrow> P (h w)) \<Longrightarrow> P (call_opt g w)"
  by (cases g) auto

lemma length_putshort [simp]: "length (putshort v) = 2"
  by (simp add: putshort_def)

lemma length_putlong [simp]: "length (putlong v) = 4"
  by (simp add: putlong_def)

lemma getshort_range: "0 \<le> getshort a b" "getshort a b < 65536"
  using uint_lt2p [of a] uint_lt2p [of b] by (simp_all add: getshort_def)

lemma getshort_putshort:
  assumes "0 \<le> v" and "v < 65536"
  shows "getshort (word_of_int (v div 256)) (word_of_int v) = v"
proof -
  have "v div 256 < 256" and "0 \<le> v div 256"
    using assms by auto
  then have "uint (word_of_int (v div 256) :: u8) = v div 256"
    by (simp add: uint_word_of_int take_bit_eq_mod)
  moreover have "uint (word_of_int v :: u8) = v mod 256"
    by (simp add: uint_word_of_int take_bit_eq_mod)
  ultimately show ?thesis
    by (simp add: getshort_def)
qed

lemma putshort_getshort: "putshort (getshort a b) = [a, b]"
proof -
  have a: "getshort a b div 256 = uint a" and b: "getshort a b mod 256 = uint b"
    using uint_lt2p [of a] uint_lt2p [of b] by (simp_all add: getshort_def)
  have "(word_of_int (getshort a b) :: u8) = b"
  proof -
    have "uint (word_of_int (getshort a b) :: u8) = uint b"
      by (simp add: uint_word_of_int take_bit_eq_mod b)
    then show ?thesis
      by (simp only: word_uint_eq_iff)
  qed
  with a show ?thesis
    by (simp add: putshort_def)
qed

lemma getlong_putlong:
  "getlong (ucast (drop_bit 24 v)) (ucast (drop_bit 16 v)) (ucast (drop_bit 8 v)) (ucast v) = v"
proof (rule bit_word_eqI)
  fix n :: nat
  assume "n < LENGTH(32)"
  consider "n < 8" | "8 \<le> n \<and> n < 16" | "16 \<le> n \<and> n < 24" | "24 \<le> n"
    by linarith
  then show "bit (getlong (ucast (drop_bit 24 v)) (ucast (drop_bit 16 v)) (ucast (drop_bit 8 v))
      (ucast v)) n \<longleftrightarrow> bit v n"
    using \<open>n < LENGTH(32)\<close> by cases (auto simp: getlong_def bit_simps)
qed

lemma bit_u8_beyond: "8 \<le> n \<Longrightarrow> \<not> bit (a :: u8) n"
  using bit_imp_le_length [of a n] by auto

lemma putlong_getlong: "putlong (getlong a b c d) = [a, b, c, d]"
  unfolding putlong_def getlong_def
  by (auto intro!: bit_word_eqI simp: bit_simps bit_u8_beyond)

lemma length_buf_write [simp]:
  "off + length bs \<le> length buf \<Longrightarrow> length (buf_write off bs buf) = length buf"
  by (simp add: buf_write_def)

lemma take_buf_write_prefix:
  "n \<le> off \<Longrightarrow> off \<le> length buf \<Longrightarrow> take n (buf_write off bs buf) = take n buf"
  by (simp add: buf_write_def min_def)

lemma take_buf_write_0:
  "length bs \<le> n \<Longrightarrow> take n (buf_write 0 bs buf) = bs @ take (n - length bs) (drop (length bs) buf)"
  by (simp add: buf_write_def)

lemma drop_buf_write:
  "off \<le> length buf \<Longrightarrow> drop off (buf_write off bs buf) = bs @ drop (off + length bs) buf"
  by (simp add: buf_write_def)

end
