(* ===== verification/Ppp_Main.thy ===== *)
theory Ppp_Main
  imports Ppp_Prelude
begin

text \<open>
  The daemon's run-time environment (\<^verbatim>\<open>rtemsmain.c\<close>, \<^verbatim>\<open>magic.c\<close>, and \<^verbatim>\<open>output\<close> of
  \<^verbatim>\<open>sys-rtems.c\<close>): the global state shared by all protocols, the callout list with
  \<^verbatim>\<open>ppptimeout\<close>, \<^verbatim>\<open>pppuntimeout\<close>, \<^verbatim>\<open>calltimeout\<close> and \<^verbatim>\<open>timeleft\<close>, the outgoing packet
  buffer, the random number source and the phase variable.

  The state is an extensible record: each protocol theory extends it with its own globals
  and its operations work on every further extension. The environment is part of the state:
  \<open>w_clock\<close> lists the successive results of \<^verbatim>\<open>gettimeofday\<close>, \<open>w_rand\<close> the successive 48 bit
  states of the \<^verbatim>\<open>drand48\<close> family. \<open>outq\<close> is the sequence of frames handed to \<^verbatim>\<open>write\<close>, and
  \<open>oob\<close> records that a memory access left its buffer, which C leaves undefined.
\<close>

section \<open>Definitions\<close>

subsection \<open>Constants of the PPP headers\<close>

definition PPP_MRU :: int where [ppp_consts]: "PPP_MRU = 1500"
definition PPP_HDRLEN :: nat where [ppp_consts]: "PPP_HDRLEN = 4"
definition PPP_LCP :: int where [ppp_consts]: "PPP_LCP = 0xc021"
definition PPP_PAP :: int where [ppp_consts]: "PPP_PAP = 0xc023"
definition PPP_LQR :: int where [ppp_consts]: "PPP_LQR = 0xc025"
definition PPP_CHAP :: int where [ppp_consts]: "PPP_CHAP = 0xc223"
definition PPP_IPCP :: int where [ppp_consts]: "PPP_IPCP = 0x8021"
definition PPP_CCP :: int where [ppp_consts]: "PPP_CCP = 0x80fd"

definition PHASE_DEAD :: int where [ppp_consts]: "PHASE_DEAD = 0"
definition PHASE_ESTABLISH :: int where [ppp_consts]: "PHASE_ESTABLISH = 4"
definition PHASE_AUTHENTICATE :: int where [ppp_consts]: "PHASE_AUTHENTICATE = 5"
definition PHASE_NETWORK :: int where [ppp_consts]: "PHASE_NETWORK = 7"
definition PHASE_RUNNING :: int where [ppp_consts]: "PHASE_RUNNING = 8"
definition PHASE_TERMINATE :: int where [ppp_consts]: "PHASE_TERMINATE = 9"
definition PHASE_DORMANT :: int where [ppp_consts]: "PHASE_DORMANT = 3"

subsection \<open>State\<close>

record timeval =
  tv_sec :: int
  tv_usec :: int

text \<open>The routines that are ever passed to \<^verbatim>\<open>TIMEOUT\<close>, and their arguments.\<close>

datatype fsm_id = LCP_FSM | IPCP_FSM | CCP_FSM

datatype callout_func =
    FSM_TIMEOUT | LCP_ECHO_TIMEOUT | UPAP_TIMEOUT | UPAP_REQTIMEOUT
  | CHAP_CHALLENGE_TIMEOUT | CHAP_RESPONSE_TIMEOUT | CHAP_RECHALLENGE
  | CHECK_IDLE | CONNECT_TIME_EXPIRED | HOLDOFF_END | CCP_RACK_TIMEOUT | TIMEOUT_TERMINATE

datatype callout_arg = ARG_NULL | ARG_FSM fsm_id | ARG_UPAP | ARG_CHAP

record callout_ent =
  c_time :: timeval
  c_arg :: callout_arg
  c_func :: callout_func

record ppp_world =
  w_clock :: "nat \<Rightarrow> timeval"
  w_clock_idx :: nat
  w_rand :: "nat \<Rightarrow> nat"
  w_rand_idx :: nat
  callout :: "callout_ent list"
  outpacket_buf :: bytes
  outq :: "(int \<times> bytes) list"
  oob :: bool
  pppd_phase :: int
  pppd_status :: int
  hungup :: bool

subsection \<open>Clock and callout list\<close>

definition gettimeofday :: "'a ppp_world_scheme \<Rightarrow> timeval \<times> 'a ppp_world_scheme" where
  "gettimeofday w = (w_clock w (w_clock_idx w), w\<lparr>w_clock_idx := Suc (w_clock_idx w)\<rparr>)"

definition tv_less :: "timeval \<Rightarrow> timeval \<Rightarrow> bool" where
  "tv_less a b \<longleftrightarrow> tv_sec a < tv_sec b \<or> (tv_sec a = tv_sec b \<and> tv_usec a < tv_usec b)"

text \<open>The search loop of \<^verbatim>\<open>ppptimeout\<close>: link in before the first entry that is later.\<close>

fun callout_link :: "callout_ent \<Rightarrow> callout_ent list \<Rightarrow> callout_ent list" where
  "callout_link newp [] = [newp]"
| "callout_link newp (p # ps) =
     (if tv_less (c_time newp) (c_time p) then newp # p # ps else p # callout_link newp ps)"

definition ppptimeout ::
  "callout_func \<Rightarrow> callout_arg \<Rightarrow> int \<Rightarrow> 'a ppp_world_scheme \<Rightarrow> 'a ppp_world_scheme" where
  "ppptimeout func arg time w =
     (let (now, w1) = gettimeofday w;
          newp = \<lparr>c_time = \<lparr>tv_sec = tv_sec now + time, tv_usec = tv_usec now\<rparr>,
                  c_arg = arg, c_func = func\<rparr>
      in w1\<lparr>callout := callout_link newp (callout w1)\<rparr>)"

text \<open>The search loop of \<^verbatim>\<open>pppuntimeout\<close>: the first entry for this routine and argument.\<close>

fun callout_unlink ::
  "callout_func \<Rightarrow> callout_arg \<Rightarrow> callout_ent list \<Rightarrow> callout_ent list" where
  "callout_unlink func arg [] = []"
| "callout_unlink func arg (p # ps) =
     (if c_func p = func \<and> c_arg p = arg then ps else p # callout_unlink func arg ps)"

definition pppuntimeout ::
  "callout_func \<Rightarrow> callout_arg \<Rightarrow> 'a ppp_world_scheme \<Rightarrow> 'a ppp_world_scheme" where
  "pppuntimeout func arg w = w\<lparr>callout := callout_unlink func arg (callout w)\<rparr>"

text \<open>
  \<^verbatim>\<open>calltimeout\<close>: \<open>run\<close> is the call through \<^verbatim>\<open>c_func\<close>. A routine may arm further timeouts,
  so the loop need not end; \<open>None\<close> is "does not return".
\<close>

definition tv_due :: "timeval \<Rightarrow> callout_ent \<Rightarrow> bool" where
  "tv_due now p \<longleftrightarrow>
     tv_sec (c_time p) < tv_sec now \<or>
     (tv_sec (c_time p) = tv_sec now \<and> tv_usec (c_time p) \<le> tv_usec now)"

partial_function (option) calltimeout ::
  "(callout_ent \<Rightarrow> 'a ppp_world_scheme \<Rightarrow> 'a ppp_world_scheme) \<Rightarrow>
   'a ppp_world_scheme \<Rightarrow> 'a ppp_world_scheme option" where
  "calltimeout run w =
     (case callout w of
        [] \<Rightarrow> Some w
      | p # ps \<Rightarrow>
          (case gettimeofday w of (now, w1) \<Rightarrow>
             if \<not> tv_due now p then Some w1
             else calltimeout run (run p (w1\<lparr>callout := ps\<rparr>))))"

definition timeleft ::
  "'a ppp_world_scheme \<Rightarrow> timeval option \<times> 'a ppp_world_scheme" where
  "timeleft w =
     (case callout w of
        [] \<Rightarrow> (None, w)
      | p # _ \<Rightarrow>
          (let (now, w1) = gettimeofday w;
               sec = tv_sec (c_time p) - tv_sec now;
               usec = tv_usec (c_time p) - tv_usec now;
               (sec, usec) = (if usec < 0 then (sec - 1, usec + 1000000) else (sec, usec));
               (sec, usec) = (if sec < 0 then (0, 0) else (sec, usec))
           in (Some \<lparr>tv_sec = sec, tv_usec = usec\<rparr>, w1)))"

text \<open>How many timeouts are armed for a routine and argument.\<close>

definition pending :: "callout_func \<Rightarrow> callout_arg \<Rightarrow> 'a ppp_world_scheme \<Rightarrow> nat" where
  "pending func arg w = length (filter (\<lambda>p. c_func p = func \<and> c_arg p = arg) (callout w))"

definition callout_sorted :: "callout_ent list \<Rightarrow> bool" where
  "callout_sorted = sorted_wrt (\<lambda>p q. \<not> tv_less (c_time q) (c_time p))"

text \<open>The entries that are due at a given time.\<close>

definition due_by :: "timeval \<Rightarrow> 'a ppp_world_scheme \<Rightarrow> nat" where
  "due_by t w = length (filter (tv_due t) (callout w))"

subsection \<open>Random numbers\<close>

definition next48 :: "'a ppp_world_scheme \<Rightarrow> nat \<times> 'a ppp_world_scheme" where
  "next48 w = (w_rand w (w_rand_idx w) mod 2 ^ 48, w\<lparr>w_rand_idx := Suc (w_rand_idx w)\<rparr>)"

text \<open>\<^verbatim>\<open>(uint32_t) mrand48()\<close>: the high 32 bits of the generator's state.\<close>

definition magic :: "'a ppp_world_scheme \<Rightarrow> u32 \<times> 'a ppp_world_scheme" where
  "magic w = (let (x, w1) = next48 w in (word_of_nat (x div 2 ^ 16), w1))"

subsection \<open>Outgoing packets\<close>

definition makeheader :: "int \<Rightarrow> bytes" where
  "makeheader proto = [0xff, 0x03] @ putshort proto"

text \<open>
  A write of \<open>bs\<close> at offset \<open>off\<close> of \<^verbatim>\<open>outpacket_buf\<close>, and \<^verbatim>\<open>BCOPY(src, outpacket_buf + off, n)\<close>
  from a source of which \<open>bs\<close> are the readable bytes.
\<close>

definition put_outpacket :: "nat \<Rightarrow> bytes \<Rightarrow> 'a ppp_world_scheme \<Rightarrow> 'a ppp_world_scheme" where
  "put_outpacket off bs w =
     (if off + length bs \<le> length (outpacket_buf w)
      then w\<lparr>outpacket_buf := buf_write off bs (outpacket_buf w)\<rparr>
      else w\<lparr>oob := True\<rparr>)"

definition bcopy_outpacket ::
  "nat \<Rightarrow> bytes \<Rightarrow> int \<Rightarrow> 'a ppp_world_scheme \<Rightarrow> 'a ppp_world_scheme" where
  "bcopy_outpacket off bs n w =
     (if n < 0 \<or> nat n > length bs then w\<lparr>oob := True\<rparr>
      else put_outpacket off (take (nat n) bs) w)"

text \<open>\<^verbatim>\<open>output(unit, outpacket_buf, len)\<close>: the frame is handed to \<^verbatim>\<open>write\<close>.\<close>

definition output_outpacket :: "int \<Rightarrow> int \<Rightarrow> 'a ppp_world_scheme \<Rightarrow> 'a ppp_world_scheme" where
  "output_outpacket unit len w =
     (if len < 0 then w
      else if nat len > length (outpacket_buf w) then w\<lparr>oob := True\<rparr>
      else w\<lparr>outq := outq w @ [(unit, take (nat len) (outpacket_buf w))]\<rparr>)"

definition new_phase :: "int \<Rightarrow> 'a ppp_world_scheme \<Rightarrow> 'a ppp_world_scheme" where
  "new_phase p w = w\<lparr>pppd_phase := p\<rparr>"

text \<open>The buffer keeps the size it is declared with, \<^verbatim>\<open>PPP_MRU + PPP_HDRLEN\<close>.\<close>

definition buf_ok :: "'a ppp_world_scheme \<Rightarrow> bool" where
  "buf_ok w \<longleftrightarrow> length (outpacket_buf w) = nat PPP_MRU + PPP_HDRLEN"

section \<open>The timer service\<close>

text \<open>
  What the protocols rely on: arming a timeout adds one entry for its routine and argument,
  cancelling removes one, and entries for other routines or arguments are not touched.
\<close>

locale timer_service =
  fixes arm :: "'f \<Rightarrow> 'b \<Rightarrow> int \<Rightarrow> 'w \<Rightarrow> 'w"
    and disarm :: "'f \<Rightarrow> 'b \<Rightarrow> 'w \<Rightarrow> 'w"
    and armed :: "'f \<Rightarrow> 'b \<Rightarrow> 'w \<Rightarrow> nat"
  assumes armed_arm: "armed f a (arm g b t w) = (if f = g \<and> a = b then Suc (armed f a w) else armed f a w)"
    and armed_disarm: "armed f a (disarm g b w) = (if f = g \<and> a = b then armed f a w - 1 else armed f a w)"
begin

lemma rearm_one: "armed f a w \<le> 1 \<Longrightarrow> armed f a (arm f a t (disarm f a w)) = 1"
  by (simp add: armed_arm armed_disarm)

lemma disarm_none: "armed f a w \<le> 1 \<Longrightarrow> armed f a (disarm f a w) = 0"
  by (simp add: armed_disarm)

lemma disarm_arm: "armed f a (disarm f a (arm f a t w)) = armed f a w"
  by (simp add: armed_arm armed_disarm)

end

lemma pending_link:
  "length (filter P (callout_link newp ps)) = length (filter P (newp # ps))"
  by (induction newp ps rule: callout_link.induct) auto

lemma pending_ppptimeout [simp]:
  "pending f a (ppptimeout g b t w) = (if f = g \<and> a = b then Suc (pending f a w) else pending f a w)"
  by (auto simp: pending_def ppptimeout_def gettimeofday_def pending_link)

lemma pending_unlink:
  "length (filter (\<lambda>p. c_func p = f \<and> c_arg p = a) (callout_unlink g b ps)) =
     (if f = g \<and> a = b then length (filter (\<lambda>p. c_func p = f \<and> c_arg p = a) ps) - 1
      else length (filter (\<lambda>p. c_func p = f \<and> c_arg p = a) ps))"
  by (induction g b ps rule: callout_unlink.induct) auto

lemma pending_pppuntimeout [simp]:
  "pending f a (pppuntimeout g b w) = (if f = g \<and> a = b then pending f a w - 1 else pending f a w)"
  by (simp add: pending_def pppuntimeout_def pending_unlink)

interpretation tq: timer_service ppptimeout pppuntimeout pending
  by unfold_locales simp_all

section \<open>The callout list is sorted\<close>

lemma tv_due_iff: "tv_due now p \<longleftrightarrow> \<not> tv_less now (c_time p)"
  by (auto simp: tv_due_def tv_less_def)

lemma tv_less_trans: "tv_less a b \<Longrightarrow> tv_less b c \<Longrightarrow> tv_less a c"
  by (auto simp: tv_less_def)

lemma tv_not_less_trans: "\<not> tv_less b a \<Longrightarrow> \<not> tv_less c b \<Longrightarrow> \<not> tv_less c a"
  by (auto simp: tv_less_def)

lemma tv_less_asym: "tv_less a b \<Longrightarrow> \<not> tv_less b a"
  by (auto simp: tv_less_def)

lemma set_callout_link [simp]: "set (callout_link newp ps) = insert newp (set ps)"
  by (induction newp ps rule: callout_link.induct) auto

lemma callout_sorted_link: "callout_sorted ps \<Longrightarrow> callout_sorted (callout_link newp ps)"
proof (induction newp ps rule: callout_link.induct)
  case (1 newp)
  then show ?case by (simp add: callout_sorted_def)
next
  case (2 newp p ps)
  then show ?case
    by (auto simp: callout_sorted_def dest: tv_less_asym tv_less_trans)
qed

lemma set_callout_unlink: "set (callout_unlink f a ps) \<subseteq> set ps"
  by (induction f a ps rule: callout_unlink.induct) auto

lemma callout_sorted_unlink: "callout_sorted ps \<Longrightarrow> callout_sorted (callout_unlink f a ps)"
  by (induction f a ps rule: callout_unlink.induct)
    (auto simp: callout_sorted_def dest: subsetD [OF set_callout_unlink])

text \<open>A new entry goes behind every entry that is not later than it.\<close>

lemma callout_link_split:
  "callout_sorted ps \<Longrightarrow>
   callout_link newp ps =
     filter (\<lambda>p. \<not> tv_less (c_time newp) (c_time p)) ps @ newp #
     filter (\<lambda>p. tv_less (c_time newp) (c_time p)) ps"
proof (induction newp ps rule: callout_link.induct)
  case (1 newp)
  then show ?case by simp
next
  case (2 newp p ps)
  show ?case
  proof (cases "tv_less (c_time newp) (c_time p)")
    case True
    with "2.prems" have later: "\<forall>q \<in> set ps. tv_less (c_time newp) (c_time q)"
      by (auto simp: callout_sorted_def) (meson tv_not_less_trans)
    from later have "filter (\<lambda>p. tv_less (c_time newp) (c_time p)) ps = ps"
      by simp
    moreover from later have "filter (\<lambda>p. \<not> tv_less (c_time newp) (c_time p)) ps = []"
      by simp
    ultimately show ?thesis
      using True by simp
  next
    case False
    with "2" show ?thesis by (simp add: callout_sorted_def)
  qed
qed

section \<open>Calling what is due\<close>

text \<open>
  The loop returns when no reading of the clock is after \<open>t\<close> and the routines do not arm anything that
  is due by then.
\<close>

lemma tv_due_mono: "tv_due now p \<Longrightarrow> \<not> tv_less t now \<Longrightarrow> tv_due t p"
  by (auto simp: tv_due_def tv_less_def)

lemma calltimeout_returns:
  assumes "\<And>k. \<not> tv_less t (w_clock w k)"
    and "\<And>p v. w_clock (run p v) = w_clock v \<and> due_by t (run p v) \<le> due_by t v"
  shows "\<exists>w'. calltimeout run w = Some w'"
  using assms(1)
proof (induction "due_by t w" arbitrary: w rule: less_induct)
  case less
  show ?case
  proof (cases "callout w")
    case Nil
    then show ?thesis by (simp add: calltimeout.simps)
  next
    case (Cons p ps)
    define w1 where "w1 = w\<lparr>w_clock_idx := Suc (w_clock_idx w)\<rparr>"
    have now: "gettimeofday w = (w_clock w (w_clock_idx w), w1)"
      by (simp add: gettimeofday_def w1_def)
    show ?thesis
    proof (cases "tv_due (w_clock w (w_clock_idx w)) p")
      case True
      then have "tv_due t p"
        using less.prems tv_due_mono by blast
      then have "due_by t (w1\<lparr>callout := ps\<rparr>) < due_by t w"
        using Cons by (simp add: due_by_def)
      moreover define v where "v = run p (w1\<lparr>callout := ps\<rparr>)"
      ultimately have "due_by t v < due_by t w" "\<And>k. \<not> tv_less t (w_clock v k)"
        using assms(2) [of p "w1\<lparr>callout := ps\<rparr>"] less.prems by (auto simp: w1_def)
      then obtain w' where "calltimeout run v = Some w'"
        using less.hyps by blast
      with True Cons now show ?thesis
        by (subst calltimeout.simps) (simp add: v_def)
    next
      case False
      with Cons now show ?thesis by (subst calltimeout.simps) simp
    qed
  qed
qed

text \<open>When it returns, nothing was due at the last reading of the clock.\<close>

lemma calltimeout_nothing_due:
  assumes "calltimeout run w = Some w'" and "\<And>p v. w_clock (run p v) = w_clock v"
  shows "callout w' = [] \<or> (\<exists>k. w_clock_idx w' = Suc k \<and> \<not> tv_due (w_clock w k) (hd (callout w')))"
proof -
  have "(\<forall>p v. w_clock (run p v) = w_clock v) \<longrightarrow> callout w' = [] \<or>
      (\<exists>k. w_clock_idx w' = Suc k \<and> \<not> tv_due (w_clock w k) (hd (callout w')))"
    using assms(1)
  proof (rule calltimeout.raw_induct [rotated])
    fix rec :: "(callout_ent \<Rightarrow> 'a ppp_world_scheme \<Rightarrow> 'a ppp_world_scheme) \<Rightarrow> 'a ppp_world_scheme \<Rightarrow> 'a ppp_world_scheme option"
      and run w w'
    assume IH: "\<And>run w w'. rec run w = Some w' \<Longrightarrow> (\<forall>p v. w_clock (run p v) = w_clock v) \<longrightarrow> callout w' = [] \<or>
      (\<exists>k. w_clock_idx w' = Suc k \<and> \<not> tv_due (w_clock w k) (hd (callout w')))"
      and r: "(case callout w of [] \<Rightarrow> Some w
      | p # ps \<Rightarrow>
          case gettimeofday w of
          (now, w1) \<Rightarrow> if \<not> tv_due now p then Some w1 else rec run (run p (w1\<lparr>callout := ps\<rparr>))) =
     Some w'"
    show "(\<forall>p v. w_clock (run p v) = w_clock v) \<longrightarrow> callout w' = [] \<or>
      (\<exists>k. w_clock_idx w' = Suc k \<and> \<not> tv_due (w_clock w k) (hd (callout w')))"
      using r IH [of run "run _ _" w']
      by (fastforce simp: gettimeofday_def split: list.splits if_splits)
  qed
  with assms(2) show ?thesis by blast
qed

section \<open>Frame facts\<close>

lemma callout_ppptimeout_frame [ppp_frame, simp]:
  "w_clock (ppptimeout f a t w) = w_clock w"
  "outq (ppptimeout f a t w) = outq w"
  "oob (ppptimeout f a t w) = oob w"
  "outpacket_buf (ppptimeout f a t w) = outpacket_buf w"
  "pppd_phase (ppptimeout f a t w) = pppd_phase w"
  "pppd_status (ppptimeout f a t w) = pppd_status w"
  "w_rand (ppptimeout f a t w) = w_rand w"
  "w_rand_idx (ppptimeout f a t w) = w_rand_idx w"
  "ppp_world.more (ppptimeout f a t w) = ppp_world.more w"
  by (simp_all add: ppptimeout_def gettimeofday_def)

lemma callout_pppuntimeout_frame [ppp_frame, simp]:
  "w_clock (pppuntimeout f a w) = w_clock w"
  "w_clock_idx (pppuntimeout f a w) = w_clock_idx w"
  "outq (pppuntimeout f a w) = outq w"
  "oob (pppuntimeout f a w) = oob w"
  "outpacket_buf (pppuntimeout f a w) = outpacket_buf w"
  "pppd_phase (pppuntimeout f a w) = pppd_phase w"
  "pppd_status (pppuntimeout f a w) = pppd_status w"
  "w_rand (pppuntimeout f a w) = w_rand w"
  "w_rand_idx (pppuntimeout f a w) = w_rand_idx w"
  "ppp_world.more (pppuntimeout f a w) = ppp_world.more w"
  by (simp_all add: pppuntimeout_def)

lemma put_outpacket_frame [ppp_frame, simp]:
  "callout (put_outpacket n bs w) = callout w"
  "outq (put_outpacket n bs w) = outq w"
  "w_clock (put_outpacket n bs w) = w_clock w"
  "pppd_phase (put_outpacket n bs w) = pppd_phase w"
  "pppd_status (put_outpacket n bs w) = pppd_status w"
  "ppp_world.more (put_outpacket n bs w) = ppp_world.more w"
  "length (outpacket_buf (put_outpacket n bs w)) = length (outpacket_buf w)"
  by (simp_all add: put_outpacket_def)

lemma bcopy_outpacket_frame [ppp_frame, simp]:
  "callout (bcopy_outpacket off bs n w) = callout w"
  "outq (bcopy_outpacket off bs n w) = outq w"
  "w_clock (bcopy_outpacket off bs n w) = w_clock w"
  "pppd_phase (bcopy_outpacket off bs n w) = pppd_phase w"
  "pppd_status (bcopy_outpacket off bs n w) = pppd_status w"
  "ppp_world.more (bcopy_outpacket off bs n w) = ppp_world.more w"
  "length (outpacket_buf (bcopy_outpacket off bs n w)) = length (outpacket_buf w)"
  by (simp_all add: bcopy_outpacket_def)

lemma output_outpacket_frame [ppp_frame, simp]:
  "callout (output_outpacket u n w) = callout w"
  "outpacket_buf (output_outpacket u n w) = outpacket_buf w"
  "w_clock (output_outpacket u n w) = w_clock w"
  "pppd_phase (output_outpacket u n w) = pppd_phase w"
  "pppd_status (output_outpacket u n w) = pppd_status w"
  "ppp_world.more (output_outpacket u n w) = ppp_world.more w"
  by (simp_all add: output_outpacket_def)

lemma pending_cong: "callout w = callout w' \<Longrightarrow> pending f a w = pending f a w'"
  by (simp add: pending_def)

lemma pending_more [simp]: "pending f a (ppp_world.more_update g w) = pending f a w"
  by (simp add: pending_def)

end
