(* ===== verification/Fsm.thy ===== *)
theory Fsm
  imports Ppp_Main
begin

text \<open>
  The option negotiation automaton shared by LCP, IPCP and CCP (\<^verbatim>\<open>fsm.c\<close>, \<^verbatim>\<open>fsm.h\<close>), one
  definition per C function. The pointer \<^verbatim>\<open>fsm *f\<close> is an \<open>fsm_id\<close> into the store \<open>fsms\<close>, the
  callback table \<^verbatim>\<open>f->callbacks\<close> is the argument \<open>cb\<close>, whose entries are functions on the
  whole state (a callback may re-enter the automaton, as \<^verbatim>\<open>lcp_nakci\<close> does on loopback).
  A packet \<^verbatim>\<open>(u_char *inp, int len)\<close> is the list of its \<open>len\<close> bytes. \<^verbatim>\<open>NUM_PPP\<close> is 1, so
  \<^verbatim>\<open>peer_mru[f->unit]\<close> is one variable. Log messages and \<^verbatim>\<open>ppp_delay\<close> have no effect on the
  state and are left out.
\<close>

section \<open>Definitions\<close>

definition HEADERLEN :: nat where [ppp_consts]: "HEADERLEN = 4"

definition CONFREQ :: u8 where [ppp_consts]: "CONFREQ = 1"
definition CONFACK :: u8 where [ppp_consts]: "CONFACK = 2"
definition CONFNAK :: u8 where [ppp_consts]: "CONFNAK = 3"
definition CONFREJ :: u8 where [ppp_consts]: "CONFREJ = 4"
definition TERMREQ :: u8 where [ppp_consts]: "TERMREQ = 5"
definition TERMACK :: u8 where [ppp_consts]: "TERMACK = 6"
definition CODEREJ :: u8 where [ppp_consts]: "CODEREJ = 7"

definition OPT_PASSIVE :: u32 where [ppp_consts]: "OPT_PASSIVE = 1"
definition OPT_RESTART :: u32 where [ppp_consts]: "OPT_RESTART = 2"
definition OPT_SILENT :: u32 where [ppp_consts]: "OPT_SILENT = 4"

definition DEFTIMEOUT :: int where [ppp_consts]: "DEFTIMEOUT = 5"
definition DEFMAXTERMREQS :: int where [ppp_consts]: "DEFMAXTERMREQS = 2"
definition DEFMAXCONFREQS :: int where [ppp_consts]: "DEFMAXCONFREQS = 10"
definition DEFMAXNAKLOOPS :: int where [ppp_consts]: "DEFMAXNAKLOOPS = 5"

datatype fsm_state =
  INITIAL | STARTING | CLOSED | STOPPED | CLOSING | STOPPING | REQSENT | ACKRCVD | ACKSENT | OPENED

record fsm =
  f_unit :: int
  f_protocol :: int
  f_state :: fsm_state
  f_flags :: u32
  f_id :: u8
  f_reqid :: u8
  f_seen_ack :: bool
  f_timeouttime :: int
  f_maxconfreqtransmits :: int
  f_retransmits :: int
  f_maxtermtransmits :: int
  f_nakloops :: int
  f_maxnakloops :: int
  f_term_reason :: "bytes option"
  f_term_reason_len :: int

record fsm_world = ppp_world +
  fsms :: "fsm_id \<Rightarrow> fsm"
  peer_mru :: int

text \<open>
  The callback table. \<open>addci\<close> gives the bytes it stores at \<^verbatim>\<open>outp\<close> and the new \<^verbatim>\<open>*lenp\<close>;
  \<open>reqci\<close> gives the reply code and the reply options it leaves in the packet buffer.
\<close>

record 'w fsm_callbacks =
  cb_resetci :: "('w \<Rightarrow> 'w) option"
  cb_cilen :: "('w \<Rightarrow> int \<times> 'w) option"
  cb_addci :: "(int \<Rightarrow> 'w \<Rightarrow> bytes \<times> int \<times> 'w) option"
  cb_ackci :: "(bytes \<Rightarrow> 'w \<Rightarrow> bool \<times> 'w) option"
  cb_nakci :: "(bytes \<Rightarrow> 'w \<Rightarrow> int \<times> 'w) option"
  cb_rejci :: "(bytes \<Rightarrow> 'w \<Rightarrow> int \<times> 'w) option"
  cb_reqci :: "(bytes \<Rightarrow> bool \<Rightarrow> 'w \<Rightarrow> u8 \<times> bytes \<times> 'w) option"
  cb_up :: "('w \<Rightarrow> 'w) option"
  cb_down :: "('w \<Rightarrow> 'w) option"
  cb_starting :: "('w \<Rightarrow> 'w) option"
  cb_finished :: "('w \<Rightarrow> 'w) option"
  cb_protreject :: "('w \<Rightarrow> 'w) option"
  cb_retransmit :: "('w \<Rightarrow> 'w) option"
  cb_extcode :: "(u8 \<Rightarrow> u8 \<Rightarrow> bytes \<Rightarrow> 'w \<Rightarrow> bool \<times> 'w) option"

definition upd_fsm :: "fsm_id \<Rightarrow> (fsm \<Rightarrow> fsm) \<Rightarrow> 'a fsm_world_scheme \<Rightarrow> 'a fsm_world_scheme" where
  "upd_fsm i g w = w\<lparr>fsms := (fsms w)(i := g (fsms w i))\<rparr>"

abbreviation set_state :: "fsm_id \<Rightarrow> fsm_state \<Rightarrow> 'a fsm_world_scheme \<Rightarrow> 'a fsm_world_scheme" where
  "set_state i s \<equiv> upd_fsm i (\<lambda>f. f\<lparr>f_state := s\<rparr>)"

abbreviation state_of :: "fsm_id \<Rightarrow> 'a fsm_world_scheme \<Rightarrow> fsm_state" where
  "state_of i w \<equiv> f_state (fsms w i)"

definition fsm_init :: "fsm_id \<Rightarrow> 'a fsm_world_scheme \<Rightarrow> 'a fsm_world_scheme" where
  "fsm_init i = upd_fsm i (\<lambda>f. f\<lparr>f_state := INITIAL, f_flags := 0, f_id := 100,
      f_timeouttime := DEFTIMEOUT, f_maxconfreqtransmits := DEFMAXCONFREQS,
      f_maxtermtransmits := DEFMAXTERMREQS, f_maxnakloops := DEFMAXNAKLOOPS,
      f_term_reason_len := 0\<rparr>)"

text \<open>
  \<^verbatim>\<open>fsm_sdata\<close>. \<open>In_Place\<close> stands for a \<open>data\<close> pointer equal to
  \<^verbatim>\<open>outpacket_buf + PPP_HDRLEN + HEADERLEN\<close>, for which nothing is copied.
\<close>

datatype sdata = In_Place | Data bytes

definition fsm_sdata ::
  "fsm_id \<Rightarrow> u8 \<Rightarrow> u8 \<Rightarrow> sdata \<Rightarrow> int \<Rightarrow> 'a fsm_world_scheme \<Rightarrow> 'a fsm_world_scheme" where
  "fsm_sdata i code idn data datalen w =
     (let datalen = (if datalen > peer_mru w - int HEADERLEN then peer_mru w - int HEADERLEN
                     else datalen);
          w = (case data of
                 In_Place \<Rightarrow> w
               | Data bs \<Rightarrow> if datalen \<noteq> 0
                   then bcopy_outpacket (PPP_HDRLEN + HEADERLEN) bs datalen w else w);
          outlen = datalen + int HEADERLEN;
          w = put_outpacket 0 (makeheader (f_protocol (fsms w i)) @ [code, idn] @ putshort outlen) w
      in output_outpacket (f_unit (fsms w i)) (outlen + int PPP_HDRLEN) w)"

text \<open>
  \<^verbatim>\<open>fsm_sconfreq\<close>: the first half resets the options of an automaton that is not negotiating
  and takes a new identifier, then the request packet is made up and sent.
\<close>

definition fsm_sconfreq_begin ::
  "'a fsm_world_scheme fsm_callbacks \<Rightarrow> fsm_id \<Rightarrow> bool \<Rightarrow> 'a fsm_world_scheme \<Rightarrow> 'a fsm_world_scheme"
where
  "fsm_sconfreq_begin cb i retransmit w =
     (let w = (if state_of i w \<noteq> REQSENT \<and> state_of i w \<noteq> ACKRCVD \<and> state_of i w \<noteq> ACKSENT
               then upd_fsm i (\<lambda>f. f\<lparr>f_nakloops := 0\<rparr>) (call_opt (cb_resetci cb) w)
               else w);
          w = (if \<not> retransmit
               then upd_fsm i (\<lambda>f. f\<lparr>f_retransmits := f_maxconfreqtransmits f,
                      f_id := f_id f + 1, f_reqid := f_id f + 1\<rparr>) w
               else w)
      in upd_fsm i (\<lambda>f. f\<lparr>f_seen_ack := False\<rparr>) w)"

definition fsm_make_confreq ::
  "'a fsm_world_scheme fsm_callbacks \<Rightarrow> 'a fsm_world_scheme \<Rightarrow> int \<times> 'a fsm_world_scheme" where
  "fsm_make_confreq cb w =
     (case (cb_cilen cb, cb_addci cb) of
        (Some cilen_fn, Some addci) \<Rightarrow>
          (let (cilen, w) = cilen_fn w;
               cilen = (if cilen > peer_mru w - int HEADERLEN
                        then peer_mru w - int HEADERLEN else cilen);
               (bs, cilen, w) = addci cilen w
           in (cilen, put_outpacket (PPP_HDRLEN + HEADERLEN) bs w))
      | _ \<Rightarrow> (0, w))"

definition fsm_sconfreq ::
  "'a fsm_world_scheme fsm_callbacks \<Rightarrow> fsm_id \<Rightarrow> bool \<Rightarrow> 'a fsm_world_scheme \<Rightarrow> 'a fsm_world_scheme"
where
  "fsm_sconfreq cb i retransmit w =
     (let (cilen, w) = fsm_make_confreq cb (fsm_sconfreq_begin cb i retransmit w);
          w = fsm_sdata i CONFREQ (f_reqid (fsms w i)) In_Place cilen w;
          w = upd_fsm i (\<lambda>f. f\<lparr>f_retransmits := f_retransmits f - 1\<rparr>) w
      in ppptimeout FSM_TIMEOUT (ARG_FSM i) (f_timeouttime (fsms w i)) w)"

text \<open>
  \<^verbatim>\<open>fsm_sdata(f, TERMREQ, f->reqid = ++f->id, f->term_reason, f->term_reason_len)\<close>, then arm
  the timer and count the transmission: the tail shared by \<^verbatim>\<open>fsm_close\<close>, \<^verbatim>\<open>fsm_timeout\<close> and
  \<^verbatim>\<open>fsm_protreject\<close>.
\<close>

definition fsm_sterm :: "fsm_id \<Rightarrow> 'a fsm_world_scheme \<Rightarrow> 'a fsm_world_scheme" where
  "fsm_sterm i w =
     (let w = upd_fsm i (\<lambda>f. f\<lparr>f_id := f_id f + 1, f_reqid := f_id f + 1\<rparr>) w;
          w = fsm_sdata i TERMREQ (f_reqid (fsms w i))
                (Data (case f_term_reason (fsms w i) of None \<Rightarrow> [] | Some r \<Rightarrow> r))
                (f_term_reason_len (fsms w i)) w;
          w = ppptimeout FSM_TIMEOUT (ARG_FSM i) (f_timeouttime (fsms w i)) w
      in upd_fsm i (\<lambda>f. f\<lparr>f_retransmits := f_retransmits f - 1\<rparr>) w)"

definition fsm_lowerup ::
  "'a fsm_world_scheme fsm_callbacks \<Rightarrow> fsm_id \<Rightarrow> 'a fsm_world_scheme \<Rightarrow> 'a fsm_world_scheme" where
  "fsm_lowerup cb i w =
     (case state_of i w of
        INITIAL \<Rightarrow> set_state i CLOSED w
      | STARTING \<Rightarrow>
          if f_flags (fsms w i) AND OPT_SILENT \<noteq> 0 then set_state i STOPPED w
          else set_state i REQSENT (fsm_sconfreq cb i False w)
      | _ \<Rightarrow> w)"

definition fsm_lowerdown ::
  "'a fsm_world_scheme fsm_callbacks \<Rightarrow> fsm_id \<Rightarrow> 'a fsm_world_scheme \<Rightarrow> 'a fsm_world_scheme" where
  "fsm_lowerdown cb i w =
     (case state_of i w of
        CLOSED \<Rightarrow> set_state i INITIAL w
      | STOPPED \<Rightarrow> call_opt (cb_starting cb) (set_state i STARTING w)
      | CLOSING \<Rightarrow> pppuntimeout FSM_TIMEOUT (ARG_FSM i) (set_state i INITIAL w)
      | STOPPING \<Rightarrow> pppuntimeout FSM_TIMEOUT (ARG_FSM i) (set_state i STARTING w)
      | REQSENT \<Rightarrow> pppuntimeout FSM_TIMEOUT (ARG_FSM i) (set_state i STARTING w)
      | ACKRCVD \<Rightarrow> pppuntimeout FSM_TIMEOUT (ARG_FSM i) (set_state i STARTING w)
      | ACKSENT \<Rightarrow> pppuntimeout FSM_TIMEOUT (ARG_FSM i) (set_state i STARTING w)
      | OPENED \<Rightarrow> set_state i STARTING (call_opt (cb_down cb) w)
      | _ \<Rightarrow> w)"

definition fsm_open ::
  "'a fsm_world_scheme fsm_callbacks \<Rightarrow> fsm_id \<Rightarrow> 'a fsm_world_scheme \<Rightarrow> 'a fsm_world_scheme" where
  "fsm_open cb i w =
     (let restart = (\<lambda>w. if f_flags (fsms w i) AND OPT_RESTART \<noteq> 0
                         then fsm_lowerup cb i (fsm_lowerdown cb i w) else w)
      in case state_of i w of
        INITIAL \<Rightarrow> call_opt (cb_starting cb) (set_state i STARTING w)
      | CLOSED \<Rightarrow>
          if f_flags (fsms w i) AND OPT_SILENT \<noteq> 0 then set_state i STOPPED w
          else set_state i REQSENT (fsm_sconfreq cb i False w)
      | CLOSING \<Rightarrow> restart (set_state i STOPPING w)
      | STOPPED \<Rightarrow> restart w
      | OPENED \<Rightarrow> restart w
      | _ \<Rightarrow> w)"

definition fsm_close ::
  "'a fsm_world_scheme fsm_callbacks \<Rightarrow> fsm_id \<Rightarrow> bytes option \<Rightarrow> 'a fsm_world_scheme \<Rightarrow>
   'a fsm_world_scheme" where
  "fsm_close cb i reason w =
     (let w = upd_fsm i (\<lambda>f. f\<lparr>f_term_reason := reason,
                f_term_reason_len := (case reason of None \<Rightarrow> 0 | Some r \<Rightarrow> int (length r))\<rparr>) w;
          terminate = (\<lambda>w. set_state i CLOSING (fsm_sterm i
                (upd_fsm i (\<lambda>f. f\<lparr>f_retransmits := f_maxtermtransmits f\<rparr>) w)))
      in case state_of i w of
        STARTING \<Rightarrow> set_state i INITIAL w
      | STOPPED \<Rightarrow> set_state i CLOSED w
      | STOPPING \<Rightarrow> set_state i CLOSING w
      | REQSENT \<Rightarrow> terminate (pppuntimeout FSM_TIMEOUT (ARG_FSM i) w)
      | ACKRCVD \<Rightarrow> terminate (pppuntimeout FSM_TIMEOUT (ARG_FSM i) w)
      | ACKSENT \<Rightarrow> terminate (pppuntimeout FSM_TIMEOUT (ARG_FSM i) w)
      | OPENED \<Rightarrow> terminate (call_opt (cb_down cb) w)
      | _ \<Rightarrow> w)"

definition fsm_timeout ::
  "'a fsm_world_scheme fsm_callbacks \<Rightarrow> fsm_id \<Rightarrow> 'a fsm_world_scheme \<Rightarrow> 'a fsm_world_scheme" where
  "fsm_timeout cb i w =
     (let st = state_of i w in
      if st = CLOSING \<or> st = STOPPING then
        (if f_retransmits (fsms w i) \<le> 0
         then call_opt (cb_finished cb) (set_state i (if st = CLOSING then CLOSED else STOPPED) w)
         else fsm_sterm i w)
      else if st = REQSENT \<or> st = ACKRCVD \<or> st = ACKSENT then
        (if f_retransmits (fsms w i) \<le> 0
         then (let w = set_state i STOPPED w in
               if f_flags (fsms w i) AND OPT_PASSIVE = 0 then call_opt (cb_finished cb) w else w)
         else (let w = fsm_sconfreq cb i True (call_opt (cb_retransmit cb) w) in
               if state_of i w = ACKRCVD then set_state i REQSENT w else w))
      else w)"

subsection \<open>Received packets\<close>

text \<open>
  \<^verbatim>\<open>fsm_rconfreq\<close>, in its two halves: the first \<^verbatim>\<open>switch\<close> (\<open>False\<close> where it returns), then the
  check of the peer's options and the reply.
\<close>

definition fsm_rconfreq_enter ::
  "'a fsm_world_scheme fsm_callbacks \<Rightarrow> fsm_id \<Rightarrow> u8 \<Rightarrow> 'a fsm_world_scheme \<Rightarrow>
   'a fsm_world_scheme \<times> bool" where
  "fsm_rconfreq_enter cb i idn w =
     (case state_of i w of
        CLOSED \<Rightarrow> (fsm_sdata i TERMACK idn (Data []) 0 w, False)
      | CLOSING \<Rightarrow> (w, False)
      | STOPPING \<Rightarrow> (w, False)
      | OPENED \<Rightarrow> (fsm_sconfreq cb i False (call_opt (cb_down cb) w), True)
      | STOPPED \<Rightarrow> (set_state i REQSENT (fsm_sconfreq cb i False w), True)
      | _ \<Rightarrow> (w, True))"

definition fsm_rconfreq_reply ::
  "'a fsm_world_scheme fsm_callbacks \<Rightarrow> fsm_id \<Rightarrow> u8 \<Rightarrow> u8 \<Rightarrow> bytes \<Rightarrow> 'a fsm_world_scheme \<Rightarrow>
   'a fsm_world_scheme" where
  "fsm_rconfreq_reply cb i idn code inp w =
     (let w = fsm_sdata i code idn (Data inp) (int (length inp)) w in
      if code = CONFACK then
        (let w = (if state_of i w = ACKRCVD
                  then call_opt (cb_up cb)
                         (set_state i OPENED (pppuntimeout FSM_TIMEOUT (ARG_FSM i) w))
                  else set_state i ACKSENT w)
         in upd_fsm i (\<lambda>f. f\<lparr>f_nakloops := 0\<rparr>) w)
      else
        (let w = (if state_of i w \<noteq> ACKRCVD then set_state i REQSENT w else w)
         in if code = CONFNAK then upd_fsm i (\<lambda>f. f\<lparr>f_nakloops := f_nakloops f + 1\<rparr>) w else w))"

definition fsm_rconfreq ::
  "'a fsm_world_scheme fsm_callbacks \<Rightarrow> fsm_id \<Rightarrow> u8 \<Rightarrow> bytes \<Rightarrow> 'a fsm_world_scheme \<Rightarrow>
   'a fsm_world_scheme" where
  "fsm_rconfreq cb i idn inp w =
     (let (w, go_on) = fsm_rconfreq_enter cb i idn w in
      if \<not> go_on then w
      else (let (code, inp, w) =
              (case cb_reqci cb of
                 Some reqci \<Rightarrow> reqci inp (f_nakloops (fsms w i) \<ge> f_maxnakloops (fsms w i)) w
               | None \<Rightarrow> (if inp \<noteq> [] then CONFREJ else CONFACK, inp, w))
            in fsm_rconfreq_reply cb i idn code inp w))"

definition fsm_rconfack ::
  "'a fsm_world_scheme fsm_callbacks \<Rightarrow> fsm_id \<Rightarrow> u8 \<Rightarrow> bytes \<Rightarrow> 'a fsm_world_scheme \<Rightarrow>
   'a fsm_world_scheme" where
  "fsm_rconfack cb i idn inp w =
     (if idn \<noteq> f_reqid (fsms w i) \<or> f_seen_ack (fsms w i) then w
      else
        (let (ok, w) = (case cb_ackci cb of Some ackci \<Rightarrow> ackci inp w | None \<Rightarrow> (inp = [], w)) in
         if \<not> ok then w
         else
           (let w = upd_fsm i (\<lambda>f. f\<lparr>f_seen_ack := True\<rparr>) w;
                irc = upd_fsm i (\<lambda>f. f\<lparr>f_retransmits := f_maxconfreqtransmits f\<rparr>)
            in case state_of i w of
              CLOSED \<Rightarrow> fsm_sdata i TERMACK idn (Data []) 0 w
            | STOPPED \<Rightarrow> fsm_sdata i TERMACK idn (Data []) 0 w
            | REQSENT \<Rightarrow> irc (set_state i ACKRCVD w)
            | ACKRCVD \<Rightarrow>
                set_state i REQSENT (fsm_sconfreq cb i False (pppuntimeout FSM_TIMEOUT (ARG_FSM i) w))
            | ACKSENT \<Rightarrow>
                call_opt (cb_up cb) (irc (set_state i OPENED (pppuntimeout FSM_TIMEOUT (ARG_FSM i) w)))
            | OPENED \<Rightarrow>
                set_state i REQSENT (fsm_sconfreq cb i False (call_opt (cb_down cb) w))
            | _ \<Rightarrow> w)))"

definition fsm_rconfnakrej ::
  "'a fsm_world_scheme fsm_callbacks \<Rightarrow> fsm_id \<Rightarrow> u8 \<Rightarrow> u8 \<Rightarrow> bytes \<Rightarrow> 'a fsm_world_scheme \<Rightarrow>
   'a fsm_world_scheme" where
  "fsm_rconfnakrej cb i code idn inp w =
     (if idn \<noteq> f_reqid (fsms w i) \<or> f_seen_ack (fsms w i) then w
      else
        (case (if code = CONFNAK then cb_nakci cb else cb_rejci cb) of
           None \<Rightarrow> w
         | Some proc \<Rightarrow>
             (let (ret, w) = proc inp w in
              if ret = 0 then w
              else
                (let w = upd_fsm i (\<lambda>f. f\<lparr>f_seen_ack := True\<rparr>) w;
                     again = (\<lambda>w. if ret < 0 then set_state i STOPPED w
                                  else fsm_sconfreq cb i False w)
                 in case state_of i w of
                   CLOSED \<Rightarrow> fsm_sdata i TERMACK idn (Data []) 0 w
                 | STOPPED \<Rightarrow> fsm_sdata i TERMACK idn (Data []) 0 w
                 | REQSENT \<Rightarrow> again (pppuntimeout FSM_TIMEOUT (ARG_FSM i) w)
                 | ACKSENT \<Rightarrow> again (pppuntimeout FSM_TIMEOUT (ARG_FSM i) w)
                 | ACKRCVD \<Rightarrow>
                     set_state i REQSENT
                       (fsm_sconfreq cb i False (pppuntimeout FSM_TIMEOUT (ARG_FSM i) w))
                 | OPENED \<Rightarrow>
                     set_state i REQSENT (fsm_sconfreq cb i False (call_opt (cb_down cb) w))
                 | _ \<Rightarrow> w))))"

definition fsm_rtermreq ::
  "'a fsm_world_scheme fsm_callbacks \<Rightarrow> fsm_id \<Rightarrow> u8 \<Rightarrow> bytes \<Rightarrow> 'a fsm_world_scheme \<Rightarrow>
   'a fsm_world_scheme" where
  "fsm_rtermreq cb i idn p w =
     (let w = (case state_of i w of
                 ACKRCVD \<Rightarrow> set_state i REQSENT w
               | ACKSENT \<Rightarrow> set_state i REQSENT w
               | OPENED \<Rightarrow>
                   (let w = call_opt (cb_down cb) w;
                        w = set_state i STOPPING (upd_fsm i (\<lambda>f. f\<lparr>f_retransmits := 0\<rparr>) w)
                    in ppptimeout FSM_TIMEOUT (ARG_FSM i) (f_timeouttime (fsms w i)) w)
               | _ \<Rightarrow> w)
      in fsm_sdata i TERMACK idn (Data []) 0 w)"

definition fsm_rtermack ::
  "'a fsm_world_scheme fsm_callbacks \<Rightarrow> fsm_id \<Rightarrow> 'a fsm_world_scheme \<Rightarrow> 'a fsm_world_scheme" where
  "fsm_rtermack cb i w =
     (case state_of i w of
        CLOSING \<Rightarrow> call_opt (cb_finished cb) (set_state i CLOSED (pppuntimeout FSM_TIMEOUT (ARG_FSM i) w))
      | STOPPING \<Rightarrow> call_opt (cb_finished cb) (set_state i STOPPED (pppuntimeout FSM_TIMEOUT (ARG_FSM i) w))
      | ACKRCVD \<Rightarrow> set_state i REQSENT w
      | OPENED \<Rightarrow> fsm_sconfreq cb i False (call_opt (cb_down cb) w)
      | _ \<Rightarrow> w)"

definition fsm_rcoderej :: "fsm_id \<Rightarrow> bytes \<Rightarrow> 'a fsm_world_scheme \<Rightarrow> 'a fsm_world_scheme" where
  "fsm_rcoderej i inp w =
     (if length inp < HEADERLEN then w
      else if state_of i w = ACKRCVD then set_state i REQSENT w else w)"

definition fsm_protreject ::
  "'a fsm_world_scheme fsm_callbacks \<Rightarrow> fsm_id \<Rightarrow> 'a fsm_world_scheme \<Rightarrow> 'a fsm_world_scheme" where
  "fsm_protreject cb i w =
     (let untimeout = pppuntimeout FSM_TIMEOUT (ARG_FSM i);
          closed = (\<lambda>w. call_opt (cb_finished cb) (set_state i CLOSED w));
          stopped = (\<lambda>w. call_opt (cb_finished cb) (set_state i STOPPED w))
      in case state_of i w of
        CLOSING \<Rightarrow> closed (untimeout w)
      | CLOSED \<Rightarrow> closed w
      | STOPPING \<Rightarrow> stopped (untimeout w)
      | REQSENT \<Rightarrow> stopped (untimeout w)
      | ACKRCVD \<Rightarrow> stopped (untimeout w)
      | ACKSENT \<Rightarrow> stopped (untimeout w)
      | STOPPED \<Rightarrow> stopped w
      | OPENED \<Rightarrow>
          set_state i STOPPING (fsm_sterm i
            (upd_fsm i (\<lambda>f. f\<lparr>f_retransmits := f_maxtermtransmits f\<rparr>) (call_opt (cb_down cb) w)))
      | _ \<Rightarrow> w)"

text \<open>\<^verbatim>\<open>fsm_input\<close>: the action for a packet whose header has been accepted, and the header check.\<close>

definition fsm_dispatch ::
  "'a fsm_world_scheme fsm_callbacks \<Rightarrow> fsm_id \<Rightarrow> bytes \<Rightarrow> u8 \<Rightarrow> u8 \<Rightarrow> bytes \<Rightarrow>
   'a fsm_world_scheme \<Rightarrow> 'a fsm_world_scheme" where
  "fsm_dispatch cb i inpacket code idn inp w =
     (if code = CONFREQ then fsm_rconfreq cb i idn inp w
      else if code = CONFACK then fsm_rconfack cb i idn inp w
      else if code = CONFNAK \<or> code = CONFREJ then fsm_rconfnakrej cb i code idn inp w
      else if code = TERMREQ then fsm_rtermreq cb i idn inp w
      else if code = TERMACK then fsm_rtermack cb i w
      else if code = CODEREJ then fsm_rcoderej i inp w
      else
        (let (handled, w) = (case cb_extcode cb of
                               None \<Rightarrow> (False, w)
                             | Some extcode \<Rightarrow> extcode code idn inp w)
         in if handled then w
            else (let w = upd_fsm i (\<lambda>f. f\<lparr>f_id := f_id f + 1\<rparr>) w
                  in fsm_sdata i CODEREJ (f_id (fsms w i)) (Data inpacket)
                       (int (length inp) + int HEADERLEN) w)))"

definition fsm_input ::
  "'a fsm_world_scheme fsm_callbacks \<Rightarrow> fsm_id \<Rightarrow> bytes \<Rightarrow> 'a fsm_world_scheme \<Rightarrow>
   'a fsm_world_scheme" where
  "fsm_input cb i inpacket w =
     (case inpacket of
        code # idn # h # l # rest \<Rightarrow>
          (let len = getshort h l in
           if len < int HEADERLEN then w
           else if len > int (length inpacket) then w
           else if state_of i w = INITIAL \<or> state_of i w = STARTING then w
           else fsm_dispatch cb i inpacket code idn (take (nat len - HEADERLEN) rest) w)
      | _ \<Rightarrow> w)"

section \<open>Frame facts\<close>

lemma fsm_world_frame [ppp_frame, simp]:
  "fsms (ppptimeout f a t w) = fsms w"
  "peer_mru (ppptimeout f a t w) = peer_mru w"
  "fsms (pppuntimeout f a w) = fsms w"
  "peer_mru (pppuntimeout f a w) = peer_mru w"
  "fsms (put_outpacket n bs w) = fsms w"
  "peer_mru (put_outpacket n bs w) = peer_mru w"
  "fsms (bcopy_outpacket n bs k w) = fsms w"
  "peer_mru (bcopy_outpacket n bs k w) = peer_mru w"
  "fsms (output_outpacket u k w) = fsms w"
  "peer_mru (output_outpacket u k w) = peer_mru w"
  "fsms (new_phase p w) = fsms w"
  "peer_mru (new_phase p w) = peer_mru w"
  by (simp_all add: ppptimeout_def gettimeofday_def pppuntimeout_def put_outpacket_def
      bcopy_outpacket_def output_outpacket_def new_phase_def)

lemma upd_fsm_frame [ppp_frame, simp]:
  "fsms (upd_fsm i g w) i = g (fsms w i)"
  "j \<noteq> i \<Longrightarrow> fsms (upd_fsm i g w) j = fsms w j"
  "callout (upd_fsm i g w) = callout w"
  "pending f a (upd_fsm i g w) = pending f a w"
  "outq (upd_fsm i g w) = outq w"
  "oob (upd_fsm i g w) = oob w"
  "outpacket_buf (upd_fsm i g w) = outpacket_buf w"
  "peer_mru (upd_fsm i g w) = peer_mru w"
  "w_clock (upd_fsm i g w) = w_clock w"
  "pppd_phase (upd_fsm i g w) = pppd_phase w"
  by (simp_all add: upd_fsm_def pending_def)

lemma fsm_sdata_frame [ppp_frame, simp]:
  "fsms (fsm_sdata i code idn d n w) = fsms w"
  "callout (fsm_sdata i code idn d n w) = callout w"
  "peer_mru (fsm_sdata i code idn d n w) = peer_mru w"
  "pppd_phase (fsm_sdata i code idn d n w) = pppd_phase w"
  "length (outpacket_buf (fsm_sdata i code idn d n w)) = length (outpacket_buf w)"
  by (simp_all add: fsm_sdata_def Let_def split: sdata.split)

lemma fsm_sdata_pending [ppp_frame, simp]:
  "pending f a (fsm_sdata i code idn d n w) = pending f a w"
  by (rule pending_cong) simp

lemma fsm_sterm_fsm:
  "fsms (fsm_sterm i w) i =
     (fsms w i)\<lparr>f_id := f_id (fsms w i) + 1, f_reqid := f_id (fsms w i) + 1,
                f_retransmits := f_retransmits (fsms w i) - 1\<rparr>"
  by (simp add: fsm_sterm_def Let_def)

lemma fsm_sterm_pending [simp]:
  "pending f a (fsm_sterm i w) =
     (if f = FSM_TIMEOUT \<and> a = ARG_FSM i then Suc (pending f a w) else pending f a w)"
  by (simp add: fsm_sterm_def Let_def)

end
