(* ===== verification/Lcp_Options.thy ===== *)
theory Lcp_Options
  imports Fsm "HOL-Library.Monad_Syntax"
begin

text \<open>
  The configuration options of LCP (\<^verbatim>\<open>lcp.c\<close>): how our options are encoded (\<^verbatim>\<open>lcp_cilen\<close>,
  \<^verbatim>\<open>lcp_addci\<close>), how an Ack, Nak or Reject of them is checked (\<^verbatim>\<open>lcp_ackci\<close>, \<^verbatim>\<open>lcp_nakci\<close>,
  \<^verbatim>\<open>lcp_rejci\<close>) and how the peer's request is judged (\<^verbatim>\<open>lcp_reqci\<close>), as functions on the
  option structures and the packet; \<^verbatim>\<open>Lcp\<close> makes them callbacks on the daemon's state. Each
  macro of the C code is one definition here. A packet pointer and length is a byte list, so
  that the test \<^verbatim>\<open>(len -= n) < 0\<close> is a failed pattern match; \<^verbatim>\<open>goto bad\<close> is \<open>None\<close>. The sources
  are built without \<^verbatim>\<open>CHAPMS\<close> and \<^verbatim>\<open>CBCP_SUPPORT\<close>.
\<close>

section \<open>Definitions\<close>

definition CI_MRU :: u8 where [ppp_consts]: "CI_MRU = 1"
definition CI_ASYNCMAP :: u8 where [ppp_consts]: "CI_ASYNCMAP = 2"
definition CI_AUTHTYPE :: u8 where [ppp_consts]: "CI_AUTHTYPE = 3"
definition CI_QUALITY :: u8 where [ppp_consts]: "CI_QUALITY = 4"
definition CI_MAGICNUMBER :: u8 where [ppp_consts]: "CI_MAGICNUMBER = 5"
definition CI_PCOMPRESSION :: u8 where [ppp_consts]: "CI_PCOMPRESSION = 7"
definition CI_ACCOMPRESSION :: u8 where [ppp_consts]: "CI_ACCOMPRESSION = 8"
definition CI_CALLBACK :: u8 where [ppp_consts]: "CI_CALLBACK = 13"
definition CBCP_OPT :: u8 where [ppp_consts]: "CBCP_OPT = 6"
definition CHAP_DIGEST_MD5 :: u8 where [ppp_consts]: "CHAP_DIGEST_MD5 = 5"

definition DEFMRU :: int where [ppp_consts]: "DEFMRU = 1500"
definition MINMRU :: int where [ppp_consts]: "MINMRU = 128"
definition MAXMRU :: int where [ppp_consts]: "MAXMRU = 16384"

record lcp_options =
  opt_passive :: bool
  opt_silent :: bool
  opt_restart :: bool
  neg_mru :: bool
  neg_asyncmap :: bool
  neg_upap :: bool
  neg_chap :: bool
  neg_magicnumber :: bool
  neg_pcompression :: bool
  neg_accompression :: bool
  neg_lqr :: bool
  neg_cbcp :: bool
  mru :: int
  chap_mdtype :: u8
  asyncmap :: u32
  magicnumber :: u32
  numloops :: int
  lqr_period :: u32

text \<open>\<^verbatim>\<open>BZERO\<close> of an option structure.\<close>

definition lcp_zero :: lcp_options where
  "lcp_zero = \<lparr>opt_passive = False, opt_silent = False, opt_restart = False, neg_mru = False,
     neg_asyncmap = False, neg_upap = False, neg_chap = False, neg_magicnumber = False,
     neg_pcompression = False, neg_accompression = False, neg_lqr = False, neg_cbcp = False,
     mru = 0, chap_mdtype = 0, asyncmap = 0, magicnumber = 0, numloops = 0, lqr_period = 0\<rparr>"

subsection \<open>Our request\<close>

definition lcp_cilen :: "lcp_options \<Rightarrow> int" where
  "lcp_cilen go =
     (if neg_mru go \<and> mru go \<noteq> DEFMRU then 4 else 0) +
     (if neg_asyncmap go \<and> asyncmap go \<noteq> 0xFFFFFFFF then 6 else 0) +
     (if neg_chap go then 5 else 0) +
     (if \<not> neg_chap go \<and> neg_upap go then 4 else 0) +
     (if neg_lqr go then 8 else 0) +
     (if neg_cbcp go then 3 else 0) +
     (if neg_magicnumber go then 6 else 0) +
     (if neg_pcompression go then 2 else 0) +
     (if neg_accompression go then 2 else 0)"

definition addcivoid :: "u8 \<Rightarrow> bool \<Rightarrow> bytes" where
  "addcivoid opt neg = (if neg then [opt, 2] else [])"

definition addcishort :: "u8 \<Rightarrow> bool \<Rightarrow> int \<Rightarrow> bytes" where
  "addcishort opt neg val = (if neg then [opt, 4] @ putshort val else [])"

definition addcichap :: "u8 \<Rightarrow> bool \<Rightarrow> int \<Rightarrow> u8 \<Rightarrow> bytes" where
  "addcichap opt neg val digest = (if neg then [opt, 5] @ putshort val @ [digest] else [])"

definition addcilong :: "u8 \<Rightarrow> bool \<Rightarrow> u32 \<Rightarrow> bytes" where
  "addcilong opt neg val = (if neg then [opt, 6] @ putlong val else [])"

definition addcilqr :: "u8 \<Rightarrow> bool \<Rightarrow> u32 \<Rightarrow> bytes" where
  "addcilqr opt neg val = (if neg then [opt, 8] @ putshort PPP_LQR @ putlong val else [])"

definition addcichar :: "u8 \<Rightarrow> bool \<Rightarrow> u8 \<Rightarrow> bytes" where
  "addcichar opt neg val = (if neg then [opt, 3, val] else [])"

definition lcp_addci :: "lcp_options \<Rightarrow> bytes" where
  "lcp_addci go =
     addcishort CI_MRU (neg_mru go \<and> mru go \<noteq> DEFMRU) (mru go) @
     addcilong CI_ASYNCMAP (neg_asyncmap go \<and> asyncmap go \<noteq> 0xFFFFFFFF) (asyncmap go) @
     addcichap CI_AUTHTYPE (neg_chap go) PPP_CHAP (chap_mdtype go) @
     addcishort CI_AUTHTYPE (\<not> neg_chap go \<and> neg_upap go) PPP_PAP @
     addcilqr CI_QUALITY (neg_lqr go) (lqr_period go) @
     addcichar CI_CALLBACK (neg_cbcp go) CBCP_OPT @
     addcilong CI_MAGICNUMBER (neg_magicnumber go) (magicnumber go) @
     addcivoid CI_PCOMPRESSION (neg_pcompression go) @
     addcivoid CI_ACCOMPRESSION (neg_accompression go)"

subsection \<open>The peer's Ack\<close>

definition ackcivoid :: "u8 \<Rightarrow> bool \<Rightarrow> bytes \<Rightarrow> bytes option" where
  "ackcivoid opt neg p =
     (if neg then
        (case p of citype # cilen # rest \<Rightarrow>
           if cilen \<noteq> 2 \<or> citype \<noteq> opt then None else Some rest
         | _ \<Rightarrow> None)
      else Some p)"

definition ackcishort :: "u8 \<Rightarrow> bool \<Rightarrow> int \<Rightarrow> bytes \<Rightarrow> bytes option" where
  "ackcishort opt neg val p =
     (if neg then
        (case p of citype # cilen # a # b # rest \<Rightarrow>
           if cilen \<noteq> 4 \<or> citype \<noteq> opt then None
           else if getshort a b \<noteq> val then None else Some rest
         | _ \<Rightarrow> None)
      else Some p)"

definition ackcichar :: "u8 \<Rightarrow> bool \<Rightarrow> u8 \<Rightarrow> bytes \<Rightarrow> bytes option" where
  "ackcichar opt neg val p =
     (if neg then
        (case p of citype # cilen # cichar # rest \<Rightarrow>
           if cilen \<noteq> 3 \<or> citype \<noteq> opt then None
           else if cichar \<noteq> val then None else Some rest
         | _ \<Rightarrow> None)
      else Some p)"

definition ackcichap :: "u8 \<Rightarrow> bool \<Rightarrow> int \<Rightarrow> u8 \<Rightarrow> bytes \<Rightarrow> bytes option" where
  "ackcichap opt neg val digest p =
     (if neg then
        (case p of citype # cilen # a # b # cichar # rest \<Rightarrow>
           if cilen \<noteq> 5 \<or> citype \<noteq> opt then None
           else if getshort a b \<noteq> val then None
           else if cichar \<noteq> digest then None else Some rest
         | _ \<Rightarrow> None)
      else Some p)"

definition ackcilong :: "u8 \<Rightarrow> bool \<Rightarrow> u32 \<Rightarrow> bytes \<Rightarrow> bytes option" where
  "ackcilong opt neg val p =
     (if neg then
        (case p of citype # cilen # a # b # c # d # rest \<Rightarrow>
           if cilen \<noteq> 6 \<or> citype \<noteq> opt then None
           else if getlong a b c d \<noteq> val then None else Some rest
         | _ \<Rightarrow> None)
      else Some p)"

definition ackcilqr :: "u8 \<Rightarrow> bool \<Rightarrow> u32 \<Rightarrow> bytes \<Rightarrow> bytes option" where
  "ackcilqr opt neg val p =
     (if neg then
        (case p of citype # cilen # e # f # a # b # c # d # rest \<Rightarrow>
           if cilen \<noteq> 8 \<or> citype \<noteq> opt then None
           else if getshort e f \<noteq> PPP_LQR then None
           else if getlong a b c d \<noteq> val then None else Some rest
         | _ \<Rightarrow> None)
      else Some p)"

definition lcp_ackci :: "lcp_options \<Rightarrow> bytes \<Rightarrow> bool" where
  "lcp_ackci go p =
     (case do {
        p \<leftarrow> ackcishort CI_MRU (neg_mru go \<and> mru go \<noteq> DEFMRU) (mru go) p;
        p \<leftarrow> ackcilong CI_ASYNCMAP (neg_asyncmap go \<and> asyncmap go \<noteq> 0xFFFFFFFF) (asyncmap go) p;
        p \<leftarrow> ackcichap CI_AUTHTYPE (neg_chap go) PPP_CHAP (chap_mdtype go) p;
        p \<leftarrow> ackcishort CI_AUTHTYPE (\<not> neg_chap go \<and> neg_upap go) PPP_PAP p;
        p \<leftarrow> ackcilqr CI_QUALITY (neg_lqr go) (lqr_period go) p;
        p \<leftarrow> ackcichar CI_CALLBACK (neg_cbcp go) CBCP_OPT p;
        p \<leftarrow> ackcilong CI_MAGICNUMBER (neg_magicnumber go) (magicnumber go) p;
        p \<leftarrow> ackcivoid CI_PCOMPRESSION (neg_pcompression go) p;
        ackcivoid CI_ACCOMPRESSION (neg_accompression go) p
      } of
        None \<Rightarrow> False
      | Some p \<Rightarrow> p = [])"

subsection \<open>The peer's Nak\<close>

text \<open>
  The \<^verbatim>\<open>NAKCI\<close> macros: \<open>None\<close> when the next option is not the one looked for, otherwise its
  value and the rest of the packet.
\<close>

definition nakcivoid :: "u8 \<Rightarrow> bool \<Rightarrow> bytes \<Rightarrow> bytes option" where
  "nakcivoid opt neg p =
     (case p of citype # cilen # rest \<Rightarrow>
        if neg \<and> cilen = 2 \<and> citype = opt then Some rest else None
      | _ \<Rightarrow> None)"

definition nakcichar :: "u8 \<Rightarrow> bool \<Rightarrow> bytes \<Rightarrow> (u8 \<times> bytes) option" where
  "nakcichar opt neg p =
     (case p of citype # cilen # c # rest \<Rightarrow>
        if neg \<and> cilen = 3 \<and> citype = opt then Some (c, rest) else None
      | _ \<Rightarrow> None)"

definition nakcishort :: "u8 \<Rightarrow> bool \<Rightarrow> bytes \<Rightarrow> (int \<times> bytes) option" where
  "nakcishort opt neg p =
     (case p of citype # cilen # a # b # rest \<Rightarrow>
        if neg \<and> cilen = 4 \<and> citype = opt then Some (getshort a b, rest) else None
      | _ \<Rightarrow> None)"

definition nakcilong :: "u8 \<Rightarrow> bool \<Rightarrow> bytes \<Rightarrow> (u32 \<times> bytes) option" where
  "nakcilong opt neg p =
     (case p of citype # cilen # a # b # c # d # rest \<Rightarrow>
        if neg \<and> cilen = 6 \<and> citype = opt then Some (getlong a b c d, rest) else None
      | _ \<Rightarrow> None)"

definition nakcilqr :: "u8 \<Rightarrow> bool \<Rightarrow> bytes \<Rightarrow> (int \<times> u32 \<times> bytes) option" where
  "nakcilqr opt neg p =
     (case p of citype # cilen # e # f # a # b # c # d # rest \<Rightarrow>
        if neg \<and> cilen = 8 \<and> citype = opt then Some (getshort e f, getlong a b c d, rest) else None
      | _ \<Rightarrow> None)"

text \<open>
  The steps of \<^verbatim>\<open>lcp_nakci\<close> on the rest of the packet, the options seen (\<open>no\<close>) and the options
  to try next (\<open>tr\<close>, \<^verbatim>\<open>try\<close> in the source).
\<close>

type_synonym nak_state = "bytes \<times> lcp_options \<times> lcp_options"

definition lcp_nak_mru :: "lcp_options \<Rightarrow> lcp_options \<Rightarrow> nak_state \<Rightarrow> nak_state" where
  "lcp_nak_mru go wo = (\<lambda>(p, no, tr).
     if neg_mru go \<and> mru go \<noteq> DEFMRU then
       (case nakcishort CI_MRU (neg_mru go) p of
          None \<Rightarrow> (p, no, tr)
        | Some (cishort, p) \<Rightarrow> (p, no\<lparr>neg_mru := True\<rparr>,
            if cishort \<le> mru wo \<or> cishort \<le> DEFMRU then tr\<lparr>mru := cishort\<rparr> else tr))
     else (p, no, tr))"

definition lcp_nak_asyncmap :: "lcp_options \<Rightarrow> nak_state \<Rightarrow> nak_state" where
  "lcp_nak_asyncmap go = (\<lambda>(p, no, tr).
     if neg_asyncmap go \<and> asyncmap go \<noteq> 0xFFFFFFFF then
       (case nakcilong CI_ASYNCMAP (neg_asyncmap go) p of
          None \<Rightarrow> (p, no, tr)
        | Some (cilong, p) \<Rightarrow>
            (p, no\<lparr>neg_asyncmap := True\<rparr>, tr\<lparr>asyncmap := asyncmap go OR cilong\<rparr>))
     else (p, no, tr))"

definition lcp_nak_auth :: "lcp_options \<Rightarrow> nak_state \<Rightarrow> nak_state option" where
  "lcp_nak_auth go = (\<lambda>(p, no, tr).
     case p of
       t # l # a # b # rest \<Rightarrow>
         if (neg_chap go \<or> neg_upap go) \<and> t = CI_AUTHTYPE \<and> unat l \<ge> 4 \<and> unat l \<le> length p then
           (let cilen = unat l;
                no = no\<lparr>neg_chap := neg_chap go, neg_upap := neg_upap go\<rparr>;
                cishort = getshort a b;
                nxt = drop cilen p
            in if cishort = PPP_PAP \<and> cilen = 4 then
                 (if \<not> neg_chap go then None else Some (nxt, no, tr\<lparr>neg_chap := False\<rparr>))
               else if cishort = PPP_CHAP \<and> cilen = 5 then
                 (if neg_chap go then
                    Some (nxt, no, if hd rest \<noteq> chap_mdtype go then tr\<lparr>neg_chap := False\<rparr> else tr)
                  else Some (nxt, no, tr\<lparr>neg_upap := False\<rparr>))
               else
                 Some (nxt, no, if neg_chap go then tr\<lparr>neg_chap := False\<rparr>
                                 else tr\<lparr>neg_upap := False\<rparr>))
         else Some (p, no, tr)
     | _ \<Rightarrow> Some (p, no, tr))"

definition lcp_nak_lqr :: "lcp_options \<Rightarrow> nak_state \<Rightarrow> nak_state" where
  "lcp_nak_lqr go = (\<lambda>(p, no, tr).
     case nakcilqr CI_QUALITY (neg_lqr go) p of
       None \<Rightarrow> (p, no, tr)
     | Some (cishort, cilong, p) \<Rightarrow> (p, no\<lparr>neg_lqr := True\<rparr>,
         if cishort \<noteq> PPP_LQR then tr\<lparr>neg_lqr := False\<rparr> else tr\<lparr>lqr_period := cilong\<rparr>))"

definition lcp_nak_cbcp :: "lcp_options \<Rightarrow> nak_state \<Rightarrow> nak_state" where
  "lcp_nak_cbcp go = (\<lambda>(p, no, tr).
     case nakcichar CI_CALLBACK (neg_cbcp go) p of
       None \<Rightarrow> (p, no, tr)
     | Some (_, p) \<Rightarrow> (p, no\<lparr>neg_cbcp := True\<rparr>, tr\<lparr>neg_cbcp := False\<rparr>))"

text \<open>\<open>mg\<close> is the number that \<^verbatim>\<open>magic()\<close> gives if it is called; the flag is \<^verbatim>\<open>looped_back\<close>.\<close>

definition lcp_nak_magic :: "lcp_options \<Rightarrow> u32 \<Rightarrow> nak_state \<Rightarrow> nak_state \<times> bool" where
  "lcp_nak_magic go mg = (\<lambda>(p, no, tr).
     case nakcilong CI_MAGICNUMBER (neg_magicnumber go) p of
       None \<Rightarrow> ((p, no, tr), False)
     | Some (_, p) \<Rightarrow> ((p, no\<lparr>neg_magicnumber := True\<rparr>, tr\<lparr>magicnumber := mg\<rparr>), True))"

definition lcp_nak_comp :: "lcp_options \<Rightarrow> nak_state \<Rightarrow> nak_state" where
  "lcp_nak_comp go = (\<lambda>(p, no, tr).
     let (p, no, tr) =
           (case nakcivoid CI_PCOMPRESSION (neg_pcompression go) p of
              None \<Rightarrow> (p, no, tr)
            | Some p \<Rightarrow> (p, no\<lparr>neg_pcompression := True\<rparr>, tr\<lparr>neg_pcompression := False\<rparr>))
     in (case nakcivoid CI_ACCOMPRESSION (neg_accompression go) p of
           None \<Rightarrow> (p, no, tr)
         | Some p \<Rightarrow> (p, no\<lparr>neg_accompression := True\<rparr>, tr\<lparr>neg_accompression := False\<rparr>)))"

definition lcp_nak_known ::
  "lcp_options \<Rightarrow> lcp_options \<Rightarrow> u32 \<Rightarrow> bytes \<Rightarrow> (nak_state \<times> bool) option" where
  "lcp_nak_known go wo mg p =
     (case lcp_nak_auth go (lcp_nak_asyncmap go (lcp_nak_mru go wo (p, lcp_zero, go))) of
        None \<Rightarrow> None
      | Some s \<Rightarrow>
          (let (s, looped_back) = lcp_nak_magic go mg (lcp_nak_cbcp go (lcp_nak_lqr go s))
           in Some (lcp_nak_comp go s, looped_back)))"

text \<open>The loop over the remaining options, which we did not ask for.\<close>

definition lcp_nak_extra ::
  "lcp_options \<Rightarrow> lcp_options \<Rightarrow> u8 \<Rightarrow> nat \<Rightarrow> bytes \<Rightarrow> lcp_options \<Rightarrow> lcp_options option" where
  "lcp_nak_extra go no citype cilen body tr =
     (if citype = CI_MRU then
        (if (neg_mru go \<and> mru go \<noteq> DEFMRU) \<or> neg_mru no \<or> cilen \<noteq> 4 then None
         else (let cishort = getshort (body ! 0) (body ! 1)
               in Some (if cishort < DEFMRU then tr\<lparr>mru := cishort\<rparr> else tr)))
      else if citype = CI_ASYNCMAP then
        (if (neg_asyncmap go \<and> asyncmap go \<noteq> 0xFFFFFFFF) \<or> neg_asyncmap no \<or> cilen \<noteq> 6
         then None else Some tr)
      else if citype = CI_AUTHTYPE then
        (if neg_chap go \<or> neg_chap no \<or> neg_upap go \<or> neg_upap no then None else Some tr)
      else if citype = CI_MAGICNUMBER then
        (if neg_magicnumber go \<or> neg_magicnumber no \<or> cilen \<noteq> 6 then None else Some tr)
      else if citype = CI_PCOMPRESSION then
        (if neg_pcompression go \<or> neg_pcompression no \<or> cilen \<noteq> 2 then None else Some tr)
      else if citype = CI_ACCOMPRESSION then
        (if neg_accompression go \<or> neg_accompression no \<or> cilen \<noteq> 2 then None else Some tr)
      else if citype = CI_QUALITY then
        (if neg_lqr go \<or> neg_lqr no \<or> cilen \<noteq> 8 then None else Some tr)
      else Some tr)"

function lcp_nak_rest ::
  "lcp_options \<Rightarrow> lcp_options \<Rightarrow> lcp_options \<Rightarrow> bytes \<Rightarrow> lcp_options option" where
  "lcp_nak_rest go no tr p =
     (if length p \<le> 2 then Some tr
      else
        (let citype = p ! 0; cilen = unat (p ! 1) in
         if cilen < 2 \<or> cilen > length p then None
         else (case lcp_nak_extra go no citype cilen (drop 2 p) tr of
                 None \<Rightarrow> None
               | Some tr \<Rightarrow> lcp_nak_rest go no tr (drop cilen p))))"
  by pat_completeness auto
termination
  by (relation "measure (\<lambda>(go, no, tr, p). length p)") auto

declare lcp_nak_rest.simps [simp del]

subsection \<open>The peer's Reject\<close>

text \<open>
  The \<^verbatim>\<open>REJCI\<close> macros on the options to try (\<^verbatim>\<open>try\<close>) and the rest of the packet: \<open>None\<close> is
  \<^verbatim>\<open>goto bad\<close>, and \<open>clr\<close> the assignment \<^verbatim>\<open>try.neg = 0\<close> to the option's flag.
\<close>

type_synonym rej_state = "lcp_options \<times> bytes"

definition rejcivoid ::
  "u8 \<Rightarrow> bool \<Rightarrow> (lcp_options \<Rightarrow> lcp_options) \<Rightarrow> rej_state \<Rightarrow> rej_state option" where
  "rejcivoid opt neg clr = (\<lambda>(tr, p).
     case p of citype # cilen # rest \<Rightarrow>
        if neg \<and> cilen = 2 \<and> citype = opt then Some (clr tr, rest) else Some (tr, p)
      | _ \<Rightarrow> Some (tr, p))"

definition rejcishort ::
  "u8 \<Rightarrow> bool \<Rightarrow> int \<Rightarrow> (lcp_options \<Rightarrow> lcp_options) \<Rightarrow> rej_state \<Rightarrow> rej_state option" where
  "rejcishort opt neg val clr = (\<lambda>(tr, p).
     case p of citype # cilen # a # b # rest \<Rightarrow>
        if neg \<and> cilen = 4 \<and> citype = opt
        then (if getshort a b \<noteq> val then None else Some (clr tr, rest)) else Some (tr, p)
      | _ \<Rightarrow> Some (tr, p))"

definition rejcichap ::
  "u8 \<Rightarrow> bool \<Rightarrow> int \<Rightarrow> u8 \<Rightarrow> (lcp_options \<Rightarrow> lcp_options) \<Rightarrow> rej_state \<Rightarrow> rej_state option" where
  "rejcichap opt neg val digest clr = (\<lambda>(tr, p).
     case p of citype # cilen # a # b # c # rest \<Rightarrow>
        if neg \<and> cilen = 5 \<and> citype = opt
        then (if getshort a b \<noteq> val \<or> c \<noteq> digest then None else Some (clr tr, rest))
        else Some (tr, p)
      | _ \<Rightarrow> Some (tr, p))"

definition rejcilong ::
  "u8 \<Rightarrow> bool \<Rightarrow> u32 \<Rightarrow> (lcp_options \<Rightarrow> lcp_options) \<Rightarrow> rej_state \<Rightarrow> rej_state option" where
  "rejcilong opt neg val clr = (\<lambda>(tr, p).
     case p of citype # cilen # a # b # c # d # rest \<Rightarrow>
        if neg \<and> cilen = 6 \<and> citype = opt
        then (if getlong a b c d \<noteq> val then None else Some (clr tr, rest)) else Some (tr, p)
      | _ \<Rightarrow> Some (tr, p))"

definition rejcilqr ::
  "u8 \<Rightarrow> bool \<Rightarrow> u32 \<Rightarrow> (lcp_options \<Rightarrow> lcp_options) \<Rightarrow> rej_state \<Rightarrow> rej_state option" where
  "rejcilqr opt neg val clr = (\<lambda>(tr, p).
     case p of citype # cilen # e # f # a # b # c # d # rest \<Rightarrow>
        if neg \<and> cilen = 8 \<and> citype = opt
        then (if getshort e f \<noteq> PPP_LQR \<or> getlong a b c d \<noteq> val then None else Some (clr tr, rest))
        else Some (tr, p)
      | _ \<Rightarrow> Some (tr, p))"

definition rejcicbcp ::
  "u8 \<Rightarrow> bool \<Rightarrow> u8 \<Rightarrow> (lcp_options \<Rightarrow> lcp_options) \<Rightarrow> rej_state \<Rightarrow> rej_state option" where
  "rejcicbcp opt neg val clr = (\<lambda>(tr, p).
     case p of citype # cilen # c # rest \<Rightarrow>
        if neg \<and> cilen = 3 \<and> citype = opt
        then (if c \<noteq> val then None else Some (clr tr, rest)) else Some (tr, p)
      | _ \<Rightarrow> Some (tr, p))"

text \<open>The options to try after a Reject, \<open>None\<close> when it is bad.\<close>

definition lcp_rej_try :: "lcp_options \<Rightarrow> bytes \<Rightarrow> lcp_options option" where
  "lcp_rej_try go p = do {
     s \<leftarrow> rejcishort CI_MRU (neg_mru go) (mru go) (\<lambda>tr. tr\<lparr>neg_mru := False\<rparr>) (go, p);
     s \<leftarrow> rejcilong CI_ASYNCMAP (neg_asyncmap go) (asyncmap go) (\<lambda>tr. tr\<lparr>neg_asyncmap := False\<rparr>) s;
     s \<leftarrow> rejcichap CI_AUTHTYPE (neg_chap go) PPP_CHAP (chap_mdtype go)
            (\<lambda>tr. tr\<lparr>neg_chap := False, neg_upap := False\<rparr>) s;
     s \<leftarrow> (if \<not> neg_chap go
           then rejcishort CI_AUTHTYPE (neg_upap go) PPP_PAP (\<lambda>tr. tr\<lparr>neg_upap := False\<rparr>) s
           else Some s);
     s \<leftarrow> rejcilqr CI_QUALITY (neg_lqr go) (lqr_period go) (\<lambda>tr. tr\<lparr>neg_lqr := False\<rparr>) s;
     s \<leftarrow> rejcicbcp CI_CALLBACK (neg_cbcp go) CBCP_OPT (\<lambda>tr. tr\<lparr>neg_cbcp := False\<rparr>) s;
     s \<leftarrow> rejcilong CI_MAGICNUMBER (neg_magicnumber go) (magicnumber go)
            (\<lambda>tr. tr\<lparr>neg_magicnumber := False\<rparr>) s;
     s \<leftarrow> rejcivoid CI_PCOMPRESSION (neg_pcompression go) (\<lambda>tr. tr\<lparr>neg_pcompression := False\<rparr>) s;
     (tr, p) \<leftarrow> rejcivoid CI_ACCOMPRESSION (neg_accompression go)
            (\<lambda>tr. tr\<lparr>neg_accompression := False\<rparr>) s;
     if p \<noteq> [] then None else Some tr
   }"

subsection \<open>The peer's request\<close>

text \<open>
  The \<^verbatim>\<open>switch\<close> of \<^verbatim>\<open>lcp_reqci\<close> on one option with a well-formed header: the verdict, the
  peer's options so far, the bytes put into the Nak buffer, and whether \<^verbatim>\<open>magic()\<close> was called.
\<close>

datatype verdict = Ack | Nak | Rej

type_synonym ci_result = "verdict \<times> lcp_options \<times> bytes \<times> bool"

definition lcp_req_mru :: "lcp_options \<Rightarrow> lcp_options \<Rightarrow> bytes \<Rightarrow> ci_result" where
  "lcp_req_mru ao ho body =
     (case body of
        [a, b] \<Rightarrow>
          if \<not> neg_mru ao then (Rej, ho, [], False)
          else (let cishort = getshort a b in
                if cishort < MINMRU then (Nak, ho, [CI_MRU, 4] @ putshort MINMRU, False)
                else (Ack, ho\<lparr>neg_mru := True, mru := cishort\<rparr>, [], False))
      | _ \<Rightarrow> (Rej, ho, [], False))"

definition lcp_req_asyncmap :: "lcp_options \<Rightarrow> lcp_options \<Rightarrow> bytes \<Rightarrow> ci_result" where
  "lcp_req_asyncmap ao ho body =
     (case body of
        [a, b, c, d] \<Rightarrow>
          if \<not> neg_asyncmap ao then (Rej, ho, [], False)
          else (let cilong = getlong a b c d in
                if asyncmap ao AND NOT cilong \<noteq> 0
                then (Nak, ho, [CI_ASYNCMAP, 6] @ putlong (asyncmap ao OR cilong), False)
                else (Ack, ho\<lparr>neg_asyncmap := True, asyncmap := cilong\<rparr>, [], False))
      | _ \<Rightarrow> (Rej, ho, [], False))"

definition nak_chap :: "lcp_options \<Rightarrow> bytes" where
  "nak_chap ao = [CI_AUTHTYPE, 5] @ putshort PPP_CHAP @ [chap_mdtype ao]"

definition nak_pap :: bytes where
  "nak_pap = [CI_AUTHTYPE, 4] @ putshort PPP_PAP"

definition lcp_req_auth :: "lcp_options \<Rightarrow> lcp_options \<Rightarrow> bytes \<Rightarrow> ci_result" where
  "lcp_req_auth ao ho body =
     (case body of
        a # b # rest \<Rightarrow>
          if \<not> (neg_upap ao \<or> neg_chap ao) then (Rej, ho, [], False)
          else if getshort a b = PPP_PAP then
            (if neg_chap ho \<or> rest \<noteq> [] then (Rej, ho, [], False)
             else if \<not> neg_upap ao then (Nak, ho, nak_chap ao, False)
             else (Ack, ho\<lparr>neg_upap := True\<rparr>, [], False))
          else if getshort a b = PPP_CHAP then
            (if neg_upap ho \<or> length rest \<noteq> 1 then (Rej, ho, [], False)
             else if \<not> neg_chap ao then (Nak, ho, nak_pap, False)
             else if hd rest \<noteq> CHAP_DIGEST_MD5 then (Nak, ho, nak_chap ao, False)
             else (Ack, ho\<lparr>chap_mdtype := hd rest, neg_chap := True\<rparr>, [], False))
          else (Nak, ho, if neg_chap ao then nak_chap ao else nak_pap, False)
      | _ \<Rightarrow> (Rej, ho, [], False))"

definition lcp_req_lqr :: "lcp_options \<Rightarrow> lcp_options \<Rightarrow> bytes \<Rightarrow> ci_result" where
  "lcp_req_lqr ao ho body =
     (case body of
        [e, f, a, b, c, d] \<Rightarrow>
          if \<not> neg_lqr ao then (Rej, ho, [], False)
          else if getshort e f \<noteq> PPP_LQR
          then (Nak, ho, [CI_QUALITY, 8] @ putshort PPP_LQR @ putlong (lqr_period ao), False)
          else (Ack, ho, [], False)
      | _ \<Rightarrow> (Rej, ho, [], False))"

definition lcp_req_magic ::
  "lcp_options \<Rightarrow> lcp_options \<Rightarrow> lcp_options \<Rightarrow> u32 \<Rightarrow> bytes \<Rightarrow> ci_result" where
  "lcp_req_magic go ao ho mg body =
     (case body of
        [a, b, c, d] \<Rightarrow>
          if \<not> (neg_magicnumber ao \<or> neg_magicnumber go) then (Rej, ho, [], False)
          else (let cilong = getlong a b c d in
                if neg_magicnumber go \<and> cilong = magicnumber go
                then (Nak, ho, [CI_MAGICNUMBER, 6] @ putlong mg, True)
                else (Ack, ho\<lparr>neg_magicnumber := True, magicnumber := cilong\<rparr>, [], False))
      | _ \<Rightarrow> (Rej, ho, [], False))"

definition lcp_req_ci ::
  "lcp_options \<Rightarrow> lcp_options \<Rightarrow> lcp_options \<Rightarrow> u32 \<Rightarrow> u8 \<Rightarrow> bytes \<Rightarrow> ci_result" where
  "lcp_req_ci go ao ho mg citype body =
     (if citype = CI_MRU then lcp_req_mru ao ho body
      else if citype = CI_ASYNCMAP then lcp_req_asyncmap ao ho body
      else if citype = CI_AUTHTYPE then lcp_req_auth ao ho body
      else if citype = CI_QUALITY then lcp_req_lqr ao ho body
      else if citype = CI_MAGICNUMBER then lcp_req_magic go ao ho mg body
      else if citype = CI_PCOMPRESSION then
        (if \<not> neg_pcompression ao \<or> body \<noteq> [] then (Rej, ho, [], False)
         else (Ack, ho\<lparr>neg_pcompression := True\<rparr>, [], False))
      else if citype = CI_ACCOMPRESSION then
        (if \<not> neg_accompression ao \<or> body \<noteq> [] then (Rej, ho, [], False)
         else (Ack, ho\<lparr>neg_accompression := True\<rparr>, [], False))
      else (Rej, ho, [], False))"

text \<open>
  The loop: \<open>rc\<close> is the reply so far, \<open>nakb\<close> and \<open>rejb\<close> what has been written at \<^verbatim>\<open>nak_buffer\<close> and
  moved to the front of the packet, \<open>k\<close> how often \<^verbatim>\<open>magic()\<close> was called (\<open>mgs k\<close> is its next
  result). An option whose length is wrong is rejected together with the rest of the packet.
\<close>

record req_state =
  r_ho :: lcp_options
  r_rc :: verdict
  r_nak :: bytes
  r_rej :: bytes
  r_magics :: nat

definition req_settle :: "bool \<Rightarrow> u8 \<Rightarrow> bytes \<Rightarrow> verdict \<Rightarrow> req_state \<Rightarrow> req_state" where
  "req_settle reject_if_disagree citype ci orc s =
     (if orc = Ack \<and> r_rc s \<noteq> Ack then s
      else if orc = Nak \<and> \<not> (reject_if_disagree \<and> citype \<noteq> CI_MAGICNUMBER) then
        (if r_rc s = Rej then s else s\<lparr>r_rc := Nak\<rparr>)
      else if orc = Nak \<or> orc = Rej then s\<lparr>r_rc := Rej, r_rej := r_rej s @ ci\<rparr>
      else s)"

definition bad_ci :: "bytes \<Rightarrow> bool" where
  "bad_ci l \<longleftrightarrow> length l < 2 \<or> unat (l ! 1) < 2 \<or> unat (l ! 1) > length l"

function lcp_req_loop ::
  "lcp_options \<Rightarrow> lcp_options \<Rightarrow> bool \<Rightarrow> (nat \<Rightarrow> u32) \<Rightarrow> bytes \<Rightarrow> req_state \<Rightarrow> req_state" where
  "lcp_req_loop go ao rej mgs l s =
     (if l = [] then s
      else if bad_ci l then req_settle rej 0 l Rej s
      else
        (let citype = l ! 0; cilen = unat (l ! 1);
             (orc, ho, nak, m) = lcp_req_ci go ao (r_ho s) (mgs (r_magics s)) citype (drop 2 (take cilen l));
             s = s\<lparr>r_ho := ho, r_nak := r_nak s @ nak,
                   r_magics := (if m then Suc (r_magics s) else r_magics s)\<rparr>
         in lcp_req_loop go ao rej mgs (drop cilen l)
              (req_settle rej citype (take cilen l) orc s)))"
  by pat_completeness auto
termination
  by (relation "measure (\<lambda>(go, ao, rej, mgs, l, s). length l)") (auto simp: bad_ci_def)

declare lcp_req_loop.simps [simp del]

definition req_start :: req_state where
  "req_start = \<lparr>r_ho = lcp_zero, r_rc = Ack, r_nak = [], r_rej = [], r_magics = 0\<rparr>"

text \<open>The reply code and the options put into the reply.\<close>

definition req_reply :: "bytes \<Rightarrow> req_state \<Rightarrow> u8 \<times> bytes" where
  "req_reply inp s =
     (case r_rc s of
        Ack \<Rightarrow> (CONFACK, inp)
      | Nak \<Rightarrow> (CONFNAK, r_nak s)
      | Rej \<Rightarrow> (CONFREJ, r_rej s))"

end
