(* ===== verification/Lcp_Negotiation.thy ===== *)
theory Lcp_Negotiation
  imports Lcp_Options "HOL-Library.Sublist"
begin

text \<open>
  What the option functions of \<^verbatim>\<open>lcp.c\<close> promise each other: the request we send has the length
  we announce, exactly that request is taken as acknowledged, a Reject switches off exactly the
  options it lists, a Nak never adds an option, and the judgement of the peer's request only
  accepts options we allow and answers with bytes of the request or with options of our own.
\<close>

section \<open>Definitions\<close>

text \<open>The options that a structure asks for, and the order "asks for no more than".\<close>

definition neg_list :: "lcp_options \<Rightarrow> bool list" where
  "neg_list o1 = [neg_mru o1, neg_asyncmap o1, neg_upap o1, neg_chap o1, neg_magicnumber o1,
     neg_pcompression o1, neg_accompression o1, neg_lqr o1, neg_cbcp o1]"

definition neg_le :: "lcp_options \<Rightarrow> lcp_options \<Rightarrow> bool" where
  "neg_le o1 o2 \<longleftrightarrow> list_all2 (\<longrightarrow>) (neg_list o1) (neg_list o2)"

definition neg_count :: "lcp_options \<Rightarrow> nat" where
  "neg_count o1 = length (filter (\<lambda>b. b) (neg_list o1))"

text \<open>The peer's options that \<^verbatim>\<open>lcp_reqci\<close> may have accepted.\<close>

definition ho_ok :: "lcp_options \<Rightarrow> lcp_options \<Rightarrow> lcp_options \<Rightarrow> bool" where
  "ho_ok go ao ho \<longleftrightarrow>
     (neg_mru ho \<longrightarrow> neg_mru ao \<and> MINMRU \<le> mru ho \<and> mru ho < 65536) \<and>
     (neg_asyncmap ho \<longrightarrow> neg_asyncmap ao \<and> asyncmap ao AND NOT (asyncmap ho) = 0) \<and>
     (neg_upap ho \<longrightarrow> neg_upap ao) \<and>
     (neg_chap ho \<longrightarrow> neg_chap ao \<and> chap_mdtype ho = CHAP_DIGEST_MD5) \<and>
     \<not> (neg_upap ho \<and> neg_chap ho) \<and>
     (neg_magicnumber ho \<longrightarrow> (neg_magicnumber ao \<or> neg_magicnumber go) \<and>
        \<not> (neg_magicnumber go \<and> magicnumber ho = magicnumber go)) \<and>
     (neg_pcompression ho \<longrightarrow> neg_pcompression ao) \<and>
     (neg_accompression ho \<longrightarrow> neg_accompression ao) \<and>
     \<not> neg_lqr ho \<and> \<not> neg_cbcp ho"

text \<open>
  The Reject that turns \<open>go\<close> into \<open>tr\<close>: the options of \<open>go\<close> that \<open>tr\<close> does not have, with the values
  we sent. A rejected CHAP takes PAP with it.
\<close>

definition lcp_rejected :: "lcp_options \<Rightarrow> lcp_options \<Rightarrow> bytes" where
  "lcp_rejected go tr =
     addcishort CI_MRU (neg_mru go \<and> \<not> neg_mru tr) (mru go) @
     addcilong CI_ASYNCMAP (neg_asyncmap go \<and> \<not> neg_asyncmap tr) (asyncmap go) @
     addcichap CI_AUTHTYPE (neg_chap go \<and> \<not> neg_chap tr) PPP_CHAP (chap_mdtype go) @
     addcishort CI_AUTHTYPE (\<not> neg_chap go \<and> neg_upap go \<and> \<not> neg_upap tr) PPP_PAP @
     addcilqr CI_QUALITY (neg_lqr go \<and> \<not> neg_lqr tr) (lqr_period go) @
     addcichar CI_CALLBACK (neg_cbcp go \<and> \<not> neg_cbcp tr) CBCP_OPT @
     addcilong CI_MAGICNUMBER (neg_magicnumber go \<and> \<not> neg_magicnumber tr) (magicnumber go) @
     addcivoid CI_PCOMPRESSION (neg_pcompression go \<and> \<not> neg_pcompression tr) @
     addcivoid CI_ACCOMPRESSION (neg_accompression go \<and> \<not> neg_accompression tr)"

definition rej_step :: "lcp_options \<Rightarrow> lcp_options \<Rightarrow> bool" where
  "rej_step go tr \<longleftrightarrow> neg_le tr go \<and>
     (neg_chap go \<longrightarrow> neg_upap tr = (neg_chap tr \<and> neg_upap go)) \<and>
     tr = go\<lparr>neg_mru := neg_mru tr, neg_asyncmap := neg_asyncmap tr, neg_chap := neg_chap tr,
       neg_upap := neg_upap tr, neg_lqr := neg_lqr tr, neg_cbcp := neg_cbcp tr,
       neg_magicnumber := neg_magicnumber tr, neg_pcompression := neg_pcompression tr,
       neg_accompression := neg_accompression tr\<rparr>"

definition starts :: "u8 \<Rightarrow> bytes \<Rightarrow> bool" where
  "starts opt q \<longleftrightarrow> q \<noteq> [] \<and> hd q = opt"

text \<open>
  No step of the Nak switches an option on; the MRU it leaves is our own or one that the peer
  asked for within our limits, and the asyncmap only gains bits.
\<close>

definition nak_ok :: "lcp_options \<Rightarrow> lcp_options \<Rightarrow> lcp_options \<Rightarrow> bool" where
  "nak_ok go wo tr \<longleftrightarrow> neg_le tr go \<and>
     (mru tr = mru go \<or> 0 \<le> mru tr \<and> mru tr < 65536 \<and> (mru tr \<le> mru wo \<or> mru tr \<le> DEFMRU)) \<and>
     asyncmap go AND NOT (asyncmap tr) = 0 \<and> chap_mdtype tr = chap_mdtype go"

section \<open>Our request and its acknowledgement\<close>

lemmas addci_defs = addcivoid_def addcishort_def addcichap_def addcilong_def addcilqr_def addcichar_def

lemma lcp_addci_length: "int (length (lcp_addci go)) = lcp_cilen go"
  by (simp add: lcp_addci_def lcp_cilen_def addci_defs)

lemma lcp_cilen_bound: "0 \<le> lcp_cilen go \<and> lcp_cilen go \<le> 36"
  by (simp add: lcp_cilen_def)

lemma getshort_eq_iff:
  "0 \<le> v \<Longrightarrow> v < 65536 \<Longrightarrow> getshort a b = v \<longleftrightarrow> [a, b] = putshort v"
  by (auto simp: putshort_getshort) (auto simp: putshort_def getshort_putshort)

lemma getlong_eq_iff: "getlong a b c d = v \<longleftrightarrow> [a, b, c, d] = putlong v"
  by (auto simp: putlong_getlong) (auto simp: putlong_def getlong_putlong)

lemma ackcivoid_iff: "ackcivoid opt neg p = Some r \<longleftrightarrow> p = addcivoid opt neg @ r"
  by (auto simp: ackcivoid_def addcivoid_def split: list.split)

lemma ackcichar_iff: "ackcichar opt neg v p = Some r \<longleftrightarrow> p = addcichar opt neg v @ r"
  by (auto simp: ackcichar_def addcichar_def split: list.split)

lemma ackcishort_iff:
  "0 \<le> v \<Longrightarrow> v < 65536 \<Longrightarrow> ackcishort opt neg v p = Some r \<longleftrightarrow> p = addcishort opt neg v @ r"
  by (auto simp: ackcishort_def addcishort_def getshort_eq_iff putshort_def split: list.split)

lemma ackcichap_iff:
  "0 \<le> v \<Longrightarrow> v < 65536 \<Longrightarrow> ackcichap opt neg v dg p = Some r \<longleftrightarrow> p = addcichap opt neg v dg @ r"
  by (auto simp: ackcichap_def addcichap_def getshort_eq_iff putshort_def split: list.split)

lemma ackcilong_iff: "ackcilong opt neg v p = Some r \<longleftrightarrow> p = addcilong opt neg v @ r"
  by (auto simp: ackcilong_def addcilong_def getlong_eq_iff putlong_def split: list.split)

lemma ackcilqr_iff: "ackcilqr opt neg v p = Some r \<longleftrightarrow> p = addcilqr opt neg v @ r"
proof -
  have "getshort e f = PPP_LQR \<longleftrightarrow> [e, f] = putshort PPP_LQR" for e f
    by (rule getshort_eq_iff) (simp_all add: PPP_LQR_def)
  then show ?thesis
    by (auto simp: ackcilqr_def addcilqr_def getlong_eq_iff putlong_def putshort_def split: list.split)
qed

lemmas ackci_iffs = ackcivoid_iff ackcichar_iff ackcishort_iff ackcichap_iff ackcilong_iff ackcilqr_iff

lemma case_bind_iff: "(case x of None \<Rightarrow> False | Some p \<Rightarrow> p = []) \<longleftrightarrow> x = Some []"
  by (cases x) auto

lemma lcp_ackci_iff:
  assumes "0 \<le> mru go" and "mru go < 65536"
  shows "lcp_ackci go p \<longleftrightarrow> p = lcp_addci go"
proof -
  have "0 \<le> PPP_CHAP" "PPP_CHAP < 65536" "0 \<le> PPP_PAP" "PPP_PAP < 65536"
    by (simp_all add: ppp_consts)
  with assms show ?thesis
    by (simp add: lcp_ackci_def case_bind_iff bind_eq_Some_conv ackci_iffs lcp_addci_def)
qed

section \<open>The peer's Reject\<close>

text \<open>Each macro either finds the option with the value we sent, or leaves the packet alone.\<close>

lemma putshort_LQR: "getshort e f = PPP_LQR \<Longrightarrow> putshort PPP_LQR = [e, f]"
  by (metis putshort_getshort)

lemma rejcivoid_cases:
  assumes "rejcivoid opt neg clr (tr, p) = Some (tr', q)"
  obtains r where "p = addcivoid opt r @ q" and "r \<longrightarrow> neg" and "tr' = (if r then clr tr else tr)"
proof -
  have "(neg \<and> p = addcivoid opt True @ q \<and> tr' = clr tr) \<or> (p = addcivoid opt False @ q \<and> tr' = tr)"
    using assms by (auto simp: rejcivoid_def addcivoid_def putshort_getshort putlong_getlong split: list.splits if_splits)
  then show ?thesis using that [of True] that [of False] by auto
qed

lemma rejcicbcp_cases:
  assumes "rejcicbcp opt neg v clr (tr, p) = Some (tr', q)"
  obtains r where "p = addcichar opt r v @ q" and "r \<longrightarrow> neg" and "tr' = (if r then clr tr else tr)"
proof -
  have "(neg \<and> p = addcichar opt True v @ q \<and> tr' = clr tr) \<or> (p = addcichar opt False v @ q \<and> tr' = tr)"
    using assms by (auto simp: rejcicbcp_def addcichar_def putshort_getshort putlong_getlong split: list.splits if_splits)
  then show ?thesis using that [of True] that [of False] by auto
qed

lemma rejcishort_cases:
  assumes "rejcishort opt neg v clr (tr, p) = Some (tr', q)"
  obtains r where "p = addcishort opt r v @ q" and "r \<longrightarrow> neg" and "tr' = (if r then clr tr else tr)"
proof -
  have "(neg \<and> p = addcishort opt True v @ q \<and> tr' = clr tr) \<or> (p = addcishort opt False v @ q \<and> tr' = tr)"
    using assms by (auto simp: rejcishort_def addcishort_def putshort_getshort putlong_getlong split: list.splits if_splits)
  then show ?thesis using that [of True] that [of False] by auto
qed

lemma rejcichap_cases:
  assumes "rejcichap opt neg v dg clr (tr, p) = Some (tr', q)"
  obtains r where "p = addcichap opt r v dg @ q" and "r \<longrightarrow> neg" and "tr' = (if r then clr tr else tr)"
proof -
  have "(neg \<and> p = addcichap opt True v dg @ q \<and> tr' = clr tr) \<or> (p = addcichap opt False v dg @ q \<and> tr' = tr)"
    using assms by (auto simp: rejcichap_def addcichap_def putshort_getshort putlong_getlong split: list.splits if_splits)
  then show ?thesis using that [of True] that [of False] by auto
qed

lemma rejcilong_cases:
  assumes "rejcilong opt neg v clr (tr, p) = Some (tr', q)"
  obtains r where "p = addcilong opt r v @ q" and "r \<longrightarrow> neg" and "tr' = (if r then clr tr else tr)"
proof -
  have "(neg \<and> p = addcilong opt True v @ q \<and> tr' = clr tr) \<or> (p = addcilong opt False v @ q \<and> tr' = tr)"
    using assms by (auto simp: rejcilong_def addcilong_def putshort_getshort putlong_getlong split: list.splits if_splits)
  then show ?thesis using that [of True] that [of False] by auto
qed

lemma rejcilqr_cases:
  assumes "rejcilqr opt neg v clr (tr, p) = Some (tr', q)"
  obtains r where "p = addcilqr opt r v @ q" and "r \<longrightarrow> neg" and "tr' = (if r then clr tr else tr)"
proof -
  have "(neg \<and> p = addcilqr opt True v @ q \<and> tr' = clr tr) \<or> (p = addcilqr opt False v @ q \<and> tr' = tr)"
    using assms by (auto simp: rejcilqr_def addcilqr_def putshort_getshort putlong_getlong putshort_LQR split: list.splits if_splits)
  then show ?thesis using that [of True] that [of False] by auto
qed

lemma starts_simps [simp]:
  "\<not> starts opt []"
  "starts opt (addcivoid opt' r @ q) \<longleftrightarrow> (if r then opt' = opt else starts opt q)"
  "starts opt (addcivoid opt' r) \<longleftrightarrow> r \<and> opt' = opt"
  "starts opt (addcichar opt' r c @ q) \<longleftrightarrow> (if r then opt' = opt else starts opt q)"
  "starts opt (addcishort opt' r v @ q) \<longleftrightarrow> (if r then opt' = opt else starts opt q)"
  "starts opt (addcichap opt' r v c @ q) \<longleftrightarrow> (if r then opt' = opt else starts opt q)"
  "starts opt (addcilong opt' r l @ q) \<longleftrightarrow> (if r then opt' = opt else starts opt q)"
  "starts opt (addcilqr opt' r l @ q) \<longleftrightarrow> (if r then opt' = opt else starts opt q)"
  by (simp_all add: starts_def addci_defs)

lemma rejcivoid_back:
  "\<not> (neg \<and> \<not> r \<and> starts opt q) \<Longrightarrow> r \<longrightarrow> neg \<Longrightarrow>
   rejcivoid opt neg clr (tr, addcivoid opt r @ q) = Some (if r then clr tr else tr, q)"
  by (auto simp: rejcivoid_def addcivoid_def starts_def split: list.splits)

lemma rejcicbcp_back:
  "\<not> (neg \<and> \<not> r \<and> starts opt q) \<Longrightarrow> r \<longrightarrow> neg \<Longrightarrow>
   rejcicbcp opt neg v clr (tr, addcichar opt r v @ q) = Some (if r then clr tr else tr, q)"
  by (auto simp: rejcicbcp_def addcichar_def starts_def split: list.splits)

lemma rejcishort_back:
  "\<not> (neg \<and> \<not> r \<and> starts opt q) \<Longrightarrow> r \<longrightarrow> neg \<Longrightarrow> 0 \<le> v \<and> v < 65536 \<Longrightarrow>
   rejcishort opt neg v clr (tr, addcishort opt r v @ q) = Some (if r then clr tr else tr, q)"
  by (auto simp: rejcishort_def addcishort_def starts_def putshort_def getshort_putshort
      split: list.splits)

lemma rejcichap_back:
  "\<not> (neg \<and> \<not> r \<and> starts opt q) \<Longrightarrow> r \<longrightarrow> neg \<Longrightarrow> 0 \<le> v \<and> v < 65536 \<Longrightarrow>
   rejcichap opt neg v dg clr (tr, addcichap opt r v dg @ q) = Some (if r then clr tr else tr, q)"
  by (auto simp: rejcichap_def addcichap_def starts_def putshort_def getshort_putshort
      split: list.splits)

lemma rejcilong_back:
  "\<not> (neg \<and> \<not> r \<and> starts opt q) \<Longrightarrow> r \<longrightarrow> neg \<Longrightarrow>
   rejcilong opt neg v clr (tr, addcilong opt r v @ q) = Some (if r then clr tr else tr, q)"
  by (auto simp: rejcilong_def addcilong_def starts_def putlong_def getlong_putlong split: list.splits)

lemma rejcilqr_back:
  "\<not> (neg \<and> \<not> r \<and> starts opt q) \<Longrightarrow> r \<longrightarrow> neg \<Longrightarrow>
   rejcilqr opt neg v clr (tr, addcilqr opt r v @ q) = Some (if r then clr tr else tr, q)"
  using getshort_putshort [of PPP_LQR]
  by (auto simp: rejcilqr_def addcilqr_def starts_def putlong_def putshort_def getlong_putlong
      PPP_LQR_def split: list.splits)

lemma rejcivoid_end:
  "r \<longrightarrow> neg \<Longrightarrow> rejcivoid opt neg clr (tr, addcivoid opt r) = Some (if r then clr tr else tr, [])"
  using rejcivoid_back [of neg r opt "[]"] by simp

lemmas rejci_back = rejcivoid_back rejcicbcp_back rejcishort_back rejcichap_back
  rejcilong_back rejcilqr_back

text \<open>Switching an option off under a condition, without a case distinction.\<close>

lemma switch_off:
  "(if r then tr\<lparr>neg_mru := False\<rparr> else tr) = tr\<lparr>neg_mru := neg_mru tr \<and> \<not> r\<rparr>"
  "(if r then tr\<lparr>neg_asyncmap := False\<rparr> else tr) = tr\<lparr>neg_asyncmap := neg_asyncmap tr \<and> \<not> r\<rparr>"
  "(if r then tr\<lparr>neg_chap := False, neg_upap := False\<rparr> else tr) =
     tr\<lparr>neg_chap := neg_chap tr \<and> \<not> r, neg_upap := neg_upap tr \<and> \<not> r\<rparr>"
  "(if r then tr\<lparr>neg_upap := False\<rparr> else tr) = tr\<lparr>neg_upap := neg_upap tr \<and> \<not> r\<rparr>"
  "(if r then tr\<lparr>neg_lqr := False\<rparr> else tr) = tr\<lparr>neg_lqr := neg_lqr tr \<and> \<not> r\<rparr>"
  "(if r then tr\<lparr>neg_cbcp := False\<rparr> else tr) = tr\<lparr>neg_cbcp := neg_cbcp tr \<and> \<not> r\<rparr>"
  "(if r then tr\<lparr>neg_magicnumber := False\<rparr> else tr) = tr\<lparr>neg_magicnumber := neg_magicnumber tr \<and> \<not> r\<rparr>"
  "(if r then tr\<lparr>neg_pcompression := False\<rparr> else tr) = tr\<lparr>neg_pcompression := neg_pcompression tr \<and> \<not> r\<rparr>"
  "(if r then tr\<lparr>neg_accompression := False\<rparr> else tr) =
     tr\<lparr>neg_accompression := neg_accompression tr \<and> \<not> r\<rparr>"
  by simp_all

lemma bind_Some: "Some x \<bind> f = f x"
  by simp

lemma bind_pairE:
  assumes "x \<bind> f = Some (t :: 'b)"
  obtains tr p where "x = Some (tr, p)" and "f (tr, p) = Some t"
  using assms by (cases x) auto

lemma lcp_rej_try_sound:
  assumes "lcp_rej_try go p = Some tr"
  shows "rej_step go tr \<and> p = lcp_rejected go tr"
proof -
  from assms obtain t1 t2 t3 t4 t5 t6 t7 t8 p1 p2 p3 p4 p5 p6 p7 p8 where
    m: "rejcishort CI_MRU (neg_mru go) (mru go) (\<lambda>tr. tr\<lparr>neg_mru := False\<rparr>) (go, p) = Some (t1, p1)"
      "rejcilong CI_ASYNCMAP (neg_asyncmap go) (asyncmap go) (\<lambda>tr. tr\<lparr>neg_asyncmap := False\<rparr>) (t1, p1)
         = Some (t2, p2)"
      "rejcichap CI_AUTHTYPE (neg_chap go) PPP_CHAP (chap_mdtype go)
            (\<lambda>tr. tr\<lparr>neg_chap := False, neg_upap := False\<rparr>) (t2, p2) = Some (t3, p3)"
      "(if \<not> neg_chap go
        then rejcishort CI_AUTHTYPE (neg_upap go) PPP_PAP (\<lambda>tr. tr\<lparr>neg_upap := False\<rparr>) (t3, p3)
        else Some (t3, p3)) = Some (t4, p4)"
      "rejcilqr CI_QUALITY (neg_lqr go) (lqr_period go) (\<lambda>tr. tr\<lparr>neg_lqr := False\<rparr>) (t4, p4) = Some (t5, p5)"
      "rejcicbcp CI_CALLBACK (neg_cbcp go) CBCP_OPT (\<lambda>tr. tr\<lparr>neg_cbcp := False\<rparr>) (t5, p5) = Some (t6, p6)"
      "rejcilong CI_MAGICNUMBER (neg_magicnumber go) (magicnumber go)
         (\<lambda>tr. tr\<lparr>neg_magicnumber := False\<rparr>) (t6, p6) = Some (t7, p7)"
      "rejcivoid CI_PCOMPRESSION (neg_pcompression go) (\<lambda>tr. tr\<lparr>neg_pcompression := False\<rparr>) (t7, p7)
         = Some (t8, p8)"
      "rejcivoid CI_ACCOMPRESSION (neg_accompression go) (\<lambda>tr. tr\<lparr>neg_accompression := False\<rparr>) (t8, p8)
         = Some (tr, [])"
    unfolding lcp_rej_try_def by (elim bind_pairE) (auto split: if_split_asm)
  obtain r4 where r4: "p3 = addcishort CI_AUTHTYPE r4 PPP_PAP @ p4"
    "r4 \<longrightarrow> \<not> neg_chap go \<and> neg_upap go" "t4 = (if r4 then t3\<lparr>neg_upap := False\<rparr> else t3)"
  proof (cases "neg_chap go")
    case True
    with m(4) show ?thesis by (intro that [of False]) (simp_all add: addcishort_def)
  next
    case False
    with m(4) show ?thesis using that by (auto elim!: rejcishort_cases)
  qed
  obtain r1 where r1: "p = addcishort CI_MRU r1 (mru go) @ p1" "r1 \<longrightarrow> neg_mru go"
    "t1 = (if r1 then go\<lparr>neg_mru := False\<rparr> else go)"
    using m(1) by (rule rejcishort_cases)
  obtain r2 where r2: "p1 = addcilong CI_ASYNCMAP r2 (asyncmap go) @ p2" "r2 \<longrightarrow> neg_asyncmap go"
    "t2 = (if r2 then t1\<lparr>neg_asyncmap := False\<rparr> else t1)"
    using m(2) by (rule rejcilong_cases)
  obtain r3 where r3: "p2 = addcichap CI_AUTHTYPE r3 PPP_CHAP (chap_mdtype go) @ p3" "r3 \<longrightarrow> neg_chap go"
    "t3 = (if r3 then t2\<lparr>neg_chap := False, neg_upap := False\<rparr> else t2)"
    using m(3) by (rule rejcichap_cases)
  obtain r5 where r5: "p4 = addcilqr CI_QUALITY r5 (lqr_period go) @ p5" "r5 \<longrightarrow> neg_lqr go"
    "t5 = (if r5 then t4\<lparr>neg_lqr := False\<rparr> else t4)"
    using m(5) by (rule rejcilqr_cases)
  obtain r6 where r6: "p5 = addcichar CI_CALLBACK r6 CBCP_OPT @ p6" "r6 \<longrightarrow> neg_cbcp go"
    "t6 = (if r6 then t5\<lparr>neg_cbcp := False\<rparr> else t5)"
    using m(6) by (rule rejcicbcp_cases)
  obtain r7 where r7: "p6 = addcilong CI_MAGICNUMBER r7 (magicnumber go) @ p7" "r7 \<longrightarrow> neg_magicnumber go"
    "t7 = (if r7 then t6\<lparr>neg_magicnumber := False\<rparr> else t6)"
    using m(7) by (rule rejcilong_cases)
  obtain r8 where r8: "p7 = addcivoid CI_PCOMPRESSION r8 @ p8" "r8 \<longrightarrow> neg_pcompression go"
    "t8 = (if r8 then t7\<lparr>neg_pcompression := False\<rparr> else t7)"
    using m(8) by (rule rejcivoid_cases)
  obtain r9 where r9: "p8 = addcivoid CI_ACCOMPRESSION r9 @ []" "r9 \<longrightarrow> neg_accompression go"
    "tr = (if r9 then t8\<lparr>neg_accompression := False\<rparr> else t8)"
    using m(9) by (rule rejcivoid_cases)
  note t = r1(3) r2(3) r3(3) r4(3) r5(3) r6(3) r7(3) r8(3) r9(3)
  have tr: "tr = go\<lparr>neg_mru := neg_mru go \<and> \<not> r1, neg_asyncmap := neg_asyncmap go \<and> \<not> r2,
        neg_chap := neg_chap go \<and> \<not> r3, neg_upap := (neg_upap go \<and> \<not> r3) \<and> \<not> r4,
        neg_lqr := neg_lqr go \<and> \<not> r5, neg_cbcp := neg_cbcp go \<and> \<not> r6,
        neg_magicnumber := neg_magicnumber go \<and> \<not> r7,
        neg_pcompression := neg_pcompression go \<and> \<not> r8,
        neg_accompression := neg_accompression go \<and> \<not> r9\<rparr>"
    using t unfolding switch_off by simp
  have "rej_step go tr"
    using r1(2) r2(2) r3(2) r4(2) r5(2) r6(2) r7(2) r8(2) r9(2)
    by (auto simp: rej_step_def tr neg_le_def neg_list_def)
  moreover have "(neg_mru go \<and> \<not> neg_mru tr) = r1" "(neg_asyncmap go \<and> \<not> neg_asyncmap tr) = r2"
    "(neg_chap go \<and> \<not> neg_chap tr) = r3" "(\<not> neg_chap go \<and> neg_upap go \<and> \<not> neg_upap tr) = r4"
    "(neg_lqr go \<and> \<not> neg_lqr tr) = r5" "(neg_cbcp go \<and> \<not> neg_cbcp tr) = r6"
    "(neg_magicnumber go \<and> \<not> neg_magicnumber tr) = r7"
    "(neg_pcompression go \<and> \<not> neg_pcompression tr) = r8"
    "(neg_accompression go \<and> \<not> neg_accompression tr) = r9"
    using r1(2) r2(2) r3(2) r4(2) r5(2) r6(2) r7(2) r8(2) r9(2) by (auto simp: tr)
  ultimately show ?thesis
    using r1(1) r2(1) r3(1) r4(1) r5(1) r6(1) r7(1) r8(1) r9(1) by (simp add: lcp_rejected_def)
qed

lemma same_auth:
  "neg_chap t = a \<Longrightarrow> t\<lparr>neg_chap := a, neg_upap := b\<rparr> = t\<lparr>neg_upap := b\<rparr>"
  "neg_upap t = b \<Longrightarrow> t\<lparr>neg_upap := b\<rparr> = t"
  "neg_chap t = a \<Longrightarrow> t\<lparr>neg_chap := a\<rparr> = t"
  by (cases t; simp)+

lemma rej_chap_back:
  assumes "\<not> starts CI_AUTHTYPE q" and "neg_chap tr \<longrightarrow> neg_chap go" and "neg_upap tr \<longrightarrow> neg_upap go"
    and "neg_chap go \<longrightarrow> neg_upap tr = (neg_chap tr \<and> neg_upap go)"
    and "neg_chap t = neg_chap go" and "neg_upap t = neg_upap go"
  shows "do {
     s \<leftarrow> rejcichap CI_AUTHTYPE (neg_chap go) PPP_CHAP (chap_mdtype go)
            (\<lambda>tr. tr\<lparr>neg_chap := False, neg_upap := False\<rparr>)
            (t, addcichap CI_AUTHTYPE (neg_chap go \<and> \<not> neg_chap tr) PPP_CHAP (chap_mdtype go) @
              addcishort CI_AUTHTYPE (\<not> neg_chap go \<and> neg_upap go \<and> \<not> neg_upap tr) PPP_PAP @ q);
     s \<leftarrow> (if \<not> neg_chap go
           then rejcishort CI_AUTHTYPE (neg_upap go) PPP_PAP (\<lambda>tr. tr\<lparr>neg_upap := False\<rparr>) s
           else Some s);
     f s} = f (t\<lparr>neg_chap := neg_chap tr, neg_upap := neg_upap tr\<rparr>, q)"
proof (cases "neg_chap go")
  case True
  then show ?thesis
    using assms by (subst rejcichap_back) (auto simp: PPP_CHAP_def addcishort_def same_auth)
next
  case False
  then show ?thesis
    using assms
    by (subst rejcichap_back) (auto simp: PPP_CHAP_def PPP_PAP_def rejcishort_back same_auth)
qed

lemma lcp_rej_try_complete:
  assumes mru: "0 \<le> mru go" "mru go < 65536" and step: "rej_step go tr"
  shows "lcp_rej_try go (lcp_rejected go tr) = Some tr"
proof -
  have le: "neg_mru tr \<longrightarrow> neg_mru go" "neg_asyncmap tr \<longrightarrow> neg_asyncmap go"
    "neg_upap tr \<longrightarrow> neg_upap go" "neg_chap tr \<longrightarrow> neg_chap go"
    "neg_magicnumber tr \<longrightarrow> neg_magicnumber go" "neg_pcompression tr \<longrightarrow> neg_pcompression go"
    "neg_accompression tr \<longrightarrow> neg_accompression go" "neg_lqr tr \<longrightarrow> neg_lqr go"
    "neg_cbcp tr \<longrightarrow> neg_cbcp go" "neg_chap go \<longrightarrow> neg_upap tr = (neg_chap tr \<and> neg_upap go)"
    using step by (auto simp: rej_step_def neg_le_def neg_list_def)
  have off: "(b \<and> (b \<longrightarrow> c)) = c" if "c \<longrightarrow> b" for b c
    using that by auto
  have "lcp_rej_try go (lcp_rejected go tr) =
    Some (go\<lparr>neg_mru := neg_mru tr, neg_asyncmap := neg_asyncmap tr, neg_chap := neg_chap tr,
      neg_upap := neg_upap tr, neg_lqr := neg_lqr tr, neg_cbcp := neg_cbcp tr,
      neg_magicnumber := neg_magicnumber tr, neg_pcompression := neg_pcompression tr,
      neg_accompression := neg_accompression tr\<rparr>)"
    unfolding lcp_rej_try_def lcp_rejected_def
    apply (subst rejcishort_back, simp add: ppp_consts, simp, simp add: mru)
    apply (simp only: switch_off bind_Some)
    apply (subst rejcilong_back, simp add: ppp_consts, simp)
    apply (simp only: switch_off bind_Some)
    apply (subst rej_chap_back, simp add: ppp_consts; simp add: le)
    apply (subst rejcilqr_back, simp add: ppp_consts, simp)
    apply (simp only: switch_off bind_Some)
    apply (subst rejcicbcp_back, simp add: ppp_consts, simp)
    apply (simp only: switch_off bind_Some)
    apply (subst rejcilong_back, simp add: ppp_consts, simp)
    apply (simp only: switch_off bind_Some)
    apply (subst rejcivoid_back, simp add: ppp_consts, simp)
    apply (simp only: switch_off bind_Some)
    apply (subst rejcivoid_end, simp)
    apply (simp only: switch_off bind_Some)
    apply (simp add: off le)
    done
  then show ?thesis
    using step by (simp add: rej_step_def)
qed


text \<open>A Reject that is not empty leaves fewer options to ask for.\<close>

lemma rej_step_count:
  assumes "rej_step go tr" and "lcp_rejected go tr \<noteq> []"
  shows "neg_count tr < neg_count go"
proof -
  have le: "list_all2 (\<longrightarrow>) (neg_list tr) (neg_list go)"
    using assms(1) by (simp add: rej_step_def neg_le_def)
  have ne: "neg_list tr \<noteq> neg_list go"
  proof
    assume "neg_list tr = neg_list go"
    then have "lcp_rejected go tr = []"
      by (simp add: lcp_rejected_def neg_list_def addci_defs)
    with assms(2) show False by simp
  qed
  have "length (filter (\<lambda>b. b) xs) < length (filter (\<lambda>b. b) ys)"
    if "list_all2 (\<longrightarrow>) xs ys" and "xs \<noteq> ys" for xs ys
    using that
  proof (induction xs ys rule: list_all2_induct)
    case (Cons x xs y ys)
    have "length (filter (\<lambda>b. b) xs) \<le> length (filter (\<lambda>b. b) ys)"
      using Cons by (cases "xs = ys") auto
    with Cons show ?case by (cases "xs = ys") auto
  qed simp
  from this [OF le ne] show ?thesis by (simp add: neg_count_def)
qed

section \<open>The peer's Nak\<close>

lemma neg_le_refl [simp]: "neg_le go go"
  by (simp add: neg_le_def neg_list_def)

lemma neg_le_trans: "neg_le o1 o2 \<Longrightarrow> neg_le o2 o3 \<Longrightarrow> neg_le o1 o3"
  by (auto simp: neg_le_def neg_list_def)

lemma neg_le_off [simp]:
  assumes "neg_le tr go"
  shows "neg_le (tr\<lparr>neg_chap := False\<rparr>) go" "neg_le (tr\<lparr>neg_upap := False\<rparr>) go"
    "neg_le (tr\<lparr>neg_lqr := False\<rparr>) go" "neg_le (tr\<lparr>neg_cbcp := False\<rparr>) go"
    "neg_le (tr\<lparr>neg_pcompression := False\<rparr>) go" "neg_le (tr\<lparr>neg_accompression := False\<rparr>) go"
    "neg_le (tr\<lparr>neg_magicnumber := False\<rparr>) go"
  using assms by (simp_all add: neg_le_def neg_list_def)

lemma neg_le_value [simp]:
  "neg_le (tr\<lparr>mru := m\<rparr>) go = neg_le tr go" "neg_le (tr\<lparr>asyncmap := a\<rparr>) go = neg_le tr go"
  "neg_le (tr\<lparr>magicnumber := g\<rparr>) go = neg_le tr go" "neg_le (tr\<lparr>lqr_period := a\<rparr>) go = neg_le tr go"
  by (simp_all add: neg_le_def neg_list_def)

lemma nak_ok_off [simp]:
  assumes "nak_ok go wo tr"
  shows "nak_ok go wo (tr\<lparr>neg_chap := False\<rparr>)" "nak_ok go wo (tr\<lparr>neg_upap := False\<rparr>)"
    "nak_ok go wo (tr\<lparr>neg_lqr := False\<rparr>)" "nak_ok go wo (tr\<lparr>neg_cbcp := False\<rparr>)"
    "nak_ok go wo (tr\<lparr>neg_pcompression := False\<rparr>)" "nak_ok go wo (tr\<lparr>neg_accompression := False\<rparr>)"
    "nak_ok go wo (tr\<lparr>neg_magicnumber := False\<rparr>)"
    "nak_ok go wo (tr\<lparr>magicnumber := g\<rparr>)" "nak_ok go wo (tr\<lparr>lqr_period := a\<rparr>)"
  using assms by (simp_all add: nak_ok_def)

lemma nak_ok_mru:
  "nak_ok go wo tr \<Longrightarrow> 0 \<le> m \<Longrightarrow> m < 65536 \<Longrightarrow> m \<le> mru wo \<or> m \<le> DEFMRU \<Longrightarrow> nak_ok go wo (tr\<lparr>mru := m\<rparr>)"
  by (simp add: nak_ok_def)

lemma nak_ok_asyncmap:
  "nak_ok go wo tr \<Longrightarrow> nak_ok go wo (tr\<lparr>asyncmap := asyncmap go OR c\<rparr>)"
proof -
  have "m AND NOT (m OR c) = 0" for m c :: u32
    by (rule bit_word_eqI) (auto simp: bit_simps)
  moreover assume "nak_ok go wo tr"
  ultimately show ?thesis by (simp add: nak_ok_def)
qed

lemma nakcishort_range: "nakcishort opt neg p = Some (v, q) \<Longrightarrow> 0 \<le> v \<and> v < 65536"
  using getshort_range by (auto simp: nakcishort_def split: list.splits if_splits)

lemma nak_mru_ok:
  "nak_ok go wo tr \<Longrightarrow> nak_ok go wo (snd (snd (lcp_nak_mru go wo (p, no, tr))))"
  by (auto simp: lcp_nak_mru_def split: option.split intro!: nak_ok_mru dest: nakcishort_range)

lemma nak_asyncmap_ok:
  "nak_ok go wo tr \<Longrightarrow> nak_ok go wo (snd (snd (lcp_nak_asyncmap go (p, no, tr))))"
  by (auto simp: lcp_nak_asyncmap_def nak_ok_asyncmap split: option.split)

lemma nak_auth_ok:
  "nak_ok go wo tr \<Longrightarrow> lcp_nak_auth go (p, no, tr) = Some (q, no', tr') \<Longrightarrow> nak_ok go wo tr'"
  by (auto simp: lcp_nak_auth_def Let_def split: if_splits list.splits)

lemma nak_lqr_ok: "nak_ok go wo tr \<Longrightarrow> nak_ok go wo (snd (snd (lcp_nak_lqr go (p, no, tr))))"
  by (auto simp: lcp_nak_lqr_def split: option.split)

lemma nak_cbcp_ok: "nak_ok go wo tr \<Longrightarrow> nak_ok go wo (snd (snd (lcp_nak_cbcp go (p, no, tr))))"
  by (auto simp: lcp_nak_cbcp_def split: option.split)

lemma nak_magic_ok:
  "nak_ok go wo tr \<Longrightarrow> nak_ok go wo (snd (snd (fst (lcp_nak_magic go mg (p, no, tr)))))"
  by (auto simp: lcp_nak_magic_def split: option.split)

lemma nak_comp_ok: "nak_ok go wo tr \<Longrightarrow> nak_ok go wo (snd (snd (lcp_nak_comp go (p, no, tr))))"
  by (auto simp: lcp_nak_comp_def Let_def split: option.split)

lemma nak_known_ok:
  assumes "lcp_nak_known go wo mg p = Some ((q, no, tr), lb)"
  shows "nak_ok go wo tr"
proof -
  have go: "nak_ok go wo go"
    by (simp add: nak_ok_def)
  obtain p1 n1 t1 where 1: "lcp_nak_mru go wo (p, lcp_zero, go) = (p1, n1, t1)"
    by (rule prod_cases3)
  obtain p2 n2 t2 where 2: "lcp_nak_asyncmap go (p1, n1, t1) = (p2, n2, t2)"
    by (rule prod_cases3)
  obtain p3 n3 t3 where 3: "lcp_nak_auth go (p2, n2, t2) = Some (p3, n3, t3)"
    using assms by (auto simp: lcp_nak_known_def 1 2 split: option.splits)
  obtain p4 n4 t4 where 4: "lcp_nak_lqr go (p3, n3, t3) = (p4, n4, t4)"
    by (rule prod_cases3)
  obtain p5 n5 t5 where 5: "lcp_nak_cbcp go (p4, n4, t4) = (p5, n5, t5)"
    by (rule prod_cases3)
  obtain p6 n6 t6 lb' where 6: "lcp_nak_magic go mg (p5, n5, t5) = ((p6, n6, t6), lb')"
    by (metis prod.exhaust)
  have 7: "lcp_nak_comp go (p6, n6, t6) = (q, no, tr)"
    using assms by (simp add: lcp_nak_known_def 1 2 3 4 5 6)
  have "nak_ok go wo t3"
    using nak_mru_ok [OF go, of p lcp_zero] nak_asyncmap_ok [of go wo t1 p1 n1]
      nak_auth_ok [of go wo t2 p2 n2] 1 2 3 by simp
  then show ?thesis
    using nak_lqr_ok [of go wo t3 p3 n3] nak_cbcp_ok [of go wo t4 p4 n4]
      nak_magic_ok [of go wo t5 mg p5 n5] nak_comp_ok [of go wo t6 p6 n6] 4 5 6 7 by simp
qed

lemma nak_extra_ok:
  "nak_ok go wo tr \<Longrightarrow> lcp_nak_extra go no citype cilen body tr = Some tr' \<Longrightarrow> nak_ok go wo tr'"
  using getshort_range
  by (auto simp: lcp_nak_extra_def Let_def intro!: nak_ok_mru split: if_splits)

lemma nak_rest_ok:
  "nak_ok go wo tr \<Longrightarrow> lcp_nak_rest go no tr p = Some tr' \<Longrightarrow> nak_ok go wo tr'"
proof (induction go no tr p rule: lcp_nak_rest.induct)
  case (1 go no tr p)
  show ?case
  proof (cases "length p \<le> 2")
    case True
    with "1.prems" show ?thesis by (simp add: lcp_nak_rest.simps)
  next
    case False
    then obtain t where t: "\<not> (unat (p ! 1) < 2 \<or> unat (p ! 1) > length p)"
        "lcp_nak_extra go no (p ! 0) (unat (p ! 1)) (drop 2 p) tr = Some t"
        "lcp_nak_rest go no t (drop (unat (p ! 1)) p) = Some tr'"
      using "1.prems"(2) by (subst (asm) lcp_nak_rest.simps) (auto simp: Let_def split: if_splits option.splits)
    show ?thesis
      using "1.IH" [OF False refl refl t(1,2) nak_extra_ok [OF "1.prems"(1) t(2)] t(3)] .
  qed
qed

end
