(* ===== verification/Lcp_Request.thy ===== *)
theory Lcp_Request
  imports Lcp_Negotiation
begin

text \<open>
  How \<^verbatim>\<open>lcp_reqci\<close> judges the peer's request: what it accepts is allowed (\<open>ho_ok\<close>), a Reject is made
  of options of the request, a Nak of options of our own (and, once we insist, only of magic
  numbers), the sizes of both replies, and that a peer which runs the same code and allows what
  we ask for acknowledges our request and learns our options from it.
\<close>

section \<open>Definitions\<close>

definition nak_magics :: "u32 list \<Rightarrow> bytes" where
  "nak_magics ms = concat (map (\<lambda>m. [CI_MAGICNUMBER, 6] @ putlong m) ms)"

text \<open>The loop invariant, for a request of which \<open>done\<close> has been read.\<close>

definition req_inv ::
  "lcp_options \<Rightarrow> lcp_options \<Rightarrow> bool \<Rightarrow> bytes \<Rightarrow> req_state \<Rightarrow> bool" where
  "req_inv go ao rej seen s \<longleftrightarrow>
     ho_ok go ao (r_ho s) \<and>
     subseq (r_rej s) seen \<and>
     4 * length (r_nak s) \<le> 5 * length seen \<and>
     (r_rc s = Ack \<longrightarrow> r_nak s = [] \<and> r_rej s = []) \<and>
     (r_rc s = Nak \<longrightarrow> r_nak s \<noteq> [] \<and> r_rej s = []) \<and>
     (r_rc s = Rej \<longrightarrow> r_rej s \<noteq> []) \<and>
     (rej \<and> r_rc s \<noteq> Rej \<longrightarrow> (\<exists>ms. r_nak s = nak_magics ms))"

text \<open>What the peer must allow so that it takes our request as it is.\<close>

definition acceptable :: "lcp_options \<Rightarrow> lcp_options \<Rightarrow> lcp_options \<Rightarrow> bool" where
  "acceptable go ao req \<longleftrightarrow>
     (neg_mru req \<and> mru req \<noteq> DEFMRU \<longrightarrow> neg_mru ao \<and> MINMRU \<le> mru req \<and> mru req < 65536) \<and>
     (neg_asyncmap req \<and> asyncmap req \<noteq> 0xFFFFFFFF \<longrightarrow>
        neg_asyncmap ao \<and> asyncmap ao AND NOT (asyncmap req) = 0) \<and>
     (neg_chap req \<longrightarrow> neg_chap ao \<and> chap_mdtype req = CHAP_DIGEST_MD5) \<and>
     (\<not> neg_chap req \<and> neg_upap req \<longrightarrow> neg_upap ao) \<and>
     (neg_lqr req \<longrightarrow> neg_lqr ao) \<and> \<not> neg_cbcp req \<and>
     (neg_magicnumber req \<longrightarrow> (neg_magicnumber ao \<or> neg_magicnumber go) \<and>
        \<not> (neg_magicnumber go \<and> magicnumber req = magicnumber go)) \<and>
     (neg_pcompression req \<longrightarrow> neg_pcompression ao) \<and>
     (neg_accompression req \<longrightarrow> neg_accompression ao)"

text \<open>What the peer learns from our request.\<close>

definition learned :: "lcp_options \<Rightarrow> lcp_options" where
  "learned req = (let m = neg_mru req \<and> mru req \<noteq> DEFMRU;
                      a = neg_asyncmap req \<and> asyncmap req \<noteq> 0xFFFFFFFF in
     lcp_zero\<lparr>neg_mru := m, mru := (if m then mru req else 0),
       neg_asyncmap := a, asyncmap := (if a then asyncmap req else 0),
       chap_mdtype := (if neg_chap req then chap_mdtype req else 0), neg_chap := neg_chap req,
       neg_upap := \<not> neg_chap req \<and> neg_upap req,
       neg_magicnumber := neg_magicnumber req,
       magicnumber := (if neg_magicnumber req then magicnumber req else 0),
       neg_pcompression := neg_pcompression req, neg_accompression := neg_accompression req\<rparr>)"

section \<open>One option\<close>

lemmas req_defs = lcp_req_mru_def lcp_req_asyncmap_def lcp_req_auth_def lcp_req_lqr_def lcp_req_magic_def

lemma ho_ok_updates:
  assumes "ho_ok go ao ho"
  shows "neg_mru ao \<Longrightarrow> MINMRU \<le> v \<Longrightarrow> v < 65536 \<Longrightarrow> ho_ok go ao (ho\<lparr>neg_mru := True, mru := v\<rparr>)"
    and "neg_asyncmap ao \<Longrightarrow> asyncmap ao AND NOT l = 0 \<Longrightarrow>
      ho_ok go ao (ho\<lparr>neg_asyncmap := True, asyncmap := l\<rparr>)"
    and "neg_upap ao \<Longrightarrow> \<not> neg_chap ho \<Longrightarrow> ho_ok go ao (ho\<lparr>neg_upap := True\<rparr>)"
    and "neg_chap ao \<Longrightarrow> \<not> neg_upap ho \<Longrightarrow>
      ho_ok go ao (ho\<lparr>chap_mdtype := CHAP_DIGEST_MD5, neg_chap := True\<rparr>)"
    and "neg_magicnumber ao \<or> neg_magicnumber go \<Longrightarrow> \<not> (neg_magicnumber go \<and> l = magicnumber go) \<Longrightarrow>
      ho_ok go ao (ho\<lparr>neg_magicnumber := True, magicnumber := l\<rparr>)"
    and "neg_pcompression ao \<Longrightarrow> ho_ok go ao (ho\<lparr>neg_pcompression := True\<rparr>)"
    and "neg_accompression ao \<Longrightarrow> ho_ok go ao (ho\<lparr>neg_accompression := True\<rparr>)"
  using assms by (simp_all add: ho_ok_def)

lemma req_ci_ho:
  assumes "lcp_req_ci go ao ho mg t body = (orc, ho', nak, m)" and "ho_ok go ao ho"
  shows "ho_ok go ao ho'"
  using assms(1) getshort_range ho_ok_updates [OF assms(2)] assms(2)
  unfolding lcp_req_ci_def req_defs Let_def
  by (simp split: if_split_asm list.split_asm) (auto simp: not_less)

lemma req_ci_rej_ho:
  assumes "lcp_req_ci go ao ho mg t body = (orc, ho', nak, m)" and "orc \<noteq> Ack"
  shows "ho' = ho"
  using assms by (auto simp: lcp_req_ci_def req_defs Let_def split: if_splits list.splits)

lemma req_ci_nak:
  assumes "lcp_req_ci go ao ho mg t body = (orc, ho', nak, m)"
  shows "orc \<noteq> Nak \<Longrightarrow> nak = []"
    and "orc = Nak \<Longrightarrow> nak \<noteq> []"
    and "4 * length nak \<le> 5 * (length body + 2)"
    and "orc = Nak \<Longrightarrow> t = CI_MAGICNUMBER \<Longrightarrow> nak = [CI_MAGICNUMBER, 6] @ putlong mg"
  using assms
  by (auto simp: lcp_req_ci_def req_defs nak_chap_def nak_pap_def Let_def ppp_consts
      split: if_splits list.splits)

section \<open>The loop\<close>

lemma req_inv_settle:
  assumes inv: "req_inv go ao rej seen s" and ho: "ho_ok go ao ho" and ci: "ci \<noteq> []"
    and nak: "orc \<noteq> Nak \<longrightarrow> nak = []" "orc = Nak \<longrightarrow> nak \<noteq> []" "4 * length nak \<le> 5 * length ci"
    and mg: "orc = Nak \<longrightarrow> t = CI_MAGICNUMBER \<longrightarrow> (\<exists>m. nak = nak_magics [m])"
  shows "req_inv go ao rej (seen @ ci)
           (req_settle rej t ci orc (s\<lparr>r_ho := ho, r_nak := r_nak s @ nak, r_magics := k\<rparr>))"
proof -
  have sub: "subseq (r_rej s) (seen @ ci)" "subseq (r_rej s @ ci) (seen @ ci)"
    using inv by (auto simp: req_inv_def intro: subseq_append_le_same_iff [THEN iffD2] list_emb_append_mono)
  have app: "nak_magics ms @ nak_magics ms' = nak_magics (ms @ ms')" for ms ms'
    by (simp add: nak_magics_def)
  have mgs: "\<exists>ms. r_nak s @ nak = nak_magics ms"
    if "rej" "r_rc s \<noteq> Rej" "nak = [] \<or> (\<exists>m. nak = nak_magics [m])"
    using that inv app by (auto simp: req_inv_def)
  show ?thesis
    using inv ho ci nak mg sub mgs
    by (cases orc; cases "r_rc s"; cases "t = CI_MAGICNUMBER"; cases rej)
      (auto simp: req_inv_def req_settle_def)
qed

lemma lcp_req_loop_inv:
  "req_inv go ao rej seen s \<Longrightarrow> req_inv go ao rej (seen @ l) (lcp_req_loop go ao rej mgs l s)"
proof (induction go ao rej mgs l s arbitrary: seen rule: lcp_req_loop.induct)
  case (1 go ao rej mgs l s)
  show ?case
  proof (cases "l = [] \<or> bad_ci l")
    case True
    have ho: "ho_ok go ao (r_ho s)"
      using "1.prems" by (simp add: req_inv_def)
    have "req_inv go ao rej (seen @ l) (req_settle rej 0 l Rej s)" if "l \<noteq> []"
      using req_inv_settle [OF "1.prems" ho that, of Rej "[]" 0 "r_magics s"] by simp
    with True "1.prems" show ?thesis by (subst lcp_req_loop.simps) auto
  next
    case False
    define t where "t = l ! 0"
    define n where "n = unat (l ! 1)"
    define ci where "ci = take n l"
    obtain orc ho nak m where r:
      "lcp_req_ci go ao (r_ho s) (mgs (r_magics s)) t (drop 2 ci) = (orc, ho, nak, m)"
      by (metis prod_cases4)
    define u where "u = req_settle rej t ci orc (s\<lparr>r_ho := ho, r_nak := r_nak s @ nak,
        r_magics := (if m then Suc (r_magics s) else r_magics s)\<rparr>)"
    have n: "2 \<le> n" "n \<le> length l" "ci \<noteq> []" "length ci = n"
      using False by (auto simp: bad_ci_def n_def ci_def)
    have "4 * length nak \<le> 5 * length ci"
      using req_ci_nak(3) [OF r] n by simp
    then have inv: "req_inv go ao rej (seen @ ci) u"
      unfolding u_def using "1.prems" req_ci_ho [OF r] req_ci_nak [OF r] n
      by (intro req_inv_settle) (auto simp: req_inv_def nak_magics_def)
    have ne: "l \<noteq> []" "\<not> bad_ci l"
      using False by auto
    have "lcp_req_loop go ao rej mgs l s = lcp_req_loop go ao rej mgs (drop n l) u"
      using False by (subst lcp_req_loop.simps) (simp add: r [unfolded t_def ci_def n_def] u_def t_def n_def ci_def Let_def
          del: One_nat_def)
    moreover have "req_inv go ao rej ((seen @ ci) @ drop n l) (lcp_req_loop go ao rej mgs (drop n l) u)"
      by (rule "1.IH" [OF ne(1,2) t_def n_def r [unfolded ci_def, symmetric] refl refl refl refl,
            folded ci_def, folded u_def, OF inv])
    ultimately show ?thesis by (simp add: ci_def)
  qed
qed

text \<open>What holds when the whole request has been judged.\<close>

lemma req_inv_start: "req_inv go ao rej [] req_start"
  by (auto simp: req_inv_def req_start_def ho_ok_def lcp_zero_def nak_magics_def intro!: exI [of _ "[]"])

lemma lcp_req_loop_start:
  "req_inv go ao rej l (lcp_req_loop go ao rej mgs l req_start)"
  using lcp_req_loop_inv [OF req_inv_start] by simp

section \<open>Our own request, judged by a peer\<close>

lemma req_loop_step:
  assumes "unat n = length body + 2"
    and "lcp_req_ci go ao (r_ho s) (mgs (r_magics s)) t body = (Ack, ho, [], False)"
    and "r_rc s = Ack"
  shows "lcp_req_loop go ao rej mgs (t # n # body @ q) s = lcp_req_loop go ao rej mgs q (s\<lparr>r_ho := ho\<rparr>)"
  using assms by (subst lcp_req_loop.simps) (simp add: bad_ci_def req_settle_def)

lemma req_loop_mru:
  assumes "r_rc s = Ack" and "c \<longrightarrow> neg_mru ao \<and> MINMRU \<le> v \<and> v < 65536"
  shows "lcp_req_loop go ao rej mgs (addcishort CI_MRU c v @ q) s =
         lcp_req_loop go ao rej mgs q (s\<lparr>r_ho := (r_ho s)\<lparr>neg_mru := neg_mru (r_ho s) \<or> c, mru := (if c then v else mru (r_ho s))\<rparr>\<rparr>)"
proof (cases c)
  case True
  have "lcp_req_ci go ao (r_ho s) mg CI_MRU (putshort v) =
      (Ack, (r_ho s)\<lparr>neg_mru := True, mru := v\<rparr>, [], False)" for mg
    using assms True getshort_putshort [of v]
    by (simp add: lcp_req_ci_def lcp_req_mru_def putshort_def Let_def MINMRU_def)
  with True assms(1) show ?thesis
    using req_loop_step [of 4 "putshort v" go ao s mgs CI_MRU _ rej q]
    by (simp add: addcishort_def)
qed (simp add: addcishort_def)

lemma req_loop_asyncmap:
  assumes "r_rc s = Ack" and "c \<longrightarrow> neg_asyncmap ao \<and> asyncmap ao AND NOT v = 0"
  shows "lcp_req_loop go ao rej mgs (addcilong CI_ASYNCMAP c v @ q) s =
         lcp_req_loop go ao rej mgs q (s\<lparr>r_ho := (r_ho s)\<lparr>neg_asyncmap := neg_asyncmap (r_ho s) \<or> c,
           asyncmap := (if c then v else asyncmap (r_ho s))\<rparr>\<rparr>)"
proof (cases c)
  case True
  have "lcp_req_ci go ao (r_ho s) mg CI_ASYNCMAP (putlong v) =
      (Ack, (r_ho s)\<lparr>neg_asyncmap := True, asyncmap := v\<rparr>, [], False)" for mg
    using assms True 
    by (simp add: lcp_req_ci_def lcp_req_asyncmap_def putlong_def getlong_putlong Let_def ppp_consts)
  with True assms(1) show ?thesis
    using req_loop_step [of 6 "putlong v" go ao s mgs CI_ASYNCMAP _ rej q]
    by (simp add: addcilong_def)
qed (simp add: addcilong_def)

lemma req_loop_chap:
  assumes "r_rc s = Ack" and "c \<longrightarrow> neg_chap ao \<and> \<not> neg_upap (r_ho s) \<and> dg = CHAP_DIGEST_MD5"
  shows "lcp_req_loop go ao rej mgs (addcichap CI_AUTHTYPE c PPP_CHAP dg @ q) s =
         lcp_req_loop go ao rej mgs q (s\<lparr>r_ho := (r_ho s)\<lparr>chap_mdtype := (if c then dg else chap_mdtype (r_ho s)),
           neg_chap := neg_chap (r_ho s) \<or> c\<rparr>\<rparr>)"
proof (cases c)
  case True
  have "lcp_req_ci go ao (r_ho s) mg CI_AUTHTYPE (putshort PPP_CHAP @ [dg]) =
      (Ack, (r_ho s)\<lparr>chap_mdtype := dg, neg_chap := True\<rparr>, [], False)" for mg
    using assms True getshort_putshort [of PPP_CHAP]
    by (simp add: lcp_req_ci_def lcp_req_auth_def putshort_def Let_def ppp_consts)
  with True assms(1) show ?thesis
    using req_loop_step [of 5 "putshort PPP_CHAP @ [dg]" go ao s mgs CI_AUTHTYPE _ rej q]
    by (simp add: addcichap_def)
qed (simp add: addcichap_def)

lemma req_loop_pap:
  assumes "r_rc s = Ack" and "c \<longrightarrow> neg_upap ao \<and> \<not> neg_chap (r_ho s)"
  shows "lcp_req_loop go ao rej mgs (addcishort CI_AUTHTYPE c PPP_PAP @ q) s =
         lcp_req_loop go ao rej mgs q (s\<lparr>r_ho := (r_ho s)\<lparr>neg_upap := neg_upap (r_ho s) \<or> c\<rparr>\<rparr>)"
proof (cases c)
  case True
  have "lcp_req_ci go ao (r_ho s) mg CI_AUTHTYPE (putshort PPP_PAP) =
      (Ack, (r_ho s)\<lparr>neg_upap := True\<rparr>, [], False)" for mg
    using assms True getshort_putshort [of PPP_PAP]
    by (simp add: lcp_req_ci_def lcp_req_auth_def putshort_def Let_def ppp_consts)
  with True assms(1) show ?thesis
    using req_loop_step [of 4 "putshort PPP_PAP" go ao s mgs CI_AUTHTYPE _ rej q]
    by (simp add: addcishort_def)
qed (simp add: addcishort_def)

lemma req_loop_magic:
  assumes "r_rc s = Ack" and "c \<longrightarrow> (neg_magicnumber ao \<or> neg_magicnumber go) \<and> \<not> (neg_magicnumber go \<and> v = magicnumber go)"
  shows "lcp_req_loop go ao rej mgs (addcilong CI_MAGICNUMBER c v @ q) s =
         lcp_req_loop go ao rej mgs q (s\<lparr>r_ho := (r_ho s)\<lparr>neg_magicnumber := neg_magicnumber (r_ho s) \<or> c,
           magicnumber := (if c then v else magicnumber (r_ho s))\<rparr>\<rparr>)"
proof (cases c)
  case True
  have "lcp_req_ci go ao (r_ho s) mg CI_MAGICNUMBER (putlong v) =
      (Ack, (r_ho s)\<lparr>neg_magicnumber := True, magicnumber := v\<rparr>, [], False)" for mg
    using assms True 
    by (simp add: lcp_req_ci_def lcp_req_magic_def putlong_def getlong_putlong Let_def ppp_consts)
  with True assms(1) show ?thesis
    using req_loop_step [of 6 "putlong v" go ao s mgs CI_MAGICNUMBER _ rej q]
    by (simp add: addcilong_def)
qed (simp add: addcilong_def)

lemma req_loop_pcompression:
  assumes "r_rc s = Ack" and "c \<longrightarrow> neg_pcompression ao"
  shows "lcp_req_loop go ao rej mgs (addcivoid CI_PCOMPRESSION c @ q) s =
         lcp_req_loop go ao rej mgs q (s\<lparr>r_ho := (r_ho s)\<lparr>neg_pcompression := neg_pcompression (r_ho s) \<or> c\<rparr>\<rparr>)"
proof (cases c)
  case True
  have "lcp_req_ci go ao (r_ho s) mg CI_PCOMPRESSION ([]) =
      (Ack, (r_ho s)\<lparr>neg_pcompression := True\<rparr>, [], False)" for mg
    using assms True 
    by (simp add: lcp_req_ci_def ppp_consts)
  with True assms(1) show ?thesis
    using req_loop_step [of 2 "[]" go ao s mgs CI_PCOMPRESSION _ rej q]
    by (simp add: addcivoid_def)
qed (simp add: addcivoid_def)

lemma req_loop_accompression:
  assumes "r_rc s = Ack" and "c \<longrightarrow> neg_accompression ao"
  shows "lcp_req_loop go ao rej mgs (addcivoid CI_ACCOMPRESSION c @ q) s =
         lcp_req_loop go ao rej mgs q (s\<lparr>r_ho := (r_ho s)\<lparr>neg_accompression := neg_accompression (r_ho s) \<or> c\<rparr>\<rparr>)"
proof (cases c)
  case True
  have "lcp_req_ci go ao (r_ho s) mg CI_ACCOMPRESSION ([]) =
      (Ack, (r_ho s)\<lparr>neg_accompression := True\<rparr>, [], False)" for mg
    using assms True 
    by (simp add: lcp_req_ci_def ppp_consts)
  with True assms(1) show ?thesis
    using req_loop_step [of 2 "[]" go ao s mgs CI_ACCOMPRESSION _ rej q]
    by (simp add: addcivoid_def)
qed (simp add: addcivoid_def)

lemma req_loop_lqr:
  assumes "r_rc s = Ack" and "c \<longrightarrow> neg_lqr ao"
  shows "lcp_req_loop go ao rej mgs (addcilqr CI_QUALITY c v @ q) s = lcp_req_loop go ao rej mgs q s"
proof (cases c)
  case True
  have "lcp_req_ci go ao (r_ho s) mg CI_QUALITY (putshort PPP_LQR @ putlong v) = (Ack, r_ho s, [], False)" for mg
    using assms True getshort_putshort [of PPP_LQR]
    by (simp add: lcp_req_ci_def lcp_req_lqr_def putshort_def putlong_def Let_def ppp_consts)
  with True assms(1) show ?thesis
    using req_loop_step [of 8 "putshort PPP_LQR @ putlong v" go ao s mgs CI_QUALITY _ rej q]
    by (simp add: addcilqr_def)
qed (simp add: addcilqr_def)

lemma lcp_req_loop_accepts:
  assumes "acceptable go ao req"
  shows "lcp_req_loop go ao rej mgs (lcp_addci req) req_start = req_start\<lparr>r_ho := learned req\<rparr>"
proof -
  have cb: "addcichar CI_CALLBACK (neg_cbcp req) CBCP_OPT = []"
    using assms by (simp add: acceptable_def addcichar_def)
  have fin: "lcp_req_loop go ao rej mgs (addcivoid CI_ACCOMPRESSION (neg_accompression req)) s =
     s\<lparr>r_ho := (r_ho s)\<lparr>neg_accompression := neg_accompression (r_ho s) \<or> neg_accompression req\<rparr>\<rparr>"
    if "r_rc s = Ack" for s
    using req_loop_accompression [of s "neg_accompression req" ao go rej mgs "[]"] that assms
    by (simp add: acceptable_def lcp_req_loop.simps [of _ _ _ _ "[]"])
  have z: "r_rc req_start = Ack" "r_ho req_start = lcp_zero" "\<not> neg_upap lcp_zero" "\<not> neg_chap lcp_zero"
    "\<not> neg_mru lcp_zero" "\<not> neg_asyncmap lcp_zero" "\<not> neg_magicnumber lcp_zero" "\<not> neg_pcompression lcp_zero"
    "\<not> neg_accompression lcp_zero" "mru lcp_zero = 0" "asyncmap lcp_zero = 0" "chap_mdtype lcp_zero = 0"
    "magicnumber lcp_zero = 0"
    by (simp_all add: req_start_def lcp_zero_def)
  show ?thesis
    using assms unfolding lcp_addci_def acceptable_def learned_def cb
    by (simp add: req_loop_mru req_loop_asyncmap req_loop_chap req_loop_pap req_loop_lqr req_loop_magic
        req_loop_pcompression fin z Let_def)
qed

end
