(* ===== verification/Fsm_Inv.thy ===== *)
theory Fsm_Inv
  imports Fsm
begin

text \<open>
  The interface between the automaton and a protocol that uses it, and what holds for every
  such protocol. The retransmission timer of an automaton is armed exactly in the states
  \<open>CLOSING\<close> to \<open>ACKSENT\<close>, and then once (\<open>timer_inv\<close>). The locale \<open>fsm_client\<close> states what a
  callback table must keep for that; its lemmas show that every operation of \<^verbatim>\<open>fsm.c\<close> keeps
  the invariant but one: \<^verbatim>\<open>fsm_rtermack\<close> in \<open>OPENED\<close>.
\<close>

section \<open>Definitions\<close>

definition timed :: "fsm_state \<Rightarrow> bool" where
  "timed s \<longleftrightarrow> s \<in> {CLOSING, STOPPING, REQSENT, ACKRCVD, ACKSENT}"

abbreviation timers :: "fsm_id \<Rightarrow> 'a fsm_world_scheme \<Rightarrow> nat" where
  "timers i w \<equiv> pending FSM_TIMEOUT (ARG_FSM i) w"

definition timer_inv :: "fsm_id \<Rightarrow> 'a fsm_world_scheme \<Rightarrow> bool" where
  "timer_inv i w \<longleftrightarrow> timers i w = (if timed (state_of i w) then 1 else 0)"

text \<open>A callback is quiet when it leaves the automaton and its timer alone.\<close>

definition fsm_quiet :: "fsm_id \<Rightarrow> 'a fsm_world_scheme \<Rightarrow> 'a fsm_world_scheme \<Rightarrow> bool" where
  "fsm_quiet i w w' \<longleftrightarrow> fsms w' i = fsms w i \<and> timers i w' = timers i w"

text \<open>What \<^verbatim>\<open>fsm_sconfreq\<close> does to the automaton it is called for.\<close>

definition sconfreq_fsm :: "bool \<Rightarrow> fsm \<Rightarrow> fsm" where
  "sconfreq_fsm retransmit f =
     (let f = (if f_state f \<noteq> REQSENT \<and> f_state f \<noteq> ACKRCVD \<and> f_state f \<noteq> ACKSENT
               then f\<lparr>f_nakloops := 0\<rparr> else f);
          f = (if \<not> retransmit
               then f\<lparr>f_retransmits := f_maxconfreqtransmits f,
                      f_id := f_id f + 1, f_reqid := f_id f + 1\<rparr>
               else f)
      in f\<lparr>f_seen_ack := False, f_retransmits := f_retransmits f - 1\<rparr>)"

lemma sconfreq_fsm_simps [simp]:
  "f_state (sconfreq_fsm r f) = f_state f"
  "f_flags (sconfreq_fsm r f) = f_flags f"
  "f_seen_ack (sconfreq_fsm r f) = False"
  "f_maxconfreqtransmits (sconfreq_fsm r f) = f_maxconfreqtransmits f"
  "f_retransmits (sconfreq_fsm True f) = f_retransmits f - 1"
  "f_retransmits (sconfreq_fsm False f) = f_maxconfreqtransmits f - 1"
  "f_reqid (sconfreq_fsm False f) = f_id f + 1"
  "f_reqid (sconfreq_fsm True f) = f_reqid f"
  by (simp_all add: sconfreq_fsm_def Let_def)

lemma timed_simps [simp]:
  "\<not> timed INITIAL" "\<not> timed STARTING" "\<not> timed CLOSED" "\<not> timed STOPPED" "\<not> timed OPENED"
  "timed CLOSING" "timed STOPPING" "timed REQSENT" "timed ACKRCVD" "timed ACKSENT"
  by (simp_all add: timed_def)

lemma timer_inv_upd_fsm:
  "f_state (g (fsms w i)) = state_of i w \<Longrightarrow> timer_inv i (upd_fsm i g w) = timer_inv i w"
  by (simp add: timer_inv_def)

lemma timer_inv_set_state [simp]:
  "timer_inv i (set_state i s w) \<longleftrightarrow> timers i w = (if timed s then 1 else 0)"
  by (simp add: timer_inv_def)

lemma timer_invD: "timer_inv i w \<Longrightarrow> timers i w = (if timed (state_of i w) then 1 else 0)"
  by (simp add: timer_inv_def)

lemma timer_inv_sdata [simp]: "timer_inv i (fsm_sdata j code idn d n w) = timer_inv i w"
  by (simp add: timer_inv_def)

lemma quiet_timer_inv: "fsm_quiet i w w' \<Longrightarrow> timer_inv i w' = timer_inv i w"
  by (simp add: timer_inv_def fsm_quiet_def)

lemma fsm_sterm_state [simp]: "state_of i (fsm_sterm i w) = state_of i w"
  by (simp add: fsm_sterm_fsm)

locale fsm_client =
  fixes cb :: "'a fsm_world_scheme fsm_callbacks" and i :: fsm_id
  assumes resetci_quiet: "cb_resetci cb = Some g \<Longrightarrow> fsm_quiet i w (g w)"
    and cilen_quiet: "cb_cilen cb = Some c \<Longrightarrow> fsm_quiet i w (snd (c w))"
    and addci_quiet: "cb_addci cb = Some d \<Longrightarrow> fsm_quiet i w (snd (snd (d n w)))"
    and reqci_quiet: "cb_reqci cb = Some q \<Longrightarrow> fsm_quiet i w (snd (snd (q inp rej w)))"
    and down_quiet: "cb_down cb = Some g \<Longrightarrow> fsm_quiet i w (g w)"
    and retransmit_quiet: "cb_retransmit cb = Some g \<Longrightarrow> fsm_quiet i w (g w)"
    and up_inv: "cb_up cb = Some g \<Longrightarrow> timer_inv i w \<Longrightarrow> timer_inv i (g w)"
    and starting_inv: "cb_starting cb = Some g \<Longrightarrow> timer_inv i w \<Longrightarrow> timer_inv i (g w)"
    and finished_inv: "cb_finished cb = Some g \<Longrightarrow> timer_inv i w \<Longrightarrow> timer_inv i (g w)"
    and ackci_quiet: "cb_ackci cb = Some k \<Longrightarrow> fsm_quiet i w (snd (k inp w))"
    and rejci_quiet: "cb_rejci cb = Some p \<Longrightarrow> fsm_quiet i w (snd (p inp w))"
    and nakci_inv: "cb_nakci cb = Some p \<Longrightarrow> timer_inv i w \<Longrightarrow> timer_inv i (snd (p inp w))"
    and extcode_inv:
      "cb_extcode cb = Some e \<Longrightarrow> timer_inv i w \<Longrightarrow> timer_inv i (snd (e code idn inp w))"
begin

lemma quiet_resetci: "fsm_quiet i w (call_opt (cb_resetci cb) w)"
  by (rule call_opt_cases) (simp_all add: fsm_quiet_def resetci_quiet [unfolded fsm_quiet_def])

lemma quiet_down: "fsm_quiet i w (call_opt (cb_down cb) w)"
  by (rule call_opt_cases) (simp_all add: fsm_quiet_def down_quiet [unfolded fsm_quiet_def])

lemma quiet_retransmit: "fsm_quiet i w (call_opt (cb_retransmit cb) w)"
  by (rule call_opt_cases) (simp_all add: fsm_quiet_def retransmit_quiet [unfolded fsm_quiet_def])

lemmas quiet_simps [simp] =
  quiet_resetci [unfolded fsm_quiet_def, THEN conjunct1]
  quiet_resetci [unfolded fsm_quiet_def, THEN conjunct2]
  quiet_down [unfolded fsm_quiet_def, THEN conjunct1]
  quiet_down [unfolded fsm_quiet_def, THEN conjunct2]
  quiet_retransmit [unfolded fsm_quiet_def, THEN conjunct1]
  quiet_retransmit [unfolded fsm_quiet_def, THEN conjunct2]

lemma call_up: "timer_inv i w \<Longrightarrow> timer_inv i (call_opt (cb_up cb) w)"
  by (rule call_opt_cases) (auto dest: up_inv)

lemma call_starting: "timer_inv i w \<Longrightarrow> timer_inv i (call_opt (cb_starting cb) w)"
  by (rule call_opt_cases) (auto dest: starting_inv)

lemma call_finished: "timer_inv i w \<Longrightarrow> timer_inv i (call_opt (cb_finished cb) w)"
  by (rule call_opt_cases) (auto dest: finished_inv)

text \<open>The part of \<^verbatim>\<open>fsm_sconfreq\<close> that builds the request is quiet.\<close>

lemma make_confreq_quiet:
  assumes "fsm_make_confreq cb w = (n, w')"
  shows "fsms w' i = fsms w i \<and> timers i w' = timers i w"
proof (cases "cb_cilen cb = None \<or> cb_addci cb = None")
  case True
  with assms show ?thesis
    by (auto simp: fsm_make_confreq_def split: option.splits)
next
  case False
  then obtain c d where cd: "cb_cilen cb = Some c" "cb_addci cb = Some d"
    by auto
  obtain k v where c: "c w = (k, v)"
    by fastforce
  define m where "m = (if k > peer_mru v - int HEADERLEN then peer_mru v - int HEADERLEN else k)"
  obtain bs j u where d: "d m v = (bs, j, u)"
    by (cases "d m v") auto
  have "w' = put_outpacket (PPP_HDRLEN + HEADERLEN) bs u"
    using assms d by (simp add: fsm_make_confreq_def cd c m_def)
  moreover have "timers i (put_outpacket (PPP_HDRLEN + HEADERLEN) bs u) = timers i u"
    by (rule pending_cong) simp
  moreover have "fsm_quiet i w v" and "fsm_quiet i v u"
    using cilen_quiet [OF cd(1), of w] addci_quiet [OF cd(2), of v m] c d by simp_all
  ultimately show ?thesis
    by (simp add: fsm_quiet_def)
qed

lemma sconfreq_begin_fsm:
  "fsms (fsm_sconfreq_begin cb i r w) i =
     (sconfreq_fsm r (fsms w i))\<lparr>f_retransmits := f_retransmits (sconfreq_fsm r (fsms w i)) + 1\<rparr>"
  by (simp add: fsm_sconfreq_begin_def sconfreq_fsm_def Let_def)

lemma sconfreq_begin_timers: "timers i (fsm_sconfreq_begin cb i r w) = timers i w"
  by (simp add: fsm_sconfreq_begin_def Let_def)

lemma sconfreq_both:
  "fsms (fsm_sconfreq cb i r w) i = sconfreq_fsm r (fsms w i) \<and>
   timers i (fsm_sconfreq cb i r w) = Suc (timers i w)"
proof -
  obtain n v where m: "fsm_make_confreq cb (fsm_sconfreq_begin cb i r w) = (n, v)"
    by fastforce
  from make_confreq_quiet [OF m] show ?thesis
    by (simp add: fsm_sconfreq_def m sconfreq_begin_fsm sconfreq_begin_timers)
qed

lemma sconfreq_simps [simp]:
  "fsms (fsm_sconfreq cb i r w) i = sconfreq_fsm r (fsms w i)"
  "timers i (fsm_sconfreq cb i r w) = Suc (timers i w)"
  using sconfreq_both by blast+

lemma lowerup_inv: "timer_inv i w \<Longrightarrow> timer_inv i (fsm_lowerup cb i w)"
  by (cases "state_of i w") (auto simp: fsm_lowerup_def dest: timer_invD)

lemma lowerdown_inv: "timer_inv i w \<Longrightarrow> timer_inv i (fsm_lowerdown cb i w)"
  by (cases "state_of i w")
    (auto simp: fsm_lowerdown_def timer_inv_def [of i "pppuntimeout _ _ _"]
      dest: timer_invD intro!: call_starting)

lemma open_inv: "timer_inv i w \<Longrightarrow> timer_inv i (fsm_open cb i w)"
proof -
  assume inv: "timer_inv i w"
  have restart: "timer_inv i (fsm_lowerup cb i (fsm_lowerdown cb i v))" if "timer_inv i v" for v
    using that by (intro lowerup_inv lowerdown_inv)
  have "timer_inv i (set_state i STOPPING w)" if "state_of i w = CLOSING"
    using inv that by (simp add: timer_inv_def)
  moreover have "timer_inv i (set_state i STARTING w)" if "state_of i w = INITIAL"
    using inv that by (simp add: timer_inv_def)
  moreover have "timer_inv i (set_state i REQSENT (fsm_sconfreq cb i False w))"
    and "timer_inv i (set_state i STOPPED w)" if "state_of i w = CLOSED"
    using inv that by (simp_all add: timer_inv_def)
  ultimately show ?thesis
    using inv
    by (cases "state_of i w") (simp_all add: fsm_open_def Let_def restart call_starting)
qed

lemma close_inv: "timer_inv i w \<Longrightarrow> timer_inv i (fsm_close cb i reason w)"
  by (cases "state_of i w") (auto simp: fsm_close_def timer_inv_def Let_def)

text \<open>When the timer fires, its entry has just been taken off the callout list.\<close>

lemma timeout_inv: "timers i w = 0 \<Longrightarrow> timer_inv i (fsm_timeout cb i w)"
proof -
  assume none: "timers i w = 0"
  have fin: "timer_inv i (call_opt (cb_finished cb) (set_state i s w))" if "\<not> timed s" for s
    using none that by (intro call_finished) (simp add: timer_inv_def)
  show ?thesis
    using none fin
    by (cases "state_of i w") (auto simp: fsm_timeout_def timer_inv_def Let_def)
qed

lemma rconfreq_enter_inv:
  assumes "timer_inv i w" and "state_of i w \<notin> {INITIAL, STARTING}"
    and "fsm_rconfreq_enter cb i idn w = (w', go_on)"
  shows "if go_on then timers i w' = 1 \<and> state_of i w' \<in> {OPENED, REQSENT, ACKRCVD, ACKSENT}
         else timer_inv i w'"
  using assms
  by (cases "state_of i w") (auto simp: fsm_rconfreq_enter_def dest: timer_invD)

lemma rconfreq_reply_inv:
  assumes "timers i w = 1" and "state_of i w \<in> {OPENED, REQSENT, ACKRCVD, ACKSENT}"
  shows "timer_inv i (fsm_rconfreq_reply cb i idn code inp w)"
proof -
  have up: "timer_inv i (call_opt (cb_up cb)
      (set_state i OPENED (pppuntimeout FSM_TIMEOUT (ARG_FSM i) (fsm_sdata i code idn d n w))))"
    for d n
    using assms by (auto intro!: call_up)
  moreover have "timer_inv i (fsm_sdata i code idn d n w)" if "state_of i w = ACKRCVD" for d n
    using assms that by (simp add: timer_inv_def)
  ultimately show ?thesis
    using assms by (auto simp: fsm_rconfreq_reply_def Let_def timer_inv_upd_fsm)
qed

lemma rconfreq_inv:
  assumes inv: "timer_inv i w" and st: "state_of i w \<notin> {INITIAL, STARTING}"
  shows "timer_inv i (fsm_rconfreq cb i idn inp w)"
proof -
  obtain v go_on where e: "fsm_rconfreq_enter cb i idn w = (v, go_on)"
    by fastforce
  note enter = rconfreq_enter_inv [OF inv st e]
  define rej where "rej = (f_nakloops (fsms v i) \<ge> f_maxnakloops (fsms v i))"
  obtain code inp' u where r: "(case cb_reqci cb of Some reqci \<Rightarrow> reqci inp rej v
      | None \<Rightarrow> (if inp \<noteq> [] then CONFREJ else CONFACK, inp, v)) = (code, inp', u)"
    by (metis prod_cases3)
  have "fsm_quiet i v u"
    using r reqci_quiet [of _ v inp rej] by (auto simp: fsm_quiet_def split: option.splits if_splits)
  with enter have "timer_inv i (fsm_rconfreq_reply cb i idn code inp' u)" if go_on
    using that by (intro rconfreq_reply_inv) (auto simp: fsm_quiet_def)
  with enter show ?thesis
    unfolding fsm_rconfreq_def e Let_def prod.case rej_def [symmetric] r by auto
qed

lemma rconfack_inv:
  assumes "timer_inv i w"
  shows "timer_inv i (fsm_rconfack cb i idn inp w)"
proof -
  obtain ok v where a: "(case cb_ackci cb of Some ackci \<Rightarrow> ackci inp w | None \<Rightarrow> (inp = [], w)) = (ok, v)"
    by fastforce
  have v: "timer_inv i v"
    using a assms quiet_timer_inv [OF ackci_quiet, of _ inp w] by (auto split: option.splits)
  then show ?thesis
    using assms by (cases "state_of i v")
      (auto simp: fsm_rconfack_def a Let_def timer_inv_upd_fsm dest: timer_invD intro!: call_up)
qed

lemma rconfnakrej_inv:
  assumes "timer_inv i w"
  shows "timer_inv i (fsm_rconfnakrej cb i code idn inp w)"
proof (cases "if code = CONFNAK then cb_nakci cb else cb_rejci cb")
  case None
  with assms show ?thesis by (simp add: fsm_rconfnakrej_def)
next
  case (Some proc)
  obtain ret v where p: "proc inp w = (ret, v)"
    by fastforce
  have v: "timer_inv i v"
    using Some p assms nakci_inv [of proc w inp] quiet_timer_inv [OF rejci_quiet, of proc inp w]
    by (auto split: if_splits)
  then show ?thesis
    using assms by (cases "state_of i v")
      (auto simp: fsm_rconfnakrej_def Some p Let_def timer_inv_upd_fsm
        timer_inv_def [of i "fsm_sconfreq cb i False _"] dest: timer_invD)
qed

lemma rtermreq_inv: "timer_inv i w \<Longrightarrow> timer_inv i (fsm_rtermreq cb i idn p w)"
  by (cases "state_of i w")
    (auto simp: fsm_rtermreq_def Let_def timer_inv_def [of i "ppptimeout _ _ _ _"] dest: timer_invD)

lemma rtermack_inv:
  "timer_inv i w \<Longrightarrow> state_of i w \<noteq> OPENED \<Longrightarrow> timer_inv i (fsm_rtermack cb i w)"
  by (cases "state_of i w") (auto simp: fsm_rtermack_def dest: timer_invD intro!: call_finished)

lemma rtermack_opened:
  "timer_inv i w \<Longrightarrow> state_of i w = OPENED \<Longrightarrow>
   state_of i (fsm_rtermack cb i w) = OPENED \<and> timers i (fsm_rtermack cb i w) = 1"
  by (auto simp: fsm_rtermack_def dest: timer_invD)

lemma rcoderej_inv: "timer_inv i w \<Longrightarrow> timer_inv i (fsm_rcoderej i inp w)"
  by (auto simp: fsm_rcoderej_def dest: timer_invD)

lemma protreject_inv: "timer_inv i w \<Longrightarrow> timer_inv i (fsm_protreject cb i w)"
  by (cases "state_of i w")
    (auto simp: fsm_protreject_def Let_def dest: timer_invD intro!: call_finished)

lemma dispatch_inv:
  assumes "timer_inv i w" and "state_of i w \<notin> {INITIAL, STARTING}"
    and "code = TERMACK \<longrightarrow> state_of i w \<noteq> OPENED"
  shows "timer_inv i (fsm_dispatch cb i inpacket code idn inp w)"
proof -
  obtain handled v where e: "(case cb_extcode cb of None \<Rightarrow> (False, w)
      | Some extcode \<Rightarrow> extcode code idn inp w) = (handled, v)"
    by fastforce
  have "timer_inv i v"
    using e assms(1) extcode_inv [of _ w code idn inp] by (auto split: option.splits)
  then show ?thesis
    using assms
    by (auto simp: fsm_dispatch_def e Let_def timer_inv_upd_fsm
        intro: rconfreq_inv rconfack_inv rconfnakrej_inv rtermreq_inv rtermack_inv rcoderej_inv)
qed

lemma input_inv:
  assumes "timer_inv i w"
    and "inpacket \<noteq> [] \<Longrightarrow> hd inpacket = TERMACK \<Longrightarrow> state_of i w \<noteq> OPENED"
  shows "timer_inv i (fsm_input cb i inpacket w)"
  using assms
  by (auto simp: fsm_input_def Let_def split: list.split intro!: dispatch_inv)

end

end
