(* ===== verification/Fsm_Rfc.thy ===== *)
theory Fsm_Rfc
  imports Fsm_Inv
begin

text \<open>
  Refinement of the automaton: \<open>rfc_next\<close> is the state transition table of RFC 1661 (section
  4.1) as an abstract machine on the ten states, with the options \<^verbatim>\<open>silent\<close> and \<^verbatim>\<open>passive\<close> of
  the daemon as parameters and the final layer action (\<open>Tlu\<close>, \<open>Tls\<close>, \<open>Tlf\<close>) of an entry. For
  every client of the automaton, each function of \<^verbatim>\<open>fsm.c\<close> takes the transition that the
  table has for its event and makes the layer action as its last callback (\<open>ends_in\<close>). The
  exception is \<open>RTA\<close> in \<open>OPENED\<close>, which the lemmas leave out.
\<close>

section \<open>Definitions\<close>

datatype cp_event =
    Up | Down | Open | Close | TO_plus | TO_minus | RCR_plus | RCR_minus | RCA | RCN
  | RTR | RTA | RUC | RXJ_plus | RXJ_minus

datatype layer_action = No_Action | Tlu | Tls | Tlf

fun rfc_next :: "bool \<Rightarrow> bool \<Rightarrow> cp_event \<Rightarrow> fsm_state \<Rightarrow> fsm_state \<times> layer_action" where
  "rfc_next silent passive Up s =
     (case s of INITIAL \<Rightarrow> (CLOSED, No_Action)
      | STARTING \<Rightarrow> (if silent then STOPPED else REQSENT, No_Action) | _ \<Rightarrow> (s, No_Action))"
| "rfc_next silent passive Down s =
     (case s of CLOSED \<Rightarrow> (INITIAL, No_Action) | STOPPED \<Rightarrow> (STARTING, Tls)
      | CLOSING \<Rightarrow> (INITIAL, No_Action) | INITIAL \<Rightarrow> (INITIAL, No_Action)
      | _ \<Rightarrow> (STARTING, No_Action))"
| "rfc_next silent passive Open s =
     (case s of INITIAL \<Rightarrow> (STARTING, Tls)
      | CLOSED \<Rightarrow> (if silent then STOPPED else REQSENT, No_Action)
      | CLOSING \<Rightarrow> (STOPPING, No_Action) | _ \<Rightarrow> (s, No_Action))"
| "rfc_next silent passive Close s =
     (case s of INITIAL \<Rightarrow> (INITIAL, No_Action) | STARTING \<Rightarrow> (INITIAL, No_Action)
      | CLOSED \<Rightarrow> (CLOSED, No_Action) | STOPPED \<Rightarrow> (CLOSED, No_Action)
      | _ \<Rightarrow> (CLOSING, No_Action))"
| "rfc_next silent passive TO_plus s =
     (case s of ACKRCVD \<Rightarrow> (REQSENT, No_Action) | _ \<Rightarrow> (s, No_Action))"
| "rfc_next silent passive TO_minus s =
     (case s of CLOSING \<Rightarrow> (CLOSED, Tlf) | STOPPING \<Rightarrow> (STOPPED, Tlf)
      | REQSENT \<Rightarrow> (STOPPED, if passive then No_Action else Tlf)
      | ACKRCVD \<Rightarrow> (STOPPED, if passive then No_Action else Tlf)
      | ACKSENT \<Rightarrow> (STOPPED, if passive then No_Action else Tlf)
      | _ \<Rightarrow> (s, No_Action))"
| "rfc_next silent passive RCR_plus s =
     (case s of STOPPED \<Rightarrow> (ACKSENT, No_Action) | REQSENT \<Rightarrow> (ACKSENT, No_Action)
      | ACKRCVD \<Rightarrow> (OPENED, Tlu) | ACKSENT \<Rightarrow> (ACKSENT, No_Action) | OPENED \<Rightarrow> (ACKSENT, No_Action)
      | _ \<Rightarrow> (s, No_Action))"
| "rfc_next silent passive RCR_minus s =
     (case s of STOPPED \<Rightarrow> (REQSENT, No_Action) | REQSENT \<Rightarrow> (REQSENT, No_Action)
      | ACKRCVD \<Rightarrow> (ACKRCVD, No_Action) | ACKSENT \<Rightarrow> (REQSENT, No_Action)
      | OPENED \<Rightarrow> (REQSENT, No_Action) | _ \<Rightarrow> (s, No_Action))"
| "rfc_next silent passive RCA s =
     (case s of REQSENT \<Rightarrow> (ACKRCVD, No_Action) | ACKRCVD \<Rightarrow> (REQSENT, No_Action)
      | ACKSENT \<Rightarrow> (OPENED, Tlu) | OPENED \<Rightarrow> (REQSENT, No_Action) | _ \<Rightarrow> (s, No_Action))"
| "rfc_next silent passive RCN s =
     (case s of ACKRCVD \<Rightarrow> (REQSENT, No_Action) | OPENED \<Rightarrow> (REQSENT, No_Action)
      | _ \<Rightarrow> (s, No_Action))"
| "rfc_next silent passive RTR s =
     (case s of ACKRCVD \<Rightarrow> (REQSENT, No_Action) | ACKSENT \<Rightarrow> (REQSENT, No_Action)
      | OPENED \<Rightarrow> (STOPPING, No_Action) | _ \<Rightarrow> (s, No_Action))"
| "rfc_next silent passive RTA s =
     (case s of CLOSING \<Rightarrow> (CLOSED, Tlf) | STOPPING \<Rightarrow> (STOPPED, Tlf)
      | ACKRCVD \<Rightarrow> (REQSENT, No_Action) | OPENED \<Rightarrow> (REQSENT, No_Action) | _ \<Rightarrow> (s, No_Action))"
| "rfc_next silent passive RUC s = (s, No_Action)"
| "rfc_next silent passive RXJ_plus s =
     (case s of ACKRCVD \<Rightarrow> (REQSENT, No_Action) | _ \<Rightarrow> (s, No_Action))"
| "rfc_next silent passive RXJ_minus s =
     (case s of CLOSED \<Rightarrow> (CLOSED, Tlf) | STOPPED \<Rightarrow> (STOPPED, Tlf) | CLOSING \<Rightarrow> (CLOSED, Tlf)
      | STOPPING \<Rightarrow> (STOPPED, Tlf) | REQSENT \<Rightarrow> (STOPPED, Tlf) | ACKRCVD \<Rightarrow> (STOPPED, Tlf)
      | ACKSENT \<Rightarrow> (STOPPED, Tlf) | OPENED \<Rightarrow> (STOPPING, No_Action) | _ \<Rightarrow> (s, No_Action))"

text \<open>The table for the options of an automaton, and the callback that makes a layer action.\<close>

definition rfc_of :: "fsm \<Rightarrow> cp_event \<Rightarrow> fsm_state \<times> layer_action" where
  "rfc_of f ev = rfc_next (f_flags f AND OPT_SILENT \<noteq> 0) (f_flags f AND OPT_PASSIVE \<noteq> 0) ev (f_state f)"

fun action_cb :: "'w fsm_callbacks \<Rightarrow> layer_action \<Rightarrow> ('w \<Rightarrow> 'w) option" where
  "action_cb cb No_Action = None"
| "action_cb cb Tlu = cb_up cb"
| "action_cb cb Tls = cb_starting cb"
| "action_cb cb Tlf = cb_finished cb"

text \<open>
  \<open>w'\<close> is reached by entering the state of the table, then calling the callback of the action,
  then at most changing other fields of the same automaton.
\<close>

definition ends_in ::
  "'a fsm_world_scheme fsm_callbacks \<Rightarrow> fsm_id \<Rightarrow> fsm_state \<times> layer_action \<Rightarrow>
   'a fsm_world_scheme \<Rightarrow> bool" where
  "ends_in cb i sa w' \<longleftrightarrow>
     (\<exists>v h. w' = upd_fsm i h (call_opt (action_cb cb (snd sa)) v) \<and> state_of i v = fst sa \<and>
            (\<forall>f. f_state (h f) = f_state f))"

text \<open>The reply that \<^verbatim>\<open>fsm_rconfreq\<close> sends, when it gets so far.\<close>

definition rconfreq_code ::
  "'a fsm_world_scheme fsm_callbacks \<Rightarrow> fsm_id \<Rightarrow> u8 \<Rightarrow> bytes \<Rightarrow> 'a fsm_world_scheme \<Rightarrow> u8" where
  "rconfreq_code cb i idn inp w =
     (let v = fst (fsm_rconfreq_enter cb i idn w) in
      case cb_reqci cb of
        Some reqci \<Rightarrow> fst (reqci inp (f_nakloops (fsms v i) \<ge> f_maxnakloops (fsms v i)) v)
      | None \<Rightarrow> if inp \<noteq> [] then CONFREJ else CONFACK)"

text \<open>Whether a Configure-Ack is for the current request and confirms its options.\<close>

definition rconfack_valid ::
  "'a fsm_world_scheme fsm_callbacks \<Rightarrow> fsm_id \<Rightarrow> u8 \<Rightarrow> bytes \<Rightarrow> 'a fsm_world_scheme \<Rightarrow> bool" where
  "rconfack_valid cb i idn inp w \<longleftrightarrow>
     idn = f_reqid (fsms w i) \<and> \<not> f_seen_ack (fsms w i) \<and>
     (case cb_ackci cb of Some ackci \<Rightarrow> fst (ackci inp w) | None \<Rightarrow> inp = [])"

section \<open>Simulation\<close>

lemma ends_in_upd:
  "w' = upd_fsm i h (call_opt (action_cb cb a) v) \<Longrightarrow> state_of i v = s \<Longrightarrow>
   (\<And>f. f_state (h f) = f_state f) \<Longrightarrow> ends_in cb i (s, a) w'"
  unfolding ends_in_def by auto

lemma upd_fsm_same: "upd_fsm i (\<lambda>f. f) w = w"
  by (simp add: upd_fsm_def)

lemma ends_inI [intro?]:
  "w' = call_opt (action_cb cb a) v \<Longrightarrow> state_of i v = s \<Longrightarrow> ends_in cb i (s, a) w'"
  by (rule ends_in_upd [of _ i "\<lambda>f. f"]) (simp_all add: upd_fsm_same)

lemma ends_in_No_Action: "state_of i w' = s \<Longrightarrow> ends_in cb i (s, No_Action) w'"
  by (rule ends_inI) simp_all

lemma ends_in_state: "ends_in cb i (s, No_Action) w' \<Longrightarrow> state_of i w' = s"
  by (auto simp: ends_in_def)

lemma ends_in_Tls: "state_of i v = s \<Longrightarrow> ends_in cb i (s, Tls) (call_opt (cb_starting cb) v)"
  by (rule ends_inI) simp_all

lemma ends_in_Tlf: "state_of i v = s \<Longrightarrow> ends_in cb i (s, Tlf) (call_opt (cb_finished cb) v)"
  by (rule ends_inI) simp_all

lemma ends_in_Tlu: "state_of i v = s \<Longrightarrow> ends_in cb i (s, Tlu) (call_opt (cb_up cb) v)"
  by (rule ends_inI) simp_all

lemma ends_in_Tlu_upd:
  "state_of i v = s \<Longrightarrow> (\<And>f. f_state (h f) = f_state f) \<Longrightarrow>
   ends_in cb i (s, Tlu) (upd_fsm i h (call_opt (cb_up cb) v))"
  by (rule ends_in_upd [of _ i h cb Tlu v]) simp_all

lemmas rfc_intros = ends_in_No_Action ends_in_Tls ends_in_Tlf ends_in_Tlu ends_in_Tlu_upd

context fsm_client
begin

lemma rfc_lowerup: "ends_in cb i (rfc_of (fsms w i) Up) (fsm_lowerup cb i w)"
  by (cases "state_of i w") (auto simp: rfc_of_def fsm_lowerup_def intro!: rfc_intros)

lemma rfc_lowerdown: "ends_in cb i (rfc_of (fsms w i) Down) (fsm_lowerdown cb i w)"
  by (cases "state_of i w")
    (auto simp: rfc_of_def fsm_lowerdown_def intro!: rfc_intros)

lemma rfc_open:
  "f_flags (fsms w i) AND OPT_RESTART = 0 \<Longrightarrow>
   ends_in cb i (rfc_of (fsms w i) Open) (fsm_open cb i w)"
  by (cases "state_of i w")
    (auto simp: rfc_of_def fsm_open_def Let_def intro!: rfc_intros)

lemma rfc_close: "ends_in cb i (rfc_of (fsms w i) Close) (fsm_close cb i reason w)"
  by (cases "state_of i w")
    (auto simp: rfc_of_def fsm_close_def Let_def intro!: rfc_intros)

lemma rfc_timeout:
  "ends_in cb i (rfc_of (fsms w i) (if f_retransmits (fsms w i) > 0 then TO_plus else TO_minus))
     (fsm_timeout cb i w)"
  by (cases "state_of i w")
    (auto simp: rfc_of_def fsm_timeout_def Let_def intro!: rfc_intros)

lemma rfc_rtermreq: "ends_in cb i (rfc_of (fsms w i) RTR) (fsm_rtermreq cb i idn p w)"
  by (cases "state_of i w")
    (auto simp: rfc_of_def fsm_rtermreq_def Let_def intro!: rfc_intros)

lemma rfc_rtermack:
  "state_of i w \<noteq> OPENED \<Longrightarrow> ends_in cb i (rfc_of (fsms w i) RTA) (fsm_rtermack cb i w)"
  by (cases "state_of i w")
    (auto simp: rfc_of_def fsm_rtermack_def intro!: rfc_intros)

lemma rfc_rcoderej:
  "length inp \<ge> HEADERLEN \<Longrightarrow> ends_in cb i (rfc_of (fsms w i) RXJ_plus) (fsm_rcoderej i inp w)"
  by (cases "state_of i w")
    (auto simp: rfc_of_def fsm_rcoderej_def intro!: rfc_intros)

lemma rfc_protreject: "ends_in cb i (rfc_of (fsms w i) RXJ_minus) (fsm_protreject cb i w)"
  by (cases "state_of i w")
    (auto simp: rfc_of_def fsm_protreject_def Let_def intro!: rfc_intros)

lemma rfc_rconfreq:
  assumes "state_of i w \<notin> {INITIAL, STARTING}"
  shows "ends_in cb i
     (rfc_of (fsms w i) (if rconfreq_code cb i idn inp w = CONFACK then RCR_plus else RCR_minus))
     (fsm_rconfreq cb i idn inp w)"
proof (cases "snd (fsm_rconfreq_enter cb i idn w)")
  case False
  with assms show ?thesis
    by (cases "state_of i w")
      (auto simp: rfc_of_def fsm_rconfreq_def fsm_rconfreq_enter_def Let_def intro!: rfc_intros)
next
  case True
  define v where "v = fst (fsm_rconfreq_enter cb i idn w)"
  have enter: "fsm_rconfreq_enter cb i idn w = (v, True)"
    using True by (simp add: v_def prod_eq_iff)
  have st: "(state_of i w, state_of i v) \<in>
     {(STOPPED, REQSENT), (OPENED, OPENED), (REQSENT, REQSENT), (ACKRCVD, ACKRCVD), (ACKSENT, ACKSENT)}"
    using assms True by (cases "state_of i w") (auto simp: v_def fsm_rconfreq_enter_def)
  define rej where "rej = (f_nakloops (fsms v i) \<ge> f_maxnakloops (fsms v i))"
  obtain code inp' u where r: "(case cb_reqci cb of Some reqci \<Rightarrow> reqci inp rej v
      | None \<Rightarrow> (if inp \<noteq> [] then CONFREJ else CONFACK, inp, v)) = (code, inp', u)"
    by (metis prod_cases3)
  have code: "rconfreq_code cb i idn inp w = code"
    using r by (auto simp: rconfreq_code_def v_def [symmetric] Let_def rej_def [symmetric]
        split: option.splits if_splits)
  have u: "state_of i u = state_of i v"
    using r reqci_quiet [of _ v inp rej] by (auto simp: fsm_quiet_def split: option.splits if_splits)
  have "fsm_rconfreq cb i idn inp w = fsm_rconfreq_reply cb i idn code inp' u"
    unfolding fsm_rconfreq_def enter Let_def prod.case rej_def [symmetric] r by simp
  with st u show ?thesis
    by (auto simp: code rfc_of_def fsm_rconfreq_reply_def Let_def intro!: rfc_intros)
qed

lemma rfc_rconfack:
  assumes "rconfack_valid cb i idn inp w"
  shows "ends_in cb i (rfc_of (fsms w i) RCA) (fsm_rconfack cb i idn inp w)"
proof -
  obtain v where a: "(case cb_ackci cb of Some ackci \<Rightarrow> ackci inp w | None \<Rightarrow> (inp = [], w)) = (True, v)"
    using assms
    by (cases "case cb_ackci cb of Some ackci \<Rightarrow> ackci inp w | None \<Rightarrow> (inp = [], w)")
      (auto simp: rconfack_valid_def split: option.splits)
  have v: "fsms v i = fsms w i"
    using a ackci_quiet [of _ w inp] by (auto simp: fsm_quiet_def split: option.splits)
  show ?thesis
    using assms v
    by (cases "state_of i w")
      (auto simp: rfc_of_def fsm_rconfack_def rconfack_valid_def a Let_def intro!: rfc_intros)
qed

text \<open>A Configure-Ack that is not valid changes nothing but what the check itself changes.\<close>

lemma rfc_rconfack_invalid:
  assumes "\<not> rconfack_valid cb i idn inp w"
  shows "fsms (fsm_rconfack cb i idn inp w) i = fsms w i"
proof -
  obtain ok v where a: "(case cb_ackci cb of Some ackci \<Rightarrow> ackci inp w | None \<Rightarrow> (inp = [], w)) = (ok, v)"
    by fastforce
  have v: "fsms v i = fsms w i"
    using a ackci_quiet [of _ w inp] by (auto simp: fsm_quiet_def split: option.splits)
  have "idn = f_reqid (fsms w i) \<Longrightarrow> \<not> f_seen_ack (fsms w i) \<Longrightarrow> \<not> ok"
    using assms a by (auto simp: rconfack_valid_def split: option.splits)
  with v show ?thesis
    by (auto simp: fsm_rconfack_def a)
qed

lemma rfc_rconfnakrej:
  assumes "idn = f_reqid (fsms w i)" and "\<not> f_seen_ack (fsms w i)"
    and "(if code = CONFNAK then cb_nakci cb else cb_rejci cb) = Some proc"
    and "proc inp w = (ret, v)" and "ret > 0" and "fsms v i = fsms w i"
  shows "ends_in cb i (rfc_of (fsms w i) RCN) (fsm_rconfnakrej cb i code idn inp w)"
  using assms
  by (cases "state_of i w")
    (auto simp: rfc_of_def fsm_rconfnakrej_def Let_def intro!: rfc_intros)

end

end
