(* ===== verification/Fsm_Wire.thy ===== *)
theory Fsm_Wire
  imports Fsm_Rfc
begin

text \<open>
  The packets of the automaton on the wire and its retransmission counter. \<open>control_frame\<close> is
  the frame of RFC 1661 for a code, identifier and data; \<^verbatim>\<open>fsm_sdata\<close> sends exactly that
  frame, cut to the peer's MRU, and \<^verbatim>\<open>fsm_input\<close> on the other side takes it apart again. The
  write into \<^verbatim>\<open>outpacket_buf\<close> stays inside the buffer as long as the peer's MRU is at most
  \<^verbatim>\<open>PPP_MRU\<close>. The last section shows that an automaton that hears nothing gives up after as
  many timeouts as it has transmissions left.
\<close>

section \<open>Definitions\<close>

definition control_frame :: "int \<Rightarrow> u8 \<Rightarrow> u8 \<Rightarrow> bytes \<Rightarrow> bytes" where
  "control_frame proto code idn bs =
     makeheader proto @ [code, idn] @ putshort (int (length bs) + int HEADERLEN) @ bs"

text \<open>What \<^verbatim>\<open>calltimeout\<close> does when the timer of the automaton is due.\<close>

definition fsm_expire ::
  "'a fsm_world_scheme fsm_callbacks \<Rightarrow> fsm_id \<Rightarrow> 'a fsm_world_scheme \<Rightarrow> 'a fsm_world_scheme" where
  "fsm_expire cb i w = fsm_timeout cb i (pppuntimeout FSM_TIMEOUT (ARG_FSM i) w)"

section \<open>Sending\<close>

lemma length_makeheader [simp]: "length (makeheader p) = 4"
  by (simp add: makeheader_def)

lemma fsm_sdata_sends:
  fixes w :: "'a fsm_world_scheme"
  assumes buf: "buf_ok w" and mru: "4 \<le> peer_mru w" "peer_mru w \<le> PPP_MRU"
    and n: "0 \<le> n" "n \<le> int (length bs)"
  defines "k \<equiv> nat (min n (peer_mru w - 4))"
  shows "outq (fsm_sdata i code idn (Data bs) n w) =
           outq w @ [(f_unit (fsms w i), control_frame (f_protocol (fsms w i)) code idn (take k bs))]"
    and "oob (fsm_sdata i code idn (Data bs) n w) = oob w"
proof -
  define hdr where "hdr = makeheader (f_protocol (fsms w i)) @ [code, idn] @ putshort (int k + 4)"
  have k: "int k = min n (peer_mru w - 4)" "k \<le> length bs" "k \<le> 1496"
    using mru n by (auto simp: k_def ppp_consts)
  have hdr: "length hdr = 8" by (simp add: hdr_def)
  have len: "length (outpacket_buf w) = 1504"
    using buf by (simp add: buf_ok_def ppp_consts)
  define w1 where "w1 = (if int k \<noteq> 0 then bcopy_outpacket 8 bs (int k) w else w)"
  have w1: "drop 8 (outpacket_buf w1) = take k bs @ drop (8 + k) (outpacket_buf w) \<and>
      oob w1 = oob w \<and> outq w1 = outq w \<and> length (outpacket_buf w1) = 1504 \<and> fsms w1 = fsms w"
  proof (cases "k = 0")
    case False
    have "w1 = w\<lparr>outpacket_buf := buf_write 8 (take k bs) (outpacket_buf w)\<rparr>"
      using False k(2,3) len by (simp add: w1_def bcopy_outpacket_def put_outpacket_def)
    with k(2,3) len show ?thesis
      by (simp add: drop_buf_write)
  qed (simp add: w1_def len)
  define w2 where "w2 = put_outpacket 0 hdr w1"
  have w2: "outpacket_buf w2 = hdr @ drop 8 (outpacket_buf w1)" "oob w2 = oob w" "outq w2 = outq w"
    "fsms w2 = fsms w"
    using w1 hdr by (auto simp: w2_def put_outpacket_def buf_write_def)
  have eq: "fsm_sdata i code idn (Data bs) n w = output_outpacket (f_unit (fsms w i)) (int k + 8) w2"
    using k(1) by (auto simp: fsm_sdata_def Let_def w2_def w1_def hdr_def ppp_consts min_def ac_simps)
  have "take (k + 8) (outpacket_buf w2) = hdr @ take k bs"
    using w2 w1 hdr k(2,3) by simp
  moreover have "length (outpacket_buf w2) = 1504"
    using w1 by (simp add: w2_def)
  moreover have "hdr @ take k bs = control_frame (f_protocol (fsms w i)) code idn (take k bs)"
    using k(2,3) by (simp add: control_frame_def hdr_def ppp_consts min_def)
  ultimately show "outq (fsm_sdata i code idn (Data bs) n w) =
           outq w @ [(f_unit (fsms w i), control_frame (f_protocol (fsms w i)) code idn (take k bs))]"
    and "oob (fsm_sdata i code idn (Data bs) n w) = oob w"
    using k(2,3) w2 by (simp_all add: eq output_outpacket_def nat_add_distrib)
qed

text \<open>With a larger MRU the write leaves the buffer.\<close>

lemma fsm_sdata_overflows:
  assumes "buf_ok w" and "n > PPP_MRU - 4" and "peer_mru w - 4 \<ge> n" and "n = int (length bs)"
  shows "oob (fsm_sdata i code idn (Data bs) n w)"
proof -
  have len: "length (outpacket_buf w) = 1504"
    using assms(1) by (simp add: buf_ok_def ppp_consts)
  have "oob (bcopy_outpacket 8 bs n w)"
    using assms len by (auto simp: bcopy_outpacket_def put_outpacket_def ppp_consts)
  moreover have "oob (put_outpacket j cs v)" if "oob v" for j cs and v :: "'a fsm_world_scheme"
    using that by (simp add: put_outpacket_def)
  moreover have "oob (output_outpacket u m v)" if "oob v" for u m and v :: "'a fsm_world_scheme"
    using that by (simp add: output_outpacket_def)
  ultimately show ?thesis
    using assms by (auto simp: fsm_sdata_def Let_def ppp_consts)
qed

section \<open>Receiving\<close>

lemma fsm_input_control_frame:
  assumes "length bs \<le> 65531" and "state_of i w \<notin> {INITIAL, STARTING}"
  shows "fsm_input cb i (drop 4 (control_frame proto code idn bs) @ pad) w =
         fsm_dispatch cb i (drop 4 (control_frame proto code idn bs) @ pad) code idn bs w"
proof -
  define len where "len = int (length bs) + 4"
  have "getshort (word_of_int (len div 256)) (word_of_int len) = len"
    using assms(1) by (intro getshort_putshort) (simp_all add: len_def)
  then show ?thesis
    using assms
    by (simp add: fsm_input_def control_frame_def makeheader_def putshort_def Let_def len_def
        ppp_consts nat_add_distrib)
qed

text \<open>Packets with a bad header are dropped.\<close>

lemma fsm_input_drops:
  assumes "length p < 4 \<or> getshort (p ! 2) (p ! 3) < 4 \<or> getshort (p ! 2) (p ! 3) > int (length p) \<or>
     state_of i w \<in> {INITIAL, STARTING}"
  shows "fsm_input cb i p w = w"
  using assms by (auto simp: fsm_input_def Let_def ppp_consts split: list.splits)

section \<open>Giving up\<close>

context fsm_client
begin

lemma expire_sends:
  assumes "state_of i w \<in> {REQSENT, ACKRCVD, ACKSENT}" and "f_retransmits (fsms w i) > 0"
  shows "state_of i (fsm_expire cb i w) \<in> {REQSENT, ACKSENT} \<and>
         f_retransmits (fsms (fsm_expire cb i w) i) = f_retransmits (fsms w i) - 1 \<and>
         f_flags (fsms (fsm_expire cb i w) i) = f_flags (fsms w i)"
  using assms by (auto simp: fsm_expire_def fsm_timeout_def Let_def)

lemma expire_stops:
  assumes "state_of i w \<in> {REQSENT, ACKRCVD, ACKSENT}" and "f_retransmits (fsms w i) \<le> 0"
  shows "ends_in cb i (STOPPED, if f_flags (fsms w i) AND OPT_PASSIVE = 0 then Tlf else No_Action)
           (fsm_expire cb i w)"
  using assms by (auto simp: fsm_expire_def fsm_timeout_def Let_def intro!: rfc_intros)

lemma expire_gives_up:
  assumes "state_of i w \<in> {REQSENT, ACKRCVD, ACKSENT}" and "nat (f_retransmits (fsms w i)) = n"
  shows "ends_in cb i (STOPPED, if f_flags (fsms w i) AND OPT_PASSIVE = 0 then Tlf else No_Action)
           ((fsm_expire cb i ^^ Suc n) w)"
  using assms
proof (induction n arbitrary: w)
  case 0
  then show ?case
    using expire_stops [of w] by simp
next
  case (Suc n)
  then have pos: "f_retransmits (fsms w i) > 0"
    by linarith
  note step = expire_sends [OF Suc.prems(1) pos]
  have "nat (f_retransmits (fsms (fsm_expire cb i w) i)) = n"
    using step Suc.prems(2) by linarith
  with step Suc.IH [of "fsm_expire cb i w"]
  have "ends_in cb i (STOPPED, if f_flags (fsms w i) AND OPT_PASSIVE = 0 then Tlf else No_Action)
      ((fsm_expire cb i ^^ Suc n) (fsm_expire cb i w))"
    by auto
  then show ?case
    by (simp only: funpow_Suc_right comp_def)
qed

lemma term_expire:
  assumes "state_of i w = CLOSING" and "nat (f_retransmits (fsms w i)) = n"
  shows "ends_in cb i (CLOSED, Tlf) ((fsm_expire cb i ^^ Suc n) w)"
  using assms
proof (induction n arbitrary: w)
  case 0
  then show ?case
    by (auto simp: fsm_expire_def fsm_timeout_def Let_def intro!: rfc_intros)
next
  case (Suc n)
  then have "f_retransmits (fsms w i) > 0"
    by linarith
  with Suc.prems have "state_of i (fsm_expire cb i w) = CLOSING"
    and "nat (f_retransmits (fsms (fsm_expire cb i w) i)) = n"
    by (auto simp: fsm_expire_def fsm_timeout_def Let_def fsm_sterm_fsm)
  then show ?case
    using Suc.IH [of "fsm_expire cb i w"] by (simp only: funpow_Suc_right comp_def)
qed

end

end
