(* ===== verification/Lcp.thy ===== *)
theory Lcp
  imports Lcp_Request Fsm_Wire
begin

text \<open>
  The Link Control Protocol (\<^verbatim>\<open>lcp.c\<close>) on the daemon's state: its entry points, the callbacks it
  gives to the automaton and the echo machinery. The functions of \<^verbatim>\<open>auth.c\<close> that LCP calls
  (\<^verbatim>\<open>link_down\<close>, \<^verbatim>\<open>link_terminated\<close>, \<^verbatim>\<open>link_established\<close>, \<^verbatim>\<open>link_required\<close>, \<^verbatim>\<open>auth_reset\<close>) and the table
  \<^verbatim>\<open>protocols\<close> are a record of hooks, filled in by \<^verbatim>\<open>Auth\<close> and the root theory; \<^verbatim>\<open>lcp_down\<close>,
  \<^verbatim>\<open>lcp_finished\<close> and so \<^verbatim>\<open>lcp_close\<close> use only the first two. The driver calls \<^verbatim>\<open>ppp_set_xaccm\<close>,
  \<^verbatim>\<open>ppp_send_config\<close> and \<^verbatim>\<open>ppp_recv_config\<close> are logged in \<open>drv\<close>.
\<close>

section \<open>Definitions\<close>

definition PROTREJ :: u8 where [ppp_consts]: "PROTREJ = 8"
definition ECHOREQ :: u8 where [ppp_consts]: "ECHOREQ = 9"
definition ECHOREP :: u8 where [ppp_consts]: "ECHOREP = 10"
definition DISCREQ :: u8 where [ppp_consts]: "DISCREQ = 11"

definition EXIT_PEER_DEAD :: int where [ppp_consts]: "EXIT_PEER_DEAD = 15"
definition EXIT_LOOPBACK :: int where [ppp_consts]: "EXIT_LOOPBACK = 17"

datatype drv_call =
    Set_Xaccm "u32 list"
  | Send_Config int u32 bool bool
  | Recv_Config int u32 bool bool

record lcp_world = fsm_world +
  lcp_wantoptions :: lcp_options
  lcp_gotoptions :: lcp_options
  lcp_allowoptions :: lcp_options
  lcp_hisoptions :: lcp_options
  xmit_accm :: "u32 list"
  lax_recv :: bool
  lcp_echo_interval :: int
  lcp_echo_fails :: int
  lcp_loopbackfail :: int
  lcp_echos_pending :: int
  lcp_echo_number :: int
  lcp_echo_timer_running :: bool
  drv :: "drv_call list"

record 'w lower_hooks =
  h_link_down :: "'w \<Rightarrow> 'w"
  h_link_terminated :: "'w \<Rightarrow> 'w"

text \<open>An entry of \<^verbatim>\<open>protocols\<close> as \<^verbatim>\<open>lcp_rprotrej\<close> sees it: number, enabled flag, \<^verbatim>\<open>protrej\<close>.\<close>

type_synonym 'w protrej_table = "(int \<times> bool \<times> ('w \<Rightarrow> 'w)) list"

record 'w link_hooks = "'w lower_hooks" +
  h_link_required :: "'w \<Rightarrow> 'w"
  h_auth_reset :: "'w \<Rightarrow> 'w"
  h_link_established :: "'w \<Rightarrow> 'w"
  h_protocols :: "'w protrej_table"

definition drv_log :: "drv_call \<Rightarrow> 'a lcp_world_scheme \<Rightarrow> 'a lcp_world_scheme" where
  "drv_log c w = w\<lparr>drv := drv w @ [c]\<rparr>"

subsection \<open>Down, finished, close\<close>

definition lcp_echo_lowerdown :: "'a lcp_world_scheme \<Rightarrow> 'a lcp_world_scheme" where
  "lcp_echo_lowerdown w =
     (if lcp_echo_timer_running w
      then (pppuntimeout LCP_ECHO_TIMEOUT (ARG_FSM LCP_FSM) w)\<lparr>lcp_echo_timer_running := False\<rparr>
      else w)"

definition lcp_down ::
  "('a lcp_world_scheme, 'z) lower_hooks_scheme \<Rightarrow> 'a lcp_world_scheme \<Rightarrow> 'a lcp_world_scheme" where
  "lcp_down h w =
     (let w = h_link_down h (lcp_echo_lowerdown w);
          go = lcp_gotoptions w;
          w = drv_log (Send_Config PPP_MRU 0xffffffff False False) w;
          w = drv_log (Recv_Config PPP_MRU (if neg_asyncmap go then asyncmap go else 0xffffffff)
                (neg_pcompression go) (neg_accompression go)) w
      in w\<lparr>peer_mru := PPP_MRU\<rparr>)"

definition lcp_finished ::
  "('a lcp_world_scheme, 'z) lower_hooks_scheme \<Rightarrow> 'a lcp_world_scheme \<Rightarrow> 'a lcp_world_scheme" where
  "lcp_finished h w = h_link_terminated h w"

text \<open>The entries of \<^verbatim>\<open>lcp_callbacks\<close> that taking LCP down can reach.\<close>

definition lcp_down_callbacks ::
  "('a lcp_world_scheme, 'z) lower_hooks_scheme \<Rightarrow> 'a lcp_world_scheme fsm_callbacks" where
  "lcp_down_callbacks h =
     \<lparr>cb_resetci = None, cb_cilen = None, cb_addci = None, cb_ackci = None, cb_nakci = None,
      cb_rejci = None, cb_reqci = None, cb_up = None, cb_down = Some (lcp_down h),
      cb_starting = None, cb_finished = Some (lcp_finished h), cb_protreject = None,
      cb_retransmit = None, cb_extcode = None\<rparr>"

definition lcp_close ::
  "('a lcp_world_scheme, 'z) lower_hooks_scheme \<Rightarrow> bytes \<Rightarrow> 'a lcp_world_scheme \<Rightarrow>
   'a lcp_world_scheme" where
  "lcp_close h reason w =
     (let w = (if pppd_phase w \<noteq> PHASE_DEAD then new_phase PHASE_TERMINATE w else w)
      in if state_of LCP_FSM w = STOPPED \<and>
            f_flags (fsms w LCP_FSM) AND (OPT_PASSIVE OR OPT_SILENT) \<noteq> 0
         then lcp_finished h (set_state LCP_FSM CLOSED w)
         else fsm_close (lcp_down_callbacks h) LCP_FSM (Some reason) w)"

subsection \<open>Echo requests\<close>

definition LcpLinkFailure ::
  "('a lcp_world_scheme, 'z) lower_hooks_scheme \<Rightarrow> 'a lcp_world_scheme \<Rightarrow> 'a lcp_world_scheme" where
  "LcpLinkFailure h w =
     (if state_of LCP_FSM w = OPENED
      then (lcp_close h (map (word_of_nat \<circ> of_char) ''Peer not responding'') w)\<lparr>pppd_status := EXIT_PEER_DEAD\<rparr>
      else w)"

definition LcpSendEchoRequest ::
  "('a lcp_world_scheme, 'z) lower_hooks_scheme \<Rightarrow> 'a lcp_world_scheme \<Rightarrow> 'a lcp_world_scheme" where
  "LcpSendEchoRequest h w =
     (let w = (if lcp_echo_fails w \<noteq> 0 \<and> lcp_echos_pending w \<ge> lcp_echo_fails w
               then (LcpLinkFailure h w)\<lparr>lcp_echos_pending := 0\<rparr> else w)
      in if state_of LCP_FSM w = OPENED
         then (let n = lcp_echo_number w;
                   w = w\<lparr>lcp_echo_number := n + 1\<rparr>;
                   w = fsm_sdata LCP_FSM ECHOREQ (word_of_int n)
                         (Data (putlong (magicnumber (lcp_gotoptions w)))) 4 w
               in w\<lparr>lcp_echos_pending := lcp_echos_pending w + 1\<rparr>)
         else w)"

definition LcpEchoCheck ::
  "('a lcp_world_scheme, 'z) lower_hooks_scheme \<Rightarrow> 'a lcp_world_scheme \<Rightarrow> 'a lcp_world_scheme" where
  "LcpEchoCheck h w =
     (let w = LcpSendEchoRequest h w
      in if state_of LCP_FSM w \<noteq> OPENED then w
         else (ppptimeout LCP_ECHO_TIMEOUT (ARG_FSM LCP_FSM) (lcp_echo_interval w) w)
                \<lparr>lcp_echo_timer_running := True\<rparr>)"

definition LcpEchoTimeout ::
  "('a lcp_world_scheme, 'z) lower_hooks_scheme \<Rightarrow> 'a lcp_world_scheme \<Rightarrow> 'a lcp_world_scheme" where
  "LcpEchoTimeout h w =
     (if lcp_echo_timer_running w
      then LcpEchoCheck h (w\<lparr>lcp_echo_timer_running := False\<rparr>) else w)"

definition lcp_received_echo_reply :: "bytes \<Rightarrow> 'a lcp_world_scheme \<Rightarrow> 'a lcp_world_scheme" where
  "lcp_received_echo_reply inp w =
     (case inp of
        a # b # c # d # _ \<Rightarrow>
          if neg_magicnumber (lcp_gotoptions w) \<and>
             getlong a b c d = magicnumber (lcp_gotoptions w) then w
          else w\<lparr>lcp_echos_pending := 0\<rparr>
      | _ \<Rightarrow> w)"

definition lcp_echo_lowerup ::
  "('a lcp_world_scheme, 'z) lower_hooks_scheme \<Rightarrow> 'a lcp_world_scheme \<Rightarrow> 'a lcp_world_scheme" where
  "lcp_echo_lowerup h w =
     (let w = w\<lparr>lcp_echos_pending := 0, lcp_echo_number := 0, lcp_echo_timer_running := False\<rparr>
      in if lcp_echo_interval w \<noteq> 0 then LcpEchoCheck h w else w)"

subsection \<open>Option callbacks\<close>

definition lcp_resetci ::
  "'a lcp_world_scheme link_hooks \<Rightarrow> 'a lcp_world_scheme \<Rightarrow> 'a lcp_world_scheme" where
  "lcp_resetci h w =
     (let (mg, w) = magic w;
          w = w\<lparr>lcp_wantoptions := (lcp_wantoptions w)\<lparr>magicnumber := mg, numloops := 0\<rparr>\<rparr>;
          w = w\<lparr>lcp_gotoptions := lcp_wantoptions w, peer_mru := PPP_MRU\<rparr>
      in h_auth_reset h w)"

definition lcp_cilen_cb :: "'a lcp_world_scheme \<Rightarrow> int \<times> 'a lcp_world_scheme" where
  "lcp_cilen_cb w = (lcp_cilen (lcp_gotoptions w), w)"

definition lcp_addci_cb :: "int \<Rightarrow> 'a lcp_world_scheme \<Rightarrow> bytes \<times> int \<times> 'a lcp_world_scheme" where
  "lcp_addci_cb len w = (lcp_addci (lcp_gotoptions w), len, w)"

definition lcp_ackci_cb :: "bytes \<Rightarrow> 'a lcp_world_scheme \<Rightarrow> bool \<times> 'a lcp_world_scheme" where
  "lcp_ackci_cb inp w = (lcp_ackci (lcp_gotoptions w) inp, w)"

definition lcp_nakci ::
  "('a lcp_world_scheme, 'z) lower_hooks_scheme \<Rightarrow> bytes \<Rightarrow> 'a lcp_world_scheme \<Rightarrow>
   int \<times> 'a lcp_world_scheme" where
  "lcp_nakci h p w =
     (let go = lcp_gotoptions w; (mg, w') = magic w in
      case lcp_nak_known go (lcp_wantoptions w) mg p of
        None \<Rightarrow> (0, w)
      | Some ((p, no, tr), looped_back) \<Rightarrow>
          (let w = (if looped_back then w' else w) in
           case lcp_nak_rest go no tr p of
             None \<Rightarrow> (0, w)
           | Some tr \<Rightarrow>
               (1, if state_of LCP_FSM w \<noteq> OPENED then
                     (let tr = (if looped_back then tr\<lparr>numloops := numloops tr + 1\<rparr>
                                else tr\<lparr>numloops := 0\<rparr>);
                          w = (if looped_back \<and> numloops tr \<ge> lcp_loopbackfail w
                               then (lcp_close h (map (word_of_nat \<circ> of_char) ''Loopback detected'') w)
                                      \<lparr>pppd_status := EXIT_LOOPBACK\<rparr>
                               else w)
                      in w\<lparr>lcp_gotoptions := tr\<rparr>)
                   else w)))"

definition lcp_rejci :: "bytes \<Rightarrow> 'a lcp_world_scheme \<Rightarrow> int \<times> 'a lcp_world_scheme" where
  "lcp_rejci p w =
     (case lcp_rej_try (lcp_gotoptions w) p of
        None \<Rightarrow> (0, w)
      | Some tr \<Rightarrow> (1, if state_of LCP_FSM w \<noteq> OPENED then w\<lparr>lcp_gotoptions := tr\<rparr> else w))"

text \<open>
  \<^verbatim>\<open>lcp_reqci\<close>. \<^verbatim>\<open>nak_buffer\<close> holds \<^verbatim>\<open>PPP_MRU\<close> bytes, and 1496 bytes of the input buffer are left
  for the options of the reply.
\<close>

definition magics :: "'a lcp_world_scheme \<Rightarrow> nat \<Rightarrow> u32" where
  "magics w n = fst (magic (w\<lparr>w_rand_idx := w_rand_idx w + n\<rparr>))"

definition lcp_reqci ::
  "bytes \<Rightarrow> bool \<Rightarrow> 'a lcp_world_scheme \<Rightarrow> u8 \<times> bytes \<times> 'a lcp_world_scheme" where
  "lcp_reqci inp reject_if_disagree w =
     (let s = lcp_req_loop (lcp_gotoptions w) (lcp_allowoptions w) reject_if_disagree (magics w)
                inp req_start;
          (code, reply) = req_reply inp s;
          w = w\<lparr>lcp_hisoptions := r_ho s, w_rand_idx := w_rand_idx w + r_magics s\<rparr>;
          w = (if int (length (r_nak s)) > PPP_MRU \<or>
                  (code = CONFNAK \<and> int (length (r_nak s)) > PPP_MRU - int HEADERLEN)
               then w\<lparr>oob := True\<rparr> else w)
      in (code, reply, w))"

subsection \<open>Layer callbacks\<close>

definition lcp_up ::
  "'a lcp_world_scheme link_hooks \<Rightarrow> 'a lcp_world_scheme \<Rightarrow> 'a lcp_world_scheme" where
  "lcp_up h w =
     (let w = (if \<not> neg_magicnumber (lcp_gotoptions w)
               then w\<lparr>lcp_gotoptions := (lcp_gotoptions w)\<lparr>magicnumber := 0\<rparr>\<rparr> else w);
          w = (if \<not> neg_magicnumber (lcp_hisoptions w)
               then w\<lparr>lcp_hisoptions := (lcp_hisoptions w)\<lparr>magicnumber := 0\<rparr>\<rparr> else w);
          wo = lcp_wantoptions w; ho = lcp_hisoptions w; go = lcp_gotoptions w;
          ao = lcp_allowoptions w;
          w = drv_log (Send_Config (min (mru ao) (if neg_mru ho then mru ho else PPP_MRU))
                (if neg_asyncmap ho then asyncmap ho else 0xffffffff)
                (neg_pcompression ho) (neg_accompression ho)) w;
          w = drv_log (Recv_Config (if neg_mru go then max (mru wo) (mru go) else PPP_MRU)
                (if lax_recv w then 0 else if neg_asyncmap go then asyncmap go else 0xffffffff)
                (neg_pcompression go) (neg_accompression go)) w;
          w = (if neg_mru ho then w\<lparr>peer_mru := mru ho\<rparr> else w);
          w = lcp_echo_lowerup h w
      in h_link_established h w)"

definition lcp_starting ::
  "'a lcp_world_scheme link_hooks \<Rightarrow> 'a lcp_world_scheme \<Rightarrow> 'a lcp_world_scheme" where
  "lcp_starting h w = h_link_required h w"

subsection \<open>Other packets\<close>

fun protrej_lookup :: "int \<Rightarrow> 'w protrej_table \<Rightarrow> 'w \<Rightarrow> 'w" where
  "protrej_lookup prot [] w = w"
| "protrej_lookup prot ((n, enabled, protrej) # ps) w =
     (if n = prot \<and> enabled then protrej w else protrej_lookup prot ps w)"

definition lcp_rprotrej ::
  "'a lcp_world_scheme link_hooks \<Rightarrow> bytes \<Rightarrow> 'a lcp_world_scheme \<Rightarrow> 'a lcp_world_scheme" where
  "lcp_rprotrej h inp w =
     (case inp of
        a # b # _ \<Rightarrow>
          if state_of LCP_FSM w \<noteq> OPENED then w
          else protrej_lookup (getshort a b) (h_protocols h) w
      | _ \<Rightarrow> w)"

definition lcp_extcode ::
  "'a lcp_world_scheme link_hooks \<Rightarrow> u8 \<Rightarrow> u8 \<Rightarrow> bytes \<Rightarrow> 'a lcp_world_scheme \<Rightarrow>
   bool \<times> 'a lcp_world_scheme" where
  "lcp_extcode h code idn inp w =
     (if code = PROTREJ then (True, lcp_rprotrej h inp w)
      else if code = ECHOREQ then
        (True, if state_of LCP_FSM w \<noteq> OPENED then w
               else fsm_sdata LCP_FSM ECHOREP idn
                      (Data (take (length inp)
                               (putlong (magicnumber (lcp_gotoptions w)) @ drop 4 inp)))
                      (int (length inp)) w)
      else if code = ECHOREP then (True, lcp_received_echo_reply inp w)
      else if code = DISCREQ then (True, w)
      else (False, w))"

definition lcp_callbacks ::
  "'a lcp_world_scheme link_hooks \<Rightarrow> 'a lcp_world_scheme fsm_callbacks" where
  "lcp_callbacks h =
     \<lparr>cb_resetci = Some (lcp_resetci h), cb_cilen = Some lcp_cilen_cb, cb_addci = Some lcp_addci_cb,
      cb_ackci = Some lcp_ackci_cb, cb_nakci = Some (lcp_nakci h), cb_rejci = Some lcp_rejci,
      cb_reqci = Some lcp_reqci, cb_up = Some (lcp_up h), cb_down = Some (lcp_down h),
      cb_starting = Some (lcp_starting h), cb_finished = Some (lcp_finished h),
      cb_protreject = None, cb_retransmit = None, cb_extcode = Some (lcp_extcode h)\<rparr>"

subsection \<open>Entry points\<close>

definition lcp_init :: "'a lcp_world_scheme \<Rightarrow> 'a lcp_world_scheme" where
  "lcp_init w =
     (let w = fsm_init LCP_FSM (upd_fsm LCP_FSM (\<lambda>f. f\<lparr>f_unit := 0, f_protocol := PPP_LCP\<rparr>) w);
          wo = (lcp_wantoptions w)\<lparr>opt_passive := False, opt_silent := False, opt_restart := False,
                 neg_mru := True, mru := DEFMRU, neg_asyncmap := True, asyncmap := 0,
                 neg_chap := False, neg_upap := False, chap_mdtype := CHAP_DIGEST_MD5,
                 neg_magicnumber := True, neg_pcompression := True, neg_accompression := True,
                 neg_lqr := False, neg_cbcp := False\<rparr>;
          ao = (lcp_allowoptions w)\<lparr>neg_mru := True, mru := MAXMRU, neg_asyncmap := True,
                 asyncmap := 0, neg_chap := True, chap_mdtype := CHAP_DIGEST_MD5,
                 neg_upap := True, neg_magicnumber := True, neg_pcompression := True,
                 neg_accompression := True, neg_lqr := False, neg_cbcp := False\<rparr>
      in w\<lparr>lcp_wantoptions := wo, lcp_allowoptions := ao,
           xmit_accm := [0, 0, 0, 0x60000000, 0, 0, 0, 0]\<rparr>)"

definition lcp_open ::
  "'a lcp_world_scheme link_hooks \<Rightarrow> 'a lcp_world_scheme \<Rightarrow> 'a lcp_world_scheme" where
  "lcp_open h w =
     (let wo = lcp_wantoptions w in
      fsm_open (lcp_callbacks h) LCP_FSM
        (upd_fsm LCP_FSM (\<lambda>f. f\<lparr>f_flags := (if opt_passive wo then OPT_PASSIVE else 0) OR
           (if opt_silent wo then OPT_SILENT else 0)\<rparr>) w))"

definition lcp_lowerup ::
  "'a lcp_world_scheme link_hooks \<Rightarrow> 'a lcp_world_scheme \<Rightarrow> 'a lcp_world_scheme" where
  "lcp_lowerup h w =
     (let wo = lcp_wantoptions w;
          w = drv_log (Set_Xaccm (xmit_accm w)) w;
          w = drv_log (Send_Config PPP_MRU 0xffffffff False False) w;
          w = drv_log (Recv_Config PPP_MRU (if lax_recv w then 0 else 0xffffffff)
                (neg_pcompression wo) (neg_accompression wo)) w;
          w = w\<lparr>peer_mru := PPP_MRU,
                lcp_allowoptions := (lcp_allowoptions w)\<lparr>asyncmap := xmit_accm w ! 0\<rparr>\<rparr>
      in fsm_lowerup (lcp_callbacks h) LCP_FSM w)"

definition lcp_lowerdown ::
  "'a lcp_world_scheme link_hooks \<Rightarrow> 'a lcp_world_scheme \<Rightarrow> 'a lcp_world_scheme" where
  "lcp_lowerdown h w = fsm_lowerdown (lcp_callbacks h) LCP_FSM w"

definition lcp_input ::
  "'a lcp_world_scheme link_hooks \<Rightarrow> bytes \<Rightarrow> 'a lcp_world_scheme \<Rightarrow> 'a lcp_world_scheme" where
  "lcp_input h p w = fsm_input (lcp_callbacks h) LCP_FSM p w"

definition lcp_protrej ::
  "('a lcp_world_scheme, 'z) lower_hooks_scheme \<Rightarrow> 'a lcp_world_scheme \<Rightarrow> 'a lcp_world_scheme" where
  "lcp_protrej h w = fsm_protreject (lcp_down_callbacks h) LCP_FSM w"

text \<open>\<open>p\<close> is the whole received frame, from the address field on.\<close>

definition lcp_sprotrej :: "bytes \<Rightarrow> 'a lcp_world_scheme \<Rightarrow> 'a lcp_world_scheme" where
  "lcp_sprotrej p w =
     (let w = upd_fsm LCP_FSM (\<lambda>f. f\<lparr>f_id := f_id f + 1\<rparr>) w
      in fsm_sdata LCP_FSM PROTREJ (f_id (fsms w LCP_FSM)) (Data (drop 2 p)) (int (length p) - 2) w)"

end
