(* ===== verification/Auth_State.thy ===== *)
theory Auth_State
  imports Lcp
begin

text \<open>
  The variables of \<^verbatim>\<open>auth.c\<close> and its functions that call no other protocol: secrets, password
  check, the recheck of the authentication options when LCP starts to negotiate, and address
  checks. \<^verbatim>\<open>noauth_addrs\<close> and \<^verbatim>\<open>extra_options\<close> are never assigned in this port (the options that set
  them are removed), so their branches, with \<^verbatim>\<open>set_allowed_addrs\<close>, do not occur. The function
  pointers a program may install (\<^verbatim>\<open>pap_auth_hook\<close> and so on) are the argument \<open>pl\<close>; calls of the
  pointers that only notify are logged in \<open>plugin_log\<close>. C strings are the bytes before the
  terminator.
\<close>

section \<open>Definitions\<close>

definition EXIT_OK :: int where [ppp_consts]: "EXIT_OK = 0"
definition EXIT_PEER_AUTH_FAILED :: int where [ppp_consts]: "EXIT_PEER_AUTH_FAILED = 11"
definition EXIT_IDLE_TIMEOUT :: int where [ppp_consts]: "EXIT_IDLE_TIMEOUT = 12"
definition EXIT_CONNECT_TIME :: int where [ppp_consts]: "EXIT_CONNECT_TIME = 13"
definition EXIT_AUTH_TOPEER_FAILED :: int where [ppp_consts]: "EXIT_AUTH_TOPEER_FAILED = 19"

definition PAP_WITHPEER :: u32 where [ppp_consts]: "PAP_WITHPEER = 1"
definition PAP_PEER :: u32 where [ppp_consts]: "PAP_PEER = 2"
definition CHAP_WITHPEER :: u32 where [ppp_consts]: "CHAP_WITHPEER = 4"
definition CHAP_PEER :: u32 where [ppp_consts]: "CHAP_PEER = 8"

definition UPAP_AUTHREQ :: u8 where [ppp_consts]: "UPAP_AUTHREQ = 1"
definition UPAP_AUTHACK :: u8 where [ppp_consts]: "UPAP_AUTHACK = 2"
definition UPAP_AUTHNAK :: u8 where [ppp_consts]: "UPAP_AUTHNAK = 3"

definition MAXNAMELEN :: nat where [ppp_consts]: "MAXNAMELEN = 256"
definition MAXSECRETLEN :: nat where [ppp_consts]: "MAXSECRETLEN = 256"
definition MAXWORDLEN :: nat where [ppp_consts]: "MAXWORDLEN = 1024"

datatype script_state = s_down | s_up

datatype plugin_call = Linkup | Linkdown | Logout

record auth_world = lcp_world +
  peer_authname :: bytes
  auth_pending :: u32
  num_np_open :: int
  num_np_up :: int
  passwd_from_file :: bool
  auth_state :: script_state
  auth_script_state :: script_state
  uselogin :: bool
  refuse_pap :: bool
  refuse_chap :: bool
  usehostname :: bool
  auth_required :: bool
  default_auth :: bool
  allow_any_ip :: bool
  privileged :: bool
  explicit_remote :: bool
  remote_name :: bytes
  our_name :: bytes
  user :: bytes
  passwd :: bytes
  hostname :: bytes
  idle_time_limit :: int
  maxconnect :: int
  need_holdoff :: bool
  unsuccess :: int
  plugin_log :: "plugin_call list"

text \<open>
  \<open>pap_passwd_hook\<close> returns its result and what it stores at \<^verbatim>\<open>passwd\<close>; \<open>idle_time_hook\<close> is given the
  idle times, or nothing for \<^verbatim>\<open>NULL\<close>.
\<close>

record plugins =
  pap_auth_hook :: "(bytes \<Rightarrow> bytes \<Rightarrow> bool) option"
  pap_passwd_hook :: "(bytes \<Rightarrow> bool \<times> bytes) option"
  idle_time_hook :: "((int \<times> int) option \<Rightarrow> int) option"
  auth_linkup_hook :: bool
  auth_linkdown_hook :: bool
  pap_logout_hook :: bool

subsection \<open>Secrets\<close>

definition c_string :: "bytes \<Rightarrow> bytes" where
  "c_string bs = takeWhile (\<lambda>c. c \<noteq> 0) bs"

text \<open>The conversion \<^verbatim>\<open>%v\<close> of \<^verbatim>\<open>vslprintf\<close> in \<^verbatim>\<open>utils.c\<close>, and the cut to the size of the buffer.\<close>

definition visible_char :: "u8 \<Rightarrow> bytes" where
  "visible_char c =
     (let m = (if c \<ge> 0x80 then [0x4d, 0x2d] else []);
          c = (if c \<ge> 0x80 then c - 0x80 else c)
      in m @ (if c < 0x20 \<or> (0x7f \<le> c \<and> c < 0xa0)
              then (if c = 9 then [c] else [0x5e, c XOR 0x40]) else [c]))"

definition slprintf_v :: "nat \<Rightarrow> bytes \<Rightarrow> bytes" where
  "slprintf_v n bs = take (n - 1) (concat (map visible_char (c_string bs)))"

text \<open>The message pointer is not set, whatever the result.\<close>

definition check_passwd :: "plugins \<Rightarrow> bytes \<Rightarrow> bytes \<Rightarrow> u8 \<times> bytes option" where
  "check_passwd pl auser apasswd =
     (case pap_auth_hook pl of
        Some hook \<Rightarrow>
          (if hook (slprintf_v 64 auser) (slprintf_v 64 apasswd) then UPAP_AUTHACK else UPAP_AUTHNAK,
           None)
      | None \<Rightarrow> (UPAP_AUTHACK, None))"

definition null_login :: bool where
  "null_login = False"

definition have_pap_secret :: bool where
  "have_pap_secret = True"

definition have_chap_secret :: bool where
  "have_chap_secret = False"

text \<open>\<^verbatim>\<open>get_pap_passwd\<close>, called with \<^verbatim>\<open>NULL\<close> and with \<^verbatim>\<open>passwd\<close>.\<close>

definition get_pap_passwd_null :: "plugins \<Rightarrow> 'a auth_world_scheme \<Rightarrow> bool" where
  "get_pap_passwd_null pl w =
     (case pap_passwd_hook pl of None \<Rightarrow> False | Some hook \<Rightarrow> fst (hook (user w)))"

definition get_pap_passwd :: "plugins \<Rightarrow> 'a auth_world_scheme \<Rightarrow> bool \<times> 'a auth_world_scheme" where
  "get_pap_passwd pl w =
     (case pap_passwd_hook pl of
        None \<Rightarrow> (False, w)
      | Some hook \<Rightarrow> (fst (hook (user w)), w\<lparr>passwd := snd (hook (user w))\<rparr>))"

text \<open>
  \<^verbatim>\<open>get_secret\<close>: the secret, \<open>None\<close> for result 0. The password buffer holds less than
  \<^verbatim>\<open>MAXWORDLEN\<close> bytes, so that \<^verbatim>\<open>strlcpy\<close> copies all of it.
\<close>

definition get_secret :: "bool \<Rightarrow> 'a auth_world_scheme \<Rightarrow> bytes option" where
  "get_secret am_server w =
     (if \<not> am_server \<and> passwd w \<noteq> []
      then Some (take MAXSECRETLEN (take (MAXWORDLEN - 1) (passwd w)))
      else None)"

subsection \<open>Options\<close>

definition auth_reset :: "plugins \<Rightarrow> 'a auth_world_scheme \<Rightarrow> 'a auth_world_scheme" where
  "auth_reset pl w =
     (let w = w\<lparr>lcp_allowoptions := (lcp_allowoptions w)\<lparr>
                  neg_upap := \<not> refuse_pap w \<and> (passwd w \<noteq> [] \<or> get_pap_passwd_null pl w),
                  neg_chap := \<not> refuse_chap w \<and> (passwd w \<noteq> [] \<or> have_chap_secret)\<rparr>\<rparr>;
          w = (if neg_upap (lcp_gotoptions w) \<and> \<not> uselogin w \<and> \<not> have_pap_secret
               then w\<lparr>lcp_gotoptions := (lcp_gotoptions w)\<lparr>neg_upap := False\<rparr>\<rparr> else w)
      in if neg_chap (lcp_gotoptions w) \<and> \<not> have_chap_secret
         then w\<lparr>lcp_gotoptions := (lcp_gotoptions w)\<lparr>neg_chap := False\<rparr>\<rparr> else w)"

text \<open>\<^verbatim>\<open>auth_check_options\<close>; \<^verbatim>\<open>have_route_to\<close> is constantly nonzero in \<^verbatim>\<open>sys-rtems.c\<close>.\<close>

definition auth_check_options :: "'a auth_world_scheme \<Rightarrow> bool \<times> 'a auth_world_scheme" where
  "auth_check_options w =
     (let w = (if our_name w = [] \<or> usehostname w
               then w\<lparr>our_name := take (MAXNAMELEN - 1) (hostname w)\<rparr> else w);
          w = (if user w = [] then w\<lparr>user := take (MAXNAMELEN - 1) (our_name w)\<rparr> else w);
          w = (if \<not> auth_required w \<and> \<not> allow_any_ip w \<and> \<not> privileged w
               then w\<lparr>auth_required := True, default_auth := True\<rparr> else w);
          wo = lcp_wantoptions w;
          wo = (if auth_required w
                then (if \<not> neg_chap wo \<and> \<not> neg_upap wo
                      then wo\<lparr>neg_chap := True, neg_upap := True\<rparr> else wo)
                else wo\<lparr>neg_chap := False, neg_upap := False\<rparr>);
          w = w\<lparr>lcp_wantoptions := wo\<rparr>;
          can_auth = neg_upap wo \<and> (uselogin w \<or> have_pap_secret);
          can_auth = (if \<not> can_auth \<and> neg_chap wo then have_chap_secret else can_auth)
      in (\<not> (auth_required w \<and> \<not> can_auth), w))"

subsection \<open>Addresses and scripts\<close>

text \<open>Addresses here are already in host byte order.\<close>

definition bad_ip_adrs :: "u32 \<Rightarrow> bool" where
  "bad_ip_adrs addr \<longleftrightarrow>
     drop_bit 24 addr = 127 \<or> addr AND 0xf0000000 = 0xe0000000 \<or> addr AND 0xf0000000 = 0xf0000000"

definition auth_ip_addr :: "u32 \<Rightarrow> bool" where
  "auth_ip_addr addr \<longleftrightarrow> \<not> bad_ip_adrs addr"

definition plugin_note :: "plugin_call \<Rightarrow> 'a auth_world_scheme \<Rightarrow> 'a auth_world_scheme" where
  "plugin_note c w = w\<lparr>plugin_log := plugin_log w @ [c]\<rparr>"

definition auth_script :: "plugins \<Rightarrow> script_state \<Rightarrow> 'a auth_world_scheme \<Rightarrow> 'a auth_world_scheme" where
  "auth_script pl s w =
     (case s of
        s_up \<Rightarrow> (let w = w\<lparr>auth_script_state := s_up\<rparr>
                 in if auth_linkup_hook pl then plugin_note Linkup w else w)
      | s_down \<Rightarrow> (let w = w\<lparr>auth_script_state := s_down\<rparr>
                   in if auth_linkdown_hook pl then plugin_note Linkdown w else w))"

text \<open>What the authentication protocols call in \<^verbatim>\<open>auth.c\<close>.\<close>

record 'w auth_hooks =
  a_peer_fail :: "int \<Rightarrow> 'w \<Rightarrow> 'w"
  a_peer_success :: "int \<Rightarrow> bytes \<Rightarrow> 'w \<Rightarrow> 'w"
  a_withpeer_fail :: "int \<Rightarrow> 'w \<Rightarrow> 'w"
  a_withpeer_success :: "int \<Rightarrow> 'w \<Rightarrow> 'w"

section \<open>Lemmas\<close>

lemma length_slprintf_v: "length (slprintf_v n bs) \<le> n - 1"
  by (simp add: slprintf_v_def)

lemma length_get_secret: "get_secret s w = Some bs \<Longrightarrow> 0 < length bs \<and> length bs \<le> MAXSECRETLEN"
  by (auto simp: get_secret_def ppp_consts split: if_splits)

end
