(* ===== verification/Upap.thy ===== *)
theory Upap
  imports Auth_State
begin

text \<open>
  The Password Authentication Protocol (\<^verbatim>\<open>upap.c\<close>), both roles: as client we send our name and
  password until the peer answers, as server we wait for the peer's. \<open>h\<close> are the functions of
  \<^verbatim>\<open>auth.c\<close> that report the outcome, \<open>chk\<close> is \<^verbatim>\<open>check_passwd\<close>. When \<open>chk\<close> leaves the message pointer
  unset, \<^verbatim>\<open>strlen(msg)\<close> is undefined: \<open>oob\<close> records it and the message is taken as empty.
\<close>

section \<open>Definitions\<close>

definition UPAP_HEADERLEN :: nat where [ppp_consts]: "UPAP_HEADERLEN = 4"
definition UPAP_DEFTIMEOUT :: int where [ppp_consts]: "UPAP_DEFTIMEOUT = 5"
definition UPAP_DEFREQTIME :: int where [ppp_consts]: "UPAP_DEFREQTIME = 30"

datatype upap_client =
  UPAPCS_INITIAL | UPAPCS_CLOSED | UPAPCS_PENDING | UPAPCS_AUTHREQ | UPAPCS_OPEN | UPAPCS_BADAUTH

datatype upap_server =
  UPAPSS_INITIAL | UPAPSS_CLOSED | UPAPSS_PENDING | UPAPSS_LISTEN | UPAPSS_OPEN | UPAPSS_BADAUTH

record upap_state =
  us_unit :: int
  us_user :: bytes
  us_passwd :: bytes
  us_clientstate :: upap_client
  us_serverstate :: upap_server
  us_id :: u8
  us_timeouttime :: int
  us_transmits :: int
  us_maxtransmits :: int
  us_reqtimeout :: int

record upap_world = auth_world +
  upap :: upap_state

type_synonym passwd_check = "bytes \<Rightarrow> bytes \<Rightarrow> u8 \<times> bytes option"

definition upd_upap :: "(upap_state \<Rightarrow> upap_state) \<Rightarrow> 'a upap_world_scheme \<Rightarrow> 'a upap_world_scheme" where
  "upd_upap g w = w\<lparr>upap := g (upap w)\<rparr>"

abbreviation set_client :: "upap_client \<Rightarrow> 'a upap_world_scheme \<Rightarrow> 'a upap_world_scheme" where
  "set_client s \<equiv> upd_upap (\<lambda>u. u\<lparr>us_clientstate := s\<rparr>)"

abbreviation set_server :: "upap_server \<Rightarrow> 'a upap_world_scheme \<Rightarrow> 'a upap_world_scheme" where
  "set_server s \<equiv> upd_upap (\<lambda>u. u\<lparr>us_serverstate := s\<rparr>)"

definition upap_init :: "'a upap_world_scheme \<Rightarrow> 'a upap_world_scheme" where
  "upap_init = upd_upap (\<lambda>u. u\<lparr>us_unit := 0, us_user := [], us_passwd := [],
      us_clientstate := UPAPCS_INITIAL, us_serverstate := UPAPSS_INITIAL, us_id := 0,
      us_timeouttime := UPAP_DEFTIMEOUT, us_maxtransmits := 10, us_reqtimeout := UPAP_DEFREQTIME\<rparr>)"

subsection \<open>Sending\<close>

definition upap_sauthreq :: "'a upap_world_scheme \<Rightarrow> 'a upap_world_scheme" where
  "upap_sauthreq w =
     (let w = upd_upap (\<lambda>u. u\<lparr>us_id := us_id u + 1\<rparr>) w;
          u = upap w;
          outlen = int UPAP_HEADERLEN + 2 + int (length (us_user u)) + int (length (us_passwd u));
          w = put_outpacket 0 (makeheader PPP_PAP @ [UPAP_AUTHREQ, us_id u] @ putshort outlen @
                [word_of_nat (length (us_user u))] @ us_user u @
                [word_of_nat (length (us_passwd u))] @ us_passwd u) w;
          w = output_outpacket (us_unit u) (outlen + int PPP_HDRLEN) w;
          w = ppptimeout UPAP_TIMEOUT ARG_UPAP (us_timeouttime u) w
      in upd_upap (\<lambda>u. u\<lparr>us_transmits := us_transmits u + 1, us_clientstate := UPAPCS_AUTHREQ\<rparr>) w)"

definition upap_sresp :: "u8 \<Rightarrow> u8 \<Rightarrow> bytes \<Rightarrow> 'a upap_world_scheme \<Rightarrow> 'a upap_world_scheme" where
  "upap_sresp code idn msg w =
     (let outlen = int UPAP_HEADERLEN + 1 + int (length msg);
          w = put_outpacket 0 (makeheader PPP_PAP @ [code, idn] @ putshort outlen @
                [word_of_nat (length msg)] @ msg) w
      in output_outpacket (us_unit (upap w)) (outlen + int PPP_HDRLEN) w)"

subsection \<open>Starting\<close>

definition upap_authwithpeer :: "bytes \<Rightarrow> bytes \<Rightarrow> 'a upap_world_scheme \<Rightarrow> 'a upap_world_scheme" where
  "upap_authwithpeer usr password w =
     (let w = upd_upap (\<lambda>u. u\<lparr>us_user := usr, us_passwd := password, us_transmits := 0\<rparr>) w in
      if us_clientstate (upap w) = UPAPCS_INITIAL \<or> us_clientstate (upap w) = UPAPCS_PENDING
      then set_client UPAPCS_PENDING w else upap_sauthreq w)"

definition upap_listen :: "'a upap_world_scheme \<Rightarrow> 'a upap_world_scheme" where
  "upap_listen w =
     (let w = set_server UPAPSS_LISTEN w in
      if us_reqtimeout (upap w) > 0
      then ppptimeout UPAP_REQTIMEOUT ARG_UPAP (us_reqtimeout (upap w)) w else w)"

definition upap_authpeer :: "'a upap_world_scheme \<Rightarrow> 'a upap_world_scheme" where
  "upap_authpeer w =
     (if us_serverstate (upap w) = UPAPSS_INITIAL \<or> us_serverstate (upap w) = UPAPSS_PENDING
      then set_server UPAPSS_PENDING w else upap_listen w)"

definition upap_lowerup :: "'a upap_world_scheme \<Rightarrow> 'a upap_world_scheme" where
  "upap_lowerup w =
     (let w = (if us_clientstate (upap w) = UPAPCS_INITIAL then set_client UPAPCS_CLOSED w
               else if us_clientstate (upap w) = UPAPCS_PENDING then upap_sauthreq w else w)
      in if us_serverstate (upap w) = UPAPSS_INITIAL then set_server UPAPSS_CLOSED w
         else if us_serverstate (upap w) = UPAPSS_PENDING then upap_listen w else w)"

definition upap_lowerdown :: "'a upap_world_scheme \<Rightarrow> 'a upap_world_scheme" where
  "upap_lowerdown w =
     (let w = (if us_clientstate (upap w) = UPAPCS_AUTHREQ
               then pppuntimeout UPAP_TIMEOUT ARG_UPAP w else w);
          w = (if us_serverstate (upap w) = UPAPSS_LISTEN \<and> us_reqtimeout (upap w) > 0
               then pppuntimeout UPAP_REQTIMEOUT ARG_UPAP w else w)
      in set_server UPAPSS_INITIAL (set_client UPAPCS_INITIAL w))"

subsection \<open>Timeouts\<close>

definition upap_timeout ::
  "'a upap_world_scheme auth_hooks \<Rightarrow> 'a upap_world_scheme \<Rightarrow> 'a upap_world_scheme" where
  "upap_timeout h w =
     (if us_clientstate (upap w) \<noteq> UPAPCS_AUTHREQ then w
      else if us_transmits (upap w) \<ge> us_maxtransmits (upap w)
      then a_withpeer_fail h PPP_PAP (set_client UPAPCS_BADAUTH w)
      else upap_sauthreq w)"

definition upap_reqtimeout ::
  "'a upap_world_scheme auth_hooks \<Rightarrow> 'a upap_world_scheme \<Rightarrow> 'a upap_world_scheme" where
  "upap_reqtimeout h w =
     (if us_serverstate (upap w) \<noteq> UPAPSS_LISTEN then w
      else set_server UPAPSS_BADAUTH (a_peer_fail h PPP_PAP w))"

definition upap_protrej ::
  "'a upap_world_scheme auth_hooks \<Rightarrow> 'a upap_world_scheme \<Rightarrow> 'a upap_world_scheme" where
  "upap_protrej h w =
     (let w = (if us_clientstate (upap w) = UPAPCS_AUTHREQ then a_withpeer_fail h PPP_PAP w else w);
          w = (if us_serverstate (upap w) = UPAPSS_LISTEN then a_peer_fail h PPP_PAP w else w)
      in upap_lowerdown w)"

subsection \<open>Received packets\<close>

text \<open>The user and password of an Authenticate-Request, \<open>None\<close> when it is too short.\<close>

definition upap_parse :: "bytes \<Rightarrow> (bytes \<times> bytes) option" where
  "upap_parse inp =
     (case inp of
        [] \<Rightarrow> None
      | n # rest \<Rightarrow>
          (let ruserlen = unat n; len = int (length inp) - (1 + int ruserlen + 1) in
           if len < 0 then None
           else (let rpasswdlen = unat (rest ! ruserlen) in
                 if len < int rpasswdlen then None
                 else Some (take ruserlen rest, take rpasswdlen (drop (ruserlen + 1) rest)))))"

definition upap_rauthreq ::
  "'a upap_world_scheme auth_hooks \<Rightarrow> passwd_check \<Rightarrow> bytes \<Rightarrow> u8 \<Rightarrow> 'a upap_world_scheme \<Rightarrow>
   'a upap_world_scheme" where
  "upap_rauthreq h chk inp idn w =
     (case us_serverstate (upap w) of
        UPAPSS_OPEN \<Rightarrow> upap_sresp UPAP_AUTHACK idn [] w
      | UPAPSS_BADAUTH \<Rightarrow> upap_sresp UPAP_AUTHNAK idn [] w
      | UPAPSS_LISTEN \<Rightarrow>
          (case upap_parse inp of
             None \<Rightarrow> w
           | Some (ruser, rpasswd) \<Rightarrow>
               (let (retcode, msg) = chk ruser rpasswd;
                    w = (if msg = None then w\<lparr>oob := True\<rparr> else w);
                    msg = (case msg of None \<Rightarrow> [] | Some m \<Rightarrow> take 255 m);
                    w = upap_sresp retcode idn msg w;
                    w = (if retcode = UPAP_AUTHACK
                         then a_peer_success h PPP_PAP ruser (set_server UPAPSS_OPEN w)
                         else a_peer_fail h PPP_PAP (set_server UPAPSS_BADAUTH w))
                in if us_reqtimeout (upap w) > 0
                   then pppuntimeout UPAP_REQTIMEOUT ARG_UPAP w else w))
      | _ \<Rightarrow> w)"

text \<open>Whether the message of an Ack or Nak is accepted.\<close>

definition upap_msg_ok :: "bytes \<Rightarrow> bool" where
  "upap_msg_ok inp =
     (case inp of [] \<Rightarrow> True | n # rest \<Rightarrow> n = 0 \<or> unat n \<le> length rest)"

definition upap_rauthack ::
  "'a upap_world_scheme auth_hooks \<Rightarrow> bytes \<Rightarrow> 'a upap_world_scheme \<Rightarrow> 'a upap_world_scheme" where
  "upap_rauthack h inp w =
     (if us_clientstate (upap w) \<noteq> UPAPCS_AUTHREQ then w
      else if \<not> upap_msg_ok inp then w
      else a_withpeer_success h PPP_PAP (set_client UPAPCS_OPEN w))"

definition upap_rauthnak ::
  "'a upap_world_scheme auth_hooks \<Rightarrow> bytes \<Rightarrow> 'a upap_world_scheme \<Rightarrow> 'a upap_world_scheme" where
  "upap_rauthnak h inp w =
     (if us_clientstate (upap w) \<noteq> UPAPCS_AUTHREQ then w
      else if \<not> upap_msg_ok inp then w
      else a_withpeer_fail h PPP_PAP (set_client UPAPCS_BADAUTH w))"

definition upap_input ::
  "'a upap_world_scheme auth_hooks \<Rightarrow> passwd_check \<Rightarrow> bytes \<Rightarrow> 'a upap_world_scheme \<Rightarrow>
   'a upap_world_scheme" where
  "upap_input h chk inpacket w =
     (case inpacket of
        code # idn # a # b # rest \<Rightarrow>
          (let len = getshort a b in
           if len < int UPAP_HEADERLEN then w
           else if len > int (length inpacket) then w
           else
             (let inp = take (nat len - UPAP_HEADERLEN) rest in
              if code = UPAP_AUTHREQ then upap_rauthreq h chk inp idn w
              else if code = UPAP_AUTHACK then upap_rauthack h inp w
              else if code = UPAP_AUTHNAK then upap_rauthnak h inp w
              else w))
      | _ \<Rightarrow> w)"

section \<open>Messages\<close>

text \<open>The request we send is parsed by a peer that runs the same code.\<close>

lemma upap_parse_request:
  assumes "length usr < 256" and "length password < 256"
  shows "upap_parse (word_of_nat (length usr) # usr @ word_of_nat (length password) # password @ pad) =
         Some (usr, password)"
proof -
  have u: "unat (word_of_nat (length usr) :: u8) = length usr"
    and p: "unat (word_of_nat (length password) :: u8) = length password"
    using assms by (simp_all add: unat_of_nat take_bit_nat_eq_self)
  then have "uint (word_of_nat (length password) :: u8) = int (length password)"
    "uint (word_of_nat (length usr) :: u8) = int (length usr)"
    by (metis uint_nat)+
  then show ?thesis
    by (simp add: upap_parse_def u p Let_def)
qed

end
