(* ===== verification/Chap.thy ===== *)
theory Chap
  imports Upap
begin

text \<open>
  The Challenge Handshake Authentication Protocol (\<^verbatim>\<open>chap.c\<close>), both roles. The digest function of
  the MD5 library is the argument \<open>md5\<close>; \<open>h\<close> are the functions of \<^verbatim>\<open>auth.c\<close> that report the outcome.
  The challenge is drawn with \<^verbatim>\<open>drand48\<close>, whose double arithmetic is written out on the 48 bit
  state of the generator (\<open>round53\<close> is the rounding of the product to a double).
\<close>

section \<open>Definitions\<close>

definition CHAP_HEADERLEN :: nat where [ppp_consts]: "CHAP_HEADERLEN = 4"
definition MD5_SIGNATURE_SIZE :: nat where [ppp_consts]: "MD5_SIGNATURE_SIZE = 16"
definition CHAP_CHALLENGE :: u8 where [ppp_consts]: "CHAP_CHALLENGE = 1"
definition CHAP_RESPONSE :: u8 where [ppp_consts]: "CHAP_RESPONSE = 2"
definition CHAP_SUCCESS :: u8 where [ppp_consts]: "CHAP_SUCCESS = 3"
definition CHAP_FAILURE :: u8 where [ppp_consts]: "CHAP_FAILURE = 4"
definition MIN_CHALLENGE_LENGTH :: nat where [ppp_consts]: "MIN_CHALLENGE_LENGTH = 16"
definition MAX_CHALLENGE_LENGTH :: nat where [ppp_consts]: "MAX_CHALLENGE_LENGTH = 24"
definition CHAP_DEFTIMEOUT :: int where [ppp_consts]: "CHAP_DEFTIMEOUT = 5"
definition CHAP_DEFTRANSMITS :: int where [ppp_consts]: "CHAP_DEFTRANSMITS = 10"

datatype chap_client =
  CHAPCS_INITIAL | CHAPCS_CLOSED | CHAPCS_PENDING | CHAPCS_LISTEN | CHAPCS_RESPONSE | CHAPCS_OPEN

datatype chap_server =
    CHAPSS_INITIAL | CHAPSS_CLOSED | CHAPSS_PENDING | CHAPSS_INITIAL_CHAL | CHAPSS_OPEN
  | CHAPSS_RECHALLENGE | CHAPSS_BADAUTH

text \<open>\<open>challenge\<close> holds the first \<^verbatim>\<open>chal_len\<close> bytes of the array, \<open>response\<close> the first \<^verbatim>\<open>resp_length\<close>.\<close>

record chap_state =
  cs_unit :: int
  clientstate :: chap_client
  serverstate :: chap_server
  challenge :: bytes
  chal_id :: u8
  chal_type :: u8
  cs_id :: u8
  chal_name :: bytes
  chal_interval :: int
  cs_timeouttime :: int
  max_transmits :: int
  chal_transmits :: int
  resp_transmits :: int
  response :: bytes
  resp_id :: u8
  resp_type :: u8
  resp_name :: bytes

record chap_world = upap_world +
  chap :: chap_state

definition upd_chap :: "(chap_state \<Rightarrow> chap_state) \<Rightarrow> 'a chap_world_scheme \<Rightarrow> 'a chap_world_scheme" where
  "upd_chap g w = w\<lparr>chap := g (chap w)\<rparr>"

abbreviation set_cs :: "chap_client \<Rightarrow> 'a chap_world_scheme \<Rightarrow> 'a chap_world_scheme" where
  "set_cs s \<equiv> upd_chap (\<lambda>c. c\<lparr>clientstate := s\<rparr>)"

abbreviation set_ss :: "chap_server \<Rightarrow> 'a chap_world_scheme \<Rightarrow> 'a chap_world_scheme" where
  "set_ss s \<equiv> upd_chap (\<lambda>c. c\<lparr>serverstate := s\<rparr>)"

definition ascii :: "string \<Rightarrow> bytes" where
  "ascii s = map (word_of_nat \<circ> of_char) s"

definition ChapInit :: "'a chap_world_scheme \<Rightarrow> 'a chap_world_scheme" where
  "ChapInit = upd_chap (\<lambda>_. \<lparr>cs_unit = 0, clientstate = CHAPCS_INITIAL, serverstate = CHAPSS_INITIAL,
      challenge = [], chal_id = 0, chal_type = 0, cs_id = 0, chal_name = [], chal_interval = 0,
      cs_timeouttime = CHAP_DEFTIMEOUT, max_transmits = CHAP_DEFTRANSMITS, chal_transmits = 0,
      resp_transmits = 0, response = [], resp_id = 0, resp_type = 0, resp_name = []\<rparr>)"

subsection \<open>Challenges\<close>

text \<open>The nearest number with 53 significant bits, ties to even, for numbers below \<open>2 ^ 56\<close>.\<close>

definition round53 :: "nat \<Rightarrow> nat" where
  "round53 n =
     (let u = (if n < 2 ^ 53 then 1 else if n < 2 ^ 54 then 2 else if n < 2 ^ 55 then 4 else 8);
          q = n div u; r = n mod u
      in (if 2 * r > u \<or> (2 * r = u \<and> odd q) then q + 1 else q) * u)"

text \<open>\<^verbatim>\<open>(char) (drand48() * 0xff)\<close> and the challenge length, from a state of the generator.\<close>

definition rand_byte :: "nat \<Rightarrow> u8" where
  "rand_byte x = word_of_nat (round53 (255 * x) div 2 ^ 48)"

definition rand_chal_len :: "nat \<Rightarrow> nat" where
  "rand_chal_len x =
     MIN_CHALLENGE_LENGTH + (MAX_CHALLENGE_LENGTH - MIN_CHALLENGE_LENGTH) * x div 2 ^ 48"

primrec rand_bytes :: "nat \<Rightarrow> 'a ppp_world_scheme \<Rightarrow> bytes \<times> 'a ppp_world_scheme" where
  "rand_bytes 0 w = ([], w)"
| "rand_bytes (Suc n) w =
     (let (x, w) = next48 w; (bs, w) = rand_bytes n w in (rand_byte x # bs, w))"

definition ChapGenChallenge :: "'a chap_world_scheme \<Rightarrow> 'a chap_world_scheme" where
  "ChapGenChallenge w =
     (let (x, w) = next48 w;
          w = upd_chap (\<lambda>c. c\<lparr>cs_id := cs_id c + 1, chal_id := cs_id c + 1, chal_transmits := 0\<rparr>) w;
          (bs, w) = rand_bytes (rand_chal_len x) w
      in upd_chap (\<lambda>c. c\<lparr>challenge := bs\<rparr>) w)"

definition ChapSendChallenge :: "'a chap_world_scheme \<Rightarrow> 'a chap_world_scheme" where
  "ChapSendChallenge w =
     (let c = chap w;
          outlen = int CHAP_HEADERLEN + 1 + int (length (challenge c)) + int (length (chal_name c));
          w = put_outpacket 0 (makeheader PPP_CHAP @ [CHAP_CHALLENGE, chal_id c] @ putshort outlen @
                [word_of_nat (length (challenge c))] @ challenge c @ chal_name c) w;
          w = output_outpacket (cs_unit c) (outlen + int PPP_HDRLEN) w;
          w = ppptimeout CHAP_CHALLENGE_TIMEOUT ARG_CHAP (cs_timeouttime c) w
      in upd_chap (\<lambda>c. c\<lparr>chal_transmits := chal_transmits c + 1\<rparr>) w)"

definition ChapSendStatus :: "u8 \<Rightarrow> 'a chap_world_scheme \<Rightarrow> 'a chap_world_scheme" where
  "ChapSendStatus code w =
     (let msg = (if code = CHAP_SUCCESS then take 255 (ascii ''Welcome to '' @ hostname w @ ascii ''.'')
                 else ascii ''I don't like you.  Go 'way.'');
          outlen = int CHAP_HEADERLEN + int (length msg);
          w = put_outpacket 0 (makeheader PPP_CHAP @ [code, chal_id (chap w)] @ putshort outlen @ msg) w
      in output_outpacket (cs_unit (chap w)) (outlen + int PPP_HDRLEN) w)"

definition ChapSendResponse :: "'a chap_world_scheme \<Rightarrow> 'a chap_world_scheme" where
  "ChapSendResponse w =
     (let c = chap w;
          outlen = int CHAP_HEADERLEN + 1 + int (length (response c)) + int (length (resp_name c));
          w = put_outpacket 0 (makeheader PPP_CHAP @ [CHAP_RESPONSE, resp_id c] @ putshort outlen @
                [word_of_nat (length (response c))] @ response c @ resp_name c) w;
          w = output_outpacket (cs_unit c) (outlen + int PPP_HDRLEN) w;
          w = set_cs CHAPCS_RESPONSE w;
          w = ppptimeout CHAP_RESPONSE_TIMEOUT ARG_CHAP (cs_timeouttime c) w
      in upd_chap (\<lambda>c. c\<lparr>resp_transmits := resp_transmits c + 1\<rparr>) w)"

subsection \<open>Starting\<close>

definition ChapAuthWithPeer :: "bytes \<Rightarrow> u8 \<Rightarrow> 'a chap_world_scheme \<Rightarrow> 'a chap_world_scheme" where
  "ChapAuthWithPeer name digest w =
     (let w = upd_chap (\<lambda>c. c\<lparr>resp_name := name, resp_type := digest\<rparr>) w in
      if clientstate (chap w) = CHAPCS_INITIAL \<or> clientstate (chap w) = CHAPCS_PENDING
      then set_cs CHAPCS_PENDING w else set_cs CHAPCS_LISTEN w)"

definition ChapAuthPeer :: "bytes \<Rightarrow> u8 \<Rightarrow> 'a chap_world_scheme \<Rightarrow> 'a chap_world_scheme" where
  "ChapAuthPeer name digest w =
     (let w = upd_chap (\<lambda>c. c\<lparr>chal_name := name, chal_type := digest\<rparr>) w in
      if serverstate (chap w) = CHAPSS_INITIAL \<or> serverstate (chap w) = CHAPSS_PENDING
      then set_ss CHAPSS_PENDING w
      else set_ss CHAPSS_INITIAL_CHAL (ChapSendChallenge (ChapGenChallenge w)))"

definition ChapLowerUp :: "'a chap_world_scheme \<Rightarrow> 'a chap_world_scheme" where
  "ChapLowerUp w =
     (let w = (if clientstate (chap w) = CHAPCS_INITIAL then set_cs CHAPCS_CLOSED w
               else if clientstate (chap w) = CHAPCS_PENDING then set_cs CHAPCS_LISTEN w else w)
      in if serverstate (chap w) = CHAPSS_INITIAL then set_ss CHAPSS_CLOSED w
         else if serverstate (chap w) = CHAPSS_PENDING
         then set_ss CHAPSS_INITIAL_CHAL (ChapSendChallenge (ChapGenChallenge w)) else w)"

definition ChapLowerDown :: "'a chap_world_scheme \<Rightarrow> 'a chap_world_scheme" where
  "ChapLowerDown w =
     (let ss = serverstate (chap w);
          w = (if ss = CHAPSS_INITIAL_CHAL \<or> ss = CHAPSS_RECHALLENGE
               then pppuntimeout CHAP_CHALLENGE_TIMEOUT ARG_CHAP w
               else if ss = CHAPSS_OPEN \<and> chal_interval (chap w) \<noteq> 0
               then pppuntimeout CHAP_RECHALLENGE ARG_CHAP w else w);
          w = (if clientstate (chap w) = CHAPCS_RESPONSE
               then pppuntimeout CHAP_RESPONSE_TIMEOUT ARG_CHAP w else w)
      in set_ss CHAPSS_INITIAL (set_cs CHAPCS_INITIAL w))"

subsection \<open>Timeouts\<close>

definition ChapChallengeTimeout ::
  "'a chap_world_scheme auth_hooks \<Rightarrow> 'a chap_world_scheme \<Rightarrow> 'a chap_world_scheme" where
  "ChapChallengeTimeout h w =
     (if serverstate (chap w) \<noteq> CHAPSS_INITIAL_CHAL \<and> serverstate (chap w) \<noteq> CHAPSS_RECHALLENGE then w
      else if chal_transmits (chap w) \<ge> max_transmits (chap w)
      then a_peer_fail h PPP_CHAP (set_ss CHAPSS_BADAUTH w)
      else ChapSendChallenge w)"

definition ChapResponseTimeout :: "'a chap_world_scheme \<Rightarrow> 'a chap_world_scheme" where
  "ChapResponseTimeout w =
     (if clientstate (chap w) \<noteq> CHAPCS_RESPONSE then w else ChapSendResponse w)"

definition ChapRechallenge :: "'a chap_world_scheme \<Rightarrow> 'a chap_world_scheme" where
  "ChapRechallenge w =
     (if serverstate (chap w) \<noteq> CHAPSS_OPEN then w
      else set_ss CHAPSS_RECHALLENGE (ChapSendChallenge (ChapGenChallenge w)))"

definition ChapProtocolReject ::
  "'a chap_world_scheme auth_hooks \<Rightarrow> 'a chap_world_scheme \<Rightarrow> 'a chap_world_scheme" where
  "ChapProtocolReject h w =
     (let w = (if serverstate (chap w) \<noteq> CHAPSS_INITIAL \<and> serverstate (chap w) \<noteq> CHAPSS_CLOSED
               then a_peer_fail h PPP_CHAP w else w);
          w = (if clientstate (chap w) \<noteq> CHAPCS_INITIAL \<and> clientstate (chap w) \<noteq> CHAPCS_CLOSED
               then a_withpeer_fail h PPP_CHAP w else w)
      in ChapLowerDown w)"

subsection \<open>Received packets\<close>

definition ChapReceiveChallenge ::
  "(bytes \<Rightarrow> bytes) \<Rightarrow> bytes \<Rightarrow> u8 \<Rightarrow> 'a chap_world_scheme \<Rightarrow> 'a chap_world_scheme" where
  "ChapReceiveChallenge md5 inp idn w =
     (if clientstate (chap w) = CHAPCS_CLOSED \<or> clientstate (chap w) = CHAPCS_PENDING then w
      else
        (case inp of
           n # _ # _ \<Rightarrow>
             (let len = int (length inp) - (1 + int (unat n)) in
              if len < 0 then w
              else
                (let rchallenge = take (unat n) (tl inp);
                     secret = (case get_secret False w of None \<Rightarrow> [] | Some s \<Rightarrow> s);
                     w = (if clientstate (chap w) = CHAPCS_RESPONSE
                          then pppuntimeout CHAP_RESPONSE_TIMEOUT ARG_CHAP w else w);
                     w = upd_chap (\<lambda>c. c\<lparr>resp_id := idn, resp_transmits := 0\<rparr>) w
                 in if resp_type (chap w) = CHAP_DIGEST_MD5
                    then ChapSendResponse
                           (upd_chap (\<lambda>c. c\<lparr>response := md5 ([idn] @ secret @ rchallenge)\<rparr>) w)
                    else w))
         | _ \<Rightarrow> w))"

text \<open>The status for a Response with digest \<open>remmd\<close>.\<close>

definition chap_verify :: "(bytes \<Rightarrow> bytes) \<Rightarrow> bytes \<Rightarrow> 'a chap_world_scheme \<Rightarrow> u8" where
  "chap_verify md5 remmd w =
     (case get_secret True w of
        None \<Rightarrow> CHAP_FAILURE
      | Some secret \<Rightarrow>
          if chal_type (chap w) = CHAP_DIGEST_MD5 \<and> length remmd = MD5_SIGNATURE_SIZE \<and>
             md5 ([chal_id (chap w)] @ secret @ challenge (chap w)) = remmd
          then CHAP_SUCCESS else CHAP_FAILURE)"

definition ChapReceiveResponse ::
  "'a chap_world_scheme auth_hooks \<Rightarrow> (bytes \<Rightarrow> bytes) \<Rightarrow> bytes \<Rightarrow> u8 \<Rightarrow> 'a chap_world_scheme \<Rightarrow>
   'a chap_world_scheme" where
  "ChapReceiveResponse h md5 inp idn w =
     (let ss = serverstate (chap w) in
      if ss = CHAPSS_CLOSED \<or> ss = CHAPSS_PENDING then w
      else if idn \<noteq> chal_id (chap w) then w
      else if ss = CHAPSS_OPEN then ChapSendStatus CHAP_SUCCESS w
      else if ss = CHAPSS_BADAUTH then ChapSendStatus CHAP_FAILURE w
      else
        (case inp of
           n # _ # _ \<Rightarrow>
             (let len = int (length inp) - (1 + int (unat n)) in
              if len < 0 then w
              else
                (let remmd = take (unat n) (tl inp);
                     rhostname = take 255 (drop (unat n) (tl inp));
                     w = pppuntimeout CHAP_CHALLENGE_TIMEOUT ARG_CHAP w;
                     code = chap_verify md5 remmd w;
                     w = ChapSendStatus code w
                 in if code = CHAP_SUCCESS then
                      (let w = set_ss CHAPSS_OPEN w;
                           w = (if ss = CHAPSS_INITIAL_CHAL
                                then a_peer_success h PPP_CHAP rhostname w else w)
                       in if chal_interval (chap w) \<noteq> 0
                          then ppptimeout CHAP_RECHALLENGE ARG_CHAP (chal_interval (chap w)) w else w)
                    else a_peer_fail h PPP_CHAP (set_ss CHAPSS_BADAUTH w)))
         | _ \<Rightarrow> w))"

definition ChapReceiveSuccess ::
  "'a chap_world_scheme auth_hooks \<Rightarrow> 'a chap_world_scheme \<Rightarrow> 'a chap_world_scheme" where
  "ChapReceiveSuccess h w =
     (if clientstate (chap w) \<noteq> CHAPCS_RESPONSE then w
      else a_withpeer_success h PPP_CHAP
             (set_cs CHAPCS_OPEN (pppuntimeout CHAP_RESPONSE_TIMEOUT ARG_CHAP w)))"

definition ChapReceiveFailure ::
  "'a chap_world_scheme auth_hooks \<Rightarrow> 'a chap_world_scheme \<Rightarrow> 'a chap_world_scheme" where
  "ChapReceiveFailure h w =
     (if clientstate (chap w) \<noteq> CHAPCS_RESPONSE then w
      else a_withpeer_fail h PPP_CHAP (pppuntimeout CHAP_RESPONSE_TIMEOUT ARG_CHAP w))"

definition ChapInput ::
  "'a chap_world_scheme auth_hooks \<Rightarrow> (bytes \<Rightarrow> bytes) \<Rightarrow> bytes \<Rightarrow> 'a chap_world_scheme \<Rightarrow>
   'a chap_world_scheme" where
  "ChapInput h md5 inpacket w =
     (case inpacket of
        code # idn # a # b # rest \<Rightarrow>
          (let len = getshort a b in
           if len < int CHAP_HEADERLEN then w
           else if len > int (length inpacket) then w
           else
             (let inp = take (nat len - CHAP_HEADERLEN) rest in
              if code = CHAP_CHALLENGE then ChapReceiveChallenge md5 inp idn w
              else if code = CHAP_RESPONSE then ChapReceiveResponse h md5 inp idn w
              else if code = CHAP_FAILURE then ChapReceiveFailure h w
              else if code = CHAP_SUCCESS then ChapReceiveSuccess h w
              else w))
      | _ \<Rightarrow> w)"

section \<open>Challenges\<close>

lemma rand_chal_len_bounds:
  "x < 2 ^ 48 \<Longrightarrow> MIN_CHALLENGE_LENGTH \<le> rand_chal_len x \<and> rand_chal_len x < MAX_CHALLENGE_LENGTH"
  by (simp add: rand_chal_len_def ppp_consts div_less_iff_less_mult)

lemma length_rand_bytes: "length (fst (rand_bytes n w)) = n"
  by (induction n arbitrary: w) (simp_all add: next48_def case_prod_unfold Let_def)

end
