(* ===== verification/Auth.thy ===== *)
theory Auth
  imports Chap
begin

text \<open>
  The control flow of \<^verbatim>\<open>auth.c\<close>: what happens when LCP goes down or comes up, the authentication
  phase, the network phase and its end. The table \<^verbatim>\<open>protocols\<close> is LCP, PAP, CHAP and the network
  control protocols; the latter are the argument \<open>ncps\<close>, a list of \<open>protent\<close> entries. The C functions
  call each other in a cycle (\<^verbatim>\<open>lcp_close\<close>, \<^verbatim>\<open>lcp_down\<close>, \<^verbatim>\<open>link_down\<close>); it is resolved by what each call
  can reach: \<^verbatim>\<open>link_down\<close> only uses \<^verbatim>\<open>lowerdown\<close> and \<^verbatim>\<open>close\<close> of the table, \<^verbatim>\<open>lcp_close\<close> only
  \<^verbatim>\<open>link_down\<close> and \<^verbatim>\<open>link_terminated\<close>, and the rest is built on \<^verbatim>\<open>lcp_close\<close>.
\<close>

section \<open>Definitions\<close>

record 'w protent =
  p_protocol :: int
  p_enabled :: bool
  p_input :: "bytes \<Rightarrow> 'w \<Rightarrow> 'w"
  p_protrej :: "'w \<Rightarrow> 'w"
  p_lowerup :: "('w \<Rightarrow> 'w) option"
  p_lowerdown :: "('w \<Rightarrow> 'w) option"
  p_open :: "('w \<Rightarrow> 'w) option"
  p_close :: "(bytes \<Rightarrow> 'w \<Rightarrow> 'w) option"
  p_datainput :: "(bytes \<Rightarrow> 'w \<Rightarrow> 'w) option"

definition link_required :: "'a chap_world_scheme \<Rightarrow> 'a chap_world_scheme" where
  "link_required w = w"

definition link_terminated :: "plugins \<Rightarrow> 'a chap_world_scheme \<Rightarrow> 'a chap_world_scheme" where
  "link_terminated pl w =
     (if pppd_phase w = PHASE_DEAD then w
      else new_phase PHASE_DEAD (if pap_logout_hook pl then plugin_note Logout w else w))"

text \<open>The loop body of \<^verbatim>\<open>link_down\<close>, and the loop.\<close>

definition proto_down :: "'w protent \<Rightarrow> 'w \<Rightarrow> 'w" where
  "proto_down p w =
     (if \<not> p_enabled p then w
      else
        (let w = (if p_protocol p \<noteq> PPP_LCP then call_opt (p_lowerdown p) w else w)
         in if p_protocol p < 0xC000
            then (case p_close p of None \<Rightarrow> w | Some c \<Rightarrow> c (ascii ''LCP down'') w) else w))"

definition link_down ::
  "plugins \<Rightarrow> 'a chap_world_scheme protent list \<Rightarrow> 'a chap_world_scheme \<Rightarrow> 'a chap_world_scheme" where
  "link_down pl tab w =
     (let w = w\<lparr>auth_state := s_down\<rparr>;
          w = (if auth_script_state w = s_up then auth_script pl s_down w else w);
          w = fold proto_down tab w;
          w = w\<lparr>num_np_open := 0, num_np_up := 0\<rparr>
      in if pppd_phase w \<noteq> PHASE_DEAD then new_phase PHASE_TERMINATE w else w)"

text \<open>The entries of LCP, PAP and CHAP as \<^verbatim>\<open>link_down\<close> uses them, with their table of hooks.\<close>

definition down_ent :: "int \<Rightarrow> ('w \<Rightarrow> 'w) option \<Rightarrow> 'w protent" where
  "down_ent n lowerdown =
     \<lparr>p_protocol = n, p_enabled = True, p_input = (\<lambda>_ w. w), p_protrej = (\<lambda>w. w), p_lowerup = None,
      p_lowerdown = lowerdown, p_open = None, p_close = None, p_datainput = None\<rparr>"

definition down_protocols :: "'a chap_world_scheme protent list \<Rightarrow> 'a chap_world_scheme protent list" where
  "down_protocols ncps =
     [down_ent PPP_LCP None, down_ent PPP_PAP (Some upap_lowerdown),
      down_ent PPP_CHAP (Some ChapLowerDown)] @ ncps"

definition down_hooks ::
  "plugins \<Rightarrow> 'a chap_world_scheme protent list \<Rightarrow> 'a chap_world_scheme lower_hooks" where
  "down_hooks pl ncps =
     \<lparr>h_link_down = link_down pl (down_protocols ncps), h_link_terminated = link_terminated pl\<rparr>"

definition close_link ::
  "plugins \<Rightarrow> 'a chap_world_scheme protent list \<Rightarrow> string \<Rightarrow> 'a chap_world_scheme \<Rightarrow>
   'a chap_world_scheme" where
  "close_link pl ncps reason = lcp_close (down_hooks pl ncps) (ascii reason)"

subsection \<open>Network phase\<close>

definition proto_open :: "'a chap_world_scheme protent \<Rightarrow> 'a chap_world_scheme \<Rightarrow> 'a chap_world_scheme" where
  "proto_open p w =
     (if p_protocol p < 0xC000 \<and> p_enabled p
      then (case p_open p of
              None \<Rightarrow> w
            | Some opn \<Rightarrow>
                (let w = opn w in
                 if p_protocol p \<noteq> PPP_CCP then w\<lparr>num_np_open := num_np_open w + 1\<rparr> else w))
      else w)"

definition start_networks ::
  "plugins \<Rightarrow> 'a chap_world_scheme protent list \<Rightarrow> 'a chap_world_scheme \<Rightarrow> 'a chap_world_scheme" where
  "start_networks pl ncps w =
     (let w = fold proto_open ncps (new_phase PHASE_NETWORK w)
      in if num_np_open w = 0 then close_link pl ncps ''No network protocols running'' w else w)"

definition network_phase ::
  "plugins \<Rightarrow> 'a chap_world_scheme protent list \<Rightarrow> 'a chap_world_scheme \<Rightarrow> 'a chap_world_scheme" where
  "network_phase pl ncps w =
     (let w = w\<lparr>auth_state := s_up\<rparr>;
          w = (if auth_script_state w = s_down then auth_script pl s_up w else w)
      in start_networks pl ncps w)"

definition np_up :: "plugins \<Rightarrow> 'a chap_world_scheme \<Rightarrow> 'a chap_world_scheme" where
  "np_up pl w =
     (let w = (if num_np_up w = 0 then
                 (let w = new_phase PHASE_RUNNING (w\<lparr>pppd_status := EXIT_OK, unsuccess := 0\<rparr>);
                      tlim = (case idle_time_hook pl of
                                Some hook \<Rightarrow> hook None | None \<Rightarrow> idle_time_limit w);
                      w = (if tlim > 0 then ppptimeout CHECK_IDLE ARG_NULL tlim w else w)
                  in if maxconnect w > 0
                     then ppptimeout CONNECT_TIME_EXPIRED ARG_NULL (maxconnect w) w else w)
               else w)
      in w\<lparr>num_np_up := num_np_up w + 1\<rparr>)"

definition np_down :: "'a chap_world_scheme \<Rightarrow> 'a chap_world_scheme" where
  "np_down w =
     (let w = w\<lparr>num_np_up := num_np_up w - 1\<rparr> in
      if num_np_up w = 0 then new_phase PHASE_NETWORK (pppuntimeout CHECK_IDLE ARG_NULL w) else w)"

definition np_finished ::
  "plugins \<Rightarrow> 'a chap_world_scheme protent list \<Rightarrow> 'a chap_world_scheme \<Rightarrow> 'a chap_world_scheme" where
  "np_finished pl ncps w =
     (let w = w\<lparr>num_np_open := num_np_open w - 1\<rparr> in
      if num_np_open w \<le> 0 then close_link pl ncps ''No network protocols running'' w else w)"

text \<open>\<^verbatim>\<open>check_idle\<close>, given the result of \<^verbatim>\<open>get_idle_time\<close> (transmit and receive idle time).\<close>

definition check_idle ::
  "plugins \<Rightarrow> 'a chap_world_scheme protent list \<Rightarrow> (int \<times> int) option \<Rightarrow> 'a chap_world_scheme \<Rightarrow>
   'a chap_world_scheme" where
  "check_idle pl ncps idle w =
     (case idle of
        None \<Rightarrow> w
      | Some (x, r) \<Rightarrow>
          (let tlim = (case idle_time_hook pl of
                         Some hook \<Rightarrow> hook idle | None \<Rightarrow> idle_time_limit w - min x r)
           in if tlim \<le> 0
              then (close_link pl ncps ''Link inactive'' w)
                     \<lparr>need_holdoff := False, pppd_status := EXIT_IDLE_TIMEOUT\<rparr>
              else ppptimeout CHECK_IDLE ARG_NULL tlim w))"

definition connect_time_expired ::
  "plugins \<Rightarrow> 'a chap_world_scheme protent list \<Rightarrow> 'a chap_world_scheme \<Rightarrow> 'a chap_world_scheme" where
  "connect_time_expired pl ncps w =
     (close_link pl ncps ''Connect time expired'' w)\<lparr>pppd_status := EXIT_CONNECT_TIME\<rparr>"

subsection \<open>Outcome of authentication\<close>

definition auth_peer_fail ::
  "plugins \<Rightarrow> 'a chap_world_scheme protent list \<Rightarrow> int \<Rightarrow> 'a chap_world_scheme \<Rightarrow>
   'a chap_world_scheme" where
  "auth_peer_fail pl ncps protocol w =
     (close_link pl ncps ''Authentication failed'' w)\<lparr>pppd_status := EXIT_PEER_AUTH_FAILED\<rparr>"

definition auth_peer_success ::
  "plugins \<Rightarrow> 'a chap_world_scheme protent list \<Rightarrow> int \<Rightarrow> bytes \<Rightarrow> 'a chap_world_scheme \<Rightarrow>
   'a chap_world_scheme" where
  "auth_peer_success pl ncps protocol name w =
     (if protocol \<noteq> PPP_CHAP \<and> protocol \<noteq> PPP_PAP then w
      else
        (let b = (if protocol = PPP_CHAP then CHAP_PEER else PAP_PEER);
             w = w\<lparr>peer_authname := take (MAXNAMELEN - 1) name,
                   auth_pending := auth_pending w AND NOT b\<rparr>
         in if auth_pending w = 0 then network_phase pl ncps w else w))"

definition auth_withpeer_fail ::
  "plugins \<Rightarrow> 'a chap_world_scheme protent list \<Rightarrow> int \<Rightarrow> 'a chap_world_scheme \<Rightarrow>
   'a chap_world_scheme" where
  "auth_withpeer_fail pl ncps protocol w =
     (let w = (if passwd_from_file w then w\<lparr>passwd := []\<rparr> else w)
      in (close_link pl ncps ''Failed to authenticate ourselves to peer'' w)
           \<lparr>pppd_status := EXIT_AUTH_TOPEER_FAILED\<rparr>)"

definition auth_withpeer_success ::
  "plugins \<Rightarrow> 'a chap_world_scheme protent list \<Rightarrow> int \<Rightarrow> 'a chap_world_scheme \<Rightarrow>
   'a chap_world_scheme" where
  "auth_withpeer_success pl ncps protocol w =
     (let w = (if protocol = PPP_PAP \<and> passwd_from_file w then w\<lparr>passwd := []\<rparr> else w);
          b = (if protocol = PPP_CHAP then CHAP_WITHPEER
               else if protocol = PPP_PAP then PAP_WITHPEER else 0);
          w = w\<lparr>auth_pending := auth_pending w AND NOT b\<rparr>
      in if auth_pending w = 0 then network_phase pl ncps w else w)"

definition the_auth_hooks ::
  "plugins \<Rightarrow> 'a chap_world_scheme protent list \<Rightarrow> 'a chap_world_scheme auth_hooks" where
  "the_auth_hooks pl ncps =
     \<lparr>a_peer_fail = auth_peer_fail pl ncps, a_peer_success = auth_peer_success pl ncps,
      a_withpeer_fail = auth_withpeer_fail pl ncps,
      a_withpeer_success = auth_withpeer_success pl ncps\<rparr>"

subsection \<open>The link is established\<close>

definition proto_lowerup :: "'a chap_world_scheme protent \<Rightarrow> 'a chap_world_scheme \<Rightarrow> 'a chap_world_scheme" where
  "proto_lowerup p w =
     (if p_protocol p \<noteq> PPP_LCP \<and> p_enabled p then call_opt (p_lowerup p) w else w)"

text \<open>Starting the authentication that was negotiated: the peer's, ours, and the pending bits.\<close>

definition start_peer_auth :: "'a chap_world_scheme \<Rightarrow> u32 \<times> 'a chap_world_scheme" where
  "start_peer_auth w =
     (let go = lcp_gotoptions w in
      if neg_chap go then (CHAP_PEER, ChapAuthPeer (our_name w) (chap_mdtype go) w)
      else if neg_upap go then (PAP_PEER, upap_authpeer w)
      else (0, w))"

definition start_our_auth :: "plugins \<Rightarrow> 'a chap_world_scheme \<Rightarrow> u32 \<times> 'a chap_world_scheme" where
  "start_our_auth pl w =
     (let ho = lcp_hisoptions w in
      if neg_chap ho then (CHAP_WITHPEER, ChapAuthWithPeer (user w) (chap_mdtype ho) w)
      else if neg_upap ho then
        (let w = (if passwd w = [] then snd (get_pap_passwd pl (w\<lparr>passwd_from_file := True\<rparr>)) else w)
         in (PAP_WITHPEER, upap_authwithpeer (user w) (passwd w) w))
      else (0, w))"

definition link_established ::
  "plugins \<Rightarrow> 'a chap_world_scheme protent list \<Rightarrow> 'a chap_world_scheme \<Rightarrow> 'a chap_world_scheme" where
  "link_established pl ncps w =
     (let w = fold proto_lowerup ncps (ChapLowerUp (upap_lowerup w)) in
      if auth_required w \<and> \<not> (neg_chap (lcp_gotoptions w) \<or> neg_upap (lcp_gotoptions w)) \<and>
         (\<not> neg_upap (lcp_wantoptions w) \<or> \<not> null_login)
      then (close_link pl ncps ''peer refused to authenticate'' w)\<lparr>pppd_status := EXIT_PEER_AUTH_FAILED\<rparr>
      else
        (let (b1, w) = start_peer_auth (new_phase PHASE_AUTHENTICATE w);
             (b2, w) = start_our_auth pl w;
             w = w\<lparr>auth_pending := b1 OR b2\<rparr>
         in if b1 OR b2 = 0 then network_phase pl ncps w else w))"

subsection \<open>The hooks of LCP\<close>

definition protrej_entries ::
  "plugins \<Rightarrow> 'a chap_world_scheme protent list \<Rightarrow> 'a chap_world_scheme protrej_table" where
  "protrej_entries pl ncps =
     [(PPP_LCP, True, lcp_protrej (down_hooks pl ncps)),
      (PPP_PAP, True, upap_protrej (the_auth_hooks pl ncps)),
      (PPP_CHAP, True, ChapProtocolReject (the_auth_hooks pl ncps))] @
     map (\<lambda>p. (p_protocol p, p_enabled p, p_protrej p)) ncps"

definition the_link_hooks ::
  "plugins \<Rightarrow> 'a chap_world_scheme protent list \<Rightarrow> 'a chap_world_scheme link_hooks" where
  "the_link_hooks pl ncps =
     \<lparr>h_link_down = link_down pl (down_protocols ncps), h_link_terminated = link_terminated pl,
      h_link_required = link_required, h_auth_reset = auth_reset pl,
      h_link_established = link_established pl ncps, h_protocols = protrej_entries pl ncps\<rparr>"

end
