(* ===== verification/Fsm_Layer.thy ===== *)
theory Fsm_Layer
  imports Fsm_Inv
begin

text \<open>
  The layer above an automaton is up only in \<open>OPENED\<close>. \<open>view\<close> is the part of the state that belongs
  to that layer, \<open>dn\<close> says that the layer is down and \<open>lay\<close> that it is consistent. When the
  automaton's own bookkeeping does not touch the view, the \<^verbatim>\<open>up\<close> callback is only given a layer that
  is down, and the \<^verbatim>\<open>down\<close> callback takes it down, then every operation of \<^verbatim>\<open>fsm.c\<close> keeps
  \<open>layer_inv\<close>: outside \<open>OPENED\<close> the layer is down. This holds for every packet.
\<close>

section \<open>Definitions\<close>

definition layer_inv ::
  "('v \<Rightarrow> bool) \<Rightarrow> ('v \<Rightarrow> bool) \<Rightarrow> ('a fsm_world_scheme \<Rightarrow> 'v) \<Rightarrow> fsm_id \<Rightarrow> 'a fsm_world_scheme \<Rightarrow> bool" where
  "layer_inv dn lay view i w \<longleftrightarrow> (if state_of i w = OPENED then lay (view w) else dn (view w))"

section \<open>The interface\<close>

locale fsm_layer =
  fixes cb :: "'a fsm_world_scheme fsm_callbacks" and i :: fsm_id
    and view :: "'a fsm_world_scheme \<Rightarrow> 'v" and dn lay :: "'v \<Rightarrow> bool"
  assumes dn_lay: "dn v \<Longrightarrow> lay v"
    and view_fsm: "view (upd_fsm i g w) = view w"
    and view_arm: "view (ppptimeout FSM_TIMEOUT (ARG_FSM i) t w) = view w"
    and view_disarm: "view (pppuntimeout FSM_TIMEOUT (ARG_FSM i) w) = view w"
    and view_put: "view (put_outpacket n bs w) = view w"
    and view_sdata: "view (fsm_sdata i code idn d m w) = view w"
    and resetci_view: "cb_resetci cb = Some r \<Longrightarrow> view (r w) = view w \<and> state_of i (r w) = state_of i w"
    and cilen_view: "cb_cilen cb = Some c \<Longrightarrow> view (snd (c w)) = view w \<and> state_of i (snd (c w)) = state_of i w"
    and addci_view: "cb_addci cb = Some a \<Longrightarrow>
      view (snd (snd (a m w))) = view w \<and> state_of i (snd (snd (a m w))) = state_of i w"
    and reqci_view: "cb_reqci cb = Some q \<Longrightarrow>
      view (snd (snd (q inp rej w))) = view w \<and> state_of i (snd (snd (q inp rej w))) = state_of i w"
    and ackci_view: "cb_ackci cb = Some k \<Longrightarrow>
      view (snd (k inp w)) = view w \<and> state_of i (snd (k inp w)) = state_of i w"
    and rejci_view: "cb_rejci cb = Some p \<Longrightarrow>
      view (snd (p inp w)) = view w \<and> state_of i (snd (p inp w)) = state_of i w"
    and retransmit_view: "cb_retransmit cb = Some r \<Longrightarrow> view (r w) = view w \<and> state_of i (r w) = state_of i w"
    and nakci_layer: "cb_nakci cb = Some p \<Longrightarrow> layer_inv dn lay view i w \<Longrightarrow>
      layer_inv dn lay view i (snd (p inp w)) \<and>
      (state_of i (snd (p inp w)) = OPENED \<longrightarrow> state_of i w = OPENED)"
    and up_layer: "cb_up cb = Some u \<Longrightarrow> dn (view w) \<Longrightarrow> state_of i w = OPENED \<Longrightarrow>
      layer_inv dn lay view i (u w)"
    and down_layer: "cb_down cb = Some u \<Longrightarrow> lay (view w) \<Longrightarrow>
      dn (view (u w)) \<and> state_of i (u w) = state_of i w"
    and no_down: "cb_down cb = None \<Longrightarrow> lay v \<Longrightarrow> dn v"
    and starting_layer: "cb_starting cb = Some u \<Longrightarrow> layer_inv dn lay view i w \<Longrightarrow> layer_inv dn lay view i (u w)"
    and finished_layer: "cb_finished cb = Some u \<Longrightarrow> layer_inv dn lay view i w \<Longrightarrow> layer_inv dn lay view i (u w)"
    and extcode_layer: "cb_extcode cb = Some e \<Longrightarrow> layer_inv dn lay view i w \<Longrightarrow>
      layer_inv dn lay view i (snd (e code idn inp w))"
begin

abbreviation inv :: "'a fsm_world_scheme \<Rightarrow> bool" where
  "inv \<equiv> layer_inv dn lay view i"

lemma call_resetci [simp]:
  "view (call_opt (cb_resetci cb) w) = view w" "state_of i (call_opt (cb_resetci cb) w) = state_of i w"
  using resetci_view by (cases "cb_resetci cb"; simp)+

lemma call_retransmit [simp]:
  "view (call_opt (cb_retransmit cb) w) = view w" "state_of i (call_opt (cb_retransmit cb) w) = state_of i w"
  using retransmit_view by (cases "cb_retransmit cb"; simp)+

lemma call_down:
  "lay (view w) \<Longrightarrow> dn (view (call_opt (cb_down cb) w)) \<and> state_of i (call_opt (cb_down cb) w) = state_of i w"
  using down_layer no_down by (cases "cb_down cb") auto

lemma call_up_layer:
  "dn (view w) \<Longrightarrow> state_of i w = OPENED \<Longrightarrow> inv (call_opt (cb_up cb) w)"
  using up_layer dn_lay by (cases "cb_up cb") (auto simp: layer_inv_def)

lemma call_finished_layer: "inv w \<Longrightarrow> inv (call_opt (cb_finished cb) w)"
  using finished_layer by (cases "cb_finished cb") auto

lemma call_starting_layer: "inv w \<Longrightarrow> inv (call_opt (cb_starting cb) w)"
  using starting_layer by (cases "cb_starting cb") auto

lemmas view_simps [simp] = view_fsm view_arm view_disarm view_put view_sdata

lemma make_confreq_view:
  assumes "fsm_make_confreq cb w = (n, w')"
  shows "view w' = view w \<and> state_of i w' = state_of i w"
proof (cases "cb_cilen cb = None \<or> cb_addci cb = None")
  case True
  with assms show ?thesis
    by (auto simp: fsm_make_confreq_def split: option.splits)
next
  case False
  then obtain c d where cd: "cb_cilen cb = Some c" "cb_addci cb = Some d"
    by auto
  obtain k v where c: "c w = (k, v)"
    by fastforce
  define m where "m = (if k > peer_mru v - int HEADERLEN then peer_mru v - int HEADERLEN else k)"
  obtain bs j u where d: "d m v = (bs, j, u)"
    by (cases "d m v") auto
  have "w' = put_outpacket (PPP_HDRLEN + HEADERLEN) bs u"
    using assms d by (simp add: fsm_make_confreq_def cd c m_def)
  then show ?thesis
    using cilen_view [OF cd(1), of w] addci_view [OF cd(2), of m v] c d by simp
qed

lemma sconfreq_view [simp]:
  "view (fsm_sconfreq cb i r w) = view w" "state_of i (fsm_sconfreq cb i r w) = state_of i w"
proof -
  obtain n v where m: "fsm_make_confreq cb (fsm_sconfreq_begin cb i r w) = (n, v)"
    by fastforce
  have "view (fsm_sconfreq_begin cb i r w) = view w"
    "state_of i (fsm_sconfreq_begin cb i r w) = state_of i w"
    by (simp_all add: fsm_sconfreq_begin_def Let_def)
  with make_confreq_view [OF m]
  show "view (fsm_sconfreq cb i r w) = view w" "state_of i (fsm_sconfreq cb i r w) = state_of i w"
    by (simp_all add: fsm_sconfreq_def m)
qed

lemma sterm_view [simp]: "view (fsm_sterm i w) = view w"
  by (simp add: fsm_sterm_def Let_def)

text \<open>A state change into or inside the states other than \<open>OPENED\<close>.\<close>

lemma inv_set_state: "dn (view w) \<Longrightarrow> inv (set_state i s w)"
  using dn_lay by (simp add: layer_inv_def)

lemma inv_dn: "inv w \<Longrightarrow> state_of i w \<noteq> OPENED \<Longrightarrow> dn (view w)"
  by (simp add: layer_inv_def)

lemma inv_lay: "inv w \<Longrightarrow> lay (view w)"
  using dn_lay by (auto simp: layer_inv_def split: if_splits)

lemma dn_inv: "dn (view w) \<Longrightarrow> inv w"
  using dn_lay by (simp add: layer_inv_def)

lemma inv_upd: "f_state (g (fsms w i)) = state_of i w \<Longrightarrow> inv (upd_fsm i g w) = inv w"
  by (simp add: layer_inv_def)

lemma down_dn: "inv w \<Longrightarrow> dn (view (call_opt (cb_down cb) w))"
  using call_down [OF inv_lay] by blast

lemma down_state: "inv w \<Longrightarrow> state_of i (call_opt (cb_down cb) w) = state_of i w"
  using call_down [OF inv_lay] by blast

lemma inv_base [simp]:
  "inv (pppuntimeout FSM_TIMEOUT (ARG_FSM i) w) = inv w"
  "inv (ppptimeout FSM_TIMEOUT (ARG_FSM i) t w) = inv w"
  "inv (fsm_sdata i code idn d m w) = inv w"
  "inv (fsm_sconfreq cb i r w) = inv w"
  "inv (fsm_sterm i w) = inv w"
  "inv (call_opt (cb_retransmit cb) w) = inv w"
  by (simp_all add: layer_inv_def fsm_sterm_fsm)

lemma inv_down: "inv w \<Longrightarrow> inv (call_opt (cb_down cb) w)"
  by (rule dn_inv) (rule down_dn)

lemma lowerup_layer: "inv w \<Longrightarrow> inv (fsm_lowerup cb i w)"
  by (cases "state_of i w") (auto simp: fsm_lowerup_def intro!: inv_set_state dest: inv_dn)

lemma lowerdown_layer: "inv w \<Longrightarrow> inv (fsm_lowerdown cb i w)"
  by (cases "state_of i w")
    (auto simp: fsm_lowerdown_def intro!: inv_set_state call_starting_layer inv_down down_dn dest: inv_dn)

lemma open_layer: "inv w \<Longrightarrow> inv (fsm_open cb i w)"
  by (cases "state_of i w")
    (auto simp: fsm_open_def Let_def intro!: inv_set_state call_starting_layer lowerup_layer lowerdown_layer
      dest: inv_dn)

lemma close_layer: "inv w \<Longrightarrow> inv (fsm_close cb i reason w)"
proof -
  assume "inv w"
  then have up: "inv (upd_fsm i (\<lambda>f. f\<lparr>f_term_reason := reason, f_term_reason_len := n\<rparr>) w)" for n
    by (simp add: inv_upd)
  with \<open>inv w\<close> show ?thesis
    by (cases "state_of i w")
      (auto simp: fsm_close_def Let_def intro!: inv_set_state down_dn dest: inv_dn)
qed

lemma timeout_layer: "inv w \<Longrightarrow> inv (fsm_timeout cb i w)"
  by (cases "state_of i w")
    (auto simp: fsm_timeout_def Let_def intro!: inv_set_state call_finished_layer dest: inv_dn)

lemma rconfreq_reply_layer:
  assumes "dn (view w)"
  shows "inv (fsm_rconfreq_reply cb i idn code inp w)"
proof -
  have "inv (call_opt (cb_up cb)
      (set_state i OPENED (pppuntimeout FSM_TIMEOUT (ARG_FSM i) (fsm_sdata i code idn d n w))))" for d n
    using assms by (intro call_up_layer) simp_all
  then show ?thesis
    using assms dn_inv [OF assms]
    by (auto simp: fsm_rconfreq_reply_def Let_def inv_upd intro!: inv_set_state)
qed

lemma rconfreq_layer:
  assumes inv: "inv w"
  shows "inv (fsm_rconfreq cb i idn inp w)"
proof -
  obtain v go_on where e: "fsm_rconfreq_enter cb i idn w = (v, go_on)"
    by fastforce
  have enter: "inv v \<and> (go_on \<longrightarrow> dn (view v))"
    using inv e by (cases "state_of i w")
      (auto simp: fsm_rconfreq_enter_def intro!: inv_set_state inv_down down_dn dest: inv_dn)
  define rej where "rej = (f_nakloops (fsms v i) \<ge> f_maxnakloops (fsms v i))"
  obtain code inp' u where r: "(case cb_reqci cb of Some reqci \<Rightarrow> reqci inp rej v
      | None \<Rightarrow> (if inp \<noteq> [] then CONFREJ else CONFACK, inp, v)) = (code, inp', u)"
    by (metis prod_cases3)
  have "view u = view v"
    using r reqci_view [of _ inp rej v] by (auto split: option.splits if_splits)
  with enter have "inv (fsm_rconfreq_reply cb i idn code inp' u)" if go_on
    using that by (intro rconfreq_reply_layer) simp
  with enter show ?thesis
    unfolding fsm_rconfreq_def e Let_def prod.case rej_def [symmetric] r by auto
qed

lemma rconfack_layer:
  assumes "inv w"
  shows "inv (fsm_rconfack cb i idn inp w)"
proof -
  obtain ok v where a: "(case cb_ackci cb of Some ackci \<Rightarrow> ackci inp w | None \<Rightarrow> (inp = [], w)) = (ok, v)"
    by fastforce
  have "view v = view w \<and> state_of i v = state_of i w"
    using a ackci_view [of _ inp w] by (auto split: option.splits)
  then have v: "inv v"
    using assms by (simp add: layer_inv_def)
  moreover have s: "inv (upd_fsm i (\<lambda>f. f\<lparr>f_seen_ack := True\<rparr>) v)"
    using v by (simp add: inv_upd)
  ultimately show ?thesis
    using assms by (cases "state_of i v")
      (auto simp: fsm_rconfack_def a Let_def inv_upd
        intro!: inv_set_state call_up_layer inv_down down_dn dest: inv_dn)
qed

lemma rconfnakrej_layer:
  assumes "inv w"
  shows "inv (fsm_rconfnakrej cb i code idn inp w)"
proof (cases "if code = CONFNAK then cb_nakci cb else cb_rejci cb")
  case None
  with assms show ?thesis by (simp add: fsm_rconfnakrej_def)
next
  case (Some proc)
  obtain ret v where p: "proc inp w = (ret, v)"
    by fastforce
  have v: "inv v"
  proof (cases "code = CONFNAK")
    case True
    then show ?thesis using Some p nakci_layer [OF _ assms, of proc inp] by simp
  next
    case False
    then show ?thesis using Some p rejci_view [of proc inp w] assms by (simp add: layer_inv_def)
  qed
  moreover have s: "inv (upd_fsm i (\<lambda>f. f\<lparr>f_seen_ack := True\<rparr>) v)"
    using v by (simp add: inv_upd)
  ultimately show ?thesis
    using assms by (cases "state_of i v")
      (auto simp: fsm_rconfnakrej_def Some p Let_def intro!: inv_set_state inv_down down_dn dest: inv_dn)
qed

lemma rtermreq_layer: "inv w \<Longrightarrow> inv (fsm_rtermreq cb i idn p w)"
  by (cases "state_of i w")
    (auto simp: fsm_rtermreq_def Let_def intro!: inv_set_state down_dn dest: inv_dn)

lemma rtermack_layer: "inv w \<Longrightarrow> inv (fsm_rtermack cb i w)"
  by (cases "state_of i w")
    (auto simp: fsm_rtermack_def intro!: inv_set_state call_finished_layer inv_down down_dn dest: inv_dn)

lemma rcoderej_layer: "inv w \<Longrightarrow> inv (fsm_rcoderej i inp w)"
  by (auto simp: fsm_rcoderej_def intro!: inv_set_state dest: inv_dn)

lemma protreject_layer: "inv w \<Longrightarrow> inv (fsm_protreject cb i w)"
  by (cases "state_of i w")
    (auto simp: fsm_protreject_def Let_def intro!: inv_set_state call_finished_layer down_dn dest: inv_dn)

lemma dispatch_layer:
  assumes "inv w"
  shows "inv (fsm_dispatch cb i inpacket code idn inp w)"
proof -
  obtain handled v where e: "(case cb_extcode cb of None \<Rightarrow> (False, w)
      | Some extcode \<Rightarrow> extcode code idn inp w) = (handled, v)"
    by fastforce
  have "inv v"
    using e assms extcode_layer [of _ w code idn inp] by (auto split: option.splits)
  then show ?thesis
    using assms
    by (auto simp: fsm_dispatch_def e Let_def inv_upd
        intro: rconfreq_layer rconfack_layer rconfnakrej_layer rtermreq_layer rtermack_layer rcoderej_layer)
qed

lemma input_layer: "inv w \<Longrightarrow> inv (fsm_input cb i inpacket w)"
  by (auto simp: fsm_input_def Let_def split: list.split intro!: dispatch_layer)

end

end
