(* ===== verification/Lcp_Inv.thy ===== *)
theory Lcp_Inv
  imports Lcp Fsm_Layer
begin

text \<open>
  LCP as a client of the automaton. The locales \<open>lower_layer\<close> and \<open>link_layer\<close> state what LCP relies
  on in \<^verbatim>\<open>auth.c\<close>: \<^verbatim>\<open>link_down\<close>, \<^verbatim>\<open>link_terminated\<close>, \<^verbatim>\<open>link_required\<close> and \<^verbatim>\<open>auth_reset\<close> leave LCP's automaton
  alone, \<^verbatim>\<open>link_established\<close> and the Protocol-Reject handlers keep its timer invariant. Under these
  the callback tables of LCP satisfy the contract of the automaton. The locales \<open>lower_view\<close> and
  \<open>link_view\<close> do the same for the layer invariant: outside \<open>OPENED\<close> the echo timer is off and the
  protocols above LCP are down.
\<close>

section \<open>Definitions\<close>

abbreviation echo_timers :: "'a lcp_world_scheme \<Rightarrow> nat" where
  "echo_timers w \<equiv> pending LCP_ECHO_TIMEOUT (ARG_FSM LCP_FSM) w"

text \<open>
  The layer above LCP: the echo timer (the option \<^verbatim>\<open>lcp-echo-failure\<close> must not be negative), and
  the rest of the state seen through \<open>uv\<close>.
\<close>

definition lcp_view :: "('a lcp_world_scheme \<Rightarrow> 'v) \<Rightarrow> 'a lcp_world_scheme \<Rightarrow> nat \<times> bool \<times> int \<times> 'v" where
  "lcp_view uv w = (echo_timers w, lcp_echo_timer_running w, lcp_echo_fails w, uv w)"

definition lcp_dn :: "('v \<Rightarrow> bool) \<Rightarrow> nat \<times> bool \<times> int \<times> 'v \<Rightarrow> bool" where
  "lcp_dn udn = (\<lambda>(n, running, fails, v). n = 0 \<and> \<not> running \<and> 0 \<le> fails \<and> udn v)"

definition lcp_lay :: "('v \<Rightarrow> bool) \<Rightarrow> nat \<times> bool \<times> int \<times> 'v \<Rightarrow> bool" where
  "lcp_lay ulay = (\<lambda>(n, running, fails, v). n = (if running then 1 else 0) \<and> 0 \<le> fails \<and> ulay v)"

section \<open>Frame facts\<close>

lemma lcp_world_frame [ppp_frame, simp]:
  "lcp_gotoptions (ppptimeout f a t w) = lcp_gotoptions w"
  "lcp_hisoptions (ppptimeout f a t w) = lcp_hisoptions w"
  "lcp_wantoptions (ppptimeout f a t w) = lcp_wantoptions w"
  "lcp_allowoptions (ppptimeout f a t w) = lcp_allowoptions w"
  "lcp_echo_timer_running (ppptimeout f a t w) = lcp_echo_timer_running w"
  "lcp_echo_interval (ppptimeout f a t w) = lcp_echo_interval w"
  "lcp_echo_fails (ppptimeout f a t w) = lcp_echo_fails w"
  "lcp_world.more (ppptimeout f a t w) = lcp_world.more w"
  "lcp_gotoptions (pppuntimeout f a w) = lcp_gotoptions w"
  "lcp_hisoptions (pppuntimeout f a w) = lcp_hisoptions w"
  "lcp_wantoptions (pppuntimeout f a w) = lcp_wantoptions w"
  "lcp_allowoptions (pppuntimeout f a w) = lcp_allowoptions w"
  "lcp_echo_timer_running (pppuntimeout f a w) = lcp_echo_timer_running w"
  "lcp_echo_interval (pppuntimeout f a w) = lcp_echo_interval w"
  "lcp_echo_fails (pppuntimeout f a w) = lcp_echo_fails w"
  "lcp_world.more (pppuntimeout f a w) = lcp_world.more w"
  "lcp_gotoptions (put_outpacket n bs w) = lcp_gotoptions w"
  "lcp_hisoptions (put_outpacket n bs w) = lcp_hisoptions w"
  "lcp_wantoptions (put_outpacket n bs w) = lcp_wantoptions w"
  "lcp_allowoptions (put_outpacket n bs w) = lcp_allowoptions w"
  "lcp_echo_timer_running (put_outpacket n bs w) = lcp_echo_timer_running w"
  "lcp_echo_interval (put_outpacket n bs w) = lcp_echo_interval w"
  "lcp_echo_fails (put_outpacket n bs w) = lcp_echo_fails w"
  "lcp_world.more (put_outpacket n bs w) = lcp_world.more w"
  "lcp_gotoptions (bcopy_outpacket n bs k w) = lcp_gotoptions w"
  "lcp_hisoptions (bcopy_outpacket n bs k w) = lcp_hisoptions w"
  "lcp_wantoptions (bcopy_outpacket n bs k w) = lcp_wantoptions w"
  "lcp_allowoptions (bcopy_outpacket n bs k w) = lcp_allowoptions w"
  "lcp_echo_timer_running (bcopy_outpacket n bs k w) = lcp_echo_timer_running w"
  "lcp_echo_interval (bcopy_outpacket n bs k w) = lcp_echo_interval w"
  "lcp_echo_fails (bcopy_outpacket n bs k w) = lcp_echo_fails w"
  "lcp_world.more (bcopy_outpacket n bs k w) = lcp_world.more w"
  "lcp_gotoptions (output_outpacket u m w) = lcp_gotoptions w"
  "lcp_hisoptions (output_outpacket u m w) = lcp_hisoptions w"
  "lcp_wantoptions (output_outpacket u m w) = lcp_wantoptions w"
  "lcp_allowoptions (output_outpacket u m w) = lcp_allowoptions w"
  "lcp_echo_timer_running (output_outpacket u m w) = lcp_echo_timer_running w"
  "lcp_echo_interval (output_outpacket u m w) = lcp_echo_interval w"
  "lcp_echo_fails (output_outpacket u m w) = lcp_echo_fails w"
  "lcp_world.more (output_outpacket u m w) = lcp_world.more w"
  "lcp_gotoptions (upd_fsm i g w) = lcp_gotoptions w"
  "lcp_hisoptions (upd_fsm i g w) = lcp_hisoptions w"
  "lcp_wantoptions (upd_fsm i g w) = lcp_wantoptions w"
  "lcp_allowoptions (upd_fsm i g w) = lcp_allowoptions w"
  "lcp_echo_timer_running (upd_fsm i g w) = lcp_echo_timer_running w"
  "lcp_echo_interval (upd_fsm i g w) = lcp_echo_interval w"
  "lcp_echo_fails (upd_fsm i g w) = lcp_echo_fails w"
  "lcp_world.more (upd_fsm i g w) = lcp_world.more w"
  by (simp_all add: ppptimeout_def gettimeofday_def pppuntimeout_def put_outpacket_def
      bcopy_outpacket_def output_outpacket_def upd_fsm_def)

lemma lcp_sdata_frame [ppp_frame, simp]:
  "lcp_gotoptions (fsm_sdata i code idn d n w) = lcp_gotoptions w"
  "lcp_hisoptions (fsm_sdata i code idn d n w) = lcp_hisoptions w"
  "lcp_wantoptions (fsm_sdata i code idn d n w) = lcp_wantoptions w"
  "lcp_allowoptions (fsm_sdata i code idn d n w) = lcp_allowoptions w"
  "lcp_echo_timer_running (fsm_sdata i code idn d n w) = lcp_echo_timer_running w"
  "lcp_echo_interval (fsm_sdata i code idn d n w) = lcp_echo_interval w"
  "lcp_echo_fails (fsm_sdata i code idn d n w) = lcp_echo_fails w"
  "lcp_world.more (fsm_sdata i code idn d n w) = lcp_world.more w"
  by (simp_all add: fsm_sdata_def Let_def split: sdata.split)

lemma pending_lcp_updates [simp]:
  "pending f a (w\<lparr>lcp_wantoptions := x1\<rparr>) = pending f a w"
  "pending f a (w\<lparr>lcp_gotoptions := x1\<rparr>) = pending f a w"
  "pending f a (w\<lparr>lcp_allowoptions := x1\<rparr>) = pending f a w"
  "pending f a (w\<lparr>lcp_hisoptions := x1\<rparr>) = pending f a w"
  "pending f a (w\<lparr>peer_mru := x2\<rparr>) = pending f a w"
  "pending f a (w\<lparr>lcp_echos_pending := x2\<rparr>) = pending f a w"
  "pending f a (w\<lparr>lcp_echo_number := x2\<rparr>) = pending f a w"
  "pending f a (w\<lparr>lcp_echo_timer_running := x3\<rparr>) = pending f a w"
  "pending f a (w\<lparr>drv := x4\<rparr>) = pending f a w"
  "pending f a (w\<lparr>oob := x3\<rparr>) = pending f a w"
  "pending f a (w\<lparr>pppd_status := x2\<rparr>) = pending f a w"
  "pending f a (w\<lparr>pppd_phase := x2\<rparr>) = pending f a w"
  "pending f a (w\<lparr>w_rand_idx := x5\<rparr>) = pending f a w"
  by (simp_all add: pending_def)

lemma drv_log_frame [ppp_frame, simp]:
  "fsms (drv_log c w) = fsms w" "pending f a (drv_log c w) = pending f a w"
  "lcp_echo_timer_running (drv_log c w) = lcp_echo_timer_running w"
  "lcp_world.more (drv_log c w) = lcp_world.more w"
  "lcp_gotoptions (drv_log c w) = lcp_gotoptions w"
  "lcp_hisoptions (drv_log c w) = lcp_hisoptions w"
  "peer_mru (drv_log c w) = peer_mru w"
  "lcp_echo_interval (drv_log c w) = lcp_echo_interval w"
  "lcp_echo_fails (drv_log c w) = lcp_echo_fails w"
  by (simp_all add: drv_log_def pending_def)

lemma new_phase_frame [ppp_frame, simp]:
  "pending f a (new_phase p w) = pending f a w"
  "lcp_echo_timer_running (new_phase p w) = lcp_echo_timer_running w"
  "lcp_world.more (new_phase p w) = lcp_world.more w"
  "lcp_gotoptions (new_phase p w) = lcp_gotoptions w"
  "lcp_echo_fails (new_phase p w) = lcp_echo_fails w"
  "pppd_phase (new_phase p w) = p"
  by (simp_all add: new_phase_def pending_def)

section \<open>The timer invariant\<close>

locale lower_layer =
  fixes h :: "('a lcp_world_scheme, 'z) lower_hooks_scheme"
  assumes link_down_quiet: "fsm_quiet LCP_FSM w (h_link_down h w)"
    and link_terminated_quiet: "fsm_quiet LCP_FSM w (h_link_terminated h w)"
begin

lemma lcp_down_quiet: "fsm_quiet LCP_FSM w (lcp_down h w)"
  using link_down_quiet [of "lcp_echo_lowerdown w"]
  by (simp add: fsm_quiet_def lcp_down_def Let_def lcp_echo_lowerdown_def)

lemma lcp_finished_quiet: "fsm_quiet LCP_FSM w (lcp_finished h w)"
  using link_terminated_quiet by (simp add: lcp_finished_def)

end

sublocale lower_layer \<subseteq> down_fsm: fsm_client "lcp_down_callbacks h" LCP_FSM
  by unfold_locales
    (auto simp: lcp_down_callbacks_def lcp_down_quiet quiet_timer_inv [OF lcp_finished_quiet])

context lower_layer
begin

lemma lcp_close_inv: "timer_inv LCP_FSM w \<Longrightarrow> timer_inv LCP_FSM (lcp_close h reason w)"
proof -
  assume inv: "timer_inv LCP_FSM w"
  define v where "v = (if pppd_phase w \<noteq> PHASE_DEAD then new_phase PHASE_TERMINATE w else w)"
  have v: "timer_inv LCP_FSM v"
    using inv by (simp add: v_def timer_inv_def)
  moreover have "timer_inv LCP_FSM (set_state LCP_FSM CLOSED v)" if "state_of LCP_FSM v = STOPPED"
    using v that by (simp add: timer_inv_def)
  ultimately show ?thesis
    unfolding lcp_close_def v_def [symmetric] Let_def
    using down_fsm.close_inv quiet_timer_inv [OF lcp_finished_quiet] by simp
qed

lemma timer_inv_updates [simp]:
  "timer_inv LCP_FSM ((w :: 'a lcp_world_scheme)\<lparr>pppd_status := n\<rparr>) = timer_inv LCP_FSM w"
  "timer_inv LCP_FSM (w\<lparr>lcp_gotoptions := x\<rparr>) = timer_inv LCP_FSM w"
  "timer_inv LCP_FSM (w\<lparr>lcp_echos_pending := n\<rparr>) = timer_inv LCP_FSM w"
  "timer_inv LCP_FSM (w\<lparr>lcp_echo_number := n\<rparr>) = timer_inv LCP_FSM w"
  "timer_inv LCP_FSM (w\<lparr>lcp_echo_timer_running := b\<rparr>) = timer_inv LCP_FSM w"
  "timer_inv LCP_FSM (w\<lparr>w_rand_idx := k\<rparr>) = timer_inv LCP_FSM w"
  by (simp_all add: timer_inv_def)

lemma echo_check_inv: "timer_inv LCP_FSM w \<Longrightarrow> timer_inv LCP_FSM (LcpEchoCheck h w)"
proof -
  assume "timer_inv LCP_FSM w"
  then have "timer_inv LCP_FSM (LcpSendEchoRequest h w)"
    by (simp add: LcpSendEchoRequest_def LcpLinkFailure_def Let_def lcp_close_inv)
  then show ?thesis
    by (simp add: LcpEchoCheck_def Let_def timer_inv_def [of _ "ppptimeout _ _ _ _"] timer_invD)
qed

lemma nakci_inv: "timer_inv LCP_FSM w \<Longrightarrow> timer_inv LCP_FSM (snd (lcp_nakci h inp w))"
proof -
  assume inv: "timer_inv LCP_FSM w"
  then have "timer_inv LCP_FSM (snd (magic w))"
    by (simp add: magic_def next48_def Let_def)
  with inv show ?thesis
    by (auto simp: lcp_nakci_def Let_def lcp_close_inv split: option.split prod.split)
qed

end

locale link_layer = lower_layer h for h :: "'a lcp_world_scheme link_hooks" +
  assumes link_required_quiet: "fsm_quiet LCP_FSM w (h_link_required h w)"
    and auth_reset_quiet: "fsm_quiet LCP_FSM w (h_auth_reset h w)"
    and link_established_inv: "timer_inv LCP_FSM w \<Longrightarrow> timer_inv LCP_FSM (h_link_established h w)"
    and protrej_inv: "(n, e, p) \<in> set (h_protocols h) \<Longrightarrow> timer_inv LCP_FSM w \<Longrightarrow> timer_inv LCP_FSM (p w)"
begin

lemma lookup_inv:
  "set ps \<subseteq> set (h_protocols h) \<Longrightarrow> timer_inv LCP_FSM w \<Longrightarrow> timer_inv LCP_FSM (protrej_lookup prot ps w)"
  by (induction ps) (auto dest: protrej_inv)

lemma lcp_extcode_inv: "timer_inv LCP_FSM w \<Longrightarrow> timer_inv LCP_FSM (snd (lcp_extcode h code idn inp w))"
  using lookup_inv [OF subset_refl]
  by (auto simp: lcp_extcode_def lcp_rprotrej_def lcp_received_echo_reply_def split: list.split)

lemma lcp_up_inv: "timer_inv LCP_FSM w \<Longrightarrow> timer_inv LCP_FSM (lcp_up h w)"
proof -
  have "timer_inv LCP_FSM (lcp_echo_lowerup h v)" if "timer_inv LCP_FSM v" for v
    using that by (simp add: lcp_echo_lowerup_def Let_def echo_check_inv)
  moreover assume "timer_inv LCP_FSM w"
  ultimately show ?thesis
    unfolding lcp_up_def Let_def by (intro link_established_inv) (simp add: timer_inv_def)
qed

end

lemma req_reply_cases: "fst (req_reply inp s) \<in> {CONFACK, CONFNAK, CONFREJ}"
  by (cases "r_rc s") (simp_all add: req_reply_def)

lemma lcp_reqci_frame:
  obtains x k b where "snd (snd (lcp_reqci inp rej w)) = w\<lparr>lcp_hisoptions := x, w_rand_idx := k, oob := b\<rparr>"
proof -
  define s where "s = lcp_req_loop (lcp_gotoptions w) (lcp_allowoptions w) rej (magics w) inp req_start"
  define v where "v = w\<lparr>lcp_hisoptions := r_ho s, w_rand_idx := w_rand_idx w + r_magics s\<rparr>"
  have "v = v\<lparr>oob := oob w\<rparr>"
    by (simp add: v_def)
  moreover have "snd (snd (lcp_reqci inp rej w)) \<in> {v, v\<lparr>oob := True\<rparr>}"
    by (simp add: lcp_reqci_def Let_def s_def [symmetric] v_def [symmetric] split: prod.split)
  ultimately obtain b where "snd (snd (lcp_reqci inp rej w)) = v\<lparr>oob := b\<rparr>"
    by auto
  then show ?thesis
    unfolding v_def by (rule that)
qed

sublocale link_layer \<subseteq> lcp_fsm: fsm_client "lcp_callbacks h" LCP_FSM
proof unfold_locales
  show "fsm_quiet LCP_FSM w (r w)" if "cb_resetci (lcp_callbacks h) = Some r" for r w
    using that auth_reset_quiet [unfolded fsm_quiet_def]
    by (auto simp: lcp_callbacks_def lcp_resetci_def Let_def fsm_quiet_def magic_def next48_def)
  show "fsm_quiet LCP_FSM w (snd (snd (q inp rej w)))" if "cb_reqci (lcp_callbacks h) = Some q" for q w inp rej
  proof -
    obtain x k b where "snd (snd (lcp_reqci inp rej w)) = w\<lparr>lcp_hisoptions := x, w_rand_idx := k, oob := b\<rparr>"
      by (rule lcp_reqci_frame)
    with that show ?thesis by (simp add: lcp_callbacks_def fsm_quiet_def)
  qed
qed (auto simp: lcp_callbacks_def lcp_down_quiet lcp_up_inv lcp_extcode_inv nakci_inv
      lcp_cilen_cb_def lcp_addci_cb_def lcp_ackci_cb_def fsm_quiet_def lcp_rejci_def lcp_starting_def
      quiet_timer_inv [OF link_required_quiet] quiet_timer_inv [OF lcp_finished_quiet]
      lcp_down_quiet [unfolded fsm_quiet_def] split: option.split)

context link_layer
begin

lemma lcp_open_inv: "timer_inv LCP_FSM w \<Longrightarrow> timer_inv LCP_FSM (lcp_open h w)"
  unfolding lcp_open_def Let_def by (intro lcp_fsm.open_inv) (simp add: timer_inv_upd_fsm)

lemma lcp_lowerup_inv: "timer_inv LCP_FSM w \<Longrightarrow> timer_inv LCP_FSM (lcp_lowerup h w)"
  unfolding lcp_lowerup_def Let_def by (intro lcp_fsm.lowerup_inv) (simp add: timer_inv_def)

lemma lcp_lowerdown_inv: "timer_inv LCP_FSM w \<Longrightarrow> timer_inv LCP_FSM (lcp_lowerdown h w)"
  unfolding lcp_lowerdown_def by (rule lcp_fsm.lowerdown_inv)

lemma lcp_input_inv:
  assumes "timer_inv LCP_FSM w"
    and "p \<noteq> [] \<Longrightarrow> hd p = TERMACK \<Longrightarrow> state_of LCP_FSM w \<noteq> OPENED"
  shows "timer_inv LCP_FSM (lcp_input h p w)"
  using assms unfolding lcp_input_def by (intro lcp_fsm.input_inv)

lemma lcp_timeout_inv:
  "timers LCP_FSM w = 0 \<Longrightarrow> timer_inv LCP_FSM (fsm_timeout (lcp_callbacks h) LCP_FSM w)"
  by (rule lcp_fsm.timeout_inv)

lemma echo_timeout_inv: "timer_inv LCP_FSM w \<Longrightarrow> timer_inv LCP_FSM (LcpEchoTimeout h w)"
  by (simp add: LcpEchoTimeout_def echo_check_inv)

end

section \<open>The layer invariant\<close>

locale lower_view =
  fixes h :: "('a lcp_world_scheme, 'z) lower_hooks_scheme"
    and uv :: "'a lcp_world_scheme \<Rightarrow> 'v" and udn ulay :: "'v \<Rightarrow> bool"
  assumes udn_ulay: "udn v \<Longrightarrow> ulay v"
    and uv_more: "lcp_world.more w = lcp_world.more w' \<Longrightarrow>
      (\<And>i. i \<noteq> LCP_FSM \<Longrightarrow> fsms w i = fsms w' i) \<Longrightarrow> uv w = uv w'"
    and link_down_view: "ulay (uv w) \<Longrightarrow> udn (uv (h_link_down h w))"
    and link_down_lcp: "state_of LCP_FSM (h_link_down h w) = state_of LCP_FSM w \<and>
      echo_timers (h_link_down h w) = echo_timers w \<and>
      lcp_echo_timer_running (h_link_down h w) = lcp_echo_timer_running w \<and>
      lcp_echo_fails (h_link_down h w) = lcp_echo_fails w"
    and link_terminated_view: "lcp_view uv (h_link_terminated h w) = lcp_view uv w \<and>
      state_of LCP_FSM (h_link_terminated h w) = state_of LCP_FSM w"
begin

abbreviation linv :: "'a lcp_world_scheme \<Rightarrow> bool" where
  "linv \<equiv> layer_inv (lcp_dn udn) (lcp_lay ulay) (lcp_view uv) LCP_FSM"

lemma view_congI:
  "lcp_world.more w = lcp_world.more w' \<Longrightarrow> (\<And>i. i \<noteq> LCP_FSM \<Longrightarrow> fsms w i = fsms w' i) \<Longrightarrow>
   callout w = callout w' \<Longrightarrow> lcp_echo_timer_running w = lcp_echo_timer_running w' \<Longrightarrow> lcp_echo_fails w = lcp_echo_fails w' \<Longrightarrow>
   lcp_view uv w = lcp_view uv w'"
  by (auto simp: lcp_view_def intro: uv_more pending_cong)

lemma view_timers:
  "lcp_view uv (ppptimeout FSM_TIMEOUT a t w) = lcp_view uv w"
  "lcp_view uv (pppuntimeout FSM_TIMEOUT a w) = lcp_view uv w"
  by (auto simp: lcp_view_def intro!: uv_more)

lemma lcp_down_view:
  assumes "lcp_lay ulay (lcp_view uv w)"
  shows "lcp_dn udn (lcp_view uv (lcp_down h w)) \<and> state_of LCP_FSM (lcp_down h w) = state_of LCP_FSM w"
proof -
  define v where "v = h_link_down h (lcp_echo_lowerdown w)"
  have e: "uv (lcp_echo_lowerdown w) = uv w"
    by (rule uv_more) (simp_all add: lcp_echo_lowerdown_def)
  have "lcp_dn udn (lcp_view uv v)"
    using assms link_down_lcp [of "lcp_echo_lowerdown w"] link_down_view [of "lcp_echo_lowerdown w"] e
    by (auto simp: v_def lcp_lay_def lcp_view_def lcp_dn_def lcp_echo_lowerdown_def)
  moreover have "lcp_view uv (lcp_down h w) = lcp_view uv v"
    by (rule view_congI) (simp_all add: lcp_down_def Let_def v_def drv_log_def)
  moreover have "state_of LCP_FSM (lcp_down h w) = state_of LCP_FSM w"
    using link_down_lcp [of "lcp_echo_lowerdown w"]
    by (simp add: lcp_down_def Let_def) (simp add: lcp_echo_lowerdown_def)
  ultimately show ?thesis
    by simp
qed

end

sublocale lower_view \<subseteq> down_layer:
  fsm_layer "lcp_down_callbacks h" LCP_FSM "lcp_view uv" "lcp_dn udn" "lcp_lay ulay"
proof unfold_locales
  show "lcp_lay ulay v" if "lcp_dn udn v" for v
    using that udn_ulay by (auto simp: lcp_dn_def lcp_lay_def)
  show "lcp_view uv (upd_fsm LCP_FSM g w) = lcp_view uv w" for g w
    by (rule view_congI) simp_all
  show "lcp_view uv (put_outpacket n bs w) = lcp_view uv w" for n bs w
    by (rule view_congI) simp_all
  show "lcp_view uv (fsm_sdata LCP_FSM code idn d m w) = lcp_view uv w" for code idn d m w
    by (rule view_congI) simp_all
qed (auto simp: lcp_down_callbacks_def view_timers lcp_down_view lcp_finished_def layer_inv_def
      link_terminated_view)

context lower_view
begin

lemma linv_cong:
  "lcp_view uv w = lcp_view uv w' \<Longrightarrow> state_of LCP_FSM w = state_of LCP_FSM w' \<Longrightarrow> linv w = linv w'"
  by (simp add: layer_inv_def)

lemma linv_updates [simp]:
  "linv (w\<lparr>pppd_status := n\<rparr>) = linv w"
  "linv (w\<lparr>lcp_echos_pending := n\<rparr>) = linv w"
  "linv (w\<lparr>lcp_echo_number := n\<rparr>) = linv w"
  "linv (w\<lparr>lcp_gotoptions := x\<rparr>) = linv w"
  "linv (w\<lparr>lcp_hisoptions := x\<rparr>) = linv w"
  "linv (w\<lparr>w_rand_idx := k\<rparr>) = linv w"
  "linv (w\<lparr>oob := b\<rparr>) = linv w"
  by (rule linv_cong, rule view_congI; simp)+

lemma linv_upd_fsm: "f_state (g (fsms w LCP_FSM)) = state_of LCP_FSM w \<Longrightarrow> linv (upd_fsm LCP_FSM g w) = linv w"
  by (rule down_layer.inv_upd)

lemma linv_new_phase [simp]: "linv (new_phase p w) = linv w"
  by (rule linv_cong, rule view_congI) (simp_all add: new_phase_def)

lemma linv_finished: "linv (lcp_finished h w) = linv w"
  by (rule linv_cong) (simp_all add: lcp_finished_def link_terminated_view)

lemma lcp_close_layer: "linv w \<Longrightarrow> linv (lcp_close h reason w)"
proof -
  assume inv: "linv w"
  define v where "v = (if pppd_phase w \<noteq> PHASE_DEAD then new_phase PHASE_TERMINATE w else w)"
  have v: "linv v"
    using inv by (simp add: v_def)
  moreover have "linv (set_state LCP_FSM CLOSED v)" if "state_of LCP_FSM v = STOPPED"
    using v that by (intro down_layer.inv_set_state down_layer.inv_dn) simp_all
  ultimately show ?thesis
    unfolding lcp_close_def v_def [symmetric] Let_def
    using down_layer.close_layer linv_finished by simp
qed

lemma lcp_close_closes: "state_of LCP_FSM (lcp_close h reason w) \<noteq> OPENED"
proof -
  have "state_of LCP_FSM (fsm_close (lcp_down_callbacks h) LCP_FSM r v) \<noteq> OPENED" for r v
    by (cases "state_of LCP_FSM v") (simp_all add: fsm_close_def Let_def)
  then show ?thesis
    by (simp add: lcp_close_def Let_def lcp_finished_def link_terminated_view)
qed

lemma echo_request_layer:
  assumes "linv w" and "lcp_dn ulay (lcp_view uv w)"
  shows "linv (LcpSendEchoRequest h w) \<and> lcp_dn ulay (lcp_view uv (LcpSendEchoRequest h w))"
proof -
  define v where "v = (if lcp_echo_fails w \<noteq> 0 \<and> lcp_echos_pending w \<ge> lcp_echo_fails w
      then (LcpLinkFailure h w)\<lparr>lcp_echos_pending := 0\<rparr> else w)"
  have c: "linv (lcp_close h r w)" "lcp_dn udn (lcp_view uv (lcp_close h r w))" for r
    using lcp_close_layer [OF assms(1)] lcp_close_closes by (auto simp: layer_inv_def)
  have d: "lcp_dn ulay (lcp_view uv (lcp_close h r w))" for r
    using c(2) [of r] udn_ulay by (auto simp: lcp_dn_def lcp_view_def)
  have "lcp_view uv ((lcp_close h r w)\<lparr>pppd_status := n, lcp_echos_pending := m\<rparr>) =
      lcp_view uv (lcp_close h r w)" "lcp_view uv (w\<lparr>lcp_echos_pending := m\<rparr>) = lcp_view uv w" for r n m
    by (rule view_congI; simp)+
  then have "linv v \<and> lcp_dn ulay (lcp_view uv v)"
    using assms c d by (auto simp: v_def LcpLinkFailure_def)
  moreover have "lcp_view uv (LcpSendEchoRequest h w) = lcp_view uv v"
    "state_of LCP_FSM (LcpSendEchoRequest h w) = state_of LCP_FSM v"
    unfolding LcpSendEchoRequest_def Let_def v_def [symmetric]
    by (auto intro!: view_congI)
  ultimately show ?thesis
    using linv_cong by metis
qed

lemma echo_check_layer:
  assumes "linv w" and "lcp_dn ulay (lcp_view uv w)"
  shows "linv (LcpEchoCheck h w)"
proof -
  note r = echo_request_layer [OF assms]
  define v where "v = LcpSendEchoRequest h w"
  have "uv ((ppptimeout LCP_ECHO_TIMEOUT a t v)\<lparr>lcp_echo_timer_running := True\<rparr>) = uv v" for a t
    by (rule uv_more) simp_all
  with r show ?thesis
    unfolding LcpEchoCheck_def Let_def v_def [symmetric]
    by (auto simp: layer_inv_def lcp_view_def lcp_dn_def lcp_lay_def)
qed

text \<open>When the echo timer fires, its entry has just been taken off the callout list.\<close>

lemma echo_timeout_layer:
  assumes "linv w"
  shows "linv (LcpEchoTimeout h (pppuntimeout LCP_ECHO_TIMEOUT (ARG_FSM LCP_FSM) w))"
proof -
  define v where "v = (pppuntimeout LCP_ECHO_TIMEOUT (ARG_FSM LCP_FSM) w)\<lparr>lcp_echo_timer_running := False\<rparr>"
  have uv: "uv v = uv w" "uv (pppuntimeout LCP_ECHO_TIMEOUT (ARG_FSM LCP_FSM) w) = uv w"
    by (rule uv_more; simp add: v_def)+
  have "linv v \<and> lcp_dn ulay (lcp_view uv v)"
    using assms uv udn_ulay by (auto simp: layer_inv_def lcp_view_def lcp_dn_def lcp_lay_def v_def)
  then have check: "linv (LcpEchoCheck h v)"
    by (intro echo_check_layer) simp_all
  show ?thesis
  proof (cases "lcp_echo_timer_running w")
    case True
    with check show ?thesis by (simp add: LcpEchoTimeout_def v_def)
  next
    case False
    with assms uv have "linv (pppuntimeout LCP_ECHO_TIMEOUT (ARG_FSM LCP_FSM) w)"
      by (auto simp: layer_inv_def lcp_view_def lcp_dn_def lcp_lay_def)
    with False show ?thesis by (simp add: LcpEchoTimeout_def)
  qed
qed

lemma echo_lowerup_layer:
  assumes "lcp_dn udn (lcp_view uv w)"
  shows "linv (lcp_echo_lowerup h w)"
proof -
  define v where "v = w\<lparr>lcp_echos_pending := 0, lcp_echo_number := 0, lcp_echo_timer_running := False\<rparr>"
  have "lcp_view uv v = lcp_view uv w"
    using assms by (auto simp: v_def lcp_view_def lcp_dn_def intro!: uv_more)
  then have "linv v" "lcp_dn ulay (lcp_view uv v)"
    using assms udn_ulay by (auto simp: layer_inv_def lcp_dn_def lcp_lay_def)
  then show ?thesis
    by (simp add: lcp_echo_lowerup_def v_def [symmetric] echo_check_layer)
qed

lemma nakci_layer:
  assumes "linv w"
  shows "linv (snd (lcp_nakci h inp w)) \<and>
    (state_of LCP_FSM (snd (lcp_nakci h inp w)) = OPENED \<longrightarrow> state_of LCP_FSM w = OPENED)"
proof -
  have m: "linv (snd (magic w))" "state_of LCP_FSM (snd (magic w)) = state_of LCP_FSM w"
    using assms by (simp_all add: magic_def next48_def Let_def)
  show ?thesis
    using assms m lcp_close_layer lcp_close_closes
    by (auto simp: lcp_nakci_def Let_def split: option.split prod.split)
qed

end

locale link_view = lower_view h uv udn ulay
  for h :: "'a lcp_world_scheme link_hooks" and uv :: "'a lcp_world_scheme \<Rightarrow> 'v" and udn ulay +
  assumes link_required_view: "lcp_view uv (h_link_required h w) = lcp_view uv w \<and>
      state_of LCP_FSM (h_link_required h w) = state_of LCP_FSM w"
    and auth_reset_view: "lcp_view uv (h_auth_reset h w) = lcp_view uv w \<and>
      state_of LCP_FSM (h_auth_reset h w) = state_of LCP_FSM w"
    and established_view: "linv w \<Longrightarrow> state_of LCP_FSM w = OPENED \<Longrightarrow> udn (uv w) \<Longrightarrow>
      linv (h_link_established h w)"
    and protrej_view: "(n, e, p) \<in> set (h_protocols h) \<Longrightarrow> linv w \<Longrightarrow> state_of LCP_FSM w = OPENED \<Longrightarrow>
      linv (p w)"
begin

lemma lookup_layer:
  "set ps \<subseteq> set (h_protocols h) \<Longrightarrow> linv w \<Longrightarrow> state_of LCP_FSM w = OPENED \<Longrightarrow> linv (protrej_lookup prot ps w)"
  by (induction ps) (auto dest: protrej_view)

lemma lcp_extcode_layer: "linv w \<Longrightarrow> linv (snd (lcp_extcode h code idn inp w))"
  using lookup_layer [OF subset_refl]
  by (auto simp: lcp_extcode_def lcp_rprotrej_def lcp_received_echo_reply_def split: list.split)

lemma echo_lowerup_open:
  assumes "lcp_dn udn (lcp_view uv w)" and "state_of LCP_FSM w = OPENED"
  shows "state_of LCP_FSM (lcp_echo_lowerup h w) = OPENED \<and> uv (lcp_echo_lowerup h w) = uv w"
  using assms
  by (auto simp: lcp_echo_lowerup_def LcpEchoCheck_def LcpSendEchoRequest_def Let_def lcp_dn_def
      lcp_view_def intro!: uv_more)

lemma lcp_up_layer:
  assumes "lcp_dn udn (lcp_view uv w)" and "state_of LCP_FSM w = OPENED"
  shows "linv (lcp_up h w)"
proof -
  have *: "linv (h_link_established h (lcp_echo_lowerup h v))"
    if "lcp_view uv v = lcp_view uv w" and "state_of LCP_FSM v = OPENED" for v
    using echo_lowerup_layer [of v] echo_lowerup_open [of v] that assms
    by (intro established_view) (auto simp: lcp_dn_def lcp_view_def)
  show ?thesis
    unfolding lcp_up_def Let_def
    by (rule *, rule view_congI) (auto simp: assms(2) drv_log_def)
qed

end

sublocale link_view \<subseteq> lcp_layer:
  fsm_layer "lcp_callbacks h" LCP_FSM "lcp_view uv" "lcp_dn udn" "lcp_lay ulay"
proof unfold_locales
  show "lcp_lay ulay v" if "lcp_dn udn v" for v
    using that udn_ulay by (auto simp: lcp_dn_def lcp_lay_def)
  show "lcp_view uv (r w) = lcp_view uv w \<and> state_of LCP_FSM (r w) = state_of LCP_FSM w"
    if "cb_resetci (lcp_callbacks h) = Some r" for r w
  proof -
    have "r = lcp_resetci h"
      using that by (simp add: lcp_callbacks_def)
    moreover have "lcp_view uv (lcp_resetci h w) = lcp_view uv w"
      unfolding lcp_resetci_def magic_def next48_def Let_def prod.case
      by (subst auth_reset_view [THEN conjunct1], rule view_congI) simp_all
    moreover have "state_of LCP_FSM (lcp_resetci h w) = state_of LCP_FSM w"
      by (simp add: lcp_resetci_def magic_def next48_def Let_def auth_reset_view)
    ultimately show ?thesis by simp
  qed
  show "lcp_view uv (snd (snd (q inp rej w))) = lcp_view uv w \<and>
      state_of LCP_FSM (snd (snd (q inp rej w))) = state_of LCP_FSM w"
    if "cb_reqci (lcp_callbacks h) = Some q" for q w inp rej
  proof -
    obtain x k b where "snd (snd (lcp_reqci inp rej w)) = w\<lparr>lcp_hisoptions := x, w_rand_idx := k, oob := b\<rparr>"
      by (rule lcp_reqci_frame)
    with that show ?thesis by (auto simp: lcp_callbacks_def intro!: view_congI)
  qed
  show "lcp_view uv (snd (p inp w)) = lcp_view uv w \<and> state_of LCP_FSM (snd (p inp w)) = state_of LCP_FSM w"
    if "cb_rejci (lcp_callbacks h) = Some p" for p w inp
    using that by (auto simp: lcp_callbacks_def lcp_rejci_def intro!: view_congI split: option.split)
qed (auto simp: lcp_callbacks_def down_layer.view_simps view_timers lcp_down_view linv_finished
    lcp_up_layer lcp_extcode_layer lcp_cilen_cb_def lcp_addci_cb_def lcp_ackci_cb_def lcp_starting_def
    linv_cong [OF link_required_view [THEN conjunct1] link_required_view [THEN conjunct2]]
    nakci_layer)

end
