(* ===== verification/Auth_Inv.thy ===== *)
theory Auth_Inv
  imports Auth Lcp_Inv
begin

text \<open>
  \<^verbatim>\<open>auth.c\<close>, PAP and CHAP as the layer above LCP. The locale \<open>ncp_table\<close> states what the daemon relies
  on in a network control protocol; under it the functions of \<^verbatim>\<open>auth.c\<close> satisfy the contracts
  \<open>link_layer\<close> and \<open>link_view\<close> of LCP, for the view that records how far authentication has got.
\<close>

section \<open>Definitions\<close>

text \<open>\<open>w'\<close> has the same LCP automaton, timers and echo state as \<open>w\<close>.\<close>

definition lcp_quiet :: "'a lcp_world_scheme \<Rightarrow> 'a lcp_world_scheme \<Rightarrow> bool" where
  "lcp_quiet w w' \<longleftrightarrow> fsms w' LCP_FSM = fsms w LCP_FSM \<and> timers LCP_FSM w' = timers LCP_FSM w \<and>
     echo_timers w' = echo_timers w \<and> lcp_echo_timer_running w' = lcp_echo_timer_running w \<and>
     lcp_echo_fails w' = lcp_echo_fails w"

text \<open>\<open>w'\<close> also has the same options and authentication state.\<close>

definition ncp_quiet :: "'a chap_world_scheme \<Rightarrow> 'a chap_world_scheme \<Rightarrow> bool" where
  "ncp_quiet w w' \<longleftrightarrow> lcp_quiet w w' \<and> upap w' = upap w \<and> chap w' = chap w \<and>
     auth_pending w' = auth_pending w \<and> auth_required w' = auth_required w \<and>
     lcp_gotoptions w' = lcp_gotoptions w \<and> lcp_wantoptions w' = lcp_wantoptions w \<and>
     lcp_hisoptions w' = lcp_hisoptions w"

text \<open>
  The layer above LCP: how far the authentication protocols have got, and the states of the
  automata of the network protocols that are enabled (\<open>on\<close>); \<open>auth_dn\<close> says that nothing has started.
\<close>

type_synonym upper_view = "upap_client \<times> chap_client \<times> chap_server \<times> (fsm_id \<Rightarrow> fsm_state)"

definition ncp_states :: "(fsm_id \<Rightarrow> bool) \<Rightarrow> (fsm_id \<Rightarrow> fsm) \<Rightarrow> fsm_id \<Rightarrow> fsm_state" where
  "ncp_states on F i = (if on i \<and> i \<noteq> LCP_FSM then f_state (F i) else INITIAL)"

definition auth_view :: "(fsm_id \<Rightarrow> bool) \<Rightarrow> 'a chap_world_scheme \<Rightarrow> upper_view" where
  "auth_view on w = (us_clientstate (upap w), clientstate (chap w), serverstate (chap w), ncp_states on (fsms w))"

definition auth_dn :: "upper_view \<Rightarrow> bool" where
  "auth_dn v \<longleftrightarrow> v = (UPAPCS_INITIAL, CHAPCS_INITIAL, CHAPSS_INITIAL, \<lambda>_. INITIAL)"

abbreviation link_ok :: "(fsm_id \<Rightarrow> bool) \<Rightarrow> 'a chap_world_scheme \<Rightarrow> bool" where
  "link_ok on \<equiv> layer_inv (lcp_dn auth_dn) (lcp_lay (\<lambda>_. True)) (lcp_view (auth_view on)) LCP_FSM"

section \<open>Quiet functions\<close>

lemma lcp_quiet_refl [simp]: "lcp_quiet w w"
  by (simp add: lcp_quiet_def)

lemma lcp_quiet_trans [trans]: "lcp_quiet u v \<Longrightarrow> lcp_quiet v w \<Longrightarrow> lcp_quiet u w"
  by (simp add: lcp_quiet_def)

lemma ncp_quiet_trans [trans]: "ncp_quiet u v \<Longrightarrow> ncp_quiet v w \<Longrightarrow> ncp_quiet u w"
  by (auto simp: ncp_quiet_def intro: lcp_quiet_trans)

lemma lcp_quiet_timer: "lcp_quiet w w' \<Longrightarrow> timer_inv LCP_FSM w' = timer_inv LCP_FSM w"
  by (simp add: lcp_quiet_def timer_inv_def)

lemma lcp_quiet_link_ok:
  "lcp_quiet w w' \<Longrightarrow> state_of LCP_FSM w = OPENED \<Longrightarrow> link_ok on w' = link_ok on w"
  by (simp add: lcp_quiet_def layer_inv_def lcp_view_def lcp_lay_def)

lemma upd_upap_frame [ppp_frame, simp]:
  "fsms (upd_upap g w) = fsms w" "pending f a (upd_upap g w) = pending f a w"
  "lcp_echo_timer_running (upd_upap g w) = lcp_echo_timer_running w"
  "lcp_echo_fails (upd_upap g w) = lcp_echo_fails w"
  "upap (upd_upap g w) = g (upap w)" "lcp_gotoptions (upd_upap g w) = lcp_gotoptions w"
  "lcp_hisoptions (upd_upap g w) = lcp_hisoptions w" "lcp_wantoptions (upd_upap g w) = lcp_wantoptions w"
  "auth_pending (upd_upap g w) = auth_pending w" "auth_required (upd_upap g w) = auth_required w"
  by (simp_all add: upd_upap_def pending_def)

lemma upd_chap_frame [ppp_frame, simp]:
  "fsms (upd_chap g w) = fsms w" "pending f a (upd_chap g w) = pending f a w"
  "lcp_echo_timer_running (upd_chap g w) = lcp_echo_timer_running w"
  "lcp_echo_fails (upd_chap g w) = lcp_echo_fails w"
  "chap (upd_chap g w) = g (chap w)" "lcp_gotoptions (upd_chap g w) = lcp_gotoptions w"
  "lcp_hisoptions (upd_chap g w) = lcp_hisoptions w" "lcp_wantoptions (upd_chap g w) = lcp_wantoptions w"
  "auth_pending (upd_chap g w) = auth_pending w" "auth_required (upd_chap g w) = auth_required w"
  "upap (upd_chap g w) = upap w"
  by (simp_all add: upd_chap_def pending_def)

lemma upper_frame [ppp_frame, simp]:
  "upap (ppptimeout f a t w) = upap w" "upap (pppuntimeout f a w) = upap w"
  "upap (put_outpacket n bs w) = upap w" "upap (output_outpacket u k w) = upap w"
  "upap (new_phase p w) = upap w"
  "chap (ppptimeout f a t w') = chap w'" "chap (pppuntimeout f a w') = chap w'"
  "chap (put_outpacket n bs w') = chap w'" "chap (output_outpacket u k w') = chap w'"
  "chap (new_phase p w') = chap w'" "chap (upd_upap g w') = chap w'"
  by (simp_all add: ppptimeout_def gettimeofday_def pppuntimeout_def put_outpacket_def
      output_outpacket_def new_phase_def upd_upap_def)

lemma pending_io [simp]:
  "pending f a (put_outpacket n bs w) = pending f a w"
  "pending f a (output_outpacket u k w) = pending f a w"
  by (rule pending_cong, simp)+

lemma lcp_quiet_base:
  "lcp_quiet w (upd_upap g (w :: 'a upap_world_scheme))"
  "lcp_quiet u (upd_chap g' (u :: 'b chap_world_scheme))"
  "f \<noteq> FSM_TIMEOUT \<Longrightarrow> f \<noteq> LCP_ECHO_TIMEOUT \<Longrightarrow> lcp_quiet v (ppptimeout f a t v)"
  "f \<noteq> FSM_TIMEOUT \<Longrightarrow> f \<noteq> LCP_ECHO_TIMEOUT \<Longrightarrow> lcp_quiet v (pppuntimeout f a v)"
  "lcp_quiet v (put_outpacket n bs v)" "lcp_quiet v (output_outpacket m k v)"
  "lcp_quiet v (new_phase p v)"
  by (simp_all add: lcp_quiet_def)

lemma upap_sauthreq_quiet [simp]: "lcp_quiet w (upap_sauthreq w)"
  by (simp add: upap_sauthreq_def Let_def lcp_quiet_def)

lemma upap_sresp_quiet [simp]: "lcp_quiet w (upap_sresp c n m w)"
  by (simp add: upap_sresp_def Let_def lcp_quiet_def)

lemma upap_listen_quiet [simp]: "lcp_quiet w (upap_listen w)"
  by (simp add: upap_listen_def Let_def lcp_quiet_def)

lemma upap_lower_quiet [simp]: "lcp_quiet w (upap_lowerup w)" "lcp_quiet w (upap_lowerdown w)"
proof -
  define v where "v = (if us_clientstate (upap w) = UPAPCS_INITIAL then set_client UPAPCS_CLOSED w
     else if us_clientstate (upap w) = UPAPCS_PENDING then upap_sauthreq w else w)"
  have "lcp_quiet w v"
    by (simp add: v_def lcp_quiet_base)
  also have "lcp_quiet v (upap_lowerup w)"
    unfolding upap_lowerup_def Let_def v_def [symmetric] by (simp add: lcp_quiet_base)
  finally show "lcp_quiet w (upap_lowerup w)" .
qed (simp add: upap_lowerdown_def Let_def lcp_quiet_def)

lemma upap_auth_quiet [simp]:
  "lcp_quiet w (upap_authpeer w)" "lcp_quiet w (upap_authwithpeer n p w)"
proof -
  define v where "v = upd_upap (\<lambda>u. u\<lparr>us_user := n, us_passwd := p, us_transmits := 0\<rparr>) w"
  have "lcp_quiet w v"
    by (simp add: v_def lcp_quiet_base)
  also have "lcp_quiet v (upap_authwithpeer n p w)"
    unfolding upap_authwithpeer_def Let_def v_def [symmetric] by (simp add: lcp_quiet_base)
  finally show "lcp_quiet w (upap_authwithpeer n p w)" .
qed (simp add: upap_authpeer_def lcp_quiet_base)

lemma rand_bytes_world: "snd (rand_bytes n w) = w\<lparr>w_rand_idx := w_rand_idx w + n\<rparr>"
  by (induction n arbitrary: w) (simp_all add: next48_def case_prod_unfold Let_def)

lemma chap_send_quiet [simp]:
  "lcp_quiet w (ChapSendChallenge w)" "lcp_quiet w (ChapSendStatus c w)" "lcp_quiet w (ChapSendResponse w)"
  by (simp_all add: ChapSendChallenge_def ChapSendStatus_def ChapSendResponse_def Let_def lcp_quiet_def)

lemma chap_gen_quiet [simp]: "lcp_quiet w (ChapGenChallenge w)"
  by (simp add: ChapGenChallenge_def next48_def case_prod_unfold Let_def rand_bytes_world lcp_quiet_def)

lemma chap_challenge_quiet: "lcp_quiet w (set_ss s (ChapSendChallenge (ChapGenChallenge w)))"
  by (meson chap_gen_quiet chap_send_quiet(1) lcp_quiet_base(2) lcp_quiet_trans)

lemma chap_lower_quiet [simp]: "lcp_quiet w (ChapLowerUp w)" "lcp_quiet w (ChapLowerDown w)"
proof -
  define v where "v = (if clientstate (chap w) = CHAPCS_INITIAL then set_cs CHAPCS_CLOSED w
     else if clientstate (chap w) = CHAPCS_PENDING then set_cs CHAPCS_LISTEN w else w)"
  have "lcp_quiet w v"
    by (simp add: v_def lcp_quiet_base)
  also have "lcp_quiet v (ChapLowerUp w)"
    unfolding ChapLowerUp_def Let_def v_def [symmetric] by (simp add: lcp_quiet_base chap_challenge_quiet)
  finally show "lcp_quiet w (ChapLowerUp w)" .
qed (simp add: ChapLowerDown_def Let_def lcp_quiet_def)

lemma chap_auth_quiet [simp]:
  "lcp_quiet w (ChapAuthPeer n d w)" "lcp_quiet w (ChapAuthWithPeer n d w)"
proof -
  define v where "v = upd_chap (\<lambda>c. c\<lparr>chal_name := n, chal_type := d\<rparr>) w"
  have "lcp_quiet w v"
    by (simp add: v_def lcp_quiet_base)
  also have "lcp_quiet v (ChapAuthPeer n d w)"
    unfolding ChapAuthPeer_def Let_def v_def [symmetric] by (simp add: lcp_quiet_base chap_challenge_quiet)
  finally show "lcp_quiet w (ChapAuthPeer n d w)" .
qed (simp add: ChapAuthWithPeer_def Let_def lcp_quiet_def)

lemma lower_timer [simp]:
  "timer_inv LCP_FSM (upap_lowerdown w) = timer_inv LCP_FSM w"
  "timer_inv LCP_FSM (ChapLowerDown u) = timer_inv LCP_FSM u"
  by (rule lcp_quiet_timer, simp)+

lemma auth_reset_world:
  obtains ao go where "auth_reset pl w = w\<lparr>lcp_allowoptions := ao, lcp_gotoptions := go\<rparr>"
proof -
  define v where "v = w\<lparr>lcp_allowoptions := (lcp_allowoptions w)\<lparr>
     neg_upap := \<not> refuse_pap w \<and> (passwd w \<noteq> [] \<or> get_pap_passwd_null pl w),
     neg_chap := \<not> refuse_chap w \<and> (passwd w \<noteq> [] \<or> have_chap_secret)\<rparr>\<rparr>"
  have "v = v\<lparr>lcp_gotoptions := lcp_gotoptions w\<rparr>"
    by (simp add: v_def)
  moreover have "auth_reset pl w = v \<or> auth_reset pl w =
      v\<lparr>lcp_gotoptions := (lcp_gotoptions v)\<lparr>neg_chap := False\<rparr>\<rparr>"
    unfolding auth_reset_def Let_def v_def [symmetric] by (simp add: have_pap_secret_def)
  ultimately obtain go where "auth_reset pl w = v\<lparr>lcp_gotoptions := go\<rparr>"
    by metis
  then show ?thesis
    unfolding v_def by (rule that)
qed

section \<open>Network control protocols\<close>

locale ncp_table =
  fixes pl :: plugins and ncps :: "'a chap_world_scheme protent list" and on :: "fsm_id \<Rightarrow> bool"
  assumes ncp_lowerdown: "p \<in> set ncps \<Longrightarrow> p_lowerdown p = Some f \<Longrightarrow> ncp_quiet w (f w)"
    and ncp_close: "p \<in> set ncps \<Longrightarrow> p_close p = Some c \<Longrightarrow> ncp_quiet w (c r w)"
    and ncp_lowerup: "p \<in> set ncps \<Longrightarrow> p_lowerup p = Some f \<Longrightarrow> ncp_quiet w (f w)"
    and ncp_open: "p \<in> set ncps \<Longrightarrow> p_open p = Some f \<Longrightarrow> ncp_quiet w (f w)"
    and ncp_protrej: "p \<in> set ncps \<Longrightarrow> ncp_quiet w (p_protrej p w)"
    and ncp_input_timer: "p \<in> set ncps \<Longrightarrow> timer_inv LCP_FSM w \<Longrightarrow> timer_inv LCP_FSM (p_input p inp w)"
    and ncp_down: "on i \<Longrightarrow> i \<noteq> LCP_FSM \<Longrightarrow> state_of i (fold proto_down ncps w) = INITIAL"
    and ncp_input_link: "p \<in> set ncps \<Longrightarrow> link_ok on w \<Longrightarrow> state_of LCP_FSM w = OPENED \<Longrightarrow>
      link_ok on (p_input p inp w)"
    and ncp_data_timer: "p \<in> set ncps \<Longrightarrow> p_datainput p = Some d \<Longrightarrow> timer_inv LCP_FSM w \<Longrightarrow>
      timer_inv LCP_FSM (d inp w)"
    and ncp_data_link: "p \<in> set ncps \<Longrightarrow> p_datainput p = Some d \<Longrightarrow> link_ok on w \<Longrightarrow>
      state_of LCP_FSM w = OPENED \<Longrightarrow> link_ok on (d inp w)"
begin

lemma fold_quiet:
  assumes "\<And>p w. p \<in> set ps \<Longrightarrow> ncp_quiet w (f p w)"
  shows "ncp_quiet w (fold f ps w)"
  using assms
proof (induction ps arbitrary: w)
  case Nil
  show ?case by (simp add: ncp_quiet_def)
next
  case (Cons p ps)
  have "ncp_quiet w (f p w)"
    using Cons.prems by simp
  also have "ncp_quiet (f p w) (fold f ps (f p w))"
    using Cons.prems by (intro Cons.IH) simp
  finally show ?case by simp
qed

lemma ncp_quiet_refl [simp]: "ncp_quiet w w"
  by (simp add: ncp_quiet_def)

lemma proto_down_quiet: "p \<in> set ncps \<Longrightarrow> ncp_quiet w (proto_down p w)"
proof -
  assume p: "p \<in> set ncps"
  define v where "v = (if p_protocol p \<noteq> PPP_LCP then call_opt (p_lowerdown p) w else w)"
  have "ncp_quiet w v"
    using p ncp_lowerdown by (cases "p_lowerdown p") (auto simp: v_def)
  moreover have "ncp_quiet v (case p_close p of None \<Rightarrow> v | Some c \<Rightarrow> c r v)" for r
    using p ncp_close by (cases "p_close p") auto
  ultimately show ?thesis
    by (auto simp: proto_down_def v_def [symmetric] Let_def intro: ncp_quiet_trans)
qed

lemma proto_lowerup_quiet: "p \<in> set ncps \<Longrightarrow> ncp_quiet w (proto_lowerup p w)"
  using ncp_lowerup by (cases "p_lowerup p") (auto simp: proto_lowerup_def)

lemma proto_open_quiet: "p \<in> set ncps \<Longrightarrow> ncp_quiet w (proto_open p w)"
  using ncp_open [of p _ w]
  by (cases "p_open p") (auto simp: proto_open_def Let_def ncp_quiet_def lcp_quiet_def pending_def)

text \<open>\<^verbatim>\<open>link_down\<close> resets the authentication protocols and leaves LCP alone.\<close>

lemma link_down_effect:
  "lcp_quiet w (link_down pl (down_protocols ncps) w) \<and> auth_dn (auth_view on (link_down pl (down_protocols ncps) w))"
proof -
  define v where "v = (let w = w\<lparr>auth_state := s_down\<rparr>
     in if auth_script_state w = s_up then auth_script pl s_down w else w)"
  define u where "u = ChapLowerDown (upap_lowerdown v)"
  define x where "x = fold proto_down ncps u"
  have "lcp_quiet w v"
    by (simp add: v_def Let_def auth_script_def plugin_note_def lcp_quiet_def pending_def)
  also have "lcp_quiet v (upap_lowerdown v)"
    by simp
  also have "lcp_quiet (upap_lowerdown v) u"
    by (simp add: u_def)
  finally have wu: "lcp_quiet w u" .
  have quiet: "ncp_quiet u x"
    unfolding x_def by (rule fold_quiet) (rule proto_down_quiet)
  have "us_clientstate (upap u) = UPAPCS_INITIAL" "clientstate (chap u) = CHAPCS_INITIAL"
    "serverstate (chap u) = CHAPSS_INITIAL"
    by (simp_all add: u_def ChapLowerDown_def upap_lowerdown_def Let_def)
  with quiet have view: "auth_dn (auth_view on x)"
    by (auto simp: auth_dn_def auth_view_def ncp_quiet_def x_def ncp_down ncp_states_def)
  have "fold proto_down (down_protocols ncps) v = x"
    by (simp add: down_protocols_def proto_down_def down_ent_def u_def x_def Let_def ppp_consts)
  then have eq: "link_down pl (down_protocols ncps) w =
      (let w = x\<lparr>num_np_open := 0, num_np_up := 0\<rparr>
       in if pppd_phase w \<noteq> PHASE_DEAD then new_phase PHASE_TERMINATE w else w)"
    by (simp add: link_down_def v_def Let_def)
  have "lcp_quiet x (link_down pl (down_protocols ncps) w)"
    and "auth_view on (link_down pl (down_protocols ncps) w) = auth_view on x"
    unfolding eq by (simp_all add: Let_def lcp_quiet_def auth_view_def pending_def new_phase_def)
  with wu view quiet show ?thesis
    by (auto simp: ncp_quiet_def intro: lcp_quiet_trans)
qed

lemma link_terminated_view:
  "lcp_view (auth_view on) (link_terminated pl w) = lcp_view (auth_view on) w"
  by (simp add: link_terminated_def plugin_note_def new_phase_def pending_def lcp_view_def auth_view_def)

lemma link_terminated_quiet: "ncp_quiet w (link_terminated pl w)"
  by (simp add: link_terminated_def ncp_quiet_def lcp_quiet_def plugin_note_def new_phase_def pending_def)

end

sublocale ncp_table \<subseteq> dl: lower_layer "down_hooks pl ncps"
  using link_down_effect link_terminated_quiet
  by unfold_locales (auto simp: down_hooks_def fsm_quiet_def lcp_quiet_def ncp_quiet_def)

lemma auth_view_more:
  "lcp_world.more w = lcp_world.more w' \<Longrightarrow> (\<And>i. i \<noteq> LCP_FSM \<Longrightarrow> fsms w i = fsms w' i) \<Longrightarrow>
   auth_view on w = auth_view on w'"
  for w w' :: "'a chap_world_scheme"
proof -
  assume m: "lcp_world.more w = lcp_world.more w'" and f: "\<And>i. i \<noteq> LCP_FSM \<Longrightarrow> fsms w i = fsms w' i"
  have "ncp_states on (fsms w) = ncp_states on (fsms w')"
    using f by (auto simp: ncp_states_def)
  with m show ?thesis
    by (cases w; cases w') (simp add: auth_view_def)
qed

sublocale ncp_table \<subseteq> dv: lower_view "down_hooks pl ncps" "auth_view on" auth_dn "\<lambda>_. True"
proof unfold_locales
  show "auth_view on w = auth_view on w'" if "lcp_world.more w = lcp_world.more w'"
    and "\<And>i. i \<noteq> LCP_FSM \<Longrightarrow> fsms w i = fsms w' i" for w w' :: "'a chap_world_scheme"
    using that by (rule auth_view_more)
  show "auth_dn (auth_view on (h_link_down (down_hooks pl ncps) w))" for w
    using link_down_effect by (simp add: down_hooks_def)
  show "state_of LCP_FSM (h_link_down (down_hooks pl ncps) w) = state_of LCP_FSM w \<and>
      echo_timers (h_link_down (down_hooks pl ncps) w) = echo_timers w \<and>
      lcp_echo_timer_running (h_link_down (down_hooks pl ncps) w) = lcp_echo_timer_running w \<and>
      lcp_echo_fails (h_link_down (down_hooks pl ncps) w) = lcp_echo_fails w" for w
    using link_down_effect [of w] by (simp add: down_hooks_def lcp_quiet_def)
  show "lcp_view (auth_view on) (h_link_terminated (down_hooks pl ncps) w) = lcp_view (auth_view on) w \<and>
      state_of LCP_FSM (h_link_terminated (down_hooks pl ncps) w) = state_of LCP_FSM w" for w
    using link_terminated_quiet [of w] link_terminated_view [of w]
    by (simp add: down_hooks_def ncp_quiet_def lcp_quiet_def)
qed simp

context ncp_table
begin

lemma close_link_timer: "timer_inv LCP_FSM w \<Longrightarrow> timer_inv LCP_FSM (close_link pl ncps r w)"
  unfolding close_link_def by (rule dl.lcp_close_inv)

lemma close_link_ok: "link_ok on w \<Longrightarrow> link_ok on (close_link pl ncps r w)"
  unfolding close_link_def by (rule dv.lcp_close_layer)

lemma close_link_closes: "state_of LCP_FSM (close_link pl ncps r w) \<noteq> OPENED"
  unfolding close_link_def by (rule dv.lcp_close_closes)

lemma link_ok_updates [simp]:
  "link_ok on (w\<lparr>passwd := s\<rparr>) = link_ok on w"
  "link_ok on (w\<lparr>auth_pending := b\<rparr>) = link_ok on w"
  "link_ok on (w\<lparr>peer_authname := s\<rparr>) = link_ok on w"
  "link_ok on (w\<lparr>need_holdoff := c\<rparr>) = link_ok on w"
  "link_ok on (w\<lparr>num_np_open := n\<rparr>) = link_ok on w"
  by (simp_all add: layer_inv_def lcp_view_def auth_view_def pending_def)

lemma timer_updates [simp]:
  "timer_inv LCP_FSM ((w :: 'a chap_world_scheme)\<lparr>passwd := s\<rparr>) = timer_inv LCP_FSM w"
  "timer_inv LCP_FSM (w\<lparr>auth_pending := b\<rparr>) = timer_inv LCP_FSM w"
  "timer_inv LCP_FSM (w\<lparr>peer_authname := s\<rparr>) = timer_inv LCP_FSM w"
  "timer_inv LCP_FSM (w\<lparr>need_holdoff := c\<rparr>) = timer_inv LCP_FSM w"
  "timer_inv LCP_FSM (w\<lparr>num_np_open := n\<rparr>) = timer_inv LCP_FSM w"
  by (simp_all add: timer_inv_def pending_def)

text \<open>The network phase: quiet up to a possible \<^verbatim>\<open>lcp_close\<close>.\<close>

lemma network_phase_cases:
  obtains v where "ncp_quiet w v"
    and "network_phase pl ncps w = v \<or> network_phase pl ncps w = close_link pl ncps ''No network protocols running'' v"
proof -
  define u where "u = new_phase PHASE_NETWORK (let w = w\<lparr>auth_state := s_up\<rparr>
     in if auth_script_state w = s_down then auth_script pl s_up w else w)"
  have "ncp_quiet w u"
    by (simp add: u_def Let_def auth_script_def plugin_note_def ncp_quiet_def lcp_quiet_def new_phase_def pending_def)
  also have "ncp_quiet u (fold proto_open ncps u)"
    by (rule fold_quiet) (rule proto_open_quiet)
  finally show ?thesis
    using that by (simp add: network_phase_def start_networks_def u_def Let_def split: if_splits)
qed

lemma network_phase_timer: "timer_inv LCP_FSM w \<Longrightarrow> timer_inv LCP_FSM (network_phase pl ncps w)"
  by (rule network_phase_cases [of w]) (auto simp: ncp_quiet_def lcp_quiet_timer intro!: close_link_timer)

lemma network_phase_ok:
  assumes "link_ok on w" and "state_of LCP_FSM w = OPENED"
  shows "link_ok on (network_phase pl ncps w)"
proof (rule network_phase_cases [of w])
  fix v
  assume "ncp_quiet w v" and
    n: "network_phase pl ncps w = v \<or> network_phase pl ncps w = close_link pl ncps ''No network protocols running'' v"
  then have "link_ok on v"
    using lcp_quiet_link_ok assms by (auto simp: ncp_quiet_def)
  with n close_link_ok show ?thesis by metis
qed

lemma auth_outcome_timer:
  assumes "timer_inv LCP_FSM w"
  shows "timer_inv LCP_FSM (auth_peer_fail pl ncps prot w)"
    and "timer_inv LCP_FSM (auth_withpeer_fail pl ncps prot w)"
    and "timer_inv LCP_FSM (auth_peer_success pl ncps prot name w)"
    and "timer_inv LCP_FSM (auth_withpeer_success pl ncps prot w)"
  using assms
  by (simp_all add: auth_peer_fail_def auth_withpeer_fail_def auth_peer_success_def
      auth_withpeer_success_def Let_def close_link_timer network_phase_timer)

text \<open>The outcome functions are called while LCP is up.\<close>

lemma auth_fail_ok:
  assumes "link_ok on w"
  shows "link_ok on (auth_peer_fail pl ncps prot w)" and "link_ok on (auth_withpeer_fail pl ncps prot w)"
  using assms by (simp_all add: auth_peer_fail_def auth_withpeer_fail_def Let_def close_link_ok)

lemma auth_success_ok:
  assumes "link_ok on w" and "state_of LCP_FSM w = OPENED"
  shows "link_ok on (auth_peer_success pl ncps prot name w)" and "link_ok on (auth_withpeer_success pl ncps prot w)"
  using assms
  by (simp_all add: auth_peer_success_def auth_withpeer_success_def Let_def network_phase_ok)

lemma start_peer_auth_quiet: "start_peer_auth w = (b, v) \<Longrightarrow> lcp_quiet w v"
  by (auto simp: start_peer_auth_def Let_def split: if_splits)

lemma start_our_auth_quiet: "start_our_auth pl w = (b, v) \<Longrightarrow> lcp_quiet w v"
proof -
  have "lcp_quiet w (snd (get_pap_passwd pl (w\<lparr>passwd_from_file := True\<rparr>)))"
    by (auto simp: get_pap_passwd_def lcp_quiet_def pending_def split: option.split)
  then have "lcp_quiet w (upap_authwithpeer n p (snd (get_pap_passwd pl (w\<lparr>passwd_from_file := True\<rparr>))))" for n p
    by (rule lcp_quiet_trans) simp
  moreover assume "start_our_auth pl w = (b, v)"
  ultimately show ?thesis
    by (auto simp: start_our_auth_def Let_def split: if_splits)
qed

lemma fold_lowerup_quiet: "ncp_quiet w (fold proto_lowerup ncps w)"
  by (rule fold_quiet) (rule proto_lowerup_quiet)

lemma link_established_cases:
  obtains v where "lcp_quiet w v"
    and "link_established pl ncps w = v \<or> link_established pl ncps w = network_phase pl ncps v \<or>
         (\<exists>r n. link_established pl ncps w = (close_link pl ncps r v)\<lparr>pppd_status := n\<rparr>)"
proof -
  define u where "u = fold proto_lowerup ncps (ChapLowerUp (upap_lowerup w))"
  have "lcp_quiet w (upap_lowerup w)"
    by simp
  also have "lcp_quiet (upap_lowerup w) (ChapLowerUp (upap_lowerup w))"
    by simp
  also have "lcp_quiet (ChapLowerUp (upap_lowerup w)) u"
    unfolding u_def using fold_lowerup_quiet by (simp add: ncp_quiet_def)
  finally have u: "lcp_quiet w u" .
  obtain b1 v1 where 1: "start_peer_auth (new_phase PHASE_AUTHENTICATE u) = (b1, v1)"
    by fastforce
  obtain b2 v2 where 2: "start_our_auth pl v1 = (b2, v2)"
    by fastforce
  define v where "v = v2\<lparr>auth_pending := b1 OR b2\<rparr>"
  note u
  also have "lcp_quiet u (new_phase PHASE_AUTHENTICATE u)"
    by (rule lcp_quiet_base)
  also have "lcp_quiet (new_phase PHASE_AUTHENTICATE u) v1"
    by (rule start_peer_auth_quiet) (rule 1)
  also have "lcp_quiet v1 v2"
    by (rule start_our_auth_quiet) (rule 2)
  also have "lcp_quiet v2 v"
    by (simp add: v_def lcp_quiet_def pending_def)
  finally have v: "lcp_quiet w v" .
  have "link_established pl ncps w \<in> {(close_link pl ncps ''peer refused to authenticate'' u)
      \<lparr>pppd_status := EXIT_PEER_AUTH_FAILED\<rparr>, network_phase pl ncps v, v}"
    unfolding link_established_def Let_def u_def [symmetric] 1 2 prod.case v_def [symmetric] by simp
  then show ?thesis
    using that [OF u] that [OF v] by blast
qed

lemma link_established_timer: "timer_inv LCP_FSM w \<Longrightarrow> timer_inv LCP_FSM (link_established pl ncps w)"
  by (rule link_established_cases [of w])
    (auto simp: lcp_quiet_timer intro!: close_link_timer network_phase_timer)

lemma link_established_ok:
  assumes "link_ok on w" and "state_of LCP_FSM w = OPENED"
  shows "link_ok on (link_established pl ncps w)"
proof (rule link_established_cases [of w])
  fix v
  assume q: "lcp_quiet w v" and c: "link_established pl ncps w = v \<or>
      link_established pl ncps w = network_phase pl ncps v \<or>
      (\<exists>r n. link_established pl ncps w = (close_link pl ncps r v)\<lparr>pppd_status := n\<rparr>)"
  have "link_ok on v" "state_of LCP_FSM v = OPENED"
    using q assms lcp_quiet_link_ok [OF q] by (auto simp: lcp_quiet_def)
  with c show ?thesis
    using close_link_ok network_phase_ok by auto
qed

end

section \<open>The authentication protocols\<close>

text \<open>What PAP and CHAP do when they are told that the peer does not speak them.\<close>

context ncp_table
begin

lemma protocol_reject_timer:
  assumes "timer_inv LCP_FSM w"
  shows "timer_inv LCP_FSM (upap_protrej (the_auth_hooks pl ncps) w)"
    and "timer_inv LCP_FSM (ChapProtocolReject (the_auth_hooks pl ncps) w)"
  using assms
  by (simp_all add: upap_protrej_def ChapProtocolReject_def the_auth_hooks_def Let_def auth_outcome_timer)

text \<open>Taking PAP or CHAP down keeps the layer invariant in every state of LCP.\<close>

lemma lowerdown_ok:
  assumes "link_ok on w"
  shows "link_ok on (upap_lowerdown w)" and "link_ok on (ChapLowerDown w)"
proof -
  have "auth_view on (upap_lowerdown w) = (UPAPCS_INITIAL, snd (auth_view on w))"
    and "auth_view on (ChapLowerDown w) = (fst (auth_view on w), CHAPCS_INITIAL, CHAPSS_INITIAL, snd (snd (snd (auth_view on w))))"
    by (simp_all add: auth_view_def upap_lowerdown_def ChapLowerDown_def Let_def)
  then show "link_ok on (upap_lowerdown w)" and "link_ok on (ChapLowerDown w)"
    using assms upap_lower_quiet(2) [of w] chap_lower_quiet(2) [of w]
    by (auto simp: layer_inv_def lcp_view_def lcp_dn_def lcp_lay_def auth_dn_def lcp_quiet_def
        split: if_splits)
qed

lemma protocol_reject_ok:
  assumes "link_ok on w"
  shows "link_ok on (upap_protrej (the_auth_hooks pl ncps) w)"
    and "link_ok on (ChapProtocolReject (the_auth_hooks pl ncps) w)"
  using assms
  by (simp_all add: upap_protrej_def ChapProtocolReject_def the_auth_hooks_def Let_def auth_fail_ok lowerdown_ok)

lemma lcp_protrej_both:
  "timer_inv LCP_FSM w \<Longrightarrow> timer_inv LCP_FSM (lcp_protrej (down_hooks pl ncps) w)"
  "link_ok on w \<Longrightarrow> link_ok on (lcp_protrej (down_hooks pl ncps) w)"
  unfolding lcp_protrej_def by (rule dl.down_fsm.protreject_inv, assumption)
    (rule dv.down_layer.protreject_layer)

lemma protrej_entries_cases:
  assumes "(n, e, p) \<in> set (protrej_entries pl ncps)"
  obtains "p = lcp_protrej (down_hooks pl ncps)" | "p = upap_protrej (the_auth_hooks pl ncps)"
    | "p = ChapProtocolReject (the_auth_hooks pl ncps)" | q where "q \<in> set ncps" and "p = p_protrej q"
  using assms by (auto simp: protrej_entries_def)

lemma ncp_protrej_both:
  assumes "q \<in> set ncps"
  shows "timer_inv LCP_FSM (p_protrej q w) = timer_inv LCP_FSM w"
    and "state_of LCP_FSM w = OPENED \<Longrightarrow> link_ok on (p_protrej q w) = link_ok on w"
proof -
  have "lcp_quiet w (p_protrej q w)"
    using ncp_protrej [OF assms, of w] by (simp add: ncp_quiet_def)
  then show "timer_inv LCP_FSM (p_protrej q w) = timer_inv LCP_FSM w"
    and "state_of LCP_FSM w = OPENED \<Longrightarrow> link_ok on (p_protrej q w) = link_ok on w"
    by (rule lcp_quiet_timer, rule lcp_quiet_link_ok)
qed

lemma protrej_entries_timer:
  assumes "(n, e, p) \<in> set (protrej_entries pl ncps)" and "timer_inv LCP_FSM w"
  shows "timer_inv LCP_FSM (p w)"
  using assms(1) by (rule protrej_entries_cases)
    (simp_all add: assms(2) protocol_reject_timer lcp_protrej_both ncp_protrej_both)

lemma protrej_entries_ok:
  assumes "(n, e, p) \<in> set (protrej_entries pl ncps)" and "link_ok on w" and "state_of LCP_FSM w = OPENED"
  shows "link_ok on (p w)"
  using assms(1) by (rule protrej_entries_cases)
    (simp_all add: assms(2,3) protocol_reject_ok lcp_protrej_both ncp_protrej_both)

lemma auth_reset_quiet: "lcp_quiet w (auth_reset pl w) \<and> auth_view on (auth_reset pl w) = auth_view on w"
  by (rule auth_reset_world [of pl w]) (simp add: lcp_quiet_def auth_view_def)

end

sublocale ncp_table \<subseteq> ll: link_layer "the_link_hooks pl ncps"
proof unfold_locales
  show "timer_inv LCP_FSM (p w)" if "(n, e, p) \<in> set (h_protocols (the_link_hooks pl ncps))"
    and "timer_inv LCP_FSM w" for n e p w
    using that protrej_entries_timer by (simp add: the_link_hooks_def)
qed (insert auth_reset_quiet link_established_timer link_down_effect link_terminated_quiet,
  auto simp: the_link_hooks_def link_required_def fsm_quiet_def lcp_quiet_def ncp_quiet_def)

sublocale ncp_table \<subseteq> lv: link_view "the_link_hooks pl ncps" "auth_view on" auth_dn "\<lambda>_. True"
proof unfold_locales
  show "auth_dn (auth_view on (h_link_down (the_link_hooks pl ncps) w))" for w
    using link_down_effect by (simp add: the_link_hooks_def)
  show "state_of LCP_FSM (h_link_down (the_link_hooks pl ncps) w) = state_of LCP_FSM w \<and>
      echo_timers (h_link_down (the_link_hooks pl ncps) w) = echo_timers w \<and>
      lcp_echo_timer_running (h_link_down (the_link_hooks pl ncps) w) = lcp_echo_timer_running w \<and>
      lcp_echo_fails (h_link_down (the_link_hooks pl ncps) w) = lcp_echo_fails w" for w
    using link_down_effect [of w] by (simp add: the_link_hooks_def lcp_quiet_def)
  show "lcp_view (auth_view on) (h_link_terminated (the_link_hooks pl ncps) w) = lcp_view (auth_view on) w \<and>
      state_of LCP_FSM (h_link_terminated (the_link_hooks pl ncps) w) = state_of LCP_FSM w" for w
    using link_terminated_quiet [of w] link_terminated_view [of w]
    by (simp add: the_link_hooks_def ncp_quiet_def lcp_quiet_def)
  show "lcp_view (auth_view on) (h_auth_reset (the_link_hooks pl ncps) w) = lcp_view (auth_view on) w \<and>
      state_of LCP_FSM (h_auth_reset (the_link_hooks pl ncps) w) = state_of LCP_FSM w" for w
    using auth_reset_quiet [of w] by (simp add: the_link_hooks_def lcp_quiet_def lcp_view_def)
  show "link_ok on (h_link_established (the_link_hooks pl ncps) w)"
    if "link_ok on w" and "state_of LCP_FSM w = OPENED" for w
    using that link_established_ok by (simp add: the_link_hooks_def)
  show "link_ok on (p w)" if "(n, e, p) \<in> set (h_protocols (the_link_hooks pl ncps))" and "link_ok on w"
    and "state_of LCP_FSM w = OPENED" for n e p w
    using that protrej_entries_ok by (simp add: the_link_hooks_def)
qed (auto simp: the_link_hooks_def link_required_def intro: auth_view_more)

section \<open>Packets and timeouts of PAP and CHAP\<close>

lemma link_ok_arm [simp]:
  "f \<noteq> LCP_ECHO_TIMEOUT \<Longrightarrow> link_ok on (ppptimeout f a t w) = link_ok on w"
  "f \<noteq> LCP_ECHO_TIMEOUT \<Longrightarrow> link_ok on (pppuntimeout f a w) = link_ok on w"
  by (simp_all add: layer_inv_def lcp_view_def auth_view_def)

lemma link_ok_server [simp]: "link_ok on (set_server s w) = link_ok on w"
  by (simp add: layer_inv_def lcp_view_def auth_view_def)

lemma link_ok_oob [simp]: "link_ok on (w\<lparr>oob := b\<rparr>) = link_ok on w"
  by (simp add: layer_inv_def lcp_view_def auth_view_def)

lemma timer_arm [simp]:
  "f \<noteq> FSM_TIMEOUT \<Longrightarrow> timer_inv LCP_FSM (ppptimeout f a t w) = timer_inv LCP_FSM w"
  "f \<noteq> FSM_TIMEOUT \<Longrightarrow> timer_inv LCP_FSM (pppuntimeout f a w) = timer_inv LCP_FSM w"
  by (simp_all add: timer_inv_def)

lemma timer_upd [simp]:
  "timer_inv LCP_FSM (upd_upap g w) = timer_inv LCP_FSM w"
  "timer_inv LCP_FSM (upd_chap g' u) = timer_inv LCP_FSM u"
  "timer_inv LCP_FSM (upap_sresp c n m w) = timer_inv LCP_FSM w"
  "timer_inv LCP_FSM (upap_sauthreq w) = timer_inv LCP_FSM w"
  "timer_inv LCP_FSM (ChapSendStatus c u) = timer_inv LCP_FSM u"
  "timer_inv LCP_FSM (ChapSendResponse u) = timer_inv LCP_FSM u"
  "timer_inv LCP_FSM (ChapSendChallenge u) = timer_inv LCP_FSM u"
  "timer_inv LCP_FSM (ChapGenChallenge u) = timer_inv LCP_FSM u"
  by (rule lcp_quiet_timer, simp add: lcp_quiet_base)+

lemma timer_oob [simp]: "timer_inv LCP_FSM ((w :: 'a lcp_world_scheme)\<lparr>oob := b\<rparr>) = timer_inv LCP_FSM w"
  by (simp add: timer_inv_def)

text \<open>While LCP is up, a change that leaves LCP alone keeps the layer invariant.\<close>

lemma opened_quiet:
  assumes "lcp_quiet w v" and "link_ok on w" and "state_of LCP_FSM w = OPENED"
  shows "link_ok on v \<and> state_of LCP_FSM v = OPENED"
  using assms lcp_quiet_link_ok [OF assms(1)] by (simp add: lcp_quiet_def)

context ncp_table
begin

abbreviation ah :: "'a chap_world_scheme auth_hooks" where
  "ah \<equiv> the_auth_hooks pl ncps"

lemma ah_simps [simp]:
  "a_peer_fail ah = auth_peer_fail pl ncps" "a_peer_success ah = auth_peer_success pl ncps"
  "a_withpeer_fail ah = auth_withpeer_fail pl ncps" "a_withpeer_success ah = auth_withpeer_success pl ncps"
  by (simp_all add: the_auth_hooks_def)

lemma upap_rauthreq_timer:
  "timer_inv LCP_FSM w \<Longrightarrow> timer_inv LCP_FSM (upap_rauthreq ah chk inp idn w)"
  by (auto simp: upap_rauthreq_def Let_def auth_outcome_timer split: upap_server.split option.split prod.split)

lemma upap_input_timer: "timer_inv LCP_FSM w \<Longrightarrow> timer_inv LCP_FSM (upap_input ah chk p w)"
  by (auto simp: upap_input_def upap_rauthack_def upap_rauthnak_def Let_def auth_outcome_timer
      upap_rauthreq_timer split: list.split)

lemma upap_rauthreq_ok:
  assumes "link_ok on w" and "state_of LCP_FSM w = OPENED"
  shows "link_ok on (upap_rauthreq ah chk inp idn w)"
proof -
  have resp: "link_ok on (upap_sresp c n m v) \<and> state_of LCP_FSM (upap_sresp c n m v) = OPENED"
    if "link_ok on v" "state_of LCP_FSM v = OPENED" for c n m v
    using opened_quiet [OF upap_sresp_quiet] that by blast
  have "link_ok on (auth_peer_success pl ncps PPP_PAP nm (set_server UPAPSS_OPEN (upap_sresp c n m v)))"
    "link_ok on (auth_peer_fail pl ncps PPP_PAP (set_server UPAPSS_BADAUTH (upap_sresp c n m v)))"
    if "link_ok on v" "state_of LCP_FSM v = OPENED" for c n m nm v
    using resp [OF that] by (auto intro!: auth_success_ok auth_fail_ok)
  then show ?thesis
    using assms resp [OF assms]
    by (auto simp: upap_rauthreq_def Let_def split: upap_server.split option.split prod.split)
qed

lemma upap_input_ok:
  assumes "link_ok on w" and "state_of LCP_FSM w = OPENED"
  shows "link_ok on (upap_input ah chk p w)"
proof -
  have "link_ok on (set_client s w) \<and> state_of LCP_FSM (set_client s w) = OPENED" for s
    using opened_quiet [OF lcp_quiet_base(1)] assms by blast
  then show ?thesis
    using assms
    by (auto simp: upap_input_def upap_rauthack_def upap_rauthnak_def Let_def upap_rauthreq_ok
        split: list.split intro!: auth_success_ok auth_fail_ok)
qed

lemma upap_timeouts_timer:
  assumes "timer_inv LCP_FSM w"
  shows "timer_inv LCP_FSM (upap_timeout ah w)" and "timer_inv LCP_FSM (upap_reqtimeout ah w)"
  using assms by (simp_all add: upap_timeout_def upap_reqtimeout_def auth_outcome_timer)

lemma upap_timeouts_ok:
  assumes "link_ok on w"
  shows "link_ok on (upap_timeout ah w)" and "link_ok on (upap_reqtimeout ah w)"
proof -
  have op: "state_of LCP_FSM w = OPENED" if "us_clientstate (upap w) = UPAPCS_AUTHREQ"
    using assms that by (auto simp: layer_inv_def lcp_view_def lcp_dn_def auth_dn_def auth_view_def split: if_splits)
  have "link_ok on (set_client UPAPCS_BADAUTH w)" "link_ok on (upap_sauthreq w)"
    if "us_clientstate (upap w) = UPAPCS_AUTHREQ"
    using opened_quiet [OF lcp_quiet_base(1) assms op [OF that]]
      opened_quiet [OF upap_sauthreq_quiet assms op [OF that]] by blast+
  then show "link_ok on (upap_timeout ah w)"
    using assms by (auto simp: upap_timeout_def intro!: auth_fail_ok)
  show "link_ok on (upap_reqtimeout ah w)"
    using assms by (simp add: upap_reqtimeout_def auth_fail_ok)
qed

lemma chap_response_timer:
  "timer_inv LCP_FSM w \<Longrightarrow> timer_inv LCP_FSM (ChapReceiveResponse ah md5 inp idn w)"
  by (auto simp: ChapReceiveResponse_def Let_def auth_outcome_timer split: list.split)

lemma chap_input_timer: "timer_inv LCP_FSM w \<Longrightarrow> timer_inv LCP_FSM (ChapInput ah md5 p w)"
  by (auto simp: ChapInput_def ChapReceiveChallenge_def ChapReceiveFailure_def ChapReceiveSuccess_def
      Let_def auth_outcome_timer chap_response_timer split: list.split)

lemma chap_response_ok:
  assumes "link_ok on w" and "state_of LCP_FSM w = OPENED"
  shows "link_ok on (ChapReceiveResponse ah md5 inp idn w)"
proof -
  have resp: "link_ok on (set_ss s (ChapSendStatus c v)) \<and> state_of LCP_FSM (set_ss s (ChapSendStatus c v)) = OPENED"
    if "link_ok on v" "state_of LCP_FSM v = OPENED" for c s and v :: "'a chap_world_scheme"
    using opened_quiet [OF lcp_quiet_trans [OF chap_send_quiet(2) lcp_quiet_base(2)]] that by blast
  have stat: "link_ok on (ChapSendStatus c w)" for c
    using opened_quiet [OF chap_send_quiet(2) assms] by blast
  have "link_ok on (auth_peer_success pl ncps PPP_CHAP nm (set_ss s (ChapSendStatus c v)))"
    "link_ok on (auth_peer_fail pl ncps PPP_CHAP (set_ss s (ChapSendStatus c v)))"
    if "link_ok on v" "state_of LCP_FSM v = OPENED" for c nm s v
    using resp [OF that] by (auto intro!: auth_success_ok auth_fail_ok)
  then show ?thesis
    using assms resp stat by (auto simp: ChapReceiveResponse_def Let_def split: list.split)
qed

lemma chap_challenge_ok:
  assumes "link_ok on (w :: 'a chap_world_scheme)" and "state_of LCP_FSM w = OPENED"
  shows "link_ok on (ChapReceiveChallenge md5 inp idn w)"
proof -
  have "link_ok on (ChapSendResponse (upd_chap g' (upd_chap g v)))" "link_ok on (upd_chap g v)"
    if "link_ok on v" "state_of LCP_FSM v = OPENED" for g g' and v :: "'a chap_world_scheme"
    using opened_quiet [OF lcp_quiet_trans [OF lcp_quiet_trans
        [OF lcp_quiet_base(2) lcp_quiet_base(2)] chap_send_quiet(3)]] opened_quiet [OF lcp_quiet_base(2)] that
    by blast+
  then show ?thesis
    using assms by (auto simp: ChapReceiveChallenge_def Let_def split: list.split)
qed

lemma chap_input_ok:
  assumes "link_ok on w" and "state_of LCP_FSM w = OPENED"
  shows "link_ok on (ChapInput ah md5 p w)"
proof -
  define v where "v = pppuntimeout CHAP_RESPONSE_TIMEOUT ARG_CHAP w"
  have v: "link_ok on v" "state_of LCP_FSM v = OPENED"
    using assms by (simp_all add: v_def)
  then have "link_ok on (set_cs s v) \<and> state_of LCP_FSM (set_cs s v) = OPENED" for s
    using opened_quiet [OF lcp_quiet_base(2)] by blast
  then have "link_ok on (ChapReceiveSuccess ah w)" "link_ok on (ChapReceiveFailure ah w)"
    using assms v by (auto simp: ChapReceiveSuccess_def ChapReceiveFailure_def v_def [symmetric]
        intro!: auth_success_ok auth_fail_ok)
  then show ?thesis
    using assms by (auto simp: ChapInput_def Let_def chap_response_ok chap_challenge_ok split: list.split)
qed

lemma chap_timeouts_timer:
  assumes "timer_inv LCP_FSM w"
  shows "timer_inv LCP_FSM (ChapChallengeTimeout ah w)" and "timer_inv LCP_FSM (ChapResponseTimeout w)"
    and "timer_inv LCP_FSM (ChapRechallenge w)"
  using assms
  by (simp_all add: ChapChallengeTimeout_def ChapResponseTimeout_def ChapRechallenge_def auth_outcome_timer)

lemma chap_timeouts_ok:
  assumes "link_ok on w"
  shows "link_ok on (ChapChallengeTimeout ah w)" and "link_ok on (ChapResponseTimeout w)"
    and "link_ok on (ChapRechallenge w)"
proof -
  have op: "state_of LCP_FSM w = OPENED"
    if "clientstate (chap w) \<noteq> CHAPCS_INITIAL \<or> serverstate (chap w) \<noteq> CHAPSS_INITIAL"
    using assms that by (auto simp: layer_inv_def lcp_view_def lcp_dn_def auth_dn_def auth_view_def split: if_splits)
  have q: "link_ok on v" if "lcp_quiet w v"
    and "clientstate (chap w) \<noteq> CHAPCS_INITIAL \<or> serverstate (chap w) \<noteq> CHAPSS_INITIAL" for v
    using opened_quiet [OF that(1) assms op [OF that(2)]] by blast
  show "link_ok on (ChapResponseTimeout w)"
    using assms q [OF chap_send_quiet(3)] by (simp add: ChapResponseTimeout_def)
  show "link_ok on (ChapRechallenge w)"
    using assms q [OF chap_challenge_quiet] by (simp add: ChapRechallenge_def)
  have "link_ok on (set_ss CHAPSS_BADAUTH w)"
    if "serverstate (chap w) \<noteq> CHAPSS_INITIAL"
    using q [OF lcp_quiet_base(2)] that by blast
  then show "link_ok on (ChapChallengeTimeout ah w)"
    using assms q [OF chap_send_quiet(1)] by (auto simp: ChapChallengeTimeout_def intro!: auth_fail_ok)
qed

end

end
