(* ===== verification/Fsm_Keeps.thy ===== *)
theory Fsm_Keeps
  imports Fsm_Inv
begin

text \<open>
  What one automaton does to the rest of the daemon. A predicate on the state that is not about
  automaton \<open>i\<close>, its timer or the outgoing packets, and that the callbacks keep, is kept by the
  operations of \<^verbatim>\<open>fsm.c\<close> on \<open>i\<close>. The first locale is for the operations of the layer below
  (lower layer up and down, open, close), which do not reach all callbacks; the second for
  packets and timeouts. There the callbacks \<^verbatim>\<open>up\<close> and \<^verbatim>\<open>finished\<close> come last, so they only have to
  establish a weaker predicate \<open>Q\<close> (a protocol may take the link down when it finishes).
\<close>

locale fsm_keeps =
  fixes P :: "'a fsm_world_scheme \<Rightarrow> bool" and cb :: "'a fsm_world_scheme fsm_callbacks" and i :: fsm_id
  assumes keeps_upd: "P w \<Longrightarrow> P (upd_fsm i g w)"
    and keeps_arm: "P w \<Longrightarrow> P (ppptimeout FSM_TIMEOUT (ARG_FSM i) t w)"
    and keeps_disarm: "P w \<Longrightarrow> P (pppuntimeout FSM_TIMEOUT (ARG_FSM i) w)"
    and keeps_put: "P w \<Longrightarrow> P (put_outpacket n bs w)"
    and keeps_output: "P w \<Longrightarrow> P (output_outpacket u k w)"
    and keeps_oob: "P w \<Longrightarrow> P (w\<lparr>oob := True\<rparr>)"
    and keeps_resetci: "cb_resetci cb = Some f \<Longrightarrow> P w \<Longrightarrow> P (f w)"
    and keeps_cilen: "cb_cilen cb = Some c \<Longrightarrow> P w \<Longrightarrow> P (snd (c w))"
    and keeps_addci: "cb_addci cb = Some d \<Longrightarrow> P w \<Longrightarrow> P (snd (snd (d k w)))"
    and keeps_down: "cb_down cb = Some f \<Longrightarrow> P w \<Longrightarrow> P (f w)"
    and keeps_starting: "cb_starting cb = Some f \<Longrightarrow> P w \<Longrightarrow> P (f w)"
begin

lemma call_keeps:
  "P w \<Longrightarrow> P (call_opt (cb_resetci cb) w)" "P w \<Longrightarrow> P (call_opt (cb_down cb) w)"
  "P w \<Longrightarrow> P (call_opt (cb_starting cb) w)"
  by (rule call_opt_cases; simp add: keeps_resetci keeps_down keeps_starting)+

lemma sdata_keeps: "P w \<Longrightarrow> P (fsm_sdata i code idn d n w)"
  by (auto simp: fsm_sdata_def bcopy_outpacket_def Let_def split: sdata.split
      intro!: keeps_output keeps_put keeps_oob)

lemmas keeps = keeps_upd keeps_arm keeps_disarm sdata_keeps call_keeps

lemma sterm_keeps: "P w \<Longrightarrow> P (fsm_sterm i w)"
  by (simp add: fsm_sterm_def Let_def keeps)

lemma sconfreq_begin_keeps: "P w \<Longrightarrow> P (fsm_sconfreq_begin cb i r w)"
  by (simp add: fsm_sconfreq_begin_def Let_def keeps)

lemma make_confreq_keeps: "P w \<Longrightarrow> fsm_make_confreq cb w = (n, v) \<Longrightarrow> P v"
proof (cases "cb_cilen cb = None \<or> cb_addci cb = None")
  case False
  then obtain c d where cd: "cb_cilen cb = Some c" "cb_addci cb = Some d"
    by auto
  assume w: "P w" and m: "fsm_make_confreq cb w = (n, v)"
  have "P (snd (c w))"
    using keeps_cilen cd w by blast
  with cd m show ?thesis
    using keeps_addci [OF cd(2)]
    by (auto simp: fsm_make_confreq_def Let_def case_prod_unfold intro!: keeps_put)
qed (auto simp: fsm_make_confreq_def split: option.splits)

lemma sconfreq_keeps: "P w \<Longrightarrow> P (fsm_sconfreq cb i r w)"
proof -
  obtain n v where m: "fsm_make_confreq cb (fsm_sconfreq_begin cb i r w) = (n, v)"
    by fastforce
  assume "P w"
  then have "P v"
    by (rule make_confreq_keeps [OF sconfreq_begin_keeps m])
  with m show ?thesis
    by (simp add: fsm_sconfreq_def Let_def keeps)
qed

lemma lowerup_keeps: "P w \<Longrightarrow> P (fsm_lowerup cb i w)"
  by (cases "state_of i w") (simp_all add: fsm_lowerup_def keeps sconfreq_keeps)

lemma lowerdown_keeps: "P w \<Longrightarrow> P (fsm_lowerdown cb i w)"
  by (cases "state_of i w") (simp_all add: fsm_lowerdown_def keeps)

lemma open_keeps: "P w \<Longrightarrow> P (fsm_open cb i w)"
  by (cases "state_of i w")
    (simp_all add: fsm_open_def Let_def keeps sconfreq_keeps lowerup_keeps lowerdown_keeps)

lemma close_keeps: "P w \<Longrightarrow> P (fsm_close cb i reason w)"
  by (cases "state_of i w") (simp_all add: fsm_close_def Let_def keeps sterm_keeps)

end

locale fsm_keeps_all = fsm_keeps P cb i
  for P :: "'a fsm_world_scheme \<Rightarrow> bool" and cb :: "'a fsm_world_scheme fsm_callbacks" and i :: fsm_id +
  fixes Q :: "'a fsm_world_scheme \<Rightarrow> bool"
  assumes keeps_weaker: "P w \<Longrightarrow> Q w"
    and weaker_upd: "Q w \<Longrightarrow> (\<And>f. f_state (g f) = f_state f) \<Longrightarrow> Q (upd_fsm i g w)"
    and keeps_reqci: "cb_reqci cb = Some q \<Longrightarrow> P w \<Longrightarrow> P (snd (snd (q inp rej w)))"
    and keeps_ackci: "cb_ackci cb = Some a \<Longrightarrow> P w \<Longrightarrow> P (snd (a inp w))"
    and keeps_nakci: "cb_nakci cb = Some p \<Longrightarrow> P w \<Longrightarrow> P (snd (p inp w))"
    and keeps_rejci: "cb_rejci cb = Some p \<Longrightarrow> P w \<Longrightarrow> P (snd (p inp w))"
    and keeps_up: "cb_up cb = Some f \<Longrightarrow> P w \<Longrightarrow> Q (f w)"
    and keeps_finished: "cb_finished cb = Some f \<Longrightarrow> P w \<Longrightarrow> Q (f w)"
    and keeps_retransmit: "cb_retransmit cb = Some f \<Longrightarrow> P w \<Longrightarrow> P (f w)"
    and keeps_extcode: "cb_extcode cb = Some e \<Longrightarrow> P w \<Longrightarrow> P (snd (e code idn inp w))"
begin

lemma call_keeps_all:
  "P w \<Longrightarrow> Q (call_opt (cb_up cb) w)" "P w \<Longrightarrow> Q (call_opt (cb_finished cb) w)"
  "P w \<Longrightarrow> P (call_opt (cb_retransmit cb) w)"
  by (rule call_opt_cases; simp add: keeps_up keeps_finished keeps_retransmit keeps_weaker)+

lemma timeout_keeps: "P w \<Longrightarrow> Q (fsm_timeout cb i w)"
  by (simp add: fsm_timeout_def Let_def keeps call_keeps_all sterm_keeps sconfreq_keeps keeps_weaker)

lemma rconfreq_enter_keeps: "P w \<Longrightarrow> P (fst (fsm_rconfreq_enter cb i idn w))"
  by (cases "state_of i w") (simp_all add: fsm_rconfreq_enter_def keeps sconfreq_keeps)

lemma rconfreq_reply_keeps: "P w \<Longrightarrow> Q (fsm_rconfreq_reply cb i idn code inp w)"
  by (simp add: fsm_rconfreq_reply_def Let_def keeps call_keeps_all keeps_weaker weaker_upd)

lemma rconfreq_keeps: "P w \<Longrightarrow> Q (fsm_rconfreq cb i idn inp w)"
proof -
  assume "P w"
  then have "P (fst (fsm_rconfreq_enter cb i idn w))"
    by (rule rconfreq_enter_keeps)
  then show ?thesis
    using keeps_reqci
    by (auto simp: fsm_rconfreq_def Let_def case_prod_unfold rconfreq_reply_keeps keeps_weaker split: option.split)
qed

lemma rconfack_keeps: "P w \<Longrightarrow> Q (fsm_rconfack cb i idn inp w)"
proof -
  assume w: "P w"
  obtain ok v where a: "(case cb_ackci cb of Some ackci \<Rightarrow> ackci inp w | None \<Rightarrow> (inp = [], w)) = (ok, v)"
    by fastforce
  have "P v"
    using a w keeps_ackci [of _ w inp] by (auto split: option.splits)
  with w show ?thesis
    by (cases "state_of i v")
      (simp_all add: fsm_rconfack_def a Let_def keeps call_keeps_all sconfreq_keeps keeps_weaker)
qed

lemma rconfnakrej_keeps: "P w \<Longrightarrow> P (fsm_rconfnakrej cb i code idn inp w)"
proof (cases "if code = CONFNAK then cb_nakci cb else cb_rejci cb")
  case (Some proc)
  assume w: "P w"
  obtain ret v where p: "proc inp w = (ret, v)"
    by fastforce
  have "P v"
    using Some p w keeps_nakci [of proc w inp] keeps_rejci [of proc w inp] by (auto split: if_splits)
  with w show ?thesis
    by (cases "state_of i v") (simp_all add: fsm_rconfnakrej_def Some p Let_def keeps sconfreq_keeps)
qed (simp add: fsm_rconfnakrej_def)

lemma rterm_keeps:
  "P w \<Longrightarrow> P (fsm_rtermreq cb i idn inp w)" "P w \<Longrightarrow> Q (fsm_rtermack cb i w)"
  "P w \<Longrightarrow> P (fsm_rcoderej i inp w)"
  by (cases "state_of i w"; simp add: fsm_rtermreq_def fsm_rtermack_def fsm_rcoderej_def Let_def
      keeps call_keeps_all sconfreq_keeps keeps_weaker)+

lemma protreject_keeps: "P w \<Longrightarrow> Q (fsm_protreject cb i w)"
  by (cases "state_of i w")
    (simp_all add: fsm_protreject_def Let_def keeps call_keeps_all sterm_keeps keeps_weaker)

lemma dispatch_keeps: "P w \<Longrightarrow> Q (fsm_dispatch cb i inpacket code idn inp w)"
proof -
  assume w: "P w"
  obtain handled v where e: "(case cb_extcode cb of None \<Rightarrow> (False, w)
      | Some extcode \<Rightarrow> extcode code idn inp w) = (handled, v)"
    by fastforce
  have "P v"
    using e w keeps_extcode [of _ w code idn inp] by (auto split: option.splits)
  with w show ?thesis
    by (simp add: fsm_dispatch_def e Let_def keeps rconfreq_keeps rconfack_keeps
        rconfnakrej_keeps rterm_keeps keeps_weaker)
qed

lemma input_keeps: "P w \<Longrightarrow> Q (fsm_input cb i p w)"
  by (auto simp: fsm_input_def Let_def dispatch_keeps keeps_weaker split: list.split)

end

text \<open>The operations of the layer below only reach some of the callbacks.\<close>

lemma fsm_lowerdown_cong:
  "cb_down cb = cb_down cb' \<Longrightarrow> cb_starting cb = cb_starting cb' \<Longrightarrow>
   fsm_lowerdown cb i w = fsm_lowerdown cb' i w"
  by (cases "state_of i w") (simp_all add: fsm_lowerdown_def)

lemma fsm_close_cong: "cb_down cb = cb_down cb' \<Longrightarrow> fsm_close cb i r w = fsm_close cb' i r w"
  by (cases "state_of i w") (simp_all add: fsm_close_def)

lemma fsm_protreject_cong:
  "cb_down cb = cb_down cb' \<Longrightarrow> cb_finished cb = cb_finished cb' \<Longrightarrow>
   fsm_protreject cb i w = fsm_protreject cb' i w"
  by (cases "state_of i w") (simp_all add: fsm_protreject_def)

text \<open>A protocol without a \<^verbatim>\<open>starting\<close> callback is back in \<open>INITIAL\<close> after its lower layer went down and it was closed.\<close>

lemma fsm_lowerdown_states:
  "cb_starting cb = None \<Longrightarrow> state_of i (fsm_lowerdown cb i w) \<in> {INITIAL, STARTING}"
  by (cases "state_of i w") (simp_all add: fsm_lowerdown_def)

lemma fsm_close_initial:
  "state_of i w \<in> {INITIAL, STARTING} \<Longrightarrow> state_of i (fsm_close cb i r w) = INITIAL"
  by (auto simp: fsm_close_def)

end
