(* ===== verification/Link_Observer.thy ===== *)
theory Link_Observer
  imports Auth_Inv Fsm_Keeps
begin

text \<open>
  What LCP, PAP, CHAP and \<^verbatim>\<open>auth.c\<close> leave alone. A property that is about neither the automaton of LCP
  nor the timers of these protocols nor the part of the state they own, and that the entries of the
  network control protocols keep, is kept by all their functions. The first locale is for
  taking the link down, which uses only \<^verbatim>\<open>lowerdown\<close> and \<^verbatim>\<open>close\<close> of the entries; the second for
  everything else.
\<close>

section \<open>Taking the link down\<close>

locale link_observer =
  fixes P :: "'a chap_world_scheme \<Rightarrow> bool" and tab :: "'a chap_world_scheme protent list"
  assumes lo_upd: "P w \<Longrightarrow> P (upd_fsm LCP_FSM g w)"
    and lo_arm: "P w \<Longrightarrow> a \<in> {ARG_NULL, ARG_UPAP, ARG_CHAP, ARG_FSM LCP_FSM} \<Longrightarrow> P (ppptimeout f a t w)"
    and lo_disarm: "P w \<Longrightarrow> a \<in> {ARG_NULL, ARG_UPAP, ARG_CHAP, ARG_FSM LCP_FSM} \<Longrightarrow> P (pppuntimeout f a w)"
    and lo_same: "P w \<Longrightarrow> fsms w' = fsms w \<Longrightarrow> callout w' = callout w \<Longrightarrow>
      chap_world.more w' = chap_world.more w \<Longrightarrow> P w'"
    and lo_lowerdown: "p \<in> set tab \<Longrightarrow> p_lowerdown p = Some ld \<Longrightarrow> P w \<Longrightarrow> P (ld w)"
    and lo_close: "p \<in> set tab \<Longrightarrow> p_close p = Some c \<Longrightarrow> P w \<Longrightarrow> P (c r w)"
begin

lemma lo_fields:
  assumes "P w"
  shows "P (upd_upap g w)" "P (upd_chap h w)" "P (new_phase k w)" "P (put_outpacket n bs w)"
    "P (output_outpacket u m w)" "P (w\<lparr>oob := b\<rparr>)" "P (w\<lparr>pppd_status := x\<rparr>)" "P (w\<lparr>hungup := b\<rparr>)"
    "P (w\<lparr>w_rand_idx := n\<rparr>)" "P (w\<lparr>w_clock_idx := n\<rparr>)"
    "P (w\<lparr>auth_pending := y\<rparr>)" "P (w\<lparr>passwd := s\<rparr>)" "P (w\<lparr>passwd_from_file := b\<rparr>)" "P (w\<lparr>peer_authname := s\<rparr>)"
    "P (w\<lparr>num_np_open := x\<rparr>)" "P (w\<lparr>num_np_up := x\<rparr>)" "P (w\<lparr>need_holdoff := b\<rparr>)" "P (w\<lparr>auth_state := st\<rparr>)"
    "P (auth_script pl st w)" "P (drv_log ev w)" "P (w\<lparr>peer_mru := x\<rparr>)" "P (w\<lparr>lcp_gotoptions := o'\<rparr>)"
    "P (w\<lparr>lcp_hisoptions := o'\<rparr>)" "P (w\<lparr>lcp_wantoptions := o'\<rparr>)" "P (w\<lparr>lcp_allowoptions := o'\<rparr>)"
    "P (w\<lparr>lcp_echos_pending := x\<rparr>)" "P (w\<lparr>lcp_echo_number := x\<rparr>)" "P (w\<lparr>lcp_echo_timer_running := b\<rparr>)"
    "P (link_terminated pl w)"
  using assms
  by (rule lo_same; simp add: upd_upap_def upd_chap_def new_phase_def put_outpacket_def output_outpacket_def
      auth_script_def plugin_note_def drv_log_def link_terminated_def Let_def split: script_state.split)+

lemma lo_auth_down: "P w \<Longrightarrow> P (upap_lowerdown w)" "P w \<Longrightarrow> P (ChapLowerDown w)"
  by (simp_all add: upap_lowerdown_def ChapLowerDown_def Let_def lo_disarm lo_fields)

lemma lo_proto_down: "p \<in> set tab \<Longrightarrow> P w \<Longrightarrow> P (proto_down p w)"
proof -
  assume p: "p \<in> set tab" and "P w"
  then have "P (if p_protocol p \<noteq> PPP_LCP then call_opt (p_lowerdown p) w else w)"
    using lo_lowerdown by (cases "p_lowerdown p") auto
  with p \<open>P w\<close> show ?thesis
    using lo_close by (auto simp: proto_down_def Let_def split: option.split)
qed

lemma lo_fold: "(\<And>p w. p \<in> set ps \<Longrightarrow> P w \<Longrightarrow> P (f p w)) \<Longrightarrow> P w \<Longrightarrow> P (fold f ps w)"
  by (induction ps arbitrary: w) auto

lemma lo_link_down: "P w \<Longrightarrow> P (link_down pl (down_protocols tab) w)"
proof -
  assume w: "P w"
  define v where "v = (let w = w\<lparr>auth_state := s_down\<rparr>
     in if auth_script_state w = s_up then auth_script pl s_down w else w)"
  have "P v"
    using w by (simp add: v_def Let_def lo_fields)
  then have "P (fold proto_down tab (ChapLowerDown (upap_lowerdown v)))"
    by (intro lo_fold lo_auth_down lo_proto_down)
  then have f: "P (fold proto_down (down_protocols tab) v)"
    by (simp add: down_protocols_def proto_down_def down_ent_def Let_def ppp_consts)
  show ?thesis
    unfolding link_down_def Let_def v_def [unfolded Let_def, symmetric] by (simp add: f lo_fields)
qed

lemma lo_lcp_down: "h_link_down h = link_down pl (down_protocols tab) \<Longrightarrow> P w \<Longrightarrow> P (lcp_down h w)"
  by (simp add: lcp_down_def lcp_echo_lowerdown_def Let_def lo_fields lo_link_down lo_disarm)

end

sublocale link_observer \<subseteq> lk: fsm_keeps_all P "lcp_down_callbacks (down_hooks pl tab)" LCP_FSM P for pl
  by unfold_locales
    (auto simp: lcp_down_callbacks_def lo_upd lo_arm lo_disarm lo_fields lo_lcp_down lcp_finished_def down_hooks_def)

context link_observer
begin

lemma lo_lcp_close: "P w \<Longrightarrow> P (lcp_close (down_hooks pl tab) r w)"
proof -
  assume "P w"
  then have "P (if pppd_phase w \<noteq> PHASE_DEAD then new_phase PHASE_TERMINATE w else w)"
    by (simp add: lo_fields)
  moreover have "P (lcp_finished (down_hooks pl tab) (set_state LCP_FSM CLOSED v))" if "P v" for v
    using that by (simp add: lcp_finished_def down_hooks_def lo_fields lo_upd)
  ultimately show ?thesis
    by (auto simp: lcp_close_def Let_def intro: lk.close_keeps)
qed

lemma lo_close_link: "P w \<Longrightarrow> P (close_link pl tab r w)"
  by (simp add: close_link_def lo_lcp_close)

lemma lo_np_finished: "P w \<Longrightarrow> P (np_finished pl tab w)"
  by (simp add: np_finished_def Let_def lo_fields lo_close_link)

lemma lo_auth_fail:
  "P w \<Longrightarrow> P (auth_peer_fail pl tab prot w)" "P w \<Longrightarrow> P (auth_withpeer_fail pl tab prot w)"
  by (simp_all add: auth_peer_fail_def auth_withpeer_fail_def Let_def lo_fields lo_close_link)

lemma lo_expired: "P w \<Longrightarrow> P (check_idle pl tab idle w)" "P w \<Longrightarrow> P (connect_time_expired pl tab w)"
  by (auto simp: check_idle_def connect_time_expired_def Let_def lo_fields lo_close_link lo_arm split: option.split)

end

section \<open>All operations\<close>

lemma lcp_close_hooks: "lcp_close (the_link_hooks pl tab) = lcp_close (down_hooks pl tab)"
proof -
  have "lcp_down (the_link_hooks pl tab) = lcp_down (down_hooks pl tab)"
    "lcp_finished (the_link_hooks pl tab) = lcp_finished (down_hooks pl tab)"
    by (rule ext, simp add: lcp_down_def lcp_finished_def the_link_hooks_def down_hooks_def)+
  then show ?thesis
    by (intro ext) (simp add: lcp_close_def lcp_down_callbacks_def Let_def)
qed

lemma link_hooks_simps:
  "h_link_down (the_link_hooks pl tab) = link_down pl (down_protocols tab)"
  "h_link_terminated (the_link_hooks pl tab) = link_terminated pl"
  "h_link_required (the_link_hooks pl tab) = link_required" "h_auth_reset (the_link_hooks pl tab) = auth_reset pl"
  "h_link_established (the_link_hooks pl tab) = link_established pl tab"
  "h_protocols (the_link_hooks pl tab) = protrej_entries pl tab"
  by (simp_all add: the_link_hooks_def)

locale link_observer_all = link_observer +
  assumes lo_lowerup: "p \<in> set tab \<Longrightarrow> p_lowerup p = Some f \<Longrightarrow> P w \<Longrightarrow> P (f w)"
    and lo_open: "p \<in> set tab \<Longrightarrow> p_open p = Some f \<Longrightarrow> P w \<Longrightarrow> P (f w)"
    and lo_protrej: "p \<in> set tab \<Longrightarrow> P w \<Longrightarrow> P (p_protrej p w)"
begin

lemma lo_network_phase: "P w \<Longrightarrow> P (network_phase pl tab w)"
proof -
  have "P (fold proto_open tab v)" if "P v" for v
    by (rule lo_fold [OF _ that]) (use lo_open in \<open>auto simp: proto_open_def Let_def lo_fields split: option.split\<close>)
  then show "P w \<Longrightarrow> ?thesis"
    by (simp add: network_phase_def start_networks_def Let_def lo_fields lo_close_link)
qed

lemma lo_auth_success:
  "P w \<Longrightarrow> P (auth_peer_success pl tab prot name w)" "P w \<Longrightarrow> P (auth_withpeer_success pl tab prot w)"
  by (simp_all add: auth_peer_success_def auth_withpeer_success_def Let_def lo_fields lo_network_phase)

subsection \<open>PAP\<close>

lemma lo_upap_base:
  "P w \<Longrightarrow> P (upap_sauthreq w)" "P w \<Longrightarrow> P (upap_sresp c n m w)" "P w \<Longrightarrow> P (upap_listen w)"
  by (simp_all add: upap_sauthreq_def upap_sresp_def upap_listen_def Let_def lo_fields lo_arm)

lemma lo_upap_start:
  "P w \<Longrightarrow> P (upap_lowerup w)" "P w \<Longrightarrow> P (upap_authpeer w)" "P w \<Longrightarrow> P (upap_authwithpeer n p w)"
  by (simp_all add: upap_lowerup_def upap_authpeer_def upap_authwithpeer_def Let_def lo_upap_base lo_fields)

lemma lo_upap_rauthreq: "P w \<Longrightarrow> P (upap_rauthreq (the_auth_hooks pl tab) chk inp idn w)"
  by (auto simp: upap_rauthreq_def the_auth_hooks_def Let_def lo_upap_base lo_fields lo_auth_success lo_auth_fail lo_disarm
      split: upap_server.split option.split prod.split)

lemma lo_upap:
  assumes "P w"
  shows "P (upap_input (the_auth_hooks pl tab) chk p w)" "P (upap_timeout (the_auth_hooks pl tab) w)"
    "P (upap_reqtimeout (the_auth_hooks pl tab) w)" "P (upap_protrej (the_auth_hooks pl tab) w)"
proof -
  have "P (upap_rauthack (the_auth_hooks pl tab) inp w)" "P (upap_rauthnak (the_auth_hooks pl tab) inp w)" for inp
    using assms by (simp_all add: upap_rauthack_def upap_rauthnak_def the_auth_hooks_def lo_fields lo_auth_success lo_auth_fail)
  with assms show "P (upap_input (the_auth_hooks pl tab) chk p w)"
    by (auto simp: upap_input_def Let_def lo_upap_rauthreq split: list.split)
qed (use assms in \<open>simp_all add: upap_timeout_def upap_reqtimeout_def upap_protrej_def the_auth_hooks_def Let_def
    lo_fields lo_auth_fail lo_upap_base lo_auth_down\<close>)

subsection \<open>CHAP\<close>

lemma lo_chap_base:
  "P w \<Longrightarrow> P (ChapGenChallenge w)" "P w \<Longrightarrow> P (ChapSendChallenge w)" "P w \<Longrightarrow> P (ChapSendStatus c w)"
  "P w \<Longrightarrow> P (ChapSendResponse w)"
  by (simp_all add: ChapGenChallenge_def ChapSendChallenge_def ChapSendStatus_def ChapSendResponse_def Let_def
      case_prod_unfold next48_def rand_bytes_world lo_fields lo_arm)

lemma lo_chap_start:
  "P w \<Longrightarrow> P (ChapLowerUp w)" "P w \<Longrightarrow> P (ChapAuthPeer n d w)" "P w \<Longrightarrow> P (ChapAuthWithPeer n d w)"
  by (simp_all add: ChapLowerUp_def ChapAuthPeer_def ChapAuthWithPeer_def Let_def lo_chap_base lo_fields)

lemma lo_chap_receive:
  "P w \<Longrightarrow> P (ChapReceiveChallenge md5 inp idn w)"
  "P w \<Longrightarrow> P (ChapReceiveResponse (the_auth_hooks pl tab) md5 inp idn w)"
  "P w \<Longrightarrow> P (ChapReceiveSuccess (the_auth_hooks pl tab) w)"
  "P w \<Longrightarrow> P (ChapReceiveFailure (the_auth_hooks pl tab) w)"
  by (auto simp: ChapReceiveChallenge_def ChapReceiveResponse_def ChapReceiveSuccess_def ChapReceiveFailure_def
      the_auth_hooks_def Let_def lo_chap_base lo_fields lo_disarm lo_arm lo_auth_success lo_auth_fail split: list.split)

lemma lo_chap:
  assumes "P w"
  shows "P (ChapInput (the_auth_hooks pl tab) md5 p w)" "P (ChapChallengeTimeout (the_auth_hooks pl tab) w)"
    "P (ChapResponseTimeout w)" "P (ChapRechallenge w)" "P (ChapProtocolReject (the_auth_hooks pl tab) w)"
proof -
  show "P (ChapInput (the_auth_hooks pl tab) md5 p w)"
    using assms by (auto simp: ChapInput_def Let_def lo_chap_receive split: list.split)
qed (use assms in \<open>simp_all add: ChapChallengeTimeout_def ChapResponseTimeout_def ChapRechallenge_def
    ChapProtocolReject_def the_auth_hooks_def Let_def lo_fields lo_auth_fail lo_chap_base lo_auth_down\<close>)

subsection \<open>LCP\<close>

lemma lo_established: "P w \<Longrightarrow> P (link_established pl tab w)"
proof -
  have up: "P (fold proto_lowerup tab v)" if "P v" for v
  proof (rule lo_fold [OF _ that])
    show "P (proto_lowerup p u)" if "p \<in> set tab" "P u" for p u
      using that lo_lowerup by (cases "p_lowerup p") (auto simp: proto_lowerup_def)
  qed
  have 1: "P (snd (start_peer_auth v))" if "P v" for v
    using that by (simp add: start_peer_auth_def Let_def lo_chap_start lo_upap_start)
  have 2: "P (snd (start_our_auth pl v))" if "P v" for v
    using that by (auto simp: start_our_auth_def Let_def get_pap_passwd_def lo_chap_start lo_upap_start lo_fields
        split: option.split)
  show "P w \<Longrightarrow> ?thesis"
    by (simp add: link_established_def Let_def case_prod_unfold up 1 2 lo_fields lo_close_link lo_network_phase
        lo_chap_start lo_upap_start)
qed

lemma lo_protrej_entries: "(n, e, p) \<in> set (protrej_entries pl tab) \<Longrightarrow> P w \<Longrightarrow> P (p w)"
  by (auto simp: protrej_entries_def lcp_protrej_def lo_protrej lo_upap lo_chap lk.protreject_keeps)

lemma lo_link_close: "P w \<Longrightarrow> P (lcp_close (the_link_hooks pl tab) r w)"
  using lo_lcp_close [of w pl r] by (simp add: lcp_close_hooks)

lemma lo_echo:
  "P w \<Longrightarrow> P (LcpSendEchoRequest (the_link_hooks pl tab) w)" "P w \<Longrightarrow> P (LcpEchoCheck (the_link_hooks pl tab) w)"
  "P w \<Longrightarrow> P (LcpEchoTimeout (the_link_hooks pl tab) w)" "P w \<Longrightarrow> P (lcp_echo_lowerup (the_link_hooks pl tab) w)"
proof -
  have s: "P v \<Longrightarrow> P (LcpSendEchoRequest (the_link_hooks pl tab) v)" for v
    by (simp add: LcpSendEchoRequest_def LcpLinkFailure_def Let_def lo_fields lo_link_close lk.sdata_keeps)
  then have c: "P v \<Longrightarrow> P (LcpEchoCheck (the_link_hooks pl tab) v)" for v
    by (simp add: LcpEchoCheck_def Let_def lo_fields lo_arm)
  show "P w \<Longrightarrow> P (LcpSendEchoRequest (the_link_hooks pl tab) w)" "P w \<Longrightarrow> P (LcpEchoCheck (the_link_hooks pl tab) w)"
    "P w \<Longrightarrow> P (LcpEchoTimeout (the_link_hooks pl tab) w)" "P w \<Longrightarrow> P (lcp_echo_lowerup (the_link_hooks pl tab) w)"
    by (simp_all add: s c LcpEchoTimeout_def lcp_echo_lowerup_def Let_def lo_fields)
qed

lemma lo_lcp_ci:
  assumes "P w"
  shows "P (lcp_resetci (the_link_hooks pl tab) w)" "P (snd (lcp_nakci (the_link_hooks pl tab) inp w))"
    "P (snd (lcp_rejci inp w))" "P (snd (snd (lcp_reqci inp rej w)))"
proof -
  have m: "P (snd (magic v))" if "P v" for v
    using that by (simp add: magic_def case_prod_unfold Let_def next48_def lo_fields)
  have r: "P (auth_reset pl v)" if "P v" for v
    by (rule auth_reset_world [of pl v]) (simp add: lo_fields that)
  show "P (lcp_resetci (the_link_hooks pl tab) w)"
    using assms by (simp add: lcp_resetci_def case_prod_unfold Let_def link_hooks_simps r m lo_fields)
  show "P (snd (lcp_nakci (the_link_hooks pl tab) inp w))"
    using assms by (simp add: lcp_nakci_def case_prod_unfold Let_def m lo_fields lo_link_close split: option.split prod.split)
qed (use assms in \<open>simp_all add: lcp_rejci_def lcp_reqci_def case_prod_unfold Let_def lo_fields split: option.split\<close>)

lemma lo_lcp_up: "P w \<Longrightarrow> P (lcp_up (the_link_hooks pl tab) w)"
  by (simp add: lcp_up_def Let_def lo_fields lo_echo lo_established link_hooks_simps)

lemma lo_lookup:
  "(\<And>n e p w. (n, e, p) \<in> set ps \<Longrightarrow> P w \<Longrightarrow> P (p w)) \<Longrightarrow> P w \<Longrightarrow> P (protrej_lookup prot ps w)"
  by (induction prot ps w rule: protrej_lookup.induct) auto

lemma lo_lcp_extcode: "P w \<Longrightarrow> P (snd (lcp_extcode (the_link_hooks pl tab) code idn inp w))"
proof -
  assume w: "P w"
  then have "P (protrej_lookup prot (protrej_entries pl tab) w)" for prot
    by (rule lo_lookup [rotated]) (rule lo_protrej_entries)
  then have "P (lcp_rprotrej (the_link_hooks pl tab) inp w)"
    using w by (cases inp; cases "tl inp") (simp_all add: lcp_rprotrej_def link_hooks_simps)
  moreover have "P (lcp_received_echo_reply inp w)"
    using w lo_fields(26) [OF w] by (simp add: lcp_received_echo_reply_def split: list.split)
  ultimately show ?thesis
    using w by (simp add: lcp_extcode_def lk.sdata_keeps)
qed

end

sublocale link_observer_all \<subseteq> lc: fsm_keeps_all P "lcp_callbacks (the_link_hooks pl tab)" LCP_FSM P for pl
  by unfold_locales
    (auto simp: lcp_callbacks_def lo_upd lo_arm lo_disarm lo_fields lo_lcp_ci lo_lcp_up lo_lcp_extcode lo_lcp_down
      lcp_finished_def lcp_starting_def link_required_def link_hooks_simps lcp_cilen_cb_def lcp_addci_cb_def
      lcp_ackci_cb_def)

context link_observer_all
begin

lemma lo_lcp:
  assumes "P w"
  shows "P (lcp_input (the_link_hooks pl tab) p w)" "P (lcp_lowerup (the_link_hooks pl tab) w)"
    "P (lcp_lowerdown (the_link_hooks pl tab) w)" "P (lcp_open (the_link_hooks pl tab) w)"
    "P (lcp_sprotrej p w)" "P (fsm_timeout (lcp_callbacks (the_link_hooks pl tab)) LCP_FSM w)"
  using assms
  by (simp_all add: lcp_input_def lcp_lowerup_def lcp_lowerdown_def lcp_open_def lcp_sprotrej_def Let_def
      lc.input_keeps lc.lowerup_keeps lc.lowerdown_keeps lc.open_keeps lc.timeout_keeps lk.sdata_keeps lo_upd lo_fields)

end

end
