(* ===== verification/Demand.thy ===== *)
theory Demand
  imports Ppp_Main
begin

text \<open>
  Dial on demand (\<^verbatim>\<open>demand.c\<close>): the receiver for the asynchronous framing of the loopback
  (\<^verbatim>\<open>loop_chars\<close>), the decision whether a frame brings the link up and the queue of pending frames
  (\<^verbatim>\<open>loop_frame\<close>, \<^verbatim>\<open>active_packet\<close>), and the retransmission of the queue (\<^verbatim>\<open>demand_rexmit\<close>). \<open>frame\<close> holds
  the first \<^verbatim>\<open>framelen\<close> bytes of the buffer, \<open>pend_q\<close> the data of the packets of the linked list.
  The lemmas show that the table is the CRC of RFC 1662, and that every frame that is sent with
  the escapes and the check sequence of that RFC arrives at \<^verbatim>\<open>loop_frame\<close> as it was sent.
\<close>

section \<open>Definitions\<close>

definition PPP_FLAG :: u8 where [ppp_consts]: "PPP_FLAG = 0x7e"
definition PPP_ESCAPE :: u8 where [ppp_consts]: "PPP_ESCAPE = 0x7d"
definition PPP_TRANS :: u8 where [ppp_consts]: "PPP_TRANS = 0x20"
definition PPP_INITFCS :: "16 word" where [ppp_consts]: "PPP_INITFCS = 0xffff"
definition PPP_GOODFCS :: "16 word" where [ppp_consts]: "PPP_GOODFCS = 0xf0b8"
definition PPP_FCSLEN :: nat where [ppp_consts]: "PPP_FCSLEN = 2"

record demand_state =
  frame :: bytes
  framemax :: nat
  escape_flag :: bool
  flush_flag :: bool
  fcs :: "16 word"
  pend_q :: "bytes list"

definition fcstab :: "16 word list" where
  "fcstab = [
     0x0000, 0x1189, 0x2312, 0x329b, 0x4624, 0x57ad, 0x6536, 0x74bf,
     0x8c48, 0x9dc1, 0xaf5a, 0xbed3, 0xca6c, 0xdbe5, 0xe97e, 0xf8f7,
     0x1081, 0x0108, 0x3393, 0x221a, 0x56a5, 0x472c, 0x75b7, 0x643e,
     0x9cc9, 0x8d40, 0xbfdb, 0xae52, 0xdaed, 0xcb64, 0xf9ff, 0xe876,
     0x2102, 0x308b, 0x0210, 0x1399, 0x6726, 0x76af, 0x4434, 0x55bd,
     0xad4a, 0xbcc3, 0x8e58, 0x9fd1, 0xeb6e, 0xfae7, 0xc87c, 0xd9f5,
     0x3183, 0x200a, 0x1291, 0x0318, 0x77a7, 0x662e, 0x54b5, 0x453c,
     0xbdcb, 0xac42, 0x9ed9, 0x8f50, 0xfbef, 0xea66, 0xd8fd, 0xc974,
     0x4204, 0x538d, 0x6116, 0x709f, 0x0420, 0x15a9, 0x2732, 0x36bb,
     0xce4c, 0xdfc5, 0xed5e, 0xfcd7, 0x8868, 0x99e1, 0xab7a, 0xbaf3,
     0x5285, 0x430c, 0x7197, 0x601e, 0x14a1, 0x0528, 0x37b3, 0x263a,
     0xdecd, 0xcf44, 0xfddf, 0xec56, 0x98e9, 0x8960, 0xbbfb, 0xaa72,
     0x6306, 0x728f, 0x4014, 0x519d, 0x2522, 0x34ab, 0x0630, 0x17b9,
     0xef4e, 0xfec7, 0xcc5c, 0xddd5, 0xa96a, 0xb8e3, 0x8a78, 0x9bf1,
     0x7387, 0x620e, 0x5095, 0x411c, 0x35a3, 0x242a, 0x16b1, 0x0738,
     0xffcf, 0xee46, 0xdcdd, 0xcd54, 0xb9eb, 0xa862, 0x9af9, 0x8b70,
     0x8408, 0x9581, 0xa71a, 0xb693, 0xc22c, 0xd3a5, 0xe13e, 0xf0b7,
     0x0840, 0x19c9, 0x2b52, 0x3adb, 0x4e64, 0x5fed, 0x6d76, 0x7cff,
     0x9489, 0x8500, 0xb79b, 0xa612, 0xd2ad, 0xc324, 0xf1bf, 0xe036,
     0x18c1, 0x0948, 0x3bd3, 0x2a5a, 0x5ee5, 0x4f6c, 0x7df7, 0x6c7e,
     0xa50a, 0xb483, 0x8618, 0x9791, 0xe32e, 0xf2a7, 0xc03c, 0xd1b5,
     0x2942, 0x38cb, 0x0a50, 0x1bd9, 0x6f66, 0x7eef, 0x4c74, 0x5dfd,
     0xb58b, 0xa402, 0x9699, 0x8710, 0xf3af, 0xe226, 0xd0bd, 0xc134,
     0x39c3, 0x284a, 0x1ad1, 0x0b58, 0x7fe7, 0x6e6e, 0x5cf5, 0x4d7c,
     0xc60c, 0xd785, 0xe51e, 0xf497, 0x8028, 0x91a1, 0xa33a, 0xb2b3,
     0x4a44, 0x5bcd, 0x6956, 0x78df, 0x0c60, 0x1de9, 0x2f72, 0x3efb,
     0xd68d, 0xc704, 0xf59f, 0xe416, 0x90a9, 0x8120, 0xb3bb, 0xa232,
     0x5ac5, 0x4b4c, 0x79d7, 0x685e, 0x1ce1, 0x0d68, 0x3ff3, 0x2e7a,
     0xe70e, 0xf687, 0xc41c, 0xd595, 0xa12a, 0xb0a3, 0x8238, 0x93b1,
     0x6b46, 0x7acf, 0x4854, 0x59dd, 0x2d62, 0x3ceb, 0x0e70, 0x1ff9,
     0xf78f, 0xe606, 0xd49d, 0xc514, 0xb1ab, 0xa022, 0x92b9, 0x8330,
     0x7bc7, 0x6a4e, 0x58d5, 0x495c, 0x3de3, 0x2c6a, 0x1ef1, 0x0f78]"

definition PPP_FCS :: "16 word \<Rightarrow> u8 \<Rightarrow> 16 word" where
  "PPP_FCS v c = drop_bit 8 v XOR fcstab ! unat ((v XOR ucast c) AND 0xff)"

text \<open>The part of \<^verbatim>\<open>demand_conf\<close> and \<^verbatim>\<open>demand_discard\<close> that resets the receiver.\<close>

definition demand_reset :: "demand_state \<Rightarrow> demand_state" where
  "demand_reset d = d\<lparr>frame := [], escape_flag := False, flush_flag := False, fcs := PPP_INITFCS\<rparr>"

definition demand_conf_state :: demand_state where
  "demand_conf_state =
     \<lparr>frame = [], framemax = nat PPP_MRU + PPP_HDRLEN + PPP_FCSLEN, escape_flag = False,
      flush_flag = False, fcs = PPP_INITFCS, pend_q = []\<rparr>"

definition demand_discard :: "demand_state \<Rightarrow> demand_state" where
  "demand_discard d = demand_reset (d\<lparr>pend_q := []\<rparr>)"

subsection \<open>Frames\<close>

definition frame_proto :: "bytes \<Rightarrow> int" where
  "frame_proto p = getshort (p ! 2) (p ! 3)"

text \<open>An entry of \<^verbatim>\<open>protocols\<close> here: number, enabled flag, \<^verbatim>\<open>active_pkt\<close>.\<close>

type_synonym active_table = "(int \<times> bool \<times> (bytes \<Rightarrow> bool) option) list"

text \<open>\<^verbatim>\<open>n & ~0x8000\<close> for a protocol number below \<^verbatim>\<open>0x10000\<close>.\<close>

definition data_proto :: "int \<Rightarrow> int" where
  "data_proto n = (if n \<ge> 0x8000 then n - 0x8000 else n)"

fun active_lookup :: "active_table \<Rightarrow> bytes \<Rightarrow> bool" where
  "active_lookup [] p = False"
| "active_lookup ((n, enabled, act) # ps) p =
     (if n < 0xC000 \<and> data_proto n = frame_proto p
      then enabled \<and> (case act of None \<Rightarrow> True | Some f \<Rightarrow> f p)
      else active_lookup ps p)"

definition active_packet :: "active_table \<Rightarrow> bytes \<Rightarrow> bool" where
  "active_packet tab p \<longleftrightarrow> PPP_HDRLEN \<le> length p \<and> active_lookup tab p"

text \<open>\<open>mem\<close> says whether \<^verbatim>\<open>malloc\<close> finds room for the packet.\<close>

definition loop_frame :: "active_table \<Rightarrow> bool \<Rightarrow> bytes \<Rightarrow> demand_state \<Rightarrow> bool \<times> demand_state" where
  "loop_frame tab mem p d =
     (if length p < PPP_HDRLEN then (False, d)
      else if frame_proto p \<ge> 0x8000 then (False, d)
      else if \<not> active_packet tab p then (False, d)
      else (True, if mem then d\<lparr>pend_q := pend_q d @ [p]\<rparr> else d))"

fun loop_chars :: "active_table \<Rightarrow> bool \<Rightarrow> bytes \<Rightarrow> demand_state \<Rightarrow> bool \<times> demand_state" where
  "loop_chars tab mem [] d = (False, d)"
| "loop_chars tab mem (c # p) d =
     (if c = PPP_FLAG then
        (let (up, d) =
               (if \<not> escape_flag d \<and> \<not> flush_flag d \<and> length (frame d) > 2 \<and> fcs d = PPP_GOODFCS
                then loop_frame tab mem (take (length (frame d) - 2) (frame d)) d else (False, d));
             (rv, d) = loop_chars tab mem p (demand_reset d)
         in (up \<or> rv, d))
      else if flush_flag d then loop_chars tab mem p d
      else if \<not> escape_flag d \<and> c = PPP_ESCAPE then loop_chars tab mem p (d\<lparr>escape_flag := True\<rparr>)
      else
        (let c = (if escape_flag d then c XOR PPP_TRANS else c);
             d = d\<lparr>escape_flag := False\<rparr>
         in if length (frame d) \<ge> framemax d then loop_chars tab mem p (d\<lparr>flush_flag := True\<rparr>)
            else loop_chars tab mem p (d\<lparr>frame := frame d @ [c], fcs := PPP_FCS (fcs d) c\<rparr>)))"

text \<open>The loop of \<^verbatim>\<open>demand_rexmit\<close>: the frames that are sent, and those that stay queued.\<close>

fun rexmit_split :: "int \<Rightarrow> bytes list \<Rightarrow> bytes list \<times> bytes list" where
  "rexmit_split proto [] = ([], [])"
| "rexmit_split proto (p # ps) =
     (let (sent, kept) = rexmit_split proto ps
      in if frame_proto p = proto then (p # sent, kept) else (sent, p # kept))"

subsection \<open>Transmission as in RFC 1662\<close>

text \<open>The CRC, one bit at a time, and a frame with its check sequence and escapes.\<close>

definition fcs_bit :: "16 word \<Rightarrow> 16 word" where
  "fcs_bit v = (if bit v 0 then drop_bit 1 v XOR 0x8408 else drop_bit 1 v)"

definition fcs_of :: "bytes \<Rightarrow> 16 word" where
  "fcs_of p = fold (\<lambda>c v. PPP_FCS v c) p PPP_INITFCS"

definition with_fcs :: "bytes \<Rightarrow> bytes" where
  "with_fcs p = p @ [ucast (NOT (fcs_of p)), ucast (drop_bit 8 (NOT (fcs_of p)))]"

definition stuff :: "(u8 \<Rightarrow> bool) \<Rightarrow> bytes \<Rightarrow> bytes" where
  "stuff esc p = concat (map (\<lambda>c. if esc c then [PPP_ESCAPE, c XOR PPP_TRANS] else [c]) p)"

definition esc_ok :: "(u8 \<Rightarrow> bool) \<Rightarrow> bool" where
  "esc_ok esc \<longleftrightarrow> esc PPP_FLAG \<and> esc PPP_ESCAPE \<and> \<not> esc (PPP_FLAG XOR PPP_TRANS)"

text \<open>One more bit of the index: the second half of a table of a linear function.\<close>

definition fcs_double :: "16 word \<Rightarrow> 16 word list \<Rightarrow> 16 word list" where
  "fcs_double b xs = xs @ map (\<lambda>x. x XOR b) xs"

section \<open>The check sequence\<close>

lemma fcs_bit_xor: "fcs_bit (u XOR v) = fcs_bit u XOR fcs_bit v"
  by (rule bit_word_eqI) (auto simp: fcs_bit_def bit_simps)

lemma fcs_byte_xor: "(fcs_bit ^^ n) (u XOR v) = (fcs_bit ^^ n) u XOR (fcs_bit ^^ n) v"
  by (induction n) (simp_all add: fcs_bit_xor)

lemma length_fcstab: "length fcstab = 256"
  by (simp add: fcstab_def)

lemma funpow8: "(f ^^ 8) x = f (f (f (f (f (f (f (f x)))))))"
  by (simp add: eval_nat_numeral)

lemma fcs_basis:
  "(fcs_bit ^^ 8) 0 = 0" "(fcs_bit ^^ 8) 1 = 0x1189" "(fcs_bit ^^ 8) 2 = 0x2312"
  "(fcs_bit ^^ 8) 4 = 0x4624" "(fcs_bit ^^ 8) 8 = 0x8c48" "(fcs_bit ^^ 8) 16 = 0x1081"
  "(fcs_bit ^^ 8) 32 = 0x2102" "(fcs_bit ^^ 8) 64 = 0x4204" "(fcs_bit ^^ 8) 128 = 0x8408"
  by (simp_all add: funpow8 fcs_bit_def)

lemma fcstab_double:
  "fcstab = fcs_double 0x8408 (fcs_double 0x4204 (fcs_double 0x2102 (fcs_double 0x1081
     (fcs_double 0x8c48 (fcs_double 0x4624 (fcs_double 0x2312 (fcs_double 0x1189 [0])))))))"
  by (simp add: fcstab_def fcs_double_def)

lemma word_add_pow:
  assumes "n < 2 ^ k"
  shows "(word_of_nat n + 2 ^ k :: 16 word) = word_of_nat n XOR 2 ^ k"
proof -
  have "take_bit k n = n"
    using assms by (simp add: take_bit_nat_eq_self)
  then have "n AND 2 ^ k = 0"
    by (intro bit_eqI) (metis bit_0_eq bot_apply bot_bool_def bit_and_iff bit_exp_iff bit_take_bit_iff less_irrefl)
  then have "n + 2 ^ k = n XOR 2 ^ k"
    by (rule disjunctive_add_eq_xor)
  then have "(word_of_nat (n + 2 ^ k) :: 16 word) = word_of_nat (n XOR 2 ^ k)"
    by (rule arg_cong)
  then show ?thesis
    by (simp add: of_nat_xor_eq)
qed

lemma fcs_double_table:
  "fcs_double ((fcs_bit ^^ 8) (2 ^ k)) (map (\<lambda>n. (fcs_bit ^^ 8) (word_of_nat n)) [0..<2 ^ k]) =
     map (\<lambda>n. (fcs_bit ^^ 8) (word_of_nat n)) [0..<2 ^ Suc k]"
proof -
  have "map (\<lambda>n. (fcs_bit ^^ 8) (word_of_nat n) XOR (fcs_bit ^^ 8) (2 ^ k)) [0..<2 ^ k] =
      map (\<lambda>n. (fcs_bit ^^ 8) (word_of_nat (n + 2 ^ k))) [0..<2 ^ k]"
    by (simp add: word_add_pow fcs_byte_xor)
  also have "\<dots> = map (\<lambda>n. (fcs_bit ^^ 8) (word_of_nat n)) (map (\<lambda>n. n + 2 ^ k) [0..<2 ^ k])"
    by (simp only: map_map comp_def)
  also have "map (\<lambda>n. n + 2 ^ k) [0..<2 ^ k] = [2 ^ k..<2 ^ k + 2 ^ k]"
    by (simp add: map_add_upt)
  finally show ?thesis
    unfolding fcs_double_def map_map comp_def
    by (simp only: map_append [symmetric] upt_add_eq_append [of 0, symmetric] power_Suc mult_2 le0)
qed

text \<open>The table holds the CRC of each byte.\<close>

lemma fcstab_bits: "fcstab = map (\<lambda>n. (fcs_bit ^^ 8) (word_of_nat n)) [0..<256]"
proof -
  define T where "T k = map (\<lambda>n. (fcs_bit ^^ 8) (word_of_nat n :: 16 word)) [0..<2 ^ k]" for k :: nat
  have "fcs_double ((fcs_bit ^^ 8) (2 ^ k)) (T k) = T (Suc k)" for k
    unfolding T_def by (rule fcs_double_table)
  note T = this [of 0] this [of 1] this [of 2] this [of 3] this [of 4] this [of 5] this [of 6] this [of 7]
  have "[0] = T 0"
    by (simp add: T_def fcs_basis)
  then have "fcstab = T 8"
    using T by (simp add: fcstab_double fcs_basis numeral_2_eq_2 [symmetric])
  then show ?thesis by (simp add: T_def)
qed

lemma fcs_bits_low: "take_bit n x = 0 \<Longrightarrow> (fcs_bit ^^ n) x = drop_bit n x"
proof (induction n)
  case (Suc n)
  then have "\<not> bit x n" and "take_bit n x = 0"
    by (metis bit_0_eq bit_take_bit_iff bot_apply bot_bool_def lessI)
       (metis Suc.prems le_SucI order_refl min.absorb1 take_bit_of_0 take_bit_take_bit)
  with Suc.IH show ?case
    by (simp add: fcs_bit_def bit_drop_bit_eq drop_bit_Suc drop_bit_half)
qed simp

lemma ff_mask: "(0xff :: 16 word) = mask 8"
  by (simp add: mask_eq_exp_minus_1)

text \<open>One step of the table-driven computation is eight steps of the bitwise one.\<close>

lemma PPP_FCS_bits: "PPP_FCS v c = (fcs_bit ^^ 8) (v XOR ucast c)"
proof -
  define x where "x = v XOR ucast c"
  have x: "x = push_bit 8 (drop_bit 8 x) XOR take_bit 8 x"
    by (rule bit_word_eqI) (auto simp: bit_simps)
  have "(fcs_bit ^^ 8) (push_bit 8 (drop_bit 8 x)) = drop_bit 8 (push_bit 8 (drop_bit 8 x))"
    by (rule fcs_bits_low) (rule bit_word_eqI, simp add: bit_simps)
  also have "\<dots> = drop_bit 8 v"
    unfolding x_def by (rule bit_word_eqI) (auto simp: bit_simps bit_u8_beyond dest: bit_imp_le_length)
  finally have "(fcs_bit ^^ 8) x = drop_bit 8 v XOR (fcs_bit ^^ 8) (take_bit 8 x)"
    by (subst x) (simp only: fcs_byte_xor)
  moreover have "x AND 0xff = take_bit 8 x"
    by (simp add: take_bit_eq_mask mask_eq_exp_minus_1)
  moreover have "unat (take_bit 8 x) < 256"
    by (simp add: unsigned_take_bit_eq take_bit_nat_less_exp [of 8, simplified])
  ultimately show ?thesis
    by (simp add: PPP_FCS_def x_def [symmetric] fcstab_bits)
qed

text \<open>A frame that carries the complement of its check sequence leaves the constant residue.\<close>

lemma PPP_FCS_trailer:
  "PPP_FCS (PPP_FCS v (ucast (NOT v))) (ucast (drop_bit 8 (NOT v))) = PPP_GOODFCS"
proof -
  define u where "u = drop_bit 8 v"
  have nth: "fcstab ! 255 = 0x0f78" "fcstab ! 135 = 0xf0b7"
    by (simp_all add: fcstab_def)
  have "(v XOR ucast (ucast (NOT v) :: u8)) AND 0xff = 0xff"
    unfolding ff_mask by (rule bit_word_eqI) (auto simp: bit_simps)
  then have 1: "PPP_FCS v (ucast (NOT v)) = u XOR 0x0f78"
    by (simp add: PPP_FCS_def u_def nth)
  have u: "drop_bit 8 u = 0"
    unfolding u_def by (rule bit_word_eqI) (auto simp: bit_simps dest: bit_imp_le_length)
  have "((u XOR 0x0f78) XOR ucast (ucast (drop_bit 8 (NOT v)) :: u8)) AND 0xff = (0x0f78 XOR 0xff) AND 0xff"
    unfolding u_def ff_mask by (rule bit_word_eqI) (auto simp: bit_simps)
  then show ?thesis
    by (simp add: 1 PPP_FCS_def [of "u XOR 0x0f78"] u nth PPP_GOODFCS_def)
qed

lemma fcs_of_with_fcs: "fcs_of (with_fcs p) = PPP_GOODFCS"
  by (simp add: fcs_of_def with_fcs_def PPP_FCS_trailer)

section \<open>The receiver\<close>

text \<open>The receiver on an escaped piece of a frame.\<close>

lemma loop_chars_stuff:
  assumes "esc_ok esc" and "\<not> escape_flag d" and "\<not> flush_flag d"
    and "length (frame d) + length p \<le> framemax d"
  shows "loop_chars tab mem (stuff esc p @ rest) d =
     loop_chars tab mem rest
       (d\<lparr>frame := frame d @ p, fcs := fold (\<lambda>c v. PPP_FCS v c) p (fcs d)\<rparr>)"
  using assms
proof (induction p arbitrary: d)
  case Nil
  then show ?case by (simp add: stuff_def)
next
  case (Cons c p)
  define d' where "d' = d\<lparr>frame := frame d @ [c], fcs := PPP_FCS (fcs d) c\<rparr>"
  have clr: "d\<lparr>escape_flag := False\<rparr> = d"
    using Cons.prems by simp
  have esc: "c XOR PPP_TRANS \<noteq> PPP_FLAG" if "esc c"
  proof
    assume "c XOR PPP_TRANS = PPP_FLAG"
    then have "c = PPP_FLAG XOR PPP_TRANS"
      by (metis xor.assoc xor.right_neutral xor_self_eq)
    with that Cons.prems(1) show False by (simp add: esc_ok_def)
  qed
  have noesc: "c \<noteq> PPP_FLAG \<and> c \<noteq> PPP_ESCAPE" if "\<not> esc c"
    using that Cons.prems(1) by (auto simp: esc_ok_def)
  have invol: "(c XOR PPP_TRANS) XOR PPP_TRANS = c"
    by (simp add: xor.assoc)
  have fe: "PPP_ESCAPE \<noteq> PPP_FLAG"
    by (simp add: ppp_consts)
  have "loop_chars tab mem ((if esc c then [PPP_ESCAPE, c XOR PPP_TRANS] else [c]) @ r) d =
      loop_chars tab mem r d'" for r
    using Cons.prems esc noesc invol fe by (auto simp: d'_def Let_def clr)
  then have "loop_chars tab mem (stuff esc (c # p) @ rest) d = loop_chars tab mem (stuff esc p @ rest) d'"
    by (simp add: stuff_def)
  also have "\<dots> = loop_chars tab mem rest
      (d'\<lparr>frame := frame d' @ p, fcs := fold (\<lambda>c v. PPP_FCS v c) p (fcs d')\<rparr>)"
    using Cons.prems by (intro Cons.IH) (auto simp: d'_def)
  finally show ?case by (simp add: d'_def)
qed

text \<open>Whatever came before, a flag resets the receiver; the next frame is then received as sent.\<close>

lemma loop_chars_frame:
  assumes "esc_ok esc" and "p \<noteq> []" and "length p + 2 \<le> framemax d"
  shows "loop_chars tab mem (stuff esc (with_fcs p) @ PPP_FLAG # rest) (demand_reset d) =
     (let (up, d') = loop_frame tab mem p (demand_reset d);
          (rv, d'') = loop_chars tab mem rest (demand_reset d')
      in (up \<or> rv, d''))"
proof -
  define e where "e = (demand_reset d)\<lparr>frame := with_fcs p, fcs := PPP_GOODFCS\<rparr>"
  have "loop_chars tab mem (stuff esc (with_fcs p) @ PPP_FLAG # rest) (demand_reset d) =
      loop_chars tab mem (PPP_FLAG # rest) e"
    using assms fcs_of_with_fcs [of p]
    by (subst loop_chars_stuff) (simp_all add: demand_reset_def e_def with_fcs_def fcs_of_def)
  moreover have "take (length (frame e) - 2) (frame e) = p" "length (frame e) > 2"
    "\<not> escape_flag e" "\<not> flush_flag e" "fcs e = PPP_GOODFCS"
    using assms by (simp_all add: e_def with_fcs_def demand_reset_def)
  moreover have "map_prod (\<lambda>b. b) demand_reset (loop_frame tab mem p e) =
      map_prod (\<lambda>b. b) demand_reset (loop_frame tab mem p (demand_reset d))"
    by (simp add: loop_frame_def e_def demand_reset_def)
  ultimately show ?thesis
    by (auto simp: Let_def split: prod.split)
qed

section \<open>The pending queue\<close>

lemma rexmit_split_filter:
  "rexmit_split proto ps = (filter (\<lambda>p. frame_proto p = proto) ps, filter (\<lambda>p. frame_proto p \<noteq> proto) ps)"
  by (induction ps) (auto simp: Let_def)

text \<open>The frame buffer is never overrun.\<close>

lemma loop_chars_bound:
  "length (frame d) \<le> framemax d \<Longrightarrow> loop_chars tab mem p d = (rv, d') \<Longrightarrow>
   length (frame d') \<le> framemax d' \<and> framemax d' = framemax d"
proof (induction p arbitrary: d rv)
  case (Cons c p)
  have lf: "framemax (snd (loop_frame tab mem q e)) = framemax e" for q e
    by (simp add: loop_frame_def)
  from Cons.prems show ?case
    by (auto simp: Let_def demand_reset_def split: if_splits prod.splits dest!: Cons.IH [rotated])
       (metis lf snd_conv)+
qed simp

text \<open>Every queued frame has at least a PPP header and is a network packet.\<close>

lemma loop_frame_queue:
  assumes "loop_frame tab mem p d = (up, d')" and "q \<in> set (pend_q d')" and "q \<notin> set (pend_q d)"
  shows "q = p \<and> up \<and> PPP_HDRLEN \<le> length q \<and> frame_proto q < 0x8000 \<and> active_packet tab q"
  using assms by (auto simp: loop_frame_def split: if_splits)

end
