(* ===== verification/Sys_Rtems.thy ===== *)
theory Sys_Rtems
  imports Auth Demand
begin

text \<open>
  The system-dependent part (\<^verbatim>\<open>sys-rtems.c\<close>) that the network protocols use: interface flags,
  addresses, routes, proxy ARP entries and the mode of the network protocol. The kernel is part of
  the state: \<open>w_ioctl\<close> lists the results of the successive system calls, \<open>ioctls\<close> is the sequence of
  requests, \<open>w_scflags\<close> the flags that \<^verbatim>\<open>PPPIOCGFLAGS\<close> would report at each call, \<open>w_ifconf\<close> the answer to \<^verbatim>\<open>SIOCGIFCONF\<close> with the flags and the netmask the kernel reports
  for each entry. Addresses are in host byte order, as in \<^verbatim>\<open>Ipcp_Options\<close>.
\<close>

section \<open>Definitions\<close>

datatype io_result = Io_ok | Io_eaddrnotavail | Io_eexist | Io_enobufs | Io_error

datatype npmode = NPMODE_PASS | NPMODE_DROP | NPMODE_ERROR | NPMODE_QUEUE

datatype ioctl_call =
    PPPIOCGFLAGS | PPPIOCSFLAGS u32 | PPPIOCSMAXCID int | PPPIOCSCOMPRESS bytes bool
  | SIOCGIFFLAGS | SIOCSIFFLAGS bool | PPPIOCSNPMODE npmode
  | SIOCDIFADDR "(u32 \<times> u32) option" | SIOCAIFADDR u32 u32 u32
  | RTM_ADD_DEFAULT u32 | RTM_DELETE_DEFAULT
  | ROUTE_SOCKET | RTM_ADD_ARP u32 | RTM_DELETE_ARP u32

datatype if_addr = Link | Inet u32

record if_entry =
  ife_name :: string
  ife_addr :: if_addr
  ife_flags :: "u32 option"
  ife_netmask :: "u32 option"

record sys_world = chap_world +
  w_ioctl :: "nat \<Rightarrow> io_result"
  w_ioctl_idx :: nat
  w_scflags :: "nat \<Rightarrow> u32"
  w_ifconf :: "if_entry list option"
  ioctls :: "ioctl_call list"
  if_is_up :: bool
  ifaddrs :: "u32 \<times> u32"
  default_route_gateway :: u32
  proxy_arp_addr :: u32
  arpmsg_valid :: bool
  arpmsg_dst :: u32
  netmask :: u32
  dmd :: demand_state

definition ioctl :: "ioctl_call \<Rightarrow> 'a sys_world_scheme \<Rightarrow> io_result \<times> 'a sys_world_scheme" where
  "ioctl c w =
     (w_ioctl w (w_ioctl_idx w), w\<lparr>w_ioctl_idx := Suc (w_ioctl_idx w), ioctls := ioctls w @ [c]\<rparr>)"

definition SC_COMP_TCP :: u32 where [ppp_consts]: "SC_COMP_TCP = 0x4"
definition SC_NO_TCP_CCID :: u32 where [ppp_consts]: "SC_NO_TCP_CCID = 0x8"
definition SC_CCP_OPEN :: u32 where [ppp_consts]: "SC_CCP_OPEN = 0x40"
definition SC_CCP_UP :: u32 where [ppp_consts]: "SC_CCP_UP = 0x80"
definition SC_DC_FERROR :: u32 where [ppp_consts]: "SC_DC_FERROR = 0x8000"

text \<open>\<^verbatim>\<open>ioctl(ppp_fd, PPPIOCGFLAGS, &x)\<close>: the flags, unless the call fails.\<close>

definition get_scflags :: "'a sys_world_scheme \<Rightarrow> u32 option \<times> 'a sys_world_scheme" where
  "get_scflags w =
     (let x = w_scflags w (w_ioctl_idx w); (r, w) = ioctl PPPIOCGFLAGS w
      in (if r = Io_ok then Some x else None, w))"

definition set_bits :: "bool \<Rightarrow> u32 \<Rightarrow> u32 \<Rightarrow> u32" where
  "set_bits b m x = (if b then x OR m else x AND NOT m)"

definition sifvjcomp ::
  "bool \<Rightarrow> bool \<Rightarrow> int \<Rightarrow> 'a sys_world_scheme \<Rightarrow> bool \<times> 'a sys_world_scheme" where
  "sifvjcomp vjcomp cidcomp maxcid w =
     (case get_scflags w of
        (None, w) \<Rightarrow> (False, w)
      | (Some x, w) \<Rightarrow>
          (let x = set_bits (\<not> cidcomp) SC_NO_TCP_CCID (set_bits vjcomp SC_COMP_TCP x);
               (r, w) = ioctl (PPPIOCSFLAGS x) w
           in if r \<noteq> Io_ok then (False, w)
              else if vjcomp then
                (let (r, w) = ioctl (PPPIOCSMAXCID maxcid) w in (r = Io_ok, w))
              else (True, w)))"

text \<open>\<^verbatim>\<open>ccp_test\<close>: 1, 0 or -1; \<^verbatim>\<open>ccp_flags_set\<close>; \<^verbatim>\<open>ccp_fatal_error\<close>.\<close>

definition ccp_test :: "bytes \<Rightarrow> bool \<Rightarrow> 'a sys_world_scheme \<Rightarrow> int \<times> 'a sys_world_scheme" where
  "ccp_test opt for_transmit w =
     (let (r, w) = ioctl (PPPIOCSCOMPRESS opt for_transmit) w
      in (if r = Io_ok then 1 else if r = Io_enobufs then 0 else -1, w))"

definition ccp_flags_set :: "bool \<Rightarrow> bool \<Rightarrow> 'a sys_world_scheme \<Rightarrow> 'a sys_world_scheme" where
  "ccp_flags_set isopen isup w =
     (case get_scflags w of
        (None, w) \<Rightarrow> w
      | (Some x, w) \<Rightarrow>
          snd (ioctl (PPPIOCSFLAGS (set_bits isup SC_CCP_UP (set_bits isopen SC_CCP_OPEN x))) w))"

definition ccp_fatal_error :: "'a sys_world_scheme \<Rightarrow> bool \<times> 'a sys_world_scheme" where
  "ccp_fatal_error w =
     (case get_scflags w of (None, w) \<Rightarrow> (False, w) | (Some x, w) \<Rightarrow> (x AND SC_DC_FERROR \<noteq> 0, w))"

definition sifup :: "'a sys_world_scheme \<Rightarrow> bool \<times> 'a sys_world_scheme" where
  "sifup w =
     (let (r, w) = ioctl SIOCGIFFLAGS w in
      if r \<noteq> Io_ok then (False, w)
      else
        (let (r, w) = ioctl (SIOCSIFFLAGS True) w in
         if r \<noteq> Io_ok then (False, w) else (True, w\<lparr>if_is_up := True\<rparr>)))"

definition sifnpmode :: "npmode \<Rightarrow> 'a sys_world_scheme \<Rightarrow> bool \<times> 'a sys_world_scheme" where
  "sifnpmode mode w = (let (r, w) = ioctl (PPPIOCSNPMODE mode) w in (r = Io_ok, w))"

definition sifdown :: "'a sys_world_scheme \<Rightarrow> bool \<times> 'a sys_world_scheme" where
  "sifdown w =
     (let (_, w) = ioctl (PPPIOCSNPMODE NPMODE_ERROR) w;
          (r, w) = ioctl SIOCGIFFLAGS w
      in if r \<noteq> Io_ok then (False, w)
         else
           (let (r, w) = ioctl (SIOCSIFFLAGS False) w in
            if r \<noteq> Io_ok then (False, w) else (True, w\<lparr>if_is_up := False\<rparr>)))"

text \<open>An address that exists already counts as set.\<close>

definition sifaddr ::
  "u32 \<Rightarrow> u32 \<Rightarrow> u32 \<Rightarrow> 'a sys_world_scheme \<Rightarrow> bool \<times> 'a sys_world_scheme" where
  "sifaddr ouraddr hisaddr m w =
     (let (_, w) = ioctl (SIOCDIFADDR None) w;
          (r, w) = ioctl (SIOCAIFADDR ouraddr hisaddr m) w
      in if r \<noteq> Io_ok \<and> r \<noteq> Io_eexist then (False, w)
         else (True, w\<lparr>ifaddrs := (ouraddr, hisaddr)\<rparr>))"

definition cifaddr :: "u32 \<Rightarrow> u32 \<Rightarrow> 'a sys_world_scheme \<Rightarrow> bool \<times> 'a sys_world_scheme" where
  "cifaddr ouraddr hisaddr w =
     (let (r, w) = ioctl (SIOCDIFADDR (Some (ouraddr, hisaddr))) (w\<lparr>ifaddrs := (0, snd (ifaddrs w))\<rparr>)
      in (r = Io_ok, w))"

text \<open>\<^verbatim>\<open>dodefaultroute\<close> with \<^verbatim>\<open>'s'\<close> and \<^verbatim>\<open>'c'\<close>; the result of the routing request is not looked at.\<close>

definition dodefaultroute :: "u32 \<Rightarrow> bool \<Rightarrow> 'a sys_world_scheme \<Rightarrow> bool \<times> 'a sys_world_scheme" where
  "dodefaultroute g setit w =
     (let (_, w) = ioctl (if setit then RTM_ADD_DEFAULT g else RTM_DELETE_DEFAULT) w
      in (True, w\<lparr>default_route_gateway := (if setit then g else 0)\<rparr>))"

definition sifdefaultroute :: "u32 \<Rightarrow> u32 \<Rightarrow> 'a sys_world_scheme \<Rightarrow> bool \<times> 'a sys_world_scheme" where
  "sifdefaultroute l g = dodefaultroute g True"

definition cifdefaultroute :: "u32 \<Rightarrow> u32 \<Rightarrow> 'a sys_world_scheme \<Rightarrow> bool \<times> 'a sys_world_scheme" where
  "cifdefaultroute l g = dodefaultroute g False"

subsection \<open>Interfaces of the system\<close>

definition IFF_UP :: u32 where [ppp_consts]: "IFF_UP = 0x1"
definition IFF_BROADCAST :: u32 where [ppp_consts]: "IFF_BROADCAST = 0x2"
definition IFF_LOOPBACK :: u32 where [ppp_consts]: "IFF_LOOPBACK = 0x8"
definition IFF_POINTOPOINT :: u32 where [ppp_consts]: "IFF_POINTOPOINT = 0x10"
definition IFF_NOARP :: u32 where [ppp_consts]: "IFF_NOARP = 0x80"

text \<open>The test of the first loop of \<^verbatim>\<open>get_ether_addr\<close> on one entry, and the two loops.\<close>

definition ether_candidate :: "u32 \<Rightarrow> if_entry \<Rightarrow> bool" where
  "ether_candidate ipaddr e =
     (case (ife_addr e, ife_flags e, ife_netmask e) of
        (Inet ina, Some fl, Some msk) \<Rightarrow>
          fl AND (IFF_UP OR IFF_BROADCAST OR IFF_POINTOPOINT OR IFF_LOOPBACK OR IFF_NOARP) =
            IFF_UP OR IFF_BROADCAST \<and>
          ipaddr AND msk = ina AND msk
      | _ \<Rightarrow> False)"

definition get_ether_addr :: "u32 \<Rightarrow> if_entry list option \<Rightarrow> bool" where
  "get_ether_addr ipaddr conf =
     (case conf of
        None \<Rightarrow> False
      | Some es \<Rightarrow>
          (case find (ether_candidate ipaddr) es of
             None \<Rightarrow> False
           | Some ifp \<Rightarrow> find (\<lambda>e. ife_name e = ife_name ifp \<and> ife_addr e = Link) es \<noteq> None))"

definition sifproxyarp :: "u32 \<Rightarrow> 'a sys_world_scheme \<Rightarrow> bool \<times> 'a sys_world_scheme" where
  "sifproxyarp hisaddr w =
     (if \<not> get_ether_addr hisaddr (w_ifconf w) then (False, w)
      else
        (let (r, w) = ioctl ROUTE_SOCKET w in
         if r \<noteq> Io_ok then (False, w)
         else
           (let (r, w) = ioctl (RTM_ADD_ARP hisaddr) (w\<lparr>arpmsg_dst := hisaddr\<rparr>) in
            if r \<noteq> Io_ok then (False, w)
            else (True, w\<lparr>arpmsg_valid := True, proxy_arp_addr := hisaddr\<rparr>))))"

definition cifproxyarp :: "u32 \<Rightarrow> 'a sys_world_scheme \<Rightarrow> bool \<times> 'a sys_world_scheme" where
  "cifproxyarp hisaddr w =
     (if \<not> arpmsg_valid w then (False, w)
      else
        (let (r, w) = ioctl ROUTE_SOCKET (w\<lparr>arpmsg_valid := False\<rparr>) in
         if r \<noteq> Io_ok then (False, w)
         else
           (let (r, w) = ioctl (RTM_DELETE_ARP (arpmsg_dst w)) w in
            if r \<noteq> Io_ok then (False, w) else (True, w\<lparr>proxy_arp_addr := 0\<rparr>))))"

definition class_mask :: "u32 \<Rightarrow> u32" where
  "class_mask addr =
     (if addr AND 0x80000000 = 0 then 0xff000000
      else if addr AND 0xc0000000 = 0x80000000 then 0xffff0000 else 0xffffff00)"

definition mask_candidate :: "u32 \<Rightarrow> if_entry \<Rightarrow> u32" where
  "mask_candidate addr e =
     (case (ife_addr e, ife_flags e, ife_netmask e) of
        (Inet ina, Some fl, Some msk) \<Rightarrow>
          if ina AND class_mask addr = addr AND class_mask addr \<and>
             fl AND (IFF_UP OR IFF_POINTOPOINT OR IFF_LOOPBACK) = IFF_UP
          then msk else 0
      | _ \<Rightarrow> 0)"

definition GetMask :: "u32 \<Rightarrow> 'a sys_world_scheme \<Rightarrow> u32" where
  "GetMask addr w =
     (let msk = netmask w OR class_mask addr in
      case w_ifconf w of
        None \<Rightarrow> msk
      | Some es \<Rightarrow> fold (\<lambda>e m. m OR mask_candidate addr e) es msk)"

subsection \<open>Cleanup and the pending queue\<close>

text \<open>\<^verbatim>\<open>sys_cleanup\<close>; \<open>up\<close> is the \<^verbatim>\<open>IFF_UP\<close> bit the kernel reports.\<close>

definition sys_cleanup :: "bool \<Rightarrow> 'a sys_world_scheme \<Rightarrow> 'a sys_world_scheme" where
  "sys_cleanup up w =
     (let w = (if if_is_up w then
                 (let (r, w) = ioctl SIOCGIFFLAGS w in
                  if r = Io_ok \<and> up then snd (ioctl (SIOCSIFFLAGS False) w) else w)
               else w);
          w = (if fst (ifaddrs w) \<noteq> 0 then snd (cifaddr (fst (ifaddrs w)) (snd (ifaddrs w)) w) else w);
          w = (if default_route_gateway w \<noteq> 0
               then snd (cifdefaultroute 0 (default_route_gateway w) w) else w)
      in if proxy_arp_addr w \<noteq> 0 then snd (cifproxyarp (proxy_arp_addr w) w) else w)"

definition PPP_IP :: int where [ppp_consts]: "PPP_IP = 0x21"

text \<open>\<^verbatim>\<open>output\<close> of a frame from the queue, and \<^verbatim>\<open>demand_rexmit\<close>.\<close>

definition output_frame :: "bytes \<Rightarrow> 'a sys_world_scheme \<Rightarrow> 'a sys_world_scheme" where
  "output_frame p w = w\<lparr>outq := outq w @ [(0, p)]\<rparr>"

definition demand_rexmit :: "int \<Rightarrow> 'a sys_world_scheme \<Rightarrow> 'a sys_world_scheme" where
  "demand_rexmit proto w =
     (let (sent, kept) = rexmit_split proto (pend_q (dmd w))
      in (fold output_frame sent w)\<lparr>dmd := (dmd w)\<lparr>pend_q := kept\<rparr>\<rparr>)"

text \<open>What the calls leave alone: everything but the fields of \<open>sys_world\<close>.\<close>

definition sys_step :: "'a sys_world_scheme \<Rightarrow> 'a sys_world_scheme \<Rightarrow> bool" where
  "sys_step w w' \<longleftrightarrow> chap_world.truncate w' = chap_world.truncate w \<and> sys_world.more w' = sys_world.more w"

section \<open>Lemmas\<close>

lemma fold_output_frame:
  "fold output_frame ps w = w\<lparr>outq := outq w @ map (\<lambda>p. (0, p)) ps\<rparr>"
  by (induction ps arbitrary: w) (simp_all add: output_frame_def)

lemma demand_rexmit_world:
  "demand_rexmit proto w =
     w\<lparr>outq := outq w @ map (\<lambda>p. (0, p)) (filter (\<lambda>p. frame_proto p = proto) (pend_q (dmd w))),
       dmd := (dmd w)\<lparr>pend_q := filter (\<lambda>p. frame_proto p \<noteq> proto) (pend_q (dmd w))\<rparr>\<rparr>"
  by (simp add: demand_rexmit_def rexmit_split_filter fold_output_frame)

lemma sys_step_trans [trans]: "sys_step u v \<Longrightarrow> sys_step v w \<Longrightarrow> sys_step u w"
  by (simp add: sys_step_def)

lemma sys_step_refl [simp]: "sys_step w w"
  by (simp add: sys_step_def)

lemma sys_step_scflags: "get_scflags w = (r, w') \<Longrightarrow> sys_step w w'"
  by (auto simp: sys_step_def get_scflags_def ioctl_def Let_def chap_world.truncate_def)

lemma sys_step_ioctl: "sys_step w (snd (ioctl c w))"
  by (simp add: sys_step_def ioctl_def chap_world.truncate_def)

lemma sys_step_calls [simp]:
  "sys_step w (snd (sifvjcomp v c n w))" "sys_step w (snd (sifup w))" "sys_step w (snd (sifdown w))"
  "sys_step w (snd (sifnpmode m w))" "sys_step w (snd (sifaddr a b k w))"
  "sys_step w (snd (cifaddr a b w))" "sys_step w (snd (sifdefaultroute a b w))"
  "sys_step w (snd (cifdefaultroute a b w))" "sys_step w (snd (sifproxyarp a w))"
  "sys_step w (snd (cifproxyarp a w))" "sys_step w (snd (ccp_test opt tx w))"
  "sys_step w (ccp_flags_set io iu w)" "sys_step w (snd (ccp_fatal_error w))"
  by (simp_all add: sys_step_def ioctl_def sifvjcomp_def sifup_def sifdown_def sifnpmode_def
      sifaddr_def cifaddr_def sifdefaultroute_def cifdefaultroute_def dodefaultroute_def
      sifproxyarp_def cifproxyarp_def ccp_test_def ccp_flags_set_def ccp_fatal_error_def get_scflags_def
      Let_def chap_world.truncate_def)

lemma sys_step_fields:
  assumes "sys_step w w'"
  shows "fsms w' = fsms w" "callout w' = callout w" "upap w' = upap w" "chap w' = chap w"
    "lcp_echo_timer_running w' = lcp_echo_timer_running w" "lcp_echo_fails w' = lcp_echo_fails w"
    "pppd_phase w' = pppd_phase w" "num_np_up w' = num_np_up w" "outq w' = outq w" "oob w' = oob w"
    "num_np_open w' = num_np_open w"
  using assms by (auto simp: sys_step_def chap_world.truncate_def)

text \<open>The netmask contains the user's mask and the mask of the address class.\<close>

lemma fold_or_contains: "m AND fold (\<lambda>e m. m OR f e) es m = m" for m :: "'b :: len word"
proof (induction es arbitrary: m)
  case (Cons e es)
  define k where "k = fold (\<lambda>e m. m OR f e) es (m OR f e)"
  have "(m OR f e) AND k = m OR f e"
    unfolding k_def by (rule Cons.IH)
  then have "m AND k = m"
    by (auto simp: bit_eq_iff bit_and_iff bit_or_iff)
  then show ?case by (simp add: k_def)
qed simp

lemma GetMask_contains: "(netmask w OR class_mask addr) AND GetMask addr w = netmask w OR class_mask addr"
  by (simp add: GetMask_def Let_def fold_or_contains split: option.split)

text \<open>An interface that was brought up is marked up, one that was taken down is not; and so for addresses.\<close>

lemma sifup_marks: "sifup w = (True, w') \<Longrightarrow> if_is_up w' \<and> last (ioctls w') = SIOCSIFFLAGS True"
  by (auto simp: sifup_def ioctl_def Let_def split: if_splits)

lemma sifdown_marks: "sifdown w = (True, w') \<Longrightarrow> \<not> if_is_up w' \<and> last (ioctls w') = SIOCSIFFLAGS False"
  by (auto simp: sifdown_def ioctl_def Let_def split: if_splits)

lemma sifaddr_sets: "sifaddr a b m w = (True, w') \<Longrightarrow> ifaddrs w' = (a, b)"
  by (auto simp: sifaddr_def ioctl_def Let_def split: if_splits)

end
