(* ===== verification/Ccp_Options.thy ===== *)
theory Ccp_Options
  imports Sys_Rtems "HOL-Library.Monad_Syntax"
begin

text \<open>
  The options of the Compression Control Protocol (\<^verbatim>\<open>ccp.c\<close>, with the macros of \<^verbatim>\<open>net/ppp_comp.h\<close>): the
  request, and what the peer's Configure-Ack, Nak, Reject and Request do to the options. Unlike the
  other protocols CCP asks the kernel (\<^verbatim>\<open>ccp_test\<close>) which methods and sizes it can do, so most of these
  functions take the state of the system calls along. The loops that reduce a size until the
  kernel accepts it are \<open>ccp_fit\<close> (for our request, it ends at the smallest size) and \<open>ccp_shrink\<close> (for the
  peer's request, where C tests for equality with the smallest size and may run past it).
\<close>

section \<open>Definitions\<close>

subsection \<open>Option formats\<close>

definition CI_BSD_COMPRESS :: u8 where [ppp_consts]: "CI_BSD_COMPRESS = 21"
definition CI_DEFLATE :: u8 where [ppp_consts]: "CI_DEFLATE = 26"
definition CI_DEFLATE_DRAFT :: u8 where [ppp_consts]: "CI_DEFLATE_DRAFT = 24"
definition CI_PREDICTOR_1 :: u8 where [ppp_consts]: "CI_PREDICTOR_1 = 1"
definition CI_PREDICTOR_2 :: u8 where [ppp_consts]: "CI_PREDICTOR_2 = 2"
definition CILEN_BSD_COMPRESS :: nat where [ppp_consts]: "CILEN_BSD_COMPRESS = 3"
definition CILEN_DEFLATE :: nat where [ppp_consts]: "CILEN_DEFLATE = 4"
definition CILEN_PREDICTOR_1 :: nat where [ppp_consts]: "CILEN_PREDICTOR_1 = 2"
definition CILEN_PREDICTOR_2 :: nat where [ppp_consts]: "CILEN_PREDICTOR_2 = 2"
definition BSD_CURRENT_VERSION :: int where [ppp_consts]: "BSD_CURRENT_VERSION = 1"
definition BSD_MIN_BITS :: int where [ppp_consts]: "BSD_MIN_BITS = 9"
definition BSD_MAX_BITS :: int where [ppp_consts]: "BSD_MAX_BITS = 15"
definition DEFLATE_MIN_SIZE :: int where [ppp_consts]: "DEFLATE_MIN_SIZE = 8"
definition DEFLATE_MAX_SIZE :: int where [ppp_consts]: "DEFLATE_MAX_SIZE = 15"
definition DEFLATE_METHOD_VAL :: int where [ppp_consts]: "DEFLATE_METHOD_VAL = 8"
definition DEFLATE_CHK_SEQUENCE :: u8 where [ppp_consts]: "DEFLATE_CHK_SEQUENCE = 0"

text \<open>The macros compute with \<^verbatim>\<open>int\<close>; a store into the packet keeps the low byte (\<^verbatim>\<open>word_of_int\<close>).\<close>

definition BSD_NBITS :: "u8 \<Rightarrow> int" where
  "BSD_NBITS x = uint (x AND 0x1F)"

definition BSD_VERSION :: "u8 \<Rightarrow> int" where
  "BSD_VERSION x = uint (drop_bit 5 x)"

definition BSD_MAKE_OPT :: "int \<Rightarrow> int" where
  "BSD_MAKE_OPT n = push_bit 5 BSD_CURRENT_VERSION OR n"

definition DEFLATE_SIZE :: "u8 \<Rightarrow> int" where
  "DEFLATE_SIZE x = uint (drop_bit 4 x) + DEFLATE_MIN_SIZE"

definition DEFLATE_METHOD :: "u8 \<Rightarrow> int" where
  "DEFLATE_METHOD x = uint (x AND 0x0F)"

definition DEFLATE_MAKE_OPT :: "int \<Rightarrow> int" where
  "DEFLATE_MAKE_OPT n = push_bit 4 (n - DEFLATE_MIN_SIZE) + DEFLATE_METHOD_VAL"

record ccp_options =
  bsd_compress :: bool
  deflate :: bool
  predictor_1 :: bool
  predictor_2 :: bool
  deflate_correct :: bool
  deflate_draft :: bool
  bsd_bits :: int
  deflate_size :: int
  comp_method :: int

definition ccp_zero :: ccp_options where
  "ccp_zero = \<lparr>bsd_compress = False, deflate = False, predictor_1 = False, predictor_2 = False,
     deflate_correct = False, deflate_draft = False, bsd_bits = 0, deflate_size = 0, comp_method = 0\<rparr>"

definition ANY_COMPRESS :: "ccp_options \<Rightarrow> bool" where
  "ANY_COMPRESS opt \<longleftrightarrow> deflate opt \<or> bsd_compress opt \<or> predictor_1 opt \<or> predictor_2 opt"

text \<open>An option of Deflate (\<open>t\<close> is its type), and of BSD-Compress, for a size.\<close>

definition deflate_ci :: "u8 \<Rightarrow> int \<Rightarrow> bytes" where
  "deflate_ci t n = [t, of_nat CILEN_DEFLATE, word_of_int (DEFLATE_MAKE_OPT n), DEFLATE_CHK_SEQUENCE]"

definition bsd_ci :: "int \<Rightarrow> bytes" where
  "bsd_ci n = [CI_BSD_COMPRESS, of_nat CILEN_BSD_COMPRESS, word_of_int (BSD_MAKE_OPT n)]"

definition deflate_type :: "ccp_options \<Rightarrow> u8" where
  "deflate_type go = (if deflate_correct go then CI_DEFLATE else CI_DEFLATE_DRAFT)"

subsection \<open>Our request\<close>

text \<open>\<^verbatim>\<open>ccp_resetci\<close>: the options we want, less those the kernel cannot do.\<close>

definition ccp_probe :: "bool \<Rightarrow> bytes \<Rightarrow> 'a sys_world_scheme \<Rightarrow> bool \<times> 'a sys_world_scheme" where
  "ccp_probe wanted opt w =
     (if wanted then (let (res, w) = ccp_test opt False w in (res > 0, w)) else (False, w))"

definition ccp_reset_go :: "ccp_options \<Rightarrow> 'a sys_world_scheme \<Rightarrow> ccp_options \<times> 'a sys_world_scheme" where
  "ccp_reset_go go w =
     (let (b, w) = ccp_probe (bsd_compress go) (bsd_ci BSD_MIN_BITS) w;
          go = go\<lparr>bsd_compress := b\<rparr>;
          (go, w) =
            (if deflate go then
               (let (c, w) = ccp_probe (deflate_correct go) (deflate_ci CI_DEFLATE DEFLATE_MIN_SIZE) w;
                    (d, w) = ccp_probe (deflate_draft go) (deflate_ci CI_DEFLATE_DRAFT DEFLATE_MIN_SIZE) w
                in (go\<lparr>deflate_correct := c, deflate_draft := d, deflate := c \<or> d\<rparr>, w))
             else (go, w));
          (p1, w) = ccp_probe (predictor_1 go) [CI_PREDICTOR_1, of_nat CILEN_PREDICTOR_1] w;
          (p2, w) = ccp_probe (predictor_2 go) [CI_PREDICTOR_2, of_nat CILEN_PREDICTOR_2] w
      in (go\<lparr>predictor_1 := p1, predictor_2 := p2\<rparr>, w))"

definition ccp_cilen :: "ccp_options \<Rightarrow> int" where
  "ccp_cilen go =
     int ((if bsd_compress go then CILEN_BSD_COMPRESS else 0) +
          (if deflate go then CILEN_DEFLATE else 0) +
          (if predictor_1 go then CILEN_PREDICTOR_1 else 0) +
          (if predictor_2 go then CILEN_PREDICTOR_2 else 0))"

text \<open>
  The loop of \<^verbatim>\<open>ccp_addci\<close>: whether the option is kept, and the size it ends with. \<open>ci\<close> makes the
  option for a size, \<open>mn\<close> is the smallest size.
\<close>

function ccp_fit ::
  "(int \<Rightarrow> bytes) \<Rightarrow> int \<Rightarrow> int \<Rightarrow> 'a sys_world_scheme \<Rightarrow> bool \<times> int \<times> 'a sys_world_scheme" where
  "ccp_fit ci mn n w =
     (let (res, w) = ccp_test (ci n) False w in
      if res > 0 then (True, n, w)
      else if res < 0 \<or> n \<le> mn then (False, n, w)
      else ccp_fit ci mn (n - 1) w)"
  by pat_completeness auto
termination
  by (relation "measure (\<lambda>(ci, mn, n, w). nat (n - mn))") auto

declare ccp_fit.simps [simp del]

text \<open>
  \<^verbatim>\<open>ccp_addci\<close>, method by method: the options of Deflate, of BSD-Compress (the kernel is asked only
  about the first option of the packet, \<open>p\<close> are the bytes before), and of Predictor. The result is
  the whole packet so far, the options and the state.
\<close>

definition ccp_add_deflate ::
  "ccp_options \<Rightarrow> 'a sys_world_scheme \<Rightarrow> bytes \<times> ccp_options \<times> 'a sys_world_scheme" where
  "ccp_add_deflate go w =
     (if deflate go then
        (let (ok, n, w) = ccp_fit (deflate_ci (deflate_type go)) DEFLATE_MIN_SIZE (deflate_size go) w;
             go = go\<lparr>deflate := ok, deflate_size := n\<rparr>
         in if \<not> ok then ([], go, w)
            else if deflate_correct go \<and> deflate_draft go
            then (deflate_ci CI_DEFLATE n @ deflate_ci CI_DEFLATE_DRAFT n, go, w)
            else (deflate_ci (deflate_type go) n, go, w))
      else ([], go, w))"

definition ccp_add_bsd ::
  "bytes \<Rightarrow> ccp_options \<Rightarrow> 'a sys_world_scheme \<Rightarrow> bytes \<times> ccp_options \<times> 'a sys_world_scheme" where
  "ccp_add_bsd p go w =
     (if \<not> bsd_compress go then (p, go, w)
      else if p \<noteq> [] then (p @ bsd_ci (bsd_bits go), go, w)
      else
        (let (ok, n, w) = ccp_fit bsd_ci BSD_MIN_BITS (bsd_bits go) w;
             go = go\<lparr>bsd_compress := ok, bsd_bits := n\<rparr>
         in (if ok then bsd_ci n else [], go, w)))"

definition ccp_add_predictor ::
  "bytes \<Rightarrow> bool \<Rightarrow> bytes \<Rightarrow> 'a sys_world_scheme \<Rightarrow> bool \<times> bytes \<times> 'a sys_world_scheme" where
  "ccp_add_predictor opt wanted p w =
     (if \<not> wanted then (False, p, w)
      else if p \<noteq> [] then (True, p @ opt, w)
      else (let (res, w) = ccp_test opt False w in if res \<le> 0 then (False, p, w) else (True, p @ opt, w)))"

definition ccp_addci ::
  "ccp_options \<Rightarrow> 'a sys_world_scheme \<Rightarrow> bytes \<times> ccp_options \<times> 'a sys_world_scheme" where
  "ccp_addci go w =
     (let (p, go, w) = ccp_add_deflate go w;
          (p, go, w) = ccp_add_bsd p go w;
          (p1, p, w) = ccp_add_predictor [CI_PREDICTOR_1, of_nat CILEN_PREDICTOR_1] (predictor_1 go) p w;
          (p2, p, w) = ccp_add_predictor [CI_PREDICTOR_2, of_nat CILEN_PREDICTOR_2] (predictor_2 go) p w
      in (p, go\<lparr>predictor_1 := p1, predictor_2 := p2,
               comp_method := (case p of [] \<Rightarrow> -1 | t # _ \<Rightarrow> uint t)\<rparr>, w))"

subsection \<open>The peer's replies\<close>

text \<open>The comparison of the bytes at \<^verbatim>\<open>p\<close> with an option of ours.\<close>

definition is_deflate_ci :: "u8 \<Rightarrow> int \<Rightarrow> bytes \<Rightarrow> bool" where
  "is_deflate_ci t n p \<longleftrightarrow> CILEN_DEFLATE \<le> length p \<and> p ! 0 = t \<and> p ! 1 = of_nat CILEN_DEFLATE \<and>
     uint (p ! 2) = DEFLATE_MAKE_OPT n \<and> p ! 3 = DEFLATE_CHK_SEQUENCE"

definition is_bsd_ci :: "int \<Rightarrow> bytes \<Rightarrow> bool" where
  "is_bsd_ci n p \<longleftrightarrow> CILEN_BSD_COMPRESS \<le> length p \<and> p ! 0 = CI_BSD_COMPRESS \<and>
     p ! 1 = of_nat CILEN_BSD_COMPRESS \<and> uint (p ! 2) = BSD_MAKE_OPT n"

definition has_ci :: "u8 \<Rightarrow> nat \<Rightarrow> bytes \<Rightarrow> bool" where
  "has_ci t n p \<longleftrightarrow> n \<le> length p \<and> p ! 0 = t \<and> p ! 1 = of_nat n"

text \<open>
  \<^verbatim>\<open>ccp_ackci\<close>. The part on Deflate may return at once (\<open>Inl\<close>), also with success when nothing
  follows the first option; the same test after the other methods compares \<^verbatim>\<open>p\<close> with \<^verbatim>\<open>p0\<close> after it has
  been advanced, so it never succeeds.
\<close>

definition ccp_ack_deflate :: "ccp_options \<Rightarrow> bytes \<Rightarrow> bool + bytes" where
  "ccp_ack_deflate go p =
     (if \<not> deflate go then Inr p
      else if \<not> is_deflate_ci (deflate_type go) (deflate_size go) p then Inl False
      else
        (let p = drop CILEN_DEFLATE p in
         if p = [] then Inl True
         else if deflate_correct go \<and> deflate_draft go then
           (if \<not> is_deflate_ci CI_DEFLATE_DRAFT (deflate_size go) p then Inl False
            else Inr (drop CILEN_DEFLATE p))
         else Inr p))"

definition ccp_ackci :: "ccp_options \<Rightarrow> bytes \<Rightarrow> bool" where
  "ccp_ackci go p =
     (case ccp_ack_deflate go p of
        Inl r \<Rightarrow> r
      | Inr p \<Rightarrow>
          if bsd_compress go \<and> \<not> is_bsd_ci (bsd_bits go) p then False
          else
            (let p = (if bsd_compress go then drop CILEN_BSD_COMPRESS p else p) in
             if predictor_1 go \<and> \<not> has_ci CI_PREDICTOR_1 CILEN_PREDICTOR_1 p then False
             else
               (let p = (if predictor_1 go then drop CILEN_PREDICTOR_1 p else p) in
                if predictor_2 go \<and> \<not> has_ci CI_PREDICTOR_2 CILEN_PREDICTOR_2 p then False
                else (if predictor_2 go then drop CILEN_PREDICTOR_2 p else p) = [])))"

text \<open>\<^verbatim>\<open>ccp_nakci\<close>: the options to ask for next time; it accepts every Nak.\<close>

definition ccp_nak_deflate :: "ccp_options \<Rightarrow> bytes \<Rightarrow> ccp_options \<times> bytes" where
  "ccp_nak_deflate go p =
     (if deflate go \<and> has_ci (deflate_type go) CILEN_DEFLATE p then
        (let tr = (if DEFLATE_METHOD (p ! 2) \<noteq> DEFLATE_METHOD_VAL \<or>
                      DEFLATE_SIZE (p ! 2) < DEFLATE_MIN_SIZE \<or> p ! 3 \<noteq> DEFLATE_CHK_SEQUENCE
                   then go\<lparr>deflate := False\<rparr>
                   else if DEFLATE_SIZE (p ! 2) < deflate_size go
                   then go\<lparr>deflate_size := DEFLATE_SIZE (p ! 2)\<rparr> else go);
             p = drop CILEN_DEFLATE p
         in (tr, if deflate_correct go \<and> deflate_draft go \<and> has_ci CI_DEFLATE_DRAFT CILEN_DEFLATE p
                 then drop CILEN_DEFLATE p else p))
      else (go, p))"

definition ccp_nak_try :: "ccp_options \<Rightarrow> bytes \<Rightarrow> ccp_options" where
  "ccp_nak_try go p =
     (let (tr, p) = ccp_nak_deflate go p in
      if bsd_compress go \<and> has_ci CI_BSD_COMPRESS CILEN_BSD_COMPRESS p then
        (if BSD_VERSION (p ! 2) \<noteq> BSD_CURRENT_VERSION then tr\<lparr>bsd_compress := False\<rparr>
         else if BSD_NBITS (p ! 2) < bsd_bits go then tr\<lparr>bsd_bits := BSD_NBITS (p ! 2)\<rparr> else tr)
      else tr)"

text \<open>\<^verbatim>\<open>ccp_rejci\<close>: the same after a Reject, \<open>None\<close> when it is bad.\<close>

definition ccp_rej_deflate :: "ccp_options \<Rightarrow> bytes \<Rightarrow> (ccp_options \<times> bytes) option" where
  "ccp_rej_deflate go p =
     (if deflate go \<and> has_ci (deflate_type go) CILEN_DEFLATE p then
        (if \<not> is_deflate_ci (deflate_type go) (deflate_size go) p then None
         else
           (let tr = (if deflate_correct go then go\<lparr>deflate_correct := False\<rparr>
                      else go\<lparr>deflate_draft := False\<rparr>);
                p = drop CILEN_DEFLATE p;
                off = (\<lambda>tr. if \<not> deflate_correct tr \<and> \<not> deflate_draft tr
                            then tr\<lparr>deflate := False\<rparr> else tr)
            in if deflate_correct go \<and> deflate_draft go \<and> has_ci CI_DEFLATE_DRAFT CILEN_DEFLATE p then
                 (if \<not> is_deflate_ci CI_DEFLATE_DRAFT (deflate_size go) p then None
                  else Some (off (tr\<lparr>deflate_draft := False\<rparr>), drop CILEN_DEFLATE p))
               else Some (off tr, p)))
      else Some (go, p))"

definition ccp_rej_bsd :: "ccp_options \<Rightarrow> ccp_options \<times> bytes \<Rightarrow> (ccp_options \<times> bytes) option" where
  "ccp_rej_bsd go = (\<lambda>(tr, p).
     if bsd_compress go \<and> has_ci CI_BSD_COMPRESS CILEN_BSD_COMPRESS p then
       (if \<not> is_bsd_ci (bsd_bits go) p then None
        else Some (tr\<lparr>bsd_compress := False\<rparr>, drop CILEN_BSD_COMPRESS p))
     else Some (tr, p))"

definition ccp_rej_predictors :: "ccp_options \<Rightarrow> ccp_options \<times> bytes \<Rightarrow> ccp_options option" where
  "ccp_rej_predictors go = (\<lambda>(tr, p).
     let (tr, p) = (if predictor_1 go \<and> has_ci CI_PREDICTOR_1 CILEN_PREDICTOR_1 p
                    then (tr\<lparr>predictor_1 := False\<rparr>, drop CILEN_PREDICTOR_1 p) else (tr, p));
         (tr, p) = (if predictor_2 go \<and> has_ci CI_PREDICTOR_2 CILEN_PREDICTOR_2 p
                    then (tr\<lparr>predictor_2 := False\<rparr>, drop CILEN_PREDICTOR_2 p) else (tr, p))
     in if p \<noteq> [] then None else Some tr)"

definition ccp_rej_try :: "ccp_options \<Rightarrow> bytes \<Rightarrow> ccp_options option" where
  "ccp_rej_try go p = do {
     s \<leftarrow> ccp_rej_deflate go p;
     s \<leftarrow> ccp_rej_bsd go s;
     ccp_rej_predictors go s
   }"

subsection \<open>The peer's request\<close>

text \<open>
  The loop of \<^verbatim>\<open>ccp_reqci\<close> that reduces the size \<open>nb\<close> in the option \<open>ci\<close> until the kernel accepts it; \<open>mk\<close>
  makes the size byte, \<open>orig\<close> is the size the peer asked for. It may not end, since the size is
  compared with the smallest one by \<^verbatim>\<open>==\<close>.
\<close>

partial_function (option) ccp_shrink ::
  "(int \<Rightarrow> int) \<Rightarrow> int \<Rightarrow> int \<Rightarrow> bool \<Rightarrow> bytes \<Rightarrow> int \<Rightarrow> verdict \<Rightarrow> 'a sys_world_scheme \<Rightarrow>
   (verdict \<times> bytes \<times> 'a sys_world_scheme) option" where
  "ccp_shrink mk mn orig dont_nak ci nb v w =
     (case ccp_test ci True w of (res, w) \<Rightarrow>
        if res > 0 then Some (v, ci, w)
        else if res < 0 \<or> nb = mn \<or> dont_nak then Some (Rej, ci[2 := word_of_int (mk orig)], w)
        else ccp_shrink mk mn orig dont_nak (ci[2 := word_of_int (mk (nb - 1))]) (nb - 1) Nak w)"

type_synonym 'w ccp_ci_result = "(verdict \<times> bytes \<times> ccp_options \<times> 'w) option"

definition ccp_req_deflate ::
  "ccp_options \<Rightarrow> bool \<Rightarrow> bool \<Rightarrow> ccp_options \<Rightarrow> bytes \<Rightarrow> 'a sys_world_scheme \<Rightarrow>
   'a sys_world_scheme ccp_ci_result" where
  "ccp_req_deflate ao dont_nak first ho ci w =
     (if \<not> deflate ao \<or> length ci \<noteq> CILEN_DEFLATE \<or> (\<not> deflate_correct ao \<and> ci ! 0 = CI_DEFLATE) \<or>
         (\<not> deflate_draft ao \<and> ci ! 0 = CI_DEFLATE_DRAFT)
      then Some (Rej, ci, ho, w)
      else
        (let nb = DEFLATE_SIZE (ci ! 2);
             ho = ho\<lparr>deflate := True, deflate_size := nb\<rparr>;
             bad = (DEFLATE_METHOD (ci ! 2) \<noteq> DEFLATE_METHOD_VAL \<or> ci ! 3 \<noteq> DEFLATE_CHK_SEQUENCE \<or>
                    nb > deflate_size ao \<or> nb < DEFLATE_MIN_SIZE)
         in if bad \<and> dont_nak then Some (Nak, ci, ho, w)
            else
              (let v = (if bad then Nak else Ack);
                   ci = (if bad then ci[2 := word_of_int (DEFLATE_MAKE_OPT (deflate_size ao)),
                                        3 := DEFLATE_CHK_SEQUENCE] else ci)
               in if first
                  then map_option (\<lambda>(v, ci, w). (v, ci, ho, w))
                         (ccp_shrink DEFLATE_MAKE_OPT DEFLATE_MIN_SIZE nb dont_nak ci nb v w)
                  else Some (v, ci, ho, w))))"

definition ccp_req_bsd ::
  "ccp_options \<Rightarrow> bool \<Rightarrow> bool \<Rightarrow> ccp_options \<Rightarrow> bytes \<Rightarrow> 'a sys_world_scheme \<Rightarrow>
   'a sys_world_scheme ccp_ci_result" where
  "ccp_req_bsd ao dont_nak first ho ci w =
     (if \<not> bsd_compress ao \<or> length ci \<noteq> CILEN_BSD_COMPRESS then Some (Rej, ci, ho, w)
      else
        (let nb = BSD_NBITS (ci ! 2);
             ho = ho\<lparr>bsd_compress := True, bsd_bits := nb\<rparr>;
             bad = (BSD_VERSION (ci ! 2) \<noteq> BSD_CURRENT_VERSION \<or> nb > bsd_bits ao \<or> nb < BSD_MIN_BITS)
         in if bad \<and> dont_nak then Some (Nak, ci, ho, w)
            else
              (let v = (if bad then Nak else Ack);
                   ci = (if bad then ci[2 := word_of_int (BSD_MAKE_OPT (bsd_bits ao))] else ci)
               in if first
                  then map_option (\<lambda>(v, ci, w). (v, ci, ho, w))
                         (ccp_shrink BSD_MAKE_OPT BSD_MIN_BITS nb dont_nak ci nb v w)
                  else Some (v, ci, ho, w))))"

definition ccp_req_predictor ::
  "bool \<Rightarrow> bool \<Rightarrow> ccp_options \<Rightarrow> ccp_options \<Rightarrow> bytes \<Rightarrow> 'a sys_world_scheme \<Rightarrow>
   'a sys_world_scheme ccp_ci_result" where
  "ccp_req_predictor allowed first ho ho' ci w =
     (if \<not> allowed \<or> length ci \<noteq> 2 then Some (Rej, ci, ho, w)
      else if first then (let (res, w) = ccp_test ci True w in Some (if res \<le> 0 then Rej else Ack, ci, ho', w))
      else Some (Ack, ci, ho', w))"

definition ccp_req_ci ::
  "ccp_options \<Rightarrow> bool \<Rightarrow> bool \<Rightarrow> ccp_options \<Rightarrow> bytes \<Rightarrow> 'a sys_world_scheme \<Rightarrow>
   'a sys_world_scheme ccp_ci_result" where
  "ccp_req_ci ao dont_nak first ho ci w =
     (let t = ci ! 0 in
      if t = CI_DEFLATE \<or> t = CI_DEFLATE_DRAFT then ccp_req_deflate ao dont_nak first ho ci w
      else if t = CI_BSD_COMPRESS then ccp_req_bsd ao dont_nak first ho ci w
      else if t = CI_PREDICTOR_1
      then ccp_req_predictor (predictor_1 ao) first ho (ho\<lparr>predictor_1 := True\<rparr>) ci w
      else if t = CI_PREDICTOR_2
      then ccp_req_predictor (predictor_2 ao) first ho (ho\<lparr>predictor_2 := True\<rparr>) ci w
      else Some (Rej, ci, ho, w))"

text \<open>The end of the loop body (the reply so far and the options in it), and the loop.\<close>

definition ccp_settle :: "bool \<Rightarrow> verdict \<Rightarrow> bytes \<Rightarrow> verdict \<times> bytes \<Rightarrow> verdict \<times> bytes" where
  "ccp_settle dont_nak newret ci = (\<lambda>(ret, out).
     let newret = (if newret = Nak \<and> dont_nak then Rej else newret) in
     if newret = Ack \<or> (newret = Nak \<and> ret = Rej) then (ret, out)
     else (newret, (if newret = Rej \<and> ret = Nak then [] else out) @ ci))"

function ccp_req_loop ::
  "ccp_options \<Rightarrow> bool \<Rightarrow> bool \<Rightarrow> bytes \<Rightarrow> verdict \<times> bytes \<Rightarrow> ccp_options \<Rightarrow> 'a sys_world_scheme \<Rightarrow>
   (verdict \<times> bytes \<times> ccp_options \<times> 'a sys_world_scheme) option" where
  "ccp_req_loop ao dont_nak first l s ho w =
     (if l = [] then Some (fst s, snd s, ho, w)
      else if bad_ci l then
        (let s = ccp_settle dont_nak Rej l s in Some (fst s, snd s, ho, w))
      else
        (case ccp_req_ci ao dont_nak first ho (take (unat (l ! 1)) l) w of
           None \<Rightarrow> None
         | Some (v, ci, ho, w) \<Rightarrow>
             ccp_req_loop ao dont_nak False (drop (unat (l ! 1)) l) (ccp_settle dont_nak v ci s) ho w))"
  by pat_completeness auto
termination
  by (relation "measure (\<lambda>(ao, dn, f, l, s, ho, w). length l)") (auto simp: bad_ci_def)

declare ccp_req_loop.simps [simp del]

text \<open>\<^verbatim>\<open>ccp_reqci\<close>: the reply, the peer's options, and whether everything was rejected.\<close>

definition ccp_req ::
  "ccp_options \<Rightarrow> bool \<Rightarrow> bytes \<Rightarrow> 'a sys_world_scheme \<Rightarrow>
   (u8 \<times> bytes \<times> bool \<times> ccp_options \<times> 'a sys_world_scheme) option" where
  "ccp_req ao dont_nak inp w =
     (let ho = ccp_zero\<lparr>comp_method := (case inp of [] \<Rightarrow> -1 | t # _ \<Rightarrow> uint t)\<rparr> in
      case ccp_req_loop ao dont_nak True inp (Ack, []) ho w of
        None \<Rightarrow> None
      | Some (Ack, _, ho, w) \<Rightarrow> Some (CONFACK, inp, False, ho, w)
      | Some (Nak, out, ho, w) \<Rightarrow> Some (CONFNAK, out, False, ho, w)
      | Some (Rej, out, ho, w) \<Rightarrow> Some (CONFREJ, out, length out = length inp, ho, w))"

end
