(* ===== verification/Ccp_Negotiation.thy ===== *)
theory Ccp_Negotiation
  imports Ccp_Options
begin

text \<open>
  What the option functions of CCP promise: the request and its acknowledgement, and that
  Nak and Reject only take options back.
\<close>

section \<open>Definitions\<close>

text \<open>The request for given options.\<close>

definition ccp_request :: "ccp_options \<Rightarrow> bytes" where
  "ccp_request go =
     (if deflate go then deflate_ci (deflate_type go) (deflate_size go) @
        (if deflate_correct go \<and> deflate_draft go then deflate_ci CI_DEFLATE_DRAFT (deflate_size go) else [])
      else []) @
     (if bsd_compress go then bsd_ci (bsd_bits go) else []) @
     (if predictor_1 go then [CI_PREDICTOR_1, of_nat CILEN_PREDICTOR_1] else []) @
     (if predictor_2 go then [CI_PREDICTOR_2, of_nat CILEN_PREDICTOR_2] else [])"

text \<open>\<open>a\<close> asks for no more than \<open>b\<close>; the sizes that fit into the size byte.\<close>

definition ccp_le :: "ccp_options \<Rightarrow> ccp_options \<Rightarrow> bool" where
  "ccp_le a b \<longleftrightarrow> (bsd_compress a \<longrightarrow> bsd_compress b) \<and> (deflate a \<longrightarrow> deflate b) \<and>
     (predictor_1 a \<longrightarrow> predictor_1 b) \<and> (predictor_2 a \<longrightarrow> predictor_2 b) \<and>
     (deflate_correct a \<longrightarrow> deflate_correct b) \<and> (deflate_draft a \<longrightarrow> deflate_draft b) \<and>
     bsd_bits a \<le> bsd_bits b \<and> deflate_size a \<le> deflate_size b"

definition ccp_sizes :: "ccp_options \<Rightarrow> bool" where
  "ccp_sizes go \<longleftrightarrow>
     (deflate go \<longrightarrow> DEFLATE_MIN_SIZE \<le> deflate_size go \<and> deflate_size go \<le> DEFLATE_MIN_SIZE + 15) \<and>
     (bsd_compress go \<longrightarrow> 0 \<le> bsd_bits go \<and> bsd_bits go < 32)"

text \<open>How many options a request asks for.\<close>

definition ccp_count :: "ccp_options \<Rightarrow> nat" where
  "ccp_count go = (if deflate go then 1 + of_bool (deflate_correct go) + of_bool (deflate_draft go) else 0) +
     of_bool (bsd_compress go) + of_bool (predictor_1 go) + of_bool (predictor_2 go)"

section \<open>Sizes\<close>

lemma DEFLATE_SIZE_min: "DEFLATE_MIN_SIZE \<le> DEFLATE_SIZE x"
  by (simp add: DEFLATE_SIZE_def)

lemma DEFLATE_MAKE_OPT_byte:
  assumes "DEFLATE_MIN_SIZE \<le> n" and "n \<le> DEFLATE_MIN_SIZE + 15"
  shows "uint (word_of_int (DEFLATE_MAKE_OPT n) :: u8) = DEFLATE_MAKE_OPT n"
proof -
  have "0 \<le> DEFLATE_MAKE_OPT n" "DEFLATE_MAKE_OPT n < 256"
    using assms by (simp_all add: DEFLATE_MAKE_OPT_def ppp_consts push_bit_eq_mult)
  then show ?thesis
    by (simp add: uint_word_of_int take_bit_eq_mod)
qed

lemma BSD_MAKE_OPT_byte:
  assumes "0 \<le> n" and "n < 32"
  shows "BSD_MAKE_OPT n = 32 + n" and "uint (word_of_int (BSD_MAKE_OPT n) :: u8) = BSD_MAKE_OPT n"
proof -
  have "32 AND n = 0"
  proof (rule bit_eqI)
    fix k
    have "take_bit 5 n = n"
      using assms by (simp add: take_bit_eq_mod)
    then have "bit n k \<Longrightarrow> k < 5"
      by (metis bit_take_bit_iff)
    moreover have "bit (32 :: int) k \<Longrightarrow> k = 5"
      using bit_push_bit_iff_int [of 5 1 k] by (simp add: push_bit_eq_mult bit_1_iff)
    ultimately show "bit (32 AND n) k = bit 0 k"
      by (auto simp: bit_and_iff)
  qed
  then show eq: "BSD_MAKE_OPT n = 32 + n"
    by (simp add: BSD_MAKE_OPT_def ppp_consts push_bit_eq_mult disjunctive_add_eq_or [symmetric])
  show "uint (word_of_int (BSD_MAKE_OPT n) :: u8) = BSD_MAKE_OPT n"
    unfolding eq uint_word_of_int using assms by (simp add: take_bit_eq_mod)
qed

section \<open>Our request\<close>

lemma ccp_fit_eq:
  "ccp_test (ci n) False w = (res, v) \<Longrightarrow>
   ccp_fit ci mn n w = (if res > 0 then (True, n, v) else if res < 0 \<or> n \<le> mn then (False, n, v)
     else ccp_fit ci mn (n - 1) v)"
  by (subst ccp_fit.simps) simp

lemma ccp_fit_size:
  "ccp_fit ci mn n w = (ok, m, w') \<Longrightarrow> m \<le> n \<and> (mn \<le> n \<longrightarrow> mn \<le> m)"
proof (induction ci mn n w rule: ccp_fit.induct)
  case (1 ci mn n w)
  obtain res v where t: "ccp_test (ci n) False w = (res, v)" by fastforce
  note eq = ccp_fit_eq [of ci n w res v mn, OF t]
  show ?case
  proof (cases "res > 0 \<or> res < 0 \<or> n \<le> mn")
    case True
    with 1(2) show ?thesis by (auto simp: eq split: if_splits)
  next
    case False
    then have "ccp_fit ci mn (n - 1) v = (ok, m, w')"
      using 1(2) by (simp add: eq)
    with 1(1) [OF t [symmetric] refl] False have "m \<le> n - 1 \<and> (mn \<le> n - 1 \<longrightarrow> mn \<le> m)"
      by simp
    with False show ?thesis by auto
  qed
qed

lemma deflate_ci_len [simp]: "length (deflate_ci t n) = CILEN_DEFLATE" "deflate_ci t n \<noteq> []"
  by (simp_all add: deflate_ci_def CILEN_DEFLATE_def)

lemma bsd_ci_len [simp]: "length (bsd_ci n) = CILEN_BSD_COMPRESS" "bsd_ci n \<noteq> []"
  by (simp_all add: bsd_ci_def CILEN_BSD_COMPRESS_def)

lemma deflate_type_simps [simp]:
  "deflate_type (go\<lparr>deflate := b\<rparr>) = deflate_type go"
  "deflate_type (go\<lparr>deflate_size := n\<rparr>) = deflate_type go"
  "deflate_correct go \<Longrightarrow> deflate_type go = CI_DEFLATE"
  by (simp_all add: deflate_type_def)

lemma ccp_add_deflate_request:
  assumes "ccp_add_deflate go w = (p, go', w')"
  shows "p = (if deflate go' then deflate_ci (deflate_type go') (deflate_size go') @
        (if deflate_correct go' \<and> deflate_draft go' then deflate_ci CI_DEFLATE_DRAFT (deflate_size go') else [])
      else [])" and "bsd_compress go' = bsd_compress go \<and> predictor_1 go' = predictor_1 go \<and> predictor_2 go' = predictor_2 go \<and> deflate_correct go' = deflate_correct go \<and> deflate_draft go' = deflate_draft go \<and> bsd_bits go' = bsd_bits go"
    and "deflate_size go' \<le> deflate_size go" and "deflate go' \<Longrightarrow> deflate go"
    and "DEFLATE_MIN_SIZE \<le> deflate_size go \<Longrightarrow> DEFLATE_MIN_SIZE \<le> deflate_size go'"
proof -
  obtain ok m v where f:
    "ccp_fit (deflate_ci (deflate_type go)) DEFLATE_MIN_SIZE (deflate_size go) w = (ok, m, v)"
    by (metis prod_cases3)
  note sz = ccp_fit_size [OF f]
  show "p = (if deflate go' then deflate_ci (deflate_type go') (deflate_size go') @
        (if deflate_correct go' \<and> deflate_draft go' then deflate_ci CI_DEFLATE_DRAFT (deflate_size go') else [])
      else [])" "bsd_compress go' = bsd_compress go \<and> predictor_1 go' = predictor_1 go \<and> predictor_2 go' = predictor_2 go \<and> deflate_correct go' = deflate_correct go \<and> deflate_draft go' = deflate_draft go \<and> bsd_bits go' = bsd_bits go"
    "deflate_size go' \<le> deflate_size go" "deflate go' \<Longrightarrow> deflate go"
    "DEFLATE_MIN_SIZE \<le> deflate_size go \<Longrightarrow> DEFLATE_MIN_SIZE \<le> deflate_size go'"
    using assms sz unfolding ccp_add_deflate_def f by (auto simp: Let_def split: if_splits)
qed

lemma ccp_le_refl [simp]: "ccp_le a a"
  by (simp add: ccp_le_def)

lemma ccp_le_trans [trans]: "ccp_le a b \<Longrightarrow> ccp_le b c \<Longrightarrow> ccp_le a c"
  by (auto simp: ccp_le_def)

lemma ccp_add_bsd_request:
  assumes "ccp_add_bsd p go w = (q, go', w')"
  shows "q = p @ (if bsd_compress go' then bsd_ci (bsd_bits go') else [])"
    and "deflate go' = deflate go \<and> predictor_1 go' = predictor_1 go \<and> predictor_2 go' = predictor_2 go \<and> deflate_correct go' = deflate_correct go \<and> deflate_draft go' = deflate_draft go \<and> deflate_size go' = deflate_size go"
    and "bsd_bits go' \<le> bsd_bits go" and "bsd_compress go' \<Longrightarrow> bsd_compress go"
    and "BSD_MIN_BITS \<le> bsd_bits go \<Longrightarrow> BSD_MIN_BITS \<le> bsd_bits go'"
    and "p \<noteq> [] \<Longrightarrow> go' = go"
proof -
  obtain ok m v where f: "ccp_fit bsd_ci BSD_MIN_BITS (bsd_bits go) w = (ok, m, v)"
    by (metis prod_cases3)
  note sz = ccp_fit_size [OF f]
  show "q = p @ (if bsd_compress go' then bsd_ci (bsd_bits go') else [])"
    "deflate go' = deflate go \<and> predictor_1 go' = predictor_1 go \<and> predictor_2 go' = predictor_2 go \<and> deflate_correct go' = deflate_correct go \<and> deflate_draft go' = deflate_draft go \<and> deflate_size go' = deflate_size go"
    "bsd_bits go' \<le> bsd_bits go" "bsd_compress go' \<Longrightarrow> bsd_compress go"
    "BSD_MIN_BITS \<le> bsd_bits go \<Longrightarrow> BSD_MIN_BITS \<le> bsd_bits go'" "p \<noteq> [] \<Longrightarrow> go' = go"
    using assms sz unfolding ccp_add_bsd_def f by (auto simp: Let_def split: if_splits)
qed

lemma ccp_add_predictor_request:
  assumes "ccp_add_predictor opt wanted p w = (b, q, w')"
  shows "q = p @ (if b then opt else [])" and "b \<Longrightarrow> wanted"
  using assms by (auto simp: ccp_add_predictor_def Let_def split: if_splits prod.splits)

lemma ccp_addci_request:
  assumes "ccp_addci go w = (p, go', w')"
  shows "p = ccp_request go'" and "ccp_le go' go"
proof -
  obtain p1 g1 v1 where 1: "ccp_add_deflate go w = (p1, g1, v1)" by (metis prod_cases3)
  obtain p2 g2 v2 where 2: "ccp_add_bsd p1 g1 v1 = (p2, g2, v2)" by (metis prod_cases3)
  obtain b3 p3 v3 where 3:
    "ccp_add_predictor [CI_PREDICTOR_1, of_nat CILEN_PREDICTOR_1] (predictor_1 g2) p2 v2 = (b3, p3, v3)"
    by (metis prod_cases3)
  obtain b4 p4 v4 where 4:
    "ccp_add_predictor [CI_PREDICTOR_2, of_nat CILEN_PREDICTOR_2] (predictor_2 g2) p3 v3 = (b4, p4, v4)"
    by (metis prod_cases3)
  have g': "p = p4" "go' = g2\<lparr>predictor_1 := b3, predictor_2 := b4,
      comp_method := (case p4 of [] \<Rightarrow> -1 | t # _ \<Rightarrow> uint t)\<rparr>"
    using assms unfolding ccp_addci_def 1 2 3 4 by (auto simp: Let_def 2 3 4)
  note d = ccp_add_deflate_request [OF 1] and b = ccp_add_bsd_request [OF 2]
  note p = ccp_add_predictor_request [OF 3] ccp_add_predictor_request [OF 4]
  have "deflate_type g2 = deflate_type g1"
    using b(2) by (simp add: deflate_type_def)
  then show "p = ccp_request go'"
    using d(1,2) b(1,2) p unfolding g' by (simp add: ccp_request_def deflate_type_def)
  show "ccp_le go' go"
    using d(2-4) b(2-4) p(2,4) unfolding g' by (auto simp: ccp_le_def)
qed

text \<open>The comparisons, as decompositions of the packet.\<close>

lemma length_ge_iff:
  "2 \<le> length p \<longleftrightarrow> (\<exists>a b r. p = a # b # r)"
  "3 \<le> length p \<longleftrightarrow> (\<exists>a b c r. p = a # b # c # r)"
  "4 \<le> length p \<longleftrightarrow> (\<exists>a b c d r. p = a # b # c # d # r)"
  by (cases p; cases "tl p"; cases "tl (tl p)"; cases "tl (tl (tl p))"; auto)+

lemma is_deflate_ci_iff:
  assumes "DEFLATE_MIN_SIZE \<le> n" and "n \<le> DEFLATE_MIN_SIZE + 15"
  shows "is_deflate_ci t n p \<longleftrightarrow> (\<exists>r. p = deflate_ci t n @ r)"
proof
  assume c: "is_deflate_ci t n p"
  then obtain a b c d r where p: "p = a # b # c # d # r"
    by (auto simp: is_deflate_ci_def CILEN_DEFLATE_def length_ge_iff)
  with c have "a = t" "b = of_nat CILEN_DEFLATE" "uint c = DEFLATE_MAKE_OPT n" "d = DEFLATE_CHK_SEQUENCE"
    by (simp_all add: is_deflate_ci_def)
  moreover from this(3) have "c = word_of_int (DEFLATE_MAKE_OPT n)"
    by (metis word_of_int_uint)
  ultimately show "\<exists>r. p = deflate_ci t n @ r"
    by (simp add: p deflate_ci_def)
next
  assume "\<exists>r. p = deflate_ci t n @ r"
  then show "is_deflate_ci t n p"
    using DEFLATE_MAKE_OPT_byte [OF assms] by (auto simp: is_deflate_ci_def deflate_ci_def CILEN_DEFLATE_def)
qed

lemma is_bsd_ci_iff:
  assumes "0 \<le> n" and "n < 32"
  shows "is_bsd_ci n p \<longleftrightarrow> (\<exists>r. p = bsd_ci n @ r)"
proof
  assume c: "is_bsd_ci n p"
  then obtain a b c r where p: "p = a # b # c # r"
    by (auto simp: is_bsd_ci_def CILEN_BSD_COMPRESS_def length_ge_iff)
  with c have "a = CI_BSD_COMPRESS" "b = of_nat CILEN_BSD_COMPRESS" "uint c = BSD_MAKE_OPT n"
    by (simp_all add: is_bsd_ci_def)
  moreover from this(3) have "c = word_of_int (BSD_MAKE_OPT n)"
    by (metis word_of_int_uint)
  ultimately show "\<exists>r. p = bsd_ci n @ r"
    by (simp add: p bsd_ci_def)
next
  assume "\<exists>r. p = bsd_ci n @ r"
  then show "is_bsd_ci n p"
    using BSD_MAKE_OPT_byte(2) [OF assms] by (auto simp: is_bsd_ci_def bsd_ci_def CILEN_BSD_COMPRESS_def)
qed

lemma has_ci_iff:
  "has_ci t CILEN_PREDICTOR_1 p \<longleftrightarrow> (\<exists>r. p = [t, of_nat CILEN_PREDICTOR_1] @ r)"
  "has_ci t CILEN_PREDICTOR_2 p \<longleftrightarrow> (\<exists>r. p = [t, of_nat CILEN_PREDICTOR_2] @ r)"
  by (auto simp: has_ci_def CILEN_PREDICTOR_1_def CILEN_PREDICTOR_2_def length_ge_iff)

lemma drop_ci [simp]:
  "drop CILEN_DEFLATE (deflate_ci t n @ r) = r" "drop CILEN_BSD_COMPRESS (bsd_ci n @ r) = r"
  "drop CILEN_PREDICTOR_1 (a # b # r) = r" "drop CILEN_PREDICTOR_2 (a # b # r) = r"
  by (simp_all add: deflate_ci_def bsd_ci_def ppp_consts)

text \<open>Acknowledged are the whole request, and its first option where that is Deflate.\<close>

lemma ccp_ackci_iff:
  assumes "ccp_sizes go"
  shows "ccp_ackci go p \<longleftrightarrow> p = ccp_request go \<or>
    (deflate go \<and> p = deflate_ci (deflate_type go) (deflate_size go))"
proof -
  have d: "is_deflate_ci t (deflate_size go) q \<longleftrightarrow> (\<exists>r. q = deflate_ci t (deflate_size go) @ r)"
    if "deflate go" for t q
    using assms that by (intro is_deflate_ci_iff) (auto simp: ccp_sizes_def)
  have b: "is_bsd_ci (bsd_bits go) q \<longleftrightarrow> (\<exists>r. q = bsd_ci (bsd_bits go) @ r)"
    if "bsd_compress go" for q
    using assms that by (intro is_bsd_ci_iff) (auto simp: ccp_sizes_def)
  define tl where "tl = (if bsd_compress go then bsd_ci (bsd_bits go) else []) @
     (if predictor_1 go then [CI_PREDICTOR_1, of_nat CILEN_PREDICTOR_1] else []) @
     (if predictor_2 go then [CI_PREDICTOR_2, of_nat CILEN_PREDICTOR_2] else [])"
  have ack: "ccp_ackci go p \<longleftrightarrow> (case ccp_ack_deflate go p of Inl r \<Rightarrow> r | Inr q \<Rightarrow> q = tl)"
    by (cases "bsd_compress go"; cases "predictor_1 go"; cases "predictor_2 go")
      (auto simp: ccp_ackci_def Let_def tl_def b has_ci_iff simp del: drop_eq_Nil drop_eq_Nil2 drop_drop split: sum.split)
  show ?thesis
  proof (cases "deflate go")
    case False
    then show ?thesis
      by (simp add: ack ccp_ack_deflate_def ccp_request_def tl_def)
  next
    case True
    then show ?thesis
      by (auto simp: ack ccp_ack_deflate_def ccp_request_def tl_def [symmetric] d Let_def simp del: drop_eq_Nil drop_eq_Nil2 drop_drop)
  qed
qed

section \<open>Nak and Reject\<close>

lemma ccp_probe_wanted: "fst (ccp_probe b opt w) \<Longrightarrow> b"
  by (auto simp: ccp_probe_def split: if_splits)

lemma ccp_reset_le: "ccp_le (fst (ccp_reset_go go w)) go" "ccp_sizes go \<Longrightarrow> ccp_sizes (fst (ccp_reset_go go w))"
proof -
  obtain b v1 where 1: "ccp_probe (bsd_compress go) (bsd_ci BSD_MIN_BITS) w = (b, v1)" by fastforce
  obtain c v2 where 2: "ccp_probe (deflate_correct go) (deflate_ci CI_DEFLATE DEFLATE_MIN_SIZE) v1 = (c, v2)"
    by fastforce
  obtain d v3 where 3: "ccp_probe (deflate_draft go) (deflate_ci CI_DEFLATE_DRAFT DEFLATE_MIN_SIZE) v2 = (d, v3)"
    by fastforce
  have pr: "b \<Longrightarrow> bsd_compress go" "c \<Longrightarrow> deflate_correct go" "d \<Longrightarrow> deflate_draft go"
    using ccp_probe_wanted 1 2 3 by (metis fst_conv)+
  define v where "v = (if deflate go then v3 else v1)"
  obtain p1 v4 where 4: "ccp_probe (predictor_1 go) [CI_PREDICTOR_1, of_nat CILEN_PREDICTOR_1] v = (p1, v4)"
    by fastforce
  obtain p2 v5 where 5: "ccp_probe (predictor_2 go) [CI_PREDICTOR_2, of_nat CILEN_PREDICTOR_2] v4 = (p2, v5)"
    by fastforce
  have q: "p1 \<Longrightarrow> predictor_1 go" "p2 \<Longrightarrow> predictor_2 go"
    using ccp_probe_wanted 4 5 by (metis fst_conv)+
  have r: "fst (ccp_reset_go go w) =
      (if deflate go then go\<lparr>bsd_compress := b, deflate_correct := c, deflate_draft := d, deflate := c \<or> d\<rparr>
       else go\<lparr>bsd_compress := b\<rparr>)\<lparr>predictor_1 := p1, predictor_2 := p2\<rparr>"
    using 4 5 by (cases "deflate go") (simp_all add: ccp_reset_go_def v_def 1 2 3 Let_def)
  show "ccp_le (fst (ccp_reset_go go w)) go" "ccp_sizes go \<Longrightarrow> ccp_sizes (fst (ccp_reset_go go w))"
    unfolding r using pr q by (auto simp: ccp_le_def ccp_sizes_def)
qed

lemma BSD_NBITS_range: "0 \<le> BSD_NBITS x" "BSD_NBITS x < 32"
proof -
  have "x AND 0x1F = take_bit 5 x"
    by (simp add: take_bit_eq_mask mask_eq_exp_minus_1)
  then have "BSD_NBITS x = take_bit 5 (uint x)"
    by (simp add: BSD_NBITS_def unsigned_take_bit_eq)
  then show "0 \<le> BSD_NBITS x" "BSD_NBITS x < 32"
    by (simp_all add: take_bit_eq_mod)
qed

lemma ccp_nak_deflate_le:
  assumes "ccp_nak_deflate go p = (tr, q)"
  shows "ccp_le tr go" "ccp_sizes go \<Longrightarrow> ccp_sizes tr" "bsd_compress tr = bsd_compress go" "bsd_bits tr = bsd_bits go"
proof -
  consider "tr = go" | "tr = go\<lparr>deflate := False\<rparr>"
    | n where "tr = go\<lparr>deflate_size := n\<rparr>" "DEFLATE_MIN_SIZE \<le> n" "n < deflate_size go"
    using assms DEFLATE_SIZE_min unfolding ccp_nak_deflate_def Let_def
    by (simp split: if_split_asm) blast+
  then have "ccp_le tr go \<and> (ccp_sizes go \<longrightarrow> ccp_sizes tr) \<and> bsd_compress tr = bsd_compress go \<and>
      bsd_bits tr = bsd_bits go"
    by cases (auto simp: ccp_le_def ccp_sizes_def)
  then show "ccp_le tr go" "ccp_sizes go \<Longrightarrow> ccp_sizes tr" "bsd_compress tr = bsd_compress go" "bsd_bits tr = bsd_bits go"
    by blast+
qed

text \<open>A Nak only reduces what we ask for.\<close>

lemma ccp_nak_le: "ccp_le (ccp_nak_try go p) go" "ccp_sizes go \<Longrightarrow> ccp_sizes (ccp_nak_try go p)"
proof -
  obtain tr q where d: "ccp_nak_deflate go p = (tr, q)" by fastforce
  note dl = ccp_nak_deflate_le [OF d]
  consider "ccp_nak_try go p = tr" | "ccp_nak_try go p = tr\<lparr>bsd_compress := False\<rparr>"
    | n where "ccp_nak_try go p = tr\<lparr>bsd_bits := n\<rparr>" "0 \<le> n" "n < bsd_bits tr"
    using BSD_NBITS_range dl(4) unfolding ccp_nak_try_def d Let_def prod.case by metis
  then have "ccp_le (ccp_nak_try go p) tr \<and> (ccp_sizes tr \<longrightarrow> ccp_sizes (ccp_nak_try go p))"
    by cases (auto simp: ccp_le_def ccp_sizes_def)
  then show "ccp_le (ccp_nak_try go p) go" "ccp_sizes go \<Longrightarrow> ccp_sizes (ccp_nak_try go p)"
    using dl ccp_le_trans by blast+
qed

lemma has_ci_nonempty: "has_ci t n p \<Longrightarrow> n \<in> {CILEN_PREDICTOR_1, CILEN_PREDICTOR_2} \<Longrightarrow> p \<noteq> []"
  by (auto simp: has_ci_def ppp_consts)

lemma ccp_rej_deflate_le:
  assumes "ccp_rej_deflate go p = Some (tr, q)"
  shows "ccp_le tr go" "ccp_sizes go \<Longrightarrow> ccp_sizes tr"
    "bsd_compress tr = bsd_compress go" "predictor_1 tr = predictor_1 go" "predictor_2 tr = predictor_2 go"
    "(tr, q) = (go, p) \<or> ccp_count tr < ccp_count go"
proof -
  have "tr = go \<and> q = p \<or>
    deflate go \<and> deflate_correct go \<and> tr = go\<lparr>deflate_correct := False\<rparr> \<or>
    deflate go \<and> tr = go\<lparr>deflate_correct := False, deflate := False\<rparr> \<or>
    deflate go \<and> tr = go\<lparr>deflate_draft := False, deflate := False\<rparr> \<or>
    deflate go \<and> tr = go\<lparr>deflate_correct := False, deflate_draft := False, deflate := False\<rparr>"
  proof (cases "deflate go \<and> has_ci (deflate_type go) CILEN_DEFLATE p")
    case False
    with assms show ?thesis by (auto simp: ccp_rej_deflate_def)
  next
    case True
    with assms have r: "is_deflate_ci (deflate_type go) (deflate_size go) p"
      by (simp add: ccp_rej_deflate_def split: if_split_asm)
    show ?thesis
      using assms True unfolding ccp_rej_deflate_def Let_def
      by (cases "deflate_correct go"; cases "deflate_draft go") (simp_all add: r split: if_split_asm)
  qed
  then consider "tr = go" "q = p"
    | "deflate go" "deflate_correct go" "tr = go\<lparr>deflate_correct := False\<rparr>"
    | "deflate go" "tr = go\<lparr>deflate_correct := False, deflate := False\<rparr>"
    | "deflate go" "tr = go\<lparr>deflate_draft := False, deflate := False\<rparr>"
    | "deflate go" "tr = go\<lparr>deflate_correct := False, deflate_draft := False, deflate := False\<rparr>"
    by blast
  then have "ccp_le tr go \<and>
      (ccp_sizes go \<longrightarrow> ccp_sizes tr) \<and>
      bsd_compress tr = bsd_compress go \<and>
      predictor_1 tr = predictor_1 go \<and>
      predictor_2 tr = predictor_2 go \<and>
      ((tr, q) = (go, p) \<or> ccp_count tr < ccp_count go)"
    by cases (simp_all add: ccp_le_def ccp_sizes_def ccp_count_def)
  then show "ccp_le tr go" "ccp_sizes go \<Longrightarrow> ccp_sizes tr"
    "bsd_compress tr = bsd_compress go" "predictor_1 tr = predictor_1 go" "predictor_2 tr = predictor_2 go"
    "(tr, q) = (go, p) \<or> ccp_count tr < ccp_count go"
    by blast+
qed

lemma ccp_rej_bsd_le:
  assumes "ccp_rej_bsd go (tr, p) = Some (tr', q)" and "bsd_compress tr = bsd_compress go"
  shows "ccp_le tr' tr" "ccp_sizes tr \<Longrightarrow> ccp_sizes tr'" "predictor_1 tr' = predictor_1 tr" "predictor_2 tr' = predictor_2 tr"
    "(tr', q) = (tr, p) \<or> ccp_count tr' < ccp_count tr"
proof -
  consider "tr' = tr" "q = p" | "bsd_compress tr" "tr' = tr\<lparr>bsd_compress := False\<rparr>"
    using assms unfolding ccp_rej_bsd_def by (simp split: if_split_asm)
  then have "ccp_le tr' tr \<and>
      (ccp_sizes tr \<longrightarrow> ccp_sizes tr') \<and>
      predictor_1 tr' = predictor_1 tr \<and>
      predictor_2 tr' = predictor_2 tr \<and>
      ((tr', q) = (tr, p) \<or> ccp_count tr' < ccp_count tr)"
    by cases (simp_all add: ccp_le_def ccp_sizes_def ccp_count_def)
  then show "ccp_le tr' tr" "ccp_sizes tr \<Longrightarrow> ccp_sizes tr'" "predictor_1 tr' = predictor_1 tr" "predictor_2 tr' = predictor_2 tr"
    "(tr', q) = (tr, p) \<or> ccp_count tr' < ccp_count tr"
    by blast+
qed

lemma ccp_rej_predictors_le:
  assumes "ccp_rej_predictors go (tr, p) = Some tr'" and "predictor_1 tr = predictor_1 go" "predictor_2 tr = predictor_2 go"
  shows "ccp_le tr' tr" "ccp_sizes tr \<Longrightarrow> ccp_sizes tr'" "p \<noteq> [] \<Longrightarrow> ccp_count tr' < ccp_count tr" "p = [] \<Longrightarrow> tr' = tr"
proof -
  consider "tr' = tr" "p = []" | "predictor_1 tr" "tr' = tr\<lparr>predictor_1 := False\<rparr>" "p \<noteq> []"
    | "predictor_2 tr" "tr' = tr\<lparr>predictor_2 := False\<rparr>" "p \<noteq> []"
    | "predictor_1 tr" "predictor_2 tr" "tr' = tr\<lparr>predictor_1 := False, predictor_2 := False\<rparr>" "p \<noteq> []"
    using assms has_ci_nonempty [of CI_PREDICTOR_1 CILEN_PREDICTOR_1 p]
      has_ci_nonempty [of CI_PREDICTOR_2 CILEN_PREDICTOR_2 p] unfolding ccp_rej_predictors_def Let_def prod.case
    by (simp split: if_split_asm prod.split_asm)
  then have "ccp_le tr' tr \<and>
      (ccp_sizes tr \<longrightarrow> ccp_sizes tr') \<and>
      (p \<noteq> [] \<longrightarrow> ccp_count tr' < ccp_count tr) \<and>
      (p = [] \<longrightarrow> tr' = tr)"
    by cases (simp_all add: ccp_le_def ccp_sizes_def ccp_count_def)
  then show "ccp_le tr' tr" "ccp_sizes tr \<Longrightarrow> ccp_sizes tr'" "p \<noteq> [] \<Longrightarrow> ccp_count tr' < ccp_count tr" "p = [] \<Longrightarrow> tr' = tr"
    by blast+
qed

lemma ccp_rej_sound:
  assumes "ccp_rej_try go p = Some tr"
  shows "ccp_le tr go" and "ccp_sizes go \<Longrightarrow> ccp_sizes tr"
    and "p \<noteq> [] \<Longrightarrow> ccp_count tr < ccp_count go" and "p = [] \<Longrightarrow> tr = go"
proof -
  obtain t1 p1 t2 p2 where 1: "ccp_rej_deflate go p = Some (t1, p1)"
    and 2: "ccp_rej_bsd go (t1, p1) = Some (t2, p2)" and 3: "ccp_rej_predictors go (t2, p2) = Some tr"
    using assms by (auto simp: ccp_rej_try_def bind_eq_Some_conv)
  note d = ccp_rej_deflate_le [OF 1]
  note b = ccp_rej_bsd_le [OF 2 d(3)]
  have e: "predictor_1 t2 = predictor_1 go" "predictor_2 t2 = predictor_2 go"
    using d b by simp_all
  note q = ccp_rej_predictors_le [OF 3 e]
  show "ccp_le tr go"
    using q(1) b(1) d(1) by (blast intro: ccp_le_trans)
  show "ccp_sizes tr" if "ccp_sizes go"
    using q(2) b(2) d(2) that by blast
  have "ccp_count tr \<le> ccp_count t2"
    using q(3,4) by (cases "p2 = []") auto
  then show "ccp_count tr < ccp_count go" if "p \<noteq> []"
    using d(6) b(5) q(3,4) that by (cases "p2 = []") auto
  show "tr = go" if "p = []"
    using 1 2 q(4) that by (auto simp: ccp_rej_deflate_def ccp_rej_bsd_def has_ci_def ppp_consts)
qed

end
