(* ===== verification/Ccp_Request.thy ===== *)
theory Ccp_Request
  imports Ccp_Negotiation
begin

text \<open>
  What \<^verbatim>\<open>ccp_reqci\<close> promises: an acknowledged request is one we allow, the reply is not longer than the
  request, and the loop over the sizes ends unless the peer asks for BSD-Compress with a code size
  below the smallest one, when it may run on for as long as the kernel reports a lack of memory.
\<close>

section \<open>Definitions\<close>

text \<open>What the peer may be granted: the methods we allow, with sizes within our limits.\<close>

definition ccp_granted :: "ccp_options \<Rightarrow> ccp_options \<Rightarrow> bool" where
  "ccp_granted ao ho \<longleftrightarrow>
     (deflate ho \<longrightarrow> deflate ao \<and> DEFLATE_MIN_SIZE \<le> deflate_size ho \<and> deflate_size ho \<le> deflate_size ao) \<and>
     (bsd_compress ho \<longrightarrow> bsd_compress ao \<and> BSD_MIN_BITS \<le> bsd_bits ho \<and> bsd_bits ho \<le> bsd_bits ao) \<and>
     (predictor_1 ho \<longrightarrow> predictor_1 ao) \<and> (predictor_2 ho \<longrightarrow> predictor_2 ao)"

text \<open>A request whose first option is BSD-Compress with too small a code size.\<close>

definition small_bsd :: "bytes \<Rightarrow> bool" where
  "small_bsd inp \<longleftrightarrow> has_ci CI_BSD_COMPRESS CILEN_BSD_COMPRESS inp \<and> BSD_NBITS (inp ! 2) < BSD_MIN_BITS"

text \<open>
  One option: Deflate and BSD-Compress have the same shape, with the guard \<open>g\<close> that rejects, the
  size \<open>nb\<close>, the test \<open>bad\<close> and our own version \<open>ci1\<close> of the option.
\<close>

definition ccp_sized ::
  "(int \<Rightarrow> int) \<Rightarrow> int \<Rightarrow> bool \<Rightarrow> bool \<Rightarrow> bool \<Rightarrow> bool \<Rightarrow> int \<Rightarrow> ccp_options \<Rightarrow> ccp_options \<Rightarrow> bytes \<Rightarrow> bytes \<Rightarrow>
   'a sys_world_scheme \<Rightarrow> 'a sys_world_scheme ccp_ci_result" where
  "ccp_sized mk mn dn first g bad nb ho ho1 ci ci1 w =
     (if g then Some (Rej, ci, ho, w)
      else if bad \<and> dn then Some (Nak, ci, ho1, w)
      else if first then map_option (\<lambda>(v, ci, w). (v, ci, ho1, w))
        (ccp_shrink mk mn nb dn (if bad then ci1 else ci) nb (if bad then Nak else Ack) w)
      else Some (if bad then Nak else Ack, if bad then ci1 else ci, ho1, w))"

section \<open>The peer's request\<close>

lemma ccp_test_io: "w_ioctl (snd (ccp_test opt tx w)) = w_ioctl w"
  by (simp add: ccp_test_def ioctl_def Let_def)

lemma ccp_shrink_eq:
  "ccp_test ci True w = (res, v) \<Longrightarrow>
   ccp_shrink mk mn orig dn ci nb vd w =
     (if res > 0 then Some (vd, ci, v)
      else if res < 0 \<or> nb = mn \<or> dn then Some (Rej, ci[2 := word_of_int (mk orig)], v)
      else ccp_shrink mk mn orig dn (ci[2 := word_of_int (mk (nb - 1))]) (nb - 1) Nak v)"
  by (subst ccp_shrink.simps) simp

lemma ccp_shrink_returns:
  assumes "dn \<or> mn \<le> nb"
  shows "\<exists>r. ccp_shrink mk mn orig dn ci nb vd w = Some r"
  using assms
proof (induction "nat (nb - mn)" arbitrary: ci nb vd w rule: less_induct)
  case less
  obtain res v where t: "ccp_test ci True w = (res, v)" by fastforce
  show ?case
  proof (cases "res > 0 \<or> res < 0 \<or> nb = mn \<or> dn")
    case True
    then show ?thesis by (auto simp: ccp_shrink_eq [OF t])
  next
    case False
    with less.prems have "nat (nb - 1 - mn) < nat (nb - mn)" "dn \<or> mn \<le> nb - 1" by auto
    from less.hyps [OF this] False show ?thesis by (simp add: ccp_shrink_eq [OF t])
  qed
qed

text \<open>From below the smallest size the loop does not end while the kernel has no memory.\<close>

lemma ccp_shrink_hangs:
  assumes "\<not> dn" and "nb < mn" and "\<And>k. w_ioctl w k = Io_enobufs"
  shows "ccp_shrink mk mn orig dn ci nb vd w = None"
proof -
  have "\<not> (\<not> dn \<and> nb < mn \<and> (\<forall>k. w_ioctl w k = Io_enobufs))"
    if "ccp_shrink mk mn orig dn ci nb vd w = Some r" for mk mn orig dn ci nb vd r and w :: "'a sys_world_scheme"
    using that
  proof (rule ccp_shrink.raw_induct [rotated])
    fix rec dn ci vd r and mk :: "int \<Rightarrow> int" and mn orig nb :: int and w :: "'a sys_world_scheme"
    assume IH: "\<And>mk mn orig dn ci nb vd w r. rec mk mn orig dn ci nb vd w = Some r \<Longrightarrow>
        \<not> (\<not> dn \<and> nb < mn \<and> (\<forall>k. w_ioctl w k = Io_enobufs))"
      and r: "(case ccp_test ci True w of (res, w) \<Rightarrow>
        if res > 0 then Some (vd, ci, w)
        else if res < 0 \<or> nb = mn \<or> dn then Some (Rej, ci[2 := word_of_int (mk orig)], w)
        else rec mk mn orig dn (ci[2 := word_of_int (mk (nb - 1))]) (nb - 1) Nak w) = Some r"
    show "\<not> (\<not> dn \<and> nb < mn \<and> (\<forall>k. w_ioctl w k = Io_enobufs))"
    proof
      assume a: "\<not> dn \<and> nb < mn \<and> (\<forall>k. w_ioctl w k = Io_enobufs)"
      then obtain v where t: "ccp_test ci True w = (0, v)" "w_ioctl v = w_ioctl w"
        by (simp add: ccp_test_def ioctl_def)
      moreover have "nb \<noteq> mn"
        using a by simp
      ultimately have "rec mk mn orig dn (ci[2 := word_of_int (mk (nb - 1))]) (nb - 1) Nak v = Some r"
        using r a by simp
      from IH [OF this] a t(2) show False by simp
    qed
  qed
  with assms show ?thesis by (metis not_Some_eq)
qed

text \<open>It acknowledges only what it was given, and keeps the length of the option.\<close>

lemma ccp_shrink_result:
  assumes "ccp_shrink mk mn orig dn ci nb vd w = Some (vd', ci', w')"
  shows "length ci' = length ci \<and> (vd' = Ack \<longrightarrow> vd = Ack \<and> ci' = ci)"
proof -
  have "length (fst (snd r)) = length ci \<and> (fst r = Ack \<longrightarrow> vd = Ack \<and> fst (snd r) = ci)"
    if "ccp_shrink mk mn orig dn ci nb vd w = Some r" for mk mn orig dn ci nb vd r and w :: "'a sys_world_scheme"
    using that
  proof (rule ccp_shrink.raw_induct [rotated])
    fix rec dn ci vd r and mk :: "int \<Rightarrow> int" and mn orig nb :: int and w :: "'a sys_world_scheme"
    assume IH: "\<And>mk mn orig dn ci nb vd w r. rec mk mn orig dn ci nb vd w = Some r \<Longrightarrow>
        length (fst (snd r)) = length ci \<and> (fst r = Ack \<longrightarrow> vd = Ack \<and> fst (snd r) = ci)"
      and r: "(case ccp_test ci True w of (res, w) \<Rightarrow>
        if res > 0 then Some (vd, ci, w)
        else if res < 0 \<or> nb = mn \<or> dn then Some (Rej, ci[2 := word_of_int (mk orig)], w)
        else rec mk mn orig dn (ci[2 := word_of_int (mk (nb - 1))]) (nb - 1) Nak w) = Some r"
    obtain res v where t: "ccp_test ci True w = (res, v)" by fastforce
    show "length (fst (snd r)) = length ci \<and> (fst r = Ack \<longrightarrow> vd = Ack \<and> fst (snd r) = ci)"
      using r IH [of mk mn orig dn "ci[2 := word_of_int (mk (nb - 1))]" "nb - 1" Nak v r]
      by (auto simp: t split: if_split_asm)
  qed
  from this [OF assms] show ?thesis by simp
qed

lemma ccp_sized_result:
  assumes "ccp_sized mk mn dn first g bad nb ho ho1 ci ci1 w = Some (v, ci', ho', w')"
    and "length ci1 = length ci"
  shows "length ci' = length ci" and "v = Ack \<Longrightarrow> \<not> g \<and> \<not> bad \<and> ci' = ci \<and> ho' = ho1"
proof -
  have "length ci' = length ci \<and> (v = Ack \<longrightarrow> \<not> g \<and> \<not> bad \<and> ci' = ci \<and> ho' = ho1)"
    using assms ccp_shrink_result [of mk mn nb dn "if bad then ci1 else ci" nb "if bad then Nak else Ack" w v ci' w']
    by (auto simp: ccp_sized_def split: if_split_asm)
  then show "length ci' = length ci" "v = Ack \<Longrightarrow> \<not> g \<and> \<not> bad \<and> ci' = ci \<and> ho' = ho1"
    by blast+
qed

lemma ccp_sized_returns:
  "g \<or> dn \<or> \<not> first \<or> mn \<le> nb \<Longrightarrow> \<exists>r. ccp_sized mk mn dn first g bad nb ho ho1 ci ci1 w = Some r"
  using ccp_shrink_returns [of dn mn nb mk nb "if bad then ci1 else ci" "if bad then Nak else Ack" w]
  by (auto simp: ccp_sized_def)

lemma ccp_req_deflate_sized:
  "ccp_req_deflate ao dn first ho ci w =
     ccp_sized DEFLATE_MAKE_OPT DEFLATE_MIN_SIZE dn first
       (\<not> deflate ao \<or> length ci \<noteq> CILEN_DEFLATE \<or> (\<not> deflate_correct ao \<and> ci ! 0 = CI_DEFLATE) \<or>
         (\<not> deflate_draft ao \<and> ci ! 0 = CI_DEFLATE_DRAFT))
       (DEFLATE_METHOD (ci ! 2) \<noteq> DEFLATE_METHOD_VAL \<or> ci ! 3 \<noteq> DEFLATE_CHK_SEQUENCE \<or>
          DEFLATE_SIZE (ci ! 2) > deflate_size ao \<or> DEFLATE_SIZE (ci ! 2) < DEFLATE_MIN_SIZE)
       (DEFLATE_SIZE (ci ! 2)) ho (ho\<lparr>deflate := True, deflate_size := DEFLATE_SIZE (ci ! 2)\<rparr>) ci
       (ci[2 := word_of_int (DEFLATE_MAKE_OPT (deflate_size ao)), 3 := DEFLATE_CHK_SEQUENCE]) w"
  unfolding ccp_req_deflate_def ccp_sized_def Let_def by simp

lemma ccp_req_bsd_sized:
  "ccp_req_bsd ao dn first ho ci w =
     ccp_sized BSD_MAKE_OPT BSD_MIN_BITS dn first (\<not> bsd_compress ao \<or> length ci \<noteq> CILEN_BSD_COMPRESS)
       (BSD_VERSION (ci ! 2) \<noteq> BSD_CURRENT_VERSION \<or> BSD_NBITS (ci ! 2) > bsd_bits ao \<or>
          BSD_NBITS (ci ! 2) < BSD_MIN_BITS)
       (BSD_NBITS (ci ! 2)) ho (ho\<lparr>bsd_compress := True, bsd_bits := BSD_NBITS (ci ! 2)\<rparr>) ci
       (ci[2 := word_of_int (BSD_MAKE_OPT (bsd_bits ao))]) w"
  unfolding ccp_req_bsd_def ccp_sized_def Let_def by simp

lemma ccp_req_ci_result:
  assumes "ccp_req_ci ao dn first ho ci w = Some (v, ci', ho', w')"
  shows "length ci' = length ci" and "v = Ack \<Longrightarrow> ci' = ci \<and> (ccp_granted ao ho \<longrightarrow> ccp_granted ao ho')"
proof -
  have p: "length ci' = length ci \<and> (v = Ack \<longrightarrow> ci' = ci \<and> allowed \<and> ho' = ho2)"
    if "ccp_req_predictor allowed first ho ho2 ci w = Some (v, ci', ho', w')" for allowed ho2
    using that by (auto simp: ccp_req_predictor_def Let_def split: if_split_asm prod.split_asm)
  have "length ci' = length ci \<and> (v = Ack \<longrightarrow> ci' = ci \<and> (ccp_granted ao ho \<longrightarrow> ccp_granted ao ho'))"
  proof -
    consider "ccp_req_deflate ao dn first ho ci w = Some (v, ci', ho', w')"
      | "ccp_req_bsd ao dn first ho ci w = Some (v, ci', ho', w')"
      | "ccp_req_predictor (predictor_1 ao) first ho (ho\<lparr>predictor_1 := True\<rparr>) ci w = Some (v, ci', ho', w')"
      | "ccp_req_predictor (predictor_2 ao) first ho (ho\<lparr>predictor_2 := True\<rparr>) ci w = Some (v, ci', ho', w')"
      | "v = Rej" "ci' = ci"
      using assms by (auto simp: ccp_req_ci_def Let_def split: if_split_asm)
    then show ?thesis
    proof cases
      case 1
      note r = ccp_sized_result [OF 1 [unfolded ccp_req_deflate_sized]]
      then show ?thesis by (auto simp: ccp_granted_def)
    next
      case 2
      note r = ccp_sized_result [OF 2 [unfolded ccp_req_bsd_sized]]
      then show ?thesis by (auto simp: ccp_granted_def)
    next
      case 3
      from p [OF this] show ?thesis by (auto simp: ccp_granted_def)
    next
      case 4
      from p [OF this] show ?thesis by (auto simp: ccp_granted_def)
    qed simp
  qed
  then show "length ci' = length ci" "v = Ack \<Longrightarrow> ci' = ci \<and> (ccp_granted ao ho \<longrightarrow> ccp_granted ao ho')"
    by blast+
qed

lemma ccp_settle_props:
  "length (snd (ccp_settle dn v ci s)) \<le> length (snd s) + length ci"
  "fst (ccp_settle dn v ci s) = Ack \<longleftrightarrow> v = Ack \<and> fst s = Ack"
  "v = Ack \<Longrightarrow> ccp_settle dn v ci s = s"
  by (cases s; cases v; cases "fst s"; simp add: ccp_settle_def Let_def)+

lemma ccp_req_loop_simps:
  "ccp_req_loop ao dn first [] s ho w = Some (fst s, snd s, ho, w)"
  "l \<noteq> [] \<Longrightarrow> bad_ci l \<Longrightarrow> ccp_req_loop ao dn first l s ho w =
     Some (fst (ccp_settle dn Rej l s), snd (ccp_settle dn Rej l s), ho, w)"
  "l \<noteq> [] \<Longrightarrow> \<not> bad_ci l \<Longrightarrow> ccp_req_loop ao dn first l s ho w =
     (case ccp_req_ci ao dn first ho (take (unat (l ! 1)) l) w of
        None \<Rightarrow> None
      | Some (v, ci, ho, w) \<Rightarrow>
          ccp_req_loop ao dn False (drop (unat (l ! 1)) l) (ccp_settle dn v ci s) ho w)"
  by (subst ccp_req_loop.simps, simp add: Let_def)+

lemma ccp_req_loop_result:
  assumes "ccp_req_loop ao dn first l s ho w = Some (v, out, ho', w')"
  shows "length out \<le> length (snd s) + length l"
    and "v = Ack \<Longrightarrow> fst s = Ack \<and> (ccp_granted ao ho \<longrightarrow> ccp_granted ao ho')"
proof -
  have "length out \<le> length (snd s) + length l \<and>
      (v = Ack \<longrightarrow> fst s = Ack \<and> (ccp_granted ao ho \<longrightarrow> ccp_granted ao ho'))"
    using assms
  proof (induction ao dn first l s ho w rule: ccp_req_loop.induct)
    case (1 ao dn first l s ho w)
    show ?case
    proof (cases "l = [] \<or> bad_ci l")
      case True
      with 1(2) show ?thesis
        using ccp_settle_props(1,2) [of dn Rej l s] by (cases "l = []") (auto simp: ccp_req_loop_simps)
    next
      case False
      define ci where "ci = take (unat (l ! 1)) l"
      from False 1(2) obtain v1 ci1 ho1 w1 where c: "ccp_req_ci ao dn first ho ci w = Some (v1, ci1, ho1, w1)"
        and l: "ccp_req_loop ao dn False (drop (unat (l ! 1)) l) (ccp_settle dn v1 ci1 s) ho1 w1 = Some (v, out, ho', w')"
        by (auto simp: ccp_req_loop_simps ci_def split: option.split_asm)
      note r = ccp_req_ci_result [OF c]
      have st: "length (snd (ccp_settle dn v1 ci1 s)) \<le> length (snd s) + length ci1"
        "fst (ccp_settle dn v1 ci1 s) = Ack \<longleftrightarrow> v1 = Ack \<and> fst s = Ack"
        by (rule ccp_settle_props)+
      have len: "length ci + length (drop (unat (l ! 1)) l) = length l"
        using False by (simp add: ci_def bad_ci_def)
      have "length out \<le> length (snd (ccp_settle dn v1 ci1 s)) + length (drop (unat (l ! 1)) l) \<and>
          (v = Ack \<longrightarrow> fst (ccp_settle dn v1 ci1 s) = Ack \<and> (ccp_granted ao ho1 \<longrightarrow> ccp_granted ao ho'))"
        using 1(1) [OF _ _ c [unfolded ci_def] refl refl refl l] False by simp
      with r st len show ?thesis by auto
    qed
  qed
  then show "length out \<le> length (snd s) + length l"
    "v = Ack \<Longrightarrow> fst s = Ack \<and> (ccp_granted ao ho \<longrightarrow> ccp_granted ao ho')" by blast+
qed

lemma ccp_req_ci_returns:
  assumes "dn \<or> \<not> first \<or> \<not> small_bsd ci" and "unat (ci ! 1) = length ci"
  shows "\<exists>r. ccp_req_ci ao dn first ho ci w = Some r"
proof -
  have "\<exists>r. ccp_req_deflate ao dn first ho ci w = Some r"
    unfolding ccp_req_deflate_sized by (rule ccp_sized_returns) (simp add: DEFLATE_SIZE_min)
  moreover have "\<exists>r. ccp_req_bsd ao dn first ho ci w = Some r" if "ci ! 0 = CI_BSD_COMPRESS"
    unfolding ccp_req_bsd_sized
  proof (rule ccp_sized_returns)
    have "ci ! 1 = of_nat CILEN_BSD_COMPRESS" if "length ci = CILEN_BSD_COMPRESS"
      using that assms(2) by (metis of_nat_unat ucast_id)
    then show "(\<not> bsd_compress ao \<or> length ci \<noteq> CILEN_BSD_COMPRESS) \<or> dn \<or> \<not> first \<or> BSD_MIN_BITS \<le> BSD_NBITS (ci ! 2)"
      using assms(1) that by (auto simp: small_bsd_def has_ci_def)
  qed
  moreover have "\<exists>r. ccp_req_predictor a first ho ho2 ci w = Some r" for a ho2
    by (auto simp: ccp_req_predictor_def Let_def split: prod.split)
  ultimately show ?thesis
    by (auto simp: ccp_req_ci_def Let_def)
qed

text \<open>The loop returns unless the first option is a BSD-Compress option with a small code size.\<close>

lemma small_bsd_take: "\<not> bad_ci l \<Longrightarrow> small_bsd (take (unat (l ! 1)) l) \<longleftrightarrow> small_bsd l"
  by (auto simp: small_bsd_def has_ci_def bad_ci_def ppp_consts)

lemma ccp_req_loop_returns:
  "dn \<or> \<not> first \<or> \<not> small_bsd l \<Longrightarrow> \<exists>r. ccp_req_loop ao dn first l s ho w = Some r"
proof (induction ao dn first l s ho w rule: ccp_req_loop.induct)
  case (1 ao dn first l s ho w)
  show ?case
  proof (cases "l = [] \<or> bad_ci l")
    case True
    then show ?thesis by (cases "l = []") (auto simp: ccp_req_loop_simps)
  next
    case False
    with 1(2) obtain v ci ho1 w1 where c: "ccp_req_ci ao dn first ho (take (unat (l ! 1)) l) w = Some (v, ci, ho1, w1)"
      using ccp_req_ci_returns [of dn first "take (unat (l ! 1)) l" ao ho w] small_bsd_take [of l]
      by (auto simp: bad_ci_def)
    have "\<exists>r. ccp_req_loop ao dn False (drop (unat (l ! 1)) l) (ccp_settle dn v ci s) ho1 w1 = Some r"
      using 1(1) [OF _ _ c refl refl refl] False by simp
    with False c show ?thesis by (simp add: ccp_req_loop_simps)
  qed
qed

lemma ccp_req_returns:
  assumes "dn \<or> \<not> small_bsd inp"
  shows "\<exists>r. ccp_req ao dn inp w = Some r"
proof -
  obtain v out ho w' where
    "ccp_req_loop ao dn True inp (Ack, []) (ccp_zero\<lparr>comp_method := (case inp of [] \<Rightarrow> -1 | t # _ \<Rightarrow> uint t)\<rparr>) w =
      Some (v, out, ho, w')"
    using ccp_req_loop_returns [of dn True inp] assms by (metis prod_cases4)
  then show ?thesis
    unfolding ccp_req_def Let_def by (cases v) auto
qed

text \<open>And then it need not return.\<close>

lemma ccp_req_hangs:
  assumes "small_bsd inp" and "bsd_compress ao" and "\<And>k. w_ioctl w k = Io_enobufs"
  shows "ccp_req ao False inp w = None"
proof -
  define ci where "ci = take (unat (inp ! 1)) inp"
  have inp: "inp \<noteq> []" "\<not> bad_ci inp" "length ci = CILEN_BSD_COMPRESS" "ci ! 0 = CI_BSD_COMPRESS" "ci ! 2 = inp ! 2"
    using assms(1) by (auto simp: ci_def small_bsd_def has_ci_def bad_ci_def ppp_consts)
  have "ccp_shrink BSD_MAKE_OPT BSD_MIN_BITS n False ci' (BSD_NBITS (ci ! 2)) v w = None" for n ci' v
    using assms(1,3) inp by (intro ccp_shrink_hangs) (auto simp: small_bsd_def)
  then have "ccp_req_ci ao False True ho ci w = None" for ho
    using assms(2) inp by (simp add: ccp_req_ci_def ccp_req_bsd_sized ccp_sized_def ppp_consts)
  then have "ccp_req_loop ao False True inp s ho w = None" for s ho
    using inp(1,2) by (simp add: ccp_req_loop_simps ci_def)
  then show ?thesis
    by (simp add: ccp_req_def Let_def)
qed

text \<open>The reply: acknowledged is the request itself, and no more than we grant.\<close>

lemma ccp_req_sound:
  assumes "ccp_req ao dn inp w = Some (code, out, allrej, ho, w')"
  shows "code \<in> {CONFACK, CONFNAK, CONFREJ}" and "length out \<le> length inp"
    and "code = CONFACK \<Longrightarrow> out = inp \<and> ccp_granted ao ho"
proof -
  define h where "h = ccp_zero\<lparr>comp_method := (case inp of [] \<Rightarrow> -1 | t # _ \<Rightarrow> uint t)\<rparr>"
  have g: "ccp_granted ao h"
    by (simp add: h_def ccp_granted_def ccp_zero_def)
  obtain v o1 where l: "ccp_req_loop ao dn True inp (Ack, []) h w = Some (v, o1, ho, w')"
    and c: "(v = Ack \<and> code = CONFACK \<and> out = inp) \<or> (v = Nak \<and> code = CONFNAK \<and> out = o1) \<or>
      (v = Rej \<and> code = CONFREJ \<and> out = o1)"
    using assms by (auto simp: ccp_req_def h_def [symmetric] Let_def split: option.split_asm verdict.split_asm)
  note r = ccp_req_loop_result [OF l]
  have "code \<in> {CONFACK, CONFNAK, CONFREJ} \<and> length out \<le> length inp \<and>
      (code = CONFACK \<longrightarrow> out = inp \<and> ccp_granted ao ho)"
    using c r g by (auto simp: ppp_consts)
  then show "code \<in> {CONFACK, CONFNAK, CONFREJ}" "length out \<le> length inp"
    "code = CONFACK \<Longrightarrow> out = inp \<and> ccp_granted ao ho" by blast+
qed

text \<open>A Deflate option that the kernel does not know is returned in a Reject with other contents.\<close>

lemma ccp_reject_changes:
  assumes "deflate ao" and "deflate_correct ao" and "w_ioctl w (w_ioctl_idx w) = Io_error"
    and "DEFLATE_METHOD x \<noteq> DEFLATE_METHOD_VAL \<or> y \<noteq> DEFLATE_CHK_SEQUENCE"
  shows "\<exists>ho w'. ccp_req ao False [CI_DEFLATE, 4, x, y] w =
    Some (CONFREJ, deflate_ci CI_DEFLATE (DEFLATE_SIZE x), True, ho, w')"
proof -
  obtain v where t: "ccp_test ci True w = (-1, v ci)" for ci
    using assms(3) by (simp add: ccp_test_def ioctl_def)
  have sh: "ccp_shrink mk mn n False ci nb vd w = Some (Rej, ci[2 := word_of_int (mk n)], v ci)" for mk mn n ci nb vd
    by (simp add: ccp_shrink_eq [OF t])
  have bad: "\<not> bad_ci [CI_DEFLATE, 4, x, y]"
    by (simp add: bad_ci_def)
  have ci: "ccp_req_ci ao False True ho [CI_DEFLATE, 4, x, y] w =
     Some (Rej, deflate_ci CI_DEFLATE (DEFLATE_SIZE x),
       ho\<lparr>deflate := True, deflate_size := DEFLATE_SIZE x\<rparr>, v (deflate_ci CI_DEFLATE (deflate_size ao)))" for ho
    using assms(1,2,4) by (auto simp: ccp_req_ci_def ccp_req_deflate_sized ccp_sized_def sh deflate_ci_def ppp_consts)
  then show ?thesis
    by (simp add: ccp_req_def ccp_req_loop_simps bad ccp_settle_def CILEN_DEFLATE_def)
qed

end
