(* ===== verification/Ipcp_Options.thy ===== *)
theory Ipcp_Options
  imports Lcp_Negotiation
begin

text \<open>
  The configuration options of IPCP (\<^verbatim>\<open>ipcp.c\<close>), as functions on the option structures and the
  packet, macro by macro. Addresses are kept in host byte order, so that the pairs
  \<^verbatim>\<open>htonl\<close>/\<^verbatim>\<open>GETLONG\<close> and \<^verbatim>\<open>ntohl\<close>/\<^verbatim>\<open>PUTLONG\<close> are the plain 32 bit accesses. \<^verbatim>\<open>dnsaddr\<close> and \<^verbatim>\<open>winsaddr\<close> are pairs.
\<close>

section \<open>Definitions\<close>

definition CI_ADDRS :: u8 where [ppp_consts]: "CI_ADDRS = 1"
definition CI_COMPRESSTYPE :: u8 where [ppp_consts]: "CI_COMPRESSTYPE = 2"
definition CI_ADDR :: u8 where [ppp_consts]: "CI_ADDR = 3"
definition CI_MS_DNS1 :: u8 where [ppp_consts]: "CI_MS_DNS1 = 129"
definition CI_MS_WINS1 :: u8 where [ppp_consts]: "CI_MS_WINS1 = 130"
definition CI_MS_DNS2 :: u8 where [ppp_consts]: "CI_MS_DNS2 = 131"
definition CI_MS_WINS2 :: u8 where [ppp_consts]: "CI_MS_WINS2 = 132"
definition IPCP_VJ_COMP :: int where [ppp_consts]: "IPCP_VJ_COMP = 0x002d"
definition IPCP_VJ_COMP_OLD :: int where [ppp_consts]: "IPCP_VJ_COMP_OLD = 0x0037"
definition MAX_STATES :: int where [ppp_consts]: "MAX_STATES = 16"

record ipcp_options =
  neg_addr :: bool
  old_addrs :: bool
  req_addr :: bool
  default_route :: bool
  proxy_arp :: bool
  neg_vj :: bool
  old_vj :: bool
  accept_local :: bool
  accept_remote :: bool
  req_dns1 :: bool
  req_dns2 :: bool
  vj_protocol :: int
  maxslotindex :: int
  cflag :: bool
  ouraddr :: u32
  hisaddr :: u32
  dnsaddr :: "u32 \<times> u32"
  winsaddr :: "u32 \<times> u32"

definition ipcp_zero :: ipcp_options where
  "ipcp_zero = \<lparr>neg_addr = False, old_addrs = False, req_addr = False, default_route = False,
     proxy_arp = False, neg_vj = False, old_vj = False, accept_local = False, accept_remote = False,
     req_dns1 = False, req_dns2 = False, vj_protocol = 0, maxslotindex = 0, cflag = False,
     ouraddr = 0, hisaddr = 0, dnsaddr = (0, 0), winsaddr = (0, 0)\<rparr>"

subsection \<open>Our request\<close>

text \<open>\<^verbatim>\<open>ipcp_resetci\<close> on the wanted options, and the options it starts with.\<close>

definition ipcp_reset_wo :: "ipcp_options \<Rightarrow> bool \<Rightarrow> bool \<Rightarrow> ipcp_options \<Rightarrow> ipcp_options" where
  "ipcp_reset_wo ao nodefault usepeerdns wo =
     wo\<lparr>req_addr := neg_addr wo \<and> neg_addr ao,
        accept_local := accept_local wo \<or> ouraddr wo = 0 \<or> nodefault,
        accept_remote := accept_remote wo \<or> hisaddr wo = 0,
        req_dns1 := usepeerdns, req_dns2 := usepeerdns\<rparr>"

text \<open>\<^verbatim>\<open>ipcp_cilen\<close> first goes back to the old forms of the options where the peer uses them.\<close>

definition ipcp_old_forms :: "ipcp_options \<Rightarrow> ipcp_options \<Rightarrow> ipcp_options \<Rightarrow> ipcp_options" where
  "ipcp_old_forms wo ho go =
     (let go = (if neg_addr wo \<and> \<not> neg_addr go \<and> \<not> old_addrs go
                then go\<lparr>neg_addr := True, old_addrs := True\<rparr> else go)
      in if neg_vj wo \<and> \<not> neg_vj go \<and> \<not> old_vj go \<and> neg_vj ho \<and> old_vj ho
         then go\<lparr>neg_vj := True, old_vj := True, vj_protocol := vj_protocol ho\<rparr> else go)"

definition ipcp_cilen :: "ipcp_options \<Rightarrow> int" where
  "ipcp_cilen go =
     (if neg_addr go then if old_addrs go then 10 else 6 else 0) +
     (if neg_vj go then if old_vj go then 4 else 6 else 0) +
     (if req_dns1 go then 6 else 0) + (if req_dns2 go then 6 else 0)"

text \<open>
  The bytes of one option; \<open>addci_fit\<close> is the test of the \<^verbatim>\<open>ADDCI\<close> macros: an option that does not
  fit into \<open>len\<close> is left out and its flag cleared.
\<close>

definition ci_addr :: "bool \<Rightarrow> u32 \<Rightarrow> u32 \<Rightarrow> bytes" where
  "ci_addr old val1 val2 =
     (if old then [CI_ADDRS, 10] @ putlong val1 @ putlong val2 else [CI_ADDR, 6] @ putlong val1)"

definition ci_vj :: "int \<Rightarrow> bool \<Rightarrow> int \<Rightarrow> bool \<Rightarrow> bytes" where
  "ci_vj val old slots cf =
     (if old then [CI_COMPRESSTYPE, 4] @ putshort val
      else [CI_COMPRESSTYPE, 6] @ putshort val @ [word_of_int slots, if cf then 1 else 0])"

definition ci_dns :: "u8 \<Rightarrow> u32 \<Rightarrow> bytes" where
  "ci_dns opt addr = [opt, 6] @ putlong addr"

definition addci_fit ::
  "bool \<Rightarrow> bytes \<Rightarrow> (ipcp_options \<Rightarrow> ipcp_options) \<Rightarrow> bytes \<times> int \<times> ipcp_options \<Rightarrow>
   bytes \<times> int \<times> ipcp_options" where
  "addci_fit neg ci clr = (\<lambda>(out, len, go).
     if neg then
       (if len \<ge> int (length ci) then (out @ ci, len - int (length ci), go) else (out, len, clr go))
     else (out, len, go))"

definition ipcp_addci :: "ipcp_options \<Rightarrow> int \<Rightarrow> bytes \<times> int \<times> ipcp_options" where
  "ipcp_addci go len =
     (let s = addci_fit (neg_addr go) (ci_addr (old_addrs go) (ouraddr go) (hisaddr go))
                (\<lambda>go. go\<lparr>neg_addr := False\<rparr>) ([], len, go);
          s = addci_fit (neg_vj go) (ci_vj (vj_protocol go) (old_vj go) (maxslotindex go) (cflag go))
                (\<lambda>go. go\<lparr>neg_vj := False\<rparr>) s;
          s = addci_fit (req_dns1 go) (ci_dns CI_MS_DNS1 (fst (dnsaddr go)))
                (\<lambda>go. go\<lparr>req_dns1 := False\<rparr>) s;
          (out, left, go) = addci_fit (req_dns2 go) (ci_dns CI_MS_DNS2 (snd (dnsaddr go)))
                (\<lambda>go. go\<lparr>req_dns2 := False\<rparr>) s
      in (out, len - left, go))"

subsection \<open>The peer's Ack\<close>

definition ackciaddr :: "bool \<Rightarrow> bool \<Rightarrow> u32 \<Rightarrow> u32 \<Rightarrow> bytes \<Rightarrow> bytes option" where
  "ackciaddr neg old val1 val2 p =
     (if \<not> neg then Some p
      else if old then
        (case p of citype # cilen # a # b # c # d # e # f # g # i # rest \<Rightarrow>
           if cilen \<noteq> 10 \<or> citype \<noteq> CI_ADDRS then None
           else if val1 \<noteq> getlong a b c d then None
           else if val2 \<noteq> getlong e f g i then None else Some rest
         | _ \<Rightarrow> None)
      else
        (case p of citype # cilen # a # b # c # d # rest \<Rightarrow>
           if cilen \<noteq> 6 \<or> citype \<noteq> CI_ADDR then None
           else if val1 \<noteq> getlong a b c d then None else Some rest
         | _ \<Rightarrow> None))"

definition ackcivj :: "bool \<Rightarrow> int \<Rightarrow> bool \<Rightarrow> int \<Rightarrow> bool \<Rightarrow> bytes \<Rightarrow> bytes option" where
  "ackcivj neg val old slots cf p =
     (if \<not> neg then Some p
      else if old then
        (case p of citype # cilen # a # b # rest \<Rightarrow>
           if cilen \<noteq> 4 \<or> citype \<noteq> CI_COMPRESSTYPE then None
           else if getshort a b \<noteq> val then None else Some rest
         | _ \<Rightarrow> None)
      else
        (case p of citype # cilen # a # b # cimaxslotindex # cicflag # rest \<Rightarrow>
           if cilen \<noteq> 6 \<or> citype \<noteq> CI_COMPRESSTYPE then None
           else if getshort a b \<noteq> val then None
           else if uint cimaxslotindex \<noteq> slots then None
           else if cicflag \<noteq> (if cf then 1 else 0) then None else Some rest
         | _ \<Rightarrow> None))"

definition ackcidns :: "u8 \<Rightarrow> bool \<Rightarrow> u32 \<Rightarrow> bytes \<Rightarrow> bytes option" where
  "ackcidns opt neg addr p =
     (if \<not> neg then Some p
      else
        (case p of citype # cilen # a # b # c # d # rest \<Rightarrow>
           if cilen \<noteq> 6 \<or> citype \<noteq> opt then None
           else if addr \<noteq> getlong a b c d then None else Some rest
         | _ \<Rightarrow> None))"

definition ipcp_ackci :: "ipcp_options \<Rightarrow> bytes \<Rightarrow> bool" where
  "ipcp_ackci go p =
     (case do {
        p \<leftarrow> ackciaddr (neg_addr go) (old_addrs go) (ouraddr go) (hisaddr go) p;
        p \<leftarrow> ackcivj (neg_vj go) (vj_protocol go) (old_vj go) (maxslotindex go) (cflag go) p;
        p \<leftarrow> ackcidns CI_MS_DNS1 (req_dns1 go) (fst (dnsaddr go)) p;
        ackcidns CI_MS_DNS2 (req_dns2 go) (snd (dnsaddr go)) p
      } of
        None \<Rightarrow> False
      | Some p \<Rightarrow> p = [])"

subsection \<open>The peer's Nak\<close>

type_synonym ipcp_nak_state = "bytes \<times> ipcp_options \<times> ipcp_options"

definition nakciaddr :: "ipcp_options \<Rightarrow> ipcp_nak_state \<Rightarrow> ipcp_nak_state" where
  "nakciaddr go = (\<lambda>(p, no, tr).
     let use = (\<lambda>ciaddr1 ciaddr2 tr.
           let tr = (if accept_local go \<and> ciaddr1 \<noteq> 0 then tr\<lparr>ouraddr := ciaddr1\<rparr> else tr)
           in if accept_remote go \<and> ciaddr2 \<noteq> 0 then tr\<lparr>hisaddr := ciaddr2\<rparr> else tr)
     in if \<not> neg_addr go then (p, no, tr)
        else if old_addrs go then
          (case p of citype # cilen # a # b # c # d # e # f # g # i # rest \<Rightarrow>
             if cilen = 10 \<and> citype = CI_ADDRS
             then (rest, no\<lparr>old_addrs := True, neg_addr := True\<rparr>, use (getlong a b c d) (getlong e f g i) tr)
             else (p, no, tr)
           | _ \<Rightarrow> (p, no, tr))
        else
          (case p of citype # cilen # a # b # c # d # rest \<Rightarrow>
             if cilen = 6 \<and> citype = CI_ADDR
             then (rest, no\<lparr>neg_addr := True\<rparr>, use (getlong a b c d) 0 tr) else (p, no, tr)
           | _ \<Rightarrow> (p, no, tr)))"

definition nakcivj :: "ipcp_options \<Rightarrow> ipcp_nak_state \<Rightarrow> ipcp_nak_state" where
  "nakcivj go = (\<lambda>(p, no, tr).
     case p of
       citype # cilen # a # b # rest \<Rightarrow>
         if neg_vj go \<and> cilen = 6 \<and> length p \<ge> 6 \<and> citype = CI_COMPRESSTYPE then
           (drop 2 rest, no\<lparr>neg_vj := True\<rparr>,
            if getshort a b = IPCP_VJ_COMP then
              (let tr = tr\<lparr>old_vj := False\<rparr>;
                   tr = (if uint (rest ! 0) < maxslotindex go
                         then tr\<lparr>maxslotindex := uint (rest ! 0)\<rparr> else tr)
               in if rest ! 1 = 0 then tr\<lparr>cflag := False\<rparr> else tr)
            else tr\<lparr>neg_vj := False\<rparr>)
         else if neg_vj go \<and> cilen = 4 \<and> citype = CI_COMPRESSTYPE then
           (rest, no\<lparr>neg_vj := True\<rparr>,
            if getshort a b = IPCP_VJ_COMP \<or> getshort a b = IPCP_VJ_COMP_OLD
            then tr\<lparr>old_vj := True, vj_protocol := getshort a b\<rparr> else tr\<lparr>neg_vj := False\<rparr>)
         else (p, no, tr)
     | _ \<Rightarrow> (p, no, tr))"

definition nakcidns ::
  "u8 \<Rightarrow> bool \<Rightarrow> (ipcp_options \<Rightarrow> ipcp_options) \<Rightarrow> (u32 \<Rightarrow> ipcp_options \<Rightarrow> ipcp_options) \<Rightarrow>
   ipcp_nak_state \<Rightarrow> ipcp_nak_state" where
  "nakcidns opt neg mark set_dns = (\<lambda>(p, no, tr).
     case p of
       citype # cilen # a # b # c # d # rest \<Rightarrow>
         if neg \<and> cilen = 6 \<and> citype = opt then (rest, mark no, set_dns (getlong a b c d) tr)
         else (p, no, tr)
     | _ \<Rightarrow> (p, no, tr))"

definition ipcp_nak_known :: "ipcp_options \<Rightarrow> bytes \<Rightarrow> ipcp_nak_state" where
  "ipcp_nak_known go p =
     nakcidns CI_MS_DNS2 (req_dns2 go) (\<lambda>no. no\<lparr>req_dns2 := True\<rparr>)
       (\<lambda>v tr. tr\<lparr>dnsaddr := (fst (dnsaddr tr), v)\<rparr>)
       (nakcidns CI_MS_DNS1 (req_dns1 go) (\<lambda>no. no\<lparr>req_dns1 := True\<rparr>)
          (\<lambda>v tr. tr\<lparr>dnsaddr := (v, snd (dnsaddr tr))\<rparr>)
          (nakcivj go (nakciaddr go (p, ipcp_zero, go))))"

text \<open>The \<^verbatim>\<open>switch\<close> of the loop over the remaining options; \<open>None\<close> is \<^verbatim>\<open>goto bad\<close>.\<close>

definition ipcp_nak_extra ::
  "ipcp_options \<Rightarrow> u8 \<Rightarrow> nat \<Rightarrow> bytes \<Rightarrow> ipcp_options \<times> ipcp_options \<Rightarrow>
   (ipcp_options \<times> ipcp_options) option" where
  "ipcp_nak_extra go citype cilen body = (\<lambda>(no, tr).
     let long = (\<lambda>k. getlong (body ! k) (body ! (k + 1)) (body ! (k + 2)) (body ! (k + 3))) in
     if citype = CI_COMPRESSTYPE then
       (if neg_vj go \<or> neg_vj no \<or> (cilen \<noteq> 6 \<and> cilen \<noteq> 4) then None
        else Some (no\<lparr>neg_vj := True\<rparr>, tr))
     else if citype = CI_ADDRS then
       (if (neg_addr go \<and> old_addrs go) \<or> old_addrs no \<or> cilen \<noteq> 10 then None
        else
          (let tr = tr\<lparr>neg_addr := True, old_addrs := True\<rparr>;
               tr = (if long 0 \<noteq> 0 \<and> accept_local go then tr\<lparr>ouraddr := long 0\<rparr> else tr);
               tr = (if long 4 \<noteq> 0 \<and> accept_remote go then tr\<lparr>hisaddr := long 4\<rparr> else tr)
           in Some (no\<lparr>old_addrs := True\<rparr>, tr)))
     else if citype = CI_ADDR then
       (if neg_addr go \<or> neg_addr no \<or> cilen \<noteq> 6 then None
        else
          (let tr = tr\<lparr>old_addrs := False\<rparr>;
               tr = (if long 0 \<noteq> 0 \<and> accept_local go then tr\<lparr>ouraddr := long 0\<rparr> else tr);
               tr = (if ouraddr tr \<noteq> 0 then tr\<lparr>neg_addr := True\<rparr> else tr)
           in Some (no\<lparr>neg_addr := True\<rparr>, tr)))
     else Some (no, tr))"

text \<open>
  The loop itself. It does not test the option length against the header size, so that it need
  not end: \<open>None\<close> is "does not return", \<open>Some None\<close> is \<^verbatim>\<open>goto bad\<close>.
\<close>

partial_function (option) ipcp_nak_rest ::
  "ipcp_options \<Rightarrow> bytes \<Rightarrow> ipcp_options \<times> ipcp_options \<Rightarrow> ipcp_options option option" where
  "ipcp_nak_rest go p s =
     (if length p \<le> 2 then Some (Some (snd s))
      else if unat (p ! 1) > length p then Some None
      else (case ipcp_nak_extra go (p ! 0) (unat (p ! 1)) (drop 2 p) s of
              None \<Rightarrow> Some None
            | Some s' \<Rightarrow> ipcp_nak_rest go (drop (unat (p ! 1)) p) s'))"

definition ipcp_nak_try :: "ipcp_options \<Rightarrow> bytes \<Rightarrow> ipcp_options option option" where
  "ipcp_nak_try go p =
     (let (p, no, tr) = ipcp_nak_known go p in ipcp_nak_rest go p (no, tr))"

subsection \<open>The peer's Reject\<close>

type_synonym ipcp_rej_state = "ipcp_options \<times> bytes"

definition rejciaddr :: "ipcp_options \<Rightarrow> ipcp_rej_state \<Rightarrow> ipcp_rej_state option" where
  "rejciaddr go = (\<lambda>(tr, p).
     if \<not> neg_addr go then Some (tr, p)
     else if old_addrs go then
       (case p of citype # cilen # a # b # c # d # e # f # g # i # rest \<Rightarrow>
          if cilen = 10 \<and> citype = CI_ADDRS then
            (if getlong a b c d \<noteq> ouraddr go \<or> getlong e f g i \<noteq> hisaddr go then None
             else Some (tr\<lparr>neg_addr := False\<rparr>, rest))
          else Some (tr, p)
        | _ \<Rightarrow> Some (tr, p))
     else
       (case p of citype # cilen # a # b # c # d # rest \<Rightarrow>
          if cilen = 6 \<and> citype = CI_ADDR then
            (if getlong a b c d \<noteq> ouraddr go then None else Some (tr\<lparr>neg_addr := False\<rparr>, rest))
          else Some (tr, p)
        | _ \<Rightarrow> Some (tr, p)))"

definition rejcivj :: "ipcp_options \<Rightarrow> ipcp_rej_state \<Rightarrow> ipcp_rej_state option" where
  "rejcivj go = (\<lambda>(tr, p).
     if \<not> neg_vj go then Some (tr, p)
     else if old_vj go then
       (case p of citype # cilen # a # b # rest \<Rightarrow>
          if cilen = 4 \<and> citype = CI_COMPRESSTYPE then
            (if getshort a b \<noteq> vj_protocol go then None else Some (tr\<lparr>neg_vj := False\<rparr>, rest))
          else Some (tr, p)
        | _ \<Rightarrow> Some (tr, p))
     else
       (case p of citype # cilen # a # b # c # d # rest \<Rightarrow>
          if cilen = 6 \<and> citype = CI_COMPRESSTYPE then
            (if getshort a b \<noteq> vj_protocol go \<or> uint c \<noteq> maxslotindex go \<or>
                d \<noteq> (if cflag go then 1 else 0) then None
             else Some (tr\<lparr>neg_vj := False\<rparr>, rest))
          else Some (tr, p)
        | _ \<Rightarrow> Some (tr, p)))"

definition rejcidns ::
  "u8 \<Rightarrow> bool \<Rightarrow> u32 \<Rightarrow> (ipcp_options \<Rightarrow> ipcp_options) \<Rightarrow> ipcp_rej_state \<Rightarrow> ipcp_rej_state option" where
  "rejcidns opt neg addr clr = (\<lambda>(tr, p).
     case p of citype # cilen # a # b # c # d # rest \<Rightarrow>
       if neg \<and> cilen = 6 \<and> citype = opt then
         (if getlong a b c d \<noteq> addr then None else Some (clr tr, rest))
       else Some (tr, p)
     | _ \<Rightarrow> Some (tr, p))"

definition ipcp_rej_try :: "ipcp_options \<Rightarrow> bytes \<Rightarrow> ipcp_options option" where
  "ipcp_rej_try go p = do {
     s \<leftarrow> rejciaddr go (go, p);
     s \<leftarrow> rejcivj go s;
     s \<leftarrow> rejcidns CI_MS_DNS1 (req_dns1 go) (fst (dnsaddr go)) (\<lambda>tr. tr\<lparr>req_dns1 := False\<rparr>) s;
     (tr, p) \<leftarrow> rejcidns CI_MS_DNS2 (req_dns2 go) (snd (dnsaddr go)) (\<lambda>tr. tr\<lparr>req_dns2 := False\<rparr>) s;
     if p \<noteq> [] then None else Some tr
   }"

subsection \<open>The peer's request\<close>

text \<open>
  The \<^verbatim>\<open>switch\<close> of \<^verbatim>\<open>ipcp_reqci\<close> on one option with a well-formed header. The code writes its
  suggestion into the packet, so the result is the verdict, the option as it is left in the packet,
  the peer's options so far, our wanted options (\<^verbatim>\<open>req_addr\<close> may be cleared) and the current ones
  (\<^verbatim>\<open>ouraddr\<close> may be set).
\<close>

type_synonym ipcp_opts3 = "ipcp_options \<times> ipcp_options \<times> ipcp_options"
type_synonym ipcp_ci_result = "verdict \<times> bytes \<times> ipcp_opts3"

text \<open>The test on the peer's own address, shared by \<^verbatim>\<open>CI_ADDRS\<close> and \<^verbatim>\<open>CI_ADDR\<close>.\<close>

definition req_hisaddr :: "ipcp_options \<Rightarrow> u32 \<Rightarrow> verdict" where
  "req_hisaddr wo ciaddr1 =
     (if ciaddr1 \<noteq> hisaddr wo \<and> (ciaddr1 = 0 \<or> \<not> accept_remote wo) then Nak
      else if ciaddr1 = 0 \<and> hisaddr wo = 0 then Rej else Ack)"

definition ipcp_req_addrs ::
  "ipcp_options \<Rightarrow> bool \<Rightarrow> bytes \<Rightarrow> ipcp_opts3 \<Rightarrow> ipcp_ci_result" where
  "ipcp_req_addrs ao rej body = (\<lambda>(ho, wo, go).
     case body of
       [a, b, c, d, e, f, g, i] \<Rightarrow>
         if \<not> neg_addr ao then (Rej, body, ho, wo, go)
         else
           (let ciaddr1 = getlong a b c d; ciaddr2 = getlong e f g i;
                orc = req_hisaddr wo ciaddr1;
                his = (if orc = Nak \<and> \<not> rej then putlong (hisaddr wo) else [a, b, c, d])
            in if orc = Rej then (Rej, body, ho, wo\<lparr>req_addr := False\<rparr>, go)
               else
                 (let ho' = ho\<lparr>neg_addr := True, old_addrs := True, hisaddr := ciaddr1, ouraddr := ciaddr2\<rparr>
                  in if ciaddr2 = ouraddr wo then (orc, his @ [e, f, g, i], ho', wo, go)
                     else if ciaddr2 = 0 \<or> \<not> accept_local wo then
                       (Nak, his @ (if \<not> rej then putlong (ouraddr wo) else [e, f, g, i]), ho', wo, go)
                     else (orc, his @ [e, f, g, i], ho', wo, go\<lparr>ouraddr := ciaddr2\<rparr>)))
     | _ \<Rightarrow> (Rej, body, ho, wo, go))"

definition ipcp_req_addr ::
  "ipcp_options \<Rightarrow> bool \<Rightarrow> bytes \<Rightarrow> ipcp_opts3 \<Rightarrow> ipcp_ci_result" where
  "ipcp_req_addr ao rej body = (\<lambda>(ho, wo, go).
     case body of
       [a, b, c, d] \<Rightarrow>
         if \<not> neg_addr ao then (Rej, body, ho, wo, go)
         else
           (let ciaddr1 = getlong a b c d; orc = req_hisaddr wo ciaddr1 in
            if orc = Rej then (Rej, body, ho, wo\<lparr>req_addr := False\<rparr>, go)
            else (orc, if orc = Nak \<and> \<not> rej then putlong (hisaddr wo) else body,
                  ho\<lparr>neg_addr := True, hisaddr := ciaddr1\<rparr>, wo, go))
     | _ \<Rightarrow> (Rej, body, ho, wo, go))"

text \<open>\<^verbatim>\<open>CI_MS_DNS\<close> and \<^verbatim>\<open>CI_MS_WINS\<close>: our address is written even when the option is then rejected.\<close>

definition ipcp_req_ns :: "u32 \<Rightarrow> bytes \<Rightarrow> ipcp_opts3 \<Rightarrow> ipcp_ci_result" where
  "ipcp_req_ns addr body s =
     (case body of
        [a, b, c, d] \<Rightarrow>
          if addr = 0 then (Rej, body, s)
          else if getlong a b c d \<noteq> addr then (Nak, putlong addr, s) else (Ack, body, s)
      | _ \<Rightarrow> (Rej, body, s))"

definition ipcp_req_vj ::
  "ipcp_options \<Rightarrow> bool \<Rightarrow> bytes \<Rightarrow> ipcp_opts3 \<Rightarrow> ipcp_ci_result" where
  "ipcp_req_vj ao rej body = (\<lambda>(ho, wo, go).
     case body of
       [a, b] \<Rightarrow>
         if \<not> neg_vj ao \<or> (getshort a b \<noteq> IPCP_VJ_COMP \<and> getshort a b \<noteq> IPCP_VJ_COMP_OLD)
         then (Rej, body, ho, wo, go)
         else (Ack, body, ho\<lparr>neg_vj := True, vj_protocol := getshort a b, old_vj := True,
                             maxslotindex := MAX_STATES - 1, cflag := True\<rparr>, wo, go)
     | [a, b, slots, cf] \<Rightarrow>
         if \<not> neg_vj ao \<or> getshort a b \<noteq> IPCP_VJ_COMP then (Rej, body, ho, wo, go)
         else
           (let big = uint slots > maxslotindex ao; bad = cf \<noteq> 0 \<and> \<not> cflag ao
            in (if big \<or> bad then Nak else Ack,
                [a, b, if big \<and> \<not> rej then word_of_int (maxslotindex ao) else slots,
                 if bad \<and> \<not> rej then (if cflag wo then 1 else 0) else cf],
                ho\<lparr>neg_vj := True, vj_protocol := getshort a b, maxslotindex := uint slots,
                   cflag := cf \<noteq> 0\<rparr>, wo, go))
     | _ \<Rightarrow> (Rej, body, ho, wo, go))"

definition ipcp_req_ci ::
  "ipcp_options \<Rightarrow> bool \<Rightarrow> u8 \<Rightarrow> bytes \<Rightarrow> ipcp_opts3 \<Rightarrow> ipcp_ci_result" where
  "ipcp_req_ci ao rej citype body s =
     (if citype = CI_ADDRS then ipcp_req_addrs ao rej body s
      else if citype = CI_ADDR then ipcp_req_addr ao rej body s
      else if citype = CI_MS_DNS1 then ipcp_req_ns (fst (dnsaddr ao)) body s
      else if citype = CI_MS_DNS2 then ipcp_req_ns (snd (dnsaddr ao)) body s
      else if citype = CI_MS_WINS1 then ipcp_req_ns (fst (winsaddr ao)) body s
      else if citype = CI_MS_WINS2 then ipcp_req_ns (snd (winsaddr ao)) body s
      else if citype = CI_COMPRESSTYPE then ipcp_req_vj ao rej body s
      else (Rej, body, s))"

text \<open>
  What follows \<^verbatim>\<open>endswitch\<close>: \<open>out\<close> is the reply between \<^verbatim>\<open>inp\<close> and \<^verbatim>\<open>ucp\<close>, which is started anew when
  the first option is not acknowledged and again when the first one is rejected.
\<close>

definition ipcp_settle :: "bool \<Rightarrow> bytes \<Rightarrow> verdict \<Rightarrow> verdict \<times> bytes \<Rightarrow> verdict \<times> bytes" where
  "ipcp_settle rej ci orc = (\<lambda>(rc, out).
     case (if orc = Nak \<and> rej then Rej else orc) of
       Ack \<Rightarrow> if rc = Ack then (Ack, out @ ci) else (rc, out)
     | Nak \<Rightarrow> if rc = Rej then (Rej, out) else if rc = Ack then (Nak, ci) else (Nak, out @ ci)
     | Rej \<Rightarrow> if rc = Rej then (Rej, out @ ci) else (Rej, ci))"

function ipcp_req_loop ::
  "ipcp_options \<Rightarrow> bool \<Rightarrow> bytes \<Rightarrow> (verdict \<times> bytes) \<Rightarrow> ipcp_opts3 \<Rightarrow>
   (verdict \<times> bytes) \<times> ipcp_opts3" where
  "ipcp_req_loop ao rej l r s =
     (if l = [] then (r, s)
      else if bad_ci l then (ipcp_settle rej l Rej r, s)
      else
        (let citype = l ! 0; cilen = unat (l ! 1);
             (orc, body, s) = ipcp_req_ci ao rej citype (drop 2 (take cilen l)) s
         in ipcp_req_loop ao rej (drop cilen l) (ipcp_settle rej (take 2 l @ body) orc r) s))"
  by pat_completeness auto
termination
  by (relation "measure (\<lambda>(ao, rej, l, r, s). length l)") (auto simp: bad_ci_def)

declare ipcp_req_loop.simps [simp del]

text \<open>\<^verbatim>\<open>ipcp_reqci\<close> on the four option structures: the reply, its code, and what they become.\<close>

definition ipcp_req ::
  "ipcp_options \<Rightarrow> bool \<Rightarrow> bytes \<Rightarrow> ipcp_options \<Rightarrow> ipcp_options \<Rightarrow>
   u8 \<times> bytes \<times> ipcp_opts3" where
  "ipcp_req ao rej inp wo go =
     (let ((rc, out), ho, wo, go) = ipcp_req_loop ao rej inp (Ack, []) (ipcp_zero, wo, go);
          (rc, out, wo) =
            (if rc \<noteq> Rej \<and> \<not> neg_addr ho \<and> req_addr wo \<and> \<not> rej then
               (Nak, (if rc = Ack then [] else out) @ [CI_ADDR, 6] @ putlong (hisaddr wo),
                if rc = Ack then wo\<lparr>req_addr := False\<rparr> else wo)
             else (rc, out, wo))
      in (case rc of Ack \<Rightarrow> CONFACK | Nak \<Rightarrow> CONFNAK | Rej \<Rightarrow> CONFREJ, out, ho, wo, go))"

end
