(* ===== verification/Ipcp.thy ===== *)
theory Ipcp
  imports Sys_Rtems Ipcp_Options
begin

text \<open>
  The Internet Protocol Control Protocol (\<^verbatim>\<open>ipcp.c\<close>) on the daemon's state: its callbacks for the
  automaton, the configuration of the interface when it comes up and goes down, its entry in the
  table of protocols and its part in dial on demand. \<open>lows\<close> is the list of network protocols as
  \<^verbatim>\<open>np_finished\<close> needs it (to take the link down); the entries of this list only use \<^verbatim>\<open>ipcp_down\<close>, so
  there is no cycle. Two things C does not return from are flags of the state: \<open>stuck\<close> says that the
  loop of \<^verbatim>\<open>ipcp_nakci\<close> runs forever, \<open>oob\<close> (of \<^verbatim>\<open>Ppp_Main\<close>) that a buffer is overrun.
\<close>

section \<open>Definitions\<close>

datatype ip_event = Ip_up | Ip_down

record ipcp_world = sys_world +
  ipcp_wantoptions :: ipcp_options
  ipcp_gotoptions :: ipcp_options
  ipcp_allowoptions :: ipcp_options
  ipcp_hisoptions :: ipcp_options
  usepeerdns :: bool
  disable_defaultip :: bool
  ipcp_is_up :: bool
  demand :: bool
  default_route_set :: bool
  proxy_arp_set :: bool
  pppifunit :: u32
  w_resolv_ok :: bool
  resolv_conf :: "u32 list option"
  ip_up_hook :: bool
  ip_down_hook :: bool
  ip_events :: "ip_event list"
  stuck :: bool

subsection \<open>Taking the interface down\<close>

definition ipcp_clear_addrs :: "u32 \<Rightarrow> u32 \<Rightarrow> 'a ipcp_world_scheme \<Rightarrow> 'a ipcp_world_scheme" where
  "ipcp_clear_addrs our his w =
     (let w = (if proxy_arp_set w then (snd (cifproxyarp his w))\<lparr>proxy_arp_set := False\<rparr> else w);
          w = (if default_route_set w
               then (snd (cifdefaultroute our his w))\<lparr>default_route_set := False\<rparr> else w)
      in snd (cifaddr our his w))"

definition ipcp_down :: "'a ipcp_world_scheme \<Rightarrow> 'a ipcp_world_scheme" where
  "ipcp_down w =
     (let w = (if ip_down_hook w then w\<lparr>ip_events := ip_events w @ [Ip_down]\<rparr> else w);
          w = (if ipcp_is_up w then np_down (w\<lparr>ipcp_is_up := False\<rparr>) else w);
          w = snd (sifvjcomp False False 0 w)
      in if demand w then snd (sifnpmode NPMODE_QUEUE w)
         else
           (let w = snd (sifdown (snd (sifnpmode NPMODE_DROP w)))
            in ipcp_clear_addrs (ouraddr (ipcp_gotoptions w)) (hisaddr (ipcp_hisoptions w)) w))"

text \<open>The entries of \<^verbatim>\<open>ipcp_callbacks\<close> that \<^verbatim>\<open>fsm_lowerdown\<close> and \<^verbatim>\<open>fsm_close\<close> can reach.\<close>

definition ipcp_down_callbacks :: "'a ipcp_world_scheme fsm_callbacks" where
  "ipcp_down_callbacks =
     \<lparr>cb_resetci = None, cb_cilen = None, cb_addci = None, cb_ackci = None, cb_nakci = None,
      cb_rejci = None, cb_reqci = None, cb_up = None, cb_down = Some ipcp_down, cb_starting = None,
      cb_finished = None, cb_protreject = None, cb_retransmit = None, cb_extcode = None\<rparr>"

definition ipcp_close :: "bytes \<Rightarrow> 'a ipcp_world_scheme \<Rightarrow> 'a ipcp_world_scheme" where
  "ipcp_close reason = fsm_close ipcp_down_callbacks IPCP_FSM (Some reason)"

definition ipcp_lowerdown :: "'a ipcp_world_scheme \<Rightarrow> 'a ipcp_world_scheme" where
  "ipcp_lowerdown = fsm_lowerdown ipcp_down_callbacks IPCP_FSM"

definition ipcp_protrej :: "'a ipcp_world_scheme \<Rightarrow> 'a ipcp_world_scheme" where
  "ipcp_protrej = fsm_lowerdown ipcp_down_callbacks IPCP_FSM"

text \<open>IPCP in the table as \<^verbatim>\<open>link_down\<close> uses it.\<close>

definition ipcp_low :: "bool \<Rightarrow> 'a ipcp_world_scheme protent" where
  "ipcp_low enabled =
     \<lparr>p_protocol = PPP_IPCP, p_enabled = enabled, p_input = (\<lambda>_ w. w), p_protrej = ipcp_protrej,
      p_lowerup = None, p_lowerdown = Some ipcp_lowerdown, p_open = None,
      p_close = Some ipcp_close, p_datainput = None\<rparr>"

subsection \<open>Option callbacks\<close>

definition ipcp_resetci :: "'a ipcp_world_scheme \<Rightarrow> 'a ipcp_world_scheme" where
  "ipcp_resetci w =
     (let wo = ipcp_reset_wo (ipcp_allowoptions w) (disable_defaultip w) (usepeerdns w)
                 (ipcp_wantoptions w)
      in w\<lparr>ipcp_wantoptions := wo,
           ipcp_gotoptions := (if disable_defaultip w then wo\<lparr>ouraddr := 0\<rparr> else wo)\<rparr>)"

definition ipcp_cilen_cb :: "'a ipcp_world_scheme \<Rightarrow> int \<times> 'a ipcp_world_scheme" where
  "ipcp_cilen_cb w =
     (let go = ipcp_old_forms (ipcp_wantoptions w) (ipcp_hisoptions w) (ipcp_gotoptions w)
      in (ipcp_cilen go, w\<lparr>ipcp_gotoptions := go\<rparr>))"

definition ipcp_addci_cb :: "int \<Rightarrow> 'a ipcp_world_scheme \<Rightarrow> bytes \<times> int \<times> 'a ipcp_world_scheme" where
  "ipcp_addci_cb len w =
     (let (out, n, go) = ipcp_addci (ipcp_gotoptions w) len in (out, n, w\<lparr>ipcp_gotoptions := go\<rparr>))"

definition ipcp_ackci_cb :: "bytes \<Rightarrow> 'a ipcp_world_scheme \<Rightarrow> bool \<times> 'a ipcp_world_scheme" where
  "ipcp_ackci_cb inp w = (ipcp_ackci (ipcp_gotoptions w) inp, w)"

definition ipcp_nakci :: "bytes \<Rightarrow> 'a ipcp_world_scheme \<Rightarrow> int \<times> 'a ipcp_world_scheme" where
  "ipcp_nakci inp w =
     (case ipcp_nak_try (ipcp_gotoptions w) inp of
        None \<Rightarrow> (0, w\<lparr>stuck := True\<rparr>)
      | Some None \<Rightarrow> (0, w)
      | Some (Some tr) \<Rightarrow>
          (1, if state_of IPCP_FSM w \<noteq> OPENED then w\<lparr>ipcp_gotoptions := tr\<rparr> else w))"

definition ipcp_rejci :: "bytes \<Rightarrow> 'a ipcp_world_scheme \<Rightarrow> int \<times> 'a ipcp_world_scheme" where
  "ipcp_rejci inp w =
     (case ipcp_rej_try (ipcp_gotoptions w) inp of
        None \<Rightarrow> (0, w)
      | Some tr \<Rightarrow> (1, if state_of IPCP_FSM w \<noteq> OPENED then w\<lparr>ipcp_gotoptions := tr\<rparr> else w))"

text \<open>\<^verbatim>\<open>ipcp_reqci\<close>: 1496 bytes of the input buffer are left for the options of the reply.\<close>

definition ipcp_reqci ::
  "bytes \<Rightarrow> bool \<Rightarrow> 'a ipcp_world_scheme \<Rightarrow> u8 \<times> bytes \<times> 'a ipcp_world_scheme" where
  "ipcp_reqci inp reject_if_disagree w =
     (let (code, out, ho, wo, go) = ipcp_req (ipcp_allowoptions w) reject_if_disagree inp
                                      (ipcp_wantoptions w) (ipcp_gotoptions w);
          w = w\<lparr>ipcp_hisoptions := ho, ipcp_wantoptions := wo, ipcp_gotoptions := go\<rparr>;
          w = (if int (length out) > PPP_MRU - int HEADERLEN then w\<lparr>oob := True\<rparr> else w)
      in (code, out, w))"

subsection \<open>Bringing the interface up\<close>

definition create_resolv :: "u32 \<Rightarrow> u32 \<Rightarrow> 'a ipcp_world_scheme \<Rightarrow> 'a ipcp_world_scheme" where
  "create_resolv peerdns1 peerdns2 w =
     (if \<not> w_resolv_ok w then w
      else w\<lparr>resolv_conf := Some ((if peerdns1 \<noteq> 0 then [peerdns1] else []) @
                                  (if peerdns2 \<noteq> 0 then [peerdns2] else []))\<rparr>)"

text \<open>The default route and the proxy ARP entry, where they are wanted.\<close>

definition ipcp_routes :: "u32 \<Rightarrow> u32 \<Rightarrow> 'a ipcp_world_scheme \<Rightarrow> 'a ipcp_world_scheme" where
  "ipcp_routes our his w =
     (let w = (if default_route (ipcp_wantoptions w) then
                 (let (r, w) = sifdefaultroute our his w
                  in if r then w\<lparr>default_route_set := True\<rparr> else w)
               else w)
      in if proxy_arp (ipcp_wantoptions w) then
           (let (r, w) = sifproxyarp his w in if r then w\<lparr>proxy_arp_set := True\<rparr> else w)
         else w)"

text \<open>
  The two ways of \<^verbatim>\<open>ipcp_up\<close> to configure the interface: with dial on demand it is already up, and
  is only configured again when an address has changed. The result says whether that worked.
\<close>

definition ipcp_up_demand :: "'a ipcp_world_scheme \<Rightarrow> bool \<times> 'a ipcp_world_scheme" where
  "ipcp_up_demand w =
     (let our = ouraddr (ipcp_gotoptions w); his = hisaddr (ipcp_hisoptions w); wo = ipcp_wantoptions w;
          (ok, w) =
            (if our \<noteq> ouraddr wo \<or> his \<noteq> hisaddr wo then
               (let w = ipcp_clear_addrs (ouraddr wo) (hisaddr wo) w;
                    w = w\<lparr>ipcp_wantoptions := wo\<lparr>ouraddr := our, hisaddr := his\<rparr>\<rparr>;
                    (ok, w) = sifaddr our his (GetMask our w) w
                in if ok then (True, ipcp_routes our his w) else (False, w))
             else (True, w))
      in if ok then (True, snd (sifnpmode NPMODE_PASS (demand_rexmit PPP_IP w))) else (False, w))"

definition ipcp_up_plain :: "'a ipcp_world_scheme \<Rightarrow> bool \<times> 'a ipcp_world_scheme" where
  "ipcp_up_plain w =
     (let our = ouraddr (ipcp_gotoptions w); his = hisaddr (ipcp_hisoptions w);
          (ok, w) = sifaddr our his (GetMask our w) w
      in if \<not> ok then (False, w)
         else
           (let (ok, w) = sifup w in
            if \<not> ok then (False, w)
            else
              (let w = ipcp_routes our his (snd (sifnpmode NPMODE_PASS w))
               in (True, w\<lparr>ipcp_wantoptions := (ipcp_wantoptions w)\<lparr>ouraddr := our\<rparr>\<rparr>))))"

definition ipcp_up :: "plugins \<Rightarrow> 'a ipcp_world_scheme \<Rightarrow> 'a ipcp_world_scheme" where
  "ipcp_up pl w =
     (let w = (if \<not> neg_addr (ipcp_hisoptions w)
               then w\<lparr>ipcp_hisoptions := (ipcp_hisoptions w)\<lparr>hisaddr := hisaddr (ipcp_wantoptions w)\<rparr>\<rparr>
               else w);
          ho = ipcp_hisoptions w; go = ipcp_gotoptions w
      in if hisaddr ho = 0 then ipcp_close (ascii ''Could not determine remote IP address'') w
         else if ouraddr go = 0 then ipcp_close (ascii ''Could not determine local IP address'') w
         else
           (let w = (if usepeerdns w \<and> (fst (dnsaddr go) \<noteq> 0 \<or> snd (dnsaddr go) \<noteq> 0)
                     then create_resolv (fst (dnsaddr go)) (snd (dnsaddr go)) w else w)
            in if \<not> auth_ip_addr (hisaddr ho) then ipcp_close (ascii ''Unauthorized remote IP address'') w
               else
                 (let w = snd (sifvjcomp (neg_vj ho) (cflag ho) (maxslotindex ho) w);
                      (ok, w) = (if demand w then ipcp_up_demand w else ipcp_up_plain w)
                  in if \<not> ok then ipcp_close (ascii ''Interface configuration failed'') w
                     else
                       (let w = (np_up pl w)\<lparr>ipcp_is_up := True\<rparr>
                        in if ip_up_hook w then w\<lparr>ip_events := ip_events w @ [Ip_up]\<rparr> else w))))"

definition ipcp_finished ::
  "plugins \<Rightarrow> 'a ipcp_world_scheme protent list \<Rightarrow> 'a ipcp_world_scheme \<Rightarrow> 'a ipcp_world_scheme" where
  "ipcp_finished pl lows w = np_finished pl lows w"

subsection \<open>Entry points\<close>

definition ipcp_callbacks ::
  "plugins \<Rightarrow> 'a ipcp_world_scheme protent list \<Rightarrow> 'a ipcp_world_scheme fsm_callbacks" where
  "ipcp_callbacks pl lows =
     \<lparr>cb_resetci = Some ipcp_resetci, cb_cilen = Some ipcp_cilen_cb, cb_addci = Some ipcp_addci_cb,
      cb_ackci = Some ipcp_ackci_cb, cb_nakci = Some ipcp_nakci, cb_rejci = Some ipcp_rejci,
      cb_reqci = Some ipcp_reqci, cb_up = Some (ipcp_up pl), cb_down = Some ipcp_down,
      cb_starting = None, cb_finished = Some (ipcp_finished pl lows), cb_protreject = None,
      cb_retransmit = None, cb_extcode = None\<rparr>"

definition ipcp_init :: "'a ipcp_world_scheme \<Rightarrow> 'a ipcp_world_scheme" where
  "ipcp_init w =
     (let w = fsm_init IPCP_FSM (upd_fsm IPCP_FSM (\<lambda>f. f\<lparr>f_unit := 0, f_protocol := PPP_IPCP\<rparr>) w)
      in w\<lparr>ipcp_wantoptions := ipcp_zero\<lparr>neg_addr := True, neg_vj := True, vj_protocol := IPCP_VJ_COMP,
             maxslotindex := MAX_STATES - 1, cflag := True\<rparr>,
           ipcp_allowoptions := ipcp_zero\<lparr>neg_addr := True, neg_vj := True,
             maxslotindex := MAX_STATES - 1, cflag := True, proxy_arp := True, default_route := True\<rparr>\<rparr>)"

definition ipcp_open ::
  "plugins \<Rightarrow> 'a ipcp_world_scheme protent list \<Rightarrow> 'a ipcp_world_scheme \<Rightarrow> 'a ipcp_world_scheme" where
  "ipcp_open pl lows = fsm_open (ipcp_callbacks pl lows) IPCP_FSM"

definition ipcp_lowerup ::
  "plugins \<Rightarrow> 'a ipcp_world_scheme protent list \<Rightarrow> 'a ipcp_world_scheme \<Rightarrow> 'a ipcp_world_scheme" where
  "ipcp_lowerup pl lows = fsm_lowerup (ipcp_callbacks pl lows) IPCP_FSM"

definition ipcp_input ::
  "plugins \<Rightarrow> 'a ipcp_world_scheme protent list \<Rightarrow> bytes \<Rightarrow> 'a ipcp_world_scheme \<Rightarrow>
   'a ipcp_world_scheme" where
  "ipcp_input pl lows p = fsm_input (ipcp_callbacks pl lows) IPCP_FSM p"

definition ipcp_protent ::
  "plugins \<Rightarrow> 'a ipcp_world_scheme protent list \<Rightarrow> bool \<Rightarrow> 'a ipcp_world_scheme protent" where
  "ipcp_protent pl lows enabled =
     \<lparr>p_protocol = PPP_IPCP, p_enabled = enabled, p_input = ipcp_input pl lows, p_protrej = ipcp_protrej,
      p_lowerup = Some (ipcp_lowerup pl lows), p_lowerdown = Some ipcp_lowerdown,
      p_open = Some (ipcp_open pl lows), p_close = Some ipcp_close, p_datainput = None\<rparr>"

subsection \<open>Options and dial on demand\<close>

text \<open>\<open>byname\<close> is \<^verbatim>\<open>gethostbyname\<close> on our host name.\<close>

definition ip_check_options :: "(bytes \<Rightarrow> u32 option) \<Rightarrow> 'a ipcp_world_scheme \<Rightarrow> 'a ipcp_world_scheme" where
  "ip_check_options byname w =
     (let wo = ipcp_wantoptions w in
      if ouraddr wo = 0 \<and> \<not> disable_defaultip w then
        (let wo = wo\<lparr>accept_local := True\<rparr>;
             wo = (case byname (hostname w) of
                     None \<Rightarrow> wo
                   | Some local \<Rightarrow>
                       if local \<noteq> 0 \<and> \<not> bad_ip_adrs local then wo\<lparr>ouraddr := local\<rparr> else wo)
         in w\<lparr>ipcp_wantoptions := wo\<rparr>)
      else w)"

definition ip_demand_conf :: "'a ipcp_world_scheme \<Rightarrow> bool \<times> 'a ipcp_world_scheme" where
  "ip_demand_conf w =
     (let wo = ipcp_wantoptions w;
          wo = (if hisaddr wo = 0
                then wo\<lparr>hisaddr := 0x0a707070 + pppifunit w, accept_remote := True\<rparr> else wo);
          nodef = (ouraddr wo = 0);
          wo = (if nodef then wo\<lparr>ouraddr := 0x0a404040 + pppifunit w, accept_local := True\<rparr> else wo);
          w = w\<lparr>ipcp_wantoptions := wo, disable_defaultip := disable_defaultip w \<or> nodef\<rparr>;
          (ok, w) = sifaddr (ouraddr wo) (hisaddr wo) (GetMask (ouraddr wo) w) w
      in if \<not> ok then (False, w)
         else
           (let (ok, w) = sifup w in
            if \<not> ok then (False, w)
            else
              (let (ok, w) = sifnpmode NPMODE_QUEUE w in
               if \<not> ok then (False, w) else (True, ipcp_routes (ouraddr wo) (hisaddr wo) w))))"

definition ip_active_pkt :: "bytes \<Rightarrow> bool" where
  "ip_active_pkt fr =
     (let pkt = drop PPP_HDRLEN fr; len = length pkt in
      if len < 20 then False
      else if getshort (pkt ! 6) (pkt ! 7) mod 0x2000 \<noteq> 0 then False
      else if pkt ! 9 \<noteq> 6 then True
      else
        (let hlen = unat (pkt ! 0 AND 0xf) * 4 in
         if len < hlen + 20 then False
         else \<not> (pkt ! (hlen + 13) AND 1 \<noteq> 0 \<and> len = hlen + unat (drop_bit 4 (pkt ! (hlen + 12))) * 4)))"

end
