(* ===== verification/Ccp.thy ===== *)
theory Ccp
  imports Ipcp Ccp_Options
begin

text \<open>
  The Compression Control Protocol (\<^verbatim>\<open>ccp.c\<close>) on the daemon's state: its callbacks for the automaton,
  the exchange of reset requests after a decompression error, and its entry in the table of
  protocols. It has no \<^verbatim>\<open>starting\<close> and \<^verbatim>\<open>finished\<close> callback and does not count as a network protocol, so
  its end does not take the link down. When the loop of \<^verbatim>\<open>ccp_reqci\<close> does not return, \<open>stuck\<close> is set.
  A packet without any byte is taken as one that does not begin with \<^verbatim>\<open>TERMACK\<close> (C looks at
  whatever the input buffer holds there).
\<close>

section \<open>Definitions\<close>

definition CCP_RESETREQ :: u8 where [ppp_consts]: "CCP_RESETREQ = 14"
definition CCP_RESETACK :: u8 where [ppp_consts]: "CCP_RESETACK = 15"
definition RACK_PENDING :: u32 where [ppp_consts]: "RACK_PENDING = 1"
definition RREQ_REPEAT :: u32 where [ppp_consts]: "RREQ_REPEAT = 2"
definition RACKTIMEOUT :: int where [ppp_consts]: "RACKTIMEOUT = 1"

record ccp_world = ipcp_world +
  ccp_wantoptions :: ccp_options
  ccp_gotoptions :: ccp_options
  ccp_allowoptions :: ccp_options
  ccp_hisoptions :: ccp_options
  ccp_localstate :: u32
  all_rejected :: bool

subsection \<open>Option callbacks\<close>

definition ccp_resetci :: "'a ccp_world_scheme \<Rightarrow> 'a ccp_world_scheme" where
  "ccp_resetci w =
     (let (go, w) = ccp_reset_go (ccp_wantoptions w) (w\<lparr>all_rejected := False\<rparr>)
      in w\<lparr>ccp_gotoptions := go\<rparr>)"

definition ccp_cilen_cb :: "'a ccp_world_scheme \<Rightarrow> int \<times> 'a ccp_world_scheme" where
  "ccp_cilen_cb w = (ccp_cilen (ccp_gotoptions w), w)"

text \<open>\<^verbatim>\<open>ccp_addci\<close> sets \<^verbatim>\<open>*lenp\<close> without looking at the length it is given.\<close>

definition ccp_addci_cb :: "int \<Rightarrow> 'a ccp_world_scheme \<Rightarrow> bytes \<times> int \<times> 'a ccp_world_scheme" where
  "ccp_addci_cb len w =
     (let (p, go, w) = ccp_addci (ccp_gotoptions w) w
      in (p, int (length p), w\<lparr>ccp_gotoptions := go\<rparr>))"

definition ccp_ackci_cb :: "bytes \<Rightarrow> 'a ccp_world_scheme \<Rightarrow> bool \<times> 'a ccp_world_scheme" where
  "ccp_ackci_cb inp w = (ccp_ackci (ccp_gotoptions w) inp, w)"

definition ccp_nakci :: "bytes \<Rightarrow> 'a ccp_world_scheme \<Rightarrow> int \<times> 'a ccp_world_scheme" where
  "ccp_nakci inp w =
     (1, if state_of CCP_FSM w \<noteq> OPENED
         then w\<lparr>ccp_gotoptions := ccp_nak_try (ccp_gotoptions w) inp\<rparr> else w)"

definition ccp_rejci :: "bytes \<Rightarrow> 'a ccp_world_scheme \<Rightarrow> int \<times> 'a ccp_world_scheme" where
  "ccp_rejci inp w =
     (if inp = [] \<and> all_rejected w then (-1, w)
      else
        (case ccp_rej_try (ccp_gotoptions w) inp of
           None \<Rightarrow> (0, w)
         | Some tr \<Rightarrow> (1, if state_of CCP_FSM w \<noteq> OPENED then w\<lparr>ccp_gotoptions := tr\<rparr> else w)))"

definition ccp_reqci ::
  "bytes \<Rightarrow> bool \<Rightarrow> 'a ccp_world_scheme \<Rightarrow> u8 \<times> bytes \<times> 'a ccp_world_scheme" where
  "ccp_reqci inp dont_nak w =
     (case ccp_req (ccp_allowoptions w) dont_nak inp w of
        None \<Rightarrow> (CONFREJ, inp, w\<lparr>stuck := True\<rparr>)
      | Some (code, out, allrej, ho, w) \<Rightarrow>
          (code, out, w\<lparr>ccp_hisoptions := ho, all_rejected := all_rejected w \<or> allrej\<rparr>))"

subsection \<open>Up, down and reset\<close>

definition ccp_up :: "'a ccp_world_scheme \<Rightarrow> 'a ccp_world_scheme" where
  "ccp_up w = ccp_flags_set True True w"

definition ccp_down :: "'a ccp_world_scheme \<Rightarrow> 'a ccp_world_scheme" where
  "ccp_down w =
     (let w = (if ccp_localstate w AND RACK_PENDING \<noteq> 0
               then pppuntimeout CCP_RACK_TIMEOUT (ARG_FSM CCP_FSM) w else w)
      in ccp_flags_set True False (w\<lparr>ccp_localstate := 0\<rparr>))"

definition ccp_extcode :: "u8 \<Rightarrow> u8 \<Rightarrow> bytes \<Rightarrow> 'a ccp_world_scheme \<Rightarrow> bool \<times> 'a ccp_world_scheme" where
  "ccp_extcode code idn inp w =
     (if code = CCP_RESETREQ then
        (True, if state_of CCP_FSM w \<noteq> OPENED then w else fsm_sdata CCP_FSM CCP_RESETACK idn (Data []) 0 w)
      else if code = CCP_RESETACK then
        (True, if ccp_localstate w AND RACK_PENDING \<noteq> 0 \<and> idn = f_reqid (fsms w CCP_FSM)
               then pppuntimeout CCP_RACK_TIMEOUT (ARG_FSM CCP_FSM)
                      (w\<lparr>ccp_localstate := ccp_localstate w AND NOT (RACK_PENDING OR RREQ_REPEAT)\<rparr>)
               else w)
      else (False, w))"

definition ccp_callbacks :: "'a ccp_world_scheme fsm_callbacks" where
  "ccp_callbacks =
     \<lparr>cb_resetci = Some ccp_resetci, cb_cilen = Some ccp_cilen_cb, cb_addci = Some ccp_addci_cb,
      cb_ackci = Some ccp_ackci_cb, cb_nakci = Some ccp_nakci, cb_rejci = Some ccp_rejci,
      cb_reqci = Some ccp_reqci, cb_up = Some ccp_up, cb_down = Some ccp_down,
      cb_starting = None, cb_finished = None, cb_protreject = None,
      cb_retransmit = None, cb_extcode = Some ccp_extcode\<rparr>"

subsection \<open>Entry points\<close>

definition ccp_init :: "'a ccp_world_scheme \<Rightarrow> 'a ccp_world_scheme" where
  "ccp_init w =
     (let w = fsm_init CCP_FSM (upd_fsm CCP_FSM (\<lambda>f. f\<lparr>f_unit := 0, f_protocol := PPP_CCP\<rparr>) w);
          opts = ccp_zero\<lparr>deflate := True, deflate_size := DEFLATE_MAX_SIZE, deflate_correct := True,
                   deflate_draft := True, bsd_compress := True, bsd_bits := BSD_MAX_BITS\<rparr>
      in w\<lparr>ccp_wantoptions := opts, ccp_gotoptions := ccp_zero,
           ccp_allowoptions := opts\<lparr>predictor_1 := True\<rparr>, ccp_hisoptions := ccp_zero\<rparr>)"

definition ccp_open :: "'a ccp_world_scheme \<Rightarrow> 'a ccp_world_scheme" where
  "ccp_open w =
     (let w = (if state_of CCP_FSM w \<noteq> OPENED then ccp_flags_set True False w else w);
          w = ccp_resetci w;
          w = (if \<not> ANY_COMPRESS (ccp_gotoptions w)
               then upd_fsm CCP_FSM (\<lambda>f. f\<lparr>f_flags := f_flags f OR OPT_SILENT\<rparr>) w else w)
      in fsm_open ccp_callbacks CCP_FSM w)"

definition ccp_close :: "bytes \<Rightarrow> 'a ccp_world_scheme \<Rightarrow> 'a ccp_world_scheme" where
  "ccp_close reason w = fsm_close ccp_callbacks CCP_FSM (Some reason) (ccp_flags_set False False w)"

definition ccp_lowerup :: "'a ccp_world_scheme \<Rightarrow> 'a ccp_world_scheme" where
  "ccp_lowerup = fsm_lowerup ccp_callbacks CCP_FSM"

definition ccp_lowerdown :: "'a ccp_world_scheme \<Rightarrow> 'a ccp_world_scheme" where
  "ccp_lowerdown = fsm_lowerdown ccp_callbacks CCP_FSM"

definition ccp_input :: "bytes \<Rightarrow> 'a ccp_world_scheme \<Rightarrow> 'a ccp_world_scheme" where
  "ccp_input p w =
     (let oldstate = state_of CCP_FSM w; w = fsm_input ccp_callbacks CCP_FSM p w in
      if oldstate = REQSENT \<and> (case p of [] \<Rightarrow> False | c # _ \<Rightarrow> c = TERMACK) \<and>
         \<not> ANY_COMPRESS (ccp_gotoptions w)
      then ccp_close (ascii ''No compression negotiated'') w else w)"

definition ccp_protrej :: "'a ccp_world_scheme \<Rightarrow> 'a ccp_world_scheme" where
  "ccp_protrej w = fsm_lowerdown ccp_callbacks CCP_FSM (ccp_flags_set False False w)"

text \<open>\<^verbatim>\<open>ccp_datainput\<close>: a packet that could not be decompressed; and the timeout of the reset request.\<close>

definition ccp_datainput :: "bytes \<Rightarrow> 'a ccp_world_scheme \<Rightarrow> 'a ccp_world_scheme" where
  "ccp_datainput pkt w =
     (if state_of CCP_FSM w \<noteq> OPENED then w
      else
        (let (fatal, w) = ccp_fatal_error w in
         if fatal then ccp_close (ascii ''Lost compression sync'') w
         else if ccp_localstate w AND RACK_PENDING = 0 then
           (let w = upd_fsm CCP_FSM (\<lambda>f. f\<lparr>f_id := f_id f + 1, f_reqid := f_id f + 1\<rparr>) w;
                w = fsm_sdata CCP_FSM CCP_RESETREQ (f_reqid (fsms w CCP_FSM)) (Data []) 0 w;
                w = ppptimeout CCP_RACK_TIMEOUT (ARG_FSM CCP_FSM) RACKTIMEOUT w
            in w\<lparr>ccp_localstate := ccp_localstate w OR RACK_PENDING\<rparr>)
         else w\<lparr>ccp_localstate := ccp_localstate w OR RREQ_REPEAT\<rparr>))"

definition ccp_rack_timeout :: "'a ccp_world_scheme \<Rightarrow> 'a ccp_world_scheme" where
  "ccp_rack_timeout w =
     (if state_of CCP_FSM w = OPENED \<and> ccp_localstate w AND RREQ_REPEAT \<noteq> 0 then
        (let w = fsm_sdata CCP_FSM CCP_RESETREQ (f_reqid (fsms w CCP_FSM)) (Data []) 0 w;
             w = ppptimeout CCP_RACK_TIMEOUT (ARG_FSM CCP_FSM) RACKTIMEOUT w
         in w\<lparr>ccp_localstate := ccp_localstate w AND NOT RREQ_REPEAT\<rparr>)
      else w\<lparr>ccp_localstate := ccp_localstate w AND NOT RACK_PENDING\<rparr>)"

definition ccp_protent :: "bool \<Rightarrow> 'a ccp_world_scheme protent" where
  "ccp_protent enabled =
     \<lparr>p_protocol = PPP_CCP, p_enabled = enabled, p_input = ccp_input, p_protrej = ccp_protrej,
      p_lowerup = Some ccp_lowerup, p_lowerdown = Some ccp_lowerdown,
      p_open = Some ccp_open, p_close = Some ccp_close, p_datainput = Some ccp_datainput\<rparr>"

end
