(* ===== verification/Ipcp_Inv.thy ===== *)
theory Ipcp_Inv
  imports Ipcp Auth_Inv Fsm_Keeps
begin

text \<open>
  IPCP as a client of the automaton and as an entry of the daemon's table. Its callbacks leave LCP
  and the authentication protocols alone; so it satisfies the contract \<open>ncp_table\<close>, and the
  interpretations at the end give the facts on LCP and \<^verbatim>\<open>auth.c\<close> for the table that has IPCP in it.
  For IPCP itself: its timer invariant, and that the interface is only reported up (\<^verbatim>\<open>ipcp_is_up\<close>)
  while its automaton is \<open>OPENED\<close>.
\<close>

section \<open>Definitions\<close>

text \<open>
  \<open>w'\<close> has the same automata, automaton timers and CCP timer as \<open>w\<close>, the same state of what extends
  IPCP, and \<open>ncp_quiet\<close> holds.
\<close>

definition ip_quiet :: "'a ipcp_world_scheme \<Rightarrow> 'a ipcp_world_scheme \<Rightarrow> bool" where
  "ip_quiet w w' \<longleftrightarrow> ncp_quiet w w' \<and> fsms w' = fsms w \<and>
     (\<forall>a. pending FSM_TIMEOUT a w' = pending FSM_TIMEOUT a w) \<and>
     (\<forall>a. pending CCP_RACK_TIMEOUT a w' = pending CCP_RACK_TIMEOUT a w) \<and>
     ipcp_world.more w' = ipcp_world.more w"

abbreviation ipcp_ok :: "'a ipcp_world_scheme \<Rightarrow> bool" where
  "ipcp_ok \<equiv> layer_inv (\<lambda>up. \<not> up) (\<lambda>_. True) ipcp_is_up IPCP_FSM"

section \<open>Callbacks\<close>

lemma auth_frame [simp]:
  "auth_pending (ppptimeout f a t w) = auth_pending w" "auth_required (ppptimeout f a t w) = auth_required w"
  "auth_pending (pppuntimeout f a w) = auth_pending w" "auth_required (pppuntimeout f a w) = auth_required w"
  "ipcp_world.more (ppptimeout f a t v) = ipcp_world.more v" "ipcp_world.more (pppuntimeout f a v) = ipcp_world.more v"
  by (simp_all add: ppptimeout_def pppuntimeout_def gettimeofday_def)

lemma ipcp_frame [simp]:
  "ipcp_is_up (ppptimeout f a t w) = ipcp_is_up w" "ipcp_is_up (pppuntimeout f a w) = ipcp_is_up w"
  "ipcp_is_up (put_outpacket n bs w) = ipcp_is_up w" "ipcp_is_up (output_outpacket u k w) = ipcp_is_up w"
  "ipcp_is_up (bcopy_outpacket n bs k w) = ipcp_is_up w" "ipcp_is_up (new_phase ph w) = ipcp_is_up w"
  "ipcp_is_up (upd_fsm i g w) = ipcp_is_up w" "ipcp_is_up (demand_rexmit pr w) = ipcp_is_up w"
  by (simp_all add: ppptimeout_def pppuntimeout_def gettimeofday_def put_outpacket_def output_outpacket_def
      bcopy_outpacket_def new_phase_def upd_fsm_def demand_rexmit_world)

lemma ipcp_frame_sdata [simp]: "ipcp_is_up (fsm_sdata i code idn d n w) = ipcp_is_up w"
  by (simp add: fsm_sdata_def Let_def split: sdata.split)

lemma ip_quiet_trans [trans]: "ip_quiet u v \<Longrightarrow> ip_quiet v w \<Longrightarrow> ip_quiet u w"
  by (auto simp: ip_quiet_def intro: ncp_quiet_trans)

lemma ip_quiet_refl [simp]: "ip_quiet w w"
  by (simp add: ip_quiet_def ncp_quiet_def)

lemma sys_more:
  assumes "sys_step (w :: 'a ipcp_world_scheme) w'"
  shows "ipcp_is_up w' = ipcp_is_up w" "ipcp_wantoptions w' = ipcp_wantoptions w"
    "ipcp_gotoptions w' = ipcp_gotoptions w" "ipcp_hisoptions w' = ipcp_hisoptions w"
    "demand w' = demand w" "ipcp_allowoptions w' = ipcp_allowoptions w"
    "ipcp_world.more w' = ipcp_world.more w"
proof -
  have "sys_world.more w' = sys_world.more w"
    using assms by (simp add: sys_step_def)
  then show "ipcp_is_up w' = ipcp_is_up w" "ipcp_wantoptions w' = ipcp_wantoptions w"
    "ipcp_gotoptions w' = ipcp_gotoptions w" "ipcp_hisoptions w' = ipcp_hisoptions w"
    "demand w' = demand w" "ipcp_allowoptions w' = ipcp_allowoptions w"
    "ipcp_world.more w' = ipcp_world.more w"
    by (cases w; cases w'; simp)+
qed

lemma ip_quiet_sys:
  assumes "sys_step w w'"
  shows "ip_quiet w w'"
proof -
  have "auth_pending w' = auth_pending w" "auth_required w' = auth_required w"
    "lcp_gotoptions w' = lcp_gotoptions w" "lcp_wantoptions w' = lcp_wantoptions w"
    "lcp_hisoptions w' = lcp_hisoptions w"
    using assms by (auto simp: sys_step_def chap_world.truncate_def)
  then show ?thesis
    using sys_step_fields [OF assms] sys_more(7) [OF assms]
    by (simp add: ip_quiet_def ncp_quiet_def lcp_quiet_def pending_def)
qed

lemmas sys_more_calls [simp] = sys_step_calls [THEN sys_more(1)] sys_step_calls [THEN sys_more(2)]
  sys_step_calls [THEN sys_more(3)] sys_step_calls [THEN sys_more(4)] sys_step_calls [THEN sys_more(5)]

text \<open>Each elementary change keeps \<open>ip_quiet\<close>.\<close>

lemma ip_quiet_upd [simp]:
  assumes "ip_quiet w v"
  shows "ip_quiet w (v\<lparr>ipcp_is_up := b\<rparr>)" "ip_quiet w (v\<lparr>ipcp_wantoptions := x\<rparr>)"
    "ip_quiet w (v\<lparr>ipcp_gotoptions := x\<rparr>)" "ip_quiet w (v\<lparr>ipcp_hisoptions := x\<rparr>)"
    "ip_quiet w (v\<lparr>default_route_set := b\<rparr>)" "ip_quiet w (v\<lparr>proxy_arp_set := b\<rparr>)"
    "ip_quiet w (v\<lparr>ip_events := es\<rparr>)" "ip_quiet w (v\<lparr>stuck := b\<rparr>)" "ip_quiet w (v\<lparr>resolv_conf := rc\<rparr>)"
    "ip_quiet w (v\<lparr>ipcp_hisoptions := x, ipcp_wantoptions := y, ipcp_gotoptions := z\<rparr>)"
    "ip_quiet w (v\<lparr>ipcp_wantoptions := y, ipcp_gotoptions := z\<rparr>)"
  using assms by (simp_all add: ip_quiet_def ncp_quiet_def lcp_quiet_def pending_def)

lemma ip_quiet_base [simp]:
  assumes "ip_quiet w v"
  shows "ip_quiet w (v\<lparr>oob := b\<rparr>)" "ip_quiet w (v\<lparr>num_np_up := n\<rparr>)" "ip_quiet w (v\<lparr>num_np_open := n\<rparr>)"
    "ip_quiet w (v\<lparr>pppd_status := k, unsuccess := n\<rparr>)" "ip_quiet w (new_phase k v)"
    "f \<notin> {FSM_TIMEOUT, LCP_ECHO_TIMEOUT, CCP_RACK_TIMEOUT} \<Longrightarrow> ip_quiet w (ppptimeout f a t v)"
    "f \<notin> {FSM_TIMEOUT, LCP_ECHO_TIMEOUT, CCP_RACK_TIMEOUT} \<Longrightarrow> ip_quiet w (pppuntimeout f a v)"
proof -
  have "ip_quiet v (v\<lparr>oob := b\<rparr>)" "ip_quiet v (v\<lparr>num_np_up := n\<rparr>)" "ip_quiet v (v\<lparr>num_np_open := n\<rparr>)"
    "ip_quiet v (v\<lparr>pppd_status := k, unsuccess := n\<rparr>)" "ip_quiet v (new_phase k v)"
    by (simp_all add: ip_quiet_def ncp_quiet_def lcp_quiet_def pending_def new_phase_def)
  then show "ip_quiet w (v\<lparr>oob := b\<rparr>)" "ip_quiet w (v\<lparr>num_np_up := n\<rparr>)" "ip_quiet w (v\<lparr>num_np_open := n\<rparr>)"
    "ip_quiet w (v\<lparr>pppd_status := k, unsuccess := n\<rparr>)" "ip_quiet w (new_phase k v)"
    by (blast intro: ip_quiet_trans [OF assms])+
  assume "f \<notin> {FSM_TIMEOUT, LCP_ECHO_TIMEOUT, CCP_RACK_TIMEOUT}"
  then have "ip_quiet v (ppptimeout f a t v)" "ip_quiet v (pppuntimeout f a v)"
    by (auto simp: ip_quiet_def ncp_quiet_def lcp_quiet_def)
  then show "ip_quiet w (ppptimeout f a t v)" "ip_quiet w (pppuntimeout f a v)"
    by (blast intro: ip_quiet_trans [OF assms])+
qed

lemma ip_quiet_calls [simp]:
  assumes "ip_quiet w v"
  shows "ip_quiet w (snd (sifvjcomp vj c n v))" "ip_quiet w (snd (sifup v))" "ip_quiet w (snd (sifdown v))"
    "ip_quiet w (snd (sifnpmode m v))" "ip_quiet w (snd (sifaddr a b k v))"
    "ip_quiet w (snd (cifaddr a b v))" "ip_quiet w (snd (sifdefaultroute a b v))"
    "ip_quiet w (snd (cifdefaultroute a b v))" "ip_quiet w (snd (sifproxyarp a v))"
    "ip_quiet w (snd (cifproxyarp a v))"
  by (rule ip_quiet_trans [OF assms ip_quiet_sys], simp)+

lemma ip_quiet_rexmit [simp]: "ip_quiet w v \<Longrightarrow> ip_quiet w (demand_rexmit proto v)"
  by (erule ip_quiet_trans)
    (simp add: demand_rexmit_world ip_quiet_def ncp_quiet_def lcp_quiet_def pending_def)

lemma ip_quiet_np [simp]:
  "ip_quiet w v \<Longrightarrow> ip_quiet w (np_down v)" "ip_quiet w v \<Longrightarrow> ip_quiet w (np_up pl v)"
  by (simp_all add: np_down_def np_up_def Let_def)

lemma np_is_up [simp]:
  "ipcp_is_up (np_down w) = ipcp_is_up w" "ipcp_is_up (np_up pl w) = ipcp_is_up w"
  by (simp_all add: np_down_def np_up_def Let_def)

lemma ipcp_clear_addrs_quiet [simp]:
  "ip_quiet w v \<Longrightarrow> ip_quiet w (ipcp_clear_addrs a b v)"
  "ipcp_is_up (ipcp_clear_addrs a b v) = ipcp_is_up v"
  by (simp_all add: ipcp_clear_addrs_def Let_def)

lemma ipcp_down_quiet [simp]: "ip_quiet w v \<Longrightarrow> ip_quiet w (ipcp_down v)" "\<not> ipcp_is_up (ipcp_down v)"
  by (simp_all add: ipcp_down_def Let_def)

lemma ipcp_routes_quiet [simp]:
  "ip_quiet w v \<Longrightarrow> ip_quiet w (ipcp_routes a b v)" "ipcp_is_up (ipcp_routes a b v) = ipcp_is_up v"
  by (simp_all add: ipcp_routes_def Let_def case_prod_unfold)

lemma ipcp_configure_quiet:
  "ip_quiet w v \<Longrightarrow> ip_quiet w (snd (ipcp_up_demand v))" "ipcp_is_up (snd (ipcp_up_demand v)) = ipcp_is_up v"
  "ip_quiet w v \<Longrightarrow> ip_quiet w (snd (ipcp_up_plain v))" "ipcp_is_up (snd (ipcp_up_plain v)) = ipcp_is_up v"
  by (simp_all add: ipcp_up_demand_def ipcp_up_plain_def Let_def case_prod_unfold)

lemma ipcp_ci_quiet [simp]:
  "ip_quiet w (ipcp_resetci w)" "ip_quiet w (snd (ipcp_cilen_cb w))" "ip_quiet w (snd (snd (ipcp_addci_cb n w)))"
  "ip_quiet w (snd (ipcp_ackci_cb inp w))" "ip_quiet w (snd (ipcp_nakci inp w))"
  "ip_quiet w (snd (ipcp_rejci inp w))" "ip_quiet w (snd (snd (ipcp_reqci inp rej w)))"
  by (simp_all add: ipcp_resetci_def ipcp_cilen_cb_def ipcp_addci_cb_def ipcp_ackci_cb_def ipcp_nakci_def
      ipcp_rejci_def ipcp_reqci_def Let_def case_prod_unfold split: option.split)

lemma ipcp_ci_is_up [simp]:
  "ipcp_is_up (ipcp_resetci w) = ipcp_is_up w" "ipcp_is_up (snd (ipcp_cilen_cb w)) = ipcp_is_up w"
  "ipcp_is_up (snd (snd (ipcp_addci_cb n w))) = ipcp_is_up w" "ipcp_is_up (snd (ipcp_ackci_cb inp w)) = ipcp_is_up w"
  "ipcp_is_up (snd (ipcp_nakci inp w)) = ipcp_is_up w" "ipcp_is_up (snd (ipcp_rejci inp w)) = ipcp_is_up w"
  "ipcp_is_up (snd (snd (ipcp_reqci inp rej w))) = ipcp_is_up w"
  by (simp_all add: ipcp_resetci_def ipcp_cilen_cb_def ipcp_addci_cb_def ipcp_ackci_cb_def ipcp_nakci_def
      ipcp_rejci_def ipcp_reqci_def Let_def case_prod_unfold split: option.split)

text \<open>\<^verbatim>\<open>ipcp_up\<close> either reports the interface up, or closes IPCP.\<close>

lemma ipcp_up_cases:
  obtains "ip_quiet w (ipcp_up pl w)" and "ipcp_is_up (ipcp_up pl w)"
  | r v where "ip_quiet w v" and "ipcp_is_up v = ipcp_is_up w" and "ipcp_up pl w = ipcp_close r v"
proof -
  define w1 where "w1 = (if \<not> neg_addr (ipcp_hisoptions w)
    then w\<lparr>ipcp_hisoptions := (ipcp_hisoptions w)\<lparr>hisaddr := hisaddr (ipcp_wantoptions w)\<rparr>\<rparr> else w)"
  define go where "go = ipcp_gotoptions w1"
  define ho where "ho = ipcp_hisoptions w1"
  define w2 where "w2 = (if usepeerdns w1 \<and> (fst (dnsaddr go) \<noteq> 0 \<or> snd (dnsaddr go) \<noteq> 0)
    then create_resolv (fst (dnsaddr go)) (snd (dnsaddr go)) w1 else w1)"
  define w3 where "w3 = snd (sifvjcomp (neg_vj ho) (cflag ho) (maxslotindex ho) w2)"
  obtain ok w4 where 4: "(if demand w3 then ipcp_up_demand w3 else ipcp_up_plain w3) = (ok, w4)"
    by fastforce
  have q1: "ip_quiet w w1" "ipcp_is_up w1 = ipcp_is_up w"
    by (simp_all add: w1_def)
  then have q2: "ip_quiet w w2" "ipcp_is_up w2 = ipcp_is_up w"
    by (simp_all add: w2_def create_resolv_def)
  then have q3: "ip_quiet w w3" "ipcp_is_up w3 = ipcp_is_up w"
    by (simp_all add: w3_def)
  with 4 have q4: "ip_quiet w w4" "ipcp_is_up w4 = ipcp_is_up w"
    using ipcp_configure_quiet by (metis snd_conv)+
  define w5 where "w5 = (np_up pl w4)\<lparr>ipcp_is_up := True\<rparr>"
  define w6 where "w6 = (if ip_up_hook w5 then w5\<lparr>ip_events := ip_events w5 @ [Ip_up]\<rparr> else w5)"
  have q6: "ip_quiet w w6" "ipcp_is_up w6"
    using q4(1) by (simp_all add: w6_def w5_def)
  have eq: "ipcp_up pl w =
      (if hisaddr ho = 0 then ipcp_close (ascii ''Could not determine remote IP address'') w1
       else if ouraddr go = 0 then ipcp_close (ascii ''Could not determine local IP address'') w1
       else if \<not> auth_ip_addr (hisaddr ho) then ipcp_close (ascii ''Unauthorized remote IP address'') w2
       else if \<not> ok then ipcp_close (ascii ''Interface configuration failed'') w4 else w6)"
    unfolding ipcp_up_def Let_def w1_def [symmetric] go_def [symmetric] ho_def [symmetric]
      w2_def [symmetric] w3_def [symmetric] 4 prod.case w5_def [symmetric] w6_def [symmetric] ..
  show ?thesis
  proof (cases "ipcp_up pl w = w6")
    case True
    with q6 that(1) show ?thesis by metis
  next
    case False
    with eq obtain r v where "v = w1 \<or> v = w2 \<or> v = w4" and "ipcp_up pl w = ipcp_close r v"
      by metis
    with q1 q2 q4 that(2) show ?thesis by metis
  qed
qed

section \<open>What IPCP leaves alone\<close>

text \<open>
  A property that \<open>ip_quiet\<close> changes and the automaton of IPCP keep is kept by the operations of IPCP
  that the layer below calls; and by all of them when the end of the last network protocol keeps it.
\<close>

locale ip_observer =
  fixes P :: "'a ipcp_world_scheme \<Rightarrow> bool"
  assumes obs_quiet: "P v \<Longrightarrow> ip_quiet v v' \<Longrightarrow> P v'"
    and obs_upd: "P v \<Longrightarrow> P (upd_fsm IPCP_FSM g v)"
    and obs_arm: "P v \<Longrightarrow> P (ppptimeout FSM_TIMEOUT (ARG_FSM IPCP_FSM) t v)"
    and obs_disarm: "P v \<Longrightarrow> P (pppuntimeout FSM_TIMEOUT (ARG_FSM IPCP_FSM) v)"

lemma ip_quiet_io: "ip_quiet w (put_outpacket n bs w)" "ip_quiet w (output_outpacket u k w)"
  by (simp_all add: ip_quiet_def ncp_quiet_def lcp_quiet_def put_outpacket_def output_outpacket_def pending_def)

sublocale ip_observer \<subseteq> dn: fsm_keeps P ipcp_down_callbacks IPCP_FSM
  by unfold_locales
    (auto simp: ipcp_down_callbacks_def obs_upd obs_arm obs_disarm intro: obs_quiet ip_quiet_io)

sublocale ip_observer \<subseteq> op: fsm_keeps P "ipcp_callbacks pl lows" IPCP_FSM for pl lows
  by unfold_locales
    (auto simp: ipcp_callbacks_def obs_upd obs_arm obs_disarm intro: obs_quiet ip_quiet_io)

locale ip_observer_all = ip_observer P for P :: "'a ipcp_world_scheme \<Rightarrow> bool" +
  fixes Q :: "'a ipcp_world_scheme \<Rightarrow> bool" and pl :: plugins and lows :: "'a ipcp_world_scheme protent list"
  assumes obs_weaker: "P v \<Longrightarrow> Q v"
    and obs_weaker_upd: "Q v \<Longrightarrow> (\<And>f. f_state (g f) = f_state f) \<Longrightarrow> Q (upd_fsm IPCP_FSM g v)"
    and obs_finished: "P v \<Longrightarrow> Q (np_finished pl lows v)"
begin

lemma obs_up: "P v \<Longrightarrow> P (ipcp_up pl v)"
proof (rule ipcp_up_cases [of v pl])
  assume "P v" "ip_quiet v (ipcp_up pl v)"
  then show ?thesis by (rule obs_quiet)
next
  fix r u
  assume "P v" "ip_quiet v u" and u: "ipcp_up pl v = ipcp_close r u"
  then have "P u" by (blast intro: obs_quiet)
  then show ?thesis
    unfolding u ipcp_close_def by (rule dn.close_keeps)
qed

end

sublocale ip_observer_all \<subseteq> al: fsm_keeps_all P "ipcp_callbacks pl lows" IPCP_FSM Q
  by unfold_locales
    (auto simp: ipcp_callbacks_def ipcp_finished_def obs_upd obs_arm obs_disarm obs_finished obs_weaker_upd
      intro: obs_quiet ip_quiet_io obs_weaker [OF obs_up] obs_weaker)

lemma ncp_quiet_ipcp_fsm:
  "ncp_quiet v (upd_fsm IPCP_FSM g v)" "ncp_quiet v (ppptimeout FSM_TIMEOUT (ARG_FSM IPCP_FSM) t v)"
  "ncp_quiet v (pppuntimeout FSM_TIMEOUT (ARG_FSM IPCP_FSM) v)"
  by (simp_all add: ncp_quiet_def lcp_quiet_def) (simp_all add: upd_fsm_def)

interpretation quiet: ip_observer "ncp_quiet w" for w
  by unfold_locales (auto simp: ip_quiet_def intro: ncp_quiet_trans ncp_quiet_ipcp_fsm)

lemma ipcp_lower_quiet: "ncp_quiet w (ipcp_lowerdown w)" "ncp_quiet w (ipcp_close r w)" "ncp_quiet w (ipcp_protrej w)"
  unfolding ipcp_lowerdown_def ipcp_close_def ipcp_protrej_def
  by (rule quiet.dn.lowerdown_keeps quiet.dn.close_keeps, simp add: ncp_quiet_def)+

end
