(* ===== verification/Ccp_Inv.thy ===== *)
theory Ccp_Inv
  imports Ccp_Request Ccp Ipcp_Inv Fsm_Layer
begin

text \<open>
  CCP as a client of the automaton and as an entry of the daemon's table. Its callbacks only make
  system calls, change its own options and arm its own timer (\<open>cc_quiet\<close>); so its operations keep
  every property that is not about CCP (\<open>cc_observer\<close>). For CCP itself: the timer of the reset request
  is armed exactly while \<^verbatim>\<open>RACK_PENDING\<close> is set, and only in \<open>OPENED\<close> (\<open>ccp_ok\<close>).
\<close>

section \<open>Definitions\<close>

definition cc_quiet :: "'a ccp_world_scheme \<Rightarrow> 'a ccp_world_scheme \<Rightarrow> bool" where
  "cc_quiet w w' \<longleftrightarrow> ncp_quiet w w' \<and> fsms w' = fsms w \<and> ipcp_is_up w' = ipcp_is_up w \<and>
     (\<forall>a. pending FSM_TIMEOUT a w' = pending FSM_TIMEOUT a w)"

text \<open>The reset exchange: the flags of \<^verbatim>\<open>ccp_localstate\<close> and the number of armed timers.\<close>

definition rack_view :: "'a ccp_world_scheme \<Rightarrow> u32 \<times> nat" where
  "rack_view w = (ccp_localstate w, pending CCP_RACK_TIMEOUT (ARG_FSM CCP_FSM) w)"

definition rack_lay :: "u32 \<times> nat \<Rightarrow> bool" where
  "rack_lay v \<longleftrightarrow> v \<in> {(0, 0), (RACK_PENDING, 1), (RACK_PENDING OR RREQ_REPEAT, 1)}"

abbreviation ccp_ok :: "'a ccp_world_scheme \<Rightarrow> bool" where
  "ccp_ok \<equiv> layer_inv (\<lambda>v. v = (0, 0)) rack_lay rack_view CCP_FSM"

text \<open>\<open>w'\<close> has the same automaton, timer and interface state of IPCP.\<close>

definition ipcp_same :: "'a ccp_world_scheme \<Rightarrow> 'a ccp_world_scheme \<Rightarrow> bool" where
  "ipcp_same w w' \<longleftrightarrow> fsms w' IPCP_FSM = fsms w IPCP_FSM \<and> timers IPCP_FSM w' = timers IPCP_FSM w \<and>
     ipcp_is_up w' = ipcp_is_up w"

section \<open>System calls of the option functions\<close>

lemma sys_step_test: "ccp_test opt tx w = (r, v) \<Longrightarrow> sys_step w v"
  using sys_step_calls(11) [of w opt tx] by simp

lemma sys_step_probe: "sys_step w (snd (ccp_probe b opt w))"
  by (auto simp: ccp_probe_def Let_def split: prod.split dest: sys_step_test)

lemma sys_step_reset: "sys_step w (snd (ccp_reset_go go w))"
proof -
  have "sys_step u v \<Longrightarrow> sys_step u (snd (ccp_probe b opt v))" for u v :: "'a sys_world_scheme" and b opt
    using sys_step_probe [of v b opt] by (rule sys_step_trans [rotated])
  then show ?thesis
    by (simp add: ccp_reset_go_def Let_def case_prod_unfold)
qed

lemma sys_step_fit: "sys_step w (snd (snd (ccp_fit ci mn n w)))"
proof (induction ci mn n w rule: ccp_fit.induct)
  case (1 ci mn n w)
  obtain res v where t: "ccp_test (ci n) False w = (res, v)" by fastforce
  from 1 [OF t [symmetric] refl] sys_step_test [OF t] show ?case
    by (subst ccp_fit.simps) (auto simp: t Let_def intro: sys_step_trans)
qed

lemma sys_step_add: "sys_step w (snd (snd (ccp_addci go w)))"
proof -
  have f: "ccp_fit ci mn n v = (r, k, v') \<Longrightarrow> sys_step v v'" for ci mn n r k and v v' :: "'a sys_world_scheme"
    using sys_step_fit [of v ci mn n] by simp
  have d: "sys_step v (snd (snd (ccp_add_deflate g v)))" for g and v :: "'a sys_world_scheme"
    by (auto simp: ccp_add_deflate_def Let_def split: prod.split dest: f)
  have b: "sys_step v (snd (snd (ccp_add_bsd p g v)))" for g p and v :: "'a sys_world_scheme"
    by (auto simp: ccp_add_bsd_def Let_def split: prod.split dest: f)
  have p: "sys_step v (snd (snd (ccp_add_predictor opt x q v)))" for opt x q and v :: "'a sys_world_scheme"
    by (auto simp: ccp_add_predictor_def Let_def split: prod.split dest: sys_step_test)
  obtain p1 g1 w1 where 1: "ccp_add_deflate go w = (p1, g1, w1)" by (rule prod_cases3)
  obtain p2 g2 w2 where 2: "ccp_add_bsd p1 g1 w1 = (p2, g2, w2)" by (rule prod_cases3)
  obtain x3 p3 w3 where 3: "ccp_add_predictor [CI_PREDICTOR_1, of_nat CILEN_PREDICTOR_1] (predictor_1 g2) p2 w2 = (x3, p3, w3)"
    by (rule prod_cases3)
  obtain x4 p4 w4 where 4: "ccp_add_predictor [CI_PREDICTOR_2, of_nat CILEN_PREDICTOR_2] (predictor_2 g2) p3 w3 = (x4, p4, w4)"
    by (rule prod_cases3)
  have "sys_step w w1" "sys_step w1 w2" "sys_step w2 w3" "sys_step w3 w4"
    using d [of w go] b [of w1 p1 g1] p [of w2] p [of w3] 1 2 3 4 by (metis snd_conv)+
  then have "sys_step w w4" by (metis sys_step_trans)
  then show ?thesis by (simp add: ccp_addci_def 1 2 3 4)
qed

lemma sys_step_shrink:
  assumes "ccp_shrink mk mn orig dn ci nb vd w = Some r"
  shows "sys_step w (snd (snd r))"
  using assms
proof (rule ccp_shrink.raw_induct [rotated])
  fix rec dn ci vd r and mk :: "int \<Rightarrow> int" and mn orig nb :: int and w :: "'a sys_world_scheme"
  assume IH: "\<And>mk mn orig dn ci nb vd w r. rec mk mn orig dn ci nb vd w = Some r \<Longrightarrow> sys_step w (snd (snd r))"
    and r: "(case ccp_test ci True w of (res, w) \<Rightarrow>
      if res > 0 then Some (vd, ci, w)
      else if res < 0 \<or> nb = mn \<or> dn then Some (Rej, ci[2 := word_of_int (mk orig)], w)
      else rec mk mn orig dn (ci[2 := word_of_int (mk (nb - 1))]) (nb - 1) Nak w) = Some r"
  obtain res v where t: "ccp_test ci True w = (res, v)" by fastforce
  show "sys_step w (snd (snd r))"
    using r sys_step_test [OF t] IH [of mk mn orig dn "ci[2 := word_of_int (mk (nb - 1))]" "nb - 1" Nak v r]
    by (auto simp: t split: if_split_asm intro: sys_step_trans)
qed

lemma sys_step_req_ci:
  assumes "ccp_req_ci ao dn first ho ci w = Some (v, ci', ho', w')"
  shows "sys_step w w'"
proof -
  have s: "sys_step w w'" if "ccp_sized mk mn dn first g bad nb ho ho1 ci ci1 w = Some (v, ci', ho', w')"
    for mk mn g bad nb ho1 ci1
    using that sys_step_shrink [of mk mn nb dn "if bad then ci1 else ci" nb "if bad then Nak else Ack" w "(v, ci', w')"]
    by (auto simp: ccp_sized_def split: if_split_asm)
  have p: "sys_step w w'" if "ccp_req_predictor al first ho ho2 ci w = Some (v, ci', ho', w')" for al ho2
    using that by (auto simp: ccp_req_predictor_def Let_def split: if_split_asm prod.split_asm dest: sys_step_test)
  show ?thesis
    using assms
    by (auto simp: ccp_req_ci_def Let_def ccp_req_deflate_sized ccp_req_bsd_sized split: if_split_asm intro: s p)
qed

lemma sys_step_req_loop:
  "ccp_req_loop ao dn first l s ho w = Some (v, out, ho', w') \<Longrightarrow> sys_step w w'"
proof (induction ao dn first l s ho w rule: ccp_req_loop.induct)
  case (1 ao dn first l s ho w)
  show ?case
  proof (cases "l = [] \<or> bad_ci l")
    case True
    with 1(2) show ?thesis by (subst (asm) ccp_req_loop.simps) (auto simp: Let_def split: if_split_asm)
  next
    case False
    with 1(2) obtain v1 c1 h1 w1 where c: "ccp_req_ci ao dn first ho (take (unat (l ! 1)) l) w = Some (v1, c1, h1, w1)"
      and r: "ccp_req_loop ao dn False (drop (unat (l ! 1)) l) (ccp_settle dn v1 c1 s) h1 w1 = Some (v, out, ho', w')"
      by (subst (asm) ccp_req_loop.simps) (auto split: option.split_asm)
    have "sys_step w1 w'"
      using False 1(1) [OF _ _ c refl refl refl r] by blast
    with sys_step_req_ci [OF c] show ?thesis by (rule sys_step_trans)
  qed
qed

lemma sys_step_req: "ccp_req ao dn inp w = Some (code, out, ar, ho, w') \<Longrightarrow> sys_step w w'"
  by (auto simp: ccp_req_def Let_def split: option.split_asm verdict.split_asm dest: sys_step_req_loop)

section \<open>Callbacks\<close>

lemma cc_quiet_trans [trans]: "cc_quiet u v \<Longrightarrow> cc_quiet v w \<Longrightarrow> cc_quiet u w"
  by (auto simp: cc_quiet_def intro: ncp_quiet_trans)

lemma cc_quiet_refl [simp]: "cc_quiet w w"
  by (simp add: cc_quiet_def ncp_quiet_def)

lemma cc_quiet_state: "cc_quiet w w' \<Longrightarrow> state_of i w' = state_of i w"
  by (simp add: cc_quiet_def)

lemma localstate_frame [simp]:
  "ccp_localstate (ppptimeout f a t w) = ccp_localstate w" "ccp_localstate (pppuntimeout f a w) = ccp_localstate w"
  "ccp_localstate (put_outpacket n bs w) = ccp_localstate w" "ccp_localstate (output_outpacket u k w) = ccp_localstate w"
  "ccp_localstate (upd_fsm i g w) = ccp_localstate w" "ccp_localstate (new_phase ph w) = ccp_localstate w"
  by (simp_all add: ppptimeout_def gettimeofday_def pppuntimeout_def put_outpacket_def output_outpacket_def
      upd_fsm_def new_phase_def)

lemma rack_view_frame [simp]:
  "rack_view (upd_fsm i g w) = rack_view w" "rack_view (put_outpacket n bs w) = rack_view w"
  "rack_view (output_outpacket u k w) = rack_view w"
  "f \<noteq> CCP_RACK_TIMEOUT \<or> a \<noteq> ARG_FSM CCP_FSM \<Longrightarrow> rack_view (ppptimeout f a t w) = rack_view w"
  "f \<noteq> CCP_RACK_TIMEOUT \<or> a \<noteq> ARG_FSM CCP_FSM \<Longrightarrow> rack_view (pppuntimeout f a w) = rack_view w"
  by (auto simp: rack_view_def)

lemma rack_view_sdata [simp]: "rack_view (fsm_sdata i code idn d m w) = rack_view w"
proof -
  have "rack_view (v\<lparr>oob := b\<rparr>) = rack_view v" for b and v :: "'a ccp_world_scheme"
    by (simp add: rack_view_def pending_def)
  then show ?thesis
    by (simp add: fsm_sdata_def Let_def bcopy_outpacket_def split: sdata.split)
qed

lemma localstate_sdata [simp]: "ccp_localstate (fsm_sdata i code idn d m w) = ccp_localstate w"
  using rack_view_sdata [of i code idn d m w] by (simp add: rack_view_def)

lemma cc_sys:
  assumes "sys_step w w'"
  shows "cc_quiet w w'" and "rack_view w' = rack_view w"
proof -
  have "ccp_localstate w' = ccp_localstate w"
    using sys_more(7) [OF assms] by (cases w; cases w') simp
  with sys_step_fields [OF assms] show "rack_view w' = rack_view w"
    by (simp add: rack_view_def pending_def)
  show "cc_quiet w w'"
    using ip_quiet_sys [OF assms] sys_more(1) [OF assms] by (simp add: cc_quiet_def ip_quiet_def)
qed

lemma cc_quiet_upd [simp]:
  assumes "cc_quiet w v"
  shows "cc_quiet w (v\<lparr>ccp_gotoptions := go\<rparr>)" "cc_quiet w (v\<lparr>all_rejected := b\<rparr>)"
    "cc_quiet w (v\<lparr>ccp_localstate := s\<rparr>)" "cc_quiet w (v\<lparr>stuck := b\<rparr>)"
    "cc_quiet w (v\<lparr>ccp_hisoptions := go, all_rejected := b\<rparr>)"
    "cc_quiet w (ppptimeout CCP_RACK_TIMEOUT a t v)" "cc_quiet w (pppuntimeout CCP_RACK_TIMEOUT a v)"
    "cc_quiet w (ccp_flags_set x y v)" "cc_quiet w (put_outpacket n bs v)" "cc_quiet w (output_outpacket u k v)"
    "cc_quiet w (v\<lparr>oob := c\<rparr>)"
proof -
  have "cc_quiet v (v\<lparr>ccp_gotoptions := go\<rparr>)" "cc_quiet v (v\<lparr>all_rejected := b\<rparr>)"
    "cc_quiet v (v\<lparr>ccp_localstate := s\<rparr>)" "cc_quiet v (v\<lparr>stuck := b\<rparr>)" "cc_quiet v (v\<lparr>oob := c\<rparr>)"
    "cc_quiet v (v\<lparr>ccp_hisoptions := go, all_rejected := b\<rparr>)"
    by (simp_all add: cc_quiet_def ncp_quiet_def lcp_quiet_def pending_def)
  moreover have "cc_quiet v (ppptimeout CCP_RACK_TIMEOUT a t v)" "cc_quiet v (pppuntimeout CCP_RACK_TIMEOUT a v)"
    by (simp_all add: cc_quiet_def ncp_quiet_def lcp_quiet_def)
  moreover have "cc_quiet v (put_outpacket n bs v)" "cc_quiet v (output_outpacket u k v)"
    using ip_quiet_io [of v] by (auto simp: cc_quiet_def ip_quiet_def)
  ultimately show "cc_quiet w (v\<lparr>ccp_gotoptions := go\<rparr>)" "cc_quiet w (v\<lparr>all_rejected := b\<rparr>)"
    "cc_quiet w (v\<lparr>ccp_localstate := s\<rparr>)" "cc_quiet w (v\<lparr>stuck := b\<rparr>)"
    "cc_quiet w (v\<lparr>ccp_hisoptions := go, all_rejected := b\<rparr>)"
    "cc_quiet w (ppptimeout CCP_RACK_TIMEOUT a t v)" "cc_quiet w (pppuntimeout CCP_RACK_TIMEOUT a v)"
    "cc_quiet w (put_outpacket n bs v)" "cc_quiet w (output_outpacket u k v)"
    "cc_quiet w (v\<lparr>oob := c\<rparr>)"
    using assms by (blast intro: cc_quiet_trans)+
  show "cc_quiet w (ccp_flags_set x y v)"
    by (rule cc_quiet_trans [OF assms cc_sys(1)]) simp
qed

lemma cc_quiet_sdata [simp]: "cc_quiet w v \<Longrightarrow> cc_quiet w (fsm_sdata i code idn d n v)"
  by (simp add: fsm_sdata_def Let_def bcopy_outpacket_def split: sdata.split)

lemma rack_view_upd [simp]:
  "rack_view (w\<lparr>ccp_gotoptions := go\<rparr>) = rack_view w" "rack_view (w\<lparr>all_rejected := b\<rparr>) = rack_view w"
  "rack_view (w\<lparr>stuck := b\<rparr>) = rack_view w" "rack_view (w\<lparr>ccp_hisoptions := go\<rparr>) = rack_view w"
  "rack_view (ccp_flags_set x y w) = rack_view w"
  by (simp_all add: cc_sys(2)) (simp_all add: rack_view_def pending_def)

lemma flags_fsms [simp]: "fsms (ccp_flags_set x y w) = fsms w"
  using sys_step_fields [OF sys_step_calls(12) [of w x y]] by simp

text \<open>The option callbacks are quiet and leave the reset exchange alone.\<close>

lemma ccp_ci_quiet:
  "cc_quiet w (ccp_resetci w) \<and> rack_view (ccp_resetci w) = rack_view w"
  "cc_quiet w (snd (ccp_cilen_cb w)) \<and> rack_view (snd (ccp_cilen_cb w)) = rack_view w"
  "cc_quiet w (snd (snd (ccp_addci_cb n w))) \<and> rack_view (snd (snd (ccp_addci_cb n w))) = rack_view w"
  "cc_quiet w (snd (ccp_ackci_cb inp w)) \<and> rack_view (snd (ccp_ackci_cb inp w)) = rack_view w"
  "cc_quiet w (snd (ccp_nakci inp w)) \<and> rack_view (snd (ccp_nakci inp w)) = rack_view w"
  "cc_quiet w (snd (ccp_rejci inp w)) \<and> rack_view (snd (ccp_rejci inp w)) = rack_view w"
  "cc_quiet w (snd (snd (ccp_reqci inp rej w))) \<and> rack_view (snd (snd (ccp_reqci inp rej w))) = rack_view w"
proof -
  have u: "cc_quiet w (w\<lparr>all_rejected := False\<rparr>)" "rack_view (w\<lparr>all_rejected := False\<rparr>) = rack_view w"
    by simp_all
  have r: "cc_quiet w (snd (ccp_reset_go go (w\<lparr>all_rejected := False\<rparr>)))"
    "rack_view (snd (ccp_reset_go go (w\<lparr>all_rejected := False\<rparr>))) = rack_view w" for go
    using cc_quiet_trans [OF u(1) cc_sys(1) [OF sys_step_reset]] cc_sys(2) [OF sys_step_reset] u(2) by metis+
  then show "cc_quiet w (ccp_resetci w) \<and> rack_view (ccp_resetci w) = rack_view w"
    by (simp add: ccp_resetci_def case_prod_unfold Let_def)
  show "cc_quiet w (snd (snd (ccp_addci_cb n w))) \<and> rack_view (snd (snd (ccp_addci_cb n w))) = rack_view w"
    using cc_sys [OF sys_step_add [of w "ccp_gotoptions w"]] by (simp add: ccp_addci_cb_def case_prod_unfold Let_def)
  show "cc_quiet w (snd (snd (ccp_reqci inp rej w))) \<and> rack_view (snd (snd (ccp_reqci inp rej w))) = rack_view w"
  proof (cases "ccp_req (ccp_allowoptions w) rej inp w")
    case (Some r)
    obtain code out ar ho w' where r: "r = (code, out, ar, ho, w')" by (rule prod_cases5)
    with Some have "sys_step w w'" by (auto intro: sys_step_req)
    from cc_sys [OF this] show ?thesis by (simp add: ccp_reqci_def Some r)
  qed (simp add: ccp_reqci_def)
qed (auto simp: ccp_cilen_cb_def ccp_ackci_cb_def ccp_nakci_def ccp_rejci_def split: option.split)

lemma ccp_change_quiet:
  "cc_quiet w v \<Longrightarrow> cc_quiet w (ccp_up v)" "cc_quiet w v \<Longrightarrow> cc_quiet w (ccp_down v)"
  "cc_quiet w v \<Longrightarrow> cc_quiet w (snd (ccp_extcode code idn inp v))"
  by (simp_all add: ccp_up_def ccp_down_def ccp_extcode_def Let_def)

section \<open>What CCP leaves alone\<close>

locale cc_observer =
  fixes P :: "'a ccp_world_scheme \<Rightarrow> bool"
  assumes obs_quiet: "P v \<Longrightarrow> cc_quiet v v' \<Longrightarrow> P v'"
    and obs_upd: "P v \<Longrightarrow> P (upd_fsm CCP_FSM g v)"
    and obs_arm: "P v \<Longrightarrow> P (ppptimeout FSM_TIMEOUT (ARG_FSM CCP_FSM) t v)"
    and obs_disarm: "P v \<Longrightarrow> P (pppuntimeout FSM_TIMEOUT (ARG_FSM CCP_FSM) v)"

sublocale cc_observer \<subseteq> cc: fsm_keeps_all P ccp_callbacks CCP_FSM P
  by unfold_locales
    (auto simp: ccp_callbacks_def obs_upd obs_arm obs_disarm ccp_ci_quiet ccp_change_quiet intro: obs_quiet)

context cc_observer
begin

lemma ccp_keeps:
  assumes "P w"
  shows "P (ccp_lowerup w)" "P (ccp_lowerdown w)" "P (ccp_close r w)" "P (ccp_open w)" "P (ccp_protrej w)"
    "P (ccp_input p w)" "P (ccp_datainput p w)" "P (ccp_rack_timeout w)"
    "P (fsm_timeout ccp_callbacks CCP_FSM w)"
proof -
  have f: "P v \<Longrightarrow> P (ccp_flags_set x y v)" for x y v
    by (erule obs_quiet) simp
  have close: "P v \<Longrightarrow> P (ccp_close r v)" for r v
    unfolding ccp_close_def by (blast intro: f cc.close_keeps)
  with assms show "P (ccp_close r w)" by blast
  show "P (ccp_protrej w)"
    unfolding ccp_protrej_def by (blast intro: assms f cc.lowerdown_keeps)
  show "P (ccp_lowerup w)" "P (ccp_lowerdown w)" "P (fsm_timeout ccp_callbacks CCP_FSM w)"
    unfolding ccp_lowerup_def ccp_lowerdown_def
    by (rule cc.lowerup_keeps cc.lowerdown_keeps cc.timeout_keeps, rule assms)+
  have r: "P v \<Longrightarrow> P (ccp_resetci v)" for v
    using ccp_ci_quiet(1) by (blast intro: obs_quiet)
  show "P (ccp_open w)"
    using assms by (simp add: ccp_open_def Let_def cc.open_keeps r f obs_upd)
  show "P (ccp_input p w)"
    using assms by (simp add: ccp_input_def Let_def close cc.input_keeps)
  have q: "P v" if "cc_quiet w v" for v
    using assms that by (rule obs_quiet)
  show "P (ccp_rack_timeout w)"
    by (simp add: ccp_rack_timeout_def Let_def q)
  obtain fatal v where e: "ccp_fatal_error w = (fatal, v)" by fastforce
  with sys_step_calls(13) [of w] have v: "P v" by (auto intro: q cc_sys(1))
  have sent: "P ((ppptimeout CCP_RACK_TIMEOUT a t (fsm_sdata CCP_FSM c n d m u))\<lparr>ccp_localstate := l\<rparr>)" if "P u"
    for a t c n d m u l
    using that by (rule obs_quiet) simp
  have "P (v\<lparr>ccp_localstate := l\<rparr>)" for l
    using v by (rule obs_quiet) simp
  then show "P (ccp_datainput p w)"
    using assms v by (simp add: ccp_datainput_def e Let_def close sent obs_upd)
qed

end

lemma cc_quiet_fsm: "cc_quiet w w' \<Longrightarrow> fsm_quiet i w w'"
  by (simp add: cc_quiet_def fsm_quiet_def)

lemma ncp_quiet_ccp_fsm:
  "ncp_quiet v (upd_fsm CCP_FSM g v)" "ncp_quiet v (ppptimeout FSM_TIMEOUT (ARG_FSM CCP_FSM) t v)"
  "ncp_quiet v (pppuntimeout FSM_TIMEOUT (ARG_FSM CCP_FSM) v)"
  by (simp_all add: ncp_quiet_def lcp_quiet_def) (simp_all add: upd_fsm_def)

interpretation cquiet: cc_observer "ncp_quiet w" for w
  by unfold_locales (auto simp: cc_quiet_def intro: ncp_quiet_trans ncp_quiet_ccp_fsm)

interpretation ipsame: cc_observer "ipcp_same w" for w
  by unfold_locales (auto simp: ipcp_same_def cc_quiet_def)

section \<open>CCP as a client of the automaton\<close>

interpretation ccp_fsm: fsm_client ccp_callbacks CCP_FSM
  by unfold_locales
    (auto simp: ccp_callbacks_def ccp_ci_quiet ccp_change_quiet
      quiet_timer_inv [OF cc_quiet_fsm [OF ccp_change_quiet(1) [OF cc_quiet_refl]]]
      quiet_timer_inv [OF cc_quiet_fsm [OF ccp_change_quiet(3) [OF cc_quiet_refl]]]
      quiet_timer_inv [OF cc_quiet_fsm [OF conjunct1 [OF ccp_ci_quiet(5)]]]
      intro: cc_quiet_fsm)

section \<open>The reset exchange\<close>

lemma rack_lay_cases:
  assumes "rack_lay (rack_view w)"
  obtains "ccp_localstate w = 0" and "pending CCP_RACK_TIMEOUT (ARG_FSM CCP_FSM) w = 0"
  | "ccp_localstate w = 1 \<or> ccp_localstate w = 3" and "pending CCP_RACK_TIMEOUT (ARG_FSM CCP_FSM) w = 1"
  using assms by (auto simp: rack_lay_def rack_view_def RACK_PENDING_def RREQ_REPEAT_def)

lemma pending_localstate [simp]: "pending f a (w\<lparr>ccp_localstate := s\<rparr>) = pending f a w"
  by (simp add: pending_def)

lemma rack_view_set: "rack_view (w\<lparr>ccp_localstate := s\<rparr>) = (s, pending CCP_RACK_TIMEOUT (ARG_FSM CCP_FSM) w)"
  by (simp add: rack_view_def pending_def)

lemma ccp_down_rack: "rack_lay (rack_view w) \<Longrightarrow> rack_view (ccp_down w) = (0, 0)"
  by (erule rack_lay_cases) (auto simp: ccp_down_def Let_def rack_view_set RACK_PENDING_def)

lemma ccp_extcode_rack: "rack_lay (rack_view w) \<Longrightarrow> rack_lay (rack_view (snd (ccp_extcode code idn inp w)))"
proof (cases "code = CCP_RESETACK \<and> ccp_localstate w AND RACK_PENDING \<noteq> 0")
  case True
  assume "rack_lay (rack_view w)"
  then show ?thesis
  proof (rule rack_lay_cases)
    assume "ccp_localstate w = 0"
    with True show ?thesis by simp
  next
    assume s: "ccp_localstate w = 1 \<or> ccp_localstate w = 3" and "pending CCP_RACK_TIMEOUT (ARG_FSM CCP_FSM) w = 1"
    then have "rack_view (pppuntimeout CCP_RACK_TIMEOUT (ARG_FSM CCP_FSM)
        (w\<lparr>ccp_localstate := ccp_localstate w AND NOT (RACK_PENDING OR RREQ_REPEAT)\<rparr>)) = (0, 0)"
      by (auto simp: rack_view_def RACK_PENDING_def RREQ_REPEAT_def)
    with True \<open>rack_lay (rack_view w)\<close> show ?thesis
      by (simp add: ccp_extcode_def CCP_RESETREQ_def CCP_RESETACK_def rack_lay_def)
  qed
qed (auto simp: ccp_extcode_def)

interpretation ccp_layer: fsm_layer ccp_callbacks CCP_FSM rack_view "\<lambda>v. v = (0, 0)" rack_lay
proof unfold_locales
  show "ccp_ok (snd (e code idn inp w))" if "cb_extcode ccp_callbacks = Some e" and "ccp_ok w" for e code idn inp w
  proof -
    have "state_of CCP_FSM (snd (ccp_extcode code idn inp w)) = state_of CCP_FSM w"
      by (rule cc_quiet_state) (rule ccp_change_quiet(3) [OF cc_quiet_refl])
    moreover have "rack_view (snd (ccp_extcode code idn inp w)) = (0, 0)" if "rack_view w = (0, 0)"
      using that by (auto simp: ccp_extcode_def rack_view_def)
    ultimately have "ccp_ok (snd (ccp_extcode code idn inp w))"
      using that(2) ccp_extcode_rack by (auto simp: layer_inv_def split: if_splits)
    with that(1) show ?thesis by (auto simp: ccp_callbacks_def)
  qed
  show "ccp_ok (u w)" if "cb_up ccp_callbacks = Some u" and "rack_view w = (0, 0)" for u w
    using that by (auto simp: ccp_callbacks_def ccp_up_def layer_inv_def rack_lay_def)
  show "ccp_ok (snd (p inp w)) \<and> (state_of CCP_FSM (snd (p inp w)) = OPENED \<longrightarrow> state_of CCP_FSM w = OPENED)"
    if "cb_nakci ccp_callbacks = Some p" and "ccp_ok w" for p inp w
    using that ccp_ci_quiet(5) [of w inp] by (auto simp: ccp_callbacks_def layer_inv_def cc_quiet_state)
qed (auto simp: ccp_callbacks_def ccp_ci_quiet ccp_change_quiet ccp_down_rack rack_lay_def
    cc_quiet_state [OF conjunct1 [OF ccp_ci_quiet(1)]] cc_quiet_state [OF conjunct1 [OF ccp_ci_quiet(2)]]
    cc_quiet_state [OF conjunct1 [OF ccp_ci_quiet(3)]] cc_quiet_state [OF conjunct1 [OF ccp_ci_quiet(4)]]
    cc_quiet_state [OF conjunct1 [OF ccp_ci_quiet(6)]] cc_quiet_state [OF conjunct1 [OF ccp_ci_quiet(7)]]
    cc_quiet_state [OF ccp_change_quiet(2) [OF cc_quiet_refl]])

lemma ccp_ok_quiet: "cc_quiet w w' \<Longrightarrow> rack_view w' = rack_view w \<Longrightarrow> ccp_ok w' = ccp_ok w"
  by (simp add: layer_inv_def cc_quiet_state)

lemma ccp_ok_flags [simp]: "ccp_ok (ccp_flags_set x y w) = ccp_ok w"
  by (rule ccp_ok_quiet) simp_all

text \<open>Every operation of CCP keeps the invariant; the routine of the timer when its entry is taken from the list.\<close>

lemma ccp_ok_ops:
  assumes "ccp_ok w"
  shows "ccp_ok (ccp_lowerup w)" "ccp_ok (ccp_lowerdown w)" "ccp_ok (ccp_close r w)" "ccp_ok (ccp_open w)"
    "ccp_ok (ccp_protrej w)" "ccp_ok (ccp_input p w)" "ccp_ok (fsm_timeout ccp_callbacks CCP_FSM w)"
proof -
  have close: "ccp_ok v \<Longrightarrow> ccp_ok (ccp_close r v)" for r and v :: "'a ccp_world_scheme"
    by (simp add: ccp_close_def ccp_layer.close_layer)
  with assms show "ccp_ok (ccp_close r w)" by blast
  show "ccp_ok (ccp_protrej w)" "ccp_ok (ccp_lowerup w)" "ccp_ok (ccp_lowerdown w)"
    "ccp_ok (fsm_timeout ccp_callbacks CCP_FSM w)"
    using assms by (simp_all add: ccp_protrej_def ccp_lowerup_def ccp_lowerdown_def
        ccp_layer.lowerup_layer ccp_layer.lowerdown_layer ccp_layer.timeout_layer)
  show "ccp_ok (ccp_input p w)"
    using assms by (simp add: ccp_input_def Let_def close ccp_layer.input_layer)
  have "ccp_ok (ccp_resetci v) = ccp_ok v" for v :: "'a ccp_world_scheme"
    by (rule ccp_ok_quiet) (simp_all add: ccp_ci_quiet)
  with assms show "ccp_ok (ccp_open w)"
    by (simp add: ccp_open_def Let_def ccp_layer.open_layer ccp_layer.inv_upd)
qed

lemma ccp_datainput_ok:
  assumes "ccp_ok w"
  shows "ccp_ok (ccp_datainput p w)"
proof (cases "state_of CCP_FSM w = OPENED")
  case True
  obtain fatal v where e: "ccp_fatal_error w = (fatal, v)" by fastforce
  with sys_step_calls(13) [of w] have s: "sys_step w v" by simp
  have v: "ccp_ok v" "state_of CCP_FSM v = OPENED"
    using assms True ccp_ok_quiet [OF cc_sys [OF s]] cc_quiet_state [OF cc_sys(1) [OF s]] by simp_all
  then have lay: "rack_lay (rack_view v)" by (simp add: layer_inv_def)
  have "ccp_ok (ccp_datainput p w)" if nf: "\<not> fatal"
  proof (rule rack_lay_cases [OF lay])
    assume "ccp_localstate v = 0" "pending CCP_RACK_TIMEOUT (ARG_FSM CCP_FSM) v = 0"
    with v(2) True nf show ?thesis
      by (simp add: ccp_datainput_def e Let_def layer_inv_def rack_lay_def rack_view_set)
  next
    assume "ccp_localstate v = 1 \<or> ccp_localstate v = 3" "pending CCP_RACK_TIMEOUT (ARG_FSM CCP_FSM) v = 1"
    with v(2) True nf show ?thesis
      by (auto simp: ccp_datainput_def e Let_def layer_inv_def rack_lay_def rack_view_set RACK_PENDING_def
          RREQ_REPEAT_def)
  qed
  moreover have "ccp_ok (ccp_datainput p w)" if fatal
    using that True v(1) by (simp add: ccp_datainput_def e ccp_ok_ops)
  ultimately show ?thesis by blast
qed (use assms in \<open>simp add: ccp_datainput_def\<close>)

lemma ccp_rack_timeout_ok:
  assumes "ccp_ok w" and "callout w = e # es" and "c_func e = CCP_RACK_TIMEOUT" and "c_arg e = ARG_FSM CCP_FSM"
  shows "ccp_ok (ccp_rack_timeout (w\<lparr>callout := es\<rparr>))"
proof -
  define v where "v = w\<lparr>callout := es\<rparr>"
  have n: "pending CCP_RACK_TIMEOUT (ARG_FSM CCP_FSM) w = Suc (pending CCP_RACK_TIMEOUT (ARG_FSM CCP_FSM) v)"
    using assms by (simp add: v_def pending_def)
  with assms(1) have op: "state_of CCP_FSM w = OPENED" and lay: "rack_lay (rack_view w)"
    by (auto simp: layer_inv_def rack_view_def split: if_splits)
  from lay have "(ccp_localstate w = 1 \<or> ccp_localstate w = 3) \<and> pending CCP_RACK_TIMEOUT (ARG_FSM CCP_FSM) v = 0"
    by (rule rack_lay_cases) (simp_all add: n)
  then have l: "ccp_localstate v = 1 \<or> ccp_localstate v = 3" "pending CCP_RACK_TIMEOUT (ARG_FSM CCP_FSM) v = 0"
    by (simp_all add: v_def)
  have st: "state_of CCP_FSM v = OPENED"
    using op by (simp add: v_def)
  from l(1) have "ccp_ok (ccp_rack_timeout v)"
  proof
    assume "ccp_localstate v = 1"
    with l(2) st show ?thesis
      by (simp add: ccp_rack_timeout_def layer_inv_def rack_lay_def rack_view_set RACK_PENDING_def RREQ_REPEAT_def)
  next
    assume "ccp_localstate v = 3"
    with l(2) st show ?thesis
      by (simp add: ccp_rack_timeout_def Let_def layer_inv_def rack_lay_def rack_view_set RACK_PENDING_def RREQ_REPEAT_def)
  qed
  then show ?thesis by (simp add: v_def)
qed

end
