(* ===== verification/Ncp_Table.thy ===== *)
theory Ncp_Table
  imports Link_Observer Ccp_Inv
begin

text \<open>
  The table of protocols with IPCP and CCP as its network protocols. The interpretations of
  \<open>ncp_table\<close> make the facts on LCP and \<^verbatim>\<open>auth.c\<close> available for it, first for the entries that taking
  the link down uses, then for the whole entries. In the other direction, LCP, PAP, CHAP and
  \<^verbatim>\<open>auth.c\<close> keep what concerns one network protocol alone; with that, IPCP is a client of the
  automaton (\<open>fsm_client\<close>) and the interface the layer above it (\<open>fsm_layer\<close>).
\<close>

section \<open>Definitions\<close>

text \<open>The entries of the network protocols, with the enabled flags of IPCP and CCP.\<close>

definition ncp_lows :: "bool \<Rightarrow> bool \<Rightarrow> 'a ccp_world_scheme protent list" where
  "ncp_lows ip cc = [ipcp_low ip, ccp_protent cc]"

definition ncp_tab :: "plugins \<Rightarrow> bool \<Rightarrow> bool \<Rightarrow> 'a ccp_world_scheme protent list" where
  "ncp_tab pl ip cc = [ipcp_protent pl (ncp_lows ip cc) ip, ccp_protent cc]"

definition ncp_on :: "bool \<Rightarrow> bool \<Rightarrow> fsm_id \<Rightarrow> bool" where
  "ncp_on ip cc i \<longleftrightarrow> i = IPCP_FSM \<and> ip \<or> i = CCP_FSM \<and> cc"

section \<open>LCP seen from the network protocols\<close>

lemma ncp_quiet_timer: "ncp_quiet w w' \<Longrightarrow> timer_inv LCP_FSM w' = timer_inv LCP_FSM w"
  by (simp add: ncp_quiet_def lcp_quiet_timer)

lemma ncp_quiet_link:
  "ncp_quiet w w' \<Longrightarrow> state_of LCP_FSM w = OPENED \<Longrightarrow> link_ok on w' = link_ok on w"
  by (simp add: ncp_quiet_def lcp_quiet_link_ok)

lemma link_ok_quiet: "ncp_quiet w w' \<Longrightarrow> fsms w' = fsms w \<Longrightarrow> link_ok on w' = link_ok on w"
  by (simp add: ncp_quiet_def lcp_quiet_def layer_inv_def lcp_view_def auth_view_def)

lemma ncp_quiet_same: "ncp_quiet w w"
  by (simp add: ncp_quiet_def)

lemmas ccp_ops_quiet = cquiet.ccp_keeps [OF ncp_quiet_same]

text \<open>The end of \<^verbatim>\<open>link_down\<close>: both automata are back in \<open>INITIAL\<close>.\<close>

lemma ipcp_initial: "state_of IPCP_FSM (proto_down (ipcp_low True) w) = INITIAL"
proof -
  have "state_of IPCP_FSM (ipcp_lowerdown w) \<in> {INITIAL, STARTING}"
    unfolding ipcp_lowerdown_def by (rule fsm_lowerdown_states) (simp add: ipcp_down_callbacks_def)
  from fsm_close_initial [OF this] show ?thesis
    by (simp add: proto_down_def ipcp_low_def ipcp_close_def Let_def ppp_consts)
qed

lemma ccp_initial: "state_of CCP_FSM (proto_down (ccp_protent True) w) = INITIAL"
proof -
  have "state_of CCP_FSM (ccp_lowerdown w) \<in> {INITIAL, STARTING}"
    unfolding ccp_lowerdown_def by (rule fsm_lowerdown_states) (simp add: ccp_callbacks_def)
  then have "state_of CCP_FSM (ccp_flags_set False False (ccp_lowerdown w)) \<in> {INITIAL, STARTING}"
    by simp
  from fsm_close_initial [OF this] show ?thesis
    by (simp add: proto_down_def ccp_protent_def ccp_close_def Let_def ppp_consts)
qed

lemma ccp_down_ipcp: "state_of IPCP_FSM (proto_down (ccp_protent e) w) = state_of IPCP_FSM w"
proof -
  have "ipcp_same w (ccp_lowerdown w)" "ipcp_same w (ccp_close r (ccp_lowerdown w))" for r
    by (blast intro: ipsame.ccp_keeps ipcp_same_def [THEN iffD2] )+
  then show ?thesis
    by (simp add: proto_down_def ccp_protent_def Let_def ipcp_same_def PPP_CCP_def PPP_LCP_def)
qed

lemma lows_down:
  "ncp_on ip cc i \<Longrightarrow> state_of i (fold proto_down (ncp_lows ip cc) w) = INITIAL"
  by (auto simp: ncp_on_def ncp_lows_def ipcp_initial ccp_initial ccp_down_ipcp)

interpretation low: ncp_table pl "ncp_lows ip cc" "ncp_on ip cc" for pl ip cc
proof unfold_locales
  show "state_of i (fold proto_down (ncp_lows ip cc) w) = INITIAL" if "ncp_on ip cc i" for i w
    using that by (rule lows_down)
qed (auto simp: ncp_lows_def ipcp_low_def ccp_protent_def ipcp_lower_quiet ccp_ops_quiet
      ncp_quiet_timer [OF ccp_ops_quiet(6)] ncp_quiet_timer [OF ccp_ops_quiet(7)]
      ncp_quiet_link [OF ccp_ops_quiet(6)] ncp_quiet_link [OF ccp_ops_quiet(7)])

lemma np_finished_lcp:
  "timer_inv LCP_FSM w \<Longrightarrow> timer_inv LCP_FSM (np_finished pl (ncp_lows ip cc) w)"
  "link_ok (ncp_on ip cc) w \<Longrightarrow> link_ok (ncp_on ip cc) (np_finished pl (ncp_lows ip cc) w)"
  by (simp_all add: np_finished_def Let_def low.close_link_timer low.close_link_ok)

lemma timer_ipcp:
  "timer_inv LCP_FSM (upd_fsm IPCP_FSM g w) = timer_inv LCP_FSM w"
  "timer_inv LCP_FSM (ppptimeout f (ARG_FSM IPCP_FSM) t w) = timer_inv LCP_FSM w"
  "timer_inv LCP_FSM (pppuntimeout f (ARG_FSM IPCP_FSM) w) = timer_inv LCP_FSM w"
  by (simp_all add: timer_inv_def)

interpretation lcp_timer: ip_observer_all "timer_inv LCP_FSM" "timer_inv LCP_FSM" pl "ncp_lows ip cc" for pl ip cc
  by unfold_locales (auto simp: ip_quiet_def ncp_quiet_timer timer_ipcp np_finished_lcp)

text \<open>While LCP is up the network protocols may do what they like; a disabled one always.\<close>

abbreviation link_up :: "bool \<Rightarrow> bool \<Rightarrow> fsm_id \<Rightarrow> 'a ccp_world_scheme \<Rightarrow> bool" where
  "link_up ip cc i w \<equiv> link_ok (ncp_on ip cc) w \<and> (state_of LCP_FSM w = OPENED \<or> \<not> ncp_on ip cc i)"

lemma link_ok_other:
  assumes "i \<noteq> LCP_FSM" and "\<not> on i \<or> f_state (g (fsms w i)) = state_of i w"
  shows "link_ok on (upd_fsm i g w) = link_ok on w"
proof -
  have "ncp_states on (fsms (upd_fsm i g w)) = ncp_states on (fsms w)"
    using assms by (auto simp: ncp_states_def fun_eq_iff upd_fsm_def)
  moreover have "upap (upd_fsm i g w) = upap w" "chap (upd_fsm i g w) = chap w"
    by (simp_all add: upd_fsm_def)
  ultimately show ?thesis
    using assms(1) by (simp add: layer_inv_def lcp_view_def auth_view_def)
qed

lemma link_up_upd: "link_up ip cc i w \<Longrightarrow> i \<noteq> LCP_FSM \<Longrightarrow> link_up ip cc i (upd_fsm i g w)"
proof -
  assume w: "link_up ip cc i w" and i: "i \<noteq> LCP_FSM"
  have s: "state_of LCP_FSM (upd_fsm i g w) = state_of LCP_FSM w"
    using i by (simp add: upd_fsm_def)
  have "lcp_quiet w (upd_fsm i g w)"
    using i by (simp add: lcp_quiet_def)
  then have "link_ok (ncp_on ip cc) (upd_fsm i g w)"
    using w lcp_quiet_link_ok [of w "upd_fsm i g w" "ncp_on ip cc"] link_ok_other [OF i, of "ncp_on ip cc" g w]
    by blast
  with w s show ?thesis by simp
qed

lemma link_up_quiet: "link_up ip cc i w \<Longrightarrow> ncp_quiet w w' \<Longrightarrow> fsms w' = fsms w \<Longrightarrow> link_up ip cc i w'"
  using link_ok_quiet [of w w' "ncp_on ip cc"] by (auto simp: ncp_quiet_def lcp_quiet_def)

lemma link_up_arm:
  "i \<noteq> LCP_FSM \<Longrightarrow> link_up ip cc i w \<Longrightarrow> link_up ip cc i (ppptimeout FSM_TIMEOUT (ARG_FSM i) t w)"
  "i \<noteq> LCP_FSM \<Longrightarrow> link_up ip cc i w \<Longrightarrow> link_up ip cc i (pppuntimeout FSM_TIMEOUT (ARG_FSM i) w)"
  by simp_all

interpretation lcp_link: ip_observer_all "link_up ip cc IPCP_FSM" "link_ok (ncp_on ip cc)" pl "ncp_lows ip cc" for pl ip cc
proof unfold_locales
  show "link_up ip cc IPCP_FSM v'" if "link_up ip cc IPCP_FSM v" and "ip_quiet v v'" for v v'
    using link_up_quiet [OF that(1)] that(2) unfolding ip_quiet_def by blast
  show "link_up ip cc IPCP_FSM (upd_fsm IPCP_FSM g v)" if "link_up ip cc IPCP_FSM v" for v g
    using that by (rule link_up_upd) simp
  show "link_ok (ncp_on ip cc) (upd_fsm IPCP_FSM g v)" if "link_ok (ncp_on ip cc) v" and "\<And>f. f_state (g f) = f_state f" for v g
    using that by (subst link_ok_other) simp_all
qed (auto simp: np_finished_lcp)

interpretation lcp_ccp: cc_observer "link_up ip cc CCP_FSM" for ip cc
proof unfold_locales
  show "link_up ip cc CCP_FSM v'" if "link_up ip cc CCP_FSM v" and "cc_quiet v v'" for v v'
    using link_up_quiet [OF that(1)] that(2) unfolding cc_quiet_def by blast
  show "link_up ip cc CCP_FSM (upd_fsm CCP_FSM g v)" if "link_up ip cc CCP_FSM v" for v g
    using that by (rule link_up_upd) simp
qed auto

text \<open>A timeout of a network protocol: when LCP is not up, an enabled protocol is in \<open>INITIAL\<close> and nothing happens.\<close>

lemma ncp_idle:
  assumes "link_ok (ncp_on ip cc) w" and "i \<noteq> LCP_FSM" and "\<not> link_up ip cc i w"
  shows "state_of i w = INITIAL"
proof -
  have on: "ncp_on ip cc i" and "state_of LCP_FSM w \<noteq> OPENED"
    using assms(1,3) by auto
  with assms(1) have "ncp_states (ncp_on ip cc) (fsms w) = (\<lambda>_. INITIAL)"
    by (auto simp: layer_inv_def lcp_view_def lcp_dn_def auth_dn_def auth_view_def)
  then have "ncp_states (ncp_on ip cc) (fsms w) i = INITIAL"
    by simp
  with on assms(2) show ?thesis
    by (simp add: ncp_states_def)
qed

lemma fsm_timeout_initial: "state_of i w = INITIAL \<Longrightarrow> fsm_timeout cb i w = w"
  by (simp add: fsm_timeout_def)

lemma ipcp_timeout_link:
  "link_ok (ncp_on ip cc) w \<Longrightarrow>
   link_ok (ncp_on ip cc) (fsm_timeout (ipcp_callbacks pl (ncp_lows ip cc)) IPCP_FSM w)"
  using lcp_link.al.timeout_keeps [of ip cc w pl] ncp_idle [of ip cc w IPCP_FSM]
  by (cases "link_up ip cc IPCP_FSM w") (auto simp: fsm_timeout_initial)

lemma ccp_timeout_link:
  "link_ok (ncp_on ip cc) w \<Longrightarrow> link_ok (ncp_on ip cc) (fsm_timeout ccp_callbacks CCP_FSM w)"
  "link_ok (ncp_on ip cc) w \<Longrightarrow> link_ok (ncp_on ip cc) (ccp_rack_timeout w)"
proof -
  assume w: "link_ok (ncp_on ip cc) w"
  show "link_ok (ncp_on ip cc) (fsm_timeout ccp_callbacks CCP_FSM w)"
    using w lcp_ccp.ccp_keeps(9) [of ip cc w] ncp_idle [of ip cc w CCP_FSM]
    by (cases "link_up ip cc CCP_FSM w") (auto simp: fsm_timeout_initial)
  have "cc_quiet w (ccp_rack_timeout w)"
    by (simp add: ccp_rack_timeout_def Let_def)
  then show "link_ok (ncp_on ip cc) (ccp_rack_timeout w)"
    using w link_ok_quiet [of w "ccp_rack_timeout w"] unfolding cc_quiet_def by blast
qed

text \<open>Taking the link down uses only the entries of \<open>ncp_lows\<close>.\<close>

lemma proto_down_low: "proto_down (ipcp_protent pl lows e) = proto_down (ipcp_low e)"
  by (rule ext) (simp add: proto_down_def ipcp_protent_def ipcp_low_def Let_def)

lemma fold_down_low: "fold proto_down (ncp_tab pl ip cc) = fold proto_down (ncp_lows ip cc)"
  by (simp add: ncp_tab_def ncp_lows_def proto_down_low)

lemma down_hooks_low: "down_hooks pl' (ncp_tab pl ip cc) = down_hooks pl' (ncp_lows ip cc)"
  by (simp add: down_hooks_def down_protocols_def link_down_def [abs_def] fold_down_low)

lemma np_finished_low: "np_finished pl' (ncp_tab pl ip cc) = np_finished pl' (ncp_lows ip cc)"
  by (rule ext) (simp add: np_finished_def close_link_def down_hooks_low Let_def)

interpretation tab: ncp_table pl "ncp_tab pl ip cc" "ncp_on ip cc" for pl ip cc
proof unfold_locales
  show "state_of i (fold proto_down (ncp_tab pl ip cc) w) = INITIAL" if "ncp_on ip cc i" for i w
    using that unfolding fold_down_low by (rule lows_down)
  fix p inp w
  assume p: "p \<in> set (ncp_tab pl ip cc)"
  show "link_ok (ncp_on ip cc) (p_input p inp w)" if "link_ok (ncp_on ip cc) w" and "state_of LCP_FSM w = OPENED"
    using p that lcp_link.al.input_keeps [of ip cc w pl inp]
    by (auto simp: ncp_tab_def ipcp_protent_def ccp_protent_def ipcp_input_def ncp_quiet_link [OF ccp_ops_quiet(6)])
qed (auto simp: ncp_tab_def ipcp_protent_def ccp_protent_def ipcp_lower_quiet ipcp_lowerup_def ipcp_open_def ipcp_input_def
    ccp_ops_quiet ncp_quiet_timer [OF ccp_ops_quiet(6)] ncp_quiet_timer [OF ccp_ops_quiet(7)]
    ncp_quiet_link [OF ccp_ops_quiet(7)]
    intro!: quiet.op.lowerup_keeps quiet.op.open_keeps lcp_timer.al.input_keeps ncp_quiet_same)

section \<open>IPCP as a client of the automaton\<close>

lemma ip_quiet_fsm: "ip_quiet w w' \<Longrightarrow> fsm_quiet i w w'"
  by (simp add: ip_quiet_def fsm_quiet_def)

interpretation ipcp_dn: fsm_client ipcp_down_callbacks IPCP_FSM
  by unfold_locales (auto simp: ipcp_down_callbacks_def intro: ip_quiet_fsm)

lemma timer_other:
  "timer_inv IPCP_FSM (upd_fsm LCP_FSM g w) = timer_inv IPCP_FSM w"
  "a \<noteq> ARG_FSM IPCP_FSM \<Longrightarrow> timer_inv IPCP_FSM (ppptimeout f a t w) = timer_inv IPCP_FSM w"
  "a \<noteq> ARG_FSM IPCP_FSM \<Longrightarrow> timer_inv IPCP_FSM (pppuntimeout f a w) = timer_inv IPCP_FSM w"
  by (auto simp: timer_inv_def)

lemma timer_same: "timer_inv i w \<Longrightarrow> fsms w' = fsms w \<Longrightarrow> callout w' = callout w \<Longrightarrow> timer_inv i w'"
  by (simp add: timer_inv_def pending_def)

lemma ipcp_same_inv:
  "ipcp_same w w' \<Longrightarrow> timer_inv IPCP_FSM w' = timer_inv IPCP_FSM w" "ipcp_same w w' \<Longrightarrow> ipcp_ok w' = ipcp_ok w"
  by (simp_all add: ipcp_same_def timer_inv_def layer_inv_def)

lemma ipcp_same_refl: "ipcp_same w w"
  by (simp add: ipcp_same_def)

lemmas ccp_ops_same = ipsame.ccp_keeps [OF ipcp_same_refl]

lemma lows_cases:
  assumes "p \<in> set (ncp_lows ip cc)"
  obtains "p = ipcp_low ip" | "p = ccp_protent cc"
  using assms by (auto simp: ncp_lows_def)

interpretation ipcp_timer: link_observer "timer_inv IPCP_FSM" "ncp_lows ip cc" for ip cc
proof unfold_locales
  fix p :: "'a ccp_world_scheme protent" and w :: "'a ccp_world_scheme"
  assume p: "p \<in> set (ncp_lows ip cc)" and w: "timer_inv IPCP_FSM w"
  show "timer_inv IPCP_FSM (ld w)" if "p_lowerdown p = Some ld" for ld
    using p that w ipcp_dn.lowerdown_inv [of w] ipcp_same_inv(1) [OF ccp_ops_same(2), of w]
    by (auto simp: ncp_lows_def ipcp_low_def ccp_protent_def ipcp_lowerdown_def)
  show "timer_inv IPCP_FSM (c r w)" if "p_close p = Some c" for c r
    using p that w ipcp_dn.close_inv [of w "Some r"] ipcp_same_inv(1) [OF ccp_ops_same(3), of r w]
    by (auto simp: ncp_lows_def ipcp_low_def ccp_protent_def ipcp_close_def)
qed (auto simp: timer_other intro: timer_same)

interpretation ipcp_fsm: fsm_client "ipcp_callbacks pl (ncp_lows ip cc)" IPCP_FSM for pl ip cc
proof unfold_locales
  show "timer_inv IPCP_FSM (g w)" if "cb_up (ipcp_callbacks pl (ncp_lows ip cc)) = Some g"
    and "timer_inv IPCP_FSM w" for g w
  proof -
    have q: "ip_quiet w v \<Longrightarrow> timer_inv IPCP_FSM v" for v
      using that(2) quiet_timer_inv [OF ip_quiet_fsm] by blast
    have "timer_inv IPCP_FSM (ipcp_up pl w)"
      by (rule ipcp_up_cases [of w pl]) (auto simp: ipcp_close_def intro: q ipcp_dn.close_inv)
    with that(1) show ?thesis by (auto simp: ipcp_callbacks_def)
  qed
qed (auto simp: ipcp_callbacks_def ipcp_finished_def quiet_timer_inv [OF ip_quiet_fsm [OF ipcp_ci_quiet(5)]]
    intro: ip_quiet_fsm ipcp_timer.lo_np_finished)

section \<open>The interface as the layer above IPCP\<close>

lemma ipcp_ok_quiet: "ip_quiet w w' \<Longrightarrow> ipcp_is_up w' = ipcp_is_up w \<Longrightarrow> ipcp_ok w' = ipcp_ok w"
  by (simp add: layer_inv_def ip_quiet_def)

lemma ip_quiet_state: "ip_quiet w w' \<Longrightarrow> state_of i w' = state_of i w"
  by (simp add: ip_quiet_def)

lemmas ipcp_state [simp] = ipcp_ci_quiet [THEN ip_quiet_state] ipcp_down_quiet(1) [OF ip_quiet_refl, THEN ip_quiet_state]

interpretation ipcp_dn_layer: fsm_layer ipcp_down_callbacks IPCP_FSM ipcp_is_up "\<lambda>up. \<not> up" "\<lambda>_. True"
  by unfold_locales (auto simp: ipcp_down_callbacks_def)

lemma ipcp_ok_down: "ipcp_ok w \<Longrightarrow> ipcp_ok (ipcp_lowerdown w)" "ipcp_ok w \<Longrightarrow> ipcp_ok (ipcp_close r w)"
  "ipcp_ok w \<Longrightarrow> ipcp_ok (ipcp_protrej w)"
  unfolding ipcp_lowerdown_def ipcp_close_def ipcp_protrej_def
  by (rule ipcp_dn_layer.lowerdown_layer ipcp_dn_layer.close_layer, assumption)+

lemma more_is_up: "chap_world.more w' = chap_world.more w \<Longrightarrow> ipcp_is_up w' = ipcp_is_up w"
  by (cases w; cases w') simp

interpretation ipcp_up_low: link_observer ipcp_ok "ncp_lows ip cc" for ip cc
proof unfold_locales
  fix p :: "'a ccp_world_scheme protent" and w :: "'a ccp_world_scheme"
  assume p: "p \<in> set (ncp_lows ip cc)" and w: "ipcp_ok w"
  show "ipcp_ok (ld w)" if "p_lowerdown p = Some ld" for ld
    using p that w ipcp_ok_down ipcp_same_inv(2) [OF ccp_ops_same(2), of w]
    by (auto simp: ncp_lows_def ipcp_low_def ccp_protent_def)
  show "ipcp_ok (c r w)" if "p_close p = Some c" for c r
    using p that w ipcp_ok_down ipcp_same_inv(2) [OF ccp_ops_same(3), of r w]
    by (auto simp: ncp_lows_def ipcp_low_def ccp_protent_def)
qed (auto simp: layer_inv_def dest: more_is_up)

interpretation ipcp_layer: fsm_layer "ipcp_callbacks pl (ncp_lows ip cc)" IPCP_FSM ipcp_is_up "\<lambda>up. \<not> up" "\<lambda>_. True"
  for pl ip cc
proof unfold_locales
  show "ipcp_ok (u w)" if "cb_up (ipcp_callbacks pl (ncp_lows ip cc)) = Some u"
    and "\<not> ipcp_is_up w" and "state_of IPCP_FSM w = OPENED" for u w
  proof -
    have "ipcp_ok (ipcp_up pl w)"
    proof (rule ipcp_up_cases [of w pl])
      assume "ip_quiet w (ipcp_up pl w)"
      with that(3) show ?thesis by (simp add: layer_inv_def ip_quiet_state)
    next
      fix r v
      assume "ip_quiet w v" and up: "ipcp_is_up v = ipcp_is_up w" "ipcp_up pl w = ipcp_close r v"
      with that(3) have "ipcp_ok v" by (simp add: layer_inv_def ip_quiet_state)
      then show ?thesis
        unfolding up by (rule ipcp_ok_down)
    qed
    with that(1) show ?thesis by (auto simp: ipcp_callbacks_def)
  qed
  show "ipcp_ok (u w)" if "cb_finished (ipcp_callbacks pl (ncp_lows ip cc)) = Some u" and "ipcp_ok w" for u w
    using that ipcp_up_low.lo_np_finished by (auto simp: ipcp_callbacks_def ipcp_finished_def)
  show "ipcp_ok (snd (p inp w)) \<and>
      (state_of IPCP_FSM (snd (p inp w)) = OPENED \<longrightarrow> state_of IPCP_FSM w = OPENED)"
    if "cb_nakci (ipcp_callbacks pl (ncp_lows ip cc)) = Some p" and "ipcp_ok w" for p inp w
    using that by (auto simp: ipcp_callbacks_def layer_inv_def)
qed (auto simp: ipcp_callbacks_def)

interpretation ipcp_up_obs: link_observer_all ipcp_ok "ncp_tab pl ip cc" for pl ip cc
proof unfold_locales
  fix p :: "'a ccp_world_scheme protent" and w :: "'a ccp_world_scheme"
  assume p: "p \<in> set (ncp_tab pl ip cc)" and w: "ipcp_ok w"
  show "ipcp_ok (ld w)" if "p_lowerdown p = Some ld" for ld
    using p that w ipcp_ok_down ipcp_same_inv(2) [OF ccp_ops_same(2), of w]
    by (auto simp: ncp_tab_def ipcp_protent_def ccp_protent_def)
  show "ipcp_ok (c r w)" if "p_close p = Some c" for c r
    using p that w ipcp_ok_down ipcp_same_inv(2) [OF ccp_ops_same(3), of r w]
    by (auto simp: ncp_tab_def ipcp_protent_def ccp_protent_def)
  show "ipcp_ok (f w)" if "p_lowerup p = Some f" for f
    using p that w ipcp_layer.lowerup_layer [of w pl ip cc] ipcp_same_inv(2) [OF ccp_ops_same(1), of w]
    by (auto simp: ncp_tab_def ipcp_protent_def ccp_protent_def ipcp_lowerup_def)
  show "ipcp_ok (f w)" if "p_open p = Some f" for f
    using p that w ipcp_layer.open_layer [of w pl ip cc] ipcp_same_inv(2) [OF ccp_ops_same(4), of w]
    by (auto simp: ncp_tab_def ipcp_protent_def ccp_protent_def ipcp_open_def)
  show "ipcp_ok (p_protrej p w)"
    using p w ipcp_ok_down ipcp_same_inv(2) [OF ccp_ops_same(5), of w]
    by (auto simp: ncp_tab_def ipcp_protent_def ccp_protent_def)
qed (rule ipcp_up_low.lo_upd ipcp_up_low.lo_arm ipcp_up_low.lo_disarm ipcp_up_low.lo_same; assumption)+

lemma ipcp_ok_input: "p \<in> set (ncp_tab pl ip cc) \<Longrightarrow> ipcp_ok w \<Longrightarrow> ipcp_ok (p_input p inp w)"
  using ipcp_layer.input_layer [of w pl] ipcp_same_inv(2) [OF ccp_ops_same(6), of inp w]
  by (auto simp: ncp_tab_def ipcp_protent_def ccp_protent_def ipcp_input_def)

section \<open>CCP seen from the rest\<close>

lemma more_localstate: "chap_world.more w' = chap_world.more w \<Longrightarrow> ccp_localstate w' = ccp_localstate w"
  by (cases w; cases w') simp

interpretation ccp_ip: ip_observer ccp_ok
proof unfold_locales
  show "ccp_ok v'" if "ccp_ok v" and "ip_quiet v v'" for v v' :: "'a ccp_world_scheme"
  proof -
    have "ccp_localstate v' = ccp_localstate v"
      using that(2) unfolding ip_quiet_def by (cases v; cases v') simp
    with that(2) have "rack_view v' = rack_view v" "state_of CCP_FSM v' = state_of CCP_FSM v"
      by (simp_all add: ip_quiet_def rack_view_def)
    with that(1) show ?thesis by (simp add: layer_inv_def)
  qed
qed (auto simp: layer_inv_def)

lemma ccp_ok_ipcp_down:
  "ccp_ok w \<Longrightarrow> ccp_ok (ipcp_lowerdown w)" "ccp_ok w \<Longrightarrow> ccp_ok (ipcp_close r w)" "ccp_ok w \<Longrightarrow> ccp_ok (ipcp_protrej w)"
  unfolding ipcp_lowerdown_def ipcp_close_def ipcp_protrej_def
  by (rule ccp_ip.dn.lowerdown_keeps ccp_ip.dn.close_keeps, assumption)+

lemma ccp_ok_same:
  assumes "ccp_ok w" and "fsms w' = fsms w" and "callout w' = callout w" and "chap_world.more w' = chap_world.more w"
  shows "ccp_ok w'"
proof -
  have "rack_view w' = rack_view w"
    using assms(3) more_localstate [OF assms(4)] by (simp add: rack_view_def pending_def)
  with assms(1,2) show ?thesis by (simp add: layer_inv_def)
qed

lemma ccp_ok_lcp:
  assumes "ccp_ok w" shows "ccp_ok (upd_fsm LCP_FSM g w)"
    and "a \<noteq> ARG_FSM CCP_FSM \<Longrightarrow> ccp_ok (ppptimeout f a t w)" and "a \<noteq> ARG_FSM CCP_FSM \<Longrightarrow> ccp_ok (pppuntimeout f a w)"
  using assms by (simp_all add: layer_inv_def)

interpretation ccp_low: link_observer ccp_ok "ncp_lows ip cc" for ip cc
  by unfold_locales
    (auto simp: ncp_lows_def ipcp_low_def ccp_protent_def ccp_ok_ipcp_down ccp_ok_ops ccp_ok_lcp intro: ccp_ok_same)

interpretation ccp_ip_all: ip_observer_all ccp_ok ccp_ok pl "ncp_lows ip cc" for pl ip cc
  by unfold_locales (auto simp: ccp_low.lo_np_finished intro: ccp_ip.obs_upd)

interpretation ccp_obs: link_observer_all ccp_ok "ncp_tab pl ip cc" for pl ip cc
  by unfold_locales
    (auto simp: ncp_tab_def ipcp_protent_def ccp_protent_def ccp_ok_ipcp_down ccp_ok_ops ccp_ok_lcp
      ipcp_lowerup_def ipcp_open_def
      intro: ccp_ok_same ccp_ip.op.lowerup_keeps ccp_ip.op.open_keeps)

lemma ccp_ok_input: "p \<in> set (ncp_tab pl ip cc) \<Longrightarrow> ccp_ok w \<Longrightarrow> ccp_ok (p_input p inp w)"
  by (auto simp: ncp_tab_def ipcp_protent_def ccp_protent_def ipcp_input_def ccp_ok_ops
      intro: ccp_ip_all.al.input_keeps)

end
