(* ===== verification/Ppp_Daemon.thy ===== *)
theory Ppp_Daemon
  imports Ncp_Table Fsm_Wire
begin

text \<open>
  The daemon's main program (\<^verbatim>\<open>rtemsmain.c\<close>, \<^verbatim>\<open>rtemspppd.c\<close>): its static state, the initialisation of the
  protocols, the reception of a packet (\<^verbatim>\<open>get_input\<close>), the call of a due timeout, and the loop of
  \<^verbatim>\<open>pppdmain\<close>, once as a function for one round and once as a step relation. The configuration \<open>d\<close> holds the
  installed function pointers, the MD5 digest and the enabled flags of IPCP and CCP (every loop over
  the table skips a disabled entry). Nothing in the sources sets \<^verbatim>\<open>open_ccp_flag\<close>, so what the main loop
  does when it is set is left out.
\<close>

section \<open>Definitions\<close>

definition EXIT_HANGUP :: int where [ppp_consts]: "EXIT_HANGUP = 16"
definition EXIT_NEGOTIATION_FAILED :: int where [ppp_consts]: "EXIT_NEGOTIATION_FAILED = 10"
definition PHASE_INITIALIZE :: int where [ppp_consts]: "PHASE_INITIALIZE = 1"
definition PHASE_SERIALCONN :: int where [ppp_consts]: "PHASE_SERIALCONN = 2"
definition PHASE_HOLDOFF :: int where [ppp_consts]: "PHASE_HOLDOFF = 11"

record daemon =
  d_plugins :: plugins
  d_md5 :: "bytes \<Rightarrow> bytes"
  d_ip :: bool
  d_ccp :: bool

record daemon_world = ccp_world +
  pppd_kill_link :: bool
  persist :: bool
  maxfail :: int
  holdoff :: int

abbreviation ncps_of :: "daemon \<Rightarrow> 'a ccp_world_scheme protent list" where
  "ncps_of d \<equiv> ncp_tab (d_plugins d) (d_ip d) (d_ccp d)"

abbreviation on_of :: "daemon \<Rightarrow> fsm_id \<Rightarrow> bool" where
  "on_of d \<equiv> ncp_on (d_ip d) (d_ccp d)"

abbreviation link_hooks_of :: "daemon \<Rightarrow> 'a ccp_world_scheme link_hooks" where
  "link_hooks_of d \<equiv> the_link_hooks (d_plugins d) (ncps_of d)"

abbreviation auth_hooks_of :: "daemon \<Rightarrow> 'a ccp_world_scheme auth_hooks" where
  "auth_hooks_of d \<equiv> the_auth_hooks (d_plugins d) (ncps_of d)"

definition main_protocols :: "daemon \<Rightarrow> 'a ccp_world_scheme protent list" where
  "main_protocols d =
     [\<lparr>p_protocol = PPP_LCP, p_enabled = True, p_input = lcp_input (link_hooks_of d),
        p_protrej = lcp_protrej (down_hooks (d_plugins d) (ncps_of d)),
        p_lowerup = Some (lcp_lowerup (link_hooks_of d)),
        p_lowerdown = Some (lcp_lowerdown (link_hooks_of d)),
        p_open = Some (lcp_open (link_hooks_of d)),
        p_close = Some (lcp_close (down_hooks (d_plugins d) (ncps_of d))), p_datainput = None\<rparr>,
      \<lparr>p_protocol = PPP_PAP, p_enabled = True,
        p_input = upap_input (auth_hooks_of d) (check_passwd (d_plugins d)),
        p_protrej = upap_protrej (auth_hooks_of d), p_lowerup = Some upap_lowerup,
        p_lowerdown = Some upap_lowerdown, p_open = None, p_close = None, p_datainput = None\<rparr>,
      \<lparr>p_protocol = PPP_CHAP, p_enabled = True, p_input = ChapInput (auth_hooks_of d) (d_md5 d),
        p_protrej = ChapProtocolReject (auth_hooks_of d), p_lowerup = Some ChapLowerUp,
        p_lowerdown = Some ChapLowerDown, p_open = None, p_close = None, p_datainput = None\<rparr>] @
     ncps_of d"

subsection \<open>Static state and initialisation\<close>

text \<open>
  The values the variables are declared with. \<open>env_clock\<close>, \<open>env_rand\<close>, \<open>env_io\<close>, \<open>env_flags\<close>
  and \<open>env_ifs\<close> are what the clock, the random numbers, the system calls, the flags of the interface
  and the list of interfaces will answer.
\<close>

definition zero_fsm :: fsm where
  "zero_fsm = \<lparr>f_unit = 0, f_protocol = 0, f_state = INITIAL, f_flags = 0, f_id = 0, f_reqid = 0,
     f_seen_ack = False, f_timeouttime = 0, f_maxconfreqtransmits = 0, f_retransmits = 0,
     f_maxtermtransmits = 0, f_nakloops = 0, f_maxnakloops = 0, f_term_reason = None,
     f_term_reason_len = 0\<rparr>"

definition zero_upap :: upap_state where
  "zero_upap = \<lparr>us_unit = 0, us_user = [], us_passwd = [], us_clientstate = UPAPCS_INITIAL,
     us_serverstate = UPAPSS_INITIAL, us_id = 0, us_timeouttime = 0, us_transmits = 0,
     us_maxtransmits = 0, us_reqtimeout = 0\<rparr>"

definition zero_chap :: chap_state where
  "zero_chap = \<lparr>cs_unit = 0, clientstate = CHAPCS_INITIAL, serverstate = CHAPSS_INITIAL,
     challenge = [], chal_id = 0, chal_type = 0, cs_id = 0, chal_name = [], chal_interval = 0,
     cs_timeouttime = 0, max_transmits = 0, chal_transmits = 0, resp_transmits = 0, response = [],
     resp_id = 0, resp_type = 0, resp_name = []\<rparr>"

definition static_world ::
  "(nat \<Rightarrow> timeval) \<Rightarrow> (nat \<Rightarrow> nat) \<Rightarrow> (nat \<Rightarrow> io_result) \<Rightarrow> (nat \<Rightarrow> u32) \<Rightarrow> if_entry list option \<Rightarrow>
   daemon_world" where
  "static_world env_clock env_rand env_io env_flags env_ifs =
     \<lparr>w_clock = env_clock, w_clock_idx = 0, w_rand = env_rand, w_rand_idx = 0, callout = [],
      outpacket_buf = replicate 1504 0, outq = [], oob = False, pppd_phase = PHASE_DEAD,
      pppd_status = 0, hungup = False,
      fsms = (\<lambda>_. zero_fsm), peer_mru = 0,
      lcp_wantoptions = lcp_zero, lcp_gotoptions = lcp_zero, lcp_allowoptions = lcp_zero,
      lcp_hisoptions = lcp_zero, xmit_accm = replicate 8 0, lax_recv = False, lcp_echo_interval = 0,
      lcp_echo_fails = 0, lcp_loopbackfail = 10, lcp_echos_pending = 0, lcp_echo_number = 0,
      lcp_echo_timer_running = False, drv = [],
      peer_authname = [], auth_pending = 0, num_np_open = 0, num_np_up = 0, passwd_from_file = False,
      auth_state = s_down, auth_script_state = s_down, uselogin = False, refuse_pap = False,
      refuse_chap = False, usehostname = False, auth_required = False, default_auth = False,
      allow_any_ip = False, privileged = False, explicit_remote = False, remote_name = [],
      our_name = [], user = [], passwd = [], hostname = [], idle_time_limit = 0, maxconnect = 0,
      need_holdoff = False, unsuccess = 0, plugin_log = [],
      upap = zero_upap, chap = zero_chap,
      w_ioctl = env_io, w_ioctl_idx = 0, w_scflags = env_flags, w_ifconf = env_ifs, ioctls = [], if_is_up = False,
      ifaddrs = (0, 0), default_route_gateway = 0, proxy_arp_addr = 0, arpmsg_valid = False,
      arpmsg_dst = 0, netmask = 0,
      dmd = \<lparr>frame = [], framemax = 0, escape_flag = False, flush_flag = False, fcs = 0, pend_q = []\<rparr>,
      ipcp_wantoptions = ipcp_zero, ipcp_gotoptions = ipcp_zero, ipcp_allowoptions = ipcp_zero,
      ipcp_hisoptions = ipcp_zero, usepeerdns = False, disable_defaultip = False, ipcp_is_up = False,
      demand = False, default_route_set = False, proxy_arp_set = False, pppifunit = 0,
      w_resolv_ok = True, resolv_conf = None, ip_up_hook = False, ip_down_hook = False,
      ip_events = [], stuck = False,
      ccp_wantoptions = ccp_zero, ccp_gotoptions = ccp_zero, ccp_allowoptions = ccp_zero,
      ccp_hisoptions = ccp_zero, ccp_localstate = 0, all_rejected = False,
      pppd_kill_link = False, persist = False, maxfail = 10, holdoff = 30\<rparr>"

text \<open>The loop over \<^verbatim>\<open>init\<close> of the table.\<close>

definition rtems_pppd_reset_options :: "'a ccp_world_scheme \<Rightarrow> 'a ccp_world_scheme" where
  "rtems_pppd_reset_options w = ccp_init (ipcp_init (ChapInit (upap_init (lcp_init w))))"

text \<open>What \<^verbatim>\<open>link_established\<close> decides on.\<close>

definition auth_options :: "'a auth_world_scheme \<Rightarrow> bool \<times> lcp_options" where
  "auth_options w = (auth_required w, lcp_gotoptions w)"

subsection \<open>Received packets\<close>

text \<open>The loop over the table; \<open>None\<close> when no entry takes the packet.\<close>

fun input_lookup :: "int \<Rightarrow> bytes \<Rightarrow> 'w protent list \<Rightarrow> 'w \<Rightarrow> 'w option" where
  "input_lookup proto p [] w = None"
| "input_lookup proto p (e # es) w =
     (if p_protocol e = proto \<and> p_enabled e then Some (p_input e p w)
      else if proto = data_proto (p_protocol e) \<and> p_enabled e
      then (case p_datainput e of Some f \<Rightarrow> Some (f p w) | None \<Rightarrow> input_lookup proto p es w)
      else input_lookup proto p es w)"

text \<open>The result of \<^verbatim>\<open>read_packet\<close>: nothing yet, or a packet (the empty one is a hangup).\<close>

definition get_input ::
  "daemon \<Rightarrow> bytes option \<Rightarrow> 'a ccp_world_scheme \<Rightarrow> 'a ccp_world_scheme" where
  "get_input d rx w =
     (case rx of
        None \<Rightarrow> w
      | Some fr \<Rightarrow>
          if fr = [] then
            link_terminated (d_plugins d)
              (lcp_lowerdown (link_hooks_of d) (w\<lparr>hungup := True, pppd_status := EXIT_HANGUP\<rparr>))
          else if length fr < PPP_HDRLEN then w
          else
            (let protocol = getshort (fr ! 2) (fr ! 3) in
             if protocol \<noteq> PPP_LCP \<and> state_of LCP_FSM w \<noteq> OPENED then w
             else if pppd_phase w \<le> PHASE_AUTHENTICATE \<and>
                     protocol \<notin> {PPP_LCP, PPP_LQR, PPP_PAP, PPP_CHAP} then w
             else (case input_lookup protocol (drop PPP_HDRLEN fr) (main_protocols d) w of
                     Some w' \<Rightarrow> w'
                   | None \<Rightarrow> lcp_sprotrej fr w)))"

subsection \<open>Timeouts\<close>

definition holdoff_end :: "'a ccp_world_scheme \<Rightarrow> 'a ccp_world_scheme" where
  "holdoff_end w = new_phase PHASE_DORMANT w"

definition timeout_terminate :: "'a daemon_world_scheme \<Rightarrow> 'a daemon_world_scheme" where
  "timeout_terminate w = w\<lparr>persist := False, pppd_kill_link := True\<rparr>"

text \<open>
  The call through \<^verbatim>\<open>c_func\<close>. \<open>idle\<close> is what \<^verbatim>\<open>get_idle_time\<close> answers. The echo timeout is armed only for
  the automaton of LCP, the timer of the reset request only for that of CCP.
\<close>

definition run_callout ::
  "daemon \<Rightarrow> (int \<times> int) option \<Rightarrow> callout_ent \<Rightarrow> 'a daemon_world_scheme \<Rightarrow> 'a daemon_world_scheme" where
  "run_callout d idle p w =
     (case c_func p of
        FSM_TIMEOUT \<Rightarrow>
          (case c_arg p of
             ARG_FSM LCP_FSM \<Rightarrow> fsm_timeout (lcp_callbacks (link_hooks_of d)) LCP_FSM w
           | ARG_FSM IPCP_FSM \<Rightarrow>
               fsm_timeout (ipcp_callbacks (d_plugins d) (ncp_lows (d_ip d) (d_ccp d))) IPCP_FSM w
           | ARG_FSM CCP_FSM \<Rightarrow> fsm_timeout ccp_callbacks CCP_FSM w
           | _ \<Rightarrow> w)
      | LCP_ECHO_TIMEOUT \<Rightarrow>
          (if c_arg p = ARG_FSM LCP_FSM then LcpEchoTimeout (link_hooks_of d) w else w)
      | UPAP_TIMEOUT \<Rightarrow> upap_timeout (auth_hooks_of d) w
      | UPAP_REQTIMEOUT \<Rightarrow> upap_reqtimeout (auth_hooks_of d) w
      | CHAP_CHALLENGE_TIMEOUT \<Rightarrow> ChapChallengeTimeout (auth_hooks_of d) w
      | CHAP_RESPONSE_TIMEOUT \<Rightarrow> ChapResponseTimeout w
      | CHAP_RECHALLENGE \<Rightarrow> ChapRechallenge w
      | CHECK_IDLE \<Rightarrow> check_idle (d_plugins d) (ncps_of d) idle w
      | CONNECT_TIME_EXPIRED \<Rightarrow> connect_time_expired (d_plugins d) (ncps_of d) w
      | HOLDOFF_END \<Rightarrow> holdoff_end w
      | TIMEOUT_TERMINATE \<Rightarrow> timeout_terminate w
      | CCP_RACK_TIMEOUT \<Rightarrow> (if c_arg p = ARG_FSM CCP_FSM then ccp_rack_timeout w else w))"

definition rtems_pppd_disconnect :: "'a daemon_world_scheme \<Rightarrow> 'a daemon_world_scheme" where
  "rtems_pppd_disconnect w = ppptimeout TIMEOUT_TERMINATE ARG_NULL 1 w"

subsection \<open>The loop\<close>

text \<open>The start of an attempt to connect, and the start of LCP once the line is a PPP interface.\<close>

definition attempt_start :: "'a daemon_world_scheme \<Rightarrow> 'a daemon_world_scheme" where
  "attempt_start w =
     (new_phase PHASE_SERIALCONN
       (w\<lparr>need_holdoff := True, pppd_status := EXIT_OK, unsuccess := unsuccess w + 1\<rparr>))
     \<lparr>hungup := False, pppd_kill_link := False\<rparr>"

definition link_start :: "daemon \<Rightarrow> 'a ccp_world_scheme \<Rightarrow> 'a ccp_world_scheme" where
  "link_start d w =
     (let w = lcp_open (link_hooks_of d) (lcp_lowerup (link_hooks_of d) w)
      in new_phase PHASE_ESTABLISH (w\<lparr>pppd_status := EXIT_NEGOTIATION_FAILED\<rparr>))"

definition kill_check :: "daemon \<Rightarrow> 'a daemon_world_scheme \<Rightarrow> 'a daemon_world_scheme" where
  "kill_check d w =
     (if pppd_kill_link w
      then (lcp_close (down_hooks (d_plugins d) (ncps_of d)) (ascii ''User request'') w)
             \<lparr>pppd_kill_link := False\<rparr>
      else w)"

text \<open>One round of the loop: due timeouts, a packet, the request to terminate.\<close>

definition link_round ::
  "daemon \<Rightarrow> (int \<times> int) option \<Rightarrow> bytes option \<Rightarrow> 'a daemon_world_scheme \<Rightarrow>
   'a daemon_world_scheme option" where
  "link_round d idle rx w =
     (case calltimeout (run_callout d idle) (snd (timeleft w)) of
        None \<Rightarrow> None
      | Some w \<Rightarrow> Some (kill_check d (get_input d rx w)))"

text \<open>After the loop, and whether the daemon tries again (after \<open>t\<close> seconds).\<close>

definition link_end :: "daemon \<Rightarrow> 'a daemon_world_scheme \<Rightarrow> 'a daemon_world_scheme" where
  "link_end d w = (if \<not> hungup w then lcp_lowerdown (link_hooks_of d) w else w)"

definition try_again :: "'a daemon_world_scheme \<Rightarrow> bool" where
  "try_again w \<longleftrightarrow> \<not> (\<not> persist w \<or> (maxfail w > 0 \<and> unsuccess w \<ge> maxfail w))"

definition holdoff_start :: "'a daemon_world_scheme \<Rightarrow> 'a daemon_world_scheme" where
  "holdoff_start w =
     (let w = w\<lparr>pppd_kill_link := False\<rparr>;
          w = (if demand w then w\<lparr>dmd := demand_discard (dmd w)\<rparr> else w);
          t = (if need_holdoff w then holdoff w else 0)
      in if t > 0 then ppptimeout HOLDOFF_END ARG_NULL t (new_phase PHASE_HOLDOFF w) else w)"

subsection \<open>Steps\<close>

text \<open>
  The same as a transition relation: the clock is read, a due timeout runs, a packet arrives, the
  request to terminate is seen, another task asks for it, and the transitions between attempts.
\<close>

datatype link_event =
    Clock | Timer "(int \<times> int) option" | Input "bytes option" | Kill | Disconnect
  | Attempt | Start | Finish | Holdoff

inductive link_step ::
  "daemon \<Rightarrow> 'a daemon_world_scheme \<Rightarrow> link_event \<Rightarrow> 'a daemon_world_scheme \<Rightarrow> bool" for d where
  Step_Clock: "link_step d w Clock (w\<lparr>w_clock_idx := Suc (w_clock_idx w)\<rparr>)"
| Step_Timer: "callout w = p # ps \<Longrightarrow> gettimeofday w = (now, w1) \<Longrightarrow> tv_due now p \<Longrightarrow>
     link_step d w (Timer idle) (run_callout d idle p (w1\<lparr>callout := ps\<rparr>))"
| Step_Input: "link_step d w (Input rx) (get_input d rx w)"
| Step_Kill: "link_step d w Kill (kill_check d w)"
| Step_Disconnect: "link_step d w Disconnect (rtems_pppd_disconnect w)"
| Step_Attempt: "pppd_phase w \<in> {PHASE_DEAD, PHASE_INITIALIZE, PHASE_DORMANT} \<Longrightarrow>
     link_step d w Attempt (attempt_start w)"
| Step_Start: "pppd_phase w = PHASE_SERIALCONN \<Longrightarrow> link_step d w Start (link_start d w)"
| Step_Finish: "pppd_phase w = PHASE_DEAD \<Longrightarrow> link_step d w Finish (link_end d w)"
| Step_Holdoff: "pppd_phase w = PHASE_DEAD \<Longrightarrow> try_again w \<Longrightarrow> link_step d w Holdoff (holdoff_start w)"

inductive link_steps ::
  "daemon \<Rightarrow> 'a daemon_world_scheme \<Rightarrow> link_event list \<Rightarrow> 'a daemon_world_scheme \<Rightarrow> bool" for d where
  Steps_Nil: "link_steps d w [] w"
| Steps_Cons: "link_step d u e v \<Longrightarrow> link_steps d v es w \<Longrightarrow> link_steps d u (e # es) w"

inductive_cases link_stepE: "link_step d w e w'"

section \<open>Rounds are steps\<close>

lemma link_steps_trans: "link_steps d u es v \<Longrightarrow> link_steps d v fs w \<Longrightarrow> link_steps d u (es @ fs) w"
  by (induction rule: link_steps.induct) (auto intro: link_steps.intros)

lemma link_steps_one: "link_step d u e v \<Longrightarrow> link_steps d u [e] v"
  by (blast intro: link_steps.intros)

lemma clock_step: "gettimeofday w = (now, w1) \<Longrightarrow> link_step d w Clock w1"
  by (auto simp: gettimeofday_def intro: Step_Clock)

lemma calltimeout_steps:
  assumes "calltimeout (run_callout d idle) w = Some w'"
  shows "\<exists>es. link_steps d w es w'"
proof -
  have "run = run_callout d idle \<longrightarrow> (\<exists>es. link_steps d w es w')"
    if "calltimeout run w = Some w'" for run and w w' :: "'a daemon_world_scheme"
    using that
  proof (rule calltimeout.raw_induct [rotated])
    fix rec :: "(callout_ent \<Rightarrow> 'a daemon_world_scheme \<Rightarrow> 'a daemon_world_scheme) \<Rightarrow>
        'a daemon_world_scheme \<Rightarrow> 'a daemon_world_scheme option" and run w w'
    assume IH: "\<And>run w w'. rec run w = Some w' \<Longrightarrow>
        run = run_callout d idle \<longrightarrow> (\<exists>es. link_steps d w es w')"
      and r: "(case callout w of [] \<Rightarrow> Some w
        | p # ps \<Rightarrow> case gettimeofday w of (now, w1) \<Rightarrow>
            if \<not> tv_due now p then Some w1 else rec run (run p (w1\<lparr>callout := ps\<rparr>))) = Some w'"
    show "run = run_callout d idle \<longrightarrow> (\<exists>es. link_steps d w es w')"
    proof
      assume run: "run = run_callout d idle"
      show "\<exists>es. link_steps d w es w'"
      proof (cases "callout w")
        case Nil
        with r show ?thesis by (auto intro: Steps_Nil)
      next
        case (Cons p ps)
        obtain now w1 where now: "gettimeofday w = (now, w1)" by fastforce
        show ?thesis
        proof (cases "tv_due now p")
          case True
          with r Cons now run have "rec run (run_callout d idle p (w1\<lparr>callout := ps\<rparr>)) = Some w'"
            by simp
          with IH run obtain es
            where "link_steps d (run_callout d idle p (w1\<lparr>callout := ps\<rparr>)) es w'" by blast
          with Step_Timer [OF Cons now True] show ?thesis by (blast intro: Steps_Cons)
        next
          case False
          with r Cons now have "w1 = w'" by simp
          with clock_step [OF now] show ?thesis by (blast intro: link_steps_one)
        qed
      qed
    qed
  qed
  with assms show ?thesis by blast
qed

lemma link_round_steps:
  assumes "link_round d idle rx w = Some w'"
  shows "\<exists>es. link_steps d w es w'"
proof -
  have "\<exists>es. link_steps d w es (snd (timeleft w))"
    by (auto simp: timeleft_def Let_def split: list.split prod.split
        intro: Steps_Nil link_steps_one clock_step)
  moreover obtain v where v: "calltimeout (run_callout d idle) (snd (timeleft w)) = Some v"
      "w' = kill_check d (get_input d rx v)"
    using assms by (auto simp: link_round_def split: option.splits)
  moreover have "link_steps d v [Input rx, Kill] w'"
    unfolding v(2) by (rule Steps_Cons [OF Step_Input Steps_Cons [OF Step_Kill Steps_Nil]])
  ultimately show ?thesis
    using calltimeout_steps [OF v(1)] link_steps_trans by blast
qed

section \<open>Options\<close>

lemma auth_options_base [simp]:
  "auth_options (put_outpacket n bs w) = auth_options w" "auth_options (output_outpacket m k w) = auth_options w"
  "auth_options (ppptimeout f a t w) = auth_options w" "auth_options (upd_upap g u) = auth_options u"
  "auth_options (upd_chap h v) = auth_options v" "auth_options (w\<lparr>w_rand_idx := j\<rparr>) = auth_options w"
  by (simp_all add: auth_options_def put_outpacket_def output_outpacket_def ppptimeout_def gettimeofday_def
      upd_upap_def upd_chap_def)

lemma auth_options_lowerup: "auth_options (upap_lowerup u) = auth_options u" "auth_options (ChapLowerUp v) = auth_options v"
  by (simp_all add: upap_lowerup_def upap_sauthreq_def upap_listen_def Let_def ChapLowerUp_def
      ChapSendChallenge_def ChapGenChallenge_def case_prod_unfold rand_bytes_world next48_def)

end
