(* ===== verification/Daemon_Inv.thy ===== *)
theory Daemon_Inv
  imports Ppp_Daemon
begin

text \<open>
  The invariants of the daemon over all sequences of steps. The layer invariant of LCP (\<open>link_ok\<close>:
  outside \<open>OPENED\<close> authentication has not started and every enabled network protocol is in
  \<open>INITIAL\<close>) is kept by every step. A property of one network protocol that the steps of the link and of
  the other protocols leave alone is kept too (locale \<open>daemon_observer\<close>); the interpretations give
  that the interface is up only while IPCP is \<open>OPENED\<close>, and that the timer of CCP's reset request is armed exactly
  while an acknowledgement is awaited.
\<close>

section \<open>The layer invariant\<close>

lemma link_ok_cong:
  assumes "fsms w' = fsms w" and "echo_timers w' = echo_timers w"
    and "lcp_echo_timer_running w' = lcp_echo_timer_running w" and "lcp_echo_fails w' = lcp_echo_fails w"
    and "upap w' = upap w" and "chap w' = chap w"
  shows "link_ok on w' = link_ok on w"
  using assms by (simp add: layer_inv_def lcp_view_def auth_view_def)

lemma link_ok_daemon [simp]:
  "link_ok on (w\<lparr>w_clock_idx := n\<rparr>) = link_ok on w" "link_ok on (w\<lparr>hungup := b\<rparr>) = link_ok on w"
  "link_ok on (w\<lparr>pppd_status := k\<rparr>) = link_ok on w" "link_ok on (new_phase k w) = link_ok on w"
  "link_ok on (v\<lparr>pppd_kill_link := b\<rparr>) = link_ok on v" "link_ok on (v\<lparr>persist := b\<rparr>) = link_ok on v"
  "link_ok on (w\<lparr>need_holdoff := b\<rparr>) = link_ok on w" "link_ok on (w\<lparr>unsuccess := k\<rparr>) = link_ok on w"
  "link_ok on (u\<lparr>dmd := q\<rparr>) = link_ok on u"
  by (rule link_ok_cong; simp add: new_phase_def pending_def)+

lemma link_ok_take:
  assumes "callout w = p # ps" and "\<not> (c_func p = LCP_ECHO_TIMEOUT \<and> c_arg p = ARG_FSM LCP_FSM)"
  shows "link_ok on (w\<lparr>callout := ps\<rparr>) = link_ok on w"
  by (rule link_ok_cong) (use assms in \<open>auto simp: pending_def\<close>)

lemma input_lookup_cases:
  "input_lookup proto p es w = Some w' \<Longrightarrow>
   \<exists>e \<in> set es. p_protocol e = proto \<and> w' = p_input e p w \<or>
     (\<exists>f. p_datainput e = Some f \<and> proto = data_proto (p_protocol e) \<and> w' = f p w)"
  by (induction es) (auto split: if_split_asm option.split_asm)

lemma main_protocols_cases:
  assumes "e \<in> set (main_protocols d)"
  obtains "p_protocol e = PPP_LCP" "p_input e = lcp_input (link_hooks_of d)" "p_datainput e = None"
  | "p_protocol e \<noteq> PPP_LCP" "p_input e = upap_input (auth_hooks_of d) (check_passwd (d_plugins d))" "p_datainput e = None"
  | "p_protocol e \<noteq> PPP_LCP" "p_input e = ChapInput (auth_hooks_of d) (d_md5 d)" "p_datainput e = None"
  | "p_protocol e \<noteq> PPP_LCP" "e \<in> set (ncps_of d)"
  using assms by (auto simp: main_protocols_def ncp_tab_def ipcp_protent_def ccp_protent_def ppp_consts)

text \<open>
  What \<^verbatim>\<open>get_input\<close> can call: the functions for LCP in every state, the others and the data packets of
  the table (the only protocol with such a function is CCP) while LCP is \<open>OPENED\<close>.
\<close>

lemma data_not_lcp: "e \<in> set (ncps_of d) \<Longrightarrow> p_datainput e = Some f \<Longrightarrow> data_proto (p_protocol e) \<noteq> PPP_LCP"
  by (auto simp: ncp_tab_def ipcp_protent_def ccp_protent_def data_proto_def ppp_consts)

lemma get_input_cases:
  obtains "get_input d rx w = w"
  | v where "v = w\<lparr>hungup := True, pppd_status := EXIT_HANGUP\<rparr>"
      "get_input d rx w = link_terminated (d_plugins d) (lcp_lowerdown (link_hooks_of d) v)"
  | fr where "get_input d rx w = lcp_sprotrej fr w"
  | p where "get_input d rx w = lcp_input (link_hooks_of d) p w"
  | p where "state_of LCP_FSM w = OPENED"
      "get_input d rx w = upap_input (auth_hooks_of d) (check_passwd (d_plugins d)) p w"
  | p where "state_of LCP_FSM w = OPENED" "get_input d rx w = ChapInput (auth_hooks_of d) (d_md5 d) p w"
  | e p where "state_of LCP_FSM w = OPENED" "e \<in> set (ncps_of d)" "get_input d rx w = p_input e p w"
  | e f p where "state_of LCP_FSM w = OPENED" "e \<in> set (ncps_of d)" "p_datainput e = Some f" "get_input d rx w = f p w"
proof (cases rx)
  case None
  then show ?thesis using that(1) by (simp add: get_input_def)
next
  case (Some fr)
  note outs = that
  define protocol where "protocol = getshort (fr ! 2) (fr ! 3)"
  define p where "p = drop PPP_HDRLEN fr"
  define look where "look = input_lookup protocol p (main_protocols d) w"
  have found: thesis if op: "protocol = PPP_LCP \<or> state_of LCP_FSM w = OPENED" and "look = Some w'" and r: "get_input d rx w = w'" for w'
  proof -
    from that(2) have "input_lookup protocol p (main_protocols d) w = Some w'"
      by (simp add: look_def)
    from input_lookup_cases [OF this] obtain e where e: "e \<in> set (main_protocols d)"
      "p_protocol e = protocol \<and> w' = p_input e p w \<or>
        (\<exists>f. p_datainput e = Some f \<and> protocol = data_proto (p_protocol e) \<and> w' = f p w)" by blast
    from e(1) show thesis
      by (rule main_protocols_cases) (use op r e outs(4-8) data_not_lcp [of e d] in \<open>auto\<close>)
  qed
  have "fr = [] \<or> get_input d rx w = w \<or> (protocol = PPP_LCP \<or> state_of LCP_FSM w = OPENED) \<and>
      get_input d rx w = (case look of Some w' \<Rightarrow> w' | None \<Rightarrow> lcp_sprotrej fr w)"
    unfolding look_def by (simp add: get_input_def Some Let_def protocol_def p_def)
  then show ?thesis
    using found that(1,3) that(2) [OF refl] by (cases "fr = []"; cases look) (auto simp: get_input_def Some)
qed

lemma get_input_ok:
  assumes "link_ok (on_of d) w"
  shows "link_ok (on_of d) (get_input d rx w)"
proof -
  have low: "link_ok (on_of d) (lcp_lowerdown (link_hooks_of d) v)" if "link_ok (on_of d) v" for v :: "'a ccp_world_scheme"
    using that tab.lv.lcp_layer.lowerdown_layer [of "d_ip d" "d_ccp d" v] by (simp add: lcp_lowerdown_def)
  have ends: "link_ok (on_of d) (link_terminated (d_plugins d) v)" if "link_ok (on_of d) v" for v :: "'a ccp_world_scheme"
    using that link_ok_cong [of "link_terminated (d_plugins d) v" v]
    by (simp add: link_terminated_def plugin_note_def new_phase_def pending_def)
  have sprot: "link_ok (on_of d) (lcp_sprotrej fr w)" for fr
    using assms tab.lv.lcp_layer.inv_upd [of "\<lambda>f. f\<lparr>f_id := f_id f + 1\<rparr>" w]
    by (simp add: lcp_sprotrej_def Let_def)
  have lcp: "link_ok (on_of d) (lcp_input (link_hooks_of d) p w)" for p
    using assms tab.lv.lcp_layer.input_layer [of "d_ip d" "d_ccp d" w "d_plugins d" p] by (simp add: lcp_input_def)
  show ?thesis
    by (rule get_input_cases [of d rx w])
      (use assms low ends sprot lcp tab.upap_input_ok tab.chap_input_ok tab.ncp_input_link tab.ncp_data_link in \<open>auto\<close>)
qed

lemma close_others_ok:
  assumes "link_ok (ncp_on ip cc) w"
  shows "link_ok (ncp_on ip cc) (check_idle pl (ncp_tab pl ip cc) idle w)"
    and "link_ok (ncp_on ip cc) (connect_time_expired pl (ncp_tab pl ip cc) w)"
  using assms
  by (auto simp: check_idle_def connect_time_expired_def Let_def tab.close_link_ok split: option.split)

lemma run_callout_ok:
  assumes ok: "link_ok (on_of d) w" and p: "callout w = p # ps"
  shows "link_ok (on_of d) (run_callout d idle p (w\<lparr>callout := ps\<rparr>))"
proof (cases "c_func p = LCP_ECHO_TIMEOUT \<and> c_arg p = ARG_FSM LCP_FSM")
  case True
  then have "pppuntimeout LCP_ECHO_TIMEOUT (ARG_FSM LCP_FSM) w = w\<lparr>callout := ps\<rparr>"
    using p by (simp add: pppuntimeout_def)
  with True show ?thesis
    using tab.lv.echo_timeout_layer [OF ok] by (simp add: run_callout_def)
next
  case False
  define v where "v = w\<lparr>callout := ps\<rparr>"
  have v: "link_ok (on_of d) v"
    using link_ok_take [OF p False] ok by (simp add: v_def)
  show ?thesis
    unfolding v_def [symmetric]
    using False v tab.lv.lcp_layer.timeout_layer [OF v] ipcp_timeout_link [OF v] ccp_timeout_link [OF v]
      tab.upap_timeouts_ok [OF v] tab.chap_timeouts_ok [OF v] close_others_ok [OF v]
    by (auto simp: run_callout_def holdoff_end_def timeout_terminate_def
        split: callout_func.split callout_arg.split fsm_id.split)
qed

lemma link_start_cases: "link_start d w = new_phase PHASE_ESTABLISH
    ((lcp_open (link_hooks_of d) (lcp_lowerup (link_hooks_of d) w))\<lparr>pppd_status := EXIT_NEGOTIATION_FAILED\<rparr>)"
  by (simp add: link_start_def Let_def)

lemma link_step_ok:
  assumes "link_step d w e w'" and "link_ok (on_of d) w"
  shows "link_ok (on_of d) w'"
  using assms(1)
proof cases
  case (Step_Timer p ps now w1 idle)
  then show ?thesis
    using run_callout_ok [of d w1 p ps idle] assms(2) by (auto simp: gettimeofday_def)
next
  case Step_Kill
  have "link_ok (on_of d) (lcp_close (down_hooks (d_plugins d) (ncps_of d)) r w)" for r
    using tab.dv.lcp_close_layer assms(2) by blast
  with Step_Kill assms(2) show ?thesis by (simp add: kill_check_def)
next
  case Step_Start
  have "link_ok (on_of d) (lcp_lowerup (link_hooks_of d) w)"
    unfolding lcp_lowerup_def Let_def
    by (rule tab.lv.lcp_layer.lowerup_layer, rule link_ok_cong [THEN iffD2, OF _ _ _ _ _ _ assms(2)])
      (simp_all add: drv_log_def pending_def)
  then have "link_ok (on_of d) (lcp_open (link_hooks_of d) (lcp_lowerup (link_hooks_of d) w))"
    unfolding lcp_open_def [of "link_hooks_of d"] Let_def
    by (intro tab.lv.lcp_layer.open_layer) (simp add: tab.lv.lcp_layer.inv_upd)
  with Step_Start show ?thesis by (simp add: link_start_cases)
next
  case Step_Finish
  then show ?thesis
    using assms(2) tab.lv.lcp_layer.lowerdown_layer [of "d_ip d" "d_ccp d" w] by (simp add: link_end_def lcp_lowerdown_def)
qed (use assms(2) in \<open>auto simp: get_input_ok rtems_pppd_disconnect_def attempt_start_def holdoff_start_def Let_def\<close>)

lemma link_steps_ok: "link_steps d w es w' \<Longrightarrow> link_ok (on_of d) w \<Longrightarrow> link_ok (on_of d) w'"
  by (induction rule: link_steps.induct) (auto intro: link_step_ok)

section \<open>Properties of one network protocol\<close>

locale daemon_observer = link_observer_all P "ncps_of d"
  for P :: "'a daemon_world_scheme \<Rightarrow> bool" and d :: daemon +
  assumes ob_input: "e \<in> set (ncps_of d) \<Longrightarrow> P w \<Longrightarrow> P (p_input e inp w)"
    and ob_data: "e \<in> set (ncps_of d) \<Longrightarrow> p_datainput e = Some di \<Longrightarrow> P w \<Longrightarrow> P (di inp w)"
    and ob_ip_timeout: "P w \<Longrightarrow>
      P (fsm_timeout (ipcp_callbacks (d_plugins d) (ncp_lows (d_ip d) (d_ccp d))) IPCP_FSM w)"
    and ob_cc_timeout: "P w \<Longrightarrow> P (fsm_timeout ccp_callbacks CCP_FSM w)"
    and ob_take: "P w \<Longrightarrow> callout w = q # qs \<Longrightarrow>
      \<not> (c_func q = CCP_RACK_TIMEOUT \<and> c_arg q = ARG_FSM CCP_FSM) \<Longrightarrow> P (w\<lparr>callout := qs\<rparr>)"
    and ob_rack: "P w \<Longrightarrow> callout w = q # qs \<Longrightarrow> c_func q = CCP_RACK_TIMEOUT \<Longrightarrow> c_arg q = ARG_FSM CCP_FSM \<Longrightarrow>
      P (ccp_rack_timeout (w\<lparr>callout := qs\<rparr>))"
    and ob_same: "P w \<Longrightarrow> fsms w' = fsms w \<Longrightarrow> callout w' = callout w \<Longrightarrow> ipcp_is_up w' = ipcp_is_up w \<Longrightarrow>
      ccp_localstate w' = ccp_localstate w \<Longrightarrow> P w'"
begin

lemma ob_fields:
  assumes "P w"
  shows "P (w\<lparr>pppd_kill_link := b\<rparr>)" "P (w\<lparr>persist := b\<rparr>)" "P (w\<lparr>dmd := q\<rparr>)" "P (w\<lparr>unsuccess := k\<rparr>)"
  using assms by (rule ob_same; simp)+

lemma ob_get_input: "P w \<Longrightarrow> P (get_input d rx w)"
  by (rule get_input_cases [of d rx w]) (auto simp: lo_fields lo_lcp lo_upap lo_chap intro: ob_input ob_data)

lemma ob_run_callout:
  assumes "P w" and p: "callout w = p # ps"
  shows "P (run_callout d idle p (w\<lparr>callout := ps\<rparr>))"
proof (cases "c_func p = CCP_RACK_TIMEOUT \<and> c_arg p = ARG_FSM CCP_FSM")
  case True
  with assms show ?thesis by (simp add: run_callout_def ob_rack)
next
  case False
  define v where "v = w\<lparr>callout := ps\<rparr>"
  have "P v"
    unfolding v_def by (rule ob_take) (use assms False in \<open>blast+\<close>)
  then have "P (run_callout d idle p v)"
    using False
    by (auto simp: run_callout_def holdoff_end_def timeout_terminate_def lo_fields ob_fields lo_lcp lo_echo lo_upap lo_chap
        lo_expired ob_ip_timeout ob_cc_timeout split: callout_func.split callout_arg.split fsm_id.split)
  then show ?thesis by (simp add: v_def)
qed

lemma ob_step:
  assumes "link_step d w e w'" and "P w"
  shows "P w'"
  using assms(1)
proof cases
  case (Step_Timer p ps now w1 idle)
  then show ?thesis
    using ob_run_callout [of w1 p ps idle] assms(2) by (auto simp: gettimeofday_def lo_fields)
next
  case Step_Input
  with assms(2) show ?thesis by (simp add: ob_get_input)
qed (use assms(2) in \<open>auto simp: kill_check_def lo_lcp_close rtems_pppd_disconnect_def attempt_start_def link_start_cases link_end_def
    holdoff_start_def Let_def lo_fields ob_fields lo_lcp lo_arm\<close>)

lemma ob_steps: "link_steps d w es w' \<Longrightarrow> P w \<Longrightarrow> P w'"
  by (induction rule: link_steps.induct) (auto intro: ob_step)

end

interpretation ip_daemon: daemon_observer ipcp_ok d for d
proof unfold_locales
  fix w :: "'a daemon_world_scheme" and e :: "'a daemon_world_scheme protent"
  assume w: "ipcp_ok w"
  show "ipcp_ok (di inp w)" if "e \<in> set (ncps_of d)" and "p_datainput e = Some di" for di inp
    using that w ipcp_same_inv(2) [OF ccp_ops_same(7), of inp w]
    by (auto simp: ncp_tab_def ipcp_protent_def ccp_protent_def)
  show "ipcp_ok (fsm_timeout ccp_callbacks CCP_FSM w)"
    using w ipcp_same_inv(2) [OF ccp_ops_same(9), of w] by simp
  show "ipcp_ok (ccp_rack_timeout (w\<lparr>callout := qs\<rparr>))" for qs
    using w ipcp_same_inv(2) [OF ccp_ops_same(8), of "w\<lparr>callout := qs\<rparr>"] by (simp add: layer_inv_def)
  show "ipcp_ok (w\<lparr>callout := qs\<rparr>)" for qs
    using w by (simp add: layer_inv_def)
  show "ipcp_ok w'" if "fsms w' = fsms w" and "ipcp_is_up w' = ipcp_is_up w" for w' :: "'a daemon_world_scheme"
    using w that by (simp add: layer_inv_def)
qed (auto intro: ipcp_ok_input ipcp_layer.timeout_layer)

interpretation cc_daemon: daemon_observer ccp_ok d for d
proof unfold_locales
  fix w w' :: "'a daemon_world_scheme" and e :: "'a daemon_world_scheme protent"
  assume w: "ccp_ok w"
  show "ccp_ok (di inp w)" if "e \<in> set (ncps_of d)" and "p_datainput e = Some di" for di inp
    using that w by (auto simp: ncp_tab_def ipcp_protent_def ccp_protent_def ccp_datainput_ok)
  show "ccp_ok (w\<lparr>callout := qs\<rparr>)" if "callout w = q # qs" and "\<not> (c_func q = CCP_RACK_TIMEOUT \<and> c_arg q = ARG_FSM CCP_FSM)" for q qs
  proof -
    have "rack_view (w\<lparr>callout := qs\<rparr>) = rack_view w"
      using that by (auto simp: rack_view_def pending_def)
    with w show ?thesis by (simp add: layer_inv_def)
  qed
  show "ccp_ok w'" if "fsms w' = fsms w" "callout w' = callout w" "ccp_localstate w' = ccp_localstate w"
  proof -
    have "rack_view w' = rack_view w"
      using that by (simp add: rack_view_def pending_def)
    with w that(1) show ?thesis by (simp add: layer_inv_def)
  qed
qed (auto intro: ccp_ok_input ccp_ok_ops ccp_rack_timeout_ok ccp_ip_all.al.timeout_keeps)

section \<open>The initial state\<close>

lemma link_ok_init: "link_ok on (rtems_pppd_reset_options (static_world c r io fl ifs))"
  by (auto simp: rtems_pppd_reset_options_def static_world_def lcp_init_def ipcp_init_def upap_init_def ChapInit_def
      ccp_init_def fsm_init_def layer_inv_def lcp_view_def auth_view_def lcp_dn_def auth_dn_def lcp_lay_def Let_def
      upd_fsm_def upd_upap_def upd_chap_def zero_fsm_def zero_upap_def pending_def ncp_states_def)

lemma ncps_ok_init:
  "ipcp_ok (rtems_pppd_reset_options (static_world c r io fl ifs))"
  "ccp_ok (rtems_pppd_reset_options (static_world c r io fl ifs))"
  by (simp_all add: rtems_pppd_reset_options_def static_world_def lcp_init_def ipcp_init_def upap_init_def ChapInit_def
      ccp_init_def fsm_init_def layer_inv_def Let_def upd_fsm_def upd_upap_def upd_chap_def zero_fsm_def
      pending_def rack_view_def)

end
