(* ===== verification/Opt_Words.thy ===== *)
theory Opt_Words
  imports Auth_State
begin

text \<open>
  The lexical part of \<^verbatim>\<open>options.c\<close>: \<^verbatim>\<open>getword\<close>, which reads one word of an options file, and the
  conversions \<^verbatim>\<open>strtoul\<close> and \<^verbatim>\<open>strtol\<close> of the C library that the option parsers call. A file is the
  list of the bytes that are still to be read; the current character \<^verbatim>\<open>c\<close> of the loops is the head of
  that list and \<^verbatim>\<open>EOF\<close> is the empty list, so that \<^verbatim>\<open>ungetc\<close> leaves the list as it is. Strings are the
  bytes before the terminating zero. The type \<^verbatim>\<open>long\<close> has 32 bits. The lemmas give the word that is
  read back from a quoted word, the bound on the length of a word, and that reading makes progress.
\<close>

section \<open>Definitions\<close>

subsection \<open>Characters\<close>

definition isspace :: "u8 \<Rightarrow> bool" where
  "isspace c \<longleftrightarrow> c = 32 \<or> 9 \<le> c \<and> c \<le> 13"

definition isoctal :: "u8 \<Rightarrow> bool" where
  "isoctal c \<longleftrightarrow> 48 \<le> c \<and> c < 56"

definition isxdigit :: "u8 \<Rightarrow> bool" where
  "isxdigit c \<longleftrightarrow> 48 \<le> c \<and> c \<le> 57 \<or> 65 \<le> c \<and> c \<le> 70 \<or> 97 \<le> c \<and> c \<le> 102"

definition toupper :: "u8 \<Rightarrow> u8" where
  "toupper c = (if 97 \<le> c \<and> c \<le> 122 then c - 32 else c)"

subsection \<open>Reading a word\<close>

text \<open>
  The first loop of \<^verbatim>\<open>getword\<close>: white space, comments and escaped newlines are skipped. The flags are
  \<^verbatim>\<open>*newlinep\<close>, \<^verbatim>\<open>escape\<close> and \<^verbatim>\<open>comment\<close>; 10, 92 and 35 are newline, backslash and hash.
\<close>

fun getword_skip :: "bool \<Rightarrow> bool \<Rightarrow> bool \<Rightarrow> bytes \<Rightarrow> bool \<times> bool \<times> bytes" where
  "getword_skip newline escape comment [] = (newline, escape, [])"
| "getword_skip newline escape comment (c # f) =
     (if c = 10 then
        (if \<not> escape then getword_skip True escape False f else getword_skip newline False comment f)
      else if comment then getword_skip newline escape comment f
      else if escape then (newline, escape, c # f)
      else if c = 92 then getword_skip newline True comment f
      else if c = 35 then getword_skip newline escape True f
      else if \<not> isspace c then (newline, escape, c # f)
      else getword_skip newline escape comment f)"

text \<open>The letters after a backslash that stand for a control character.\<close>

definition escape_value :: "u8 \<Rightarrow> u8 option" where
  "escape_value c =
     (if c = 97 then Some 7 else if c = 98 then Some 8 else if c = 102 then Some 12
      else if c = 110 then Some 10 else if c = 114 then Some 13 else if c = 115 then Some 32
      else if c = 116 then Some 9 else None)"

text \<open>The loops over the digits of \<^verbatim>\<open>\ddd\<close> and \<^verbatim>\<open>\xHH\<close>; the first argument is the number of digits left.\<close>

fun getword_octal :: "nat \<Rightarrow> int \<Rightarrow> bytes \<Rightarrow> int \<times> bytes" where
  "getword_octal (Suc n) v (c # f) =
     (if isoctal c then getword_octal n (v * 8 + uint (c AND 7)) f else (v, c # f))"
| "getword_octal _ v f = (v, f)"

definition hex_digit :: "u8 \<Rightarrow> int" where
  "hex_digit c = (let digit = uint (toupper c) - 48 in if digit > 10 then digit + 48 + 10 - 65 else digit)"

fun getword_hex :: "nat \<Rightarrow> int \<Rightarrow> bytes \<Rightarrow> int \<times> bytes" where
  "getword_hex (Suc n) v (c # f) =
     (if isxdigit c then getword_hex n (v * 16 + hex_digit c) f else (v, c # f))"
| "getword_hex _ v f = (v, f)"

text \<open>The character that an escape sequence stands for, and the file after it.\<close>

definition getword_escape :: "u8 \<Rightarrow> bytes \<Rightarrow> u8 \<times> bytes" where
  "getword_escape c f =
     (case escape_value c of
        Some v \<Rightarrow> (v, f)
      | None \<Rightarrow>
          if isoctal c then (let (value, f) = getword_octal 3 0 (c # f) in (word_of_int value, f))
          else if c = 120 then (let (value, f) = getword_hex 2 0 f in (word_of_int value, f))
          else (c, f))"

text \<open>The counter \<^verbatim>\<open>len\<close> and the characters that are in the buffer \<^verbatim>\<open>word\<close>.\<close>

definition put_char :: "u8 \<Rightarrow> nat \<times> bytes \<Rightarrow> nat \<times> bytes" where
  "put_char v b =
     (case b of (len, word) \<Rightarrow> (len + 1, if len < MAXWORDLEN - 1 then word @ [v] else word))"

lemma getword_octal_length: "length (snd (getword_octal n v f)) \<le> length f"
  by (induction n v f rule: getword_octal.induct) auto

lemma getword_hex_length: "length (snd (getword_hex n v f)) \<le> length f"
  by (induction n v f rule: getword_hex.induct) auto

lemma getword_escape_length: "length (snd (getword_escape c f)) \<le> length f"
proof -
  have "length (snd (getword_octal 3 0 (c # f))) \<le> length f" if "isoctal c"
    using getword_octal_length [of 2 "uint (c AND 7)" f] that by (simp add: numeral_3_eq_3 numeral_2_eq_2)
  then show ?thesis
    using getword_hex_length [of 2 0 f]
    by (auto simp: getword_escape_def split: option.split prod.split simp del: getword_octal.simps)
qed

text \<open>
  The second loop. \<open>quoted\<close> is the delimiter, when the word has one. The result says whether the end of
  the file was met, then what is left of the file and the buffer.
\<close>

function getword_chars :: "u8 option \<Rightarrow> bool \<Rightarrow> bytes \<Rightarrow> nat \<times> bytes \<Rightarrow> bool \<times> bytes \<times> nat \<times> bytes" where
  "getword_chars quoted escape [] b = (True, [], b)"
| "getword_chars quoted True (c # f) b =
     (if c = 10 then getword_chars quoted False f b
      else getword_chars quoted False (snd (getword_escape c f)) (put_char (fst (getword_escape c f)) b))"
| "getword_chars quoted False (c # f) b =
     (if quoted = Some c then (False, f, b)
      else if quoted = None \<and> (isspace c \<or> c = 35) then (False, c # f, b)
      else if c = 92 then getword_chars quoted True f b
      else getword_chars quoted False f (put_char c b))"
  by pat_completeness auto
termination
  by (relation "measure (\<lambda>(_, _, f, _). length f)")
    (auto simp: less_Suc_eq_le getword_escape_length)

text \<open>
  \<^verbatim>\<open>getword\<close>: the return value, \<^verbatim>\<open>*newlinep\<close>, the word, the rest of the file, and whether \<^verbatim>\<open>die\<close> was called,
  as it is when the end of the file is an error (\<open>err\<close> is \<^verbatim>\<open>ferror\<close> there); \<^verbatim>\<open>die\<close> returns.
\<close>

record word_result =
  g_ret :: bool
  g_newline :: bool
  g_word :: bytes
  g_rest :: bytes
  g_died :: bool

definition getword :: "bool \<Rightarrow> bytes \<Rightarrow> word_result" where
  "getword err f =
     (let (newline, escape, f) = getword_skip False False False f;
          (quoted, f) = (case f of
                           c # f' \<Rightarrow> if \<not> escape \<and> (c = 34 \<or> c = 39) then (Some c, f') else (None, f)
                         | [] \<Rightarrow> (None, f));
          (eof, f, len, word) = getword_chars quoted escape f (0, [])
      in \<lparr>g_ret = \<not> (eof \<and> len = 0), g_newline = newline, g_word = word, g_rest = f,
          g_died = eof \<and> err\<rparr>)"

subsection \<open>Numbers\<close>

text \<open>The value of a digit, in any base up to 36.\<close>

definition digit_value :: "u8 \<Rightarrow> nat option" where
  "digit_value c =
     (if 48 \<le> c \<and> c \<le> 57 then Some (unat c - 48)
      else if 65 \<le> c \<and> c \<le> 90 then Some (unat c - 55)
      else if 97 \<le> c \<and> c \<le> 122 then Some (unat c - 87) else None)"

definition digit_in :: "nat \<Rightarrow> u8 \<Rightarrow> bool" where
  "digit_in base c = (case digit_value c of Some d \<Rightarrow> d < base | None \<Rightarrow> False)"

fun digits :: "nat \<Rightarrow> nat \<Rightarrow> bytes \<Rightarrow> nat \<times> bytes" where
  "digits base acc [] = (acc, [])"
| "digits base acc (c # s) =
     (if digit_in base c then digits base (acc * base + the (digit_value c)) s else (acc, c # s))"

text \<open>
  What \<^verbatim>\<open>strtoul\<close> and \<^verbatim>\<open>strtol\<close> share: sign, magnitude and the rest of the string, or \<open>None\<close> when there
  is no conversion. The prefix \<^verbatim>\<open>0x\<close> counts only before a digit.
\<close>

definition str_sign :: "bytes \<Rightarrow> bool \<times> bytes" where
  "str_sign s =
     (case dropWhile isspace s of
        c # s' \<Rightarrow> if c = 45 then (True, s') else if c = 43 then (False, s') else (False, c # s')
      | [] \<Rightarrow> (False, []))"

definition hex_prefix :: "bytes \<Rightarrow> bool" where
  "hex_prefix s = (case s of a # b # c # _ \<Rightarrow> a = 48 \<and> (b = 120 \<or> b = 88) \<and> isxdigit c | _ \<Rightarrow> False)"

definition str_base :: "nat \<Rightarrow> bytes \<Rightarrow> nat \<times> bytes" where
  "str_base base s =
     (if (base = 0 \<or> base = 16) \<and> hex_prefix s then (16, drop 2 s)
      else if base = 0 then (if s \<noteq> [] \<and> hd s = 48 then 8 else 10, s)
      else (base, s))"

definition str_number :: "nat \<Rightarrow> bytes \<Rightarrow> (bool \<times> nat \<times> bytes) option" where
  "str_number base s =
     (let (neg, s) = str_sign s; (base, s) = str_base base s
      in if s \<noteq> [] \<and> digit_in base (hd s)
         then (let (v, r) = digits base 0 s in Some (neg, v, r)) else None)"

definition strtoul :: "bytes \<Rightarrow> nat \<Rightarrow> u32 \<times> bytes" where
  "strtoul s base =
     (case str_number base s of
        None \<Rightarrow> (0, s)
      | Some (neg, v, r) \<Rightarrow>
          (if v \<ge> 2 ^ 32 then - 1 else if neg then - word_of_nat v else word_of_nat v, r))"

definition strtol :: "bytes \<Rightarrow> nat \<Rightarrow> int \<times> bytes" where
  "strtol s base =
     (case str_number base s of
        None \<Rightarrow> (0, s)
      | Some (neg, v, r) \<Rightarrow>
          (if neg then max (- (2 ^ 31)) (- int v) else min (2 ^ 31 - 1) (int v), r))"

text \<open>A word between double quotes, as it is written in an options file.\<close>

definition quote_char :: "u8 \<Rightarrow> bytes" where
  "quote_char c = (if c = 34 \<or> c = 92 then [92, c] else [c])"

definition quote_word :: "bytes \<Rightarrow> bytes" where
  "quote_word w = 34 # concat (map quote_char w) @ [34]"

section \<open>Lemmas\<close>


subsection \<open>Words\<close>

lemma getword_skip_length: "length (snd (snd (getword_skip nl esc com f))) \<le> length f"
  by (induction nl esc com f rule: getword_skip.induct) (auto simp: le_Suc_eq)

lemma getword_chars_length: "length (fst (snd (getword_chars q esc f b))) \<le> length f"
proof (induction q esc f b rule: getword_chars.induct)
  case (2 quoted c f b)
  with getword_escape_length [of c f] show ?case by (auto simp: le_Suc_eq intro: le_trans)
qed (auto simp: le_Suc_eq)

text \<open>A word that is found starts at a character that is escaped, or that is no separator.\<close>

lemma getword_skip_start:
  "getword_skip nl esc com f = (nl', False, c # r) \<Longrightarrow> \<not> isspace c \<and> c \<noteq> 35"
  by (induction nl esc com f rule: getword_skip.induct) (auto split: if_splits)

lemma getword_skip_escaped:
  assumes "getword_skip nl False com f = (nl', True, c # r)"
  shows "length (c # r) < length f"
proof (cases f)
  case (Cons d f0)
  have "length r < length f0" if "getword_skip n e k f0 = (nl', True, c # r)" for n e k
    using getword_skip_length [of n e k f0] that by simp
  with assms Cons show ?thesis
    by (simp split: if_splits)
qed (use assms in simp)

lemma getword_decreases:
  assumes "g_ret (getword err f)"
  shows "length (g_rest (getword err f)) < length f"
proof -
  obtain nl esc f1 where s: "getword_skip False False False f = (nl, esc, f1)" by (metis prod_cases3)
  have l1: "length f1 \<le> length f" using getword_skip_length [of False False False f] s by simp
  show ?thesis
  proof (cases f1)
    case Nil
    with assms s show ?thesis by (simp add: getword_def)
  next
    case (Cons c r)
    note st = s [unfolded Cons]
    have rest: "g_rest (getword err f) =
        fst (snd (if \<not> esc \<and> (c = 34 \<or> c = 39) then getword_chars (Some c) esc r (0, [])
                  else getword_chars None esc (c # r) (0, [])))"
      using s Cons by (simp add: getword_def split: prod.split)
    consider (quoted) "\<not> esc" "c = 34 \<or> c = 39" | (plain) "\<not> esc" "\<not> (c = 34 \<or> c = 39)" | (escaped) esc
      by blast
    then show ?thesis
    proof cases
      case quoted
      with rest l1 Cons getword_chars_length [of "Some c" esc r "(0, [])"] show ?thesis by simp
    next
      case plain
      have "length (fst (snd (getword_chars None esc (c # r) (0, [])))) \<le> length r"
        using plain getword_skip_start [of False False False f nl c r] st getword_chars_length [of None True r "(0, [])"]
          getword_chars_length [of None False r "put_char c (0, [])"] by simp
      with rest plain l1 Cons show ?thesis by simp
    next
      case escaped
      with rest getword_skip_escaped [of False False f nl c r] st getword_chars_length [of None esc "c # r" "(0, [])"] show ?thesis by simp
    qed
  qed
qed

text \<open>The word in the buffer is cut at \<open>MAXWORDLEN - 1\<close> characters, which leaves room for the zero.\<close>

lemma put_char_fold:
  "n + length w \<le> MAXWORDLEN - 1 \<Longrightarrow> fold put_char w (n, b) = (n + length w, b @ w)"
  by (induction w arbitrary: n b) (auto simp: put_char_def)

definition word_fits :: "nat \<times> bytes \<Rightarrow> bool" where
  "word_fits b \<longleftrightarrow> length (snd b) \<le> MAXWORDLEN - 1 \<and> length (snd b) \<le> fst b"

lemma put_char_fits [intro]: "word_fits b \<Longrightarrow> word_fits (put_char v b)"
  by (auto simp: word_fits_def put_char_def split: prod.split)

lemma getword_chars_fits: "word_fits b \<Longrightarrow> word_fits (snd (snd (getword_chars q esc f b)))"
  by (induction q esc f b rule: getword_chars.induct) auto

lemma getword_length: "length (g_word (getword err f)) < MAXWORDLEN"
proof -
  have "length b < MAXWORDLEN" if "getword_chars q esc f (0, []) = (eof, r, n, b)" for q esc f eof r n b
    using getword_chars_fits [of "(0, [])" q esc f] that by (simp add: word_fits_def ppp_consts)
  then show ?thesis
    by (simp add: getword_def Let_def split: prod.split)
qed

text \<open>A quoted word is read back as it was.\<close>

lemma escape_quote: "c = 34 \<or> c = 92 \<Longrightarrow> getword_escape c f = (c, f)"
  by (auto simp: getword_escape_def escape_value_def isoctal_def)

lemma getword_chars_quoted:
  "getword_chars (Some 34) False (concat (map quote_char w) @ 34 # rest) b = (False, rest, fold put_char w b)"
  by (induction w arbitrary: b) (auto simp: quote_char_def escape_quote)

lemma getword_quoted:
  assumes "length w < MAXWORDLEN"
  shows "getword err (quote_word w @ rest) =
    \<lparr>g_ret = True, g_newline = False, g_word = w, g_rest = rest, g_died = False\<rparr>"
proof -
  have "fold put_char w (0, []) = (length w, w)"
    using put_char_fold [of 0 w "[]"] assms by simp
  then show ?thesis
    by (simp add: getword_def quote_word_def isspace_def getword_chars_quoted)
qed

text \<open>Separators before a word are skipped.\<close>

lemma getword_skip_newline: "getword_skip True esc com f = (True, snd (getword_skip nl esc com f))"
  by (induction nl esc com f rule: getword_skip.induct) auto

lemma getword_space:
  assumes "isspace c"
  shows "getword err (c # f) = (getword err f)\<lparr>g_newline := c = 10 \<or> g_newline (getword err f)\<rparr>"
proof (cases "c = 10")
  case True
  obtain nl esc r where s: "getword_skip False False False f = (nl, esc, r)" by (metis prod_cases3)
  then have "getword_skip True False False f = (True, esc, r)"
    using getword_skip_newline [of False False f False] by simp
  with True s show ?thesis
    by (auto simp: getword_def split: list.split prod.split)
next
  case False
  with assms show ?thesis
    by (auto simp: getword_def isspace_def case_prod_unfold Let_def)
qed

lemma getword_end: "\<not> g_ret (getword err [])"
  by (simp add: getword_def)

subsection \<open>Numbers\<close>

lemma digits_length: "length (snd (digits base acc s)) \<le> length s"
  by (induction base acc s rule: digits.induct) auto

lemma str_sign_length: "length (snd (str_sign s)) \<le> length s"
  using length_dropWhile_le [of isspace s] by (auto simp: str_sign_def split: list.split)

lemma str_base_length: "length (snd (str_base base s)) \<le> length s"
  by (simp add: str_base_def)

lemma str_number_length:
  assumes "str_number base s = Some (neg, v, r)"
  shows "length r < length s"
proof -
  obtain neg' s1 where s1: "str_sign s = (neg', s1)" by fastforce
  obtain b s2 where s2: "str_base base s1 = (b, s2)" by fastforce
  from assms s1 s2 have d: "s2 \<noteq> []" "digit_in b (hd s2)" "digits b 0 s2 = (v, r)"
    by (auto simp: str_number_def split: if_splits prod.splits)
  then have "length r < length s2"
    using digits_length [of b "the (digit_value (hd s2))" "tl s2"] by (cases s2) auto
  then show ?thesis
    using str_sign_length [of s] str_base_length [of base s1] s1 s2 by simp
qed

lemma strtol_length: "snd (strtol s base) \<noteq> s \<Longrightarrow> length (snd (strtol s base)) < length s"
  by (auto simp: strtol_def dest: str_number_length split: option.splits)

lemma strtoul_length: "snd (strtoul s base) \<noteq> s \<Longrightarrow> length (snd (strtoul s base)) < length s"
  by (auto simp: strtoul_def dest: str_number_length split: option.splits)

end
