(* ===== verification/Options.thy ===== *)
theory Options
  imports Ppp_Daemon Opt_Words "HOL-Library.Monad_Syntax"
begin

text \<open>
  Option processing: \<^verbatim>\<open>options.c\<close>, the option tables of \<^verbatim>\<open>auth.c\<close>, \<^verbatim>\<open>lcp.c\<close>, \<^verbatim>\<open>upap.c\<close>, \<^verbatim>\<open>chap.c\<close>, \<^verbatim>\<open>ipcp.c\<close> and
  \<^verbatim>\<open>ccp.c\<close> with the parsers they name, and \<^verbatim>\<open>rtems_pppd_set_option\<close> of \<^verbatim>\<open>rtemspppd.c\<close>. An address in a table
  is a pair of functions that read and write the variable, tagged with the type the variable is declared
  with; \<open>process_option\<close> reads it with the type that the entry claims, and a cast to another type, or a
  copy that is longer than the array, gives \<open>None\<close>. Otherwise the result is the return value and the new
  state. What the C library and the system answer (\<^verbatim>\<open>fopen\<close>, \<^verbatim>\<open>stat\<close>, \<^verbatim>\<open>open\<close>, \<^verbatim>\<open>inet_addr\<close>,
  \<^verbatim>\<open>gethostbyname\<close>, \<^verbatim>\<open>gethostname\<close>) is the argument \<open>os\<close>. Files can name files: the number \<open>n\<close> is the number
  of streams that are free, and \<^verbatim>\<open>fopen\<close> fails when there is none. Messages are not modelled.
\<close>

section \<open>Definitions\<close>

subsection \<open>Variables\<close>

record option_info =
  i_priv :: bool
  i_source :: bytes

text \<open>
  The variables of \<^verbatim>\<open>options.c\<close> that no other component reads, \<^verbatim>\<open>hide_password\<close> of \<^verbatim>\<open>upap.c\<close>, \<^verbatim>\<open>cryptpap\<close> of \<^verbatim>\<open>auth.c\<close>,
  \<^verbatim>\<open>prepass\<close> and \<^verbatim>\<open>devnam_fixed\<close> of \<^verbatim>\<open>rtemsmain.c\<close>, and the flags \<^verbatim>\<open>enabled_flag\<close> of IPCP and CCP. \<open>died\<close> counts the
  calls of \<^verbatim>\<open>die\<close>, \<open>closed\<close> lists the descriptors that were closed.
\<close>

record opt_vars =
  debug :: int
  kdebugflag :: int
  default_device :: int
  devnam :: bytes
  crtscts :: int
  modem :: bool
  inspeed :: int
  lockflag :: bool
  nodetach :: bool
  updetach :: bool
  initializer :: "bytes option"
  connect_script :: "bytes option"
  disconnect_script :: "bytes option"
  welcomer :: "bytes option"
  ptycommand :: "bytes option"
  ipparam :: "bytes option"
  holdoff_specified :: bool
  notty :: bool
  record_file :: "bytes option"
  sync_serial :: bool
  log_to_fd :: int
  linkname :: bytes
  tune_kernel :: bool
  connect_delay :: int
  initializer_info :: option_info
  connect_script_info :: option_info
  disconnect_script_info :: option_info
  welcomer_info :: option_info
  devnam_info :: option_info
  ptycommand_info :: option_info
  privileged_option :: bool
  option_source :: bytes
  log_to_file :: bool
  hide_password :: bool
  cryptpap :: bool
  prepass :: bool
  devnam_fixed :: bool
  ip_enabled :: bool
  ccp_enabled :: bool
  died :: nat
  closed :: "int list"

record opt_world = daemon_world +
  ov :: opt_vars

text \<open>The system calls and library functions.\<close>

datatype fopen_result = File bytes bool | Fopen_enoent | Fopen_error

datatype stat_result = Stat_chr | Stat_other | Stat_enoent | Stat_error

record os_env =
  os_fopen :: "bytes \<Rightarrow> fopen_result"
  os_stat :: "bytes \<Rightarrow> stat_result"
  os_inet_addr :: "bytes \<Rightarrow> u32"
  os_gethostbyname :: "bytes \<Rightarrow> u32 option"
  os_gethostname :: bytes
  os_open_excl :: "bytes \<Rightarrow> int \<times> bool"
  os_open_append :: "bytes \<Rightarrow> int"
  os_speed :: "int \<Rightarrow> int"

subsection \<open>Option descriptors\<close>

datatype opt_type = o_special_noarg | o_special | o_bool | o_int | o_uint32 | o_string

datatype parser =
    Noopt | Setxonxoff | Setdomain | Setnetmask | Readfile | Callfile | Setlogfile | Setescape
  | Setvjslots | Setdnsaddr | Setwinsaddr | Setbsdcomp | Setdeflate

text \<open>
  A variable is how it is read and how it is written. A static array has a size; the parsers are the
  functions that an entry of type \<^verbatim>\<open>o_special\<close> points to.
\<close>

type_synonym ('w, 'a) var = "('w \<Rightarrow> 'a) \<times> ('a \<Rightarrow> 'w \<Rightarrow> 'w)"

datatype 'w addr =
    A_null
  | A_bool "('w, bool) var"
  | A_int "('w, int) var"
  | A_uint32 "('w, u32) var"
  | A_chars int "('w, bytes) var"
  | A_string "('w, bytes option) var"
  | A_info "('w, option_info) var"
  | A_parser parser

record 'w option_t =
  o_name :: string
  o_type :: opt_type
  o_addr :: "'w addr"
  o_flags :: u32
  o_addr2 :: "'w addr"
  o_upper :: int
  o_lower :: int

definition OPT_VALUE :: u32 where [ppp_consts]: "OPT_VALUE = 0xff"
definition OPT_NOARG :: u32 where [ppp_consts]: "OPT_NOARG = 0x200"
definition OPT_OR :: u32 where [ppp_consts]: "OPT_OR = 0x400"
definition OPT_INC :: u32 where [ppp_consts]: "OPT_INC = 0x800"
definition OPT_PRIV :: u32 where [ppp_consts]: "OPT_PRIV = 0x1000"
definition OPT_STATIC :: u32 where [ppp_consts]: "OPT_STATIC = 0x2000"
definition OPT_LLIMIT :: u32 where [ppp_consts]: "OPT_LLIMIT = 0x4000"
definition OPT_ULIMIT :: u32 where [ppp_consts]: "OPT_ULIMIT = 0x8000"
definition OPT_LIMITS :: u32 where [ppp_consts]: "OPT_LIMITS = OPT_LLIMIT OR OPT_ULIMIT"
definition OPT_ZEROOK :: u32 where [ppp_consts]: "OPT_ZEROOK = 0x10000"
definition OPT_NOINCR :: u32 where [ppp_consts]: "OPT_NOINCR = 0x20000"
definition OPT_ZEROINF :: u32 where [ppp_consts]: "OPT_ZEROINF = 0x40000"
definition OPT_A2INFO :: u32 where [ppp_consts]: "OPT_A2INFO = 0x100000"
definition OPT_A2COPY :: u32 where [ppp_consts]: "OPT_A2COPY = 0x200000"
definition OPT_ENABLE :: u32 where [ppp_consts]: "OPT_ENABLE = 0x400000"
definition OPT_PRIVFIX :: u32 where [ppp_consts]: "OPT_PRIVFIX = 0x800000"
definition OPT_PREPASS :: u32 where [ppp_consts]: "OPT_PREPASS = 0x1000000"
definition OPT_INITONLY :: u32 where [ppp_consts]: "OPT_INITONLY = 0x2000000"
definition OPT_DEVEQUIV :: u32 where [ppp_consts]: "OPT_DEVEQUIV = 0x4000000"
definition OPT_DEVNAM :: u32 where [ppp_consts]: "OPT_DEVNAM = OPT_PREPASS OR OPT_INITONLY OR OPT_DEVEQUIV"
definition MAXPATHLEN :: nat where [ppp_consts]: "MAXPATHLEN = 1024"

definition OPT_VAL :: "int \<Rightarrow> u32" where
  "OPT_VAL x = word_of_int x AND OPT_VALUE"

definition opt_flag :: "'w option_t \<Rightarrow> u32 \<Rightarrow> bool" where
  "opt_flag opt f \<longleftrightarrow> o_flags opt AND f \<noteq> 0"

subsection \<open>Processing an option\<close>

definition number_option :: "bytes \<Rightarrow> nat \<Rightarrow> u32 option" where
  "number_option str base =
     (let (v, ptr) = strtoul str base in if ptr = str then None else Some v)"

definition int_option :: "bytes \<Rightarrow> int option" where
  "int_option str = map_option sint (number_option str 0)"

definition n_arguments :: "'w option_t \<Rightarrow> nat" where
  "n_arguments opt =
     (if o_type opt = o_bool \<or> o_type opt = o_special_noarg \<or> opt_flag opt OPT_NOARG then 0 else 1)"

text \<open>The checks that need \<^verbatim>\<open>addr2\<close>; \<open>None\<close> is a pointer to something else.\<close>

definition option_enabled :: "opt_world option_t \<Rightarrow> opt_world \<Rightarrow> bool option" where
  "option_enabled opt w =
     (if opt_flag opt OPT_ENABLE
      then (case o_addr2 opt of A_bool x \<Rightarrow> Some (fst x w) | _ \<Rightarrow> None) else Some True)"

definition option_fixed :: "opt_world option_t \<Rightarrow> opt_world \<Rightarrow> bool option" where
  "option_fixed opt w =
     (if opt_flag opt OPT_PRIVFIX \<and> \<not> privileged_option (ov w)
      then (case o_addr2 opt of A_info x \<Rightarrow> Some (i_priv (fst x w)) | A_null \<Rightarrow> Some False | _ \<Rightarrow> None)
      else Some False)"

text \<open>\<^verbatim>\<open>if (opt->addr2 && (opt->flags & OPT_A2COPY))\<close>, for each type of value.\<close>

definition copy_bool :: "opt_world option_t \<Rightarrow> bool \<Rightarrow> opt_world \<Rightarrow> opt_world option" where
  "copy_bool opt v w =
     (if opt_flag opt OPT_A2COPY
      then (case o_addr2 opt of A_bool x \<Rightarrow> Some (snd x v w) | A_null \<Rightarrow> Some w | _ \<Rightarrow> None) else Some w)"

definition copy_int :: "opt_world option_t \<Rightarrow> int \<Rightarrow> opt_world \<Rightarrow> opt_world option" where
  "copy_int opt v w =
     (if opt_flag opt OPT_A2COPY
      then (case o_addr2 opt of A_int x \<Rightarrow> Some (snd x v w) | A_null \<Rightarrow> Some w | _ \<Rightarrow> None) else Some w)"

definition copy_uint32 :: "opt_world option_t \<Rightarrow> u32 \<Rightarrow> opt_world \<Rightarrow> opt_world option" where
  "copy_uint32 opt v w =
     (if opt_flag opt OPT_A2COPY
      then (case o_addr2 opt of A_uint32 x \<Rightarrow> Some (snd x v w) | A_null \<Rightarrow> Some w | _ \<Rightarrow> None) else Some w)"

text \<open>The argument of an integer option: \<open>None\<close> when it is no number or outside the limits.\<close>

definition int_argument :: "opt_world option_t \<Rightarrow> bytes \<Rightarrow> int option" where
  "int_argument opt arg =
     (if opt_flag opt OPT_NOARG then Some 0
      else (case int_option arg of
              None \<Rightarrow> None
            | Some iv \<Rightarrow>
                if (opt_flag opt OPT_LLIMIT \<and> iv < o_lower opt \<or>
                    opt_flag opt OPT_ULIMIT \<and> iv > o_upper opt) \<and>
                   \<not> (opt_flag opt OPT_ZEROOK \<and> iv = 0)
                then None else Some iv))"

definition option_value :: "'w option_t \<Rightarrow> int" where
  "option_value opt = (let a = uint (o_flags opt AND OPT_VALUE) in if a \<ge> 128 then a - 256 else a)"

definition process_int ::
  "opt_world option_t \<Rightarrow> (opt_world, int) var \<Rightarrow> bytes \<Rightarrow> opt_world \<Rightarrow> (bool \<times> opt_world) option" where
  "process_int opt x arg w =
     (case int_argument opt arg of
        None \<Rightarrow> Some (False, w)
      | Some iv \<Rightarrow>
          (let iv = iv + option_value opt;
               oldv = fst x w;
               iv = (if opt_flag opt OPT_INC then iv + oldv else iv)
           in if opt_flag opt OPT_NOINCR \<and> \<not> privileged_option (ov w) \<and>
                 (if opt_flag opt OPT_ZEROINF then oldv \<noteq> 0 \<and> (iv = 0 \<or> iv > oldv) else iv > oldv)
              then Some (False, w)
              else map_option (Pair True) (copy_int opt iv (snd x iv w))))"

definition process_uint32 ::
  "opt_world option_t \<Rightarrow> (opt_world, u32) var \<Rightarrow> bytes \<Rightarrow> opt_world \<Rightarrow> (bool \<times> opt_world) option" where
  "process_uint32 opt x arg w =
     (case (if opt_flag opt OPT_NOARG then Some (o_flags opt AND OPT_VALUE) else number_option arg 16) of
        None \<Rightarrow> Some (False, w)
      | Some v \<Rightarrow>
          (let v = (if opt_flag opt OPT_OR then v OR fst x w else v)
           in map_option (Pair True) (copy_uint32 opt v (snd x v w))))"

text \<open>The switch over the type.\<close>

definition process_value ::
  "(parser \<Rightarrow> bytes \<Rightarrow> opt_world \<Rightarrow> (bool \<times> opt_world) option) \<Rightarrow> opt_world option_t \<Rightarrow> bytes \<Rightarrow>
   opt_world \<Rightarrow> (bool \<times> opt_world) option" where
  "process_value run opt arg w =
     (case (o_type opt, o_addr opt) of
        (o_bool, A_bool x) \<Rightarrow>
          (let v = (o_flags opt AND OPT_VALUE \<noteq> 0)
           in map_option (Pair True) (copy_bool opt v (snd x v w)))
      | (o_int, A_int x) \<Rightarrow> process_int opt x arg w
      | (o_uint32, A_uint32 x) \<Rightarrow> process_uint32 opt x arg w
      | (o_string, A_chars n x) \<Rightarrow>
          (if opt_flag opt OPT_STATIC \<and> 0 < o_upper opt \<and> o_upper opt \<le> n
           then Some (True, snd x (take (nat (o_upper opt) - 1) arg) w) else None)
      | (o_string, A_string x) \<Rightarrow>
          (if opt_flag opt OPT_STATIC then None else Some (True, snd x (Some arg) w))
      | (o_special_noarg, A_parser p) \<Rightarrow> run p arg w
      | (o_special, A_parser p) \<Rightarrow> run p arg w
      | _ \<Rightarrow> None)"

definition process_addr2 :: "opt_world option_t \<Rightarrow> opt_world \<Rightarrow> opt_world option" where
  "process_addr2 opt w =
     (case o_addr2 opt of
        A_null \<Rightarrow> Some w
      | a \<Rightarrow>
          if opt_flag opt OPT_A2INFO
          then (case a of
                  A_info x \<Rightarrow> Some (snd x \<lparr>i_priv = privileged_option (ov w), i_source = option_source (ov w)\<rparr> w)
                | _ \<Rightarrow> None)
          else if \<not> opt_flag opt (OPT_A2COPY OR OPT_ENABLE)
          then (case a of A_bool x \<Rightarrow> Some (snd x True w) | _ \<Rightarrow> None)
          else Some w)"

definition process_option ::
  "(parser \<Rightarrow> bytes \<Rightarrow> opt_world \<Rightarrow> (bool \<times> opt_world) option) \<Rightarrow> opt_world option_t \<Rightarrow> bytes \<Rightarrow>
   opt_world \<Rightarrow> (bool \<times> opt_world) option" where
  "process_option run opt arg w =
     (if \<not> opt_flag opt OPT_PREPASS \<and> prepass (ov w) then Some (True, w)
      else if opt_flag opt OPT_INITONLY \<and> pppd_phase w \<noteq> PHASE_INITIALIZE then Some (False, w)
      else if opt_flag opt OPT_PRIV \<and> \<not> privileged_option (ov w) then Some (False, w)
      else do {
        enabled \<leftarrow> option_enabled opt w;
        if \<not> enabled then Some (False, w)
        else do {
          fixed \<leftarrow> option_fixed opt w;
          if fixed then Some (False, w)
          else do {
            (ok, w) \<leftarrow> process_value run opt arg w;
            if ok then map_option (Pair True) (process_addr2 opt w) else Some (False, w)
          }
        }
      })"

subsection \<open>Parsers\<close>

definition noopt :: "opt_world \<Rightarrow> bool \<times> opt_world" where
  "noopt w =
     (True, w\<lparr>lcp_wantoptions := lcp_zero, lcp_allowoptions := lcp_zero,
              ipcp_wantoptions := ipcp_zero, ipcp_allowoptions := ipcp_zero\<rparr>)"

text \<open>
  \<^verbatim>\<open>strncat\<close> writes a zero after what it appends: with \<^verbatim>\<open>MAXNAMELEN - strlen(hostname)\<close> as the bound that zero
  can land behind the array, which sets \<open>oob\<close>.
\<close>

definition strncat_hostname :: "bytes \<Rightarrow> opt_world \<Rightarrow> opt_world" where
  "strncat_hostname s w =
     (let h = hostname w @ take (MAXNAMELEN - length (hostname w)) s
      in w\<lparr>hostname := h, oob := oob w \<or> length h \<ge> MAXNAMELEN\<rparr>)"

definition setdomain :: "os_env \<Rightarrow> bytes \<Rightarrow> opt_world \<Rightarrow> bool \<times> opt_world" where
  "setdomain os arg w =
     (if \<not> privileged_option (ov w) then (False, w)
      else let w = w\<lparr>hostname := take (MAXNAMELEN - 1) (os_gethostname os)\<rparr>;
               w = (if arg = [] then w
                    else strncat_hostname arg (if hd arg \<noteq> 46 then strncat_hostname [46] w else w))
           in (True, w\<lparr>hostname := take (MAXNAMELEN - 1) (hostname w)\<rparr>))"

text \<open>The constants \<^verbatim>\<open>B2400\<close> to \<^verbatim>\<open>B115200\<close> of \<^verbatim>\<open>termios.h\<close> are \<open>os_speed\<close> of the rate.\<close>

definition setspeed :: "os_env \<Rightarrow> bytes \<Rightarrow> opt_world \<Rightarrow> int \<times> opt_world" where
  "setspeed os arg w =
     (if prepass (ov w) then (1, w)
      else let (spd, ptr) = strtol arg 0
           in if ptr = arg \<or> ptr \<noteq> [] \<or> spd = 0 then (0, w)
              else if spd \<in> {2400, 4800, 9600, 19200, 38400, 57600, 115200}
              then (1, if os_speed os spd \<noteq> 0 then w\<lparr>ov := (ov w)\<lparr>inspeed := os_speed os spd\<rparr>\<rparr> else w)
              else (0, w))"

definition setdevname :: "os_env \<Rightarrow> bytes \<Rightarrow> opt_world \<Rightarrow> int \<times> opt_world" where
  "setdevname os cp w =
     (if cp = [] then (0, w)
      else let dev = [47, 100, 101, 118, 47];
               cp = (if take 5 cp \<noteq> dev then take (MAXPATHLEN - 1) (dev @ cp) else cp)
           in case os_stat os cp of
                Stat_enoent \<Rightarrow> (0, w)
              | Stat_error \<Rightarrow> (- 1, w)
              | Stat_other \<Rightarrow> (- 1, w)
              | Stat_chr \<Rightarrow>
                  if pppd_phase w \<noteq> PHASE_INITIALIZE then (- 1, w)
                  else if devnam_fixed (ov w) then (- 1, w)
                  else if i_priv (devnam_info (ov w)) \<and> \<not> privileged_option (ov w) then (- 1, w)
                  else (1, w\<lparr>ov := (ov w)\<lparr>devnam := take (MAXPATHLEN - 1) cp, default_device := 0,
                           devnam_info := \<lparr>i_priv = privileged_option (ov w),
                                           i_source = option_source (ov w)\<rparr>\<rparr>\<rparr>))"

text \<open>\<^verbatim>\<open>inet_addr\<close>, then \<^verbatim>\<open>gethostbyname\<close>; the flag says which of them gave the address.\<close>

definition host_addr :: "os_env \<Rightarrow> bytes \<Rightarrow> (u32 \<times> bool) option" where
  "host_addr os s =
     (if os_inet_addr os s = - 1 then map_option (\<lambda>a. (a, True)) (os_gethostbyname os s)
      else Some (os_inet_addr os s, False))"

definition setlocaladdr :: "os_env \<Rightarrow> bytes \<Rightarrow> opt_world \<Rightarrow> bool \<times> opt_world" where
  "setlocaladdr os s w =
     (if s = [] then (True, w)
      else case host_addr os s of
             None \<Rightarrow> (False, w)
           | Some (local, _) \<Rightarrow>
               if bad_ip_adrs local then (False, w)
               else (True, if local \<noteq> 0
                           then w\<lparr>ipcp_wantoptions := (ipcp_wantoptions w)\<lparr>ouraddr := local\<rparr>\<rparr> else w))"

definition setremoteaddr :: "os_env \<Rightarrow> bytes \<Rightarrow> opt_world \<Rightarrow> bool \<times> opt_world" where
  "setremoteaddr os s w =
     (if s = [] then (True, w)
      else case host_addr os s of
             None \<Rightarrow> (False, w)
           | Some (remote, by_name) \<Rightarrow>
               (let w = (if by_name \<and> remote_name w = []
                         then w\<lparr>remote_name := take (MAXNAMELEN - 1) s\<rparr> else w)
                in if bad_ip_adrs remote then (False, w)
                   else (True, if remote \<noteq> 0
                               then w\<lparr>ipcp_wantoptions := (ipcp_wantoptions w)\<lparr>hisaddr := remote\<rparr>\<rparr> else w)))"

definition setipaddr :: "os_env \<Rightarrow> bytes \<Rightarrow> opt_world \<Rightarrow> int \<times> opt_world" where
  "setipaddr os arg w =
     (if 58 \<notin> set arg then (0, w)
      else if prepass (ov w) then (1, w)
      else let (ok, w) = setlocaladdr os (takeWhile (\<lambda>c. c \<noteq> 58) arg) w
           in if \<not> ok then (- 1, w)
              else let (ok, w) = setremoteaddr os (tl (dropWhile (\<lambda>c. c \<noteq> 58) arg)) w
                   in (if ok then 1 else - 1, w))"

text \<open>The loop of \<^verbatim>\<open>setnetmask\<close>; addresses are in host byte order, so that \<^verbatim>\<open>htonl\<close> is the identity.\<close>

fun netmask_loop :: "nat \<Rightarrow> bytes \<Rightarrow> u32 \<Rightarrow> u32 \<times> bytes" where
  "netmask_loop n p m =
     (let (b, endp) = strtoul p 0
      in if endp = p then (m, p)
         else if b > 255 then (if n = 3 then (b, endp) else (m, p))
         else let m = m OR push_bit (n * 8) b
              in (case n of
                    0 \<Rightarrow> (m, endp)
                  | Suc k \<Rightarrow> if endp = [] \<or> hd endp \<noteq> 46 then (m, endp)
                             else netmask_loop k (tl endp) m))"

definition setnetmask :: "bytes \<Rightarrow> opt_world \<Rightarrow> bool \<times> opt_world" where
  "setnetmask arg w =
     (let (m, p) = netmask_loop 3 arg 0
      in if p \<noteq> [] \<or> netmask w AND NOT m \<noteq> 0 then (False, w) else (True, w\<lparr>netmask := m\<rparr>))"

definition setxonxoff :: "opt_world \<Rightarrow> bool \<times> opt_world" where
  "setxonxoff w =
     (True, w\<lparr>lcp_wantoptions := (lcp_wantoptions w)\<lparr>asyncmap := asyncmap (lcp_wantoptions w) OR 0x000A0000,
                neg_asyncmap := True\<rparr>,
              ov := (ov w)\<lparr>crtscts := - 2\<rparr>\<rparr>)"

definition setlogfile :: "os_env \<Rightarrow> bytes \<Rightarrow> opt_world \<Rightarrow> bool \<times> opt_world" where
  "setlogfile os arg w =
     (let (fd, eexist) = os_open_excl os arg;
          fd = (if fd < 0 \<and> eexist then os_open_append os arg else fd)
      in if fd < 0 then (False, w)
         else (True, w\<lparr>ov := (ov w)\<lparr>closed := closed (ov w) @
                             (if log_to_file (ov w) \<and> log_to_fd (ov w) \<ge> 0 then [log_to_fd (ov w)] else []),
                           log_to_fd := fd, log_to_file := True\<rparr>\<rparr>))"

text \<open>The loop of \<^verbatim>\<open>setescape\<close>; the flag is \<^verbatim>\<open>ret\<close>.\<close>

function setescape_loop :: "bool \<Rightarrow> bytes \<Rightarrow> opt_world \<Rightarrow> bool \<times> opt_world" where
  "setescape_loop ret p w =
     (if p = [] then (ret, w)
      else let n = fst (strtol p 16); endp = snd (strtol p 16)
           in if endp = p then (False, w)
              else let rest = dropWhile (\<lambda>c. c = 44 \<or> c = 32) endp
                   in if n < 0 \<or> n = 0x5E \<or> n > 0xFF then setescape_loop False rest w
                      else setescape_loop ret rest
                        (w\<lparr>xmit_accm := (xmit_accm w)[nat (n div 32) := xmit_accm w ! nat (n div 32) OR push_bit (nat (n mod 32)) 1]\<rparr>))"
  by pat_completeness auto
termination
proof (relation "measure (\<lambda>(_, p, _). length p)", goal_cases)
  case (2 ret p w x xa xb)
  with strtol_length [of p 16] length_dropWhile_le [of "\<lambda>c. c = 44 \<or> c = 32" "snd (strtol p 16)"]
  show ?case by (simp del: length_dropWhile_le)
next
  case (3 ret p w x xa xb)
  with strtol_length [of p 16] length_dropWhile_le [of "\<lambda>c. c = 44 \<or> c = 32" "snd (strtol p 16)"]
  show ?case by (simp del: length_dropWhile_le)
qed auto

definition setescape :: "bytes \<Rightarrow> opt_world \<Rightarrow> bool \<times> opt_world" where
  "setescape arg w = setescape_loop True arg w"

definition setvjslots :: "bytes \<Rightarrow> opt_world \<Rightarrow> bool \<times> opt_world" where
  "setvjslots arg w =
     (case int_option arg of
        None \<Rightarrow> (False, w)
      | Some value \<Rightarrow>
          if value < 2 \<or> value > 16 then (False, w)
          else (True, w\<lparr>ipcp_wantoptions := (ipcp_wantoptions w)\<lparr>maxslotindex := value - 1\<rparr>,
                        ipcp_allowoptions := (ipcp_allowoptions w)\<lparr>maxslotindex := value - 1\<rparr>\<rparr>))"

text \<open>The primary address is set once, the secondary always.\<close>

definition set_pair :: "u32 \<Rightarrow> u32 \<times> u32 \<Rightarrow> u32 \<times> u32" where
  "set_pair a p = (if fst p = 0 then a else fst p, a)"

definition setdnsaddr :: "os_env \<Rightarrow> bytes \<Rightarrow> opt_world \<Rightarrow> bool \<times> opt_world" where
  "setdnsaddr os arg w =
     (case host_addr os arg of
        None \<Rightarrow> (False, w)
      | Some (dns, _) \<Rightarrow>
          (True, w\<lparr>ipcp_allowoptions := (ipcp_allowoptions w)\<lparr>dnsaddr := set_pair dns (dnsaddr (ipcp_allowoptions w))\<rparr>\<rparr>))"

definition setwinsaddr :: "os_env \<Rightarrow> bytes \<Rightarrow> opt_world \<Rightarrow> bool \<times> opt_world" where
  "setwinsaddr os arg w =
     (case host_addr os arg of
        None \<Rightarrow> (False, w)
      | Some (wins, _) \<Rightarrow>
          (True, w\<lparr>ipcp_allowoptions := (ipcp_allowoptions w)\<lparr>winsaddr := set_pair wins (winsaddr (ipcp_allowoptions w))\<rparr>\<rparr>))"

text \<open>
  What \<^verbatim>\<open>setbsdcomp\<close> and \<^verbatim>\<open>setdeflate\<close> share: one number, or two with a comma between them, each zero or
  within the limits.
\<close>

definition two_numbers :: "bytes \<Rightarrow> (int \<times> int) option" where
  "two_numbers str =
     (let (rbits, endp) = strtol str 0;
          (str, abits, endp) = (if endp \<noteq> str \<and> endp \<noteq> [] \<and> hd endp = 44
                                then (tl endp, strtol (tl endp) 0) else (str, rbits, endp))
      in if endp \<noteq> [] \<or> endp = str then None else Some (rbits, abits))"

definition bits_ok :: "int \<Rightarrow> int \<Rightarrow> int \<Rightarrow> bool" where
  "bits_ok lo hi b \<longleftrightarrow> b = 0 \<or> lo \<le> b \<and> b \<le> hi"

definition set_bsd :: "int \<Rightarrow> ccp_options \<Rightarrow> ccp_options" where
  "set_bsd b opts = (if b > 0 then opts\<lparr>bsd_compress := True, bsd_bits := b\<rparr> else opts\<lparr>bsd_compress := False\<rparr>)"

definition setbsdcomp :: "bytes \<Rightarrow> opt_world \<Rightarrow> bool \<times> opt_world" where
  "setbsdcomp arg w =
     (case two_numbers arg of
        None \<Rightarrow> (False, w)
      | Some (rbits, abits) \<Rightarrow>
          if \<not> bits_ok BSD_MIN_BITS BSD_MAX_BITS rbits \<or> \<not> bits_ok BSD_MIN_BITS BSD_MAX_BITS abits
          then (False, w)
          else (True, w\<lparr>ccp_wantoptions := set_bsd rbits (ccp_wantoptions w),
                        ccp_allowoptions := set_bsd abits (ccp_allowoptions w)\<rparr>))"

definition set_deflate :: "int \<Rightarrow> ccp_options \<Rightarrow> ccp_options" where
  "set_deflate b opts = (if b > 0 then opts\<lparr>deflate := True, deflate_size := b\<rparr> else opts\<lparr>deflate := False\<rparr>)"

definition setdeflate :: "bytes \<Rightarrow> opt_world \<Rightarrow> bool \<times> opt_world" where
  "setdeflate arg w =
     (case two_numbers arg of
        None \<Rightarrow> (False, w)
      | Some (rbits, abits) \<Rightarrow>
          if \<not> bits_ok DEFLATE_MIN_SIZE DEFLATE_MAX_SIZE rbits \<or> \<not> bits_ok DEFLATE_MIN_SIZE DEFLATE_MAX_SIZE abits
          then (False, w)
          else (True, w\<lparr>ccp_wantoptions := set_deflate rbits (ccp_wantoptions w),
                        ccp_allowoptions := set_deflate abits (ccp_allowoptions w)\<rparr>))"

text \<open>The check of \<^verbatim>\<open>callfile\<close>: 46 and 47 are dot and slash.\<close>

fun dotdot :: "bytes \<Rightarrow> bool" where
  "dotdot (a # b # p) \<longleftrightarrow> a = 46 \<and> b = 46 \<and> (p = [] \<or> hd p = 47)"
| "dotdot _ \<longleftrightarrow> False"

function no_dotdot :: "bytes \<Rightarrow> bool" where
  "no_dotdot p =
     (if p = [] then True
      else if dotdot p then False
      else no_dotdot (drop 1 (dropWhile (\<lambda>c. c \<noteq> 47) p)))"
  by pat_completeness auto
termination
proof (relation "measure length", goal_cases)
  case (2 p)
  then show ?case
    using length_dropWhile_le [of "\<lambda>c. c \<noteq> 47" p] by (cases p) (auto simp: less_Suc_eq_le simp del: length_dropWhile_le)
qed simp

declare no_dotdot.simps [simp del] setescape_loop.simps [simp del] netmask_loop.simps [simp del]

definition callname_ok :: "bytes \<Rightarrow> bool" where
  "callname_ok arg \<longleftrightarrow> \<not> (arg = [] \<or> hd arg = 47) \<and> no_dotdot arg"

subsection \<open>Tables\<close>

text \<open>
  Variables of this theory, variables of the other components, fields of a structure, and fields of an
  automaton. The descriptions of the entries are left out.
\<close>

definition vo :: "(opt_vars \<Rightarrow> 'a) \<Rightarrow> (('a \<Rightarrow> 'a) \<Rightarrow> opt_vars \<Rightarrow> opt_vars) \<Rightarrow> (opt_world, 'a) var" where
  "vo get upd = (\<lambda>w. get (ov w), \<lambda>v. ov_update (upd (\<lambda>_. v)))"

definition vw :: "(opt_world \<Rightarrow> 'a) \<Rightarrow> (('a \<Rightarrow> 'a) \<Rightarrow> opt_world \<Rightarrow> opt_world) \<Rightarrow> (opt_world, 'a) var" where
  "vw get upd = (get, \<lambda>v. upd (\<lambda>_. v))"

definition vs ::
  "(opt_world \<Rightarrow> 's) \<Rightarrow> (('s \<Rightarrow> 's) \<Rightarrow> opt_world \<Rightarrow> opt_world) \<Rightarrow> ('s \<Rightarrow> 'a) \<Rightarrow> (('a \<Rightarrow> 'a) \<Rightarrow> 's \<Rightarrow> 's) \<Rightarrow>
   (opt_world, 'a) var" where
  "vs sget supd get upd = (\<lambda>w. get (sget w), \<lambda>v. supd (upd (\<lambda>_. v)))"

definition vf :: "fsm_id \<Rightarrow> (fsm \<Rightarrow> 'a) \<Rightarrow> (('a \<Rightarrow> 'a) \<Rightarrow> fsm \<Rightarrow> fsm) \<Rightarrow> (opt_world, 'a) var" where
  "vf i get upd =
     (\<lambda>w. get (fsms w i), \<lambda>v w. w\<lparr>fsms := (fsms w)(i := upd (\<lambda>_. v) (fsms w i))\<rparr>)"

definition opt_entry ::
  "string \<Rightarrow> opt_type \<Rightarrow> opt_world addr \<Rightarrow> u32 \<Rightarrow> opt_world addr \<Rightarrow> int \<Rightarrow> int \<Rightarrow> opt_world option_t" where
  "opt_entry name type addr flags addr2 upper lower =
     \<lparr>o_name = name, o_type = type, o_addr = addr, o_flags = flags, o_addr2 = addr2,
      o_upper = upper, o_lower = lower\<rparr>"

definition general_options :: "opt_world option_t list" where
  "general_options =
    [opt_entry ''debug'' o_int (A_int (vo debug debug_update)) (OPT_INC OR OPT_NOARG OR 1) A_null 0 0,
     opt_entry ''-d'' o_int (A_int (vo debug debug_update)) (OPT_INC OR OPT_NOARG OR 1) A_null 0 0,
     opt_entry ''kdebug'' o_int (A_int (vo kdebugflag kdebugflag_update)) 0 A_null 0 0,
     opt_entry ''nodetach'' o_bool (A_bool (vo nodetach nodetach_update)) 1 A_null 0 0,
     opt_entry ''-detach'' o_bool (A_bool (vo nodetach nodetach_update)) 1 A_null 0 0,
     opt_entry ''updetach'' o_bool (A_bool (vo updetach updetach_update)) 1 A_null 0 0,
     opt_entry ''holdoff'' o_int (A_int (vw holdoff holdoff_update)) 0 A_null 0 0,
     opt_entry ''idle'' o_int (A_int (vw idle_time_limit idle_time_limit_update)) 0 A_null 0 0,
     opt_entry ''lock'' o_bool (A_bool (vo lockflag lockflag_update)) 1 A_null 0 0,
     opt_entry ''-all'' o_special_noarg (A_parser Noopt) 0 A_null 0 0,
     opt_entry ''init'' o_string
         (A_string (vo initializer initializer_update))
         (OPT_A2INFO OR OPT_PRIVFIX) (A_info (vo initializer_info initializer_info_update)) 0 0,
     opt_entry ''connect'' o_string
         (A_string (vo connect_script connect_script_update))
         (OPT_A2INFO OR OPT_PRIVFIX) (A_info (vo connect_script_info connect_script_info_update)) 0 0,
     opt_entry ''disconnect'' o_string
         (A_string (vo disconnect_script disconnect_script_update))
         (OPT_A2INFO OR OPT_PRIVFIX) (A_info (vo disconnect_script_info disconnect_script_info_update)) 0 0,
     opt_entry ''welcome'' o_string
         (A_string (vo welcomer welcomer_update))
         (OPT_A2INFO OR OPT_PRIVFIX) (A_info (vo welcomer_info welcomer_info_update)) 0 0,
     opt_entry ''pty'' o_string
         (A_string (vo ptycommand ptycommand_update))
         (OPT_A2INFO OR OPT_PRIVFIX OR OPT_DEVNAM) (A_info (vo ptycommand_info ptycommand_info_update)) 0 0,
     opt_entry ''notty'' o_bool (A_bool (vo notty notty_update)) (OPT_DEVNAM OR 1) A_null 0 0,
     opt_entry ''record'' o_string (A_string (vo record_file record_file_update)) 0 A_null 0 0,
     opt_entry ''maxconnect'' o_int
         (A_int (vw maxconnect maxconnect_update)) (OPT_LLIMIT OR OPT_NOINCR OR OPT_ZEROINF) A_null 0 0,
     opt_entry ''crtscts'' o_int (A_int (vo crtscts crtscts_update)) (OPT_NOARG OR OPT_VAL 1) A_null 0 0,
     opt_entry ''nocrtscts'' o_int (A_int (vo crtscts crtscts_update)) (OPT_NOARG OR OPT_VAL (-1)) A_null 0 0,
     opt_entry ''-crtscts'' o_int (A_int (vo crtscts crtscts_update)) (OPT_NOARG OR OPT_VAL (-1)) A_null 0 0,
     opt_entry ''cdtrcts'' o_int (A_int (vo crtscts crtscts_update)) (OPT_NOARG OR OPT_VAL 2) A_null 0 0,
     opt_entry ''nocdtrcts'' o_int (A_int (vo crtscts crtscts_update)) (OPT_NOARG OR OPT_VAL (-1)) A_null 0 0,
     opt_entry ''xonxoff'' o_special_noarg (A_parser Setxonxoff) 0 A_null 0 0,
     opt_entry ''domain'' o_special (A_parser Setdomain) 0 A_null 0 0,
     opt_entry ''mtu'' o_int
         (A_int (vs lcp_allowoptions lcp_allowoptions_update mru mru_update)) OPT_LIMITS A_null MAXMRU MINMRU,
     opt_entry ''netmask'' o_special (A_parser Setnetmask) 0 A_null 0 0,
     opt_entry ''modem'' o_bool (A_bool (vo modem modem_update)) 1 A_null 0 0,
     opt_entry ''local'' o_bool (A_bool (vo modem modem_update)) 0 A_null 0 0,
     opt_entry ''file'' o_special (A_parser Readfile) OPT_PREPASS A_null 0 0,
     opt_entry ''call'' o_special (A_parser Callfile) OPT_PREPASS A_null 0 0,
     opt_entry ''persist'' o_bool (A_bool (vw persist persist_update)) 1 A_null 0 0,
     opt_entry ''nopersist'' o_bool (A_bool (vw persist persist_update)) 0 A_null 0 0,
     opt_entry ''demand'' o_bool
         (A_bool (vw demand demand_update)) (OPT_INITONLY OR 1) (A_bool (vw persist persist_update)) 0 0,
     opt_entry ''sync'' o_bool (A_bool (vo sync_serial sync_serial_update)) 1 A_null 0 0,
     opt_entry ''logfd'' o_int (A_int (vo log_to_fd log_to_fd_update)) 0 A_null 0 0,
     opt_entry ''logfile'' o_special (A_parser Setlogfile) 0 A_null 0 0,
     opt_entry ''nolog'' o_int (A_int (vo log_to_fd log_to_fd_update)) (OPT_NOARG OR OPT_VAL (-1)) A_null 0 0,
     opt_entry ''nologfd'' o_int (A_int (vo log_to_fd log_to_fd_update)) (OPT_NOARG OR OPT_VAL (-1)) A_null 0 0,
     opt_entry ''linkname'' o_string
         (A_chars (int MAXPATHLEN) (vo linkname linkname_update)) (OPT_PRIV OR OPT_STATIC) A_null (int MAXPATHLEN) 0,
     opt_entry ''maxfail'' o_int (A_int (vw maxfail maxfail_update)) 0 A_null 0 0,
     opt_entry ''ktune'' o_bool (A_bool (vo tune_kernel tune_kernel_update)) 1 A_null 0 0,
     opt_entry ''noktune'' o_bool (A_bool (vo tune_kernel tune_kernel_update)) 0 A_null 0 0,
     opt_entry ''connect-delay'' o_int (A_int (vo connect_delay connect_delay_update)) 0 A_null 0 0]"

definition auth_option_list :: "opt_world option_t list" where
  "auth_option_list =
    [opt_entry ''require-pap'' o_bool
         (A_bool (vs lcp_wantoptions lcp_wantoptions_update neg_upap neg_upap_update))
         1 (A_bool (vw auth_required auth_required_update)) 0 0,
     opt_entry ''+pap'' o_bool
         (A_bool (vs lcp_wantoptions lcp_wantoptions_update neg_upap neg_upap_update))
         1 (A_bool (vw auth_required auth_required_update)) 0 0,
     opt_entry ''refuse-pap'' o_bool (A_bool (vw refuse_pap refuse_pap_update)) 1 A_null 0 0,
     opt_entry ''-pap'' o_bool (A_bool (vw refuse_pap refuse_pap_update)) 1 A_null 0 0,
     opt_entry ''require-chap'' o_bool
         (A_bool (vs lcp_wantoptions lcp_wantoptions_update neg_chap neg_chap_update))
         1 (A_bool (vw auth_required auth_required_update)) 0 0,
     opt_entry ''+chap'' o_bool
         (A_bool (vs lcp_wantoptions lcp_wantoptions_update neg_chap neg_chap_update))
         1 (A_bool (vw auth_required auth_required_update)) 0 0,
     opt_entry ''refuse-chap'' o_bool (A_bool (vw refuse_chap refuse_chap_update)) 1 A_null 0 0,
     opt_entry ''-chap'' o_bool (A_bool (vw refuse_chap refuse_chap_update)) 1 A_null 0 0,
     opt_entry ''name'' o_string
         (A_chars (int MAXNAMELEN) (vw our_name our_name_update)) (OPT_PRIV OR OPT_STATIC) A_null (int MAXNAMELEN) 0,
     opt_entry ''user'' o_string
         (A_chars (int MAXNAMELEN) (vw user user_update)) OPT_STATIC A_null (int MAXNAMELEN) 0,
     opt_entry ''usehostname'' o_bool (A_bool (vw usehostname usehostname_update)) 1 A_null 0 0,
     opt_entry ''remotename'' o_string
         (A_chars (int MAXNAMELEN) (vw remote_name remote_name_update))
         OPT_STATIC (A_bool (vw explicit_remote explicit_remote_update)) (int MAXNAMELEN) 0,
     opt_entry ''auth'' o_bool (A_bool (vw auth_required auth_required_update)) 1 A_null 0 0,
     opt_entry ''noauth'' o_bool
         (A_bool (vw auth_required auth_required_update)) OPT_PRIV (A_bool (vw allow_any_ip allow_any_ip_update)) 0 0,
     opt_entry ''login'' o_bool (A_bool (vw uselogin uselogin_update)) 1 A_null 0 0,
     opt_entry ''papcrypt'' o_bool (A_bool (vo cryptpap cryptpap_update)) 1 A_null 0 0,
     opt_entry ''password'' o_string
         (A_chars (int MAXSECRETLEN) (vw passwd passwd_update)) OPT_STATIC A_null (int MAXSECRETLEN) 0]"

definition lcp_option_list :: "opt_world option_t list" where
  "lcp_option_list =
    [opt_entry ''noaccomp'' o_bool
         (A_bool (vs lcp_wantoptions lcp_wantoptions_update neg_accompression neg_accompression_update))
         OPT_A2COPY (A_bool (vs lcp_allowoptions lcp_allowoptions_update neg_accompression neg_accompression_update)) 0 0,
     opt_entry ''-ac'' o_bool
         (A_bool (vs lcp_wantoptions lcp_wantoptions_update neg_accompression neg_accompression_update))
         OPT_A2COPY (A_bool (vs lcp_allowoptions lcp_allowoptions_update neg_accompression neg_accompression_update)) 0 0,
     opt_entry ''default-asyncmap'' o_bool
         (A_bool (vs lcp_wantoptions lcp_wantoptions_update neg_asyncmap neg_asyncmap_update))
         OPT_A2COPY (A_bool (vs lcp_allowoptions lcp_allowoptions_update neg_asyncmap neg_asyncmap_update)) 0 0,
     opt_entry ''-am'' o_bool
         (A_bool (vs lcp_wantoptions lcp_wantoptions_update neg_asyncmap neg_asyncmap_update))
         OPT_A2COPY (A_bool (vs lcp_allowoptions lcp_allowoptions_update neg_asyncmap neg_asyncmap_update)) 0 0,
     opt_entry ''asyncmap'' o_uint32
         (A_uint32 (vs lcp_wantoptions lcp_wantoptions_update asyncmap asyncmap_update))
         OPT_OR (A_bool (vs lcp_wantoptions lcp_wantoptions_update neg_asyncmap neg_asyncmap_update)) 0 0,
     opt_entry ''-as'' o_uint32
         (A_uint32 (vs lcp_wantoptions lcp_wantoptions_update asyncmap asyncmap_update))
         OPT_OR (A_bool (vs lcp_wantoptions lcp_wantoptions_update neg_asyncmap neg_asyncmap_update)) 0 0,
     opt_entry ''nomagic'' o_bool
         (A_bool (vs lcp_wantoptions lcp_wantoptions_update neg_magicnumber neg_magicnumber_update))
         OPT_A2COPY (A_bool (vs lcp_allowoptions lcp_allowoptions_update neg_magicnumber neg_magicnumber_update)) 0 0,
     opt_entry ''-mn'' o_bool
         (A_bool (vs lcp_wantoptions lcp_wantoptions_update neg_magicnumber neg_magicnumber_update))
         OPT_A2COPY (A_bool (vs lcp_allowoptions lcp_allowoptions_update neg_magicnumber neg_magicnumber_update)) 0 0,
     opt_entry ''default-mru'' o_bool
         (A_bool (vs lcp_wantoptions lcp_wantoptions_update neg_mru neg_mru_update))
         OPT_A2COPY (A_bool (vs lcp_allowoptions lcp_allowoptions_update neg_mru neg_mru_update)) 0 0,
     opt_entry ''-mru'' o_bool
         (A_bool (vs lcp_wantoptions lcp_wantoptions_update neg_mru neg_mru_update))
         OPT_A2COPY (A_bool (vs lcp_allowoptions lcp_allowoptions_update neg_mru neg_mru_update)) 0 0,
     opt_entry ''mru'' o_int
         (A_int (vs lcp_wantoptions lcp_wantoptions_update mru mru_update))
         0 (A_bool (vs lcp_wantoptions lcp_wantoptions_update neg_mru neg_mru_update)) 0 0,
     opt_entry ''nopcomp'' o_bool
         (A_bool (vs lcp_wantoptions lcp_wantoptions_update neg_pcompression neg_pcompression_update))
         OPT_A2COPY (A_bool (vs lcp_allowoptions lcp_allowoptions_update neg_pcompression neg_pcompression_update)) 0 0,
     opt_entry ''-pc'' o_bool
         (A_bool (vs lcp_wantoptions lcp_wantoptions_update neg_pcompression neg_pcompression_update))
         OPT_A2COPY (A_bool (vs lcp_allowoptions lcp_allowoptions_update neg_pcompression neg_pcompression_update)) 0 0,
     opt_entry ''-p'' o_bool
         (A_bool (vs lcp_wantoptions lcp_wantoptions_update opt_passive opt_passive_update)) 1 A_null 0 0,
     opt_entry ''passive'' o_bool
         (A_bool (vs lcp_wantoptions lcp_wantoptions_update opt_passive opt_passive_update)) 1 A_null 0 0,
     opt_entry ''silent'' o_bool
         (A_bool (vs lcp_wantoptions lcp_wantoptions_update opt_silent opt_silent_update)) 1 A_null 0 0,
     opt_entry ''escape'' o_special (A_parser Setescape) 0 A_null 0 0,
     opt_entry ''lcp-echo-failure'' o_int (A_int (vw lcp_echo_fails lcp_echo_fails_update)) 0 A_null 0 0,
     opt_entry ''lcp-echo-interval'' o_int (A_int (vw lcp_echo_interval lcp_echo_interval_update)) 0 A_null 0 0,
     opt_entry ''lcp-restart'' o_int (A_int (vf LCP_FSM f_timeouttime f_timeouttime_update)) 0 A_null 0 0,
     opt_entry ''lcp-max-terminate'' o_int
         (A_int (vf LCP_FSM f_maxtermtransmits f_maxtermtransmits_update)) 0 A_null 0 0,
     opt_entry ''lcp-max-configure'' o_int
         (A_int (vf LCP_FSM f_maxconfreqtransmits f_maxconfreqtransmits_update)) 0 A_null 0 0,
     opt_entry ''lcp-max-failure'' o_int (A_int (vf LCP_FSM f_maxnakloops f_maxnakloops_update)) 0 A_null 0 0,
     opt_entry ''receive-all'' o_bool (A_bool (vw lax_recv lax_recv_update)) 1 A_null 0 0]"

definition pap_option_list :: "opt_world option_t list" where
  "pap_option_list =
    [opt_entry ''hide-password'' o_bool (A_bool (vo hide_password hide_password_update)) 1 A_null 0 0,
     opt_entry ''show-password'' o_bool (A_bool (vo hide_password hide_password_update)) 0 A_null 0 0,
     opt_entry ''pap-restart'' o_int (A_int (vs upap upap_update us_timeouttime us_timeouttime_update)) 0 A_null 0 0,
     opt_entry ''pap-max-authreq'' o_int
         (A_int (vs upap upap_update us_maxtransmits us_maxtransmits_update)) 0 A_null 0 0,
     opt_entry ''pap-timeout'' o_int (A_int (vs upap upap_update us_reqtimeout us_reqtimeout_update)) 0 A_null 0 0]"

definition chap_option_list :: "opt_world option_t list" where
  "chap_option_list =
    [opt_entry ''chap-restart'' o_int (A_int (vs chap chap_update cs_timeouttime cs_timeouttime_update)) 0 A_null 0 0,
     opt_entry ''chap-max-challenge'' o_int
         (A_int (vs chap chap_update max_transmits max_transmits_update)) 0 A_null 0 0,
     opt_entry ''chap-interval'' o_int (A_int (vs chap chap_update chal_interval chal_interval_update)) 0 A_null 0 0]"

definition ipcp_option_list :: "opt_world option_t list" where
  "ipcp_option_list =
    [opt_entry ''noip'' o_bool (A_bool (vo ip_enabled ip_enabled_update)) 0 A_null 0 0,
     opt_entry ''-ip'' o_bool (A_bool (vo ip_enabled ip_enabled_update)) 0 A_null 0 0,
     opt_entry ''novj'' o_bool
         (A_bool (vs ipcp_wantoptions ipcp_wantoptions_update neg_vj neg_vj_update))
         OPT_A2COPY (A_bool (vs ipcp_allowoptions ipcp_allowoptions_update neg_vj neg_vj_update)) 0 0,
     opt_entry ''-vj'' o_bool
         (A_bool (vs ipcp_wantoptions ipcp_wantoptions_update neg_vj neg_vj_update))
         OPT_A2COPY (A_bool (vs ipcp_allowoptions ipcp_allowoptions_update neg_vj neg_vj_update)) 0 0,
     opt_entry ''novjccomp'' o_bool
         (A_bool (vs ipcp_wantoptions ipcp_wantoptions_update cflag cflag_update))
         OPT_A2COPY (A_bool (vs ipcp_allowoptions ipcp_allowoptions_update cflag cflag_update)) 0 0,
     opt_entry ''-vjccomp'' o_bool
         (A_bool (vs ipcp_wantoptions ipcp_wantoptions_update cflag cflag_update))
         OPT_A2COPY (A_bool (vs ipcp_allowoptions ipcp_allowoptions_update cflag cflag_update)) 0 0,
     opt_entry ''vj-max-slots'' o_special (A_parser Setvjslots) 0 A_null 0 0,
     opt_entry ''ipcp-accept-local'' o_bool
         (A_bool (vs ipcp_wantoptions ipcp_wantoptions_update accept_local accept_local_update)) 1 A_null 0 0,
     opt_entry ''ipcp-accept-remote'' o_bool
         (A_bool (vs ipcp_wantoptions ipcp_wantoptions_update accept_remote accept_remote_update)) 1 A_null 0 0,
     opt_entry ''ipparam'' o_string (A_string (vo ipparam ipparam_update)) 0 A_null 0 0,
     opt_entry ''noipdefault'' o_bool (A_bool (vw disable_defaultip disable_defaultip_update)) 1 A_null 0 0,
     opt_entry ''ms-dns'' o_special (A_parser Setdnsaddr) 0 A_null 0 0,
     opt_entry ''ms-wins'' o_special (A_parser Setwinsaddr) 0 A_null 0 0,
     opt_entry ''ipcp-restart'' o_int (A_int (vf IPCP_FSM f_timeouttime f_timeouttime_update)) 0 A_null 0 0,
     opt_entry ''ipcp-max-terminate'' o_int
         (A_int (vf IPCP_FSM f_maxtermtransmits f_maxtermtransmits_update)) 0 A_null 0 0,
     opt_entry ''ipcp-max-configure'' o_int
         (A_int (vf IPCP_FSM f_maxconfreqtransmits f_maxconfreqtransmits_update)) 0 A_null 0 0,
     opt_entry ''ipcp-max-failure'' o_int (A_int (vf IPCP_FSM f_maxnakloops f_maxnakloops_update)) 0 A_null 0 0,
     opt_entry ''defaultroute'' o_bool
         (A_bool (vs ipcp_wantoptions ipcp_wantoptions_update default_route default_route_update))
         (OPT_ENABLE OR 1) (A_bool (vs ipcp_allowoptions ipcp_allowoptions_update default_route default_route_update)) 0 0,
     opt_entry ''nodefaultroute'' o_bool
         (A_bool (vs ipcp_allowoptions ipcp_allowoptions_update default_route default_route_update))
         OPT_A2COPY (A_bool (vs ipcp_wantoptions ipcp_wantoptions_update default_route default_route_update)) 0 0,
     opt_entry ''-defaultroute'' o_bool
         (A_bool (vs ipcp_allowoptions ipcp_allowoptions_update default_route default_route_update))
         OPT_A2COPY (A_bool (vs ipcp_wantoptions ipcp_wantoptions_update default_route default_route_update)) 0 0,
     opt_entry ''proxyarp'' o_bool
         (A_bool (vs ipcp_wantoptions ipcp_wantoptions_update proxy_arp proxy_arp_update))
         (OPT_ENABLE OR 1) (A_bool (vs ipcp_allowoptions ipcp_allowoptions_update proxy_arp proxy_arp_update)) 0 0,
     opt_entry ''noproxyarp'' o_bool
         (A_bool (vs ipcp_allowoptions ipcp_allowoptions_update proxy_arp proxy_arp_update))
         OPT_A2COPY (A_bool (vs ipcp_wantoptions ipcp_wantoptions_update proxy_arp proxy_arp_update)) 0 0,
     opt_entry ''-proxyarp'' o_bool
         (A_bool (vs ipcp_allowoptions ipcp_allowoptions_update proxy_arp proxy_arp_update))
         OPT_A2COPY (A_bool (vs ipcp_wantoptions ipcp_wantoptions_update proxy_arp proxy_arp_update)) 0 0,
     opt_entry ''usepeerdns'' o_bool (A_bool (vw usepeerdns usepeerdns_update)) 1 A_null 0 0]"

definition ccp_option_list :: "opt_world option_t list" where
  "ccp_option_list =
    [opt_entry ''noccp'' o_bool (A_bool (vo ccp_enabled ccp_enabled_update)) 0 A_null 0 0,
     opt_entry ''-ccp'' o_bool (A_bool (vo ccp_enabled ccp_enabled_update)) 0 A_null 0 0,
     opt_entry ''bsdcomp'' o_special (A_parser Setbsdcomp) 0 A_null 0 0,
     opt_entry ''nobsdcomp'' o_bool
         (A_bool (vs ccp_wantoptions ccp_wantoptions_update bsd_compress bsd_compress_update))
         OPT_A2COPY (A_bool (vs ccp_allowoptions ccp_allowoptions_update bsd_compress bsd_compress_update)) 0 0,
     opt_entry ''-bsdcomp'' o_bool
         (A_bool (vs ccp_wantoptions ccp_wantoptions_update bsd_compress bsd_compress_update))
         OPT_A2COPY (A_bool (vs ccp_allowoptions ccp_allowoptions_update bsd_compress bsd_compress_update)) 0 0,
     opt_entry ''deflate'' o_special (A_parser Setdeflate) 0 A_null 0 0,
     opt_entry ''nodeflate'' o_bool
         (A_bool (vs ccp_wantoptions ccp_wantoptions_update deflate deflate_update))
         OPT_A2COPY (A_bool (vs ccp_allowoptions ccp_allowoptions_update deflate deflate_update)) 0 0,
     opt_entry ''-deflate'' o_bool
         (A_bool (vs ccp_wantoptions ccp_wantoptions_update deflate deflate_update))
         OPT_A2COPY (A_bool (vs ccp_allowoptions ccp_allowoptions_update deflate deflate_update)) 0 0,
     opt_entry ''nodeflatedraft'' o_bool
         (A_bool (vs ccp_wantoptions ccp_wantoptions_update deflate_draft deflate_draft_update))
         OPT_A2COPY (A_bool (vs ccp_allowoptions ccp_allowoptions_update deflate_draft deflate_draft_update)) 0 0,
     opt_entry ''predictor1'' o_bool
         (A_bool (vs ccp_wantoptions ccp_wantoptions_update predictor_1 predictor_1_update))
         1 (A_bool (vs ccp_allowoptions ccp_allowoptions_update predictor_1 predictor_1_update)) 0 0,
     opt_entry ''nopredictor1'' o_bool
         (A_bool (vs ccp_wantoptions ccp_wantoptions_update predictor_1 predictor_1_update))
         OPT_A2COPY (A_bool (vs ccp_allowoptions ccp_allowoptions_update predictor_1 predictor_1_update)) 0 0,
     opt_entry ''-predictor1'' o_bool
         (A_bool (vs ccp_wantoptions ccp_wantoptions_update predictor_1 predictor_1_update))
         OPT_A2COPY (A_bool (vs ccp_allowoptions ccp_allowoptions_update predictor_1 predictor_1_update)) 0 0]"

text \<open>\<open>extra\<close> holds the tables that \<^verbatim>\<open>add_options\<close> was given, the last one first.\<close>

definition add_options :: "opt_world option_t list \<Rightarrow> opt_world option_t list list \<Rightarrow> opt_world option_t list list" where
  "add_options opt extra = opt # extra"

definition all_options :: "opt_world option_t list" where
  "all_options =
     general_options @ auth_option_list @ lcp_option_list @ pap_option_list @ chap_option_list @
     ipcp_option_list @ ccp_option_list"

definition find_option :: "opt_world option_t list list \<Rightarrow> bytes \<Rightarrow> opt_world option_t option" where
  "find_option extra name = find (\<lambda>opt. ascii (o_name opt) = name) (concat extra @ all_options)"

subsection \<open>Lists and files of options\<close>

text \<open>A device name, a speed or an address pair: the last of the three results.\<close>

definition positional :: "os_env \<Rightarrow> bytes \<Rightarrow> opt_world \<Rightarrow> int \<times> opt_world" where
  "positional os arg w =
     (let (i, w) = setdevname os arg w
      in if i \<noteq> 0 then (i, w)
         else let (i, w) = setspeed os arg w
              in if i \<noteq> 0 then (i, w) else setipaddr os arg w)"

text \<open>
  The loops take the three functions that they call: the lookup, \<^verbatim>\<open>process_option\<close> and what is done with
  a word that is no option. First the loop of \<^verbatim>\<open>options_from_list\<close>.
\<close>

fun list_loop ::
  "(bytes \<Rightarrow> opt_world option_t option) \<Rightarrow>
   (opt_world option_t \<Rightarrow> bytes \<Rightarrow> opt_world \<Rightarrow> (bool \<times> opt_world) option) \<Rightarrow>
   (bytes \<Rightarrow> opt_world \<Rightarrow> int \<times> opt_world) \<Rightarrow> bytes list \<Rightarrow> opt_world \<Rightarrow> (bool \<times> opt_world) option" where
  "list_loop look proc pos [] w = Some (True, w)"
| "list_loop look proc pos (word # ws) w =
     (case look word of
        Some opt \<Rightarrow>
          (if n_arguments opt = 0
           then do { (ok, w) \<leftarrow> proc opt [] w; if ok then list_loop look proc pos ws w else Some (False, w) }
           else (case ws of
                   [] \<Rightarrow> Some (False, w)
                 | arg # ws' \<Rightarrow>
                     do { (ok, w) \<leftarrow> proc opt arg w; if ok then list_loop look proc pos ws' w else Some (False, w) }))
      | None \<Rightarrow>
          (let (i, w) = pos word w
           in if i \<le> 0 then Some (False, w) else list_loop look proc pos ws w))"

definition note_died :: "word_result \<Rightarrow> opt_world \<Rightarrow> opt_world" where
  "note_died g w = (if g_died g then w\<lparr>ov := (ov w)\<lparr>died := died (ov w) + 1\<rparr>\<rparr> else w)"

text \<open>The loop of \<^verbatim>\<open>options_from_file\<close>.\<close>

function file_loop ::
  "(bytes \<Rightarrow> opt_world option_t option) \<Rightarrow>
   (opt_world option_t \<Rightarrow> bytes \<Rightarrow> opt_world \<Rightarrow> (bool \<times> opt_world) option) \<Rightarrow>
   (bytes \<Rightarrow> opt_world \<Rightarrow> int \<times> opt_world) \<Rightarrow> bool \<Rightarrow> bytes \<Rightarrow> opt_world \<Rightarrow> (bool \<times> opt_world) option" where
  "file_loop look proc pos err f w =
     (let g = getword err f; w = note_died g w; cmd = c_string (g_word g)
      in if \<not> g_ret g then Some (True, w)
         else case look cmd of
           Some opt \<Rightarrow>
             (if n_arguments opt = 0 then
                (if opt_flag opt OPT_DEVEQUIV \<and> devnam_fixed (ov w) then Some (False, w)
                 else do { (ok, w) \<leftarrow> proc opt [] w;
                           if ok then file_loop look proc pos err (g_rest g) w else Some (False, w) })
              else
                (let a = getword err (g_rest g); w = note_died a w
                 in if \<not> g_ret a then Some (False, w)
                    else if opt_flag opt OPT_DEVEQUIV \<and> devnam_fixed (ov w) then Some (False, w)
                    else do { (ok, w) \<leftarrow> proc opt (c_string (g_word a)) w;
                              if ok then file_loop look proc pos err (g_rest a) w else Some (False, w) }))
         | None \<Rightarrow>
             (let (i, w) = pos cmd w
              in if i \<le> 0 then Some (False, w) else file_loop look proc pos err (g_rest g) w))"
  by pat_completeness auto
termination
  by (relation "measure (\<lambda>(_, _, _, _, f, _). length f)")
    (auto intro: getword_decreases less_trans)

declare file_loop.simps [simp del]

text \<open>The table of the parsers; \<open>from_file\<close> is \<^verbatim>\<open>options_from_file\<close> with \<^verbatim>\<open>must_exist\<close> set.\<close>

definition PEERFILES :: bytes where
  "PEERFILES = ascii ''/etc/ppp/peers/''"

definition callfile ::
  "(bytes \<Rightarrow> bool \<Rightarrow> opt_world \<Rightarrow> (bool \<times> opt_world) option) \<Rightarrow> bytes \<Rightarrow> opt_world \<Rightarrow>
   (bool \<times> opt_world) option" where
  "callfile from_file arg w =
     (if \<not> callname_ok arg then Some (False, w) else from_file (PEERFILES @ arg) True w)"

definition run_parser ::
  "os_env \<Rightarrow> (bytes \<Rightarrow> bool \<Rightarrow> opt_world \<Rightarrow> (bool \<times> opt_world) option) \<Rightarrow> parser \<Rightarrow> bytes \<Rightarrow> opt_world \<Rightarrow>
   (bool \<times> opt_world) option" where
  "run_parser os from_file p arg w =
     (case p of
        Noopt \<Rightarrow> Some (noopt w)
      | Setxonxoff \<Rightarrow> Some (setxonxoff w)
      | Setdomain \<Rightarrow> Some (setdomain os arg w)
      | Setnetmask \<Rightarrow> Some (setnetmask arg w)
      | Readfile \<Rightarrow> from_file arg (privileged_option (ov w)) w
      | Callfile \<Rightarrow> callfile from_file arg w
      | Setlogfile \<Rightarrow> Some (setlogfile os arg w)
      | Setescape \<Rightarrow> Some (setescape arg w)
      | Setvjslots \<Rightarrow> Some (setvjslots arg w)
      | Setdnsaddr \<Rightarrow> Some (setdnsaddr os arg w)
      | Setwinsaddr \<Rightarrow> Some (setwinsaddr os arg w)
      | Setbsdcomp \<Rightarrow> Some (setbsdcomp arg w)
      | Setdeflate \<Rightarrow> Some (setdeflate arg w))"

definition restore_source :: "opt_world \<Rightarrow> opt_world \<Rightarrow> opt_world" where
  "restore_source old w =
     w\<lparr>ov := (ov w)\<lparr>privileged_option := privileged_option (ov old), option_source := option_source (ov old)\<rparr>\<rparr>"

fun options_from_file ::
  "os_env \<Rightarrow> opt_world option_t list list \<Rightarrow> nat \<Rightarrow> bytes \<Rightarrow> bool \<Rightarrow> bool \<Rightarrow> opt_world \<Rightarrow>
   (bool \<times> opt_world) option" where
  "options_from_file os extra 0 filename must_exist priv w = Some (False, w)"
| "options_from_file os extra (Suc n) filename must_exist priv w =
     (case os_fopen os filename of
        Fopen_enoent \<Rightarrow> Some (\<not> must_exist, w)
      | Fopen_error \<Rightarrow> Some (False, w)
      | File f err \<Rightarrow>
          do { (ret, w') \<leftarrow>
                 file_loop (find_option extra)
                   (process_option (run_parser os (\<lambda>name. options_from_file os extra n name True)))
                   (positional os) err f
                   (w\<lparr>ov := (ov w)\<lparr>privileged_option := priv, option_source := filename\<rparr>\<rparr>);
               Some (ret, restore_source w w') })"

definition options_from_list ::
  "os_env \<Rightarrow> opt_world option_t list list \<Rightarrow> nat \<Rightarrow> bytes list \<Rightarrow> bool \<Rightarrow> opt_world \<Rightarrow>
   (bool \<times> opt_world) option" where
  "options_from_list os extra n ws priv w =
     list_loop (find_option extra)
       (process_option (run_parser os (\<lambda>name. options_from_file os extra n name True)))
       (positional os) ws
       (w\<lparr>ov := (ov w)\<lparr>privileged_option := priv, option_source := ascii ''secrets file''\<rparr>\<rparr>)"

text \<open>\<^verbatim>\<open>options_for_tty\<close>: the file of the device, with the slashes of its name turned into dots.\<close>

definition tty_options_file :: "bytes \<Rightarrow> bytes option" where
  "tty_options_file dev =
     (let dev = (if take 5 dev = [47, 100, 101, 118, 47] then drop 5 dev else dev)
      in if dev = [] \<or> dev = ascii ''tty'' then None
         else Some (ascii ''/etc/ppp/options.'' @ map (\<lambda>c. if c = 47 then 46 else c) dev))"

definition options_for_tty ::
  "os_env \<Rightarrow> opt_world option_t list list \<Rightarrow> nat \<Rightarrow> opt_world \<Rightarrow> (bool \<times> opt_world) option" where
  "options_for_tty os extra n w =
     (case tty_options_file (devnam (ov w)) of
        None \<Rightarrow> Some (True, w)
      | Some path \<Rightarrow> options_from_file os extra n path False True w)"

text \<open>
  \<^verbatim>\<open>rtems_pppd_set_option\<close>: \<open>None\<close> is a null pointer. The phase is set for the time of the call.
\<close>

definition rtems_pppd_set_option ::
  "os_env \<Rightarrow> opt_world option_t list list \<Rightarrow> nat \<Rightarrow> bytes option \<Rightarrow> bytes option \<Rightarrow> opt_world \<Rightarrow>
   (bool \<times> opt_world) option" where
  "rtems_pppd_set_option os extra n option_name value w =
     (case option_name of
        None \<Rightarrow> Some (False, w)
      | Some name \<Rightarrow>
          do { (ret, w') \<leftarrow>
                 options_from_list os extra n (name # (case value of None \<Rightarrow> [] | Some v \<Rightarrow> [v])) True
                   (w\<lparr>pppd_phase := PHASE_INITIALIZE\<rparr>);
               Some (ret, w'\<lparr>pppd_phase := pppd_phase w\<rparr>) })"

text \<open>The loop of \<^verbatim>\<open>parse_args\<close>: before the device is known an unknown word is no error.\<close>

definition parse_args ::
  "os_env \<Rightarrow> opt_world option_t list list \<Rightarrow> nat \<Rightarrow> bytes list \<Rightarrow> opt_world \<Rightarrow> (bool \<times> opt_world) option" where
  "parse_args os extra n argv w =
     list_loop (find_option extra)
       (process_option (run_parser os (\<lambda>name. options_from_file os extra n name True)))
       (\<lambda>arg w. let (i, w) = positional os arg w in (if i = 0 \<and> prepass (ov w) then 1 else i, w)) argv
       (w\<lparr>ov := (ov w)\<lparr>privileged_option := privileged w, option_source := ascii ''command line''\<rparr>\<rparr>)"

end
