(* ===== verification/Options_Inv.thy ===== *)
theory Options_Inv
  imports Options
begin

text \<open>
  What holds of every list and every file of options, however files name each other. \<open>option_ok\<close> is the
  typing of a table entry: the variable has the type that the entry gives it, and \<^verbatim>\<open>addr2\<close> points to what
  the flags make of it. Entries that are well typed are processed without a bad cast. The locale
  \<open>option_observer\<close> carries what a view of the state needs so that no option changes it.
\<close>

section \<open>Definitions\<close>

definition addr_ok :: "'w option_t \<Rightarrow> bool" where
  "addr_ok opt =
     (case (o_type opt, o_addr opt) of
        (o_bool, A_bool _) \<Rightarrow> True
      | (o_int, A_int _) \<Rightarrow> True
      | (o_uint32, A_uint32 _) \<Rightarrow> True
      | (o_string, A_chars n _) \<Rightarrow> opt_flag opt OPT_STATIC \<and> 0 < o_upper opt \<and> o_upper opt \<le> n
      | (o_string, A_string _) \<Rightarrow> \<not> opt_flag opt OPT_STATIC
      | (o_special_noarg, A_parser _) \<Rightarrow> True
      | (o_special, A_parser _) \<Rightarrow> True
      | _ \<Rightarrow> False)"

definition addr2_ok :: "'w option_t \<Rightarrow> bool" where
  "addr2_ok opt =
     (case o_addr2 opt of
        A_null \<Rightarrow> \<not> opt_flag opt OPT_ENABLE
      | A_bool _ \<Rightarrow> \<not> opt_flag opt OPT_PRIVFIX \<and> \<not> opt_flag opt OPT_A2INFO \<and>
                   (opt_flag opt OPT_A2COPY \<longrightarrow> o_type opt \<notin> {o_int, o_uint32})
      | A_info _ \<Rightarrow> opt_flag opt OPT_A2INFO \<and> \<not> opt_flag opt OPT_ENABLE \<and>
                   \<not> opt_flag opt OPT_A2COPY
      | _ \<Rightarrow> False)"

definition option_ok :: "'w option_t \<Rightarrow> bool" where
  "option_ok opt \<longleftrightarrow> addr_ok opt \<and> addr2_ok opt"

text \<open>
  Writing the variable leads to a state that is related to the one before; \<open>vals\<close> are the truth values that
  may be written.
\<close>

fun addr_keeps :: "('w \<Rightarrow> 'w \<Rightarrow> bool) \<Rightarrow> bool set \<Rightarrow> 'w addr \<Rightarrow> bool" where
  "addr_keeps rel vals A_null \<longleftrightarrow> True"
| "addr_keeps rel vals (A_bool x) \<longleftrightarrow> (\<forall>v\<in>vals. \<forall>w. rel w (snd x v w))"
| "addr_keeps rel vals (A_int x) \<longleftrightarrow> (\<forall>v w. rel w (snd x v w))"
| "addr_keeps rel vals (A_uint32 x) \<longleftrightarrow> (\<forall>v w. rel w (snd x v w))"
| "addr_keeps rel vals (A_chars n x) \<longleftrightarrow> (\<forall>v w. rel w (snd x v w))"
| "addr_keeps rel vals (A_string x) \<longleftrightarrow> (\<forall>v w. rel w (snd x v w))"
| "addr_keeps rel vals (A_info x) \<longleftrightarrow> (\<forall>v w. rel w (snd x v w))"
| "addr_keeps rel vals (A_parser p) \<longleftrightarrow> True"

definition bool_value :: "'w option_t \<Rightarrow> bool" where
  "bool_value opt \<longleftrightarrow> o_flags opt AND OPT_VALUE \<noteq> 0"

definition option_keeps :: "('w \<Rightarrow> 'w \<Rightarrow> bool) \<Rightarrow> 'w option_t \<Rightarrow> bool" where
  "option_keeps rel opt \<longleftrightarrow>
     addr_keeps rel {bool_value opt} (o_addr opt) \<and>
     addr_keeps rel {if opt_flag opt OPT_A2COPY then bool_value opt else True} (o_addr2 opt)"

section \<open>Reading options\<close>

text \<open>
  The interface of the reader: \<open>good w r\<close> is a property of the result \<open>r\<close> of a call in the state \<open>w\<close>. What
  holds of the single options and words, and is kept by doing one after the other, holds of lists and files.
\<close>

locale option_reader =
  fixes good :: "opt_world \<Rightarrow> (bool \<times> opt_world) option \<Rightarrow> bool"
  assumes good_same: "good w (Some (b, w))"
    and good_seq: "good w (Some (b, v)) \<Longrightarrow> good v r \<Longrightarrow> good w r"
    and good_option: "opt \<in> set all_options \<Longrightarrow> (\<And>p a w. good w (run p a w)) \<Longrightarrow>
      good w (process_option run opt arg w)"
    and good_parser: "p \<noteq> Readfile \<Longrightarrow> p \<noteq> Callfile \<Longrightarrow> good w (run_parser os from_file p arg w)"
    and good_positional: "good w (Some (b, snd (positional os arg w)))"
    and good_source: "good w (Some (b, w\<lparr>ov := (ov w)\<lparr>privileged_option := priv, option_source := source\<rparr>\<rparr>))"
    and good_died: "good w (Some (b, note_died g w))"
begin

lemma good_bind: "good w r \<Longrightarrow> (\<And>ok v. good v (k (ok, v))) \<Longrightarrow> good w (r \<bind> k)"
  by (cases r) (auto intro: good_seq)

lemma list_loop_good:
  assumes "\<And>name opt a w. look name = Some opt \<Longrightarrow> good w (proc opt a w)"
    and "\<And>a w b. good w (Some (b, snd (pos a w)))"
  shows "good w (list_loop look proc pos ws w)"
proof (induction "length ws" arbitrary: ws w rule: less_induct)
  case less
  show ?case
  proof (cases ws)
    case (Cons word ws')
    have rest: "good w (list_loop look proc pos us w)" if "length us \<le> length ws'" for us w
      using less that Cons by simp
    have step: "good w (do { (ok, w) \<leftarrow> proc opt a w; if ok then list_loop look proc pos us w else Some (False, w) })"
      if "look word = Some opt" "length us \<le> length ws'" for opt a us w
      using that by (intro good_bind) (auto simp: assms good_same rest)
    have other: "good w (let (i, w) = pos word w in if i \<le> 0 then Some (False, w) else list_loop look proc pos ws' w)"
      using good_seq [OF assms(2) rest] assms(2) by (simp add: case_prod_unfold Let_def)
    show ?thesis
      using step other Cons by (auto simp: good_same split: option.split list.split)
  qed (simp add: good_same)
qed

lemma file_loop_good:
  assumes "\<And>name opt a w. look name = Some opt \<Longrightarrow> good w (proc opt a w)"
    and "\<And>a w b. good w (Some (b, snd (pos a w)))"
  shows "good w (file_loop look proc pos err f w)"
proof (induction "length f" arbitrary: f w rule: less_induct)
  case less
  define g where "g = getword err f"
  define a where "a = getword err (g_rest g)"
  have step: "good w (do { (ok, w) \<leftarrow> proc opt x w; if ok then file_loop look proc pos err f' w else Some (False, w) })"
    if "look cmd = Some opt" "length f' < length f" for cmd opt x f' w
    using that less by (intro good_bind) (auto simp: assms good_same)
  have other: "good w (let (i, w) = pos cmd w in if i \<le> 0 then Some (False, w) else file_loop look proc pos err (g_rest g) w)"
    if "g_ret g" for cmd w
  proof -
    have "good v (file_loop look proc pos err (g_rest g) v)" for v
      using less getword_decreases [of err f] that by (simp add: g_def)
    from good_seq [OF assms(2) this, of w] assms(2) show ?thesis
      by (auto simp: case_prod_unfold Let_def)
  qed
  have died: "good w r" if "good (note_died h w) r" for h r w
    using good_seq [OF good_died that] .
  have len: "length (g_rest g) < length f" if "g_ret g"
    using getword_decreases [of err f] that by (simp add: g_def)
  have len2: "length (g_rest a) < length f" if "g_ret g" "g_ret a"
    using getword_decreases [of err "g_rest g"] len that by (simp add: a_def)
  have arg: "good w (let w = note_died a w in if \<not> g_ret a then Some (False, w)
      else if opt_flag opt OPT_DEVEQUIV \<and> devnam_fixed (ov w) then Some (False, w)
      else do { (ok, w) \<leftarrow> proc opt (c_string (g_word a)) w;
                if ok then file_loop look proc pos err (g_rest a) w else Some (False, w) })"
    if "g_ret g" "look cmd = Some opt" for cmd opt w
    unfolding Let_def by (rule died [of a]) (simp add: good_same step [OF that(2)] len2 [OF that(1)])
  show ?case
    by (subst file_loop.simps, simp only: Let_def g_def [symmetric] a_def [symmetric], rule died [of g])
      (use step len other [unfolded Let_def] arg [unfolded Let_def] in \<open>auto simp: good_same split: option.split\<close>)
qed

lemma run_parser_good:
  assumes "\<And>name priv w. good w (from_file name priv w)"
  shows "good w (run_parser os from_file p arg w)"
proof (cases "p = Readfile \<or> p = Callfile")
  case True
  then show ?thesis using assms by (auto simp: run_parser_def callfile_def good_same)
qed (simp add: good_parser)

lemma known_good:
  assumes "\<And>name priv w. good w (from_file name priv w)" and "find_option [] name = Some opt"
  shows "good w (process_option (run_parser os from_file) opt arg w)"
  using assms by (intro good_option run_parser_good) (auto simp: find_option_def find_Some_iff)

lemma options_from_file_good: "good w (options_from_file os [] n name must_exist priv w)"
proof (induction n arbitrary: name must_exist priv w)
  case (Suc n)
  show ?case
  proof (cases "os_fopen os name")
    case (File f err)
    have "good v (file_loop (find_option []) (process_option (run_parser os (\<lambda>name. options_from_file os [] n name True)))
        (positional os) err f v)" for v
      by (rule file_loop_good) (auto intro: known_good Suc good_positional)
    from good_seq [OF good_source this] have "good w
        (file_loop (find_option []) (process_option (run_parser os (\<lambda>name. options_from_file os [] n name True)))
          (positional os) err f (w\<lparr>ov := (ov w)\<lparr>privileged_option := priv, option_source := name\<rparr>\<rparr>))" .
    with File show ?thesis
      by (auto simp: restore_source_def intro!: good_bind good_source)
  qed (simp_all add: good_same)
qed (simp add: good_same)

lemma options_from_list_good: "good w (options_from_list os [] n ws priv w)"
  unfolding options_from_list_def
  by (rule good_seq [OF good_source], rule list_loop_good)
    (auto intro: known_good options_from_file_good good_positional)

end

section \<open>Typing\<close>

lemmas table_defs = general_options_def auth_option_list_def lcp_option_list_def pap_option_list_def
  chap_option_list_def ipcp_option_list_def ccp_option_list_def opt_entry_def

lemmas opt_consts = OPT_VALUE_def OPT_NOARG_def OPT_OR_def OPT_INC_def OPT_PRIV_def OPT_STATIC_def OPT_LLIMIT_def
  OPT_ULIMIT_def OPT_LIMITS_def OPT_ZEROOK_def OPT_NOINCR_def OPT_ZEROINF_def OPT_A2INFO_def OPT_A2COPY_def
  OPT_ENABLE_def OPT_PRIVFIX_def OPT_PREPASS_def OPT_INITONLY_def OPT_DEVEQUIV_def OPT_DEVNAM_def OPT_VAL_def
  opt_flag_def

lemma all_options_ok: "opt \<in> set all_options \<Longrightarrow> option_ok opt"
proof -
  have "list_all option_ok t"
    if "t \<in> {general_options, auth_option_list, lcp_option_list, pap_option_list, chap_option_list,
             ipcp_option_list, ccp_option_list}" for t
    using that by (auto simp: table_defs option_ok_def addr_ok_def addr2_ok_def opt_consts ppp_consts)
  then show "opt \<in> set all_options \<Longrightarrow> option_ok opt"
    by (auto simp: all_options_def list_all_iff)
qed

lemma opt_flag_or: "opt_flag opt (f OR g) \<longleftrightarrow> opt_flag opt f \<or> opt_flag opt g"
  by (auto simp: opt_flag_def bit.conj_disj_distrib bit_eq_iff bit_or_iff)

lemma process_value_typed:
  assumes "option_ok opt" and "\<And>p a w. run p a w \<noteq> None"
  shows "process_value run opt arg w \<noteq> None"
  using assms
  by (auto simp: process_value_def option_ok_def addr_ok_def addr2_ok_def process_int_def process_uint32_def copy_bool_def
      copy_int_def copy_uint32_def Let_def split: opt_type.splits addr.splits option.splits)

lemma process_option_typed:
  assumes "option_ok opt" and "\<And>p a w. run p a w \<noteq> None"
  shows "process_option run opt arg w \<noteq> None"
proof -
  have "option_enabled opt w \<noteq> None" "option_fixed opt w \<noteq> None"
    using assms(1) by (auto simp: option_ok_def addr2_ok_def option_enabled_def option_fixed_def split: addr.splits)
  moreover have "process_addr2 opt v \<noteq> None" for v
    using assms(1) by (auto simp: option_ok_def addr2_ok_def process_addr2_def opt_flag_or split: addr.splits)
  ultimately obtain en fx where e: "option_enabled opt w = Some en" "option_fixed opt w = Some fx"
    and a: "\<And>v. \<exists>u. process_addr2 opt v = Some u" by auto
  obtain ok v where v: "process_value run opt arg w = Some (ok, v)"
    using process_value_typed [of opt run arg w] assms by auto
  from e v a [of v] show ?thesis
    by (auto simp: process_option_def)
qed

interpretation typed: option_reader "\<lambda>w r. r \<noteq> None"
  by unfold_locales (auto simp: all_options_ok process_option_typed run_parser_def split: parser.split)

section \<open>What no option changes\<close>

locale option_observer =
  fixes rel :: "opt_world \<Rightarrow> opt_world \<Rightarrow> bool"
  assumes ob_refl: "rel w w"
    and ob_trans: "rel u v \<Longrightarrow> rel v w \<Longrightarrow> rel u w"
    and ob_entry: "opt \<in> set all_options \<Longrightarrow> option_keeps rel opt"
    and ob_parser: "p \<noteq> Readfile \<Longrightarrow> p \<noteq> Callfile \<Longrightarrow> run_parser os from_file p arg w = Some (ok, w') \<Longrightarrow> rel w w'"
    and ob_positional: "rel w (snd (positional os arg w))"
    and ob_source: "rel w (w\<lparr>ov := (ov w)\<lparr>privileged_option := priv, option_source := source\<rparr>\<rparr>)"
    and ob_died: "rel w (note_died g w)"
begin

lemma copy_keeps:
  assumes "opt \<in> set all_options"
  shows "copy_bool opt (bool_value opt) w = Some w' \<Longrightarrow> rel w w'"
    and "copy_int opt i w = Some w' \<Longrightarrow> rel w w'"
    and "copy_uint32 opt u w = Some w' \<Longrightarrow> rel w w'"
  using ob_entry [OF assms] ob_refl
  by (auto simp: option_keeps_def copy_bool_def copy_int_def copy_uint32_def split: if_splits addr.splits)

lemma process_number_keeps:
  assumes opt: "opt \<in> set all_options"
  shows "process_int opt x arg w = Some (ok, w') \<Longrightarrow> \<forall>v w. rel w (snd x v w) \<Longrightarrow> rel w w'"
    and "process_uint32 opt y arg w = Some (ok, w') \<Longrightarrow> \<forall>v w. rel w (snd y v w) \<Longrightarrow> rel w w'"
proof -
  assume "process_int opt x arg w = Some (ok, w')" and x: "\<forall>v w. rel w (snd x v w)"
  then have "w' = w \<or> (\<exists>v. copy_int opt v (snd x v w) = Some w')"
    by (auto simp: process_int_def Let_def split: option.splits if_splits)
  then show "rel w w'"
    using x ob_refl by (blast dest: copy_keeps [OF opt] intro: ob_trans)
next
  assume "process_uint32 opt y arg w = Some (ok, w')" and y: "\<forall>v w. rel w (snd y v w)"
  then have "w' = w \<or> (\<exists>v. copy_uint32 opt v (snd y v w) = Some w')"
    by (auto simp: process_uint32_def Let_def split: option.splits if_splits)
  then show "rel w w'"
    using y ob_refl by (blast dest: copy_keeps [OF opt] intro: ob_trans)
qed

lemma process_value_keeps:
  assumes opt: "opt \<in> set all_options"
    and run: "\<And>p a w ok w'. run p a w = Some (ok, w') \<Longrightarrow> rel w w'"
    and "process_value run opt arg w = Some (ok, w')"
  shows "rel w w'"
proof -
  have b: "rel w w'" if "copy_bool opt (bool_value opt) (snd x (bool_value opt) w) = Some w'"
    and "rel w (snd x (bool_value opt) w)" for x
    using copy_keeps(1) [OF opt that(1)] that(2) by (rule ob_trans [rotated])
  show ?thesis
    using assms(3) ob_entry [OF opt] run process_number_keeps [OF opt] b
    by (auto simp: process_value_def Let_def bool_value_def [symmetric] option_keeps_def
        split: opt_type.splits addr.splits if_splits)
qed

lemma process_addr2_keeps:
  assumes opt: "opt \<in> set all_options" and "process_addr2 opt w = Some w'"
  shows "rel w w'"
  using assms(2) ob_entry [OF opt] ob_refl
  by (auto simp: process_addr2_def option_keeps_def opt_flag_or split: addr.splits if_splits)

lemma process_option_keeps:
  assumes opt: "opt \<in> set all_options"
    and run: "\<And>p a w ok w'. run p a w = Some (ok, w') \<Longrightarrow> rel w w'"
    and "process_option run opt arg w = Some (ok, w')"
  shows "rel w w'"
proof -
  have v: "rel u v" if "process_value run opt arg u = Some (b, v)" for u v b
    using process_value_keeps [OF opt run that] by simp
  have a: "rel u v" if "process_addr2 opt u = Some v" for u v
    using process_addr2_keeps [OF opt that] .
  show ?thesis
    using assms(3) ob_refl
    by (auto simp: process_option_def bind_eq_Some_conv dest!: v a intro: ob_trans split: if_splits)
qed

end

sublocale option_observer \<subseteq> kept: option_reader "\<lambda>w r. \<forall>ok w'. r = Some (ok, w') \<longrightarrow> rel w w'"
proof unfold_locales
  show "\<forall>ok w'. process_option run opt arg w = Some (ok, w') \<longrightarrow> rel w w'"
    if "opt \<in> set all_options" and "\<And>p a w. \<forall>ok w'. run p a w = Some (ok, w') \<longrightarrow> rel w w'"
    for opt run arg and w :: opt_world
    using process_option_keeps [of opt run arg w] that by blast
qed (auto simp: ob_positional ob_source ob_died ob_refl intro: ob_parser ob_trans)

subsection \<open>The state of the link\<close>

text \<open>
  The automata, the timers and the progress of the protocols; and three variables that are read, but that
  no option sets. The flags of the network protocols can only be cleared.
\<close>

definition link_view where
  "link_view w =
     ((holdoff_specified (ov w), devnam_fixed (ov w), prepass (ov w)),
      (state_of LCP_FSM w, state_of IPCP_FSM w, state_of CCP_FSM w, callout w, lcp_echo_timer_running w),
      (us_clientstate (upap w), clientstate (chap w), serverstate (chap w)), (ipcp_is_up w, ccp_localstate w))"

definition option_view where
  "option_view w = (link_view w, ip_enabled (ov w), ccp_enabled (ov w))"

definition option_rel :: "opt_world \<Rightarrow> opt_world \<Rightarrow> bool" where
  "option_rel w w' \<longleftrightarrow> link_view w' = link_view w \<and>
     (ip_enabled (ov w') \<longrightarrow> ip_enabled (ov w)) \<and> (ccp_enabled (ov w') \<longrightarrow> ccp_enabled (ov w))"

lemma option_view_rel: "option_view w' = option_view w \<Longrightarrow> option_rel w w'"
  by (simp add: option_view_def option_rel_def)

lemma setescape_only: "\<exists>x. snd (setescape_loop ret p w) = w\<lparr>xmit_accm := x\<rparr>"
proof (induction "length p" arbitrary: p ret w rule: less_induct)
  case less
  define endp where "endp = snd (strtol p 16)"
  define rest where "rest = dropWhile (\<lambda>c. c = 44 \<or> c = 32) endp"
  have same: "\<exists>x. w = w\<lparr>xmit_accm := x\<rparr>"
    by (rule exI [of _ "xmit_accm w"]) simp
  have "length rest < length p" if "endp \<noteq> p"
    using strtol_length [of p 16] that length_dropWhile_le [of _ endp, folded rest_def]
    unfolding rest_def endp_def by (meson le_less_trans length_dropWhile_le)
  with less have rec: "\<exists>x. snd (setescape_loop r rest v) = v\<lparr>xmit_accm := x\<rparr>" if "endp \<noteq> p" for r v
    using that by blast
  let ?bad = "fst (strtol p 16) < 0 \<or> fst (strtol p 16) = 0x5E \<or> fst (strtol p 16) > 0xFF"
  note unfold = setescape_loop.simps [of ret p w, unfolded Let_def, folded endp_def, folded rest_def]
  consider "p = [] \<or> endp = p" | "p \<noteq> []" "endp \<noteq> p" ?bad | "p \<noteq> []" "endp \<noteq> p" "\<not> ?bad" by blast
  then show ?case
  proof cases
    case 1
    then show ?thesis
      using same by (subst unfold) (auto simp del: setescape_loop.simps)
  next
    case 2
    then show ?thesis
      using rec [of False w] by (subst unfold) simp
  next
    case 3
    have "\<exists>x. snd (setescape_loop ret rest (w\<lparr>xmit_accm := y\<rparr>)) = w\<lparr>xmit_accm := x\<rparr>" for y
      using rec [OF 3(2), of ret "w\<lparr>xmit_accm := y\<rparr>"] by simp
    with 3 show ?thesis
      by (subst unfold) simp
  qed
qed

lemma strncat_view: "option_view (strncat_hostname a w) = option_view w"
  by (simp add: strncat_hostname_def option_view_def link_view_def Let_def)

lemma hostname_view: "option_view (w\<lparr>hostname := h\<rparr>) = option_view w"
  by (simp add: option_view_def link_view_def)

lemma setdomain_view: "option_view (snd (setdomain os arg w)) = option_view w"
  by (simp add: setdomain_def Let_def strncat_view hostname_view)

lemma setescape_view: "option_view (snd (setescape arg w)) = option_view w"
proof -
  obtain x where "snd (setescape_loop True arg w) = w\<lparr>xmit_accm := x\<rparr>"
    using setescape_only by blast
  then show ?thesis
    by (simp add: setescape_def option_view_def link_view_def)
qed

lemma option_tables_view:
  "option_view (snd (noopt w)) = option_view w"
  "option_view (snd (setxonxoff w)) = option_view w"
  "option_view (snd (setvjslots arg w)) = option_view w"
  "option_view (snd (setdnsaddr os arg w)) = option_view w"
  "option_view (snd (setwinsaddr os arg w)) = option_view w"
  "option_view (snd (setbsdcomp arg w)) = option_view w"
  "option_view (snd (setdeflate arg w)) = option_view w"
  by (simp_all add: noopt_def setxonxoff_def setvjslots_def setdnsaddr_def setwinsaddr_def setbsdcomp_def
      setdeflate_def option_view_def link_view_def split: option.split)

lemma setnetmask_view: "option_view (snd (setnetmask arg w)) = option_view w"
  by (simp add: setnetmask_def option_view_def link_view_def split: prod.split)

lemma setlogfile_view: "option_view (snd (setlogfile os arg w)) = option_view w"
  by (simp add: setlogfile_def Let_def option_view_def link_view_def split: prod.split)

lemma setdevname_view: "option_view (snd (setdevname os arg w)) = option_view w"
  by (simp add: setdevname_def Let_def option_view_def link_view_def split: stat_result.split)

lemma setspeed_view: "option_view (snd (setspeed os arg w)) = option_view w"
  by (simp add: setspeed_def option_view_def link_view_def split: prod.split)

lemma setaddr_view:
  "option_view (snd (setlocaladdr os arg w)) = option_view w"
  "option_view (snd (setremoteaddr os arg w)) = option_view w"
  by (simp_all add: setlocaladdr_def setremoteaddr_def Let_def option_view_def link_view_def split: option.split)

lemma setipaddr_view: "option_view (snd (setipaddr os arg w)) = option_view w"
  by (simp add: setipaddr_def Let_def case_prod_unfold setaddr_view)

lemmas setters_view = setdomain_view setescape_view option_tables_view setnetmask_view setlogfile_view
  setdevname_view setspeed_view setipaddr_view

lemma all_options_keep:
  assumes "opt \<in> set all_options"
  shows "option_keeps option_rel opt"
proof -
  have "list_all (option_keeps option_rel) t"
    if "t \<in> {general_options, auth_option_list, lcp_option_list, pap_option_list, chap_option_list,
             ipcp_option_list, ccp_option_list}" for t
    using that
    by (auto simp: table_defs option_keeps_def option_rel_def link_view_def vo_def vw_def vs_def vf_def bool_value_def opt_consts)
  then show ?thesis
    using assms by (auto simp: all_options_def list_all_iff)
qed

lemma run_parser_view:
  assumes "run_parser os from_file p arg w = Some r" and "p \<noteq> Readfile" and "p \<noteq> Callfile"
  shows "option_view (snd r) = option_view w"
  using assms by (cases p) (auto simp: run_parser_def setters_view)

interpretation still: option_observer option_rel
proof unfold_locales
  show "option_rel w (snd (positional os arg w))" for os arg w
    by (rule option_view_rel) (simp add: positional_def Let_def case_prod_unfold setters_view)
  show "option_rel w w'"
    if "p \<noteq> Readfile" "p \<noteq> Callfile" "run_parser os from_file p arg w = Some (ok, w')" for p os from_file arg w ok w'
    using run_parser_view [OF that(3,1,2)] by (simp add: option_view_rel)
qed (auto simp: all_options_keep, auto simp: option_rel_def link_view_def note_died_def)

text \<open>\<^verbatim>\<open>rtems_pppd_set_option\<close> also puts the phase back.\<close>

lemma set_option_rel:
  assumes "rtems_pppd_set_option os [] n name value w = Some (ret, w')"
  shows "option_rel w w' \<and> pppd_phase w' = pppd_phase w"
proof (cases name)
  case (Some a)
  then obtain v where v: "options_from_list os [] n (a # (case value of None \<Rightarrow> [] | Some b \<Rightarrow> [b])) True
      (w\<lparr>pppd_phase := PHASE_INITIALIZE\<rparr>) = Some (ret, v)" "w' = v\<lparr>pppd_phase := pppd_phase w\<rparr>"
    using assms by (auto simp: rtems_pppd_set_option_def bind_eq_Some_conv)
  then have "option_rel (w\<lparr>pppd_phase := PHASE_INITIALIZE\<rparr>) v"
    using still.kept.options_from_list_good by blast
  with v(2) show ?thesis by (simp add: option_rel_def link_view_def)
qed (use assms in \<open>auto simp: rtems_pppd_set_option_def option_rel_def\<close>)

lemma set_option_returns: "\<exists>ret w'. rtems_pppd_set_option os [] n name value w = Some (ret, w')"
proof (cases name)
  case (Some a)
  obtain r where "options_from_list os [] n (a # (case value of None \<Rightarrow> [] | Some b \<Rightarrow> [b])) True
      (w\<lparr>pppd_phase := PHASE_INITIALIZE\<rparr>) = Some r"
    using typed.options_from_list_good by blast
  with Some show ?thesis
    by (cases r) (simp add: rtems_pppd_set_option_def)
qed (auto simp: rtems_pppd_set_option_def)

end
