(* ===== verification/Options_Files.thy ===== *)
theory Options_Files
  imports Options_Inv
begin

text \<open>
  Files of options. \<open>words_of\<close> is the list of the words of a file, and reading a file is processing that
  list; \<open>print_words\<close> writes a list of words so that it is read back. The name that the option \<^verbatim>\<open>call\<close>
  takes is checked against the list of the components of the path. A network mask in dotted notation is
  read as it was written.
\<close>

section \<open>Definitions\<close>

function words_of :: "bytes \<Rightarrow> bytes list" where
  "words_of f =
     (let g = getword False f in if g_ret g then c_string (g_word g) # words_of (g_rest g) else [])"
  by pat_completeness auto
termination
  by (relation "measure length") (auto intro: getword_decreases)

declare words_of.simps [simp del]

definition print_words :: "bytes list \<Rightarrow> bytes" where
  "print_words ws = concat (map (\<lambda>x. quote_word x @ [10]) ws)"

fun path_components :: "bytes \<Rightarrow> bytes list" where
  "path_components [] = [[]]"
| "path_components (c # p) =
     (if c = 47 then [] # path_components p
      else (c # hd (path_components p)) # tl (path_components p))"

function print_nat :: "nat \<Rightarrow> bytes" where
  "print_nat n = (if n < 10 then [] else print_nat (n div 10)) @ [word_of_nat (48 + n mod 10)]"
  by pat_completeness auto
termination
  by (relation "measure (\<lambda>n. n)") auto

declare print_nat.simps [simp del]

definition dotted :: "u32 \<Rightarrow> bytes" where
  "dotted m =
     print_nat (unat (drop_bit 24 m AND 255)) @ 46 # print_nat (unat (drop_bit 16 m AND 255)) @
     46 # print_nat (unat (drop_bit 8 m AND 255)) @ 46 # print_nat (unat (m AND 255))"

section \<open>Files as lists of words\<close>

lemma note_died_ok: "note_died (getword False f) w = w"
  by (simp add: note_died_def getword_def case_prod_unfold Let_def)

lemma words_of_step:
  "words_of f = (if g_ret (getword False f)
     then c_string (g_word (getword False f)) # words_of (g_rest (getword False f)) else [])"
  by (subst words_of.simps) (simp add: Let_def)

lemma file_loop_words:
  assumes "\<And>name opt a w ok w'. look name = Some opt \<Longrightarrow> proc opt a w = Some (ok, w') \<Longrightarrow>
      devnam_fixed (ov w') = devnam_fixed (ov w)"
    and "\<And>a w. devnam_fixed (ov (snd (pos a w))) = devnam_fixed (ov w)"
    and "\<not> devnam_fixed (ov w)"
  shows "file_loop look proc pos False f w = list_loop look proc pos (words_of f) w"
  using assms(3)
proof (induction "length f" arbitrary: f w rule: less_induct)
  case less
  define g where "g = getword False f"
  define a where "a = getword False (g_rest g)"
  have bind: "(proc opt x w \<bind> (\<lambda>(ok, w). if ok then file_loop look proc pos False f' w else Some (False, w))) =
      (proc opt x w \<bind> (\<lambda>(ok, w). if ok then list_loop look proc pos (words_of f') w else Some (False, w)))"
    if "look cmd = Some opt" "length f' < length f" for cmd opt x f'
    using that less assms(1) [of cmd opt x w] by (cases "proc opt x w") auto
  have len: "length (g_rest g) < length f" if "g_ret g"
    using getword_decreases [of False f] that by (simp add: g_def)
  have len2: "length (g_rest a) < length f" if "g_ret g" "g_ret a"
    using getword_decreases [of False "g_rest g"] len that by (simp add: a_def)
  have other: "file_loop look proc pos False (g_rest g) (snd (pos c w)) =
      list_loop look proc pos (words_of (g_rest g)) (snd (pos c w))" if "g_ret g" for c
    using less assms(2) len that by simp
  have died: "note_died g v = v" "note_died a v = v" for v
    by (simp_all add: g_def a_def note_died_ok)
  have w1: "words_of f = (if g_ret g then c_string (g_word g) # words_of (g_rest g) else [])"
    using words_of_step [of f] by (simp add: g_def)
  have w2: "words_of (g_rest g) = (if g_ret a then c_string (g_word a) # words_of (g_rest a) else [])"
    using words_of_step [of "g_rest g"] by (simp add: a_def)
  show ?case
  proof (cases "g_ret g")
    case False
    then show ?thesis
      by (subst file_loop.simps, simp only: Let_def g_def [symmetric] died w1) simp
  next
    case True
    show ?thesis
    proof (cases "look (c_string (g_word g))")
      case None
      with True show ?thesis
        by (subst file_loop.simps, simp only: Let_def g_def [symmetric] died w1)
          (simp add: case_prod_unfold other)
    next
      case (Some opt)
      with True less(2) show ?thesis
        by (subst file_loop.simps, simp only: Let_def g_def [symmetric] a_def [symmetric] died w1)
          (cases "n_arguments opt = 0"; simp add: bind [OF Some] len; simp add: w2 bind [OF Some] len2)
    qed
  qed
qed

section \<open>Printing words\<close>

lemma words_of_newline: "words_of (10 # f) = words_of f"
  using words_of_step [of f] words_of_step [of "10 # f"] getword_space [of 10 False f] by (simp add: isspace_def)

lemma words_of_quoted: "length w < MAXWORDLEN \<Longrightarrow> words_of (quote_word w @ rest) = c_string w # words_of rest"
  using words_of_step [of "quote_word w @ rest"] getword_quoted [of w False rest] by simp

lemma words_of_print:
  "\<forall>x\<in>set ws. 0 \<notin> set x \<and> length x < MAXWORDLEN \<Longrightarrow> words_of (print_words ws) = ws"
proof (induction ws)
  case Nil
  then show ?case using words_of_step [of "[]"] getword_end by (simp add: print_words_def)
next
  case (Cons x ws)
  then have "c_string x = x"
    by (auto simp: c_string_def takeWhile_eq_all_conv)
  with Cons show ?case
    using words_of_quoted [of x "10 # print_words ws"] by (simp add: print_words_def words_of_newline)
qed

section \<open>Names of files\<close>

lemma path_components_not_Nil: "path_components p \<noteq> []"
  by (cases p) auto

lemma path_components_split:
  "path_components p =
     (if 47 \<in> set p then takeWhile (\<lambda>c. c \<noteq> 47) p # path_components (tl (dropWhile (\<lambda>c. c \<noteq> 47) p))
      else [p])"
  by (induction p) auto

lemma dotdot_first: "dotdot p \<longleftrightarrow> takeWhile (\<lambda>c. c \<noteq> 47) p = [46, 46]"
proof (cases p rule: dotdot.cases)
  case (1 a b r)
  then show ?thesis by (cases r) auto
qed auto

lemma no_dotdot_components: "no_dotdot p \<longleftrightarrow> [46, 46] \<notin> set (path_components p)"
proof (induction p rule: no_dotdot.induct)
  case (1 p)
  show ?case
  proof (cases "47 \<in> set p")
    case True
    with 1 show ?thesis
      using path_components_split [of p] dotdot_first [of p]
      by (subst no_dotdot.simps) (auto simp: drop_Suc)
  next
    case False
    then have "takeWhile (\<lambda>c. c \<noteq> 47) p = p" by (auto simp only: takeWhile_eq_all_conv)
    with dotdot_first [of p] have t: "dotdot p \<longleftrightarrow> p = [46, 46]" by argo
    from False have "dropWhile (\<lambda>c. c \<noteq> 47) p = []" by auto
    then have d: "drop 1 (dropWhile (\<lambda>c. c \<noteq> 47) p) = []" by (simp only: drop_Nil)
    from False show ?thesis
      using path_components_split [of p] by (subst no_dotdot.simps, simp only: d t) (auto simp: no_dotdot.simps [of "[]"])
  qed
qed

section \<open>Numbers\<close>

lemma digit_value_print: "d < 10 \<Longrightarrow> digit_value (word_of_nat (48 + d)) = Some d"
proof -
  assume "d < 10"
  then have "d \<in> {0, 1, 2, 3, 4, 5, 6, 7, 8, 9}" by auto
  then show ?thesis by (auto simp: digit_value_def)
qed

text \<open>What stops the conversion: the end of the string, or a character that is no digit in any base.\<close>

definition stops :: "bytes \<Rightarrow> bool" where
  "stops r \<longleftrightarrow> r = [] \<or> digit_value (hd r) = None"

lemma digits_stop: "stops r \<Longrightarrow> digits base acc r = (acc, r)"
  by (cases r) (auto simp: stops_def digit_in_def)

lemma digits_print: "digits 10 acc (print_nat n @ r) = digits 10 (acc * 10 ^ length (print_nat n) + n) r"
proof (induction n arbitrary: acc r rule: print_nat.induct)
  case (1 n)
  have d: "digits 10 a (word_of_nat (48 + n mod 10) # r) = digits 10 (a * 10 + n mod 10) r" for a
    using digit_value_print [of "n mod 10"] by (simp add: digit_in_def)
  show ?case
  proof (cases "n < 10")
    case True
    then show ?thesis using d [of acc] by (subst (1 2) print_nat.simps) simp
  next
    case False
    with 1 d show ?thesis
      by (subst (1 2) print_nat.simps) (simp add: algebra_simps)
  qed
qed

lemma print_nat_first:
  "\<exists>d<10. \<exists>cs. print_nat n = word_of_nat (48 + d) # cs \<and> (d = 0 \<longleftrightarrow> n = 0) \<and> (n = 0 \<longrightarrow> cs = [])"
proof (induction n rule: print_nat.induct)
  case (1 n)
  show ?case
  proof (cases "n < 10")
    case True
    then show ?thesis
      by (subst print_nat.simps) (auto intro!: exI [of _ n])
  next
    case False
    with 1 obtain d cs where "d < 10" "print_nat (n div 10) = word_of_nat (48 + d) # cs" "d \<noteq> 0"
      by auto
    with False show ?thesis
      by (subst print_nat.simps) (auto intro!: exI [of _ d])
  qed
qed

lemma lead_digit:
  fixes c :: u8
  assumes "d < 10" and "c = word_of_nat (48 + d)"
  shows "\<not> isspace c" "c \<noteq> 45" "c \<noteq> 43" "digit_in 10 c" "c = 48 \<longleftrightarrow> d = 0"
proof -
  from assms(1) have "d \<in> {0, 1, 2, 3, 4, 5, 6, 7, 8, 9}" by auto
  with assms(2) show "\<not> isspace c" "c \<noteq> 45" "c \<noteq> 43" "c = 48 \<longleftrightarrow> d = 0"
    by (auto simp: isspace_def)
  show "digit_in 10 c"
    using digit_value_print [OF assms(1)] assms by (simp add: digit_in_def)
qed

lemma str_number_print:
  assumes "stops r"
  shows "str_number 0 (print_nat n @ r) = Some (False, n, r)"
proof -
  obtain d c cs where f: "print_nat n = c # cs" "d = 0 \<longleftrightarrow> n = 0" "n = 0 \<longrightarrow> cs = []"
    and dc: "d < 10" "c = word_of_nat (48 + d)"
    using print_nat_first [of n] by metis
  note c = lead_digit [OF dc]
  have s: "str_sign (print_nat n @ r) = (False, print_nat n @ r)"
    using c f(1) by (simp add: str_sign_def)
  have h: "\<not> hex_prefix (print_nat n @ r)"
  proof (cases "n = 0")
    case True
    then have "print_nat n @ r = c # r" using f by simp
    moreover have "hd r \<noteq> 120 \<and> hd r \<noteq> 88" if "r \<noteq> []"
      using assms that by (auto simp: stops_def digit_value_def)
    ultimately show ?thesis by (cases r) (auto simp: hex_prefix_def split: list.split)
  next
    case False
    with c f show ?thesis by (auto simp: hex_prefix_def split: list.split)
  qed
  have d: "digits 10 0 (print_nat n @ r) = (n, r)"
    using digits_print [of 0 n r] digits_stop [OF assms] by simp
  show ?thesis
  proof (cases "n = 0")
    case True
    then have p: "print_nat n @ r = 48 # r" using f c(5) by simp
    have "digit_in 8 48" "digit_value 48 = Some 0" by (simp_all add: digit_in_def digit_value_def)
    with True h s digits_stop [OF assms, of 8 0] show ?thesis
      unfolding p by (simp add: str_number_def str_base_def)
  next
    case False
    with c f h s d show ?thesis
      by (simp add: str_number_def str_base_def)
  qed
qed

lemma strtoul_print: "stops r \<Longrightarrow> n < 2 ^ 32 \<Longrightarrow> strtoul (print_nat n @ r) 0 = (word_of_nat n, r)"
  by (simp add: strtoul_def str_number_print)

lemma print_nat_not_Nil: "print_nat n @ r \<noteq> r"
  using print_nat_first [of n] by auto

text \<open>Masks.\<close>

lemma stops_dot: "stops (46 # r)" "stops []"
  by (simp_all add: stops_def digit_value_def)

lemma netmask_byte:
  fixes b :: u32
  assumes "b \<le> 255"
  shows "netmask_loop (Suc k) (print_nat (unat b) @ 46 # r) m = netmask_loop k r (m OR push_bit (Suc k * 8) b)"
    and "netmask_loop 0 (print_nat (unat b)) m = (m OR b, [])"
proof -
  have "unat b \<le> 255" using assms by (simp add: word_le_nat_alt)
  then have b: "unat b < 2 ^ 32" by simp
  have "strtoul (print_nat (unat b) @ 46 # r) 0 = (b, 46 # r)"
    using strtoul_print [OF stops_dot(1) b] by simp
  moreover have "46 # r \<noteq> print_nat (unat b) @ 46 # r"
    using print_nat_not_Nil [of "unat b" "46 # r"] by metis
  ultimately show "netmask_loop (Suc k) (print_nat (unat b) @ 46 # r) m = netmask_loop k r (m OR push_bit (Suc k * 8) b)"
    using leD [OF assms] by (subst netmask_loop.simps) simp
  have "strtoul (print_nat (unat b)) 0 = (b, [])"
    using strtoul_print [OF stops_dot(2) b] by simp
  moreover have "print_nat (unat b) \<noteq> []"
    using print_nat_not_Nil [of "unat b" "[]"] by simp
  ultimately show "netmask_loop 0 (print_nat (unat b)) m = (m OR b, [])"
    using leD [OF assms] by (subst netmask_loop.simps) simp
qed

lemma and_255: "(a :: u32) AND 255 \<le> 255"
  using word_and_le1 [of a 255] by (simp add: word_and_le1)

lemma four_bytes:
  "push_bit 24 (drop_bit 24 m AND 255) OR push_bit 16 (drop_bit 16 m AND 255) OR
   push_bit 8 (drop_bit 8 m AND 255) OR (m AND 255) = (m :: u32)"
proof -
  have t: "(a :: u32) AND 255 = take_bit 8 a" for a
    by (simp add: take_bit_eq_mask mask_eq_exp_minus_1)
  show ?thesis
    unfolding t
  proof (rule bit_eqI)
    fix n
    assume "possible_bit TYPE(u32) n"
    then have "n < 8 \<or> 8 \<le> n \<and> n < 16 \<or> 16 \<le> n \<and> n < 24 \<or> 24 \<le> n \<and> n < 32" by auto
    then show "bit (push_bit 24 (take_bit 8 (drop_bit 24 m)) OR push_bit 16 (take_bit 8 (drop_bit 16 m)) OR
        push_bit 8 (take_bit 8 (drop_bit 8 m)) OR take_bit 8 m) n = bit m n"
      by (elim disjE) (auto simp: bit_or_iff bit_push_bit_iff bit_take_bit_iff bit_drop_bit_eq)
  qed
qed

lemma setnetmask_dotted:
  assumes "netmask w AND NOT m = 0"
  shows "setnetmask (dotted m) w = (True, w\<lparr>netmask := m\<rparr>)"
proof -
  have "netmask_loop 3 (dotted m) 0 = (m, [])"
    using four_bytes [of m]
    by (simp add: dotted_def numeral_3_eq_3 netmask_byte and_255 or.assoc [symmetric])
  with assms show ?thesis by (simp add: setnetmask_def)
qed

section \<open>Files and lists\<close>

lemma options_from_file_words:
  assumes f: "os_fopen os name = File f False" and d: "\<not> devnam_fixed (ov w)"
  shows "options_from_file os [] (Suc n) name must_exist priv w =
    map_option (\<lambda>(ret, w'). (ret, restore_source w w'))
      (list_loop (find_option []) (process_option (run_parser os (\<lambda>name. options_from_file os [] n name True)))
        (positional os) (words_of f) (w\<lparr>ov := (ov w)\<lparr>privileged_option := priv, option_source := name\<rparr>\<rparr>))"
proof -
  let ?proc = "process_option (run_parser os (\<lambda>name. options_from_file os [] n name True))"
  have "devnam_fixed (ov v') = devnam_fixed (ov v)"
    if "find_option [] a = Some opt" "?proc opt x v = Some (ok, v')" for a opt x v ok v'
    using still.kept.known_good [OF still.kept.options_from_file_good that(1)] that(2)
    by (auto simp: option_rel_def link_view_def)
  moreover have "devnam_fixed (ov (snd (positional os a v))) = devnam_fixed (ov v)" for a v
    using still.ob_positional [of v os a] by (simp add: option_rel_def link_view_def)
  ultimately have "file_loop (find_option []) ?proc (positional os) False f v =
      list_loop (find_option []) ?proc (positional os) (words_of f) v" if "\<not> devnam_fixed (ov v)" for v
    using that by (intro file_loop_words) blast+
  with d show ?thesis
    by (simp add: f map_option_case split: option.split)
qed

end
