(* ===== verification/Pppd_App.thy ===== *)
theory Pppd_App
  imports Daemon_Inv Options_Files
begin

text \<open>
  The daemon and the application that configures it. A step of the whole is a step of the daemon or a call of
  \<^verbatim>\<open>rtems_pppd_set_option\<close>, between two steps of the daemon. The flags \<^verbatim>\<open>enabled_flag\<close> of the protocol table are
  kept in the record \<open>daemon\<close>; the option code reads and writes them there. The invariants of the link are
  kept by every call that leaves \<^verbatim>\<open>lcp_echo_fails\<close> at a value that is not negative.
\<close>

section \<open>Definitions\<close>

definition no_info :: option_info where
  "no_info = \<lparr>i_priv = False, i_source = []\<rparr>"

definition opt_vars_init :: opt_vars where
  "opt_vars_init =
     \<lparr>debug = 0, kdebugflag = 0, default_device = 1, devnam = [], crtscts = 0, modem = True, inspeed = 0,
      lockflag = False, nodetach = False, updetach = False, initializer = None, connect_script = None,
      disconnect_script = None, welcomer = None, ptycommand = None, ipparam = None,
      holdoff_specified = False, notty = False, record_file = None, sync_serial = False, log_to_fd = 1,
      linkname = [], tune_kernel = False, connect_delay = 1000, initializer_info = no_info,
      connect_script_info = no_info, disconnect_script_info = no_info, welcomer_info = no_info,
      devnam_info = no_info, ptycommand_info = no_info, privileged_option = False, option_source = [],
      log_to_file = False, hide_password = True, cryptpap = False, prepass = False, devnam_fixed = False,
      ip_enabled = True, ccp_enabled = True, died = 0, closed = []\<rparr>"

definition static_app ::
  "(nat \<Rightarrow> timeval) \<Rightarrow> (nat \<Rightarrow> nat) \<Rightarrow> (nat \<Rightarrow> io_result) \<Rightarrow> (nat \<Rightarrow> u32) \<Rightarrow> if_entry list option \<Rightarrow> opt_world" where
  "static_app c r io fl ifs = daemon_world.extend (static_world c r io fl ifs) \<lparr>ov = opt_vars_init\<rparr>"

definition load_flags :: "daemon \<Rightarrow> opt_world \<Rightarrow> opt_world" where
  "load_flags d w = w\<lparr>ov := (ov w)\<lparr>ip_enabled := d_ip d, ccp_enabled := d_ccp d\<rparr>\<rparr>"

definition store_flags :: "opt_world \<Rightarrow> daemon \<Rightarrow> daemon" where
  "store_flags w d = d\<lparr>d_ip := ip_enabled (ov w), d_ccp := ccp_enabled (ov w)\<rparr>"

datatype app_event = Link_event link_event | Set_option "bytes option" "bytes option"

inductive app_step ::
  "os_env \<Rightarrow> nat \<Rightarrow> daemon \<times> opt_world \<Rightarrow> app_event \<Rightarrow> daemon \<times> opt_world \<Rightarrow> bool" for os n where
  App_Link: "link_step d w e w' \<Longrightarrow> app_step os n (d, w) (Link_event e) (d, w')"
| App_Option: "rtems_pppd_set_option os [] n name value (load_flags d w) = Some (ret, w') \<Longrightarrow>
     0 \<le> lcp_echo_fails w' \<Longrightarrow> app_step os n (d, w) (Set_option name value) (store_flags w' d, w')"

inductive app_steps ::
  "os_env \<Rightarrow> nat \<Rightarrow> daemon \<times> opt_world \<Rightarrow> app_event list \<Rightarrow> daemon \<times> opt_world \<Rightarrow> bool" for os n where
  App_Nil: "app_steps os n s [] s"
| App_Cons: "app_step os n s e t \<Longrightarrow> app_steps os n t es u \<Longrightarrow> app_steps os n s (e # es) u"

text \<open>The lines of \<^verbatim>\<open>pppdmain\<close> that set the default of \<^verbatim>\<open>holdoff\<close>.\<close>

definition default_holdoff :: "opt_world \<Rightarrow> opt_world" where
  "default_holdoff w =
     (if connect_script (ov w) = None \<and> \<not> holdoff_specified (ov w) then w\<lparr>holdoff := 0\<rparr> else w)"

section \<open>Invariants\<close>

lemma option_rel_link_ok:
  assumes "option_rel (load_flags d w) w'" and "0 \<le> lcp_echo_fails w'" and "link_ok (on_of d) w"
  shows "link_ok (on_of (store_flags w' d)) w'"
proof -
  have v: "state_of i w' = state_of i w" for i
    using assms(1) by (cases i) (simp_all add: option_rel_def link_view_def load_flags_def)
  have p: "pending f a w' = pending f a w" for f a
    using assms(1) by (simp add: option_rel_def link_view_def load_flags_def pending_def)
  have on: "on_of (store_flags w' d) i \<Longrightarrow> on_of d i" for i
    using assms(1) by (cases i) (auto simp: option_rel_def load_flags_def store_flags_def ncp_on_def)
  have dn: "ncp_states (on_of (store_flags w' d)) (fsms w') = (\<lambda>_. INITIAL)"
    if "ncp_states (on_of d) (fsms w) = (\<lambda>_. INITIAL)"
  proof
    fix i
    show "ncp_states (on_of (store_flags w' d)) (fsms w') i = INITIAL"
      using fun_cong [OF that, of i] v [of i] on [of i] by (auto simp: ncp_states_def split: if_splits)
  qed
  have e: "lcp_echo_timer_running w' = lcp_echo_timer_running w" "us_clientstate (upap w') = us_clientstate (upap w)"
    "clientstate (chap w') = clientstate (chap w)" "serverstate (chap w') = serverstate (chap w)"
    using assms(1) by (simp_all add: option_rel_def link_view_def load_flags_def)
  show ?thesis
  proof (cases "state_of LCP_FSM w = OPENED")
    case True
    with assms(2,3) show ?thesis
      by (simp add: layer_inv_def lcp_view_def lcp_lay_def v p e)
  next
    case False
    with assms(2,3) dn show ?thesis
      by (simp add: layer_inv_def lcp_view_def lcp_dn_def auth_view_def auth_dn_def v p e)
  qed
qed

lemma option_rel_ncp_ok:
  assumes "option_rel (load_flags d w) w'"
  shows "ipcp_ok w \<Longrightarrow> ipcp_ok w'" and "ccp_ok w \<Longrightarrow> ccp_ok w'"
proof -
  have "ipcp_is_up w' = ipcp_is_up w" "rack_view w' = rack_view w" "state_of IPCP_FSM w' = state_of IPCP_FSM w"
    "state_of CCP_FSM w' = state_of CCP_FSM w"
    using assms by (simp_all add: option_rel_def link_view_def load_flags_def rack_view_def pending_def)
  then show "ipcp_ok w \<Longrightarrow> ipcp_ok w'" and "ccp_ok w \<Longrightarrow> ccp_ok w'"
    by (simp_all add: layer_inv_def)
qed

definition app_ok :: "daemon \<times> opt_world \<Rightarrow> bool" where
  "app_ok s \<longleftrightarrow> link_ok (on_of (fst s)) (snd s) \<and> ipcp_ok (snd s) \<and> ccp_ok (snd s)"

lemma app_step_ok: "app_step os n s e t \<Longrightarrow> app_ok s \<Longrightarrow> app_ok t"
proof (induction rule: app_step.induct)
  case (App_Link d w e w')
  then show ?case
    by (auto simp: app_ok_def intro: link_step_ok ip_daemon.ob_step cc_daemon.ob_step)
next
  case (App_Option name val d w ret w')
  then have "option_rel (load_flags d w) w'"
    using set_option_rel by blast
  with App_Option show ?case
    by (simp add: app_ok_def option_rel_link_ok option_rel_ncp_ok)
qed

lemma app_steps_ok: "app_steps os n s es t \<Longrightarrow> app_ok s \<Longrightarrow> app_ok t"
  by (induction rule: app_steps.induct) (auto intro: app_step_ok)

lemma app_ok_init: "app_ok (d, rtems_pppd_reset_options (static_app c r io fl ifs))"
  by (simp add: app_ok_def static_app_def static_world_def daemon_world.extend_def rtems_pppd_reset_options_def lcp_init_def
      ipcp_init_def upap_init_def ChapInit_def ccp_init_def fsm_init_def layer_inv_def lcp_view_def auth_view_def lcp_dn_def
      auth_dn_def lcp_lay_def Let_def upd_fsm_def upd_upap_def upd_chap_def zero_fsm_def zero_upap_def pending_def
      ncp_states_def rack_view_def fun_eq_iff)

end
