(* ===== verification/Ipcp_Up.thy ===== *)
theory Ipcp_Up
  imports Ncp_Table
begin

text \<open>
  What \<^verbatim>\<open>ipcp_up\<close> achieves when it reports the interface up: both addresses are known, the peer's is one
  it may use, and the interface has been given these addresses and marked up.
\<close>

section \<open>Definitions\<close>

definition if_view :: "'a sys_world_scheme \<Rightarrow> (u32 \<times> u32) \<times> bool" where
  "if_view w = (ifaddrs w, if_is_up w)"

section \<open>The interface\<close>

interpretation stays_down: fsm_keeps "\<lambda>w. \<not> ipcp_is_up w" ipcp_down_callbacks IPCP_FSM
  by unfold_locales (auto simp: ipcp_down_callbacks_def)

lemma if_view_calls [simp]:
  "if_view (snd (sifnpmode m w)) = if_view w" "if_view (snd (sifdefaultroute a b w)) = if_view w"
  "if_view (snd (sifproxyarp a w)) = if_view w"
  by (simp_all add: if_view_def sifnpmode_def sifdefaultroute_def dodefaultroute_def sifproxyarp_def
      ioctl_def Let_def)

lemma if_view_upd [simp]:
  "if_view (v\<lparr>ipcp_wantoptions := wo\<rparr>) = if_view v" "if_view (v\<lparr>default_route_set := b\<rparr>) = if_view v"
  "if_view (v\<lparr>proxy_arp_set := b\<rparr>) = if_view v" "if_view (v\<lparr>ipcp_is_up := b\<rparr>) = if_view v"
  "if_view (v\<lparr>ip_events := es\<rparr>) = if_view v" "if_view (np_up pl w) = if_view w"
  by (simp_all add: if_view_def np_up_def Let_def new_phase_def ppptimeout_def gettimeofday_def)

lemma if_view_routes [simp]: "if_view (ipcp_routes a b w) = if_view w"
  by (simp add: ipcp_routes_def Let_def case_prod_unfold)

lemma ipcp_up_plain_view:
  assumes "ipcp_up_plain w = (True, w')"
  shows "if_view w' = ((ouraddr (ipcp_gotoptions w), hisaddr (ipcp_hisoptions w)), True)"
proof -
  define our his where "our = ouraddr (ipcp_gotoptions w)" and "his = hisaddr (ipcp_hisoptions w)"
  obtain ok1 w1 where 1: "sifaddr our his (GetMask our w) w = (ok1, w1)" by fastforce
  obtain ok2 w2 where 2: "sifup w1 = (ok2, w2)" by fastforce
  have eq: "ok1" "ok2" "w' = (let v = ipcp_routes our his (snd (sifnpmode NPMODE_PASS w2)) in
      v\<lparr>ipcp_wantoptions := (ipcp_wantoptions v)\<lparr>ouraddr := our\<rparr>\<rparr>)"
    using assms unfolding ipcp_up_plain_def Let_def our_def [symmetric] his_def [symmetric] 1 prod.case 2
    by (auto split: if_split_asm)
  have "ifaddrs w1 = (our, his)"
    using sifaddr_sets 1 eq(1) by simp
  then have "if_view w2 = ((our, his), True)"
    using 2 eq(2) by (auto simp: if_view_def sifup_def ioctl_def Let_def split: if_splits)
  then show ?thesis
    by (simp add: eq(3) Let_def our_def his_def)
qed

lemma ipcp_up_configures:
  fixes w :: "'a ipcp_world_scheme"
  assumes "\<not> ipcp_is_up w" and "\<not> demand w" and "ipcp_is_up (ipcp_up pl w)"
  defines "his \<equiv> hisaddr (if neg_addr (ipcp_hisoptions w) then ipcp_hisoptions w else ipcp_wantoptions w)"
    and "our \<equiv> ouraddr (ipcp_gotoptions w)"
  shows "our \<noteq> 0 \<and> his \<noteq> 0 \<and> \<not> bad_ip_adrs his \<and>
    ifaddrs (ipcp_up pl w) = (our, his) \<and> if_is_up (ipcp_up pl w)"
proof -
  define w1 where "w1 = (if \<not> neg_addr (ipcp_hisoptions w)
    then w\<lparr>ipcp_hisoptions := (ipcp_hisoptions w)\<lparr>hisaddr := hisaddr (ipcp_wantoptions w)\<rparr>\<rparr> else w)"
  define go where "go = ipcp_gotoptions w1"
  define ho where "ho = ipcp_hisoptions w1"
  define w2 where "w2 = (if usepeerdns w1 \<and> (fst (dnsaddr go) \<noteq> 0 \<or> snd (dnsaddr go) \<noteq> 0)
    then create_resolv (fst (dnsaddr go)) (snd (dnsaddr go)) w1 else w1)"
  define w3 where "w3 = snd (sifvjcomp (neg_vj ho) (cflag ho) (maxslotindex ho) w2)"
  obtain ok w4 where 4: "(if demand w3 then ipcp_up_demand w3 else ipcp_up_plain w3) = (ok, w4)"
    by fastforce
  define w5 where "w5 = (np_up pl w4)\<lparr>ipcp_is_up := True\<rparr>"
  define w6 where "w6 = (if ip_up_hook w5 then w5\<lparr>ip_events := ip_events w5 @ [Ip_up]\<rparr> else w5)"
  have eq: "ipcp_up pl w =
      (if hisaddr ho = 0 then ipcp_close (ascii ''Could not determine remote IP address'') w1
       else if ouraddr go = 0 then ipcp_close (ascii ''Could not determine local IP address'') w1
       else if \<not> auth_ip_addr (hisaddr ho) then ipcp_close (ascii ''Unauthorized remote IP address'') w2
       else if \<not> ok then ipcp_close (ascii ''Interface configuration failed'') w4 else w6)"
    unfolding ipcp_up_def Let_def w1_def [symmetric] go_def [symmetric] ho_def [symmetric]
      w2_def [symmetric] w3_def [symmetric] 4 prod.case w5_def [symmetric] w6_def [symmetric] ..
  have f1: "\<not> ipcp_is_up w1" "demand w1 = demand w" "hisaddr ho = his" "ouraddr go = our"
    using assms(1) by (simp_all add: w1_def ho_def go_def his_def our_def)
  then have f2: "\<not> ipcp_is_up w2" "demand w2 = demand w" "ipcp_gotoptions w2 = go" "ipcp_hisoptions w2 = ho"
    by (simp_all add: w2_def create_resolv_def go_def ho_def)
  then have f3: "\<not> ipcp_is_up w3" "\<not> demand w3" "ipcp_gotoptions w3 = go" "ipcp_hisoptions w3 = ho"
    using assms(2) by (simp_all add: w3_def)
  then have f4: "\<not> ipcp_is_up w4" "ok \<Longrightarrow> if_view w4 = ((our, his), True)"
    using 4 ipcp_configure_quiet(4) [of w3] ipcp_up_plain_view [of w3 w4] f1 by simp_all
  have cl: "\<not> ipcp_is_up (ipcp_close r v)" if "\<not> ipcp_is_up v" for r and v :: "'a ipcp_world_scheme"
    unfolding ipcp_close_def using that by (rule stays_down.close_keeps)
  have "hisaddr ho \<noteq> 0" "ouraddr go \<noteq> 0" "auth_ip_addr (hisaddr ho)" ok "ipcp_up pl w = w6"
    using assms(3) cl [OF f1(1)] cl [OF f2(1)] cl [OF f4(1)] unfolding eq by (simp_all split: if_split_asm)
  moreover have "if_view w6 = if_view w4"
    by (simp add: w6_def w5_def)
  ultimately show ?thesis
    using f4(2) f1 by (simp add: auth_ip_addr_def if_view_def)
qed

end
