(* ===== verification/Ipcp_Negotiation.thy ===== *)
theory Ipcp_Negotiation
  imports Ipcp_Options Lcp_Negotiation
begin

text \<open>
  What the option functions of \<^verbatim>\<open>ipcp.c\<close> promise: the request has the announced length and exactly it
  counts as acknowledged, a Nak changes an address only where the options accept that, a Reject only
  switches options off, and a request that is acknowledged is returned unchanged and carries a peer
  address that is not zero and is either ours to give or accepted. \<^verbatim>\<open>ipcp_nakci\<close> returns when every
  option is at least as long as its header; on an option of length 0 it does not.
\<close>

section \<open>Definitions\<close>

definition ipcp_ranges :: "ipcp_options \<Rightarrow> bool" where
  "ipcp_ranges go \<longleftrightarrow> 0 \<le> vj_protocol go \<and> vj_protocol go < 65536 \<and> 0 \<le> maxslotindex go \<and> maxslotindex go < 256"

text \<open>The request without the test for room.\<close>

definition ipcp_request :: "ipcp_options \<Rightarrow> bytes" where
  "ipcp_request go =
     (if neg_addr go then ci_addr (old_addrs go) (ouraddr go) (hisaddr go) else []) @
     (if neg_vj go then ci_vj (vj_protocol go) (old_vj go) (maxslotindex go) (cflag go) else []) @
     (if req_dns1 go then ci_dns CI_MS_DNS1 (fst (dnsaddr go)) else []) @
     (if req_dns2 go then ci_dns CI_MS_DNS2 (snd (dnsaddr go)) else [])"

text \<open>The options of a list that all have a length of at least \<open>n\<close>, as far as the list goes.\<close>

inductive cis_long :: "nat \<Rightarrow> bytes \<Rightarrow> bool" for n where
  cis_end: "length p \<le> 2 \<Longrightarrow> cis_long n p"
| cis_over: "2 < length p \<Longrightarrow> unat (p ! 1) > length p \<Longrightarrow> cis_long n p"
| cis_next: "2 < length p \<Longrightarrow> n \<le> unat (p ! 1) \<Longrightarrow> cis_long n (drop (unat (p ! 1)) p) \<Longrightarrow> cis_long n p"

text \<open>What a Nak may do to our options.\<close>

definition ipcp_nak_ok :: "ipcp_options \<Rightarrow> ipcp_options \<Rightarrow> bool" where
  "ipcp_nak_ok go tr \<longleftrightarrow>
     (ouraddr tr \<noteq> ouraddr go \<longrightarrow> accept_local go \<and> ouraddr tr \<noteq> 0) \<and>
     (hisaddr tr \<noteq> hisaddr go \<longrightarrow> accept_remote go \<and> hisaddr tr \<noteq> 0) \<and>
     (neg_vj tr \<longrightarrow> neg_vj go) \<and> maxslotindex tr \<le> maxslotindex go \<and> (cflag tr \<longrightarrow> cflag go) \<and>
     (dnsaddr tr \<noteq> dnsaddr go \<longrightarrow> req_dns1 go \<or> req_dns2 go) \<and>
     accept_local tr = accept_local go \<and> accept_remote tr = accept_remote go \<and>
     req_dns1 tr = req_dns1 go \<and> req_dns2 tr = req_dns2 go"

text \<open>What holds of the peer's options when its request is acknowledged.\<close>

definition ipcp_ho_ok :: "ipcp_options \<Rightarrow> ipcp_options \<Rightarrow> ipcp_options \<Rightarrow> bool" where
  "ipcp_ho_ok ao wo ho \<longleftrightarrow>
     (neg_addr ho \<longrightarrow> neg_addr ao \<and> hisaddr ho \<noteq> 0 \<and> (hisaddr ho = hisaddr wo \<or> accept_remote wo)) \<and>
     (old_addrs ho \<longrightarrow>
        ouraddr ho = ouraddr wo \<or> accept_local wo \<and> ouraddr ho \<noteq> 0) \<and>
     (neg_vj ho \<longrightarrow> neg_vj ao) \<and>
     (neg_vj ho \<and> \<not> old_vj ho \<longrightarrow> maxslotindex ho \<le> maxslotindex ao \<and> (cflag ho \<longrightarrow> cflag ao))"

text \<open>The Reject that turns \<open>go\<close> into \<open>tr\<close>.\<close>

definition ipcp_rejected :: "ipcp_options \<Rightarrow> ipcp_options \<Rightarrow> bytes" where
  "ipcp_rejected go tr =
     ipcp_request (go\<lparr>neg_addr := neg_addr go \<and> \<not> neg_addr tr, neg_vj := neg_vj go \<and> \<not> neg_vj tr,
       req_dns1 := req_dns1 go \<and> \<not> req_dns1 tr, req_dns2 := req_dns2 go \<and> \<not> req_dns2 tr\<rparr>)"

text \<open>The loop invariant of \<^verbatim>\<open>ipcp_reqci\<close>, for a request of which \<open>seen\<close> has been read.\<close>

definition ipcp_req_inv ::
  "ipcp_options \<Rightarrow> bool \<Rightarrow> bytes \<Rightarrow> ipcp_options \<Rightarrow> ipcp_options \<Rightarrow> verdict \<times> bytes \<Rightarrow> ipcp_opts3 \<Rightarrow> bool" where
  "ipcp_req_inv ao rej seen wo0 go0 = (\<lambda>(rc, out) (ho, wo, go).
     length out \<le> length seen \<and> (rc = Ack \<longrightarrow> out = seen \<and> ipcp_ho_ok ao wo0 ho) \<and> (rej \<longrightarrow> rc \<noteq> Nak) \<and>
     wo\<lparr>req_addr := False\<rparr> = wo0\<lparr>req_addr := False\<rparr> \<and> go\<lparr>ouraddr := 0\<rparr> = go0\<lparr>ouraddr := 0\<rparr> \<and>
     (ouraddr go \<noteq> ouraddr go0 \<longrightarrow> accept_local wo0 \<and> ouraddr go \<noteq> 0))"

text \<open>One option, whatever it is: the verdict of a request function and what it leaves behind.\<close>

definition ci_sound :: "ipcp_options \<Rightarrow> bytes \<Rightarrow> ipcp_opts3 \<Rightarrow> ipcp_ci_result \<Rightarrow> bool" where
  "ci_sound ao body = (\<lambda>(ho, wo, go) (orc, body', ho', wo', go').
     length body' = length body \<and> (orc = Ack \<longrightarrow> body' = body) \<and>
     (orc = Ack \<and> ipcp_ho_ok ao wo ho \<longrightarrow> ipcp_ho_ok ao wo ho') \<and>
     wo'\<lparr>req_addr := False\<rparr> = wo\<lparr>req_addr := False\<rparr> \<and> go'\<lparr>ouraddr := 0\<rparr> = go\<lparr>ouraddr := 0\<rparr> \<and>
     (ouraddr go' \<noteq> ouraddr go \<longrightarrow> accept_local wo \<and> ouraddr go' \<noteq> 0))"

section \<open>Our request and its acknowledgement\<close>

lemmas ci_defs = ci_addr_def ci_vj_def ci_dns_def

lemma ipcp_request_length: "int (length (ipcp_request go)) = ipcp_cilen go"
  by (simp add: ipcp_request_def ipcp_cilen_def ci_defs)

lemma ipcp_addci_fits:
  "ipcp_addci go (ipcp_cilen go) = (ipcp_request go, ipcp_cilen go, go)"
  by (simp add: ipcp_addci_def addci_fit_def ipcp_request_def ipcp_cilen_def ci_defs)

lemma ackciaddr_iff:
  "ackciaddr neg old v1 v2 p = Some r \<longleftrightarrow> p = (if neg then ci_addr old v1 v2 else []) @ r"
proof -
  have "v = getlong a b c d \<longleftrightarrow> [a, b, c, d] = putlong v" for v a b c d
    using getlong_eq_iff by metis
  then show ?thesis
    by (auto simp: ackciaddr_def ci_addr_def putlong_def split: list.split)
qed

lemma ackcidns_iff: "ackcidns opt neg v p = Some r \<longleftrightarrow> p = (if neg then ci_dns opt v else []) @ r"
proof -
  have "v = getlong a b c d \<longleftrightarrow> [a, b, c, d] = putlong v" for v a b c d
    using getlong_eq_iff by metis
  then show ?thesis
    by (auto simp: ackcidns_def ci_dns_def putlong_def split: list.split)
qed

lemma uint_eq_iff: "0 \<le> n \<Longrightarrow> n < 256 \<Longrightarrow> uint (c :: u8) = n \<longleftrightarrow> c = word_of_int n"
  by (auto simp: uint_word_of_int_eq take_bit_int_eq_self)

lemma ackcivj_iff:
  assumes "0 \<le> val" "val < 65536" "0 \<le> slots" "slots < 256"
  shows "ackcivj neg val old slots cf p = Some r \<longleftrightarrow> p = (if neg then ci_vj val old slots cf else []) @ r"
  using assms
  by (auto simp: ackcivj_def ci_vj_def getshort_eq_iff uint_eq_iff putshort_def split: list.split)

lemma ipcp_ackci_iff:
  assumes "ipcp_ranges go"
  shows "ipcp_ackci go p \<longleftrightarrow> p = ipcp_request go"
  using assms
  by (auto simp: ipcp_ackci_def case_bind_iff bind_eq_Some_conv ackciaddr_iff ackcidns_iff
      ackcivj_iff ipcp_ranges_def ipcp_request_def)

section \<open>The peer's Nak\<close>

lemma nakciaddr_ok:
  "ipcp_nak_ok go tr \<Longrightarrow> ipcp_nak_ok go (snd (snd (nakciaddr go (p, no, tr))))"
  by (auto simp: nakciaddr_def ipcp_nak_ok_def Let_def split: list.split)

lemma nakcivj_ok: "ipcp_nak_ok go tr \<Longrightarrow> ipcp_nak_ok go (snd (snd (nakcivj go (p, no, tr))))"
  by (auto simp: nakcivj_def ipcp_nak_ok_def Let_def split: list.split)

lemma nakcidns_ok:
  assumes "ipcp_nak_ok go tr" and "\<And>v t. ipcp_nak_ok go t \<Longrightarrow> neg \<Longrightarrow> ipcp_nak_ok go (set_dns v t)"
  shows "ipcp_nak_ok go (snd (snd (nakcidns opt neg mark set_dns (p, no, tr))))"
  using assms by (auto simp: nakcidns_def split: list.split)

lemma ipcp_nak_known_ok: "ipcp_nak_ok go (snd (snd (ipcp_nak_known go p)))"
proof -
  obtain p1 n1 t1 where 1: "nakciaddr go (p, ipcp_zero, go) = (p1, n1, t1)" by (rule prod_cases3)
  obtain p2 n2 t2 where 2: "nakcivj go (p1, n1, t1) = (p2, n2, t2)" by (rule prod_cases3)
  have "ipcp_nak_ok go go" by (simp add: ipcp_nak_ok_def)
  then have "ipcp_nak_ok go t2"
    using nakciaddr_ok [of go go p ipcp_zero] nakcivj_ok [of go t1 p1 n1] 1 2 by simp
  moreover obtain p3 n3 t3 where 3: "nakcidns CI_MS_DNS1 (req_dns1 go) (\<lambda>no. no\<lparr>req_dns1 := True\<rparr>)
          (\<lambda>v tr. tr\<lparr>dnsaddr := (v, snd (dnsaddr tr))\<rparr>) (p2, n2, t2) = (p3, n3, t3)"
    by (rule prod_cases3)
  ultimately have "ipcp_nak_ok go t3"
    using nakcidns_ok [of go t2 "req_dns1 go" "\<lambda>v tr. tr\<lparr>dnsaddr := (v, snd (dnsaddr tr))\<rparr>" CI_MS_DNS1
        "\<lambda>no. no\<lparr>req_dns1 := True\<rparr>" p2 n2]
    by (simp add: ipcp_nak_ok_def)
  then show ?thesis
    unfolding ipcp_nak_known_def 1 2 3 by (rule nakcidns_ok) (simp add: ipcp_nak_ok_def)
qed

lemma ipcp_nak_ok_upd:
  assumes "ipcp_nak_ok go t"
  shows "v \<noteq> 0 \<Longrightarrow> accept_local go \<Longrightarrow> ipcp_nak_ok go (t\<lparr>ouraddr := v\<rparr>)"
    and "v \<noteq> 0 \<Longrightarrow> accept_remote go \<Longrightarrow> ipcp_nak_ok go (t\<lparr>hisaddr := v\<rparr>)"
    and "ipcp_nak_ok go (t\<lparr>old_addrs := b\<rparr>)" and "ipcp_nak_ok go (t\<lparr>neg_addr := b\<rparr>)"
  using assms by (auto simp: ipcp_nak_ok_def)

lemma if_SomeD: "(if c then None else Some (a, T)) = Some (b, t) \<Longrightarrow> t = T"
  by (simp split: if_split_asm)

lemma ipcp_nak_extra_ok:
  assumes ok: "ipcp_nak_ok go tr" and ex: "ipcp_nak_extra go citype cilen body (no, tr) = Some (no', tr')"
  shows "ipcp_nak_ok go tr'"
proof -
  have his: "ipcp_nak_ok go (if v2 \<noteq> 0 \<and> accept_remote go then t\<lparr>hisaddr := v2\<rparr> else t)"
    if "ipcp_nak_ok go t" for t v2
    using that by (simp add: ipcp_nak_ok_upd)
  have our: "ipcp_nak_ok go (if v2 \<noteq> 0 \<and> accept_local go then t\<lparr>ouraddr := v2\<rparr> else t)"
    if "ipcp_nak_ok go t" for t v2
    using that by (simp add: ipcp_nak_ok_upd)
  have neg: "ipcp_nak_ok go (if b then t\<lparr>neg_addr := True\<rparr> else t)"
    if "ipcp_nak_ok go t" for t b
    using that by (simp add: ipcp_nak_ok_upd)
  consider "citype = CI_COMPRESSTYPE" | "citype = CI_ADDRS" | "citype = CI_ADDR"
    | "citype \<notin> {CI_COMPRESSTYPE, CI_ADDRS, CI_ADDR}" by blast
  then show ?thesis
  proof cases
    case 1
    then show ?thesis using ok ex by (simp add: ipcp_nak_extra_def Let_def split: if_split_asm)
  next
    case 2
    then have "citype \<noteq> CI_COMPRESSTYPE" by (simp add: ppp_consts)
    note ex [unfolded ipcp_nak_extra_def Let_def prod.case, unfolded if_not_P [OF this] if_P [OF 2], THEN if_SomeD]
    then show ?thesis
      by (rule ssubst) (intro his our ipcp_nak_ok_upd(3,4) ok)
  next
    case 3
    then have "citype \<noteq> CI_COMPRESSTYPE" "citype \<noteq> CI_ADDRS" by (simp_all add: ppp_consts)
    note ex [unfolded ipcp_nak_extra_def Let_def prod.case, unfolded if_not_P [OF this(1)] if_not_P [OF this(2)] if_P [OF 3], THEN if_SomeD]
    then show ?thesis
      by (rule ssubst) (intro neg our ipcp_nak_ok_upd(3,4) ok)
  next
    case 4
    then show ?thesis using ok ex by (simp add: ipcp_nak_extra_def Let_def)
  qed
qed
lemma ipcp_nak_extra_other:
  "citype \<notin> {CI_ADDRS, CI_COMPRESSTYPE, CI_ADDR} \<Longrightarrow> ipcp_nak_extra go citype cilen body s = Some s"
  by (simp add: ipcp_nak_extra_def Let_def split: prod.split)

lemma ipcp_nak_rest_ok:
  assumes "ipcp_nak_rest go p s = Some (Some tr)" and "ipcp_nak_ok go (snd s)"
  shows "ipcp_nak_ok go tr"
proof -
  have "r = Some tr \<longrightarrow> ipcp_nak_ok go (snd s) \<longrightarrow> ipcp_nak_ok go tr"
    if "ipcp_nak_rest go p s = Some r" for go p s r tr
    using that
  proof (rule ipcp_nak_rest.raw_induct [rotated])
    fix rec go p s r
    assume IH: "\<And>go p s r. rec go p s = Some r \<Longrightarrow>
        r = Some tr \<longrightarrow> ipcp_nak_ok go (snd s) \<longrightarrow> ipcp_nak_ok go tr"
      and r: "(if length p \<le> 2 then Some (Some (snd s))
        else if length p < unat (p ! 1) then Some None
        else case ipcp_nak_extra go (p ! 0) (unat (p ! 1)) (drop 2 p) s of None \<Rightarrow> Some None
          | Some a \<Rightarrow> rec go (drop (unat (p ! 1)) p) a) = Some r"
    show "r = Some tr \<longrightarrow> ipcp_nak_ok go (snd s) \<longrightarrow> ipcp_nak_ok go tr"
    proof (intro impI)
      assume rt: "r = Some tr" and ok: "ipcp_nak_ok go (snd s)"
      show "ipcp_nak_ok go tr"
      proof (cases "length p \<le> 2")
        case True
        with r rt ok show ?thesis by simp
      next
        case False
        with r rt obtain s' where s': "ipcp_nak_extra go (p ! 0) (unat (p ! 1)) (drop 2 p) s = Some s'"
            "rec go (drop (unat (p ! 1)) p) s' = Some r"
          by (auto split: if_splits option.splits)
        moreover have "ipcp_nak_ok go (snd s')"
          using ipcp_nak_extra_ok [of go "snd s" _ _ _ "fst s" "fst s'" "snd s'"] s'(1) ok by simp
        ultimately show ?thesis using IH rt by blast
      qed
    qed
  qed
  with assms show ?thesis by blast
qed

lemma ipcp_nak_try_ok: "ipcp_nak_try go p = Some (Some tr) \<Longrightarrow> ipcp_nak_ok go tr"
  using ipcp_nak_known_ok [of go p]
  by (auto simp: ipcp_nak_try_def intro: ipcp_nak_rest_ok split: prod.splits)

text \<open>The loop returns when every option is longer than nothing.\<close>

lemma ipcp_nak_rest_returns:
  assumes "cis_long 1 p"
  shows "\<exists>r. ipcp_nak_rest go p s = Some r"
  using assms
proof (induction arbitrary: s rule: cis_long.induct)
  case (cis_end p)
  then show ?case by (subst ipcp_nak_rest.simps) simp
next
  case (cis_over p)
  then show ?case by (subst ipcp_nak_rest.simps) simp
next
  case (cis_next p)
  then show ?case
    by (subst ipcp_nak_rest.simps) (auto split: option.split)
qed

text \<open>An unknown option of length 0 is read again and again.\<close>

lemma ipcp_nak_rest_stuck:
  assumes "2 < length p" and "p ! 1 = 0" and "p ! 0 \<notin> {CI_ADDRS, CI_COMPRESSTYPE, CI_ADDR}"
  shows "ipcp_nak_rest go p s = None"
proof (rule ccontr)
  assume "ipcp_nak_rest go p s \<noteq> None"
  then obtain r where r: "ipcp_nak_rest go p s = Some r" by auto
  have "\<not> (2 < length p \<and> p ! 1 = 0 \<and> p ! 0 \<notin> {CI_ADDRS, CI_COMPRESSTYPE, CI_ADDR})"
    if "ipcp_nak_rest go p s = Some r" for go p s r
    using that
  proof (rule ipcp_nak_rest.raw_induct [rotated])
    fix rec :: "ipcp_options \<Rightarrow> bytes \<Rightarrow> ipcp_options \<times> ipcp_options \<Rightarrow> ipcp_options option option" and go p s r
    assume IH: "\<And>go p s r. rec go p s = Some r \<Longrightarrow>
        \<not> (2 < length p \<and> p ! 1 = 0 \<and> p ! 0 \<notin> {CI_ADDRS, CI_COMPRESSTYPE, CI_ADDR})"
      and r: "(if length p \<le> 2 then Some (Some (snd s))
        else if length p < unat (p ! 1) then Some None
        else case ipcp_nak_extra go (p ! 0) (unat (p ! 1)) (drop 2 p) s of None \<Rightarrow> Some None
          | Some a \<Rightarrow> rec go (drop (unat (p ! 1)) p) a) = Some r"
    show "\<not> (2 < length p \<and> p ! 1 = 0 \<and> p ! 0 \<notin> {CI_ADDRS, CI_COMPRESSTYPE, CI_ADDR})"
    proof
      assume p: "2 < length p \<and> p ! 1 = 0 \<and> p ! 0 \<notin> {CI_ADDRS, CI_COMPRESSTYPE, CI_ADDR}"
      with r have "rec go p s = Some r"
        by (simp add: ipcp_nak_extra_other del: One_nat_def)
      with IH p show False by blast
    qed
  qed
  with r assms show False by blast
qed

section \<open>The peer's request\<close>

lemma ipcp_ho_ok_wo [simp]: "ipcp_ho_ok ao (wo\<lparr>req_addr := b\<rparr>) ho = ipcp_ho_ok ao wo ho"
  by (simp add: ipcp_ho_ok_def)

lemma req_hisaddr_Ack:
  "req_hisaddr wo a = Ack \<Longrightarrow> a \<noteq> 0 \<and> (a = hisaddr wo \<or> accept_remote wo)"
  by (auto simp: req_hisaddr_def split: if_splits)

lemma ipcp_req_addr_sound: "ci_sound ao body s (ipcp_req_addr ao rej body s)"
  by (cases s) (auto simp: ci_sound_def ipcp_req_addr_def Let_def ipcp_ho_ok_def
      dest!: req_hisaddr_Ack split: list.split)

lemma ipcp_req_addrs_sound: "ci_sound ao body s (ipcp_req_addrs ao rej body s)"
  by (cases s) (auto simp: ci_sound_def ipcp_req_addrs_def Let_def ipcp_ho_ok_def
      dest!: req_hisaddr_Ack split: list.split)

lemma ipcp_req_ns_sound: "ci_sound ao body s (ipcp_req_ns addr body s)"
  by (cases s) (auto simp: ci_sound_def ipcp_req_ns_def split: list.split)

lemma ipcp_req_vj_sound: "ci_sound ao body s (ipcp_req_vj ao rej body s)"
  by (cases s) (auto simp: ci_sound_def ipcp_req_vj_def Let_def ipcp_ho_ok_def split: list.split)

lemma ipcp_req_ci_sound: "ci_sound ao body s (ipcp_req_ci ao rej citype body s)"
  using ipcp_req_addr_sound ipcp_req_addrs_sound ipcp_req_ns_sound ipcp_req_vj_sound
  by (cases s) (auto simp: ipcp_req_ci_def, simp add: ci_sound_def)

lemma ipcp_settle_inv:
  assumes inv: "ipcp_req_inv ao rej seen wo0 go0 r (ho, wo, go)"
    and ci: "ci_sound ao body (ho, wo, go) (orc, body', ho', wo', go')"
  shows "ipcp_req_inv ao rej (seen @ hd2 @ body) wo0 go0 (ipcp_settle rej (hd2 @ body') orc r) (ho', wo', go')"
proof -
  obtain rc out where r: "r = (rc, out)" by (cases r)
  have wo: "wo\<lparr>req_addr := False\<rparr> = wo0\<lparr>req_addr := False\<rparr>"
    and go: "go\<lparr>ouraddr := 0\<rparr> = go0\<lparr>ouraddr := 0\<rparr>"
    using inv r by (auto simp: ipcp_req_inv_def)
  have wo': "wo'\<lparr>req_addr := False\<rparr> = wo0\<lparr>req_addr := False\<rparr>"
    and go': "go'\<lparr>ouraddr := 0\<rparr> = go0\<lparr>ouraddr := 0\<rparr>"
    using ci wo go by (simp_all add: ci_sound_def)
  have acc: "accept_local wo = accept_local wo0" "ipcp_ho_ok ao wo h = ipcp_ho_ok ao wo0 h" for h
    using arg_cong [OF wo, of accept_local] arg_cong [OF wo, of "\<lambda>wo. ipcp_ho_ok ao wo h"] by simp_all
  define r' where "r' = ipcp_settle rej (hd2 @ body') orc r"
  have i: "length out \<le> length seen" "rc = Ack \<longrightarrow> out = seen \<and> ipcp_ho_ok ao wo0 ho" "rej \<longrightarrow> rc \<noteq> Nak"
      "ouraddr go \<noteq> ouraddr go0 \<longrightarrow> accept_local wo0 \<and> ouraddr go \<noteq> 0"
    using inv by (simp_all add: ipcp_req_inv_def r)
  have c: "length body' = length body" "orc = Ack \<longrightarrow> body' = body"
      "orc = Ack \<and> ipcp_ho_ok ao wo0 ho \<longrightarrow> ipcp_ho_ok ao wo0 ho'"
      "ouraddr go' \<noteq> ouraddr go \<longrightarrow> accept_local wo0 \<and> ouraddr go' \<noteq> 0"
    using ci acc by (simp_all add: ci_sound_def)
  have "length (snd r') \<le> length (seen @ hd2 @ body)"
    using i(1) c(1) by (cases orc; cases rc) (simp_all add: r r'_def ipcp_settle_def)
  moreover have "fst r' = Ack \<longrightarrow> snd r' = seen @ hd2 @ body \<and> ipcp_ho_ok ao wo0 ho'"
    using i(2) c(2,3) by (cases orc; cases rc) (auto simp: r r'_def ipcp_settle_def)
  moreover have "rej \<longrightarrow> fst r' \<noteq> Nak"
    using i(3) by (cases orc; cases rc) (auto simp: r r'_def ipcp_settle_def)
  moreover have "ouraddr go' \<noteq> ouraddr go0 \<longrightarrow> accept_local wo0 \<and> ouraddr go' \<noteq> 0"
    using i(4) c(4) by metis
  ultimately show ?thesis
    using wo' go' unfolding r'_def [symmetric] by (cases r') (simp add: ipcp_req_inv_def)
qed

lemma ci_sound_bad: "ci_sound ao l s (Rej, l, s)"
  by (cases s) (simp add: ci_sound_def)

lemma ipcp_req_loop_inv:
  "ipcp_req_inv ao rej seen wo0 go0 r s \<Longrightarrow>
   ipcp_req_inv ao rej (seen @ l) wo0 go0 (fst (ipcp_req_loop ao rej l r s)) (snd (ipcp_req_loop ao rej l r s))"
proof (induction ao rej l r s arbitrary: seen rule: ipcp_req_loop.induct)
  case (1 ao rej l r s)
  obtain ho wo go where s: "s = (ho, wo, go)" by (rule prod_cases3)
  consider "l = []" | "l \<noteq> []" "bad_ci l" | "l \<noteq> []" "\<not> bad_ci l" by blast
  then show ?case
  proof cases
    case 1
    with "1.prems" show ?thesis by (subst (1 2) ipcp_req_loop.simps) simp
  next
    case 2
    then show ?thesis
      using ipcp_settle_inv [OF "1.prems" [unfolded s] ci_sound_bad [of ao l "(ho, wo, go)", unfolded prod.case], of "[]"]
      by (subst (1 2) ipcp_req_loop.simps) (simp add: s)
  next
    case 3
    define n where "n = unat (l ! 1)"
    obtain orc body ho' wo' go' where ci: "ipcp_req_ci ao rej (l ! 0) (drop 2 (take n l)) s = (orc, body, ho', wo', go')"
      by (metis prod_cases5)
    have "2 \<le> n"
      using 3 by (simp add: bad_ci_def n_def)
    then have n: "take 2 l @ drop 2 (take n l) = take n l"
      using append_take_drop_id [of 2 "take n l"] by (simp add: min_def)
    have "ipcp_req_inv ao rej (seen @ take n l) wo0 go0
        (ipcp_settle rej (take 2 l @ body) orc r) (ho', wo', go')"
      using ipcp_settle_inv [OF "1.prems" [unfolded s] ipcp_req_ci_sound
          [of ao "drop 2 (take n l)" "(ho, wo, go)" rej "l ! 0", unfolded ci [unfolded s]], of "take 2 l"]
      unfolding n .
    from "1.IH" [OF 3 refl n_def ci [symmetric] refl refl this]
    have "ipcp_req_inv ao rej (seen @ l) wo0 go0
        (fst (ipcp_req_loop ao rej (drop n l) (ipcp_settle rej (take 2 l @ body) orc r) (ho', wo', go')))
        (snd (ipcp_req_loop ao rej (drop n l) (ipcp_settle rej (take 2 l @ body) orc r) (ho', wo', go')))"
      by (simp only: append_assoc append_take_drop_id)
    moreover have "ipcp_req_loop ao rej l r s =
        ipcp_req_loop ao rej (drop n l) (ipcp_settle rej (take 2 l @ body) orc r) (ho', wo', go')"
      by (subst ipcp_req_loop.simps) (simp only: 3 if_False Let_def n_def [symmetric] ci prod.case)
    ultimately show ?thesis by simp
  qed
qed

lemma ipcp_req_start: "ipcp_req_inv ao rej [] wo go (Ack, []) (ipcp_zero, wo, go)"
  by (simp add: ipcp_req_inv_def ipcp_ho_ok_def ipcp_zero_def)

lemma ipcp_req_sound:
  assumes "ipcp_req ao rej inp wo go = (code, out, ho, wo', go')"
  shows "code = CONFACK \<Longrightarrow> out = inp \<and> ipcp_ho_ok ao wo ho"
    and "length out \<le> length inp + 6"
    and "rej \<Longrightarrow> code \<noteq> CONFNAK \<and> length out \<le> length inp"
    and "go'\<lparr>ouraddr := 0\<rparr> = go\<lparr>ouraddr := 0\<rparr>"
    and "ouraddr go' \<noteq> ouraddr go \<Longrightarrow> accept_local wo \<and> ouraddr go' \<noteq> 0"
    and "wo'\<lparr>req_addr := False\<rparr> = wo\<lparr>req_addr := False\<rparr>"
proof -
  obtain rc o1 h1 w1 g1 where l: "ipcp_req_loop ao rej inp (Ack, []) (ipcp_zero, wo, go) = ((rc, o1), h1, w1, g1)"
    by (metis surj_pair)
  have inv: "ipcp_req_inv ao rej inp wo go (rc, o1) (h1, w1, g1)"
    using ipcp_req_loop_inv [OF ipcp_req_start [of ao rej wo go], of inp] by (simp add: l)
  define extra where "extra \<longleftrightarrow> rc \<noteq> Rej \<and> \<not> neg_addr h1 \<and> req_addr w1 \<and> \<not> rej"
  have r: "code = (if extra then CONFNAK else case rc of Ack \<Rightarrow> CONFACK | Nak \<Rightarrow> CONFNAK | Rej \<Rightarrow> CONFREJ)"
    "out = (if extra then (if rc = Ack then [] else o1) @ [CI_ADDR, 6] @ putlong (hisaddr w1) else o1)"
    "ho = h1" "go' = g1" "wo' = (if extra \<and> rc = Ack then w1\<lparr>req_addr := False\<rparr> else w1)"
    using assms unfolding ipcp_req_def l Let_def prod.case extra_def [symmetric] by (auto split: if_split_asm)
  have codes: "CONFNAK \<noteq> CONFACK" "CONFREJ \<noteq> CONFACK" "CONFREJ \<noteq> CONFNAK" "CONFACK \<noteq> CONFNAK"
    by (simp_all add: ppp_consts)
  have len: "length o1 \<le> length inp" and ack: "rc = Ack \<Longrightarrow> o1 = inp \<and> ipcp_ho_ok ao wo h1"
    and nonak: "rej \<Longrightarrow> rc \<noteq> Nak"
    using inv by (simp_all add: ipcp_req_inv_def)
  show "code = CONFACK \<Longrightarrow> out = inp \<and> ipcp_ho_ok ao wo ho"
    using r codes ack by (auto split: if_splits verdict.splits)
  show "length out \<le> length inp + 6"
    using r(2) len by simp
  show "rej \<Longrightarrow> code \<noteq> CONFNAK \<and> length out \<le> length inp"
    using r(1,2) codes len nonak by (auto simp: extra_def split: verdict.splits)
  show "go'\<lparr>ouraddr := 0\<rparr> = go\<lparr>ouraddr := 0\<rparr>"
    and "ouraddr go' \<noteq> ouraddr go \<Longrightarrow> accept_local wo \<and> ouraddr go' \<noteq> 0"
    and "wo'\<lparr>req_addr := False\<rparr> = wo\<lparr>req_addr := False\<rparr>"
    using inv r(4,5) by (simp_all add: ipcp_req_inv_def)
qed

text \<open>
  A name server option that is rejected is sent back with our address in it, not with the bytes of
  the request.
\<close>

lemma ipcp_req_ns_changed:
  "ipcp_req (ipcp_zero\<lparr>dnsaddr := (0x0a000001, 0)\<rparr>) True [CI_MS_DNS1, 6, 0, 0, 0, 0] ipcp_zero ipcp_zero =
   (CONFREJ, [CI_MS_DNS1, 6, 0x0a, 0, 0, 1], ipcp_zero, ipcp_zero, ipcp_zero)"
  by (simp add: ipcp_req_def ipcp_req_loop.simps bad_ci_def ipcp_req_ci_def ipcp_req_ns_def
      ipcp_settle_def ipcp_zero_def ppp_consts getlong_def putlong_def Let_def)

section \<open>The peer's Reject\<close>

lemma read_back:
  "getlong a b c d = v \<Longrightarrow> putlong v = [a, b, c, d]" "getshort a b = n \<Longrightarrow> putshort n = [a, b]"
  "uint x = n \<Longrightarrow> word_of_int n = x"
  by (auto simp: putlong_getlong putshort_getshort)

lemma rejciaddr_cases:
  assumes "rejciaddr go (tr, p) = Some (tr', p')"
  obtains r where "p = (if r then ci_addr (old_addrs go) (ouraddr go) (hisaddr go) else []) @ p'"
    and "r \<Longrightarrow> neg_addr go" and "tr' = (if r then tr\<lparr>neg_addr := False\<rparr> else tr)"
proof -
  have "(\<exists>q. p = ci_addr (old_addrs go) (ouraddr go) (hisaddr go) @ q \<and> neg_addr go \<and>
      tr' = tr\<lparr>neg_addr := False\<rparr> \<and> p' = q) \<or> tr' = tr \<and> p' = p"
    using assms
    by (auto simp: rejciaddr_def ci_addr_def read_back split: if_splits list.splits)
  then show ?thesis
    using that [of True] that [of False] by auto
qed

lemma rejcivj_cases:
  assumes "rejcivj go (tr, p) = Some (tr', p')"
  obtains r where "p = (if r then ci_vj (vj_protocol go) (old_vj go) (maxslotindex go) (cflag go) else []) @ p'"
    and "r \<Longrightarrow> neg_vj go" and "tr' = (if r then tr\<lparr>neg_vj := False\<rparr> else tr)"
proof -
  have "(\<exists>q. p = ci_vj (vj_protocol go) (old_vj go) (maxslotindex go) (cflag go) @ q \<and> neg_vj go \<and>
      tr' = tr\<lparr>neg_vj := False\<rparr> \<and> p' = q) \<or> tr' = tr \<and> p' = p"
    using assms
    by (auto simp: rejcivj_def ci_vj_def read_back split: if_splits list.splits)
  then show ?thesis
    using that [of True] that [of False] by auto
qed

lemma rejcidns_cases:
  assumes "rejcidns opt neg addr clr (tr, p) = Some (tr', p')"
  obtains r where "p = (if r then ci_dns opt addr else []) @ p'"
    and "r \<Longrightarrow> neg" and "tr' = (if r then clr tr else tr)"
proof -
  have "(\<exists>q. p = ci_dns opt addr @ q \<and> neg \<and> tr' = clr tr \<and> p' = q) \<or> tr' = tr \<and> p' = p"
    using assms
    by (auto simp: rejcidns_def ci_dns_def read_back split: if_splits list.splits)
  then show ?thesis
    using that [of True] that [of False] by auto
qed

lemma ipcp_rej_try_sound:
  assumes "ipcp_rej_try go p = Some tr"
  shows "p = ipcp_rejected go tr \<and>
    tr = go\<lparr>neg_addr := neg_addr tr, neg_vj := neg_vj tr, req_dns1 := req_dns1 tr, req_dns2 := req_dns2 tr\<rparr> \<and>
    (neg_addr tr \<longrightarrow> neg_addr go) \<and> (neg_vj tr \<longrightarrow> neg_vj go) \<and>
    (req_dns1 tr \<longrightarrow> req_dns1 go) \<and> (req_dns2 tr \<longrightarrow> req_dns2 go)"
proof -
  from assms obtain t1 t2 t3 p1 p2 p3 where m: "rejciaddr go (go, p) = Some (t1, p1)"
      "rejcivj go (t1, p1) = Some (t2, p2)"
      "rejcidns CI_MS_DNS1 (req_dns1 go) (fst (dnsaddr go)) (\<lambda>tr. tr\<lparr>req_dns1 := False\<rparr>) (t2, p2) = Some (t3, p3)"
      "rejcidns CI_MS_DNS2 (req_dns2 go) (snd (dnsaddr go)) (\<lambda>tr. tr\<lparr>req_dns2 := False\<rparr>) (t3, p3) = Some (tr, [])"
    unfolding ipcp_rej_try_def by (elim bind_pairE) (auto split: if_split_asm)
  obtain r1 where r1: "p = (if r1 then ci_addr (old_addrs go) (ouraddr go) (hisaddr go) else []) @ p1"
    "r1 \<Longrightarrow> neg_addr go" "t1 = (if r1 then go\<lparr>neg_addr := False\<rparr> else go)"
    using m(1) by (rule rejciaddr_cases) blast
  obtain r2 where r2: "p1 = (if r2 then ci_vj (vj_protocol go) (old_vj go) (maxslotindex go) (cflag go) else []) @ p2"
    "r2 \<Longrightarrow> neg_vj go" "t2 = (if r2 then t1\<lparr>neg_vj := False\<rparr> else t1)"
    using m(2) by (rule rejcivj_cases) blast
  obtain r3 where r3: "p2 = (if r3 then ci_dns CI_MS_DNS1 (fst (dnsaddr go)) else []) @ p3"
    "r3 \<Longrightarrow> req_dns1 go" "t3 = (if r3 then t2\<lparr>req_dns1 := False\<rparr> else t2)"
    using m(3) by (rule rejcidns_cases) blast
  obtain r4 where r4: "p3 = (if r4 then ci_dns CI_MS_DNS2 (snd (dnsaddr go)) else []) @ []"
    "r4 \<Longrightarrow> req_dns2 go" "tr = (if r4 then t3\<lparr>req_dns2 := False\<rparr> else t3)"
    using m(4) by (rule rejcidns_cases) blast
  have tr: "tr = go\<lparr>neg_addr := neg_addr go \<and> \<not> r1, neg_vj := neg_vj go \<and> \<not> r2,
      req_dns1 := req_dns1 go \<and> \<not> r3, req_dns2 := req_dns2 go \<and> \<not> r4\<rparr>"
    by (simp add: r1(3) r2(3) r3(3) r4(3))
  then have "p = ipcp_rejected go tr"
    using r1(1,2) r2(1,2) r3(1,2) r4(1,2) by (auto simp: ipcp_rejected_def ipcp_request_def)
  with tr show ?thesis by (simp add: tr)
qed

end
