(* ===== verification/Ppp_Softc.thy ===== *)
theory Ppp_Softc
  imports Sys_Rtems
begin

text \<open>
  The data of the kernel part of PPP (\<^verbatim>\<open>if_pppvar.h\<close>, \<^verbatim>\<open>if_ppp.h\<close>, \<^verbatim>\<open>ppp_defs.h\<close>) and the helpers that
  the interface (\<^verbatim>\<open>if_ppp.c\<close>) and the line discipline (\<^verbatim>\<open>ppp_tty.c\<close>) share. A chain of mbufs is a list,
  the null pointer the empty list; \<open>m_dat\<close> holds the \<^verbatim>\<open>m_len\<close> bytes at \<^verbatim>\<open>m_data\<close>, \<open>m_off\<close> is the distance of
  \<^verbatim>\<open>m_data\<close> from \<^verbatim>\<open>M_DATASTART\<close> and \<open>m_cap\<close> is \<^verbatim>\<open>M_DATASIZE\<close>. A queue is the list of its packets. \<open>sc_mc\<close>
  is the position of \<^verbatim>\<open>sc_mc\<close> in \<open>sc_m\<close>; \<^verbatim>\<open>sc_mp\<close> always points behind the data of that mbuf.
  \<open>sc_outmc\<close> is the rest of \<^verbatim>\<open>sc_outm\<close> from \<^verbatim>\<open>sc_outmc\<close> on, \<open>sc_outbuf\<close> the \<^verbatim>\<open>sc_outlen\<close> bytes at
  \<^verbatim>\<open>sc_outbuf\<close>. \<open>tty_out\<close> lists the buffers given to \<^verbatim>\<open>handler.write\<close> (the empty one for \<^verbatim>\<open>NULL, 0\<close>), \<open>netisr\<close>
  the packets given to IP with \<^verbatim>\<open>m_pkthdr.len\<close>, the sets \<open>ev_rx\<close> and \<open>ev_tx\<close> the pending events of the two
  tasks. \<open>sc_now\<close> is the time of day, \<open>ppp_time\<close> the time last read. \<open>m_shared\<close> says that a cluster has other
  references. \<open>sc_trap\<close> is set where the code would follow a null pointer or leave a buffer. The sizes
  \<open>MLEN\<close>, \<open>MHLEN\<close> and \<open>LONGSIZE\<close> depend on the target; \<open>MCLBYTES\<close> is that of the C library's \<^verbatim>\<open>sys/param.h\<close>.
  Offsets into the output buffer (\<^verbatim>\<open>short\<close>) stay below the length of an mbuf and do not wrap.
  \<^verbatim>\<open>NPPP\<close> is 1; \<^verbatim>\<open>PPP_COMPRESS\<close>, \<^verbatim>\<open>PPP_FILTER\<close>, \<^verbatim>\<open>VJC\<close> and \<^verbatim>\<open>XXX_XXX\<close> are not defined.
\<close>

section \<open>Definitions\<close>

definition PPP_MTU :: int where [ppp_consts]: "PPP_MTU = 1500"
definition PPP_ALLSTATIONS :: u8 where [ppp_consts]: "PPP_ALLSTATIONS = 0xff"
definition PPP_UI :: u8 where [ppp_consts]: "PPP_UI = 0x03"
definition MCLBYTES :: nat where [ppp_consts]: "MCLBYTES = 2048"
definition NUM_MBUFQ :: nat where [ppp_consts]: "NUM_MBUFQ = 64"
definition IFQ_MAXLEN :: nat where [ppp_consts]: "IFQ_MAXLEN = 50"

definition SC_COMP_PROT :: u32 where [ppp_consts]: "SC_COMP_PROT = 0x1"
definition SC_COMP_AC :: u32 where [ppp_consts]: "SC_COMP_AC = 0x2"
definition SC_REJ_COMP_AC :: u32 where [ppp_consts]: "SC_REJ_COMP_AC = 0x10"
definition SC_VJ_RESET :: u32 where [ppp_consts]: "SC_VJ_RESET = 0x800"
definition SC_RCV_B7_0 :: u32 where [ppp_consts]: "SC_RCV_B7_0 = 0x1000000"
definition SC_RCV_B7_1 :: u32 where [ppp_consts]: "SC_RCV_B7_1 = 0x2000000"
definition SC_RCV_EVNP :: u32 where [ppp_consts]: "SC_RCV_EVNP = 0x4000000"
definition SC_RCV_ODDP :: u32 where [ppp_consts]: "SC_RCV_ODDP = 0x8000000"
definition SC_PKTLOST :: u32 where [ppp_consts]: "SC_PKTLOST = 0x20000000"
definition SC_FLUSH :: u32 where [ppp_consts]: "SC_FLUSH = 0x40000000"
definition SC_ESCAPED :: u32 where [ppp_consts]: "SC_ESCAPED = 0x80000000"
definition SC_MASK :: u32 where [ppp_consts]: "SC_MASK = 0x0fff00ff"

definition SC_TX_BUSY :: "16 word" where [ppp_consts]: "SC_TX_BUSY = 0x1"
definition SC_TX_FCS :: "16 word" where [ppp_consts]: "SC_TX_FCS = 0x2"
definition SC_TX_ESCAPE :: "16 word" where [ppp_consts]: "SC_TX_ESCAPE = 0x4"
definition SC_TX_LASTCHAR :: "16 word" where [ppp_consts]: "SC_TX_LASTCHAR = 0x8"
definition SC_TX_PENDING :: "16 word" where [ppp_consts]: "SC_TX_PENDING = 0x10"

record abi =
  MLEN :: nat
  MHLEN :: nat
  LONGSIZE :: nat

record mbuf =
  m_off :: nat
  m_dat :: bytes
  m_cap :: nat
  m_ext :: bool
  m_pkthdr :: bool
  m_rdonly :: bool
  m_shared :: bool
  m_highpri :: bool
  m_errmark :: bool

type_synonym mchain = "mbuf list"

record pppstat =
  ppp_ibytes :: u32
  ppp_ipackets :: u32
  ppp_ierrors :: u32
  ppp_obytes :: u32
  ppp_opackets :: u32
  ppp_oerrors :: u32

datatype rx_event = RX_PACKET | RX_MBUF | RX_EMPTY

datatype tx_event = TX_PACKET | TX_TRANSMIT

text \<open>The counters of the interface and the fields of \<^verbatim>\<open>struct ifnet\<close> that the driver uses.\<close>

record if_count =
  c_ipackets :: nat
  c_ibytes :: nat
  c_ierrors :: nat
  c_iqdrops :: nat
  c_opackets :: nat
  c_obytes :: nat
  c_oerrors :: nat
  c_oqdrops :: nat

record ifnet =
  if_up :: bool
  if_running :: bool
  if_oactive :: bool
  if_mtu :: int
  if_baudrate :: int
  if_lastchange :: int
  if_snd :: "mchain list"
  if_cnt :: if_count

record ppp_softc =
  sc_ifp :: ifnet
  sc_flags :: u32
  sc_devp :: "nat option"
  sc_mru :: int
  sc_xfer :: int
  sc_rawq :: "mchain list"
  sc_inq :: "mchain list"
  sc_fastq :: "mchain list"
  sc_npqueue :: "mchain list"
  sc_stats :: pppstat
  sc_npmode :: npmode
  sc_last_sent :: int
  sc_last_recv :: int
  sc_asyncmap :: "u32 list"
  sc_rasyncmap :: u32
  sc_outm :: mchain
  sc_outmc :: mchain
  sc_m :: mchain
  sc_mc :: nat
  sc_ilen :: int
  sc_fcs :: "16 word"
  sc_outfcs :: "16 word"
  sc_freeq :: "mchain list"
  sc_outoff :: nat
  sc_outoff_upd :: bool
  sc_outflag :: "16 word"
  sc_outbuf :: bytes
  sc_outfcsbuf :: bytes
  sc_pppdtask :: nat
  sc_abi :: abi
  sc_now :: int
  ppp_time :: int
  ev_rx :: "rx_event set"
  ev_tx :: "tx_event set"
  ev_pppd :: bool
  tty_out :: "bytes list"
  netisr :: "(int \<times> mchain) list"
  sc_trap :: bool

text \<open>What the discipline uses of \<^verbatim>\<open>struct rtems_termios_tty\<close>; \<open>t_sc\<close> says whether \<^verbatim>\<open>t_sc\<close> is set.\<close>

record tty =
  t_dev :: nat
  t_pppdisc :: bool
  t_sc :: bool
  t_polled :: bool
  t_ospeed :: int

datatype kerror = K_OK | K_ENXIO | K_EINVAL | K_ENETDOWN | K_EAFNOSUPPORT | K_ENOBUFS | K_MINUS1

subsection \<open>Mbufs\<close>

definition M_WRITABLE :: "mbuf \<Rightarrow> bool" where
  "M_WRITABLE m \<longleftrightarrow> \<not> m_rdonly m \<and> \<not> (m_ext m \<and> m_shared m)"

definition M_TRAILINGSPACE :: "mbuf \<Rightarrow> int" where
  "M_TRAILINGSPACE m = (if M_WRITABLE m then int (m_cap m) - int (m_off m) - int (length (m_dat m)) else 0)"

definition M_LEADINGSPACE :: "mbuf \<Rightarrow> nat" where
  "M_LEADINGSPACE m = (if M_WRITABLE m then m_off m else 0)"

definition new_mbuf :: "nat \<Rightarrow> bool \<Rightarrow> bool \<Rightarrow> mbuf" where
  "new_mbuf cap ext hdr =
     \<lparr>m_off = 0, m_dat = [], m_cap = cap, m_ext = ext, m_pkthdr = hdr, m_rdonly = False, m_shared = False,
      m_highpri = False, m_errmark = False\<rparr>"

definition MGET :: "abi \<Rightarrow> mbuf" where "MGET a = new_mbuf (MLEN a) False False"
definition MGETHDR :: "abi \<Rightarrow> mbuf" where "MGETHDR a = new_mbuf (MHLEN a) False True"
definition MCLGET :: "mbuf \<Rightarrow> mbuf" where "MCLGET m = m\<lparr>m_off := 0, m_cap := MCLBYTES, m_ext := True\<rparr>"

text \<open>\<^verbatim>\<open>m_data += n; m_len -= n\<close>.\<close>

definition m_skip :: "nat \<Rightarrow> mbuf \<Rightarrow> mbuf" where
  "m_skip n m = m\<lparr>m_off := m_off m + n, m_dat := drop n (m_dat m)\<rparr>"

definition m_bytes :: "mchain \<Rightarrow> bytes" where
  "m_bytes ms = concat (map m_dat ms)"

definition m_length :: "mchain \<Rightarrow> nat" where
  "m_length ms = sum_list (map (\<lambda>m. length (m_dat m)) ms)"

subsection \<open>Queues and events\<close>

definition if_ppp_enqueue :: "'m list \<Rightarrow> 'm \<Rightarrow> 'm list" where
  "if_ppp_enqueue q m = q @ [m]"

definition if_ppp_dequeue :: "mchain list \<Rightarrow> mchain \<times> mchain list" where
  "if_ppp_dequeue q = (case q of [] \<Rightarrow> ([], []) | m # q \<Rightarrow> (m, q))"

definition IF_QFULL :: "mchain list \<Rightarrow> bool" where
  "IF_QFULL q \<longleftrightarrow> IFQ_MAXLEN \<le> length q"

definition rx_event_send :: "rx_event \<Rightarrow> ppp_softc \<Rightarrow> ppp_softc" where
  "rx_event_send e sc = sc\<lparr>ev_rx := insert e (ev_rx sc)\<rparr>"

definition tx_event_send :: "tx_event \<Rightarrow> ppp_softc \<Rightarrow> ppp_softc" where
  "tx_event_send e sc = sc\<lparr>ev_tx := insert e (ev_tx sc)\<rparr>"

definition tty_write :: "bytes \<Rightarrow> ppp_softc \<Rightarrow> ppp_softc" where
  "tty_write b sc = sc\<lparr>tty_out := tty_out sc @ [b]\<rparr>"

definition trap_if :: "bool \<Rightarrow> ppp_softc \<Rightarrow> ppp_softc" where
  "trap_if b sc = (if b then sc\<lparr>sc_trap := True\<rparr> else sc)"

text \<open>\<^verbatim>\<open>if_inc_counter(ifp, IFCOUNTER_IERRORS, 1); sc_stats.ppp_ierrors++\<close>, and the same for output.\<close>

definition count_ierror :: "ppp_softc \<Rightarrow> ppp_softc" where
  "count_ierror sc = sc\<lparr>sc_ifp := (sc_ifp sc)\<lparr>if_cnt := (if_cnt (sc_ifp sc))\<lparr>c_ierrors := c_ierrors (if_cnt (sc_ifp sc)) + 1\<rparr>\<rparr>,
     sc_stats := (sc_stats sc)\<lparr>ppp_ierrors := ppp_ierrors (sc_stats sc) + 1\<rparr>\<rparr>"

definition count_oerror :: "ppp_softc \<Rightarrow> ppp_softc" where
  "count_oerror sc = sc\<lparr>sc_ifp := (sc_ifp sc)\<lparr>if_cnt := (if_cnt (sc_ifp sc))\<lparr>c_oerrors := c_oerrors (if_cnt (sc_ifp sc)) + 1\<rparr>\<rparr>,
     sc_stats := (sc_stats sc)\<lparr>ppp_oerrors := ppp_oerrors (sc_stats sc) + 1\<rparr>\<rparr>"

definition count_iqdrop :: "ppp_softc \<Rightarrow> ppp_softc" where
  "count_iqdrop sc = sc\<lparr>sc_ifp := (sc_ifp sc)\<lparr>if_cnt := (if_cnt (sc_ifp sc))\<lparr>c_iqdrops := c_iqdrops (if_cnt (sc_ifp sc)) + 1\<rparr>\<rparr>\<rparr>"

definition count_oqdrop :: "ppp_softc \<Rightarrow> ppp_softc" where
  "count_oqdrop sc = sc\<lparr>sc_ifp := (sc_ifp sc)\<lparr>if_cnt := (if_cnt (sc_ifp sc))\<lparr>c_oqdrops := c_oqdrops (if_cnt (sc_ifp sc)) + 1\<rparr>\<rparr>\<rparr>"

definition microtime :: "ppp_softc \<Rightarrow> ppp_softc" where
  "microtime sc = sc\<lparr>ppp_time := sc_now sc\<rparr>"

definition count_ipacket :: "nat \<Rightarrow> ppp_softc \<Rightarrow> ppp_softc" where
  "count_ipacket n sc = sc\<lparr>sc_ifp := (sc_ifp sc)\<lparr>if_lastchange := ppp_time sc,
     if_cnt := (if_cnt (sc_ifp sc))\<lparr>c_ipackets := c_ipackets (if_cnt (sc_ifp sc)) + 1,
       c_ibytes := c_ibytes (if_cnt (sc_ifp sc)) + n\<rparr>\<rparr>\<rparr>"

definition count_opacket :: "nat \<Rightarrow> ppp_softc \<Rightarrow> ppp_softc" where
  "count_opacket n sc = sc\<lparr>sc_ifp := (sc_ifp sc)\<lparr>if_lastchange := ppp_time sc,
     if_cnt := (if_cnt (sc_ifp sc))\<lparr>c_opackets := c_opackets (if_cnt (sc_ifp sc)) + 1,
       c_obytes := c_obytes (if_cnt (sc_ifp sc)) + n\<rparr>\<rparr>\<rparr>"

subsection \<open>Shared functions of \<^verbatim>\<open>ppp_tty.c\<close>\<close>

fun pppfcs :: "16 word \<Rightarrow> bytes \<Rightarrow> 16 word" where
  "pppfcs v [] = v"
| "pppfcs v (c # cp) = pppfcs (PPP_FCS v c) cp"

definition pppasyncstart :: "ppp_softc \<Rightarrow> ppp_softc" where
  "pppasyncstart sc =
     (if sc_outflag sc = 0
      then tx_event_send TX_PACKET (sc\<lparr>sc_outflag := sc_outflag sc OR SC_TX_PENDING\<rparr>) else sc)"

definition pppasyncctlp :: "ppp_softc \<Rightarrow> ppp_softc" where
  "pppasyncctlp sc = (if sc_pppdtask sc \<noteq> 0 then sc\<lparr>ev_pppd := True\<rparr> else sc)"

text \<open>The loop of \<^verbatim>\<open>pppallocmbuf\<close>: existing mbufs are kept, new clusters are added at the end.\<close>

function pppallocmbuf_loop :: "abi \<Rightarrow> int \<Rightarrow> mchain \<Rightarrow> mchain" where
  "pppallocmbuf_loop a ilen ms =
     (if ilen \<le> 0 then ms
      else case ms of
        [] \<Rightarrow> MCLGET (MGETHDR a) # pppallocmbuf_loop a (ilen - int MCLBYTES) []
      | m # ms \<Rightarrow> m # pppallocmbuf_loop a (ilen - int (m_cap m)) ms)"
  by pat_completeness auto
termination
  by (relation "measures [\<lambda>(a, i, ms). length ms, \<lambda>(a, i, ms). nat i]") (auto simp: MCLBYTES_def)

declare pppallocmbuf_loop.simps [simp del]

definition pppallocmbuf :: "ppp_softc \<Rightarrow> mchain \<Rightarrow> mchain" where
  "pppallocmbuf sc mp =
     pppallocmbuf_loop (sc_abi sc) (sc_mru sc + int PPP_HDRLEN + int PPP_FCSLEN) mp"

section \<open>Lemmas\<close>

subsection \<open>Flag words\<close>

lemma flag_or: "(x OR f) AND b \<noteq> 0 \<longleftrightarrow> x AND b \<noteq> 0 \<or> f AND b \<noteq> 0" for x :: "'a::len word"
  by (simp add: bit.conj_disj_distrib2 or_eq_0_iff)

lemma flag_keep:
  fixes x :: "'a::len word"
  assumes "f AND b = 0"
  shows "(x AND NOT f) AND b = x AND b"
proof (rule bit_word_eqI)
  fix n
  have "\<not> (bit f n \<and> bit b n)"
    using assms by (metis bit_0_eq bit_and_iff bot_apply bot_bool_def)
  then show "bit ((x AND NOT f) AND b) n = bit (x AND b) n" if "n < LENGTH('a)"
    using that by (auto simp: bit_simps)
qed

lemma flag_clear: "(x AND NOT f) AND f = 0" for x :: "'a::len word"
  by (simp add: and.assoc)

subsection \<open>Packets\<close>

lemma pppfcs_fold: "pppfcs v cp = fold (\<lambda>c v. PPP_FCS v c) cp v"
  by (induction cp arbitrary: v) simp_all

lemma pppfcs_append: "pppfcs v (p @ q) = pppfcs (pppfcs v p) q"
  by (simp add: pppfcs_fold)

lemma m_length_bytes: "m_length ms = length (m_bytes ms)"
  by (simp add: m_length_def m_bytes_def length_concat comp_def)

lemma m_bytes_simps [simp]:
  "m_bytes [] = []" "m_bytes (m # ms) = m_dat m @ m_bytes ms" "m_bytes (ms @ ns) = m_bytes ms @ m_bytes ns"
  by (simp_all add: m_bytes_def)

text \<open>For an MRU within a cluster less the six bytes of header and check sequence, one cluster is
  allocated.\<close>

lemma pppallocmbuf_cluster:
  assumes "0 < sc_mru sc + 6" and "sc_mru sc + 6 \<le> int MCLBYTES"
  shows "pppallocmbuf sc [] = [MCLGET (MGETHDR (sc_abi sc))]"
  using assms
  by (simp add: pppallocmbuf_def pppallocmbuf_loop.simps [of _ _ "[]"] PPP_HDRLEN_def PPP_FCSLEN_def)

text \<open>The allocated chain has room for a whole frame.\<close>

lemma pppallocmbuf_loop_room:
  "ilen \<le> int (sum_list (map m_cap (pppallocmbuf_loop a ilen ms))) \<or> ilen \<le> 0"
proof (induction a ilen ms rule: pppallocmbuf_loop.induct)
  case (1 a ilen ms)
  then show ?case
    by (cases ms) (subst pppallocmbuf_loop.simps, force simp: MCLGET_def MGETHDR_def new_mbuf_def)+
qed

end
