(* ===== verification/If_Ppp.thy ===== *)
theory If_Ppp
  imports Ppp_Softc
begin

text \<open>
  The network interface of PPP (\<^verbatim>\<open>if_ppp.c\<close>): allocation of the unit, the requests of the daemon and of the
  network stack, output with the modes of the network protocol and the two priorities, the compression
  of the header, the treatment of received packets, and one round of each of the two tasks. The
  function pointers \<^verbatim>\<open>sc_start\<close>, \<^verbatim>\<open>sc_ctlp\<close> and \<^verbatim>\<open>sc_relinq\<close> only ever hold the functions of
  \<^verbatim>\<open>ppp_tty.c\<close>, which are called directly; \<^verbatim>\<open>pppasyncrelinq\<close> is empty. \<open>mem\<close> says whether an allocation
  that does not wait succeeds.
\<close>

section \<open>Definitions\<close>

subsection \<open>The unit\<close>

definition zero_stats :: pppstat where
  "zero_stats = \<lparr>ppp_ibytes = 0, ppp_ipackets = 0, ppp_ierrors = 0, ppp_obytes = 0, ppp_opackets = 0,
     ppp_oerrors = 0\<rparr>"

text \<open>\<^verbatim>\<open>pppalloc\<close>: whether the unit is given, and the unit.\<close>

definition pppalloc :: "int \<Rightarrow> ppp_softc \<Rightarrow> bool \<times> ppp_softc" where
  "pppalloc pid sc =
     (if sc_xfer sc = pid then (True, sc\<lparr>sc_xfer := 0\<rparr>)
      else if sc_devp sc \<noteq> None then (False, sc)
      else (True, (microtime sc)\<lparr>sc_flags := 0, sc_mru := PPP_MRU, sc_stats := zero_stats, sc_npmode := NPMODE_ERROR,
              sc_npqueue := [], sc_last_sent := sc_now sc, sc_last_recv := sc_now sc\<rparr>))"

text \<open>\<^verbatim>\<open>if_down\<close> takes the interface down and empties its send queue.\<close>

definition if_down :: "ppp_softc \<Rightarrow> ppp_softc" where
  "if_down sc = sc\<lparr>sc_ifp := (sc_ifp sc)\<lparr>if_up := False, if_lastchange := sc_now sc, if_snd := []\<rparr>\<rparr>"

definition pppdealloc :: "ppp_softc \<Rightarrow> ppp_softc" where
  "pppdealloc sc =
     (let sc = if_down sc;
          sc = sc\<lparr>sc_ifp := (sc_ifp sc)\<lparr>if_up := False, if_running := False\<rparr>, sc_devp := None, sc_xfer := 0,
                 sc_m := []\<rparr>;
          sc = (if sc_outm sc \<noteq> [] then sc\<lparr>sc_outm := [], sc_outmc := [], sc_outflag := 0\<rparr> else sc)
      in sc\<lparr>sc_freeq := [], sc_rawq := [], sc_inq := [], sc_fastq := [], sc_npqueue := []\<rparr>)"

subsection \<open>Moving held packets\<close>

definition ppp_protocol :: "bytes \<Rightarrow> int" where
  "ppp_protocol cp = getshort (cp ! 2) (cp ! 3)"

definition np_mode :: "int \<Rightarrow> ppp_softc \<Rightarrow> npmode" where
  "np_mode proto sc = (if proto = PPP_IP then sc_npmode sc else NPMODE_PASS)"

text \<open>A packet on one of the two output queues.\<close>

definition enqueue_out :: "mchain \<Rightarrow> ppp_softc \<Rightarrow> ppp_softc" where
  "enqueue_out m sc =
     (if m_highpri (hd m) then sc\<lparr>sc_fastq := if_ppp_enqueue (sc_fastq sc) m\<rparr>
      else sc\<lparr>sc_ifp := (sc_ifp sc)\<lparr>if_snd := if_ppp_enqueue (if_snd (sc_ifp sc)) m\<rparr>\<rparr>)"

definition out_queue :: "mchain \<Rightarrow> ppp_softc \<Rightarrow> mchain list" where
  "out_queue m sc = (if m_highpri (hd m) then sc_fastq sc else if_snd (sc_ifp sc))"

text \<open>The loop of \<^verbatim>\<open>ppp_requeue\<close> over the held packets; those that stay are returned.\<close>

fun ppp_requeue_loop :: "mchain list \<Rightarrow> ppp_softc \<Rightarrow> mchain list \<times> ppp_softc" where
  "ppp_requeue_loop [] sc = ([], sc)"
| "ppp_requeue_loop (m # q) sc =
     (case np_mode (ppp_protocol (m_dat (hd m))) sc of
        NPMODE_PASS \<Rightarrow>
          if IF_QFULL (out_queue m sc) then ppp_requeue_loop q (count_oerror (count_oqdrop sc))
          else ppp_requeue_loop q (enqueue_out m sc)
      | NPMODE_QUEUE \<Rightarrow> (let (kept, sc) = ppp_requeue_loop q sc in (m # kept, sc))
      | _ \<Rightarrow> ppp_requeue_loop q sc)"

definition ppp_requeue :: "ppp_softc \<Rightarrow> ppp_softc" where
  "ppp_requeue sc =
     (let (kept, sc) = ppp_requeue_loop (sc_npqueue sc) sc in sc\<lparr>sc_npqueue := kept\<rparr>)"

subsection \<open>Requests\<close>

datatype ppp_request =
    FIONREAD | STASK nat | GUNIT | GFLAGS | SFLAGS u32 | SMRU int | GMRU | XFERUNIT
  | GNPMODE int | SNPMODE int npmode | GIDLE | OTHER_REQUEST

datatype ppp_answer = A_NONE | A_INT int | A_FLAGS u32 | A_MODE npmode | A_IDLE int int | A_MAPS "u32 list"

definition pppioctl :: "ppp_request \<Rightarrow> ppp_softc \<Rightarrow> kerror \<times> ppp_answer \<times> ppp_softc" where
  "pppioctl cmd sc =
     (case cmd of
        FIONREAD \<Rightarrow> (K_OK, A_INT (int (length (sc_inq sc))), sc)
      | STASK t \<Rightarrow> (K_OK, A_NONE, sc\<lparr>sc_pppdtask := t\<rparr>)
      | GUNIT \<Rightarrow> (K_OK, A_INT 0, sc)
      | GFLAGS \<Rightarrow> (K_OK, A_FLAGS (sc_flags sc), sc)
      | SFLAGS f \<Rightarrow>
          (K_OK, A_NONE, sc\<lparr>sc_flags := (sc_flags sc AND NOT SC_MASK) OR (f AND SC_MASK)\<rparr>)
      | SMRU n \<Rightarrow>
          if n \<ge> int MCLBYTES then (K_MINUS1, A_NONE, sc)
          else if n \<ge> PPP_MRU then (K_OK, A_NONE, sc\<lparr>sc_mru := n\<rparr>)
          else (K_OK, A_NONE, sc)
      | GMRU \<Rightarrow> (K_OK, A_INT (sc_mru sc), sc)
      | XFERUNIT \<Rightarrow> (K_OK, A_NONE, sc\<lparr>sc_xfer := 0\<rparr>)
      | GNPMODE proto \<Rightarrow>
          if proto = PPP_IP then (K_OK, A_MODE (sc_npmode sc), sc) else (K_EINVAL, A_NONE, sc)
      | SNPMODE proto mode \<Rightarrow>
          if proto \<noteq> PPP_IP then (K_EINVAL, A_NONE, sc)
          else if mode = sc_npmode sc then (K_OK, A_NONE, sc)
          else if mode = NPMODE_QUEUE then (K_OK, A_NONE, sc\<lparr>sc_npmode := mode\<rparr>)
          else (K_OK, A_NONE, pppasyncstart (ppp_requeue (sc\<lparr>sc_npmode := mode\<rparr>)))
      | GIDLE \<Rightarrow>
          (K_OK, A_IDLE (sc_now sc - sc_last_sent sc) (sc_now sc - sc_last_recv sc), microtime sc)
      | OTHER_REQUEST \<Rightarrow> (K_MINUS1, A_NONE, sc))"

text \<open>\<^verbatim>\<open>pppsioctl\<close>: the requests to the network interface; the family is that of the address.\<close>

datatype if_request =
    SIFFLAGS | SIFADDR int | SIFDSTADDR int | SIFMTU int | GIFMTU
  | ADDMULTI "int option" | DELMULTI "int option" | GPPPSTATS | OTHER_IF

datatype if_answer = I_NONE | I_MTU int | I_STATS pppstat

definition AF_INET_NUM :: int where [ppp_consts]: "AF_INET_NUM = 2"

definition pppsioctl :: "if_request \<Rightarrow> ppp_softc \<Rightarrow> kerror \<times> if_answer \<times> ppp_softc" where
  "pppsioctl cmd sc =
     (case cmd of
        SIFFLAGS \<Rightarrow>
          (K_OK, I_NONE,
           if if_running (sc_ifp sc) then sc else sc\<lparr>sc_ifp := (sc_ifp sc)\<lparr>if_up := False\<rparr>\<rparr>)
      | SIFADDR f \<Rightarrow> (if f \<noteq> AF_INET_NUM then K_EAFNOSUPPORT else K_OK, I_NONE, sc)
      | SIFDSTADDR f \<Rightarrow> (if f \<noteq> AF_INET_NUM then K_EAFNOSUPPORT else K_OK, I_NONE, sc)
      | SIFMTU mtu \<Rightarrow> (K_OK, I_NONE, sc\<lparr>sc_ifp := (sc_ifp sc)\<lparr>if_mtu := mtu\<rparr>\<rparr>)
      | GIFMTU \<Rightarrow> (K_OK, I_MTU (if_mtu (sc_ifp sc)), sc)
      | ADDMULTI f \<Rightarrow> (if f = Some AF_INET_NUM then K_OK else K_EAFNOSUPPORT, I_NONE, sc)
      | DELMULTI f \<Rightarrow> (if f = Some AF_INET_NUM then K_OK else K_EAFNOSUPPORT, I_NONE, sc)
      | GPPPSTATS \<Rightarrow> (K_OK, I_STATS (sc_stats sc), sc)
      | OTHER_IF \<Rightarrow> (K_EINVAL, I_NONE, sc))"

subsection \<open>Output\<close>

text \<open>The destination: IP, the daemon with the four bytes in \<^verbatim>\<open>sa_data\<close>, another family.\<close>

datatype ppp_dst = DST_INET | DST_UNSPEC bytes | DST_OTHER

definition IPTOS_LOWDELAY :: u8 where [ppp_consts]: "IPTOS_LOWDELAY = 0x10"

text \<open>Address, control, protocol, mode and priority of the packet.\<close>

definition output_header :: "ppp_dst \<Rightarrow> mchain \<Rightarrow> ppp_softc \<Rightarrow> (bytes \<times> npmode \<times> bool) option" where
  "output_header dst m0 sc =
     (case dst of
        DST_INET \<Rightarrow> Some ([PPP_ALLSTATIONS, PPP_UI] @ putshort PPP_IP, sc_npmode sc,
                         m_dat (hd m0) ! 1 AND IPTOS_LOWDELAY \<noteq> 0)
      | DST_UNSPEC h \<Rightarrow> Some ([h ! 0, h ! 1] @ putshort (ppp_protocol h), NPMODE_PASS, False)
      | DST_OTHER \<Rightarrow> None)"

text \<open>\<^verbatim>\<open>m_prepend\<close> and the header in front of the first mbuf.\<close>

definition m_prepend :: "abi \<Rightarrow> nat \<Rightarrow> mchain \<Rightarrow> mchain" where
  "m_prepend a len ms =
     (let n = (if m_pkthdr (hd ms) then MGETHDR a else MGET a);
          off = (if len < m_cap n then (m_cap n - len) - (m_cap n - len) mod LONGSIZE a else 0)
      in n\<lparr>m_off := off, m_rdonly := m_pkthdr (hd ms) \<and> m_rdonly (hd ms),
            m_highpri := m_pkthdr (hd ms) \<and> m_highpri (hd ms),
            m_errmark := m_pkthdr (hd ms) \<and> m_errmark (hd ms)\<rparr>
         # (hd ms)\<lparr>m_pkthdr := False\<rparr> # tl ms)"

definition add_header :: "abi \<Rightarrow> bytes \<Rightarrow> mchain \<Rightarrow> mchain" where
  "add_header a h ms =
     (if M_LEADINGSPACE (hd ms) < PPP_HDRLEN
      then (let ns = m_prepend a PPP_HDRLEN ms in (hd ns)\<lparr>m_dat := h\<rparr> # tl ns)
      else (hd ms)\<lparr>m_off := m_off (hd ms) - PPP_HDRLEN, m_dat := h @ m_dat (hd ms)\<rparr> # tl ms)"

definition pppoutput :: "bool \<Rightarrow> mchain \<Rightarrow> ppp_dst \<Rightarrow> ppp_softc \<Rightarrow> kerror \<times> ppp_softc" where
  "pppoutput mem m0 dst sc =
     (if sc_devp sc = None \<or> \<not> if_running (sc_ifp sc) \<or>
         (\<not> if_up (sc_ifp sc) \<and> \<not> (case dst of DST_UNSPEC _ \<Rightarrow> True | _ \<Rightarrow> False)) then (K_ENETDOWN, sc)
      else case output_header dst m0 sc of
        None \<Rightarrow> (K_EAFNOSUPPORT, sc)
      | Some (h, mode, pri) \<Rightarrow>
          if mode = NPMODE_ERROR then (K_ENETDOWN, sc)
          else if mode = NPMODE_DROP then (K_OK, sc)
          else if M_LEADINGSPACE (hd m0) < PPP_HDRLEN \<and> \<not> mem then (K_ENOBUFS, sc)
          else
            (let m = add_header (sc_abi sc) h ((hd m0)\<lparr>m_highpri := pri\<rparr> # tl m0);
                 len = m_length m;
                 sc = (if ppp_protocol h < 0x8000 then (microtime sc)\<lparr>sc_last_sent := sc_now sc\<rparr> else sc)
             in if mode = NPMODE_QUEUE
                then (K_OK, count_opacket len (sc\<lparr>sc_npqueue := sc_npqueue sc @ [m]\<rparr>))
                else if IF_QFULL (out_queue m sc) \<and> dst = DST_INET
                then (K_ENOBUFS, count_oerror (count_iqdrop sc))
                else (K_OK, count_opacket len (pppasyncstart (enqueue_out m sc)))))"

text \<open>The header of a packet that leaves: address and control, and the first byte of the protocol, are
  left out when the peer accepts that.\<close>

definition compress_header :: "u32 \<Rightarrow> mbuf \<Rightarrow> mbuf" where
  "compress_header flags m =
     (let cp = m_dat m; proto = ppp_protocol cp;
          ac = (flags AND SC_COMP_AC \<noteq> 0 \<and> cp ! 0 = PPP_ALLSTATIONS \<and> cp ! 1 = PPP_UI \<and>
                proto \<noteq> 0xff \<and> proto \<noteq> PPP_LCP);
          m = (if ac then m_skip 2 m else m)
      in if flags AND SC_COMP_PROT \<noteq> 0 \<and> proto < 0xff
         then m_skip 1 (if ac then m else m\<lparr>m_dat := (m_dat m)[2 := cp ! 1, 1 := cp ! 0]\<rparr>) else m)"

definition ppp_dequeue :: "ppp_softc \<Rightarrow> mchain \<times> ppp_softc" where
  "ppp_dequeue sc =
     (let (m, fq) = if_ppp_dequeue (sc_fastq sc);
          sc = sc\<lparr>sc_fastq := fq\<rparr>;
          (m, sc) = (if m = []
                     then (let (m, sq) = if_ppp_dequeue (if_snd (sc_ifp sc))
                           in (m, sc\<lparr>sc_ifp := (sc_ifp sc)\<lparr>if_snd := sq\<rparr>\<rparr>)) else (m, sc))
      in if m = [] then ([], sc)
         else (compress_header (sc_flags sc) (hd m) # tl m,
               trap_if (length (m_dat (hd m)) < PPP_HDRLEN)
                 (sc\<lparr>sc_stats := (sc_stats sc)\<lparr>ppp_opackets := ppp_opackets (sc_stats sc) + 1\<rparr>\<rparr>)))"

subsection \<open>Input\<close>

text \<open>\<^verbatim>\<open>ppp_inproc\<close>: the chain to reuse and the new state.\<close>

definition inproc_deliver :: "int \<Rightarrow> nat \<Rightarrow> mchain \<Rightarrow> ppp_softc \<Rightarrow> ppp_softc" where
  "inproc_deliver proto ilen m sc =
     (let sc = (if proto < 0x8000 then (microtime sc)\<lparr>sc_last_recv := sc_now sc\<rparr> else sc)
      in if proto = PPP_IP
         then if \<not> if_up (sc_ifp sc) \<or> sc_npmode sc \<noteq> NPMODE_PASS then sc
              else count_ipacket ilen
                     ((microtime sc)\<lparr>netisr := netisr sc @ [(int ilen - int PPP_HDRLEN, m_skip PPP_HDRLEN (hd m) # tl m)]\<rparr>)
         else if IF_QFULL (sc_inq sc) then count_ierror (count_iqdrop sc)
         else pppasyncctlp (count_ipacket ilen ((microtime sc)\<lparr>sc_inq := if_ppp_enqueue (sc_inq sc) m\<rparr>)))"

definition ppp_inproc :: "bool \<Rightarrow> mchain \<Rightarrow> ppp_softc \<Rightarrow> mchain \<times> ppp_softc" where
  "ppp_inproc mem m sc =
     (let sc = sc\<lparr>sc_stats := (sc_stats sc)\<lparr>ppp_ipackets := ppp_ipackets (sc_stats sc) + 1\<rparr>\<rparr>;
          sc = trap_if (length (m_dat (hd m)) < PPP_HDRLEN) sc;
          proto = ppp_protocol (m_dat (hd m));
          sc = (if m_errmark (hd m) then sc\<lparr>sc_flags := sc_flags sc OR SC_VJ_RESET\<rparr> else sc);
          m = (hd m)\<lparr>m_errmark := False\<rparr> # tl m;
          ilen = m_length m;
          copy = (ilen \<le> MHLEN (sc_abi sc) \<and> m_ext (hd m) \<and> mem)
      in (if copy then m else [],
          inproc_deliver proto ilen
            (if copy then [(MGETHDR (sc_abi sc))\<lparr>m_dat := m_bytes m\<rparr>] else m) sc))"

subsection \<open>The two tasks\<close>

text \<open>One round of \<^verbatim>\<open>ppp_rxdaemon\<close> with the events that are pending.\<close>

definition ppp_rxdaemon :: "bool \<Rightarrow> ppp_softc \<Rightarrow> ppp_softc" where
  "ppp_rxdaemon mem sc =
     (let events = ev_rx sc - {RX_EMPTY}; sc = sc\<lparr>ev_rx := {}\<rparr>
      in if events = {} then sc
         else
           (let (mp, sc) =
                  (if RX_PACKET \<in> events
                   then (let (m, q) = if_ppp_dequeue (sc_rawq sc); sc = sc\<lparr>sc_rawq := q\<rparr>
                         in if m = [] then ([], sc) else ppp_inproc mem m sc)
                   else ([], sc));
                mp = (if mp = [] then pppallocmbuf sc [] else mp);
                sc = sc\<lparr>sc_freeq := if_ppp_enqueue (sc_freeq sc) mp\<rparr>
            in if sc_rawq sc \<noteq> [] then rx_event_send RX_PACKET sc else sc))"

text \<open>The loop of \<^verbatim>\<open>ppp_txdaemon\<close> over the chain: the check sequence, and the chain cut before the first
  empty mbuf.\<close>

fun tx_chain :: "16 word \<Rightarrow> mchain \<Rightarrow> 16 word \<times> mchain" where
  "tx_chain v [] = (v, [])"
| "tx_chain v (m # ms) =
     (if m_dat m = [] then (v, m # ms)
      else (let v = pppfcs v (m_dat m)
            in case ms of
                 [] \<Rightarrow> (v, [m])
               | n # ns \<Rightarrow> if m_dat n = [] then (v, [m])
                          else (let (v, ms) = tx_chain v ms in (v, m # ms))))"

text \<open>The part of \<^verbatim>\<open>ppp_txdaemon\<close> under \<^verbatim>\<open>if ( iprocess )\<close>.\<close>

definition tx_begin :: "ppp_softc \<Rightarrow> ppp_softc" where
  "tx_begin sc =
     (let (v, ms) = tx_chain PPP_INITFCS (sc_outm sc);
          sc = sc\<lparr>sc_outm := ms, sc_outmc := ms, sc_outfcs := v, sc_outbuf := m_dat (hd ms), sc_outoff := 0,
                 sc_outoff_upd := False, sc_outfcsbuf := []\<rparr>
      in if sc_devp sc = None then sc
         else tty_write [PPP_FLAG]
                (sc\<lparr>sc_outfcsbuf := [ucast (NOT v), ucast (drop_bit 8 (NOT v))],
                    sc_ifp := (sc_ifp sc)\<lparr>if_lastchange := sc_now sc\<rparr>\<rparr>))"

definition ppp_txdaemon :: "ppp_softc \<Rightarrow> ppp_softc" where
  "ppp_txdaemon sc =
     (let events = ev_tx sc; sc = sc\<lparr>ev_tx := {}\<rparr>;
          sc = (if TX_TRANSMIT \<in> events then sc\<lparr>sc_outm := [], sc_outmc := []\<rparr> else sc)
      in if events \<noteq> {} \<and> sc_outm sc = []
         then (let (m, sc) = ppp_dequeue sc; sc = sc\<lparr>sc_outm := m\<rparr>
               in if m = []
                  then sc\<lparr>sc_outflag := 0, sc_ifp := (sc_ifp sc)\<lparr>if_oactive := False\<rparr>\<rparr>
                  else tx_begin (sc\<lparr>sc_outflag := SC_TX_BUSY, sc_ifp := (sc_ifp sc)\<lparr>if_oactive := True\<rparr>\<rparr>))
         else sc)"

text \<open>\<^verbatim>\<open>ppp_attach\<close>: the unit as it is left for the first \<^verbatim>\<open>pppopen\<close>; the softc is zeroed memory.\<close>

definition ppp_attach :: "abi \<Rightarrow> ppp_softc" where
  "ppp_attach a =
     \<lparr>sc_ifp = \<lparr>if_up = False, if_running = False, if_oactive = False, if_mtu = PPP_MTU, if_baudrate = 0,
        if_lastchange = 0, if_snd = [],
        if_cnt = \<lparr>c_ipackets = 0, c_ibytes = 0, c_ierrors = 0, c_iqdrops = 0, c_opackets = 0, c_obytes = 0,
          c_oerrors = 0, c_oqdrops = 0\<rparr>\<rparr>,
      sc_flags = 0, sc_devp = None, sc_mru = 0, sc_xfer = 0, sc_rawq = [], sc_inq = [], sc_fastq = [],
      sc_npqueue = [], sc_stats = zero_stats, sc_npmode = NPMODE_PASS, sc_last_sent = 0, sc_last_recv = 0,
      sc_asyncmap = replicate 8 0, sc_rasyncmap = 0, sc_outm = [], sc_outmc = [], sc_m = [], sc_mc = 0,
      sc_ilen = 0, sc_fcs = 0, sc_outfcs = 0, sc_freeq = [], sc_outoff = 0, sc_outoff_upd = False,
      sc_outflag = 0, sc_outbuf = [], sc_outfcsbuf = [], sc_pppdtask = 0, sc_abi = a, sc_now = 0, ppp_time = 0,
      ev_rx = {}, ev_tx = {}, ev_pppd = False, tty_out = [], netisr = [], sc_trap = False\<rparr>"

end
