(* ===== verification/Ppp_Tty.thy ===== *)
theory Ppp_Tty
  imports If_Ppp
begin

text \<open>
  The line discipline of PPP (\<^verbatim>\<open>ppp_tty.c\<close>): open and close, read and write of the daemon, the requests,
  the transmitter \<^verbatim>\<open>pppstart\<close>, which the serial driver calls for the next piece of the packet, and the
  receiver \<^verbatim>\<open>pppinput\<close>, which it calls for each character. \<^verbatim>\<open>sc_outchar\<close> is only written before it is
  sent and has no field. \<^verbatim>\<open>sc_ilen\<close> is a \<^verbatim>\<open>short\<close>: its sums wrap at 16 bits.
\<close>

section \<open>Definitions\<close>

subsection \<open>Open, close, read, write\<close>

definition pppopen :: "tty \<Rightarrow> ppp_softc \<Rightarrow> kerror \<times> tty \<times> ppp_softc" where
  "pppopen tp sc =
     (if t_pppdisc tp \<and> t_sc tp \<and> sc_devp sc = Some (t_dev tp) then (K_OK, tp, sc)
      else
        (let (found, sc) = pppalloc 1 sc
         in if \<not> found then (K_ENXIO, tp, sc)
            else
              (let m = pppallocmbuf sc []
               in (K_OK, tp\<lparr>t_sc := True\<rparr>,
                   sc\<lparr>sc_ilen := 0, sc_asyncmap := [0xffffffff, 0, 0, 0x60000000, 0, 0, 0, 0],
                      sc_rasyncmap := 0, sc_devp := Some (t_dev tp), sc_outm := [], sc_outmc := [],
                      sc_m := m, sc_freeq := sc_freeq sc @ replicate (NUM_MBUFQ - 1) m,
                      sc_ifp := (sc_ifp sc)\<lparr>if_running := True, if_baudrate := t_ospeed tp\<rparr>\<rparr>))))"

definition pppclose :: "tty \<Rightarrow> ppp_softc \<Rightarrow> tty \<times> ppp_softc" where
  "pppclose tp sc =
     (tp\<lparr>t_pppdisc := False, t_sc := False\<rparr>,
      if t_sc tp \<and> sc_devp sc = Some (t_dev tp) then pppdealloc sc else sc)"

datatype read_result = R_NO_UNIT | R_UNSATISFIED | R_DATA bytes

fun read_chain :: "nat \<Rightarrow> bytes \<Rightarrow> mchain \<Rightarrow> bytes" where
  "read_chain maximum buf [] = buf"
| "read_chain maximum buf (m # ms) =
     (if m_dat m \<noteq> [] \<and> length buf + length (m_dat m) < maximum
      then read_chain maximum (buf @ m_dat m) ms else buf)"

definition pppread :: "nat \<Rightarrow> tty \<Rightarrow> ppp_softc \<Rightarrow> read_result \<times> ppp_softc" where
  "pppread maximum tp sc =
     (if \<not> t_sc tp then (R_NO_UNIT, sc)
      else if sc_devp sc \<noteq> Some (t_dev tp) \<or> \<not> t_pppdisc tp then (R_UNSATISFIED, sc)
      else if sc_inq sc = [] then (R_UNSATISFIED, sc)
      else
        (let (m0, q) = if_ppp_dequeue (sc_inq sc);
             sc = sc\<lparr>sc_inq := q\<rparr>
         in (R_DATA (read_chain maximum [] m0), if q \<noteq> [] then sc\<lparr>ev_pppd := True\<rparr> else sc)))"

text \<open>The chain \<^verbatim>\<open>pppwrite\<close> builds; \<open>mcl i\<close> says whether the cluster for the \<open>i\<close>th mbuf is there. An mbuf
  without any room would not let the loop end.\<close>

function write_chain :: "abi \<Rightarrow> (nat \<Rightarrow> bool) \<Rightarrow> nat \<Rightarrow> bytes \<Rightarrow> mchain" where
  "write_chain a mcl i p =
     (if p = [] then []
      else
        (let m = (if length p \<ge> MCLBYTES div 2 \<and> mcl i then MCLGET (MGET a) else MGET a); len = m_cap m
         in if len > length p then [m\<lparr>m_dat := p\<rparr>]
            else if len = 0 then []
            else m\<lparr>m_dat := take len p\<rparr> # write_chain a mcl (Suc i) (drop len p)))"
  by pat_completeness auto
termination
  by (relation "measure (\<lambda>(a, mcl, i, p). length p)") auto

declare write_chain.simps [simp del]

definition pppwrite :: "(nat \<Rightarrow> bool) \<Rightarrow> bool \<Rightarrow> bytes \<Rightarrow> tty \<Rightarrow> ppp_softc \<Rightarrow> kerror \<times> ppp_softc" where
  "pppwrite mcl mem p tp sc =
     (let m0 = write_chain (sc_abi sc) mcl 0 p;
          dst = DST_UNSPEC (take PPP_HDRLEN (m_dat (hd m0)))
      in if m0 = [] \<or> length (m_dat (hd m0)) < PPP_HDRLEN \<or> \<not> t_sc tp then (K_OK, sc\<lparr>sc_trap := True\<rparr>)
         else pppoutput mem (m_skip PPP_HDRLEN (hd m0) # tl m0) dst sc)"

subsection \<open>Requests\<close>

text \<open>A request of the terminal itself goes to \<^verbatim>\<open>rtems_termios_ioctl\<close>, whose result it carries.\<close>

datatype tty_request =
    TERMIOS_REQUEST kerror | SASYNCMAP u32 | GASYNCMAP | SRASYNCMAP u32 | GRASYNCMAP | SXASYNCMAP "u32 list"
  | GXASYNCMAP | PPP_REQUEST ppp_request

definition ppptioctl :: "tty_request \<Rightarrow> ppp_softc \<Rightarrow> kerror \<times> ppp_answer \<times> ppp_softc" where
  "ppptioctl cmd sc =
     (case cmd of
        TERMIOS_REQUEST e \<Rightarrow> (e, A_NONE, sc)
      | SASYNCMAP a \<Rightarrow> (K_OK, A_NONE, sc\<lparr>sc_asyncmap := (sc_asyncmap sc)[0 := a]\<rparr>)
      | GASYNCMAP \<Rightarrow> (K_OK, A_FLAGS (sc_asyncmap sc ! 0), sc)
      | SRASYNCMAP a \<Rightarrow> (K_OK, A_NONE, sc\<lparr>sc_rasyncmap := a\<rparr>)
      | GRASYNCMAP \<Rightarrow> (K_OK, A_FLAGS (sc_rasyncmap sc), sc)
      | SXASYNCMAP as \<Rightarrow>
          (K_OK, A_NONE,
           sc\<lparr>sc_asyncmap := (take 8 as)[1 := 0, 2 := as ! 2 AND NOT 0x40000000, 3 := as ! 3 OR 0x60000000]\<rparr>)
      | GXASYNCMAP \<Rightarrow> (K_OK, A_MAPS (sc_asyncmap sc), sc)
      | PPP_REQUEST r \<Rightarrow> pppioctl r sc)"

subsection \<open>The transmitter\<close>

definition ESCAPE_P :: "u32 list \<Rightarrow> u8 \<Rightarrow> bool" where
  "ESCAPE_P maps c \<longleftrightarrow> bit (maps ! unat (drop_bit 5 c)) (unat (c AND 0x1f))"

definition tx_has :: "16 word \<Rightarrow> ppp_softc \<Rightarrow> bool" where
  "tx_has b sc \<longleftrightarrow> sc_outflag sc AND b \<noteq> 0"

text \<open>The characters that the driver has sent since the last call.\<close>

definition tx_account :: "nat \<Rightarrow> ppp_softc \<Rightarrow> ppp_softc" where
  "tx_account len sc =
     (if sc_outoff_upd sc
      then sc\<lparr>sc_stats := (sc_stats sc)\<lparr>ppp_obytes := ppp_obytes (sc_stats sc) + word_of_nat len\<rparr>,
              sc_outoff := sc_outoff sc + len, sc_outoff_upd := False\<rparr>
      else sc)"

text \<open>The next buffer: the next mbuf, then the check sequence; \<^const>\<open>None\<close> when the packet is done.\<close>

definition tx_buffer :: "ppp_softc \<Rightarrow> ppp_softc option" where
  "tx_buffer sc =
     (if sc_outoff sc < length (sc_outbuf sc) then Some sc
      else if tl (sc_outmc sc) \<noteq> []
      then Some (sc\<lparr>sc_outmc := tl (sc_outmc sc), sc_outbuf := m_dat (hd (tl (sc_outmc sc))), sc_outoff := 0\<rparr>)
      else if \<not> tx_has SC_TX_FCS sc
      then Some (sc\<lparr>sc_outflag := sc_outflag sc OR SC_TX_FCS, sc_outbuf := sc_outfcsbuf sc, sc_outoff := 0\<rparr>)
      else None)"

text \<open>The next characters: an escape, the escaped character or the characters up to the next one that
  is escaped; and the number of bytes of the packet that they are.\<close>

definition tx_piece :: "ppp_softc \<Rightarrow> bytes \<times> nat \<times> ppp_softc" where
  "tx_piece sc =
     (let c = sc_outbuf sc ! sc_outoff sc; esc = ESCAPE_P (sc_asyncmap sc)
      in if esc c
         then if tx_has SC_TX_ESCAPE sc
              then ([c XOR PPP_TRANS], 1, sc\<lparr>sc_outflag := sc_outflag sc AND NOT SC_TX_ESCAPE\<rparr>)
              else ([PPP_ESCAPE], 0, sc\<lparr>sc_outflag := sc_outflag sc OR SC_TX_ESCAPE\<rparr>)
         else (let run = takeWhile (\<lambda>c. \<not> esc c) (drop (sc_outoff sc) (sc_outbuf sc))
               in (run, length run, sc)))"

definition tx_send :: "tty \<Rightarrow> ppp_softc \<Rightarrow> ppp_softc" where
  "tx_send tp sc =
     (let (b, ioffset, sc) = tx_piece sc; sc = tty_write b sc
      in if t_polled tp
         then sc\<lparr>sc_stats := (sc_stats sc)\<lparr>ppp_obytes := ppp_obytes (sc_stats sc) + word_of_nat (max ioffset 1)\<rparr>,
                 sc_outoff := sc_outoff sc + ioffset, sc_outoff_upd := False\<rparr>
         else if ioffset > 0 then sc\<lparr>sc_outoff_upd := True\<rparr>
         else sc\<lparr>sc_outoff_upd := False,
                 sc_stats := (sc_stats sc)\<lparr>ppp_obytes := ppp_obytes (sc_stats sc) + 1\<rparr>\<rparr>)"

definition pppstart :: "nat \<Rightarrow> tty \<Rightarrow> ppp_softc \<Rightarrow> ppp_softc" where
  "pppstart len tp sc =
     (if t_sc tp \<and> tx_has SC_TX_BUSY sc then
        (let sc = tx_account len sc
         in if tx_has SC_TX_LASTCHAR sc
            then tx_event_send TX_TRANSMIT (tty_write []
                   (sc\<lparr>sc_outflag := sc_outflag sc AND NOT (SC_TX_BUSY OR SC_TX_FCS OR SC_TX_LASTCHAR)\<rparr>))
            else case tx_buffer sc of
              None \<Rightarrow>
                tty_write [PPP_FLAG]
                  (sc\<lparr>sc_outflag := (sc_outflag sc OR SC_TX_LASTCHAR) AND NOT SC_TX_FCS\<rparr>)
            | Some sc \<Rightarrow>
                if sc_outoff sc < length (sc_outbuf sc) then tx_send tp sc else tty_write [] sc)
      else tty_write [] sc)"

subsection \<open>The receiver\<close>

definition rx_has :: "u32 \<Rightarrow> ppp_softc \<Rightarrow> bool" where
  "rx_has b sc \<longleftrightarrow> sc_flags sc AND b \<noteq> 0"

definition short :: "int \<Rightarrow> int" where
  "short i = signed_take_bit 15 i"

definition paritytab :: "u32 list" where
  "paritytab = [0x96696996, 0x69969669, 0x69969669, 0x96696996, 0x69969669, 0x96696996, 0x96696996, 0x69969669]"

definition rx_note :: "u8 \<Rightarrow> ppp_softc \<Rightarrow> ppp_softc" where
  "rx_note c sc =
     sc\<lparr>sc_stats := (sc_stats sc)\<lparr>ppp_ibytes := ppp_ibytes (sc_stats sc) + 1\<rparr>,
        sc_flags := sc_flags sc
          OR (if c AND 0x80 \<noteq> 0 then SC_RCV_B7_1 else SC_RCV_B7_0)
          OR (if bit (paritytab ! unat (drop_bit 5 c)) (unat (c AND 0x1f)) then SC_RCV_ODDP else SC_RCV_EVNP)\<rparr>"

text \<open>The last byte of the mbuf at position \<open>i\<close> is dropped.\<close>

definition drop_last :: "nat \<Rightarrow> ppp_softc \<Rightarrow> ppp_softc" where
  "drop_last i sc =
     trap_if (length (sc_m sc) \<le> i \<or> m_dat (sc_m sc ! i) = [])
       (sc\<lparr>sc_m := (sc_m sc)[i := (sc_m sc ! i)\<lparr>m_dat := butlast (m_dat (sc_m sc ! i))\<rparr>]\<rparr>)"

text \<open>The check sequence is removed; where its first byte ends up in the mbuf before, that one is searched.\<close>

definition rx_trim :: "ppp_softc \<Rightarrow> ppp_softc" where
  "rx_trim sc =
     (let sc = drop_last (sc_mc sc) sc
      in if m_dat (sc_m sc ! sc_mc sc) = []
         then (let sc = trap_if (sc_mc sc = 0) sc; sc = sc\<lparr>sc_mc := sc_mc sc - 1\<rparr> in drop_last (sc_mc sc) sc)
         else drop_last (sc_mc sc) sc)"

definition rx_deliver :: "ppp_softc \<Rightarrow> ppp_softc" where
  "rx_deliver sc =
     (let sc = (if rx_has SC_PKTLOST sc
                then sc\<lparr>sc_m := (hd (sc_m sc))\<lparr>m_errmark := True\<rparr> # tl (sc_m sc),
                        sc_flags := sc_flags sc AND NOT SC_PKTLOST\<rparr> else sc);
          sc = sc\<lparr>sc_rawq := if_ppp_enqueue (sc_rawq sc) (sc_m sc)\<rparr>;
          (m, q) = if_ppp_dequeue (sc_freeq sc)
      in rx_event_send RX_PACKET (sc\<lparr>sc_m := m, sc_freeq := q\<rparr>))"

text \<open>A flag ends the frame.\<close>

definition rx_flag :: "ppp_softc \<Rightarrow> ppp_softc" where
  "rx_flag sc =
     (let ilen = sc_ilen sc; sc = sc\<lparr>sc_ilen := 0\<rparr>;
          aborted = rx_has (SC_FLUSH OR SC_ESCAPED) sc
      in if aborted \<or> (ilen > 0 \<and> sc_fcs sc \<noteq> PPP_GOODFCS)
         then (let sc = sc\<lparr>sc_flags := sc_flags sc OR SC_PKTLOST\<rparr>
               in if \<not> aborted then count_ierror sc
                  else sc\<lparr>sc_flags := sc_flags sc AND NOT (SC_FLUSH OR SC_ESCAPED)\<rparr>)
         else if ilen < int PPP_HDRLEN + int PPP_FCSLEN
         then if ilen \<noteq> 0 then (count_ierror sc)\<lparr>sc_flags := sc_flags sc OR SC_PKTLOST\<rparr> else sc
         else rx_deliver (rx_trim sc))"

text \<open>Bytes at the end of the current mbuf.\<close>

definition rx_put :: "bytes \<Rightarrow> ppp_softc \<Rightarrow> ppp_softc" where
  "rx_put bs sc =
     (let i = sc_mc sc; m = sc_m sc ! i
      in trap_if (length (sc_m sc) \<le> i \<or> m_off m + length (m_dat m) + length bs > m_cap m)
           (sc\<lparr>sc_m := (sc_m sc)[i := m\<lparr>m_dat := m_dat m @ bs\<rparr>]\<rparr>))"

definition rx_flush :: "ppp_softc \<Rightarrow> ppp_softc" where
  "rx_flush sc =
     (if rx_has SC_FLUSH sc then sc
      else (count_ierror sc)\<lparr>sc_flags := sc_flags sc OR SC_FLUSH\<rparr>)"

text \<open>The first character of a frame; the second component is \<^verbatim>\<open>goto flush\<close>.\<close>

definition rx_first :: "u8 \<Rightarrow> ppp_softc \<Rightarrow> ppp_softc \<times> bool" where
  "rx_first c sc =
     (if sc_ilen sc \<noteq> 0 then (sc, False)
      else
        (let sc = sc\<lparr>sc_m := (hd (sc_m sc))\<lparr>m_dat := [], m_off := 0\<rparr> # tl (sc_m sc), sc_mc := 0,
                     sc_fcs := PPP_INITFCS\<rparr>
         in if c = PPP_ALLSTATIONS then (sc, False)
            else if rx_has SC_REJ_COMP_AC sc then (sc, True)
            else ((rx_put [PPP_ALLSTATIONS, PPP_UI] sc)\<lparr>sc_ilen := short (sc_ilen sc + 2)\<rparr>, False)))"

text \<open>The first byte of a compressed protocol.\<close>

definition rx_proto :: "u8 \<Rightarrow> ppp_softc \<Rightarrow> ppp_softc" where
  "rx_proto c sc =
     (if sc_ilen sc = 2 \<and> bit c 0 then (rx_put [0] sc)\<lparr>sc_ilen := short (sc_ilen sc + 1)\<rparr> else sc)"

text \<open>The current mbuf is full: the next one of the chain, or a new one; \<^verbatim>\<open>m_next = 0\<close> cuts the chain.\<close>

definition rx_room :: "ppp_softc \<Rightarrow> ppp_softc \<times> bool" where
  "rx_room sc =
     (if M_TRAILINGSPACE (sc_m sc ! sc_mc sc) > 0 then (sc, False)
      else
        (let sc' = (if Suc (sc_mc sc) < length (sc_m sc) then sc
                    else (let (m, q) = if_ppp_dequeue (sc_freeq sc)
                          in (if m = [] then sc else rx_event_send RX_MBUF
                               (sc\<lparr>sc_m := sc_m sc @ m, sc_freeq := q\<rparr>))))
         in if length (sc_m sc') \<le> Suc (sc_mc sc) then (sc', True)
            else (sc'\<lparr>sc_m := take (Suc (sc_mc sc)) (sc_m sc')
                      @ [(sc_m sc' ! Suc (sc_mc sc))\<lparr>m_dat := [], m_off := 0\<rparr>],
                     sc_mc := Suc (sc_mc sc)\<rparr>, False)))"

text \<open>A character of the frame, its escape removed.\<close>

definition rx_data :: "u8 \<Rightarrow> ppp_softc \<Rightarrow> ppp_softc" where
  "rx_data c sc =
     (let (sc, flush) = rx_first c sc
      in if flush then rx_flush sc
         else if sc_ilen sc = 1 \<and> c \<noteq> PPP_UI then rx_flush sc
         else
           (let sc = rx_proto c sc
            in if sc_ilen sc = 3 \<and> \<not> bit c 0 then rx_flush sc
               else
                 (let sc = sc\<lparr>sc_ilen := short (sc_ilen sc + 1)\<rparr>
                  in if sc_ilen sc > sc_mru sc + int PPP_HDRLEN + int PPP_FCSLEN then rx_flush sc
                     else
                       (let (sc, flush) = rx_room sc
                        in if flush then rx_flush sc
                           else (rx_put [c] sc)\<lparr>sc_fcs := PPP_FCS (sc_fcs sc) c\<rparr>))))"

definition rx_char :: "u8 \<Rightarrow> ppp_softc \<Rightarrow> ppp_softc" where
  "rx_char c sc =
     (if c < 0x20 \<and> bit (sc_rasyncmap sc) (unat c) then sc
      else if rx_has SC_ESCAPED sc
      then rx_data (c XOR PPP_TRANS) (sc\<lparr>sc_flags := sc_flags sc AND NOT SC_ESCAPED\<rparr>)
      else if c = PPP_ESCAPE then sc\<lparr>sc_flags := sc_flags sc OR SC_ESCAPED\<rparr>
      else rx_data c sc)"

definition pppinput :: "u8 \<Rightarrow> tty \<Rightarrow> ppp_softc \<Rightarrow> ppp_softc" where
  "pppinput c tp sc =
     (if \<not> t_sc tp \<or> sc_devp sc \<noteq> Some (t_dev tp) then sc
      else
        (let sc = (if sc_m sc = []
                   then (let (m, q) = if_ppp_dequeue (sc_freeq sc)
                         in rx_event_send RX_EMPTY (sc\<lparr>sc_m := m, sc_freeq := q\<rparr>)) else sc)
         in if sc_m sc = [] then sc
            else (let sc = rx_note c sc in if c = PPP_FLAG then rx_flag sc else rx_char c sc)))"

section \<open>Lemmas\<close>

text \<open>\<^verbatim>\<open>rx_data\<close> with the states on its way named.\<close>

lemma rx_data_steps:
  "rx_data c sc =
     (let s1 = fst (rx_first c sc); s2 = rx_proto c s1; s3 = s2\<lparr>sc_ilen := short (sc_ilen s2 + 1)\<rparr>; s4 = fst (rx_room s3)
      in if snd (rx_first c sc) \<or> sc_ilen s1 = 1 \<and> c \<noteq> PPP_UI then rx_flush s1
         else if sc_ilen s2 = 3 \<and> \<not> bit c 0 then rx_flush s2
         else if sc_ilen s3 > sc_mru s3 + int PPP_HDRLEN + int PPP_FCSLEN then rx_flush s3
         else if snd (rx_room s3) then rx_flush s4
         else (rx_put [c] s4)\<lparr>sc_fcs := PPP_FCS (sc_fcs s4) c\<rparr>)"
proof -
  obtain s1 f1 where 1: "rx_first c sc = (s1, f1)" by fastforce
  define s2 where "s2 = rx_proto c s1"
  define s3 where "s3 = s2\<lparr>sc_ilen := short (sc_ilen s2 + 1)\<rparr>"
  obtain s4 f4 where 4: "rx_room s3 = (s4, f4)" by fastforce
  show ?thesis
    unfolding rx_data_def Let_def 1 prod.case fst_conv snd_conv s2_def [symmetric] s3_def [symmetric] 4
    by (cases f1; cases "sc_ilen s1 = 1 \<and> c \<noteq> PPP_UI") (simp_all only: simp_thms if_True if_False)
qed

end
