(* ===== verification/Tty_Transmit.thy ===== *)
theory Tty_Transmit
  imports Ppp_Tty
begin

text \<open>
  The transmitter as the serial driver uses it: \<^verbatim>\<open>pppstart\<close> hands over a piece of the frame, the driver
  sends some of it and reports how much, and is called again until there is nothing more. Whatever
  the driver sends at a time, the bytes on the wire are the frame of RFC 1662: the packet with its
  check sequence, the characters of the map escaped, between two flags.
\<close>

section \<open>Definitions\<close>

text \<open>The driver: each number is how many of the characters at hand it sends before it asks for more,
  one at least. It stops when it is told that there is nothing to transmit. The result is what is
  on the wire.\<close>

fun drive :: "nat list \<Rightarrow> tty \<Rightarrow> ppp_softc \<Rightarrow> bytes \<times> ppp_softc" where
  "drive [] tp sc = ([], sc)"
| "drive (n # ns) tp sc =
     (let b = last (tty_out sc); k = max 1 (min n (length b))
      in if b = [] then ([], sc)
         else (let (w, sc) = drive ns tp (pppstart k tp sc) in (take k b @ w, sc)))"

text \<open>The frame of a packet: between two flags, with its check sequence.\<close>

definition wire_frame :: "u32 list \<Rightarrow> bytes \<Rightarrow> bytes" where
  "wire_frame maps p = PPP_FLAG # stuff (ESCAPE_P maps) (with_fcs p) @ [PPP_FLAG]"

text \<open>The rest of the frame, once the characters sent are accounted for.\<close>

definition tx_more :: "ppp_softc \<Rightarrow> bytes" where
  "tx_more sc =
     (if tx_has SC_TX_LASTCHAR sc then []
      else
        (let esc = ESCAPE_P (sc_asyncmap sc); r = stuff esc (drop (sc_outoff sc) (sc_outbuf sc))
         in (if tx_has SC_TX_ESCAPE sc then tl r else r) @ stuff esc (m_bytes (tl (sc_outmc sc))) @
            (if tx_has SC_TX_FCS sc then [] else stuff esc (sc_outfcsbuf sc)) @ [PPP_FLAG]))"

definition tx_ok :: "ppp_softc \<Rightarrow> bool" where
  "tx_ok sc \<longleftrightarrow>
     tx_has SC_TX_BUSY sc \<and> \<not> sc_outoff_upd sc \<and> sc_outfcsbuf sc \<noteq> [] \<and>
     list_all (\<lambda>m. m_dat m \<noteq> []) (tl (sc_outmc sc)) \<and>
     (tx_has SC_TX_FCS sc \<longrightarrow> tl (sc_outmc sc) = []) \<and>
     (tx_has SC_TX_ESCAPE sc \<longrightarrow> \<not> tx_has SC_TX_LASTCHAR sc \<and>
        sc_outoff sc < length (sc_outbuf sc) \<and> ESCAPE_P (sc_asyncmap sc) (sc_outbuf sc ! sc_outoff sc))"

text \<open>\<^verbatim>\<open>pppstart\<close> after the offsets are adapted.\<close>

definition tx_core :: "tty \<Rightarrow> ppp_softc \<Rightarrow> ppp_softc" where
  "tx_core tp sc =
     (if tx_has SC_TX_LASTCHAR sc
      then tx_event_send TX_TRANSMIT (tty_write []
             (sc\<lparr>sc_outflag := sc_outflag sc AND NOT (SC_TX_BUSY OR SC_TX_FCS OR SC_TX_LASTCHAR)\<rparr>))
      else case tx_buffer sc of
        None \<Rightarrow>
          tty_write [PPP_FLAG] (sc\<lparr>sc_outflag := (sc_outflag sc OR SC_TX_LASTCHAR) AND NOT SC_TX_FCS\<rparr>)
      | Some sc \<Rightarrow>
          if sc_outoff sc < length (sc_outbuf sc) then tx_send tp sc else tty_write [] sc)"

text \<open>The check sequence as the next buffer.\<close>

definition tx_fcs_buffer :: "ppp_softc \<Rightarrow> ppp_softc" where
  "tx_fcs_buffer sc = sc\<lparr>sc_outflag := sc_outflag sc OR SC_TX_FCS, sc_outbuf := sc_outfcsbuf sc, sc_outoff := 0\<rparr>"

text \<open>The escape has been sent, and the escaped character after it.\<close>

definition tx_escape :: "ppp_softc \<Rightarrow> ppp_softc" where
  "tx_escape sc = sc\<lparr>sc_outflag := sc_outflag sc OR SC_TX_ESCAPE\<rparr>"

definition tx_unescape :: "ppp_softc \<Rightarrow> ppp_softc" where
  "tx_unescape sc = sc\<lparr>sc_outflag := sc_outflag sc AND NOT SC_TX_ESCAPE\<rparr>"

definition tx_lastchar :: "ppp_softc \<Rightarrow> ppp_softc" where
  "tx_lastchar sc = sc\<lparr>sc_outflag := (sc_outflag sc OR SC_TX_LASTCHAR) AND NOT SC_TX_FCS\<rparr>"

text \<open>The driver has characters to send; whichever part it sends, the bytes to come are that part and the
  rest of the frame.\<close>

definition tx_pending :: "ppp_softc \<Rightarrow> bytes \<Rightarrow> bool" where
  "tx_pending sc todo \<longleftrightarrow>
     (let b = last (tty_out sc)
      in b \<noteq> [] \<and> tx_has SC_TX_BUSY sc \<and>
         (\<forall>k. 1 \<le> k \<and> k \<le> length b \<longrightarrow>
            todo = take k b @ tx_more (tx_account k sc) \<and> tx_ok (tx_account k sc)))"

section \<open>Lemmas\<close>

lemma stuff_simps [simp]:
  "stuff esc [] = []"
  "stuff esc (c # p) = (if esc c then [PPP_ESCAPE, c XOR PPP_TRANS] else [c]) @ stuff esc p"
  "stuff esc (p @ q) = stuff esc p @ stuff esc q"
  by (simp_all add: stuff_def)

lemma stuff_none: "(\<And>c. c \<in> set p \<Longrightarrow> \<not> esc c) \<Longrightarrow> stuff esc p = p"
  by (induction p) simp_all

lemma stuff_length: "length p \<le> length (stuff esc p)" "length (stuff esc p) \<le> 2 * length p"
  by (induction p) simp_all

text \<open>Flags of the transmitter.\<close>

lemma pppstart_core:
  "t_sc tp \<Longrightarrow> tx_has SC_TX_BUSY sc \<Longrightarrow> pppstart len tp sc = tx_core tp (tx_account len sc)"
  by (simp add: pppstart_def tx_core_def Let_def)

lemma tx_account_flags [simp]: "tx_has b (tx_account k sc) = tx_has b sc"
  by (simp add: tx_account_def tx_has_def)

lemma tx_account_same: "\<not> sc_outoff_upd sc \<Longrightarrow> tx_account k sc = sc"
  by (simp add: tx_account_def)

lemma tx_has_frame [simp]:
  "tx_has b (sc\<lparr>sc_outmc := x\<rparr>) = tx_has b sc" "tx_has b (sc\<lparr>sc_outbuf := y\<rparr>) = tx_has b sc"
  "tx_has b (sc\<lparr>sc_outoff := n\<rparr>) = tx_has b sc" "tx_has b (sc\<lparr>sc_outoff_upd := u\<rparr>) = tx_has b sc"
  "tx_has b (sc\<lparr>sc_stats := t\<rparr>) = tx_has b sc" "tx_has b (tty_write w sc) = tx_has b sc"
  by (simp_all add: tx_has_def tty_write_def)

lemma tx_has_or_and:
  "tx_has b (sc\<lparr>sc_outflag := sc_outflag sc OR f\<rparr>) \<longleftrightarrow> tx_has b sc \<or> f AND b \<noteq> 0"
  "f AND b = 0 \<Longrightarrow> tx_has b (sc\<lparr>sc_outflag := sc_outflag sc AND NOT f\<rparr>) \<longleftrightarrow> tx_has b sc"
  "\<not> tx_has f (sc\<lparr>sc_outflag := sc_outflag sc AND NOT f\<rparr>)"
  by (simp_all add: tx_has_def flag_or flag_keep flag_clear)

text \<open>The two ways to a new buffer: the next mbuf, and the check sequence. Both leave the rest of the
  frame as it is.\<close>

lemma tx_at_end: "tx_ok sc \<Longrightarrow> \<not> sc_outoff sc < length (sc_outbuf sc) \<Longrightarrow> \<not> tx_has SC_TX_ESCAPE sc"
  by (auto simp: tx_ok_def)

lemma tx_next_mbuf:
  assumes "tx_ok sc" and "\<not> sc_outoff sc < length (sc_outbuf sc)" and "sc_outmc sc = m # n # ms"
  defines "sc' \<equiv> sc\<lparr>sc_outmc := n # ms, sc_outbuf := m_dat n, sc_outoff := 0\<rparr>"
  shows "tx_more sc' = tx_more sc" and "tx_ok sc'" and "m_dat n \<noteq> []"
  using assms(1-3) tx_at_end [OF assms(1,2)]
  by (simp_all add: tx_more_def tx_ok_def sc'_def Let_def)

lemma tx_flags_disjoint:
  "SC_TX_FCS AND SC_TX_BUSY = 0" "SC_TX_FCS AND SC_TX_ESCAPE = 0" "SC_TX_FCS AND SC_TX_LASTCHAR = 0"
  "SC_TX_ESCAPE AND SC_TX_BUSY = 0" "SC_TX_ESCAPE AND SC_TX_FCS = 0" "SC_TX_ESCAPE AND SC_TX_LASTCHAR = 0"
  "SC_TX_FCS \<noteq> 0" "SC_TX_ESCAPE \<noteq> 0"
  by (simp_all add: ppp_consts)

lemma tx_fcs_flags [simp]:
  "tx_has SC_TX_FCS (tx_fcs_buffer sc)" "tx_has SC_TX_BUSY (tx_fcs_buffer sc) = tx_has SC_TX_BUSY sc"
  "tx_has SC_TX_ESCAPE (tx_fcs_buffer sc) = tx_has SC_TX_ESCAPE sc"
  "tx_has SC_TX_LASTCHAR (tx_fcs_buffer sc) = tx_has SC_TX_LASTCHAR sc"
  by (simp_all add: tx_fcs_buffer_def tx_has_or_and tx_flags_disjoint)

lemma tx_escape_flags [simp]:
  "tx_has SC_TX_ESCAPE (tx_escape sc)" "\<not> tx_has SC_TX_ESCAPE (tx_unescape sc)"
  "tx_has SC_TX_BUSY (tx_escape sc) = tx_has SC_TX_BUSY sc"
  "tx_has SC_TX_BUSY (tx_unescape sc) = tx_has SC_TX_BUSY sc"
  "tx_has SC_TX_FCS (tx_escape sc) = tx_has SC_TX_FCS sc"
  "tx_has SC_TX_FCS (tx_unescape sc) = tx_has SC_TX_FCS sc"
  "tx_has SC_TX_LASTCHAR (tx_escape sc) = tx_has SC_TX_LASTCHAR sc"
  "tx_has SC_TX_LASTCHAR (tx_unescape sc) = tx_has SC_TX_LASTCHAR sc"
  by (simp_all add: tx_escape_def tx_unescape_def tx_has_or_and tx_flags_disjoint)

lemma tx_escape_fields [simp]:
  "sc_outmc (tx_escape sc) = sc_outmc sc" "sc_outmc (tx_unescape sc) = sc_outmc sc"
  "sc_outbuf (tx_escape sc) = sc_outbuf sc" "sc_outbuf (tx_unescape sc) = sc_outbuf sc"
  "sc_outoff (tx_escape sc) = sc_outoff sc" "sc_outoff (tx_unescape sc) = sc_outoff sc"
  "sc_outfcsbuf (tx_escape sc) = sc_outfcsbuf sc" "sc_outfcsbuf (tx_unescape sc) = sc_outfcsbuf sc"
  "sc_asyncmap (tx_escape sc) = sc_asyncmap sc" "sc_asyncmap (tx_unescape sc) = sc_asyncmap sc"
  by (simp_all add: tx_escape_def tx_unescape_def)

lemma tx_lastchar_simps [simp]:
  "tx_has SC_TX_LASTCHAR (tx_lastchar sc)" "tx_has SC_TX_BUSY (tx_lastchar sc) = tx_has SC_TX_BUSY sc"
  "tx_has SC_TX_ESCAPE (tx_lastchar sc) = tx_has SC_TX_ESCAPE sc" "\<not> tx_has SC_TX_FCS (tx_lastchar sc)"
  "sc_outmc (tx_lastchar sc) = sc_outmc sc" "sc_outoff_upd (tx_lastchar sc) = sc_outoff_upd sc"
  "sc_outfcsbuf (tx_lastchar sc) = sc_outfcsbuf sc"
  by (simp_all add: tx_lastchar_def tx_has_def flag_keep flag_clear flag_or tx_flags_disjoint)
     (simp_all add: ppp_consts flag_or)

lemma tty_write_fields [simp]:
  "sc_outmc (tty_write b sc) = sc_outmc sc" "sc_outbuf (tty_write b sc) = sc_outbuf sc"
  "sc_outoff (tty_write b sc) = sc_outoff sc" "sc_outfcsbuf (tty_write b sc) = sc_outfcsbuf sc"
  "sc_asyncmap (tty_write b sc) = sc_asyncmap sc" "sc_outoff_upd (tty_write b sc) = sc_outoff_upd sc"
  "tty_out (tty_write b sc) = tty_out sc @ [b]"
  by (simp_all add: tty_write_def)

lemma tx_fcs_fields [simp]:
  "sc_outmc (tx_fcs_buffer sc) = sc_outmc sc" "sc_outbuf (tx_fcs_buffer sc) = sc_outfcsbuf sc"
  "sc_outoff (tx_fcs_buffer sc) = 0" "sc_outfcsbuf (tx_fcs_buffer sc) = sc_outfcsbuf sc"
  "sc_asyncmap (tx_fcs_buffer sc) = sc_asyncmap sc" "sc_outoff_upd (tx_fcs_buffer sc) = sc_outoff_upd sc"
  "tty_out (tx_fcs_buffer sc) = tty_out sc"
  by (simp_all add: tx_fcs_buffer_def)

lemma tx_next_fcs:
  assumes "tx_ok sc" and "\<not> sc_outoff sc < length (sc_outbuf sc)" and "tl (sc_outmc sc) = []"
    and "\<not> tx_has SC_TX_FCS sc"
  shows "tx_more (tx_fcs_buffer sc) = tx_more sc" and "tx_ok (tx_fcs_buffer sc)" and "sc_outfcsbuf sc \<noteq> []"
  using assms tx_at_end [OF assms(1,2)]
  by (simp_all add: tx_more_def tx_ok_def Let_def)

lemma tx_buffer_more:
  assumes "tx_ok sc" and "\<not> tx_has SC_TX_LASTCHAR sc" and "tx_buffer sc = Some sc'"
  shows "tx_more sc' = tx_more sc \<and> tx_ok sc' \<and> sc_outoff sc' < length (sc_outbuf sc') \<and>
    \<not> tx_has SC_TX_LASTCHAR sc' \<and> tty_out sc' = tty_out sc \<and> sc_asyncmap sc' = sc_asyncmap sc"
proof (cases "sc_outoff sc < length (sc_outbuf sc)")
  case True
  with assms show ?thesis by (simp add: tx_buffer_def)
next
  case atend: False
  show ?thesis
  proof (cases "tl (sc_outmc sc) = []")
    case True
    with assms atend have "\<not> tx_has SC_TX_FCS sc" "sc' = tx_fcs_buffer sc"
      by (simp_all add: tx_buffer_def tx_fcs_buffer_def split: if_splits)
    with tx_next_fcs [OF assms(1) atend True] assms(2) show ?thesis by simp
  next
    case False
    then obtain m n ms where c: "sc_outmc sc = m # n # ms"
      by (metis list.collapse tl_Nil)
    with assms atend have "sc' = sc\<lparr>sc_outmc := n # ms, sc_outbuf := m_dat n, sc_outoff := 0\<rparr>"
      by (simp add: tx_buffer_def)
    with tx_next_mbuf [OF assms(1) atend c] assms(2) show ?thesis by simp
  qed
qed

lemma tx_buffer_none:
  assumes "tx_ok sc" and "\<not> tx_has SC_TX_LASTCHAR sc" and "tx_buffer sc = None"
  shows "tx_more sc = [PPP_FLAG]" and "\<not> tx_has SC_TX_ESCAPE sc" and "tl (sc_outmc sc) = []"
proof -
  have e: "\<not> sc_outoff sc < length (sc_outbuf sc)" "tl (sc_outmc sc) = []" "tx_has SC_TX_FCS sc"
    using assms(3) by (simp_all add: tx_buffer_def split: if_splits)
  with tx_at_end [OF assms(1)] assms(2)
  show "tx_more sc = [PPP_FLAG]" and "\<not> tx_has SC_TX_ESCAPE sc" and "tl (sc_outmc sc) = []"
    by (simp_all add: tx_more_def Let_def)
qed

text \<open>A piece of a buffer: the characters up to the next one that is escaped, the escaped character, or
  the escape in front of it.\<close>

lemma tx_send_run:
  assumes "tx_ok sc" and "\<not> tx_has SC_TX_LASTCHAR sc" and "sc_outoff sc < length (sc_outbuf sc)"
    and "\<not> t_polled tp" and esc: "\<not> ESCAPE_P (sc_asyncmap sc) (sc_outbuf sc ! sc_outoff sc)"
  shows "tx_pending (tx_send tp sc) (tx_more sc)"
proof -
  define esc where "esc = ESCAPE_P (sc_asyncmap sc)"
  define run where "run = takeWhile (\<lambda>c. \<not> esc c) (drop (sc_outoff sc) (sc_outbuf sc))"
  have e: "\<not> tx_has SC_TX_ESCAPE sc" and "run \<noteq> []"
    using assms by (auto simp: tx_ok_def esc_def run_def takeWhile_eq_Nil_iff hd_drop_conv_nth)
  then have s: "tx_send tp sc = (tty_write run sc)\<lparr>sc_outoff_upd := True\<rparr>"
    using assms by (simp add: tx_send_def tx_piece_def Let_def esc_def run_def)
  have "tx_more sc = take k run @ tx_more (tx_account k (tx_send tp sc)) \<and> tx_ok (tx_account k (tx_send tp sc))"
    if k: "k \<le> length run" for k
  proof -
    have "drop (sc_outoff sc) (sc_outbuf sc) = take k run @ drop (sc_outoff sc + k) (sc_outbuf sc)"
      using k by (metis append_take_drop_id drop_drop run_def takeWhile_eq_take take_take min.absorb1 add.commute)
    moreover have "stuff esc (take k run) = take k run"
      by (rule stuff_none) (metis in_set_takeD run_def set_takeWhileD)
    ultimately show ?thesis
      using assms(1,2) e by (simp add: s tx_account_def tx_more_def tx_ok_def Let_def esc_def [symmetric])
  qed
  with \<open>run \<noteq> []\<close> assms(1) show ?thesis
    by (simp add: tx_pending_def s tx_ok_def)
qed

lemma drop_at: "i < length p \<Longrightarrow> drop i p = p ! i # drop (Suc i) p"
  by (simp add: Cons_nth_drop_Suc)

lemma tx_send_escaped:
  assumes "tx_ok sc" and "\<not> tx_has SC_TX_LASTCHAR sc" and "sc_outoff sc < length (sc_outbuf sc)"
    and "\<not> t_polled tp" and "tx_has SC_TX_ESCAPE sc"
  shows "tx_pending (tx_send tp sc) (tx_more sc)"
proof -
  define c where "c = sc_outbuf sc ! sc_outoff sc"
  have esc: "ESCAPE_P (sc_asyncmap sc) c" using assms by (simp add: tx_ok_def c_def)
  then have s: "tx_send tp sc = (tty_write [c XOR PPP_TRANS] (tx_unescape sc))\<lparr>sc_outoff_upd := True\<rparr>"
    using assms by (simp add: tx_send_def tx_piece_def Let_def c_def tx_unescape_def)
  show ?thesis
    using assms esc drop_at [OF assms(3)]
    by (auto simp: tx_pending_def s tx_account_def tx_more_def tx_ok_def Let_def c_def [symmetric] le_Suc_eq)
qed

lemma tx_send_escape:
  assumes "tx_ok sc" and "\<not> tx_has SC_TX_LASTCHAR sc" and "sc_outoff sc < length (sc_outbuf sc)"
    and "\<not> t_polled tp" and "\<not> tx_has SC_TX_ESCAPE sc" and "ESCAPE_P (sc_asyncmap sc) (sc_outbuf sc ! sc_outoff sc)"
  shows "tx_pending (tx_send tp sc) (tx_more sc)"
proof -
  have s: "tx_send tp sc = (tty_write [PPP_ESCAPE] (tx_escape sc))\<lparr>sc_outoff_upd := False,
      sc_stats := (sc_stats sc)\<lparr>ppp_obytes := ppp_obytes (sc_stats sc) + 1\<rparr>\<rparr>"
    using assms by (simp add: tx_send_def tx_piece_def Let_def tx_escape_def tty_write_def)
  show ?thesis
    using assms drop_at [OF assms(3)]
    by (auto simp: tx_pending_def s tx_account_def tx_more_def tx_ok_def Let_def le_Suc_eq)
qed

text \<open>One call of \<^verbatim>\<open>pppstart\<close> that does not end the transmission.\<close>

lemma tx_core_pending:
  assumes ok: "tx_ok sc" and last: "\<not> tx_has SC_TX_LASTCHAR sc" and tp: "\<not> t_polled tp"
  shows "tx_pending (tx_core tp sc) (tx_more sc)"
proof (cases "tx_buffer sc")
  case None
  then have "tx_core tp sc = tty_write [PPP_FLAG] (tx_lastchar sc)"
    using last by (simp add: tx_core_def tx_lastchar_def)
  with tx_buffer_none [OF ok last None] ok show ?thesis
    by (auto simp: tx_pending_def tx_account_def tx_ok_def le_Suc_eq tx_more_def [of "tty_write _ _"])
next
  case (Some sc')
  note n = tx_buffer_more [OF ok last Some]
  then have "tx_core tp sc = tx_send tp sc'"
    using last Some by (simp add: tx_core_def)
  moreover have "tx_pending (tx_send tp sc') (tx_more sc')"
    using n tx_send_run [of sc' tp] tx_send_escaped [of sc' tp] tx_send_escape [of sc' tp] tp by blast
  ultimately show ?thesis using n by simp
qed

text \<open>The whole frame: after as many calls as there are bytes left, all of them are on the wire and the
  task is told.\<close>

lemma drive_pending:
  assumes "tx_pending sc todo" and "length todo < length ns" and "t_sc tp" and "\<not> t_polled tp"
  shows "fst (drive ns tp sc) = todo \<and> TX_TRANSMIT \<in> ev_tx (snd (drive ns tp sc)) \<and>
    \<not> tx_has SC_TX_BUSY (snd (drive ns tp sc))"
  using assms(1,2)
proof (induction ns arbitrary: sc todo)
  case (Cons n ns)
  define b where "b = last (tty_out sc)"
  define k where "k = max 1 (min n (length b))"
  define sc1 where "sc1 = tx_account k sc"
  have b: "b \<noteq> []" and k: "1 \<le> k" "k \<le> length b" and busy: "tx_has SC_TX_BUSY sc"
    using Cons.prems by (auto simp: tx_pending_def Let_def b_def k_def Suc_le_eq)
  then have todo: "todo = take k b @ tx_more sc1" and ok: "tx_ok sc1"
    using Cons.prems by (simp_all add: tx_pending_def Let_def b_def sc1_def)
  have d: "drive (n # ns) tp sc = (let (w, sc) = drive ns tp (tx_core tp sc1) in (take k b @ w, sc))"
    using b busy assms(3) by (simp add: b_def k_def Let_def pppstart_core sc1_def)
  show ?case
  proof (cases "tx_has SC_TX_LASTCHAR sc1")
    case True
    then have c: "last (tty_out (tx_core tp sc1)) = []" "TX_TRANSMIT \<in> ev_tx (tx_core tp sc1)"
      "\<not> tx_has SC_TX_BUSY (tx_core tp sc1)"
      by (simp_all add: tx_core_def tx_event_send_def tx_has_def and.assoc tty_write_def)
         (simp add: ppp_consts)
    then have "drive ns tp (tx_core tp sc1) = ([], tx_core tp sc1)"
      by (cases ns) simp_all
    with c todo True show ?thesis by (simp add: d tx_more_def del: drive.simps)
  next
    case False
    have "length (tx_more sc1) < length ns"
      using Cons.prems(2) todo k by simp
    with Cons.IH [OF tx_core_pending [OF ok False assms(4)]] todo show ?thesis
      by (auto simp: d simp del: drive.simps split: prod.split)
  qed
qed simp

section \<open>Packets\<close>

text \<open>The task computes the check sequence over the whole chain, if no mbuf of it is empty.\<close>

lemma tx_chain_all:
  "list_all (\<lambda>m. m_dat m \<noteq> []) ms \<Longrightarrow> tx_chain v ms = (pppfcs v (m_bytes ms), ms)"
proof (induction ms arbitrary: v)
  case (Cons m ms)
  then show ?case by (cases ms) (simp_all add: pppfcs_append)
qed simp

text \<open>The chain is cut before the first empty mbuf, and the frame is valid for what is left.\<close>

lemma tx_chain_cut:
  assumes "list_all (\<lambda>m. m_dat m \<noteq> []) ms" and "ms \<noteq> []" and "m_dat m = []"
  shows "tx_chain v (ms @ m # ns) = (pppfcs v (m_bytes ms), ms)"
  using assms(1,2)
proof (induction ms arbitrary: v)
  case (Cons n ms)
  then show ?case using assms(3) by (cases ms) (simp_all add: pppfcs_append)
qed simp

lemma tx_begin_pending:
  assumes "list_all (\<lambda>m. m_dat m \<noteq> []) (sc_outm sc)" and "sc_outm sc \<noteq> []" and "sc_devp sc \<noteq> None"
    and "sc_outflag sc = SC_TX_BUSY"
  shows "tx_pending (tx_begin sc) (wire_frame (sc_asyncmap sc) (m_bytes (sc_outm sc)))"
proof -
  obtain m ms where m: "sc_outm sc = m # ms"
    using assms(2) by (cases "sc_outm sc") auto
  obtain dev where dev: "sc_devp sc = Some dev"
    using assms(3) by auto
  note c = tx_chain_all [OF assms(1)] dev
  have f: "tx_has SC_TX_BUSY (tx_begin sc)" "\<not> tx_has SC_TX_FCS (tx_begin sc)"
    "\<not> tx_has SC_TX_ESCAPE (tx_begin sc)" "\<not> tx_has SC_TX_LASTCHAR (tx_begin sc)"
    using assms(4) by (simp_all add: tx_has_def tx_begin_def tty_write_def c Let_def)
       (simp_all add: ppp_consts)
  have g: "last (tty_out (tx_begin sc)) = [PPP_FLAG]" "\<not> sc_outoff_upd (tx_begin sc)"
    "sc_outmc (tx_begin sc) = sc_outm sc" "sc_outbuf (tx_begin sc) = m_dat (hd (sc_outm sc))"
    "sc_outoff (tx_begin sc) = 0" "sc_asyncmap (tx_begin sc) = sc_asyncmap sc"
    "sc_outfcsbuf (tx_begin sc) = drop (length (m_bytes (sc_outm sc))) (with_fcs (m_bytes (sc_outm sc)))"
    by (simp_all add: tx_begin_def c with_fcs_def fcs_of_def pppfcs_fold Let_def)
  have w: "with_fcs p = p @ drop (length p) (with_fcs p)" "drop (length p) (with_fcs p) \<noteq> []" for p
    by (simp_all add: with_fcs_def)
  have "wire_frame (sc_asyncmap sc) (m_bytes (sc_outm sc)) = PPP_FLAG # tx_more (tx_begin sc)"
    unfolding wire_frame_def by (subst w(1)) (simp add: tx_more_def f g m Let_def)
  moreover have "tx_ok (tx_begin sc)"
    using assms(1) w(2) [of "m_bytes (sc_outm sc)"] by (simp add: tx_ok_def f g m)
  ultimately show ?thesis
    by (auto simp: tx_pending_def f g tx_account_same le_Suc_eq)
qed

end
