(* ===== verification/Tty_Receive.thy ===== *)
theory Tty_Receive
  imports Tty_Transmit
begin

text \<open>
  The receiver of the line discipline: a frame that arrives between two flags, with the characters of the
  receive map escaped, ends up on the raw queue as the packet that was sent. Where the peer has left out
  address and control, or the first byte of the protocol, they are put back.
\<close>

section \<open>Definitions\<close>

text \<open>The bits of \<^verbatim>\<open>sc_flags\<close> other than the statistics on parity.\<close>

definition rx_norm :: "u32 \<Rightarrow> u32" where
  "rx_norm f = f AND NOT (SC_RCV_B7_0 OR SC_RCV_B7_1 OR SC_RCV_EVNP OR SC_RCV_ODDP)"

text \<open>The receiver in the middle of a frame: \<open>fr\<close> is in the mbuf, \<open>v\<close> is the check sequence so far.\<close>

definition rx_set :: "mbuf \<Rightarrow> bytes \<Rightarrow> 16 word \<Rightarrow> ppp_softc \<Rightarrow> ppp_softc" where
  "rx_set m fr v sc =
     sc\<lparr>sc_m := [m\<lparr>m_off := 0, m_dat := fr\<rparr>], sc_mc := 0, sc_ilen := int (length fr), sc_fcs := v\<rparr>"

definition rx_fits :: "mbuf \<Rightarrow> ppp_softc \<Rightarrow> bool" where
  "rx_fits m sc \<longleftrightarrow> M_WRITABLE m \<and> 0 \<le> sc_mru sc \<and> sc_mru sc + 6 \<le> int (m_cap m) \<and> sc_mru sc + 6 < 32768"

text \<open>The bytes that the receiver stores for the bytes of a frame, and the frames whose header it accepts.\<close>

definition expand_proto :: "bytes \<Rightarrow> bytes" where
  "expand_proto q = (if bit (hd q) 0 then 0 # q else q)"

definition after_ac :: "bytes \<Rightarrow> bytes" where
  "after_ac q = (if hd q = PPP_ALLSTATIONS then drop 2 q else q)"

definition expand_header :: "bytes \<Rightarrow> bytes" where
  "expand_header q = [PPP_ALLSTATIONS, PPP_UI] @ expand_proto (after_ac q)"

definition proto_form :: "bytes \<Rightarrow> bool" where
  "proto_form q \<longleftrightarrow> q \<noteq> [] \<and> (bit (hd q) 0 \<or> 2 \<le> length q \<and> bit (q ! 1) 0)"

definition header_form :: "bytes \<Rightarrow> bool" where
  "header_form q \<longleftrightarrow>
     q \<noteq> [] \<and> (hd q = PPP_ALLSTATIONS \<longrightarrow> 2 \<le> length q \<and> q ! 1 = PPP_UI) \<and> proto_form (after_ac q)"

text \<open>What the receiver needs of the escapes of the sender.\<close>

definition wire_ok :: "(u8 \<Rightarrow> bool) \<Rightarrow> u32 \<Rightarrow> bool" where
  "wire_ok esc rmap \<longleftrightarrow>
     esc PPP_FLAG \<and> esc PPP_ESCAPE \<and> \<not> esc (PPP_FLAG XOR PPP_TRANS) \<and>
     (\<forall>c. if esc c then \<not> c XOR PPP_TRANS < 0x20 else c < 0x20 \<longrightarrow> \<not> bit rmap (unat c))"

text \<open>The state in which the data of a character is stored: after its flags are noted, and after its escape.\<close>

definition rx_after :: "(u8 \<Rightarrow> bool) \<Rightarrow> u8 \<Rightarrow> ppp_softc \<Rightarrow> ppp_softc" where
  "rx_after esc c sc =
     (if esc c
      then (let sc = rx_note PPP_ESCAPE sc;
                sc = rx_note (c XOR PPP_TRANS) (sc\<lparr>sc_flags := sc_flags sc OR SC_ESCAPED\<rparr>)
            in sc\<lparr>sc_flags := sc_flags sc AND NOT SC_ESCAPED\<rparr>)
      else rx_note c sc)"

fun rx_feed :: "(u8 \<Rightarrow> bool) \<Rightarrow> bytes \<Rightarrow> ppp_softc \<Rightarrow> ppp_softc" where
  "rx_feed esc [] sc = sc"
| "rx_feed esc (c # q) sc = rx_feed esc q (rx_data c (rx_after esc c sc))"

text \<open>The driver gives the discipline one character after the other.\<close>

definition tty_input :: "tty \<Rightarrow> bytes \<Rightarrow> ppp_softc \<Rightarrow> ppp_softc" where
  "tty_input tp cs sc = fold (\<lambda>c. pppinput c tp) cs sc"

definition attached :: "tty \<Rightarrow> ppp_softc \<Rightarrow> bool" where
  "attached tp sc \<longleftrightarrow> t_sc tp \<and> sc_devp sc = Some (t_dev tp)"

text \<open>The fields that a frame in progress leaves alone.\<close>

definition rx_eq :: "ppp_softc \<Rightarrow> ppp_softc \<Rightarrow> bool" where
  "rx_eq sc sc' \<longleftrightarrow>
     sc' = sc\<lparr>sc_flags := sc_flags sc', sc_stats := sc_stats sc'\<rparr> \<and> rx_norm (sc_flags sc') = rx_norm (sc_flags sc)"

definition rx_link :: "(u8 \<Rightarrow> bool) \<Rightarrow> tty \<Rightarrow> mbuf \<Rightarrow> ppp_softc \<Rightarrow> bool" where
  "rx_link esc tp m sc \<longleftrightarrow>
     attached tp sc \<and> \<not> rx_has SC_ESCAPED sc \<and> wire_ok esc (sc_rasyncmap sc) \<and> rx_fits m sc"

text \<open>Between two frames.\<close>

definition rx_idle :: "(u8 \<Rightarrow> bool) \<Rightarrow> tty \<Rightarrow> mbuf \<Rightarrow> ppp_softc \<Rightarrow> bool" where
  "rx_idle esc tp m sc \<longleftrightarrow> rx_link esc tp m sc \<and> \<not> rx_has SC_FLUSH sc \<and> sc_m sc = [m] \<and> sc_ilen sc = 0"

text \<open>The state once the packet \<open>p\<close> is on the raw queue.\<close>

definition rx_done :: "mbuf \<Rightarrow> bytes \<Rightarrow> u32 \<Rightarrow> pppstat \<Rightarrow> ppp_softc \<Rightarrow> ppp_softc" where
  "rx_done m p f t sc =
     sc\<lparr>sc_flags := f, sc_stats := t,
        sc_rawq := sc_rawq sc @ [[m\<lparr>m_off := 0, m_dat := p, m_errmark := m_errmark m \<or> rx_has SC_PKTLOST sc\<rparr>]],
        sc_m := fst (if_ppp_dequeue (sc_freeq sc)), sc_freeq := snd (if_ppp_dequeue (sc_freeq sc)),
        sc_mc := 0, sc_ilen := 0, sc_fcs := PPP_GOODFCS, ev_rx := insert RX_PACKET (ev_rx sc)\<rparr>"

definition lost_cleared :: "u32 \<Rightarrow> u32" where
  "lost_cleared f = (if f AND SC_PKTLOST \<noteq> 0 then f AND NOT SC_PKTLOST else f)"

section \<open>One character\<close>

lemma short_id: "- 32768 \<le> i \<Longrightarrow> i < 32768 \<Longrightarrow> short i = i"
  by (simp add: short_def signed_take_bit_int_eq_self)

lemma trailing_single:
  "M_WRITABLE m \<Longrightarrow> M_TRAILINGSPACE (m\<lparr>m_off := 0, m_dat := fr\<rparr>) = int (m_cap m) - int (length fr)"
  by (simp add: M_TRAILINGSPACE_def M_WRITABLE_def)

lemma rx_data_more:
  assumes "rx_fits m sc" and "fr \<noteq> []" and "int (length fr) < sc_mru sc + 6"
    and "length fr = 1 \<longrightarrow> c = PPP_UI" and "length fr = 2 \<longrightarrow> \<not> bit c 0" and "length fr = 3 \<longrightarrow> bit c 0"
  shows "rx_data c (rx_set m fr v sc) = rx_set m (fr @ [c]) (PPP_FCS v c) sc"
proof -
  define sc0 where "sc0 = rx_set m fr v sc"
  have f: "rx_first c sc0 = (sc0, False)"
    using assms(2) by (simp add: rx_first_def sc0_def rx_set_def)
  have il: "sc_ilen sc0 = int (length fr)" "sc_mru sc0 = sc_mru sc"
    by (simp_all add: sc0_def rx_set_def)
  define sc1 where "sc1 = sc0\<lparr>sc_ilen := int (length fr) + 1\<rparr>"
  have sh: "short (int (length fr) + 1) = int (length fr) + 1"
    using assms(1,3) by (intro short_id) (simp_all add: rx_fits_def)
  have r: "rx_room sc1 = (sc1, False)"
    using assms(1,3) by (simp add: rx_room_def sc1_def sc0_def rx_set_def trailing_single rx_fits_def)
  have "rx_data c sc0 = (rx_put [c] sc1)\<lparr>sc_fcs := PPP_FCS (sc_fcs sc1) c\<rparr>"
    using assms(3-6)
    by (simp add: rx_data_def rx_proto_def Let_def f il sh sc1_def [symmetric] r)
       (auto simp: sc1_def il PPP_HDRLEN_def PPP_FCSLEN_def)
  also have "\<dots> = rx_set m (fr @ [c]) (PPP_FCS v c) sc"
    using assms(1,3)
    by (simp add: rx_put_def trap_if_def sc1_def sc0_def rx_set_def rx_fits_def add.commute)
  finally show ?thesis by (simp add: sc0_def)
qed

text \<open>The first character of a frame, and a compressed protocol.\<close>

lemma rx_data_first:
  assumes "rx_fits m sc" and "sc_m sc = [m]" and "sc_ilen sc = 0"
  shows "rx_data PPP_ALLSTATIONS sc = rx_set m [PPP_ALLSTATIONS] (PPP_FCS PPP_INITFCS PPP_ALLSTATIONS) sc"
proof -
  define sc0 where "sc0 = rx_set m [] PPP_INITFCS sc"
  have f: "rx_first PPP_ALLSTATIONS sc = (sc0, False)"
    using assms by (simp add: rx_first_def sc0_def rx_set_def)
  define sc1 where "sc1 = sc0\<lparr>sc_ilen := 1\<rparr>"
  have il: "sc_ilen sc0 = 0" "sc_mru sc0 = sc_mru sc" "short 1 = 1"
    by (simp_all add: sc0_def rx_set_def short_id)
  have r: "rx_room sc1 = (sc1, False)"
    using assms(1) by (simp add: rx_room_def sc1_def sc0_def rx_set_def trailing_single rx_fits_def)
  have "rx_data PPP_ALLSTATIONS sc = (rx_put [PPP_ALLSTATIONS] sc1)\<lparr>sc_fcs := PPP_FCS (sc_fcs sc1) PPP_ALLSTATIONS\<rparr>"
    using assms(1)
    by (simp add: rx_data_def rx_proto_def Let_def f il sc1_def [symmetric] r)
       (simp add: sc1_def il PPP_HDRLEN_def PPP_FCSLEN_def rx_fits_def)
  also have "\<dots> = rx_set m [PPP_ALLSTATIONS] (PPP_FCS PPP_INITFCS PPP_ALLSTATIONS) sc"
    using assms(1) by (simp add: rx_put_def trap_if_def sc1_def sc0_def rx_set_def rx_fits_def)
  finally show ?thesis .
qed

lemma rx_data_first_compressed:
  assumes "rx_fits m sc" and "sc_m sc = [m]" and "sc_ilen sc = 0" and "c \<noteq> PPP_ALLSTATIONS"
    and "\<not> rx_has SC_REJ_COMP_AC sc"
  shows "rx_data c sc = rx_data c (rx_set m [PPP_ALLSTATIONS, PPP_UI] PPP_INITFCS sc)"
proof -
  define sc0 where "sc0 = rx_set m [PPP_ALLSTATIONS, PPP_UI] PPP_INITFCS sc"
  have "rx_first c sc = (sc0, False)"
    using assms
    by (simp add: rx_first_def rx_has_def rx_put_def trap_if_def sc0_def rx_set_def short_id rx_fits_def)
  moreover have "rx_first c sc0 = (sc0, False)"
    by (simp add: rx_first_def sc0_def rx_set_def)
  ultimately show ?thesis by (simp add: rx_data_def sc0_def)
qed

lemma rx_data_protocol_compressed:
  assumes "rx_fits m sc" and "length fr = 2" and "bit c 0"
  shows "rx_data c (rx_set m fr v sc) = rx_data c (rx_set m (fr @ [0]) v sc)"
proof -
  define sc0 where "sc0 = rx_set m fr v sc"
  define sc1 where "sc1 = rx_set m (fr @ [0]) v sc"
  have "rx_first c sc0 = (sc0, False)" "rx_first c sc1 = (sc1, False)"
    using assms(2) by (auto simp: rx_first_def sc0_def sc1_def rx_set_def)
  moreover have "(rx_put [0] sc0)\<lparr>sc_ilen := short (sc_ilen sc0 + 1)\<rparr> = sc1"
    using assms by (simp add: rx_put_def trap_if_def sc0_def sc1_def rx_set_def short_id rx_fits_def)
  moreover have "sc_ilen sc0 = 2" "sc_ilen sc1 = 3"
    using assms(2) by (simp_all add: sc0_def sc1_def rx_set_def)
  ultimately have "rx_data c sc0 = rx_data c sc1"
    using assms(3) by (simp add: rx_data_def rx_proto_def Let_def)
  then show ?thesis by (simp add: sc0_def sc1_def)
qed

section \<open>Characters on the wire\<close>

lemma rx_has_norm:
  assumes "rx_norm f = rx_norm g" and "b \<in> {SC_REJ_COMP_AC, SC_FLUSH, SC_ESCAPED, SC_PKTLOST}"
  shows "f AND b = g AND b"
proof -
  have "rx_norm x AND b = x AND b" for x
    using assms(2) unfolding rx_norm_def by (intro flag_keep) (auto simp: ppp_consts)
  then show ?thesis using assms(1) by metis
qed

lemma rx_norm_note: "rx_norm (sc_flags (rx_note c sc)) = rx_norm (sc_flags sc)"
  by (simp add: rx_note_def rx_norm_def bit.conj_disj_distrib2 and.assoc) (auto simp: ppp_consts)

lemma rx_norm_escaped:
  assumes "f AND SC_ESCAPED = 0" and "rx_norm g = rx_norm (h OR SC_ESCAPED)" and "rx_norm h = rx_norm f"
  shows "rx_norm (g AND NOT SC_ESCAPED) = rx_norm f"
proof -
  have swap: "rx_norm (x AND NOT SC_ESCAPED) = rx_norm x AND NOT SC_ESCAPED" for x
    by (simp add: rx_norm_def and.assoc and.commute and.left_commute)
  have "rx_norm (g AND NOT SC_ESCAPED) = (rx_norm h OR rx_norm SC_ESCAPED) AND NOT SC_ESCAPED"
    unfolding swap assms(2) by (simp add: rx_norm_def bit.conj_disj_distrib2)
  also have "\<dots> = rx_norm (f AND NOT SC_ESCAPED)"
    unfolding swap assms(3)
    by (simp add: bit.conj_disj_distrib2) (simp add: rx_norm_def ppp_consts)
  also have "f AND NOT SC_ESCAPED = f"
  proof (rule bit_word_eqI)
    fix n
    have "\<not> (bit f n \<and> bit SC_ESCAPED n)"
      using assms(1) by (metis bit_0_eq bit_and_iff bot_apply bot_bool_def)
    then show "bit (f AND NOT SC_ESCAPED) n = bit f n" if "n < LENGTH(32)"
      using that by (auto simp: bit_simps)
  qed
  finally show ?thesis .
qed

lemma rx_eq_refl [simp]: "rx_eq sc sc"
  by (simp add: rx_eq_def)

lemma rx_eqI: "sc' = sc\<lparr>sc_flags := f, sc_stats := t\<rparr> \<Longrightarrow> rx_norm f = rx_norm (sc_flags sc) \<Longrightarrow> rx_eq sc sc'"
  by (simp add: rx_eq_def)

lemma rx_eqE:
  assumes "rx_eq sc sc'"
  obtains f t where "sc' = sc\<lparr>sc_flags := f, sc_stats := t\<rparr>" and "rx_norm f = rx_norm (sc_flags sc)"
  using assms unfolding rx_eq_def by blast

lemma rx_eq_trans: "rx_eq a b \<Longrightarrow> rx_eq b c \<Longrightarrow> rx_eq a c"
  by (elim rx_eqE) (auto intro: rx_eqI)

lemma rx_eq_has:
  "rx_eq sc sc' \<Longrightarrow> b \<in> {SC_REJ_COMP_AC, SC_FLUSH, SC_ESCAPED, SC_PKTLOST} \<Longrightarrow> rx_has b sc' = rx_has b sc"
  unfolding rx_eq_def rx_has_def using rx_has_norm by metis

lemma rx_note_set: "rx_note c (rx_set m fr v sc) = rx_set m fr v (rx_note c sc)"
  by (simp add: rx_note_def rx_set_def)

lemma rx_after_set: "rx_after esc c (rx_set m fr v sc) = rx_set m fr v (rx_after esc c sc)"
  by (simp add: rx_after_def rx_note_set Let_def) (simp add: rx_set_def rx_note_def)

lemma rx_after_eq:
  assumes "\<not> rx_has SC_ESCAPED sc"
  shows "rx_eq sc (rx_after esc c sc)"
proof (rule rx_eqI)
  show "rx_after esc c sc = sc\<lparr>sc_flags := sc_flags (rx_after esc c sc), sc_stats := sc_stats (rx_after esc c sc)\<rparr>"
    by (simp add: rx_after_def rx_note_def Let_def)
  let ?s = "(rx_note PPP_ESCAPE sc)\<lparr>sc_flags := sc_flags (rx_note PPP_ESCAPE sc) OR SC_ESCAPED\<rparr>"
  have "rx_norm (sc_flags (rx_note (c XOR PPP_TRANS) ?s) AND NOT SC_ESCAPED) = rx_norm (sc_flags sc)"
    using assms rx_norm_note [of "c XOR PPP_TRANS" ?s]
    by (intro rx_norm_escaped [OF _ _ rx_norm_note]) (simp_all add: rx_has_def)
  then show "rx_norm (sc_flags (rx_after esc c sc)) = rx_norm (sc_flags sc)"
    by (simp add: rx_after_def Let_def rx_norm_note)
qed

lemma tty_input_simps [simp]:
  "tty_input tp [] sc = sc" "tty_input tp (c # cs) sc = tty_input tp cs (pppinput c tp sc)"
  "tty_input tp (cs @ ds) sc = tty_input tp ds (tty_input tp cs sc)"
  by (simp_all add: tty_input_def)

lemma xor_trans_involutive: "(c XOR PPP_TRANS) XOR PPP_TRANS = c"
  by (simp add: xor.assoc)

lemma rx_note_fields [simp]:
  "sc_m (rx_note c sc) = sc_m sc" "sc_devp (rx_note c sc) = sc_devp sc"
  "sc_rasyncmap (rx_note c sc) = sc_rasyncmap sc"
  by (simp_all add: rx_note_def)

lemma pppinput_char:
  assumes "attached tp sc" and "sc_m sc \<noteq> []" and "c \<noteq> PPP_FLAG"
  shows "pppinput c tp sc = rx_char c (rx_note c sc)"
  using assms by (simp add: pppinput_def attached_def Let_def)

lemma rx_note_escaped [simp]: "rx_has SC_ESCAPED (rx_note c sc) = rx_has SC_ESCAPED sc"
  using rx_has_norm [OF rx_norm_note] by (simp add: rx_has_def)

text \<open>A character, escaped or not.\<close>

lemma tty_input_stuffed:
  assumes "attached tp sc" and "sc_m sc \<noteq> []" and "\<not> rx_has SC_ESCAPED sc" and w: "wire_ok esc (sc_rasyncmap sc)"
  shows "tty_input tp (if esc c then [PPP_ESCAPE, c XOR PPP_TRANS] else [c]) sc = rx_data c (rx_after esc c sc)"
proof (cases "esc c")
  case True
  define s1 where "s1 = rx_note PPP_ESCAPE sc"
  define s2 where "s2 = s1\<lparr>sc_flags := sc_flags s1 OR SC_ESCAPED\<rparr>"
  have "PPP_ESCAPE \<noteq> PPP_FLAG" "\<not> PPP_ESCAPE < 0x20"
    by (simp_all add: ppp_consts)
  with assms have 1: "pppinput PPP_ESCAPE tp sc = s2"
    by (simp add: pppinput_char rx_char_def s1_def [symmetric] s2_def) (simp add: s1_def)
  have "c XOR PPP_TRANS \<noteq> PPP_FLAG"
    using w True xor_trans_involutive [of c] by (auto simp: wire_ok_def)
  moreover have "\<not> c XOR PPP_TRANS < 0x20" using w True by (auto simp: wire_ok_def)
  moreover have "attached tp s2" "sc_m s2 \<noteq> []"
    using assms by (simp_all add: s2_def s1_def attached_def)
  moreover have "rx_has SC_ESCAPED (rx_note (c XOR PPP_TRANS) s2)"
    by (simp add: s2_def) (simp add: rx_has_def flag_or, simp add: ppp_consts)
  ultimately have "pppinput (c XOR PPP_TRANS) tp s2 = rx_data c (rx_after esc c sc)"
    using True by (simp add: pppinput_char rx_char_def xor_trans_involutive rx_after_def Let_def s1_def s2_def)
  with True 1 show ?thesis by simp
next
  case False
  with w have "c \<noteq> PPP_FLAG" "c \<noteq> PPP_ESCAPE" "\<not> (c < 0x20 \<and> bit (sc_rasyncmap sc) (unat c))"
    by (auto simp: wire_ok_def)
  with assms False show ?thesis
    by (auto simp: pppinput_char rx_char_def rx_after_def)
qed

lemma rx_set_fields [simp]:
  "sc_m (rx_set m fr v sc) \<noteq> []" "sc_rasyncmap (rx_set m fr v sc) = sc_rasyncmap sc"
  "attached tp (rx_set m fr v sc) = attached tp sc" "rx_has b (rx_set m fr v sc) = rx_has b sc"
  by (simp_all add: rx_set_def attached_def rx_has_def)

lemma rx_eq_fields:
  assumes "rx_eq sc sc'"
  shows "sc_rasyncmap sc' = sc_rasyncmap sc" "attached tp sc' = attached tp sc" "rx_fits m sc' = rx_fits m sc"
    "sc_mru sc' = sc_mru sc" "sc_m sc' = sc_m sc" "sc_ilen sc' = sc_ilen sc"
  using assms by (elim rx_eqE, simp add: attached_def rx_fits_def)+

lemma rx_eq_link: "rx_eq sc sc' \<Longrightarrow> rx_link esc tp m sc \<Longrightarrow> rx_link esc tp m sc'"
  by (simp add: rx_link_def rx_eq_fields rx_eq_has)

lemma tty_input_step:
  assumes "rx_link esc tp m sc"
  obtains sc' where "rx_eq sc sc'" and "\<And>fr v. tty_input tp (stuff esc (c # q)) (rx_set m fr v sc) =
    tty_input tp (stuff esc q) (rx_data c (rx_set m fr v sc'))"
proof -
  have "rx_eq sc (rx_after esc c sc)"
    using assms by (intro rx_after_eq) (simp add: rx_link_def)
  moreover have "tty_input tp (stuff esc (c # q)) (rx_set m fr v sc) =
    tty_input tp (stuff esc q) (rx_data c (rx_set m fr v (rx_after esc c sc)))" for fr v
    using assms tty_input_stuffed [of tp "rx_set m fr v sc" esc c]
    by (simp add: rx_link_def rx_after_set del: tty_input_simps(2))
  ultimately show thesis by (rule that)
qed

lemma tty_input_more:
  assumes "rx_link esc tp m sc" and "fr \<noteq> []" and "int (length fr) < sc_mru sc + 6"
    and "length fr = 1 \<longrightarrow> c = PPP_UI" and "length fr = 2 \<longrightarrow> \<not> bit c 0" and "length fr = 3 \<longrightarrow> bit c 0"
  obtains sc' where "rx_eq sc sc'" and "tty_input tp (stuff esc (c # q)) (rx_set m fr v sc) =
    tty_input tp (stuff esc q) (rx_set m (fr @ [c]) (PPP_FCS v c) sc')"
proof -
  obtain sc' where eq: "rx_eq sc sc'" and st: "\<And>fr v. tty_input tp (stuff esc (c # q)) (rx_set m fr v sc) =
      tty_input tp (stuff esc q) (rx_data c (rx_set m fr v sc'))"
    by (rule tty_input_step [OF assms(1), of c q]) blast
  have "rx_data c (rx_set m fr v sc') = rx_set m (fr @ [c]) (PPP_FCS v c) sc'"
    using assms rx_eq_fields [OF eq] by (intro rx_data_more) (simp_all add: rx_link_def)
  with that [OF eq] st show thesis by simp
qed

text \<open>The rest of a frame after its header.\<close>

lemma tty_input_run:
  assumes "rx_link esc tp m sc" and "4 \<le> length fr" and "int (length fr + length q) \<le> sc_mru sc + 6"
  obtains sc' where "rx_eq sc sc'"
    and "tty_input tp (stuff esc q) (rx_set m fr v sc) = rx_set m (fr @ q) (pppfcs v q) sc'"
  using assms
proof (induction q arbitrary: fr v sc thesis)
  case Nil
  then show ?case by (metis rx_eq_refl append_Nil2 pppfcs.simps(1) stuff_simps(1) tty_input_simps(1))
next
  case (Cons c q)
  obtain sc1 where eq: "rx_eq sc sc1" and 1: "tty_input tp (stuff esc (c # q)) (rx_set m fr v sc) =
      tty_input tp (stuff esc q) (rx_set m (fr @ [c]) (PPP_FCS v c) sc1)"
    by (rule tty_input_more [OF Cons.prems(2), of fr c q v]) (use Cons.prems in auto)
  obtain sc' where "rx_eq sc1 sc'"
    "tty_input tp (stuff esc q) (rx_set m (fr @ [c]) (PPP_FCS v c) sc1) =
       rx_set m ((fr @ [c]) @ q) (pppfcs (PPP_FCS v c) q) sc'"
    by (rule Cons.IH [of sc1 "fr @ [c]" "PPP_FCS v c"])
       (use Cons.prems rx_eq_fields [OF eq] rx_eq_link [OF eq] in auto)
  with Cons.prems(1) [of sc'] eq show ?case
    unfolding 1 by (simp add: rx_eq_trans)
qed

section \<open>Frames\<close>

text \<open>From the protocol on, in the two forms of the protocol field.\<close>

lemma tty_input_proto1:
  assumes link: "rx_link esc tp m sc" and "bit c 0" and "int (length r) + 4 \<le> sc_mru sc + 6"
  obtains sc' where "rx_eq sc sc'"
    and "tty_input tp (stuff esc (c # r)) (rx_set m [PPP_ALLSTATIONS, PPP_UI] v sc) =
      rx_set m ([PPP_ALLSTATIONS, PPP_UI, 0, c] @ r) (pppfcs v (c # r)) sc'"
proof -
  obtain sc1 where eq1: "rx_eq sc sc1"
    and st: "\<And>fr v. tty_input tp (stuff esc (c # r)) (rx_set m fr v sc) =
      tty_input tp (stuff esc r) (rx_data c (rx_set m fr v sc1))"
    by (rule tty_input_step [OF link, of c r]) blast
  note f = rx_eq_fields [OF eq1] and link1 = rx_eq_link [OF eq1 link]
  have "rx_data c (rx_set m [PPP_ALLSTATIONS, PPP_UI] v sc1) =
      rx_data c (rx_set m ([PPP_ALLSTATIONS, PPP_UI] @ [0]) v sc1)"
    using link1 assms(2) by (intro rx_data_protocol_compressed) (simp_all add: rx_link_def)
  also have "\<dots> = rx_set m [PPP_ALLSTATIONS, PPP_UI, 0, c] (PPP_FCS v c) sc1"
    using link1 assms(2,3) f by (subst rx_data_more) (simp_all add: rx_link_def)
  finally have 1: "tty_input tp (stuff esc (c # r)) (rx_set m [PPP_ALLSTATIONS, PPP_UI] v sc) =
      tty_input tp (stuff esc r) (rx_set m [PPP_ALLSTATIONS, PPP_UI, 0, c] (PPP_FCS v c) sc1)"
    by (simp only: st)
  obtain sc' where "rx_eq sc1 sc'"
    "tty_input tp (stuff esc r) (rx_set m [PPP_ALLSTATIONS, PPP_UI, 0, c] (PPP_FCS v c) sc1) =
      rx_set m ([PPP_ALLSTATIONS, PPP_UI, 0, c] @ r) (pppfcs (PPP_FCS v c) r) sc'"
    by (rule tty_input_run [OF link1, where fr = "[PPP_ALLSTATIONS, PPP_UI, 0, c]"]) (use assms(3) f in simp_all)
  with that [of sc'] 1 eq1 show thesis by (simp add: rx_eq_trans del: stuff_simps)
qed

lemma tty_input_proto2:
  assumes link: "rx_link esc tp m sc" and "\<not> bit c 0" and "bit d 0" and "int (length r) + 4 \<le> sc_mru sc + 6"
  obtains sc' where "rx_eq sc sc'"
    and "tty_input tp (stuff esc (c # d # r)) (rx_set m [PPP_ALLSTATIONS, PPP_UI] v sc) =
      rx_set m ([PPP_ALLSTATIONS, PPP_UI, c, d] @ r) (pppfcs v (c # d # r)) sc'"
proof -
  obtain sc1 where eq1: "rx_eq sc sc1"
    and 1: "tty_input tp (stuff esc (c # d # r)) (rx_set m [PPP_ALLSTATIONS, PPP_UI] v sc) =
      tty_input tp (stuff esc (d # r)) (rx_set m ([PPP_ALLSTATIONS, PPP_UI] @ [c]) (PPP_FCS v c) sc1)"
    by (rule tty_input_more [OF link, of "[PPP_ALLSTATIONS, PPP_UI]" c "d # r" v]) (use assms in simp_all)
  note f1 = rx_eq_fields [OF eq1] and link1 = rx_eq_link [OF eq1 link]
  obtain sc2 where eq2: "rx_eq sc1 sc2"
    and 2: "tty_input tp (stuff esc (d # r)) (rx_set m ([PPP_ALLSTATIONS, PPP_UI] @ [c]) (PPP_FCS v c) sc1) =
      tty_input tp (stuff esc r) (rx_set m ([PPP_ALLSTATIONS, PPP_UI, c] @ [d]) (PPP_FCS (PPP_FCS v c) d) sc2)"
    by (rule tty_input_more [OF link1, of "[PPP_ALLSTATIONS, PPP_UI, c]" d r "PPP_FCS v c"])
       (use assms f1 in simp_all)
  note f2 = rx_eq_fields [OF eq2] and link2 = rx_eq_link [OF eq2 link1]
  obtain sc' where "rx_eq sc2 sc'"
    "tty_input tp (stuff esc r) (rx_set m [PPP_ALLSTATIONS, PPP_UI, c, d] (PPP_FCS (PPP_FCS v c) d) sc2) =
      rx_set m ([PPP_ALLSTATIONS, PPP_UI, c, d] @ r) (pppfcs (PPP_FCS (PPP_FCS v c) d) r) sc'"
    by (rule tty_input_run [OF link2, where fr = "[PPP_ALLSTATIONS, PPP_UI, c, d]"])
       (use assms(4) f1 f2 in simp_all)
  with that [of sc'] 1 2 rx_eq_trans [OF eq1 rx_eq_trans [OF eq2]] show thesis
    by (simp del: stuff_simps)
qed

lemma tty_input_proto:
  assumes "rx_link esc tp m sc" and "proto_form q" and "int (length (expand_proto q)) + 2 \<le> sc_mru sc + 6"
  obtains sc' where "rx_eq sc sc'"
    and "tty_input tp (stuff esc q) (rx_set m [PPP_ALLSTATIONS, PPP_UI] v sc) =
      rx_set m ([PPP_ALLSTATIONS, PPP_UI] @ expand_proto q) (pppfcs v q) sc'"
proof (cases "bit (hd q) 0")
  case True
  obtain c r where q: "q = c # r" using assms(2) by (cases q) (auto simp: proto_form_def)
  show thesis
    by (rule tty_input_proto1 [OF assms(1), of c r v], use True assms(3) q in \<open>simp_all add: expand_proto_def\<close>)
       (rule that, use True q in \<open>simp_all add: expand_proto_def\<close>)
next
  case False
  obtain c d r where q: "q = c # d # r" and d: "bit d 0"
    using assms(2) False by (cases q; cases "tl q") (auto simp: proto_form_def)
  show thesis
    by (rule tty_input_proto2 [OF assms(1), of c d r v], use False d assms(3) q in \<open>simp_all add: expand_proto_def\<close>)
       (rule that, use False q in \<open>simp_all add: expand_proto_def\<close>)
qed

text \<open>A whole frame, up to its closing flag.\<close>

lemma rx_idle_eq: "rx_eq sc sc' \<Longrightarrow> rx_idle esc tp m sc \<Longrightarrow> rx_idle esc tp m sc'"
  by (simp add: rx_idle_def rx_eq_fields rx_eq_link rx_eq_has)

lemma tty_input_first:
  assumes "rx_idle esc tp m sc"
  obtains sc' where "rx_eq sc sc'"
    and "tty_input tp (stuff esc (c # q)) sc = tty_input tp (stuff esc q) (rx_data c sc')"
proof -
  have "rx_eq sc (rx_after esc c sc)"
    using assms by (intro rx_after_eq) (simp add: rx_idle_def rx_link_def)
  moreover have "tty_input tp (stuff esc (c # q)) sc = tty_input tp (stuff esc q) (rx_data c (rx_after esc c sc))"
    using assms tty_input_stuffed [of tp sc esc c]
    by (simp add: rx_idle_def rx_link_def del: tty_input_simps(2))
  ultimately show thesis by (rule that)
qed

lemma tty_input_full:
  assumes idle: "rx_idle esc tp m sc" and "proto_form q" and "int (length (expand_proto q)) + 2 \<le> sc_mru sc + 6"
  obtains sc' where "rx_eq sc sc'"
    and "tty_input tp (stuff esc (PPP_ALLSTATIONS # PPP_UI # q)) sc =
      rx_set m ([PPP_ALLSTATIONS, PPP_UI] @ expand_proto q) (pppfcs PPP_INITFCS (PPP_ALLSTATIONS # PPP_UI # q)) sc'"
proof -
  let ?a = "PPP_ALLSTATIONS" and ?v = "PPP_FCS PPP_INITFCS PPP_ALLSTATIONS"
  obtain sc1 where eq1: "rx_eq sc sc1" and 1: "tty_input tp (stuff esc (?a # PPP_UI # q)) sc =
      tty_input tp (stuff esc (PPP_UI # q)) (rx_data ?a sc1)"
    by (rule tty_input_first [OF idle])
  have idle1: "rx_idle esc tp m sc1" by (rule rx_idle_eq [OF eq1 idle])
  then have link1: "rx_link esc tp m sc1" by (simp add: rx_idle_def)
  have "rx_data ?a sc1 = rx_set m [?a] ?v sc1"
    using idle1 by (intro rx_data_first) (simp_all add: rx_idle_def rx_link_def)
  moreover obtain sc2 where eq2: "rx_eq sc1 sc2" and "tty_input tp (stuff esc (PPP_UI # q)) (rx_set m [?a] ?v sc1) =
      tty_input tp (stuff esc q) (rx_set m ([?a] @ [PPP_UI]) (PPP_FCS ?v PPP_UI) sc2)"
    by (rule tty_input_more [OF link1, of "[?a]" PPP_UI q ?v])
       (use link1 in \<open>simp_all add: rx_link_def rx_fits_def\<close>)
  moreover obtain sc' where "rx_eq sc2 sc'" "tty_input tp (stuff esc q) (rx_set m [?a, PPP_UI] (PPP_FCS ?v PPP_UI) sc2) =
      rx_set m ([?a, PPP_UI] @ expand_proto q) (pppfcs (PPP_FCS ?v PPP_UI) q) sc'"
    by (rule tty_input_proto [OF rx_eq_link [OF eq2 link1] assms(2), where v = "PPP_FCS ?v PPP_UI"])
       (use assms(3) rx_eq_fields [OF eq1] rx_eq_fields [OF eq2] in simp_all)
  ultimately show thesis
    using that [of sc'] 1 rx_eq_trans [OF eq1 rx_eq_trans [OF eq2]] by (simp del: stuff_simps)
qed

lemma tty_input_compressed:
  assumes idle: "rx_idle esc tp m sc" and "proto_form q" and "int (length (expand_proto q)) + 2 \<le> sc_mru sc + 6"
    and "hd q \<noteq> PPP_ALLSTATIONS" and "\<not> rx_has SC_REJ_COMP_AC sc"
  obtains sc' where "rx_eq sc sc'"
    and "tty_input tp (stuff esc q) sc =
      rx_set m ([PPP_ALLSTATIONS, PPP_UI] @ expand_proto q) (pppfcs PPP_INITFCS q) sc'"
proof -
  obtain c r where q: "q = c # r" using assms(2) by (cases q) (auto simp: proto_form_def)
  have link: "rx_link esc tp m sc" using idle by (simp add: rx_idle_def)
  let ?s = "rx_set m [PPP_ALLSTATIONS, PPP_UI] PPP_INITFCS"
  have "rx_eq sc (rx_after esc c sc)"
    using link by (intro rx_after_eq) (simp add: rx_link_def)
  note eq1 = this rx_eq_has [OF this, of SC_REJ_COMP_AC]
  have "tty_input tp (stuff esc q) sc = tty_input tp (stuff esc r) (rx_data c (rx_after esc c sc))"
    using idle tty_input_stuffed [of tp sc esc c]
    by (simp add: q rx_idle_def rx_link_def del: tty_input_simps(2))
  also have "rx_data c (rx_after esc c sc) = rx_data c (?s (rx_after esc c sc))"
    using rx_idle_eq [OF eq1(1) idle] eq1(2) assms(4,5) q
    by (intro rx_data_first_compressed) (simp_all add: rx_idle_def rx_link_def)
  also have "tty_input tp (stuff esc r) \<dots> = tty_input tp (stuff esc q) (?s sc)"
    using link tty_input_stuffed [of tp "?s sc" esc c]
    by (simp add: q rx_link_def rx_after_set del: tty_input_simps(2))
  finally have 1: "tty_input tp (stuff esc q) sc = tty_input tp (stuff esc q) (?s sc)" .
  show thesis
    by (rule tty_input_proto [OF link assms(2,3), where v = PPP_INITFCS]) (rule that, simp_all add: 1)
qed

lemma tty_input_frame:
  assumes "rx_idle esc tp m sc" and "header_form q" and "int (length (expand_header q)) \<le> sc_mru sc + 6"
    and "hd q \<noteq> PPP_ALLSTATIONS \<longrightarrow> \<not> rx_has SC_REJ_COMP_AC sc"
  obtains sc' where "rx_eq sc sc'"
    and "tty_input tp (stuff esc q) sc = rx_set m (expand_header q) (pppfcs PPP_INITFCS q) sc'"
proof (cases "hd q = PPP_ALLSTATIONS")
  case True
  then obtain r where q: "q = PPP_ALLSTATIONS # PPP_UI # r"
    using assms(2) by (cases q; cases "tl q") (auto simp: header_form_def)
  show thesis
    by (rule tty_input_full [OF assms(1), of r],
        use assms(2,3) q in \<open>simp_all add: header_form_def after_ac_def expand_header_def\<close>)
       (rule that, simp_all add: q expand_header_def after_ac_def)
next
  case False
  show thesis
    by (rule tty_input_compressed [OF assms(1), of q],
        use assms(2-4) False in \<open>simp_all add: header_form_def after_ac_def expand_header_def\<close>)
       (rule that, simp_all add: False expand_header_def after_ac_def)
qed

text \<open>The flags around a frame.\<close>

lemma pppinput_flag:
  "attached tp sc \<Longrightarrow> sc_m sc \<noteq> [] \<Longrightarrow> pppinput PPP_FLAG tp sc = rx_flag (rx_note PPP_FLAG sc)"
  by (simp add: pppinput_def attached_def Let_def)

lemma rx_has_or: "rx_has (a OR b) sc \<longleftrightarrow> rx_has a sc \<or> rx_has b sc"
  by (simp add: rx_has_def bit.conj_disj_distrib or_eq_0_iff)

lemma rx_has_ilen [simp]: "rx_has b (sc\<lparr>sc_ilen := i\<rparr>) = rx_has b sc"
  by (simp add: rx_has_def)

lemma rx_set_frame [simp]:
  "sc_ilen (rx_set m fr v sc) = int (length fr)" "sc_fcs (rx_set m fr v sc) = v"
  by (simp_all add: rx_set_def)

lemma rx_note_eq: "rx_eq sc (rx_note c sc)"
  by (rule rx_eqI [where t = "sc_stats (rx_note c sc)", OF _ rx_norm_note [of c]]) (simp add: rx_note_def)

lemma pppinput_opening_flag:
  assumes "rx_idle esc tp m sc"
  shows "rx_eq sc (pppinput PPP_FLAG tp sc)"
proof -
  define sc1 where "sc1 = rx_note PPP_FLAG sc"
  have eq: "rx_eq sc sc1" unfolding sc1_def by (rule rx_note_eq)
  note idle = rx_idle_eq [OF eq assms]
  have "pppinput PPP_FLAG tp sc = rx_flag sc1"
    using assms unfolding sc1_def by (intro pppinput_flag) (simp_all add: rx_idle_def rx_link_def)
  also have "\<dots> = sc1\<lparr>sc_ilen := 0\<rparr>"
    using idle
    by (simp add: rx_flag_def Let_def rx_has_or rx_idle_def rx_link_def PPP_HDRLEN_def)
  also have "\<dots> = sc1" using idle by (simp add: rx_idle_def)
  finally show ?thesis using eq by simp
qed

lemma rx_trim_set:
  assumes "6 \<le> length fr"
  shows "rx_trim ((rx_set m fr v sc)\<lparr>sc_ilen := 0\<rparr>) =
    (rx_set m (take (length fr - 2) fr) v sc)\<lparr>sc_ilen := 0\<rparr>"
proof -
  have ne: "fr \<noteq> []" "butlast fr \<noteq> []" "butlast (butlast fr) = take (length fr - 2) fr"
    using assms by (auto simp: butlast_conv_take min_def numeral_2_eq_2 simp flip: length_greater_0_conv)
  then show ?thesis
    by (simp add: rx_trim_def drop_last_def trap_if_def rx_set_def Let_def)
qed

lemma rx_flag_good:
  assumes "\<not> rx_has SC_FLUSH sc" and "\<not> rx_has SC_ESCAPED sc" and "6 \<le> length fr"
  shows "rx_flag (rx_set m fr PPP_GOODFCS sc) =
    rx_done m (take (length fr - 2) fr) (lost_cleared (sc_flags sc)) (sc_stats sc) sc"
proof -
  define sc1 where "sc1 = (rx_set m (take (length fr - 2) fr) PPP_GOODFCS sc)\<lparr>sc_ilen := 0\<rparr>"
  have "rx_flag (rx_set m fr PPP_GOODFCS sc) = rx_deliver sc1"
    using assms unfolding sc1_def rx_trim_set [OF assms(3), symmetric]
    by (simp add: rx_flag_def Let_def rx_has_or PPP_HDRLEN_def PPP_FCSLEN_def)
  also have "\<dots> = rx_done m (take (length fr - 2) fr) (lost_cleared (sc_flags sc)) (sc_stats sc) sc"
    by (simp add: rx_deliver_def rx_done_def sc1_def rx_set_def lost_cleared_def rx_has_def if_ppp_enqueue_def
        rx_event_send_def Let_def split: prod.split)
  finally show ?thesis .
qed

lemma header_append:
  assumes "header_form q"
  shows "header_form (q @ r)" and "expand_header (q @ r) = expand_header q @ r" and "hd (q @ r) = hd q"
proof -
  have q: "q \<noteq> []" and a: "after_ac (q @ r) = after_ac q @ r" and p: "proto_form (after_ac q)"
    using assms by (auto simp: header_form_def after_ac_def)
  have "proto_form (after_ac q @ r)"
    using p by (auto simp: proto_form_def nth_append)
  with assms q a show "header_form (q @ r)" by (auto simp: header_form_def nth_append)
  show "expand_header (q @ r) = expand_header q @ r"
    using p by (auto simp: expand_header_def a expand_proto_def proto_form_def)
  show "hd (q @ r) = hd q" using q by simp
qed

lemma rx_done_eq:
  assumes "rx_eq sc sc'"
  shows "rx_done m p f t sc' = rx_done m p f t sc"
  using assms rx_eq_has [OF assms, of SC_PKTLOST] by (elim rx_eqE) (simp add: rx_done_def)

lemma lost_cleared_norm: "rx_norm f = rx_norm g \<Longrightarrow> rx_norm (lost_cleared f) = rx_norm (lost_cleared g)"
proof -
  assume n: "rx_norm f = rx_norm g"
  have swap: "rx_norm (x AND NOT SC_PKTLOST) = rx_norm x AND NOT SC_PKTLOST" for x
    by (simp add: rx_norm_def and.assoc and.commute and.left_commute)
  have "f AND SC_PKTLOST = g AND SC_PKTLOST"
    using n by (rule rx_has_norm) simp
  then show ?thesis by (simp add: lost_cleared_def swap n)
qed

text \<open>Between two flags, a frame that the receiver accepts ends up on the raw queue.\<close>

lemma tty_input_packet:
  assumes idle: "rx_idle esc tp m sc" and q: "header_form q" "4 \<le> length (expand_header q)"
    and len: "int (length (expand_header q)) \<le> sc_mru sc + 4"
    and ac: "hd q \<noteq> PPP_ALLSTATIONS \<longrightarrow> \<not> rx_has SC_REJ_COMP_AC sc"
  obtains f t where "tty_input tp (PPP_FLAG # stuff esc (with_fcs q) @ [PPP_FLAG]) sc = rx_done m (expand_header q) f t sc"
    and "rx_norm f = rx_norm (lost_cleared (sc_flags sc))"
proof -
  define fr where "fr = expand_header (with_fcs q)"
  obtain x where w: "with_fcs q = q @ x" "length x = 2" by (simp add: with_fcs_def)
  note h = header_append [OF q(1), of x]
  define sc1 where "sc1 = pppinput PPP_FLAG tp sc"
  have eq1: "rx_eq sc sc1" unfolding sc1_def by (rule pppinput_opening_flag [OF idle])
  have idle1: "rx_idle esc tp m sc1" by (rule rx_idle_eq [OF eq1 idle])
  obtain sc2 where eq2: "rx_eq sc1 sc2" and "tty_input tp (stuff esc (with_fcs q)) sc1 =
      rx_set m fr (pppfcs PPP_INITFCS (with_fcs q)) sc2"
    by (rule tty_input_frame [OF idle1, of "with_fcs q"])
       (use h w len ac rx_eq_fields [OF eq1] rx_eq_has [OF eq1, of SC_REJ_COMP_AC] in \<open>simp_all add: fr_def\<close>)
  then have 1: "tty_input tp (PPP_FLAG # stuff esc (with_fcs q) @ [PPP_FLAG]) sc =
      pppinput PPP_FLAG tp (rx_set m fr PPP_GOODFCS sc2)"
    using fcs_of_with_fcs [of q] by (simp add: sc1_def fcs_of_def pppfcs_fold)
  define sc3 where "sc3 = rx_note PPP_FLAG sc2"
  have eq: "rx_eq sc sc3"
    unfolding sc3_def by (rule rx_eq_trans [OF eq1 rx_eq_trans [OF eq2 rx_note_eq]])
  have fl: "\<not> rx_has SC_FLUSH sc3" "\<not> rx_has SC_ESCAPED sc3" "attached tp sc2"
    using idle rx_eq_has [OF eq] rx_eq_fields [OF rx_eq_trans [OF eq1 eq2]] by (simp_all add: rx_idle_def rx_link_def)
  have "pppinput PPP_FLAG tp (rx_set m fr PPP_GOODFCS sc2) = rx_flag (rx_set m fr PPP_GOODFCS sc3)"
    using fl by (simp add: pppinput_flag rx_note_set sc3_def)
  also have "\<dots> = rx_done m (take (length fr - 2) fr) (lost_cleared (sc_flags sc3)) (sc_stats sc3) sc3"
    by (rule rx_flag_good) (use fl q h w in \<open>simp_all add: fr_def\<close>)
  also have "take (length fr - 2) fr = expand_header q"
    using h w by (simp add: fr_def)
  finally have "tty_input tp (PPP_FLAG # stuff esc (with_fcs q) @ [PPP_FLAG]) sc =
      rx_done m (expand_header q) (lost_cleared (sc_flags sc3)) (sc_stats sc3) sc"
    using 1 rx_done_eq [OF eq] by simp
  moreover have "rx_norm (lost_cleared (sc_flags sc3)) = rx_norm (lost_cleared (sc_flags sc))"
    using eq by (intro lost_cleared_norm) (simp add: rx_eq_def)
  ultimately show thesis by (rule that)
qed

end
