(* ===== verification/Ppp_Link.thy ===== *)
theory Ppp_Link
  imports Tty_Receive
begin

text \<open>
  The way of a packet through two kernels: \<^verbatim>\<open>pppwrite\<close> of the sending daemon, the output queue, the task
  that starts the transmission, the serial driver, the receiver of the other side, its task, and \<^verbatim>\<open>pppread\<close>
  of the other daemon. The interface \<open>frame_receiver\<close> states what a receiver of frames promises; both the
  line discipline and the loopback of the dial-on-demand code implement it.
\<close>

section \<open>Definitions\<close>

text \<open>The map of the transmitter: the flag and the escape are escaped, the characters from 0x20 to 0x3f and the
  one that would turn into a flag are not.\<close>

definition asyncmap_ok :: "u32 list \<Rightarrow> bool" where
  "asyncmap_ok maps \<longleftrightarrow>
     length maps = 8 \<and> maps ! 1 = 0 \<and> \<not> bit (maps ! 2) 30 \<and> bit (maps ! 3) 29 \<and> bit (maps ! 3) 30"

text \<open>A packet as the daemon and the interface hand it over.\<close>

definition ppp_packet :: "bytes \<Rightarrow> bool" where
  "ppp_packet p \<longleftrightarrow>
     4 \<le> length p \<and> length p \<le> nat PPP_MRU + PPP_HDRLEN \<and> p ! 0 = PPP_ALLSTATIONS \<and> p ! 1 = PPP_UI \<and>
     \<not> bit (p ! 2) 0 \<and> bit (p ! 3) 0"

text \<open>The bytes of \<^const>\<open>compress_header\<close>.\<close>

definition compress_bytes :: "u32 \<Rightarrow> bytes \<Rightarrow> bytes" where
  "compress_bytes flags p =
     (let ac = (flags AND SC_COMP_AC \<noteq> 0 \<and> ppp_protocol p \<noteq> 0xff \<and> ppp_protocol p \<noteq> PPP_LCP);
          pc = (flags AND SC_COMP_PROT \<noteq> 0 \<and> ppp_protocol p < 0xff)
      in (if ac then [] else take 2 p) @ (if pc then drop 3 p else drop 2 p))"

text \<open>Chains of one mbuf, as the receiver builds them.\<close>

definition raw_ok :: "mchain \<Rightarrow> bool" where
  "raw_ok ms \<longleftrightarrow> length ms = 1 \<and> 4 \<le> length (m_dat (hd ms))"

text \<open>The receive buffers at hand, and the receiver between two frames with room for \<open>n\<close> packets. \<open>maps\<close> and
  \<open>flags\<close> are those of the sender.\<close>

definition rx_bufs :: "ppp_softc \<Rightarrow> mchain list" where
  "rx_bufs sc = (if sc_m sc = [] then [] else [sc_m sc]) @ sc_freeq sc"

definition rx_chain :: "ppp_softc \<Rightarrow> mchain \<Rightarrow> bool" where
  "rx_chain sc ms \<longleftrightarrow> length ms = 1 \<and> rx_fits (hd ms) sc"

definition rx_ready :: "u32 list \<Rightarrow> u32 \<Rightarrow> tty \<Rightarrow> nat \<Rightarrow> ppp_softc \<Rightarrow> bool" where
  "rx_ready maps flags tp n sc \<longleftrightarrow>
     attached tp sc \<and> \<not> rx_has SC_ESCAPED sc \<and> \<not> rx_has SC_FLUSH sc \<and> sc_ilen sc = 0 \<and>
     asyncmap_ok maps \<and> sc_rasyncmap sc AND NOT (maps ! 0) = 0 \<and> PPP_MRU \<le> sc_mru sc \<and>
     (flags AND SC_COMP_AC \<noteq> 0 \<longrightarrow> \<not> rx_has SC_REJ_COMP_AC sc) \<and>
     list_all raw_ok (sc_rawq sc) \<and> (sc_rawq sc \<noteq> [] \<longrightarrow> RX_PACKET \<in> ev_rx sc) \<and>
     n \<le> length (rx_bufs sc) \<and> list_all (rx_chain sc) (rx_bufs sc)"

text \<open>The frame that the kernel sends for a packet.\<close>

definition sent_frame :: "u32 list \<Rightarrow> u32 \<Rightarrow> bytes \<Rightarrow> bytes" where
  "sent_frame maps flags p = wire_frame maps (compress_bytes flags p)"

definition raw_packets :: "ppp_softc \<Rightarrow> bytes list" where
  "raw_packets sc = map m_bytes (sc_rawq sc)"

text \<open>The loopback between two frames, and the frames that it queues.\<close>

definition loop_ready :: "(u8 \<Rightarrow> bool) \<Rightarrow> nat \<Rightarrow> demand_state \<Rightarrow> bool" where
  "loop_ready esc n d \<longleftrightarrow> esc_ok esc \<and> frame d = [] \<and> \<not> escape_flag d \<and> \<not> flush_flag d \<and> fcs d = PPP_INITFCS \<and>
     framemax d = nat PPP_MRU + PPP_HDRLEN + PPP_FCSLEN"

definition loop_packet :: "active_table \<Rightarrow> bytes \<Rightarrow> bool" where
  "loop_packet tab p \<longleftrightarrow>
     active_packet tab p \<and> frame_proto p < 0x8000 \<and> length p \<le> nat PPP_MRU + PPP_HDRLEN"

definition loop_recv :: "active_table \<Rightarrow> bytes \<Rightarrow> demand_state \<Rightarrow> demand_state" where
  "loop_recv tab cs d = snd (loop_chars tab True cs d)"

definition rfc1662_frame :: "(u8 \<Rightarrow> bool) \<Rightarrow> bytes \<Rightarrow> bytes" where
  "rfc1662_frame esc p = PPP_FLAG # stuff esc (with_fcs p) @ [PPP_FLAG]"

text \<open>The receiver takes a buffer when it has none.\<close>

definition rx_refill :: "ppp_softc \<Rightarrow> ppp_softc" where
  "rx_refill sc =
     (if sc_m sc = []
      then sc\<lparr>sc_m := hd (sc_freeq sc), sc_freeq := tl (sc_freeq sc), ev_rx := insert RX_EMPTY (ev_rx sc)\<rparr> else sc)"

section \<open>The maps\<close>

lemma escape_control:
  fixes c :: u8
  assumes "c < 0x20"
  shows "drop_bit 5 c = 0" and "c AND 0x1f = c"
proof -
  have c: "unat c < 32" using assms by (simp add: word_less_nat_alt)
  show "drop_bit 5 c = 0"
    using c by (simp add: drop_bit_eq_div word_unat_eq_iff unat_div)
  have "c AND 0x1f = take_bit 5 c"
    by (simp add: take_bit_eq_mask mask_eq_exp_minus_1)
  also have "\<dots> = c"
    using c by (simp add: word_unat_eq_iff unsigned_take_bit_eq take_bit_nat_eq_self)
  finally show "c AND 0x1f = c" .
qed

lemma escape_low:
  assumes "asyncmap_ok maps" and "c XOR PPP_TRANS < 0x20"
  shows "\<not> ESCAPE_P maps c"
proof -
  define d where "d = c XOR PPP_TRANS"
  have "drop_bit 5 c = drop_bit 5 (d XOR PPP_TRANS)"
    by (simp only: d_def xor_trans_involutive)
  also have "\<dots> = 1"
    using escape_control(1) [OF assms(2)] by (simp add: drop_bit_xor d_def [symmetric]) (simp add: PPP_TRANS_def)
  finally show ?thesis
    using assms(1) by (simp add: ESCAPE_P_def asyncmap_ok_def)
qed

text \<open>With such a map the receiver gets every character, when all the characters it drops are escaped.\<close>

lemma asyncmap_wire_ok:
  assumes ok: "asyncmap_ok maps" and sub: "rmap AND NOT (maps ! 0) = 0"
  shows "wire_ok (ESCAPE_P maps) rmap"
proof -
  have "\<not> bit rmap (unat c)" if "c < 0x20" and "\<not> ESCAPE_P maps c" for c :: u8
  proof
    assume b: "bit rmap (unat c)"
    have "\<not> bit (maps ! 0) (unat c)"
      using that by (simp add: ESCAPE_P_def escape_control)
    with b have "bit (rmap AND NOT (maps ! 0)) (unat c)"
      using that by (simp add: bit_simps word_less_nat_alt)
    with sub show False by simp
  qed
  moreover have "ESCAPE_P maps PPP_FLAG" "ESCAPE_P maps PPP_ESCAPE" "\<not> ESCAPE_P maps (PPP_FLAG XOR PPP_TRANS)"
    using ok by (simp_all add: ESCAPE_P_def asyncmap_ok_def ppp_consts)
  ultimately show ?thesis
    using escape_low [OF ok] by (auto simp: wire_ok_def)
qed

lemma pppopen_maps: "asyncmap_ok [0xffffffff, 0, 0, 0x60000000, 0, 0, 0, 0]"
  by (simp add: asyncmap_ok_def)

text \<open>Every request keeps the map of the transmitter well formed.\<close>

lemma ppp_requeue_loop_asyncmap: "sc_asyncmap (snd (ppp_requeue_loop q sc)) = sc_asyncmap sc"
  by (induction q sc rule: ppp_requeue_loop.induct)
     (auto simp: Let_def count_oerror_def count_oqdrop_def enqueue_out_def split: npmode.splits prod.splits)

lemma ppp_requeue_asyncmap: "sc_asyncmap (ppp_requeue sc) = sc_asyncmap sc"
  using ppp_requeue_loop_asyncmap [of "sc_npqueue sc" sc]
  by (auto simp: ppp_requeue_def Let_def split: prod.split)

lemma pppioctl_asyncmap: "sc_asyncmap (snd (snd (pppioctl cmd sc))) = sc_asyncmap sc"
  by (simp add: pppioctl_def ppp_requeue_asyncmap pppasyncstart_def tx_event_send_def microtime_def
      split: ppp_request.split)

lemma ppptioctl_asyncmap:
  assumes "asyncmap_ok (sc_asyncmap sc)" and "\<And>as. cmd = SXASYNCMAP as \<Longrightarrow> 8 \<le> length as"
  shows "asyncmap_ok (sc_asyncmap (snd (snd (ppptioctl cmd sc))))"
  using assms pppioctl_asyncmap
  by (cases cmd) (auto simp: ppptioctl_def asyncmap_ok_def bit_simps)

section \<open>The header\<close>

lemma packetE:
  assumes "ppp_packet p"
  obtains h l r where "p = PPP_ALLSTATIONS # PPP_UI # h # l # r" and "\<not> bit h 0" and "bit l 0"
proof -
  obtain a b h l r where p: "p = a # b # h # l # r"
    using assms by (auto simp: ppp_packet_def Suc_le_length_iff eval_nat_numeral)
  with assms that [of h l r] show thesis by (simp add: ppp_packet_def)
qed

lemma compress_header_bytes:
  assumes "m_dat m = PPP_ALLSTATIONS # PPP_UI # h # l # r"
  shows "m_dat (compress_header flags m) = compress_bytes flags (m_dat m)"
  using assms by (simp add: compress_header_def compress_bytes_def m_skip_def Let_def)

text \<open>The peer restores the header that was compressed.\<close>

lemma compress_expand:
  assumes "ppp_packet p"
  shows "header_form (compress_bytes flags p)" and "expand_header (compress_bytes flags p) = p"
    and "hd (compress_bytes flags p) \<noteq> PPP_ALLSTATIONS \<Longrightarrow> flags AND SC_COMP_AC \<noteq> 0"
proof -
  obtain h l r where p: "p = PPP_ALLSTATIONS # PPP_UI # h # l # r" and h: "\<not> bit h 0" and l: "bit l 0"
    by (rule packetE [OF assms])
  have h0: "h = 0" "l \<noteq> PPP_ALLSTATIONS" if "getshort h l < 0xff"
  proof -
    have "uint h = 0" "uint l < 0xff"
      using that unsigned_greater_eq [of h, where ?'a = int] unsigned_greater_eq [of l, where ?'a = int]
      unfolding getshort_def by linarith+
    then show "h = 0" "l \<noteq> PPP_ALLSTATIONS" by (auto simp: ppp_consts uint_0_iff)
  qed
  have hf: "h \<noteq> PPP_ALLSTATIONS" using h by (auto simp: ppp_consts)
  show "header_form (compress_bytes flags p)" and "expand_header (compress_bytes flags p) = p"
    and "hd (compress_bytes flags p) \<noteq> PPP_ALLSTATIONS \<Longrightarrow> flags AND SC_COMP_AC \<noteq> 0"
    using h l h0 hf
    by (auto simp: compress_bytes_def ppp_protocol_def Let_def p header_form_def expand_header_def expand_proto_def after_ac_def
        proto_form_def split: if_splits)
qed

section \<open>Interface of a receiver of frames\<close>

text \<open>A receiver takes bytes; \<open>enc\<close> is the frame of a packet, \<open>got\<close> the packets received, \<open>ready n\<close> says that
  \<open>n\<close> more packets can be taken. What is proved for sequences of packets follows from one frame at a time.\<close>

locale frame_receiver =
  fixes recv :: "bytes \<Rightarrow> 's \<Rightarrow> 's" and enc :: "bytes \<Rightarrow> bytes" and got :: "'s \<Rightarrow> bytes list"
    and ready :: "nat \<Rightarrow> 's \<Rightarrow> bool" and packet :: "bytes \<Rightarrow> bool"
  assumes recv_nil: "recv [] s = s"
    and recv_append: "recv (xs @ ys) s = recv ys (recv xs s)"
    and recv_got: "ready (Suc n) s \<Longrightarrow> packet p \<Longrightarrow> got (recv (enc p) s) = got s @ [p]"
    and recv_ready: "ready (Suc n) s \<Longrightarrow> packet p \<Longrightarrow> ready n (recv (enc p) s)"
begin

lemma recv_packets:
  assumes "ready (length ps + n) s" and "list_all packet ps"
  shows "got (recv (concat (map enc ps)) s) = got s @ ps \<and> ready n (recv (concat (map enc ps)) s)"
  using assms
proof (induction ps arbitrary: s)
  case (Cons p ps)
  then have "ready (Suc (length ps + n)) s" and p: "packet p" by simp_all
  note one = recv_got [OF this] recv_ready [OF this]
  show ?case
    using Cons.IH [OF one(2)] Cons.prems one(1) by (simp add: recv_append)
qed (simp add: recv_nil)

text \<open>Noise that the receiver survives does not disturb what follows.\<close>

lemma recv_after:
  assumes "ready (length ps + n) (recv xs s)" and "list_all packet ps"
  shows "got (recv (xs @ concat (map enc ps)) s) = got (recv xs s) @ ps"
  using recv_packets [OF assms] by (simp add: recv_append)

end

section \<open>The line discipline is such a receiver\<close>

text \<open>Without a buffer the first flag takes one.\<close>

lemma pppinput_refill:
  assumes "attached tp sc" and "sc_m sc = []" and "sc_freeq sc = m # q" and "m \<noteq> []"
  shows "pppinput c tp sc = pppinput c tp (sc\<lparr>sc_m := m, sc_freeq := q, ev_rx := insert RX_EMPTY (ev_rx sc)\<rparr>)"
  using assms by (simp add: pppinput_def attached_def if_ppp_dequeue_def rx_event_send_def)

lemma rx_ready_chain:
  assumes "rx_ready maps flags tp (Suc n) sc"
  obtains m where "rx_idle (ESCAPE_P maps) tp m (rx_refill sc)" and "rx_bufs sc = [m] # sc_freeq (rx_refill sc)"
    and "\<And>c. pppinput c tp sc = pppinput c tp (rx_refill sc)"
proof -
  obtain m q where b: "rx_bufs sc = [m] # q" "rx_fits m sc"
    using assms by (cases "rx_bufs sc") (auto simp: rx_ready_def rx_chain_def length_Suc_conv)
  have sc: "sc_m (rx_refill sc) = [m]" "sc_freeq (rx_refill sc) = q"
    using b(1) by (auto simp: rx_refill_def rx_bufs_def split: if_splits)
  have idle: "rx_idle (ESCAPE_P maps) tp m (rx_refill sc)"
    using assms b(2) sc asyncmap_wire_ok
    by (simp add: rx_idle_def rx_link_def rx_ready_def) (simp add: rx_refill_def rx_fits_def attached_def rx_has_def)
  have "pppinput c tp sc = pppinput c tp (rx_refill sc)" for c
  proof (cases "sc_m sc = []")
    case True
    with b(1) have "sc_freeq sc = [m] # q" by (simp add: rx_bufs_def)
    with True assms show ?thesis
      by (subst pppinput_refill) (auto simp: rx_refill_def rx_ready_def)
  qed (simp add: rx_refill_def)
  with idle b(1) sc that show thesis by simp
qed

lemma lost_cleared_keep:
  assumes "rx_norm f = rx_norm (lost_cleared g)" and "b \<in> {SC_REJ_COMP_AC, SC_FLUSH, SC_ESCAPED}"
  shows "f AND b = g AND b"
proof -
  have "f AND b = lost_cleared g AND b"
    using assms by (intro rx_has_norm) auto
  also have "SC_PKTLOST AND b = 0"
    using assms(2) by (auto simp: ppp_consts)
  then have "lost_cleared g AND b = g AND b"
    by (simp add: lost_cleared_def flag_keep)
  finally show ?thesis .
qed

lemma rx_packet:
  assumes "rx_ready maps flags tp (Suc n) sc" and p: "ppp_packet p"
  obtains m f t where "tty_input tp (sent_frame maps flags p) sc = rx_done m p f t (rx_refill sc)"
    and "rx_norm f = rx_norm (lost_cleared (sc_flags sc))" and "rx_bufs sc = [m] # sc_freeq (rx_refill sc)"
proof -
  obtain m where idle: "rx_idle (ESCAPE_P maps) tp m (rx_refill sc)" and b: "rx_bufs sc = [m] # sc_freeq (rx_refill sc)"
    and first: "\<And>c. pppinput c tp sc = pppinput c tp (rx_refill sc)"
    by (rule rx_ready_chain [OF assms(1)]) blast
  let ?q = "compress_bytes flags p"
  note c = compress_expand [OF p, of flags]
  have r: "sc_flags (rx_refill sc) = sc_flags sc" "sc_mru (rx_refill sc) = sc_mru sc"
    by (simp_all add: rx_refill_def)
  obtain f t where "tty_input tp (PPP_FLAG # stuff (ESCAPE_P maps) (with_fcs ?q) @ [PPP_FLAG]) (rx_refill sc) =
      rx_done m (expand_header ?q) f t (rx_refill sc)" "rx_norm f = rx_norm (lost_cleared (sc_flags (rx_refill sc)))"
    by (rule tty_input_packet [OF idle c(1)])
       (use assms c r in \<open>auto simp: ppp_packet_def rx_ready_def rx_has_def PPP_HDRLEN_def PPP_MRU_def\<close>)
  with that [of m f t] first b c(2) r show thesis
    by (simp add: sent_frame_def wire_frame_def)
qed

lemma rx_packet_got:
  assumes "rx_ready maps flags tp (Suc n) sc" and "ppp_packet p"
  shows "raw_packets (tty_input tp (sent_frame maps flags p) sc) = raw_packets sc @ [p]"
    and "rx_ready maps flags tp n (tty_input tp (sent_frame maps flags p) sc)"
proof -
  obtain m f t where 1: "tty_input tp (sent_frame maps flags p) sc = rx_done m p f t (rx_refill sc)"
    and f: "rx_norm f = rx_norm (lost_cleared (sc_flags sc))" and b: "rx_bufs sc = [m] # sc_freeq (rx_refill sc)"
    by (rule rx_packet [OF assms])
  define sc' where "sc' = rx_done m p f t (rx_refill sc)"
  have eq: "sc_rawq (rx_refill sc) = sc_rawq sc" "sc_mru sc' = sc_mru sc" "attached tp sc' = attached tp sc"
    "sc_rasyncmap sc' = sc_rasyncmap sc" "sc_ilen sc' = 0"
    by (simp_all add: sc'_def rx_done_def rx_refill_def attached_def)
  have h: "rx_has b sc' = rx_has b sc" if "b \<in> {SC_REJ_COMP_AC, SC_FLUSH, SC_ESCAPED}" for b
    using lost_cleared_keep [OF f that] by (simp add: rx_has_def sc'_def rx_done_def)
  have all: "list_all (rx_chain sc) (sc_freeq (rx_refill sc))" and n: "n \<le> length (sc_freeq (rx_refill sc))"
    using assms(1) b by (simp_all add: rx_ready_def)
  have fits: "rx_chain sc' = rx_chain sc"
    by (rule ext) (simp add: rx_chain_def rx_fits_def eq)
  have bufs: "rx_bufs sc' = sc_freeq (rx_refill sc)"
    using all by (cases "sc_freeq (rx_refill sc)")
      (auto simp: rx_bufs_def sc'_def rx_done_def if_ppp_dequeue_def rx_chain_def)
  have raw: "sc_rawq sc' = sc_rawq sc @ [[m\<lparr>m_off := 0, m_dat := p, m_errmark := m_errmark m \<or> rx_has SC_PKTLOST (rx_refill sc)\<rparr>]]"
    "RX_PACKET \<in> ev_rx sc'"
    using eq(1) by (simp_all add: sc'_def rx_done_def)
  show "rx_ready maps flags tp n (tty_input tp (sent_frame maps flags p) sc)"
    using assms h eq(2-5) all n raw
    by (simp add: 1 sc'_def [symmetric] rx_ready_def bufs fits raw_ok_def ppp_packet_def)
  show "raw_packets (tty_input tp (sent_frame maps flags p) sc) = raw_packets sc @ [p]"
    using eq(1) by (simp add: 1 raw_packets_def rx_done_def)
qed

interpretation tty_rx: frame_receiver "tty_input tp" "sent_frame maps flags" raw_packets "rx_ready maps flags tp" ppp_packet
  for tp maps flags
proof unfold_locales
  show "raw_packets (tty_input tp (sent_frame maps flags p) sc) = raw_packets sc @ [p]"
    if "rx_ready maps flags tp (Suc n) sc" and "ppp_packet p" for n sc p
    using that by (rule rx_packet_got)
  show "rx_ready maps flags tp n (tty_input tp (sent_frame maps flags p) sc)"
    if "rx_ready maps flags tp (Suc n) sc" and "ppp_packet p" for n sc p
    using that by (rule rx_packet_got)
qed simp_all

section \<open>The loopback is such a receiver\<close>

lemma loop_chars_append:
  "snd (loop_chars tab mem (xs @ ys) d) = snd (loop_chars tab mem ys (snd (loop_chars tab mem xs d)))"
proof (induction xs arbitrary: d)
  case (Cons c xs)
  then show ?case by (simp add: Let_def split_beta)
qed simp

lemma loop_recv_frame:
  assumes "loop_ready esc n d" and p: "loop_packet tab p"
  shows "loop_recv tab (rfc1662_frame esc p) d = d\<lparr>pend_q := pend_q d @ [p]\<rparr>"
proof -
  have d: "demand_reset d = d" and esc: "esc_ok esc" and e: "frame d = []"
    using assms(1) by (simp_all add: loop_ready_def demand_reset_def)
  have len: "PPP_HDRLEN \<le> length p" "length p + 2 \<le> framemax d"
    using assms by (simp_all add: loop_packet_def active_packet_def loop_ready_def PPP_FCSLEN_def)
  then have "p \<noteq> []" by (auto simp: PPP_HDRLEN_def)
  note fr = loop_chars_frame [OF esc this len(2), of tab True "[]", unfolded d]
  have lf: "loop_frame tab True p d = (True, d\<lparr>pend_q := pend_q d @ [p]\<rparr>)"
    using p len by (simp add: loop_frame_def loop_packet_def)
  have "snd (loop_chars tab True (PPP_FLAG # r) d) = snd (loop_chars tab True r d)" for r
    using e by (simp add: d Let_def split_beta)
  then have "loop_recv tab (rfc1662_frame esc p) d = snd (loop_chars tab True (stuff esc (with_fcs p) @ [PPP_FLAG]) d)"
    by (simp add: loop_recv_def rfc1662_frame_def del: loop_chars.simps)
  also have "\<dots> = demand_reset (d\<lparr>pend_q := pend_q d @ [p]\<rparr>)"
    by (simp add: fr lf)
  also have "\<dots> = (demand_reset d)\<lparr>pend_q := pend_q d @ [p]\<rparr>"
    by (simp add: demand_reset_def)
  finally show ?thesis by (simp add: d)
qed

interpretation loop_rx: frame_receiver "loop_recv tab" "rfc1662_frame esc" pend_q "loop_ready esc" "loop_packet tab"
  for tab esc
proof unfold_locales
  show "loop_recv tab (xs @ ys) d = loop_recv tab ys (loop_recv tab xs d)" for xs ys d
    by (simp add: loop_recv_def loop_chars_append)
  show "pend_q (loop_recv tab (rfc1662_frame esc p) d) = pend_q d @ [p]"
    if "loop_ready esc (Suc n) d" and "loop_packet tab p" for n d p
    using loop_recv_frame [OF that] by simp
  show "loop_ready esc n (loop_recv tab (rfc1662_frame esc p) d)"
    if "loop_ready esc (Suc n) d" and "loop_packet tab p" for n d p
    using loop_recv_frame [OF that] that(1) by (simp add: loop_ready_def demand_reset_def)
qed (simp add: loop_recv_def)

end
