(* ===== verification/Ppp_Output.thy ===== *)
theory Ppp_Output
  imports Ppp_Link
begin

text \<open>
  The sending side: what the daemon writes is queued unchanged, the queues are sent in order, the fast one
  first, and the frames that appear on the wire are those of the packets, with their headers
  compressed as negotiated, whatever the serial driver sends at a time.
\<close>

section \<open>Definitions\<close>

definition tx_queue :: "ppp_softc \<Rightarrow> mchain list" where
  "tx_queue sc = sc_fastq sc @ if_snd (sc_ifp sc)"

text \<open>A chain that can be sent: its header is in the first mbuf, no mbuf is empty.\<close>

definition tx_chain_ok :: "mchain \<Rightarrow> bool" where
  "tx_chain_ok ms \<longleftrightarrow>
     ms \<noteq> [] \<and> 4 \<le> length (m_dat (hd ms)) \<and> list_all (\<lambda>m. m_dat m \<noteq> []) ms \<and> ppp_packet (m_bytes ms)"

text \<open>The task has an event, and no packet is on its way.\<close>

definition tx_free :: "ppp_softc \<Rightarrow> bool" where
  "tx_free sc \<longleftrightarrow> ev_tx sc \<noteq> {} \<and> (sc_outm sc = [] \<or> TX_TRANSMIT \<in> ev_tx sc)"

text \<open>Rounds of the task, each followed by the calls of the driver.\<close>

fun tx_rounds :: "nat list list \<Rightarrow> tty \<Rightarrow> ppp_softc \<Rightarrow> bytes \<times> ppp_softc" where
  "tx_rounds [] tp sc = ([], sc)"
| "tx_rounds (ns # nss) tp sc =
     (let (w, sc) = drive ns tp (ppp_txdaemon sc); (w', sc) = tx_rounds nss tp sc in (w @ w', sc))"

text \<open>The fields that the transmission of a packet does not touch.\<close>

definition tx_frame :: "ppp_softc \<Rightarrow> mchain list \<times> mchain list \<times> u32 \<times> u32 list \<times> nat option" where
  "tx_frame sc = (sc_fastq sc, if_snd (sc_ifp sc), sc_flags sc, sc_asyncmap sc, sc_devp sc)"

text \<open>The time of the last network packet.\<close>

definition sent_time :: "bytes \<Rightarrow> ppp_softc \<Rightarrow> ppp_softc" where
  "sent_time p sc = (if ppp_protocol p < 0x8000 then (microtime sc)\<lparr>sc_last_sent := sc_now sc\<rparr> else sc)"

section \<open>The driver\<close>

lemma tx_buffer_frame: "tx_buffer sc = Some sc' \<Longrightarrow> tx_frame sc' = tx_frame sc"
  by (auto simp: tx_buffer_def tx_frame_def split: if_splits)

lemma tx_send_frame: "tx_frame (tx_send tp sc) = tx_frame sc"
  by (simp add: tx_send_def tx_piece_def tx_frame_def tty_write_def Let_def)

lemma tx_account_frame: "tx_frame (tx_account len sc) = tx_frame sc"
  by (simp add: tx_account_def tx_frame_def)

lemma tx_core_frame: "tx_frame (tx_core tp sc) = tx_frame sc"
proof (cases "tx_buffer sc")
  case (Some sc')
  then show ?thesis
    by (simp add: tx_core_def tx_send_frame tx_buffer_frame)
       (simp add: tx_frame_def tx_event_send_def tty_write_def tx_buffer_frame [OF Some, unfolded tx_frame_def])
qed (simp add: tx_core_def tx_frame_def tx_event_send_def tty_write_def)

lemma pppstart_frame: "tx_frame (pppstart len tp sc) = tx_frame sc"
proof (cases "t_sc tp \<and> tx_has SC_TX_BUSY sc")
  case True
  then show ?thesis by (simp add: pppstart_core tx_core_frame tx_account_frame)
qed (auto simp: pppstart_def tx_frame_def tty_write_def)

lemma drive_frame: "tx_frame (snd (drive ns tp sc)) = tx_frame sc"
proof (induction ns arbitrary: sc)
  case (Cons n ns)
  then show ?case by (simp add: Let_def split_beta pppstart_frame)
qed simp

section \<open>The task\<close>

lemma compress_bytes_append:
  "4 \<le> length p \<Longrightarrow> compress_bytes flags (p @ q) = compress_bytes flags p @ q"
  by (simp add: compress_bytes_def ppp_protocol_def nth_append Let_def)

lemma compress_chain:
  fixes flags :: u32
  assumes "tx_chain_ok ms"
  defines "ms' \<equiv> compress_header flags (hd ms) # tl ms"
  shows "m_bytes ms' = compress_bytes flags (m_bytes ms)" and "list_all (\<lambda>m. m_dat m \<noteq> []) ms'"
proof -
  obtain m ns where ms: "ms = m # ns" using assms(1) by (cases ms) (auto simp: tx_chain_ok_def)
  have l: "4 \<le> length (m_dat m)" and p: "ppp_packet (m_dat m @ m_bytes ns)"
    using assms(1) by (simp_all add: tx_chain_ok_def ms)
  obtain a b c d r where d: "m_dat m = a # b # c # d # r"
    using l by (auto simp: Suc_le_length_iff eval_nat_numeral)
  have "m_dat m = PPP_ALLSTATIONS # PPP_UI # c # d # r"
    using p d by (simp add: ppp_packet_def)
  note h = compress_header_bytes [OF this, of flags]
  show "m_bytes ms' = compress_bytes flags (m_bytes ms)"
    using l by (simp add: ms'_def ms h compress_bytes_append)
  have "compress_bytes flags (m_dat m) \<noteq> []"
    by (simp add: compress_bytes_def Let_def d)
  then show "list_all (\<lambda>m. m_dat m \<noteq> []) ms'"
    using assms(1) by (simp add: ms'_def ms h tx_chain_ok_def)
qed

lemma ppp_dequeue_head:
  assumes "tx_queue sc = m # q" and "tx_chain_ok m"
  shows "fst (ppp_dequeue sc) = compress_header (sc_flags sc) (hd m) # tl m"
    and "tx_queue (snd (ppp_dequeue sc)) = q"
proof -
  have m: "m \<noteq> []" using assms(2) by (simp add: tx_chain_ok_def)
  then show "fst (ppp_dequeue sc) = compress_header (sc_flags sc) (hd m) # tl m"
    and "tx_queue (snd (ppp_dequeue sc)) = q"
    using assms(1)
    by (cases "sc_fastq sc"; simp add: ppp_dequeue_def tx_queue_def if_ppp_dequeue_def trap_if_def Let_def)+
qed

lemma ppp_dequeue_fields:
  "sc_flags (snd (ppp_dequeue sc)) = sc_flags sc" "sc_asyncmap (snd (ppp_dequeue sc)) = sc_asyncmap sc"
  "sc_devp (snd (ppp_dequeue sc)) = sc_devp sc"
  by (simp_all add: ppp_dequeue_def trap_if_def Let_def split_beta)

lemma tx_begin_frame:
  "tx_queue (tx_begin sc) = tx_queue sc" "sc_flags (tx_begin sc) = sc_flags sc"
  "sc_asyncmap (tx_begin sc) = sc_asyncmap sc" "sc_devp (tx_begin sc) = sc_devp sc"
  by (simp_all add: tx_begin_def tx_queue_def tty_write_def Let_def split: prod.split)

text \<open>A round of the task hands the first packet to the driver.\<close>

lemma ppp_txdaemon_next:
  assumes free: "tx_free sc" and q: "tx_queue sc = m # q" and m: "tx_chain_ok m" and dev: "sc_devp sc \<noteq> None"
  shows "tx_pending (ppp_txdaemon sc) (sent_frame (sc_asyncmap sc) (sc_flags sc) (m_bytes m))"
    and "tx_queue (ppp_txdaemon sc) = q" and "sc_flags (ppp_txdaemon sc) = sc_flags sc"
    and "sc_asyncmap (ppp_txdaemon sc) = sc_asyncmap sc" and "sc_devp (ppp_txdaemon sc) = sc_devp sc"
proof -
  define sc1 where "sc1 = (if TX_TRANSMIT \<in> ev_tx sc then sc\<lparr>ev_tx := {}, sc_outm := [], sc_outmc := []\<rparr> else sc\<lparr>ev_tx := {}\<rparr>)"
  define ms where "ms = compress_header (sc_flags sc) (hd m) # tl m"
  define sc2 where "sc2 = (snd (ppp_dequeue sc1))\<lparr>sc_outm := ms, sc_outflag := SC_TX_BUSY,
    sc_ifp := (sc_ifp (snd (ppp_dequeue sc1)))\<lparr>if_oactive := True\<rparr>\<rparr>"
  have s1: "tx_queue sc1 = m # q" "sc_flags sc1 = sc_flags sc" "sc_asyncmap sc1 = sc_asyncmap sc" "sc_devp sc1 = sc_devp sc"
    "sc_outm sc1 = []"
    using q free by (auto simp: sc1_def tx_queue_def tx_free_def)
  note d = ppp_dequeue_head [OF s1(1) m] and f = ppp_dequeue_fields [of sc1]
  have eq: "ppp_txdaemon sc = tx_begin sc2"
    using free s1(5) d(1)
    by (simp add: ppp_txdaemon_def Let_def tx_free_def sc1_def [symmetric] sc2_def ms_def s1(2) split_beta)
  have s2: "tx_queue sc2 = q" "sc_flags sc2 = sc_flags sc" "sc_asyncmap sc2 = sc_asyncmap sc" "sc_devp sc2 = sc_devp sc"
    "sc_outm sc2 = ms" "sc_outflag sc2 = SC_TX_BUSY"
    using d f s1 by (simp_all add: sc2_def tx_queue_def)
  show "tx_pending (ppp_txdaemon sc) (sent_frame (sc_asyncmap sc) (sc_flags sc) (m_bytes m))"
    using tx_begin_pending [of sc2] compress_chain [OF m, of "sc_flags sc"] s2 dev
    by (simp add: eq sent_frame_def ms_def)
  show "tx_queue (ppp_txdaemon sc) = q" "sc_flags (ppp_txdaemon sc) = sc_flags sc"
    "sc_asyncmap (ppp_txdaemon sc) = sc_asyncmap sc" "sc_devp (ppp_txdaemon sc) = sc_devp sc"
    by (simp_all add: eq tx_begin_frame s2)
qed

lemma with_fcs_length: "length (with_fcs p) = length p + 2"
  by (simp add: with_fcs_def)

lemma sent_frame_length: "length (sent_frame maps flags p) \<le> 2 * length p + 6"
proof -
  have "length (compress_bytes flags p) \<le> length p"
    by (auto simp: compress_bytes_def Let_def min_def)
  then show ?thesis
    using stuff_length(2) [of "ESCAPE_P maps" "with_fcs (compress_bytes flags p)"]
    by (simp add: sent_frame_def wire_frame_def with_fcs_length)
qed

text \<open>All the packets of the queues appear on the wire, in order, if the driver is called often enough.\<close>

lemma tx_rounds_wire:
  assumes "tx_free sc" and "list_all tx_chain_ok (tx_queue sc)" and "sc_devp sc \<noteq> None"
    and "t_sc tp" and "\<not> t_polled tp" and "length nss = length (tx_queue sc)"
    and "list_all2 (\<lambda>ns m. 2 * length (m_bytes m) + 6 < length ns) nss (tx_queue sc)"
  shows "fst (tx_rounds nss tp sc) =
    concat (map (\<lambda>m. sent_frame (sc_asyncmap sc) (sc_flags sc) (m_bytes m)) (tx_queue sc))"
  using assms
proof (induction nss arbitrary: sc)
  case (Cons ns nss)
  then obtain m q where q: "tx_queue sc = m # q" by (cases "tx_queue sc") auto
  then have m: "tx_chain_ok m" and n: "2 * length (m_bytes m) + 6 < length ns" using Cons.prems by simp_all
  note t = ppp_txdaemon_next [OF Cons.prems(1) q m Cons.prems(3)]
  obtain w sc1 where d: "drive ns tp (ppp_txdaemon sc) = (w, sc1)" by fastforce
  have w: "w = sent_frame (sc_asyncmap sc) (sc_flags sc) (m_bytes m)" "TX_TRANSMIT \<in> ev_tx sc1"
    using drive_pending [OF t(1), of ns tp] sent_frame_length [of "sc_asyncmap sc" "sc_flags sc" "m_bytes m"]
      n Cons.prems(4,5) d by simp_all
  have f: "tx_frame sc1 = tx_frame (ppp_txdaemon sc)" using drive_frame [of ns tp "ppp_txdaemon sc"] d by simp
  then have "tx_queue sc1 = q" "sc_asyncmap sc1 = sc_asyncmap sc" "sc_flags sc1 = sc_flags sc" "sc_devp sc1 = sc_devp sc"
    using t by (simp_all add: tx_frame_def tx_queue_def)
  moreover from this have "fst (tx_rounds nss tp sc1) =
      concat (map (\<lambda>m. sent_frame (sc_asyncmap sc1) (sc_flags sc1) (m_bytes m)) (tx_queue sc1))"
    using Cons.prems q w(2) by (intro Cons.IH) (auto simp: tx_free_def)
  ultimately show ?case
    by (simp add: d q w split_beta)
qed simp

section \<open>What the daemon writes\<close>

lemma write_chain_bytes:
  "0 < MLEN a \<Longrightarrow> m_bytes (write_chain a mcl i p) = p \<and> list_all (\<lambda>m. m_dat m \<noteq> []) (write_chain a mcl i p)"
proof (induction a mcl i p rule: write_chain.induct)
  case (1 a mcl i p)
  define m where "m = (if length p \<ge> MCLBYTES div 2 \<and> mcl i then MCLGET (MGET a) else MGET a)"
  have cap: "0 < m_cap m"
    using "1.prems" by (simp add: m_def MCLGET_def MGET_def new_mbuf_def MCLBYTES_def)
  note s = write_chain.simps [of a mcl i p, folded m_def, unfolded Let_def]
  show ?case
  proof (cases "p = [] \<or> length p < m_cap m")
    case True
    then show ?thesis by (auto simp: s)
  next
    case False
    then have "m_bytes (write_chain a mcl (Suc i) (drop (m_cap m) p)) = drop (m_cap m) p \<and>
        list_all (\<lambda>m. m_dat m \<noteq> []) (write_chain a mcl (Suc i) (drop (m_cap m) p))"
      using "1.IH" [OF _ m_def refl] "1.prems" cap by simp
    with False cap show ?thesis by (simp add: s)
  qed
qed

lemma write_chain_head:
  assumes "4 \<le> MLEN a" and "4 \<le> length p"
  obtains m ms where "write_chain a mcl i p = m # ms" and "4 \<le> length (m_dat m)" and "m_off m = 0"
    and "M_WRITABLE m" and "\<not> m_highpri m"
proof -
  define m where "m = (if length p \<ge> MCLBYTES div 2 \<and> mcl i then MCLGET (MGET a) else MGET a)"
  have m: "4 \<le> m_cap m" "m_off m = 0" "M_WRITABLE m" "\<not> m_highpri m"
    using assms(1) by (simp_all add: m_def MCLGET_def MGET_def new_mbuf_def MCLBYTES_def M_WRITABLE_def)
  then have "\<exists>ms. write_chain a mcl i p = m\<lparr>m_dat := take (m_cap m) p\<rparr> # ms"
    using assms(2) by (subst write_chain.simps) (auto simp: m_def [symmetric] Let_def)
  with that m assms(2) show thesis by (auto simp: M_WRITABLE_def)
qed

text \<open>A packet of the daemon is queued as it was written.\<close>

lemma add_header_back:
  assumes "m_off m = 0" and "M_WRITABLE m" and "\<not> m_highpri m" and "4 \<le> length (m_dat m)"
  shows "add_header a (take 4 (m_dat m)) ((m_skip 4 m)\<lparr>m_highpri := False\<rparr> # ms) = m # ms"
  using assms by (simp add: add_header_def m_skip_def M_LEADINGSPACE_def M_WRITABLE_def PPP_HDRLEN_def)

lemma pppwrite_eq:
  assumes "attached tp sc" and "if_running (sc_ifp sc)" and a: "4 \<le> MLEN (sc_abi sc)" and len: "4 \<le> length p"
  shows "pppwrite mcl mem p tp sc =
    (K_OK, count_opacket (length p) (pppasyncstart (enqueue_out (write_chain (sc_abi sc) mcl 0 p) (sent_time p sc))))"
proof -
  obtain m ms where w: "write_chain (sc_abi sc) mcl 0 p = m # ms" and m: "4 \<le> length (m_dat m)" "m_off m = 0"
      "M_WRITABLE m" "\<not> m_highpri m"
    by (rule write_chain_head [OF a len])
  have p: "p = m_dat m @ m_bytes ms"
    using write_chain_bytes [of "sc_abi sc" mcl 0 p] a w by simp
  define h where "h = take 4 (m_dat m)"
  have h: "[h ! 0, h ! 1] @ putshort (ppp_protocol h) = h" "ppp_protocol h = ppp_protocol p"
  proof -
    obtain x0 x1 x2 x3 r where x: "m_dat m = x0 # x1 # x2 # x3 # r"
      using m(1) by (auto simp: Suc_le_length_iff eval_nat_numeral)
    show "[h ! 0, h ! 1] @ putshort (ppp_protocol h) = h" "ppp_protocol h = ppp_protocol p"
      by (simp_all add: h_def p x ppp_protocol_def putshort_getshort)
  qed
  have lead: "\<not> M_LEADINGSPACE (m_skip 4 m) < 4"
    using m by (simp add: M_LEADINGSPACE_def m_skip_def M_WRITABLE_def)
  have dev: "sc_devp sc = Some (t_dev tp)" and tsc: "t_sc tp" using assms(1) by (simp_all add: attached_def)
  note hb = add_header_back [OF m(2-4,1), of "sc_abi sc" ms, folded h_def]
  have len: "m_length (m # ms) = length p"
    by (simp add: m_length_bytes p)
  have "pppwrite mcl mem p tp sc = pppoutput mem (m_skip 4 m # ms) (DST_UNSPEC h) sc"
    using m(1) tsc by (simp add: pppwrite_def w Let_def PPP_HDRLEN_def h_def)
  also have "\<dots> = (K_OK, count_opacket (length p) (pppasyncstart (enqueue_out (m # ms) (sent_time p sc))))"
    using assms(2) h lead hb len
    by (simp add: pppoutput_def output_header_def dev PPP_HDRLEN_def Let_def sent_time_def)
  finally show ?thesis by (simp add: w)
qed

lemma enqueue_out_written:
  assumes "4 \<le> MLEN a" and "4 \<le> length p"
  shows "enqueue_out (write_chain a mcl 0 p) sc =
    sc\<lparr>sc_ifp := (sc_ifp sc)\<lparr>if_snd := if_snd (sc_ifp sc) @ [write_chain a mcl 0 p]\<rparr>\<rparr>"
  by (rule write_chain_head [OF assms, of mcl 0]) (simp add: enqueue_out_def if_ppp_enqueue_def)

lemma write_chain_ok:
  assumes "4 \<le> MLEN a" and "ppp_packet p"
  shows "tx_chain_ok (write_chain a mcl 0 p)" and "m_bytes (write_chain a mcl 0 p) = p"
proof -
  have len: "4 \<le> length p" using assms(2) by (simp add: ppp_packet_def)
  show b: "m_bytes (write_chain a mcl 0 p) = p"
    using assms(1) write_chain_bytes [of a mcl 0 p] by simp
  show "tx_chain_ok (write_chain a mcl 0 p)"
    by (rule write_chain_head [OF assms(1) len, of mcl 0])
       (use b assms write_chain_bytes [of a mcl 0 p] in \<open>simp add: tx_chain_ok_def\<close>)
qed

end
