(* ===== verification/Ppp_Carry.thy ===== *)
theory Ppp_Carry
  imports Ppp_Output Lcp
begin

text \<open>
  The receiving side and both sides together: the task gives the control packets to the daemon in the order
  of the raw queue, the daemon reads them one by one; the calls by which LCP configures the two kernels
  make them agree, and then the packets that one daemon writes are the packets that the other reads.
\<close>

section \<open>Definitions\<close>

text \<open>The daemon of the sender writes packets, that of the receiver reads as many as it is told of.\<close>

definition write_all :: "(nat \<Rightarrow> bool) \<Rightarrow> tty \<Rightarrow> bytes list \<Rightarrow> ppp_softc \<Rightarrow> ppp_softc" where
  "write_all mcl tp ps sc = fold (\<lambda>p sc. snd (pppwrite mcl True p tp sc)) ps sc"

fun read_all :: "nat \<Rightarrow> tty \<Rightarrow> ppp_softc \<Rightarrow> read_result list" where
  "read_all 0 tp sc = []"
| "read_all (Suc n) tp sc =
     (let (r, sc) = pppread (nat PPP_MTU + PPP_HDRLEN) tp sc in r # read_all n tp sc)"

text \<open>The transmitter at rest, or with packets that the task has been told of.\<close>

definition tx_start :: "tty \<Rightarrow> ppp_softc \<Rightarrow> bool" where
  "tx_start tp sc \<longleftrightarrow>
     attached tp sc \<and> if_running (sc_ifp sc) \<and> 4 \<le> MLEN (sc_abi sc) \<and> sc_outm sc = [] \<and>
     (sc_outflag sc \<noteq> 0 \<longrightarrow> ev_tx sc \<noteq> {}) \<and> list_all tx_chain_ok (tx_queue sc)"

definition control_packet :: "bytes \<Rightarrow> bool" where
  "control_packet p \<longleftrightarrow> ppp_packet p \<and> ppp_protocol p \<noteq> PPP_IP \<and> length p < nat PPP_MTU + PPP_HDRLEN"

definition inq_packets :: "ppp_softc \<Rightarrow> bytes list" where
  "inq_packets sc = map m_bytes (sc_inq sc)"

text \<open>The calls of LCP into \<^verbatim>\<open>sys-rtems.c\<close>, as the requests that they are. The kernel answers
  \<^verbatim>\<open>PPPIOCGFLAGS\<close> with its flags; a failed request ends the daemon, which is \<^const>\<open>None\<close>.\<close>

definition kernel_request :: "tty_request \<Rightarrow> ppp_softc \<Rightarrow> ppp_softc option" where
  "kernel_request r sc = (let (e, a, sc') = ppptioctl r sc in if e = K_MINUS1 then None else Some sc')"

definition ppp_send_config :: "int \<Rightarrow> u32 \<Rightarrow> bool \<Rightarrow> bool \<Rightarrow> ppp_softc \<Rightarrow> ppp_softc option" where
  "ppp_send_config mtu am pcomp accomp sc =
     (let sc = snd (snd (pppsioctl (SIFMTU mtu) sc))
      in case kernel_request (SASYNCMAP am) sc of
           None \<Rightarrow> None
         | Some sc \<Rightarrow>
             kernel_request
               (PPP_REQUEST (SFLAGS (set_bits accomp SC_COMP_AC (set_bits pcomp SC_COMP_PROT (sc_flags sc))))) sc)"

definition ppp_recv_config :: "int \<Rightarrow> u32 \<Rightarrow> bool \<Rightarrow> bool \<Rightarrow> ppp_softc \<Rightarrow> ppp_softc option" where
  "ppp_recv_config n am pcomp accomp sc =
     (case kernel_request (PPP_REQUEST (SMRU n)) sc of
        None \<Rightarrow> None
      | Some sc \<Rightarrow>
          (case kernel_request (SRASYNCMAP am) sc of
             None \<Rightarrow> None
           | Some sc \<Rightarrow>
               kernel_request (PPP_REQUEST (SFLAGS (set_bits (\<not> accomp) SC_REJ_COMP_AC (sc_flags sc)))) sc))"

text \<open>Only warns when the request fails.\<close>

definition ppp_set_xaccm :: "u32 list \<Rightarrow> ppp_softc \<Rightarrow> ppp_softc option" where
  "ppp_set_xaccm accm sc = Some (snd (snd (ppptioctl (SXASYNCMAP accm) sc)))"

definition drv_apply :: "drv_call \<Rightarrow> ppp_softc \<Rightarrow> ppp_softc option" where
  "drv_apply c sc =
     (case c of
        Set_Xaccm m \<Rightarrow> ppp_set_xaccm m sc
      | Send_Config mtu am pc ac \<Rightarrow> ppp_send_config mtu am pc ac sc
      | Recv_Config n am pc ac \<Rightarrow> ppp_recv_config n am pc ac sc)"

fun drv_run :: "drv_call list \<Rightarrow> ppp_softc \<Rightarrow> ppp_softc option" where
  "drv_run [] sc = Some sc"
| "drv_run (c # cs) sc = (case drv_apply c sc of None \<Rightarrow> None | Some sc \<Rightarrow> drv_run cs sc)"

text \<open>The calls that \<^verbatim>\<open>lcp_up\<close> makes for the options in the state.\<close>

definition lcp_mru :: "'a lcp_world_scheme \<Rightarrow> int" where
  "lcp_mru w = (if neg_mru (lcp_gotoptions w) then max (mru (lcp_wantoptions w)) (mru (lcp_gotoptions w)) else PPP_MRU)"

definition lcp_send_map :: "'a lcp_world_scheme \<Rightarrow> u32" where
  "lcp_send_map w = (if neg_asyncmap (lcp_hisoptions w) then asyncmap (lcp_hisoptions w) else 0xffffffff)"

definition lcp_recv_map :: "'a lcp_world_scheme \<Rightarrow> u32" where
  "lcp_recv_map w =
     (if lax_recv w then 0 else if neg_asyncmap (lcp_gotoptions w) then asyncmap (lcp_gotoptions w) else 0xffffffff)"

definition lcp_up_calls :: "'a lcp_world_scheme \<Rightarrow> drv_call list" where
  "lcp_up_calls w =
     [Send_Config (min (mru (lcp_allowoptions w)) (if neg_mru (lcp_hisoptions w) then mru (lcp_hisoptions w) else PPP_MRU))
        (lcp_send_map w) (neg_pcompression (lcp_hisoptions w)) (neg_accompression (lcp_hisoptions w)),
      Recv_Config (lcp_mru w) (lcp_recv_map w) (neg_pcompression (lcp_gotoptions w)) (neg_accompression (lcp_gotoptions w))]"

text \<open>The flags and the kernel after those calls.\<close>

definition lcp_flags :: "'a lcp_world_scheme \<Rightarrow> u32 \<Rightarrow> u32" where
  "lcp_flags w f =
     (let f1 = (f AND NOT SC_MASK) OR (set_bits (neg_accompression (lcp_hisoptions w)) SC_COMP_AC
                 (set_bits (neg_pcompression (lcp_hisoptions w)) SC_COMP_PROT f) AND SC_MASK)
      in (f1 AND NOT SC_MASK) OR
         (set_bits (\<not> neg_accompression (lcp_gotoptions w)) SC_REJ_COMP_AC f1 AND SC_MASK))"

definition lcp_configured :: "'a lcp_world_scheme \<Rightarrow> ppp_softc \<Rightarrow> ppp_softc" where
  "lcp_configured w sc =
     sc\<lparr>sc_ifp := (sc_ifp sc)\<lparr>if_mtu := min (mru (lcp_allowoptions w))
          (if neg_mru (lcp_hisoptions w) then mru (lcp_hisoptions w) else PPP_MRU)\<rparr>,
        sc_asyncmap := (sc_asyncmap sc)[0 := lcp_send_map w],
        sc_mru := (if lcp_mru w \<ge> PPP_MRU then lcp_mru w else sc_mru sc),
        sc_rasyncmap := lcp_recv_map w, sc_flags := lcp_flags w (sc_flags sc)\<rparr>"

section \<open>Writing\<close>

lemma tx_start_write:
  fixes mcl :: "nat \<Rightarrow> bool"
  assumes "tx_start tp sc" and p: "ppp_packet p"
  defines "sc' \<equiv> snd (pppwrite mcl True p tp sc)"
  shows "tx_start tp sc'" and "tx_queue sc' = tx_queue sc @ [write_chain (sc_abi sc) mcl 0 p]" and "ev_tx sc' \<noteq> {}"
    and "sc_abi sc' = sc_abi sc" and "sc_asyncmap sc' = sc_asyncmap sc" and "sc_flags sc' = sc_flags sc"
proof -
  have a: "4 \<le> MLEN (sc_abi sc)" and len: "4 \<le> length p"
    using assms by (simp_all add: tx_start_def ppp_packet_def)
  have w: "sc' = count_opacket (length p) (pppasyncstart (enqueue_out (write_chain (sc_abi sc) mcl 0 p) (sent_time p sc)))"
    using assms len by (simp add: sc'_def tx_start_def pppwrite_eq)
  note u = enqueue_out_written [OF a len] count_opacket_def pppasyncstart_def tx_event_send_def sent_time_def microtime_def
  show "tx_queue sc' = tx_queue sc @ [write_chain (sc_abi sc) mcl 0 p]"
    by (simp add: w u tx_queue_def)
  show "ev_tx sc' \<noteq> {}" using assms(1) by (simp add: w u tx_start_def)
  show "sc_abi sc' = sc_abi sc" "sc_asyncmap sc' = sc_asyncmap sc" "sc_flags sc' = sc_flags sc"
    by (simp_all add: w u)
  show "tx_start tp sc'"
    using assms(1) write_chain_ok [OF a p] \<open>tx_queue sc' = _\<close> \<open>ev_tx sc' \<noteq> {}\<close> \<open>sc_abi sc' = _\<close>
    by (simp add: tx_start_def) (simp add: w u attached_def)
qed

lemma write_all_queue:
  assumes "tx_start tp sc" and "list_all ppp_packet ps"
  shows "tx_start tp (write_all mcl tp ps sc) \<and>
    map m_bytes (tx_queue (write_all mcl tp ps sc)) = map m_bytes (tx_queue sc) @ ps \<and>
    (ps \<noteq> [] \<longrightarrow> ev_tx (write_all mcl tp ps sc) \<noteq> {}) \<and>
    sc_asyncmap (write_all mcl tp ps sc) = sc_asyncmap sc \<and> sc_flags (write_all mcl tp ps sc) = sc_flags sc"
  using assms
proof (induction ps arbitrary: sc)
  case (Cons p ps)
  then have p: "ppp_packet p" and ps: "list_all ppp_packet ps" by simp_all
  note s = tx_start_write [OF Cons.prems(1) p, of mcl]
  have b: "m_bytes (write_chain (sc_abi sc) mcl 0 p) = p"
    using Cons.prems(1) p by (simp add: write_chain_ok tx_start_def)
  have w: "write_all mcl tp (p # ps) sc = write_all mcl tp ps (snd (pppwrite mcl True p tp sc))"
    by (simp add: write_all_def)
  show ?case
    using Cons.IH [OF s(1) ps] s b unfolding w by (cases ps) (auto simp: write_all_def)
qed (simp add: write_all_def)

section \<open>The receiving task\<close>

lemma inproc_control:
  fixes mem :: bool
  assumes "raw_ok ms" and "ppp_protocol (m_bytes ms) \<noteq> PPP_IP" and "\<not> IF_QFULL (sc_inq sc)"
  defines "r \<equiv> snd (ppp_inproc mem ms sc)"
  shows "inq_packets r = inq_packets sc @ [m_bytes ms]" and "list_all raw_ok (sc_inq sc) \<Longrightarrow> list_all raw_ok (sc_inq r)"
    and "sc_rawq r = sc_rawq sc" and "sc_devp r = sc_devp sc" and "ev_rx r = ev_rx sc"
proof -
  obtain m where m: "ms = [m]" "4 \<le> length (m_dat m)"
    using assms(1) by (auto simp: raw_ok_def length_Suc_conv)
  show "inq_packets r = inq_packets sc @ [m_bytes ms]" and "list_all raw_ok (sc_inq sc) \<Longrightarrow> list_all raw_ok (sc_inq r)"
    and "sc_rawq r = sc_rawq sc" and "sc_devp r = sc_devp sc" and "ev_rx r = ev_rx sc"
    using assms(2,3) m(2) unfolding r_def m(1)
    by (simp_all add: ppp_inproc_def inproc_deliver_def Let_def trap_if_def PPP_HDRLEN_def inq_packets_def
        pppasyncctlp_def count_ipacket_def microtime_def if_ppp_enqueue_def raw_ok_def)
qed

text \<open>A round of the task with a control packet.\<close>

lemma ppp_rxdaemon_control:
  fixes mem :: bool
  assumes ev: "RX_PACKET \<in> ev_rx sc" and q: "sc_rawq sc = ms # q" and ms: "raw_ok ms"
    and proto: "ppp_protocol (m_bytes ms) \<noteq> PPP_IP" and inq: "length (sc_inq sc) < IFQ_MAXLEN"
  defines "r \<equiv> ppp_rxdaemon mem sc"
  shows "sc_rawq r = q" and "inq_packets r = inq_packets sc @ [m_bytes ms]"
    and "list_all raw_ok (sc_inq sc) \<Longrightarrow> list_all raw_ok (sc_inq r)" and "sc_devp r = sc_devp sc"
    and "q \<noteq> [] \<Longrightarrow> RX_PACKET \<in> ev_rx r"
proof -
  define sc1 where "sc1 = sc\<lparr>ev_rx := {}, sc_rawq := q\<rparr>"
  have ne: "ms \<noteq> []" "ev_rx sc - {RX_EMPTY} \<noteq> {}" using ms ev by (auto simp: raw_ok_def)
  obtain mp sc2 where p: "ppp_inproc mem ms sc1 = (mp, sc2)" by fastforce
  have full: "\<not> IF_QFULL (sc_inq sc1)" using inq by (simp add: IF_QFULL_def sc1_def)
  note d = inproc_control [OF ms proto full, of mem, unfolded p snd_conv]
  define sc3 where "sc3 = sc2\<lparr>sc_freeq := sc_freeq sc2 @ [if mp = [] then pppallocmbuf sc2 [] else mp]\<rparr>"
  have r: "r = (if sc_rawq sc3 \<noteq> [] then rx_event_send RX_PACKET sc3 else sc3)"
    using ev ne q p unfolding r_def
    by (simp add: ppp_rxdaemon_def Let_def sc1_def if_ppp_dequeue_def if_ppp_enqueue_def sc3_def)
  have "sc_rawq sc3 = q" using d(3) by (simp add: sc3_def sc1_def)
  then show "sc_rawq r = q" and "inq_packets r = inq_packets sc @ [m_bytes ms]"
    and "list_all raw_ok (sc_inq sc) \<Longrightarrow> list_all raw_ok (sc_inq r)" and "sc_devp r = sc_devp sc"
    and "q \<noteq> [] \<Longrightarrow> RX_PACKET \<in> ev_rx r"
    using d by (simp_all add: r rx_event_send_def sc3_def inq_packets_def sc1_def)
qed

lemma ppp_rxdaemon_rounds:
  fixes mem :: bool
  assumes "sc_rawq sc \<noteq> [] \<Longrightarrow> RX_PACKET \<in> ev_rx sc" and "list_all raw_ok (sc_rawq sc)"
    and "list_all (\<lambda>ms. ppp_protocol (m_bytes ms) \<noteq> PPP_IP) (sc_rawq sc)" and "list_all raw_ok (sc_inq sc)"
    and "length (sc_inq sc) + length (sc_rawq sc) \<le> IFQ_MAXLEN"
  defines "r \<equiv> ((ppp_rxdaemon mem) ^^ length (sc_rawq sc)) sc"
  shows "inq_packets r = inq_packets sc @ raw_packets sc \<and> list_all raw_ok (sc_inq r) \<and> sc_devp r = sc_devp sc"
  using assms(1-5) unfolding r_def
proof (induction "length (sc_rawq sc)" arbitrary: sc)
  case 0
  then show ?case by (simp add: raw_packets_def)
next
  case (Suc n)
  then obtain ms q where q: "sc_rawq sc = ms # q" by (cases "sc_rawq sc") auto
  define sc1 where "sc1 = ppp_rxdaemon mem sc"
  have d: "sc_rawq sc1 = q" "inq_packets sc1 = inq_packets sc @ [m_bytes ms]" "list_all raw_ok (sc_inq sc1)"
    "sc_devp sc1 = sc_devp sc" "q \<noteq> [] \<Longrightarrow> RX_PACKET \<in> ev_rx sc1"
    using Suc.prems q ppp_rxdaemon_control [of sc ms q mem] by (simp_all add: sc1_def)
  have l: "length (sc_inq sc1) = Suc (length (sc_inq sc))"
    using arg_cong [OF d(2), of length] by (simp add: inq_packets_def)
  have "inq_packets (((ppp_rxdaemon mem) ^^ length (sc_rawq sc1)) sc1) = inq_packets sc1 @ raw_packets sc1 \<and>
      list_all raw_ok (sc_inq (((ppp_rxdaemon mem) ^^ length (sc_rawq sc1)) sc1)) \<and>
      sc_devp (((ppp_rxdaemon mem) ^^ length (sc_rawq sc1)) sc1) = sc_devp sc1"
    using Suc.hyps(2) Suc.prems q d l by (intro Suc.hyps(1)) simp_all
  with d q show ?case
    by (simp add: sc1_def [symmetric] funpow_swap1 raw_packets_def)
qed

section \<open>Reading\<close>

lemma pppread_packet:
  assumes "t_sc tp" and "t_pppdisc tp" and "sc_devp sc = Some (t_dev tp)" and "sc_inq sc = ms # q" and "raw_ok ms"
    and "length (m_bytes ms) < n"
  shows "pppread n tp sc = (R_DATA (m_bytes ms), if q \<noteq> [] then sc\<lparr>sc_inq := q, ev_pppd := True\<rparr> else sc\<lparr>sc_inq := q\<rparr>)"
  using assms by (auto simp: pppread_def if_ppp_dequeue_def raw_ok_def length_Suc_conv)

lemma read_all_packets:
  assumes "t_sc tp" and "t_pppdisc tp" and "sc_devp sc = Some (t_dev tp)" and "list_all raw_ok (sc_inq sc)"
    and "list_all (\<lambda>p. length p < nat PPP_MTU + PPP_HDRLEN) (inq_packets sc)"
  shows "read_all (length (sc_inq sc)) tp sc = map R_DATA (inq_packets sc)"
  using assms(3-5)
proof (induction "sc_inq sc" arbitrary: sc)
  case Nil
  then show ?case by (simp add: inq_packets_def)
next
  case (Cons ms q)
  define sc1 where "sc1 = (if q \<noteq> [] then sc\<lparr>sc_inq := q, ev_pppd := True\<rparr> else sc\<lparr>sc_inq := q\<rparr>)"
  have r: "pppread (nat PPP_MTU + PPP_HDRLEN) tp sc = (R_DATA (m_bytes ms), sc1)"
    using Cons.prems Cons.hyps(2) [symmetric] assms(1,2) unfolding sc1_def
    by (intro pppread_packet) (simp_all add: inq_packets_def)
  have q: "sc_inq sc1 = q" "sc_devp sc1 = sc_devp sc" by (simp_all add: sc1_def)
  have "read_all (length (sc_inq sc1)) tp sc1 = map R_DATA (inq_packets sc1)"
    using Cons.prems Cons.hyps(2) [symmetric] q by (intro Cons.hyps(1)) (simp_all add: inq_packets_def)
  then show ?case
    using r q Cons.hyps(2) [symmetric] by (simp add: inq_packets_def)
qed

section \<open>Both sides\<close>

text \<open>The receiver leaves the input queue of the daemon alone.\<close>

lemma rx_flag_inq: "sc_inq (rx_flag sc) = sc_inq sc" "sc_devp (rx_flag sc) = sc_devp sc"
  by (simp_all add: rx_flag_def rx_deliver_def rx_trim_def drop_last_def trap_if_def count_ierror_def
      rx_event_send_def Let_def split_beta)

lemma rx_first_inq: "sc_inq (fst (rx_first c sc)) = sc_inq sc" "sc_devp (fst (rx_first c sc)) = sc_devp sc"
  by (simp_all add: rx_first_def rx_put_def trap_if_def Let_def)

lemma rx_room_inq: "sc_inq (fst (rx_room sc)) = sc_inq sc" "sc_devp (fst (rx_room sc)) = sc_devp sc"
  by (simp_all add: rx_room_def rx_event_send_def Let_def split_beta)

lemma rx_put_inq: "sc_inq (rx_put bs sc) = sc_inq sc" "sc_devp (rx_put bs sc) = sc_devp sc"
  by (simp_all add: rx_put_def trap_if_def Let_def)

lemma rx_flush_inq: "sc_inq (rx_flush sc) = sc_inq sc" "sc_devp (rx_flush sc) = sc_devp sc"
  by (simp_all add: rx_flush_def count_ierror_def)

lemma rx_data_inq: "sc_inq (rx_data c sc) = sc_inq sc" "sc_devp (rx_data c sc) = sc_devp sc"
  unfolding rx_data_steps
  by (simp_all add: Let_def rx_put_inq rx_flush_inq rx_first_inq rx_room_inq rx_proto_def)

lemma pppinput_inq: "sc_inq (pppinput c tp sc) = sc_inq sc" "sc_devp (pppinput c tp sc) = sc_devp sc"
  by (simp_all add: pppinput_def rx_flag_inq rx_char_def rx_data_inq rx_event_send_def Let_def split_beta)
     (simp_all add: rx_note_def)

lemma tty_input_inq: "sc_inq (tty_input tp cs sc) = sc_inq sc" "sc_devp (tty_input tp cs sc) = sc_devp sc"
  by (induction cs arbitrary: sc) (simp_all add: pppinput_inq)

text \<open>What one daemon writes is what the other reads.\<close>

lemma link_carries:
  fixes mcl :: "nat \<Rightarrow> bool"
  assumes tx: "tx_start tpa ka" "t_sc tpa" "\<not> t_polled tpa" "tx_queue ka = []"
    and rx: "rx_ready (sc_asyncmap ka) (sc_flags ka) tpb (length ps) kb" "t_pppdisc tpb" "sc_rawq kb = []" "sc_inq kb = []"
    and ps: "list_all control_packet ps" "length ps \<le> IFQ_MAXLEN"
    and drv: "length nss = length ps" "list_all (\<lambda>ns. 2 * (nat PPP_MRU + PPP_HDRLEN) + 6 < length ns) nss"
  defines "w \<equiv> fst (tx_rounds nss tpa (write_all mcl tpa ps ka))"
  shows "read_all (length ps) tpb (((ppp_rxdaemon mem) ^^ length ps) (tty_input tpb w kb)) = map R_DATA ps"
proof (cases "ps = []")
  case False
  have pk: "list_all ppp_packet ps" using ps(1) by (simp add: list_all_iff control_packet_def)
  define k1 where "k1 = write_all mcl tpa ps ka"
  have k1: "tx_start tpa k1" "map m_bytes (tx_queue k1) = ps" "ev_tx k1 \<noteq> {}" "sc_asyncmap k1 = sc_asyncmap ka"
    "sc_flags k1 = sc_flags ka"
    using write_all_queue [OF tx(1) pk, of mcl] False tx(4) by (simp_all add: k1_def)
  have len: "length (tx_queue k1) = length ps" using arg_cong [OF k1(2), of length] by simp
  have "list_all2 (\<lambda>ns m. 2 * length (m_bytes m) + 6 < length ns) nss (tx_queue k1)"
    unfolding list_all2_conv_all_nth
  proof (intro conjI allI impI)
    show "length nss = length (tx_queue k1)" using drv(1) len by simp
    fix i assume i: "i < length nss"
    have "m_bytes (tx_queue k1 ! i) = ps ! i" using k1(2) i drv(1) len by (metis nth_map)
    moreover have "length (ps ! i) \<le> nat PPP_MRU + PPP_HDRLEN"
      using pk i drv(1) by (simp add: list_all_length ppp_packet_def)
    moreover have "2 * (nat PPP_MRU + PPP_HDRLEN) + 6 < length (nss ! i)"
      using drv(2) i by (simp add: list_all_length)
    ultimately show "2 * length (m_bytes (tx_queue k1 ! i)) + 6 < length (nss ! i)" by simp
  qed
  then have "fst (tx_rounds nss tpa k1) =
      concat (map (\<lambda>m. sent_frame (sc_asyncmap k1) (sc_flags k1) (m_bytes m)) (tx_queue k1))"
    using k1(1,3) tx(2,3) drv(1) len
    by (intro tx_rounds_wire) (simp_all add: tx_start_def tx_free_def attached_def)
  also have "\<dots> = concat (map (sent_frame (sc_asyncmap ka) (sc_flags ka)) (map m_bytes (tx_queue k1)))"
    by (simp add: k1(4,5) comp_def)
  finally have w: "w = concat (map (sent_frame (sc_asyncmap ka) (sc_flags ka)) ps)"
    by (simp only: w_def k1_def k1(2) [unfolded k1_def])
  define k2 where "k2 = tty_input tpb w kb"
  have "raw_packets k2 = ps" and r2: "rx_ready (sc_asyncmap ka) (sc_flags ka) tpb 0 k2"
    using tty_rx.recv_packets [of "sc_asyncmap ka" "sc_flags ka" tpb ps 0 kb] rx pk
    by (simp_all add: k2_def w raw_packets_def)
  then have l2: "length (sc_rawq k2) = length ps" by (metis length_map raw_packets_def)
  have "inq_packets (((ppp_rxdaemon mem) ^^ length (sc_rawq k2)) k2) = inq_packets k2 @ raw_packets k2 \<and>
      list_all raw_ok (sc_inq (((ppp_rxdaemon mem) ^^ length (sc_rawq k2)) k2)) \<and>
      sc_devp (((ppp_rxdaemon mem) ^^ length (sc_rawq k2)) k2) = sc_devp k2"
  proof (rule ppp_rxdaemon_rounds)
    show "list_all (\<lambda>ms. ppp_protocol (m_bytes ms) \<noteq> PPP_IP) (sc_rawq k2)"
      using \<open>raw_packets k2 = ps\<close> ps(1) by (auto simp: raw_packets_def list_all_iff control_packet_def)
  qed (use r2 rx(4) ps(2) l2 in \<open>simp_all add: rx_ready_def k2_def tty_input_inq\<close>)
  then have k3: "inq_packets (((ppp_rxdaemon mem) ^^ length ps) k2) = ps"
    "list_all raw_ok (sc_inq (((ppp_rxdaemon mem) ^^ length ps) k2))"
    "sc_devp (((ppp_rxdaemon mem) ^^ length ps) k2) = sc_devp kb"
    using l2 rx(4) \<open>raw_packets k2 = ps\<close> by (simp_all add: inq_packets_def k2_def tty_input_inq)
  have l3: "length (sc_inq (((ppp_rxdaemon mem) ^^ length ps) k2)) = length ps"
    using arg_cong [OF k3(1), of length] by (simp add: inq_packets_def)
  have "read_all (length (sc_inq (((ppp_rxdaemon mem) ^^ length ps) k2))) tpb (((ppp_rxdaemon mem) ^^ length ps) k2) =
      map R_DATA (inq_packets (((ppp_rxdaemon mem) ^^ length ps) k2))"
    by (rule read_all_packets)
       (use k3 rx ps(1) in \<open>simp_all add: rx_ready_def attached_def list_all_iff control_packet_def\<close>)
  then have "read_all (length ps) tpb (((ppp_rxdaemon mem) ^^ length ps) k2) = map R_DATA ps"
    by (simp only: l3 k3(1))
  then show ?thesis by (simp only: k2_def)
qed simp

section \<open>The configuration by LCP\<close>

lemma pppopen_ready:
  assumes "pppopen tp (ppp_attach a) = (K_OK, tp', sc)" and "4 \<le> MLEN a"
  shows "tx_start tp' sc" and "tx_queue sc = []" and "asyncmap_ok (sc_asyncmap sc)" and "sc_rawq sc = []" and "sc_inq sc = []"
    and "rx_bufs sc = replicate NUM_MBUFQ [MCLGET (MGETHDR a)]" and "sc_ilen sc = 0" and "sc_flags sc = 0"
    and "sc_mru sc = PPP_MRU" and "attached tp' sc"
proof -
  obtain sc0 where s0: "pppalloc 1 (ppp_attach a) = (True, sc0)" "sc_mru sc0 = PPP_MRU" "sc_abi sc0 = a" "sc_freeq sc0 = []"
    "sc_flags sc0 = 0" "sc_outm sc0 = []" "sc_outflag sc0 = 0" "sc_fastq sc0 = []" "if_snd (sc_ifp sc0) = []"
    "sc_rawq sc0 = []" "sc_inq sc0 = []"
    by (simp add: pppalloc_def ppp_attach_def microtime_def)
  have m: "pppallocmbuf sc0 [] = [MCLGET (MGETHDR a)]"
    using s0 by (subst pppallocmbuf_cluster) (simp_all add: PPP_MRU_def MCLBYTES_def)
  have "sc_devp (ppp_attach a) = None" by (simp add: ppp_attach_def)
  then have sc: "tp' = tp\<lparr>t_sc := True\<rparr>" "sc = sc0\<lparr>sc_ilen := 0, sc_asyncmap := [0xffffffff, 0, 0, 0x60000000, 0, 0, 0, 0],
      sc_rasyncmap := 0, sc_devp := Some (t_dev tp), sc_outm := [], sc_outmc := [], sc_m := [MCLGET (MGETHDR a)],
      sc_freeq := replicate (NUM_MBUFQ - 1) [MCLGET (MGETHDR a)],
      sc_ifp := (sc_ifp sc0)\<lparr>if_running := True, if_baudrate := t_ospeed tp\<rparr>\<rparr>"
    using assms(1) by (auto simp: pppopen_def s0 m Let_def)
  show "tx_start tp' sc" "tx_queue sc = []" "asyncmap_ok (sc_asyncmap sc)" "sc_rawq sc = []" "sc_inq sc = []"
    "sc_ilen sc = 0" "sc_flags sc = 0" "sc_mru sc = PPP_MRU" "attached tp' sc"
    "rx_bufs sc = replicate NUM_MBUFQ [MCLGET (MGETHDR a)]"
    using assms(2) s0 pppopen_maps
    by (simp_all add: sc tx_start_def tx_queue_def attached_def rx_bufs_def NUM_MBUFQ_def replicate_app_Cons_same
        numeral_eq_Suc)
qed

lemma sflags_in: "b AND NOT k = 0 \<Longrightarrow> ((f AND NOT k) OR (x AND k)) AND b = x AND b" for f :: u32
proof (rule bit_word_eqI)
  fix n assume "b AND NOT k = 0" "n < LENGTH(32)"
  then have "bit b n \<Longrightarrow> bit k n"
    by (metis bit_0_eq bit_and_iff bit_not_iff bot_apply bot_bool_def impossible_bit exp_eq_0_imp_not_bit)
  then show "bit (((f AND NOT k) OR (x AND k)) AND b) n = bit (x AND b) n"
    by (auto simp: bit_simps)
qed

lemma sflags_out:
  fixes f :: u32
  assumes "k AND b = 0"
  shows "((f AND NOT k) OR (x AND k)) AND b = f AND b"
  unfolding bit.conj_disj_distrib2 flag_keep [OF assms] and.assoc [of x] assms by simp

lemma set_bits_flag:
  "k AND b = 0 \<Longrightarrow> set_bits v k x AND b = x AND b" "k \<noteq> 0 \<Longrightarrow> set_bits v k x AND k \<noteq> 0 \<longleftrightarrow> v"
  by (auto simp: set_bits_def flag_keep flag_clear bit.conj_disj_distrib2)

lemma ppp_send_config_eq:
  "ppp_send_config mtu am pc ac sc =
     Some (sc\<lparr>sc_ifp := (sc_ifp sc)\<lparr>if_mtu := mtu\<rparr>, sc_asyncmap := (sc_asyncmap sc)[0 := am],
       sc_flags := (sc_flags sc AND NOT SC_MASK) OR
         (set_bits ac SC_COMP_AC (set_bits pc SC_COMP_PROT (sc_flags sc)) AND SC_MASK)\<rparr>)"
  by (simp add: ppp_send_config_def kernel_request_def ppptioctl_def pppioctl_def pppsioctl_def Let_def)

lemma ppp_recv_config_eq:
  assumes "n < int MCLBYTES"
  shows "ppp_recv_config n am pc ac sc =
     Some (sc\<lparr>sc_mru := (if n \<ge> PPP_MRU then n else sc_mru sc), sc_rasyncmap := am,
       sc_flags := (sc_flags sc AND NOT SC_MASK) OR (set_bits (\<not> ac) SC_REJ_COMP_AC (sc_flags sc) AND SC_MASK)\<rparr>)"
  using assms by (simp add: ppp_recv_config_def kernel_request_def ppptioctl_def pppioctl_def Let_def)

text \<open>A larger MRU than a cluster ends the daemon.\<close>

lemma ppp_recv_config_fails: "int MCLBYTES \<le> n \<Longrightarrow> ppp_recv_config n am pc ac sc = None"
  by (simp add: ppp_recv_config_def kernel_request_def ppptioctl_def pppioctl_def)

text \<open>The calls that \<^verbatim>\<open>lcp_up\<close> makes first.\<close>

lemma drv_frame_basic [simp]:
  "drv (put_outpacket k bs w) = drv w" "drv (bcopy_outpacket k bs n w) = drv w" "drv (output_outpacket u m w) = drv w"
  "drv (ppptimeout f a t w) = drv w"
  by (simp_all add: put_outpacket_def bcopy_outpacket_def output_outpacket_def ppptimeout_def gettimeofday_def
      Let_def split: prod.split)

lemma drv_fsm_sdata [simp]: "drv (fsm_sdata i code ident d n w) = drv w"
  by (simp add: fsm_sdata_def Let_def split: sdata.split)

lemma lcp_echo_lowerup_drv: "0 \<le> lcp_echo_fails w \<Longrightarrow> drv (lcp_echo_lowerup h w) = drv w"
  by (simp add: lcp_echo_lowerup_def LcpEchoCheck_def LcpSendEchoRequest_def Let_def)

lemma lcp_up_drv:
  assumes "0 \<le> lcp_echo_fails w" and "\<And>v. \<exists>cs. drv (h_link_established h v) = drv v @ cs"
  shows "take 2 (drop (length (drv w)) (drv (lcp_up h w))) = lcp_up_calls w"
proof -
  obtain v where "lcp_up h w = h_link_established h v" and "drv v = drv w @ lcp_up_calls w"
    using assms(1)
    by (simp add: lcp_up_def drv_log_def Let_def lcp_up_calls_def lcp_send_map_def lcp_recv_map_def lcp_mru_def lcp_echo_lowerup_drv)
  with assms(2) [of v] show ?thesis
    by (auto simp: lcp_up_calls_def)
qed

lemma lcp_flags_bits:
  "lcp_flags w f AND SC_COMP_AC \<noteq> 0 \<longleftrightarrow> neg_accompression (lcp_hisoptions w)"
  "lcp_flags w f AND SC_REJ_COMP_AC \<noteq> 0 \<longleftrightarrow> \<not> neg_accompression (lcp_gotoptions w)"
  "lcp_flags w f AND SC_FLUSH = f AND SC_FLUSH" "lcp_flags w f AND SC_ESCAPED = f AND SC_ESCAPED"
proof -
  have m: "SC_COMP_AC AND NOT SC_MASK = 0" "SC_REJ_COMP_AC AND NOT SC_MASK = 0" "SC_MASK AND SC_FLUSH = 0"
    "SC_MASK AND SC_ESCAPED = 0" "SC_REJ_COMP_AC AND SC_COMP_AC = 0" "SC_COMP_AC \<noteq> 0" "SC_REJ_COMP_AC \<noteq> 0"
    by (simp_all add: ppp_consts)
  show "lcp_flags w f AND SC_COMP_AC \<noteq> 0 \<longleftrightarrow> neg_accompression (lcp_hisoptions w)"
    "lcp_flags w f AND SC_REJ_COMP_AC \<noteq> 0 \<longleftrightarrow> \<not> neg_accompression (lcp_gotoptions w)"
    "lcp_flags w f AND SC_FLUSH = f AND SC_FLUSH" "lcp_flags w f AND SC_ESCAPED = f AND SC_ESCAPED"
    unfolding lcp_flags_def Let_def sflags_in [OF m(1)] sflags_in [OF m(2)] sflags_out [OF m(3)] sflags_out [OF m(4)]
      set_bits_flag(1) [OF m(5)] set_bits_flag(2) [OF m(6)] set_bits_flag(2) [OF m(7)] by simp_all
qed

lemma drv_run_up:
  "lcp_mru w < int MCLBYTES \<Longrightarrow> drv_run (lcp_up_calls w) sc = Some (lcp_configured w sc)"
  unfolding lcp_mru_def
  by (simp add: lcp_up_calls_def drv_apply_def ppp_send_config_eq ppp_recv_config_eq lcp_configured_def lcp_flags_def
      lcp_mru_def lcp_send_map_def lcp_recv_map_def Let_def)

text \<open>After the calls of LCP the sender is ready, and the receiver is ready for what it sends.\<close>

lemma lcp_configured_tx:
  "tx_start tp (lcp_configured w sc) = tx_start tp sc" "tx_queue (lcp_configured w sc) = tx_queue sc"
  by (simp_all add: lcp_configured_def tx_start_def tx_queue_def attached_def)

lemma lcp_configured_rx:
  assumes open_b: "pppopen tb (ppp_attach b) = (K_OK, tpb, kb)" "4 \<le> MLEN b" and "asyncmap_ok (sc_asyncmap ka)"
    and map: "lcp_recv_map wb AND NOT (lcp_send_map wa) = 0"
    and ac: "neg_accompression (lcp_hisoptions wa) \<longrightarrow> neg_accompression (lcp_gotoptions wb)"
    and mru: "lcp_mru wb \<le> 2042" and n: "n \<le> NUM_MBUFQ"
  shows "rx_ready (sc_asyncmap (lcp_configured wa ka)) (sc_flags (lcp_configured wa ka)) tpb n (lcp_configured wb kb)"
proof -
  note o = pppopen_ready [OF open_b]
  let ?k = "lcp_configured wb kb"
  have maps: "asyncmap_ok (sc_asyncmap (lcp_configured wa ka))" "sc_asyncmap (lcp_configured wa ka) ! 0 = lcp_send_map wa"
    using assms(3) by (auto simp: lcp_configured_def asyncmap_ok_def)
  have m: "PPP_MRU \<le> sc_mru ?k" "sc_mru ?k + 6 \<le> int MCLBYTES"
    using mru o(9) by (simp_all add: lcp_configured_def PPP_MRU_def MCLBYTES_def)
  have bufs: "rx_bufs ?k = replicate NUM_MBUFQ [MCLGET (MGETHDR b)]"
    unfolding o(6) [symmetric] by (simp add: lcp_configured_def rx_bufs_def)
  have "rx_fits (MCLGET (MGETHDR b)) ?k"
    using m by (simp add: rx_fits_def M_WRITABLE_def MCLGET_def MGETHDR_def new_mbuf_def PPP_MRU_def MCLBYTES_def)
  then have "list_all (rx_chain ?k) (rx_bufs ?k)" by (simp add: bufs list_all_iff rx_chain_def)
  moreover have "rx_has b ?k = (lcp_flags wb (sc_flags kb) AND b \<noteq> 0)" for b
    by (simp add: rx_has_def lcp_configured_def)
  moreover have "sc_flags (lcp_configured wa ka) = lcp_flags wa (sc_flags ka)" "sc_rasyncmap ?k = lcp_recv_map wb"
    "attached tpb ?k = attached tpb kb" "sc_rawq ?k = sc_rawq kb" "sc_ilen ?k = sc_ilen kb"
    by (simp_all add: lcp_configured_def attached_def)
  ultimately show ?thesis
    using maps m bufs o(4,7,8,10) map ac n by (simp add: rx_ready_def lcp_flags_bits)
qed

lemma configured_link_carries:
  fixes mcl :: "nat \<Rightarrow> bool"
  assumes a: "pppopen ta (ppp_attach a) = (K_OK, tpa, ka)" "4 \<le> MLEN a" "\<not> t_polled ta"
    and b: "pppopen tb (ppp_attach b) = (K_OK, tpb, kb)" "4 \<le> MLEN b" "t_pppdisc tb"
    and lcp: "lcp_recv_map wb AND NOT (lcp_send_map wa) = 0"
      "neg_accompression (lcp_hisoptions wa) \<longrightarrow> neg_accompression (lcp_gotoptions wb)" "lcp_mru wb \<le> 2042"
    and ps: "list_all control_packet ps" "length ps \<le> IFQ_MAXLEN"
    and drv: "length nss = length ps" "list_all (\<lambda>ns. 2 * (nat PPP_MRU + PPP_HDRLEN) + 6 < length ns) nss"
  defines "w \<equiv> fst (tx_rounds nss tpa (write_all mcl tpa ps (lcp_configured wa ka)))"
  shows "read_all (length ps) tpb (((ppp_rxdaemon mem) ^^ length ps) (tty_input tpb w (lcp_configured wb kb))) = map R_DATA ps"
  unfolding w_def
proof (rule link_carries [OF _ _ _ _ _ _ _ _ ps drv])
  note oa = pppopen_ready [OF a(1,2)] and ob = pppopen_ready [OF b(1,2)]
  show "tx_start tpa (lcp_configured wa ka)" "tx_queue (lcp_configured wa ka) = []"
    using oa by (simp_all add: lcp_configured_tx)
  show "t_sc tpa" using oa(10) by (simp add: attached_def)
  have "fst (snd (pppopen ta (ppp_attach a))) = ta\<lparr>t_sc := True\<rparr>"
    "fst (snd (pppopen tb (ppp_attach b))) = tb\<lparr>t_sc := True\<rparr>"
    by (simp_all add: pppopen_def pppalloc_def ppp_attach_def Let_def)
  then show "\<not> t_polled tpa" "t_pppdisc tpb" using a b by simp_all
  show "rx_ready (sc_asyncmap (lcp_configured wa ka)) (sc_flags (lcp_configured wa ka)) tpb (length ps) (lcp_configured wb kb)"
    using lcp_configured_rx [OF b(1,2) oa(3) lcp] ps(2) by (simp add: IFQ_MAXLEN_def NUM_MBUFQ_def)
  show "sc_rawq (lcp_configured wb kb) = []" "sc_inq (lcp_configured wb kb) = []"
    using ob by (simp_all add: lcp_configured_def)
qed

end
