(* ===== verification/Kernel_Rx.thy ===== *)
theory Kernel_Rx
  imports Ppp_Tty
begin

text \<open>
  What the receiver of the line discipline keeps: the current mbuf is one of the chain, no mbuf is overrun,
  and as long as the frame is not flushed the length counted is the length stored. \<^verbatim>\<open>sc_ilen\<close> goes on
  counting in a flushed frame and wraps; nothing is written outside an mbuf even then.
\<close>

section \<open>Definitions\<close>

definition rx_mb :: "mbuf \<Rightarrow> bool" where
  "rx_mb m \<longleftrightarrow> M_WRITABLE m \<and> MCLBYTES \<le> m_cap m \<and> m_off m + length (m_dat m) \<le> m_cap m"

definition rx_store :: "ppp_softc \<Rightarrow> bool" where
  "rx_store sc \<longleftrightarrow>
     0 \<le> sc_mru sc \<and> sc_mru sc < int MCLBYTES \<and> - 32768 \<le> sc_ilen sc \<and> sc_ilen sc < 32768 \<and>
     list_all rx_mb (sc_m sc) \<and> list_all (\<lambda>ms. ms \<noteq> [] \<and> list_all rx_mb ms) (sc_freeq sc) \<and>
     list_all (\<lambda>ms. ms \<noteq> [] \<and> list_all rx_mb ms \<and> PPP_HDRLEN \<le> length (m_dat (hd ms))) (sc_rawq sc) \<and>
     (sc_rawq sc \<noteq> [] \<longrightarrow> RX_PACKET \<in> ev_rx sc) \<and> \<not> sc_trap sc"

text \<open>A frame in progress.\<close>

definition rx_good :: "ppp_softc \<Rightarrow> bool" where
  "rx_good sc \<longleftrightarrow>
     0 \<le> sc_ilen sc \<and> sc_ilen sc < int MCLBYTES + 6 \<and> m_off (sc_m sc ! 0) = 0 \<and>
     (if sc_mc sc = 0 then int (length (m_dat (sc_m sc ! 0))) = sc_ilen sc
      else MCLBYTES \<le> length (m_dat (sc_m sc ! 0)) \<and> m_dat (sc_m sc ! sc_mc sc) \<noteq> [] \<and>
           m_dat (sc_m sc ! (sc_mc sc - 1)) \<noteq> [])"

definition rx_mid :: "ppp_softc \<Rightarrow> bool" where
  "rx_mid sc \<longleftrightarrow>
     sc_mc sc < length (sc_m sc) \<and>
     (0 \<le> sc_ilen sc \<and> sc_ilen sc \<le> 3 \<longrightarrow>
        sc_mc sc = 0 \<and> m_off (sc_m sc ! 0) = 0 \<and> int (length (m_dat (sc_m sc ! 0))) = sc_ilen sc) \<and>
     (\<not> rx_has SC_FLUSH sc \<longrightarrow> rx_good sc)"

definition rx_inv :: "ppp_softc \<Rightarrow> bool" where
  "rx_inv sc \<longleftrightarrow>
     rx_store sc \<and> (sc_ilen sc \<noteq> 0 \<longrightarrow> (sc_m sc \<noteq> [] \<longrightarrow> rx_mid sc) \<and> (sc_devp sc \<noteq> None \<longrightarrow> sc_m sc \<noteq> []))"

section \<open>Steps of the receiver\<close>

lemma short_range: "- 32768 \<le> short i" "short i < 32768"
  using signed_take_bit_int_greater_eq_minus_exp [of 15 i] signed_take_bit_int_less_exp [of 15 i]
  by (simp_all add: short_def)

lemma short_same: "- 32768 \<le> i \<Longrightarrow> i < 32767 \<Longrightarrow> short (i + 1) = i + 1"
  by (simp add: short_def signed_take_bit_int_eq_self)

lemma rx_mb_reset: "rx_mb m \<Longrightarrow> rx_mb (m\<lparr>m_dat := [], m_off := 0\<rparr>)"
  by (simp add: rx_mb_def M_WRITABLE_def)

lemma rx_mb_put: "rx_mb m \<Longrightarrow> m_off m + length (m_dat m) + length bs \<le> m_cap m \<Longrightarrow> rx_mb (m\<lparr>m_dat := m_dat m @ bs\<rparr>)"
  by (simp add: rx_mb_def M_WRITABLE_def)

lemma rx_put_eq:
  assumes "sc_mc sc < length (sc_m sc)" and "m_off (sc_m sc ! sc_mc sc) + length (m_dat (sc_m sc ! sc_mc sc)) + length bs \<le> m_cap (sc_m sc ! sc_mc sc)"
  shows "rx_put bs sc =
    sc\<lparr>sc_m := (sc_m sc)[sc_mc sc := (sc_m sc ! sc_mc sc)\<lparr>m_dat := m_dat (sc_m sc ! sc_mc sc) @ bs\<rparr>]\<rparr>"
  using assms by (simp add: rx_put_def trap_if_def Let_def)

lemma rx_put_store:
  assumes "rx_store sc" and "sc_mc sc < length (sc_m sc)"
    and "m_off (sc_m sc ! sc_mc sc) + length (m_dat (sc_m sc ! sc_mc sc)) + length bs \<le> m_cap (sc_m sc ! sc_mc sc)"
  shows "rx_store (rx_put bs sc)"
proof -
  have "rx_mb (sc_m sc ! sc_mc sc)"
    using assms(1,2) by (simp add: rx_store_def list_all_length)
  then have "list_all rx_mb (sc_m (rx_put bs sc))"
    using assms rx_mb_put by (auto simp: rx_put_eq rx_store_def list_all_length nth_list_update)
  then show ?thesis
    using assms by (simp add: rx_put_eq rx_store_def)
qed

text \<open>The small mbuf positions have room.\<close>

lemma rx_mid_room:
  assumes "rx_store sc" and "rx_mid sc" and "0 \<le> sc_ilen sc" and "sc_ilen sc \<le> 3" and "length bs \<le> 2"
  shows "m_off (sc_m sc ! sc_mc sc) + length (m_dat (sc_m sc ! sc_mc sc)) + length bs \<le> m_cap (sc_m sc ! sc_mc sc)"
    and "sc_mc sc < length (sc_m sc)" and "M_TRAILINGSPACE (sc_m sc ! sc_mc sc) > 0"
proof -
  have m: "sc_mc sc < length (sc_m sc)" using assms(2) by (simp add: rx_mid_def)
  then have "rx_mb (sc_m sc ! sc_mc sc)" using assms(1) by (simp add: rx_store_def list_all_length)
  moreover have "m_off (sc_m sc ! sc_mc sc) = 0" "int (length (m_dat (sc_m sc ! sc_mc sc))) \<le> 3"
    using assms(2-4) by (simp_all add: rx_mid_def)
  ultimately show "m_off (sc_m sc ! sc_mc sc) + length (m_dat (sc_m sc ! sc_mc sc)) + length bs \<le> m_cap (sc_m sc ! sc_mc sc)"
    and "sc_mc sc < length (sc_m sc)" and "M_TRAILINGSPACE (sc_m sc ! sc_mc sc) > 0"
    using assms(5) m by (simp_all add: rx_mb_def M_TRAILINGSPACE_def MCLBYTES_def)
qed

lemma rx_store_frame [simp]:
  "rx_store (sc\<lparr>sc_fcs := v\<rparr>) = rx_store sc" "rx_store (sc\<lparr>sc_flags := f\<rparr>) = rx_store sc"
  "rx_store (sc\<lparr>sc_stats := t\<rparr>) = rx_store sc" "rx_store (sc\<lparr>sc_ifp := i\<rparr>) = rx_store sc"
  by (simp_all add: rx_store_def)

lemma rx_first_inv:
  assumes inv: "rx_inv sc" and m: "sc_m sc \<noteq> []"
  shows "rx_store (fst (rx_first c sc)) \<and> rx_mid (fst (rx_first c sc)) \<and> sc_devp (fst (rx_first c sc)) = sc_devp sc"
proof (cases "sc_ilen sc = 0")
  case False
  with inv m show ?thesis by (simp add: rx_first_def rx_inv_def)
next
  case True
  have st: "rx_store sc" using inv by (simp add: rx_inv_def)
  define s0 where "s0 = sc\<lparr>sc_m := (hd (sc_m sc))\<lparr>m_dat := [], m_off := 0\<rparr> # tl (sc_m sc), sc_mc := 0, sc_fcs := PPP_INITFCS\<rparr>"
  obtain m0 ms where c: "sc_m sc = m0 # ms" using m by (cases "sc_m sc") auto
  have s0: "rx_store s0" "rx_mid s0" "sc_mc s0 = 0" "sc_ilen s0 = 0" "sc_devp s0 = sc_devp sc"
    using st True rx_mb_reset [of m0] by (simp_all add: s0_def c rx_store_def rx_mid_def rx_good_def MCLBYTES_def)
  note room = rx_mid_room [OF s0(1,2), of "[PPP_ALLSTATIONS, PPP_UI]", unfolded s0(4), simplified]
  have "rx_store (rx_put [PPP_ALLSTATIONS, PPP_UI] s0)"
    using s0 room by (intro rx_put_store) simp_all
  then have store: "rx_store ((rx_put [PPP_ALLSTATIONS, PPP_UI] s0)\<lparr>sc_ilen := 2\<rparr>)"
    by (simp add: rx_store_def)
  have mid: "rx_mid ((rx_put [PPP_ALLSTATIONS, PPP_UI] s0)\<lparr>sc_ilen := 2\<rparr>)"
    using s0 room by (simp add: rx_put_eq rx_mid_def rx_good_def MCLBYTES_def)
  have dev: "sc_devp ((rx_put [PPP_ALLSTATIONS, PPP_UI] s0)\<lparr>sc_ilen := 2\<rparr>) = sc_devp sc"
    using s0 room by (simp add: rx_put_eq)
  have "short 2 = 2" by (simp add: short_def signed_take_bit_int_eq_self)
  then have "fst (rx_first c sc) = (if c = PPP_ALLSTATIONS \<or> rx_has SC_REJ_COMP_AC s0 then s0
      else (rx_put [PPP_ALLSTATIONS, PPP_UI] s0)\<lparr>sc_ilen := 2\<rparr>)"
    using True s0(4) by (simp add: rx_first_def Let_def s0_def)
  with s0 store mid dev show ?thesis by simp
qed

lemma rx_proto_inv:
  assumes "rx_store sc" and "rx_mid sc"
  shows "rx_store (rx_proto c sc) \<and> rx_mid (rx_proto c sc) \<and> sc_devp (rx_proto c sc) = sc_devp sc"
proof (cases "sc_ilen sc = 2 \<and> bit c 0")
  case True
  then have "0 \<le> sc_ilen sc" "sc_ilen sc \<le> 3" by simp_all
  note room = rx_mid_room [OF assms this, of "[0]", simplified]
  have p: "rx_proto c sc = (rx_put [0] sc)\<lparr>sc_ilen := 3\<rparr>"
    using True by (simp add: rx_proto_def short_def signed_take_bit_int_eq_self)
  have "rx_store (rx_put [0] sc)" using assms(1) room by (intro rx_put_store) simp_all
  then have "rx_store (rx_proto c sc)" by (simp add: p rx_store_def)
  moreover have "rx_mid (rx_proto c sc)"
    using assms(2) True room by (simp add: p rx_put_eq rx_mid_def rx_good_def rx_has_def MCLBYTES_def)
  ultimately show ?thesis using room by (simp add: p rx_put_eq)
qed (use assms in \<open>auto simp: rx_proto_def\<close>)

lemma rx_flush_inv: "rx_store (rx_flush sc) = rx_store sc" "rx_has SC_FLUSH (rx_flush sc)"
  "sc_m (rx_flush sc) = sc_m sc" "sc_mc (rx_flush sc) = sc_mc sc" "sc_ilen (rx_flush sc) = sc_ilen sc"
  "sc_devp (rx_flush sc) = sc_devp sc"
  by (simp_all add: rx_flush_def count_ierror_def) (simp add: rx_has_def flag_or ppp_consts)

lemma rx_ilen_store: "rx_store (sc\<lparr>sc_ilen := short i\<rparr>) \<longleftrightarrow> rx_store sc" if "rx_store sc"
  using that short_range [of i] by (simp add: rx_store_def)

lemma rx_full: "rx_mb m \<Longrightarrow> M_TRAILINGSPACE m = 0 \<longleftrightarrow> m_off m + length (m_dat m) = m_cap m"
  by (auto simp: rx_mb_def M_TRAILINGSPACE_def)

text \<open>The three outcomes of the search for room: no mbuf, room in the current one, a fresh one.\<close>

lemma rx_room_cases:
  assumes st: "rx_store sc" and mc: "sc_mc sc < length (sc_m sc)" and r: "rx_room sc = (sc', f)"
  obtains (none) "f" "sc' = sc"
  | (same) "\<not> f" "sc' = sc" "M_TRAILINGSPACE (sc_m sc ! sc_mc sc) > 0"
  | (fresh) "\<not> f" "M_TRAILINGSPACE (sc_m sc ! sc_mc sc) = 0" "rx_store sc'" "sc_mc sc' = Suc (sc_mc sc)"
      "length (sc_m sc') = Suc (Suc (sc_mc sc))" "take (Suc (sc_mc sc)) (sc_m sc') = take (Suc (sc_mc sc)) (sc_m sc)"
      "m_dat (sc_m sc' ! Suc (sc_mc sc)) = []" "m_off (sc_m sc' ! Suc (sc_mc sc)) = 0"
      "sc_ilen sc' = sc_ilen sc" "sc_flags sc' = sc_flags sc" "sc_devp sc' = sc_devp sc" "sc_mru sc' = sc_mru sc"
proof (cases "M_TRAILINGSPACE (sc_m sc ! sc_mc sc) > 0")
  case True
  with r same show ?thesis by (simp add: rx_room_def)
next
  case full: False
  define s1 where "s1 = (if Suc (sc_mc sc) < length (sc_m sc) then sc
    else (let (m, q) = if_ppp_dequeue (sc_freeq sc)
          in (if m = [] then sc else rx_event_send RX_MBUF (sc\<lparr>sc_m := sc_m sc @ m, sc_freeq := q\<rparr>))))"
  have s1: "rx_store s1" "sc_mc s1 = sc_mc sc" "\<exists>ms. sc_m s1 = sc_m sc @ ms" "sc_ilen s1 = sc_ilen sc"
    "sc_flags s1 = sc_flags sc" "sc_devp s1 = sc_devp sc" "sc_mru s1 = sc_mru sc"
    using st by (auto simp: s1_def Let_def split_beta if_ppp_dequeue_def rx_event_send_def rx_store_def split: list.splits)
  have same: "s1 = sc" if le: "length (sc_m s1) \<le> Suc (sc_mc sc)"
  proof (rule ccontr)
    assume ne: "s1 \<noteq> sc"
    obtain m q where d: "if_ppp_dequeue (sc_freeq sc) = (m, q)" by fastforce
    have "sc_m s1 = sc_m sc @ m" "m \<noteq> []"
      using ne by (auto simp: s1_def d rx_event_send_def split: if_splits)
    with le mc show False by (cases m) auto
  qed
  have eq: "rx_room sc = (if length (sc_m s1) \<le> Suc (sc_mc sc) then (s1, True)
    else (s1\<lparr>sc_m := take (Suc (sc_mc sc)) (sc_m s1) @ [(sc_m s1 ! Suc (sc_mc sc))\<lparr>m_dat := [], m_off := 0\<rparr>],
             sc_mc := Suc (sc_mc sc)\<rparr>, False))"
    unfolding rx_room_def using full by (simp add: Let_def s1_def)
  show ?thesis
  proof (cases "length (sc_m s1) \<le> Suc (sc_mc sc)")
    case True
    with r eq same none show ?thesis by simp
  next
    case False
    then have s': "f = False" "sc' = s1\<lparr>sc_m := take (Suc (sc_mc sc)) (sc_m s1) @
        [(sc_m s1 ! Suc (sc_mc sc))\<lparr>m_dat := [], m_off := 0\<rparr>], sc_mc := Suc (sc_mc sc)\<rparr>"
      using r eq by simp_all
    have "rx_mb (sc_m s1 ! Suc (sc_mc sc))" "list_all rx_mb (sc_m s1)"
      using False s1(1) by (simp_all add: rx_store_def list_all_length)
    then have "rx_store sc'"
      using s1(1) rx_mb_reset by (auto simp: s' rx_store_def list_all_iff dest: in_set_takeD)
    moreover have "length (take (Suc (sc_mc sc)) (sc_m s1)) = Suc (sc_mc sc)" using False by simp
    moreover obtain ms where "sc_m s1 = sc_m sc @ ms" using s1(3) by blast
    moreover have "M_TRAILINGSPACE (sc_m sc ! sc_mc sc) = 0"
      using full st mc by (auto simp: rx_store_def list_all_length rx_mb_def M_TRAILINGSPACE_def)
    ultimately show ?thesis using s1 mc by (intro fresh) (simp_all add: s' nth_append)
  qed
qed

text \<open>The character is counted before it is stored; \<open>i\<close> is the count before.\<close>

lemma rx_put_mid:
  assumes st: "rx_store sc" and i: "sc_ilen sc = short (i + 1)" "- 32768 \<le> i" "i < 32768" "sc_ilen sc \<le> sc_mru sc + 6"
    and mid: "rx_mid (sc\<lparr>sc_ilen := i\<rparr>)" and r: "rx_room sc = (sc', f)" and f: "\<not> f"
  shows "rx_store (rx_put [c] sc') \<and> (sc_ilen sc \<noteq> 0 \<longrightarrow> rx_mid (rx_put [c] sc')) \<and>
    sc_devp (rx_put [c] sc') = sc_devp sc \<and> sc_ilen (rx_put [c] sc') = sc_ilen sc \<and> sc_m (rx_put [c] sc') \<noteq> []"
proof -
  have mc: "sc_mc sc < length (sc_m sc)" using mid by (simp add: rx_mid_def)
  have mb: "rx_mb (sc_m sc ! sc_mc sc)" using st mc by (simp add: rx_store_def list_all_length)
  have fl: "\<not> rx_has SC_FLUSH sc \<Longrightarrow> rx_good (sc\<lparr>sc_ilen := i\<rparr>)" using mid by (simp add: rx_mid_def rx_has_def)
  have small: "0 \<le> i \<and> i \<le> 3 \<Longrightarrow> sc_mc sc = 0 \<and> m_off (sc_m sc ! 0) = 0 \<and> int (length (m_dat (sc_m sc ! 0))) = i"
    using mid by (simp add: rx_mid_def)
  have mru: "sc_mru sc < int MCLBYTES" using st by (simp add: rx_store_def)
  have len: "i < 32767 \<Longrightarrow> sc_ilen sc = i + 1" using i short_same by simp
  have wrap: "i = 32767 \<Longrightarrow> sc_ilen sc = - 32768" using i(1) by (simp add: short_def signed_take_bit_int_eq_self)
  have pos: "1 \<le> sc_ilen sc \<and> sc_ilen sc \<le> 3 \<Longrightarrow> 0 \<le> i \<and> i \<le> 2"
    using len wrap i(3) by (cases "i = 32767") auto
  from st mc r show ?thesis
  proof (cases rule: rx_room_cases)
    case none
    with f show ?thesis by simp
  next
    case same
    have room: "m_off (sc_m sc ! sc_mc sc) + length (m_dat (sc_m sc ! sc_mc sc)) + length [c] \<le> m_cap (sc_m sc ! sc_mc sc)"
      using same(3) mb by (simp add: rx_mb_def M_TRAILINGSPACE_def split: if_splits)
    have "rx_store (rx_put [c] sc)" using st mc room by (rule rx_put_store)
    moreover have "sc_ilen sc \<noteq> 0 \<longrightarrow> rx_mid (rx_put [c] sc)"
    proof
      assume nz: "sc_ilen sc \<noteq> 0"
      have "rx_good (rx_put [c] sc)" if "\<not> rx_has SC_FLUSH sc"
        using fl [OF that] mc room len mru i(4)
        by (auto simp: rx_put_eq rx_good_def MCLBYTES_def nth_list_update split: if_splits)
      moreover have "sc_mc sc = 0 \<and> m_off (sc_m sc ! 0) = 0 \<and> int (length (m_dat (sc_m sc ! 0))) + 1 = sc_ilen sc"
        if "0 \<le> sc_ilen sc" "sc_ilen sc \<le> 3"
        using that nz pos len small by auto
      ultimately show "rx_mid (rx_put [c] sc)"
        using mc room by (auto simp: rx_put_eq rx_mid_def rx_has_def)
    qed
    ultimately show ?thesis using mc room same by (auto simp: rx_put_eq)
  next
    case fresh
    have mc': "sc_mc sc' < length (sc_m sc')" using fresh by simp
    have mb': "rx_mb (sc_m sc' ! sc_mc sc')" using fresh(3) mc' by (simp add: rx_store_def list_all_length)
    have room: "m_off (sc_m sc' ! sc_mc sc') + length (m_dat (sc_m sc' ! sc_mc sc')) + length [c] \<le> m_cap (sc_m sc' ! sc_mc sc')"
      using mb' fresh by (simp add: rx_mb_def MCLBYTES_def)
    have old: "sc_m sc' ! k = sc_m sc ! k" if "k \<le> sc_mc sc" for k
      using that fresh(6) by (metis le_imp_less_Suc nth_take)
    have full: "m_off (sc_m sc ! sc_mc sc) + length (m_dat (sc_m sc ! sc_mc sc)) = m_cap (sc_m sc ! sc_mc sc)"
      using fresh(2) rx_full [OF mb] by simp
    have big: "\<not> (0 \<le> i \<and> i \<le> 3)"
      using small full mb by (auto simp: rx_mb_def MCLBYTES_def)
    have "rx_store (rx_put [c] sc')" using fresh(3) mc' room by (rule rx_put_store)
    moreover have "sc_ilen sc \<noteq> 0 \<longrightarrow> rx_mid (rx_put [c] sc')"
    proof
      assume nz: "sc_ilen sc \<noteq> 0"
      have "rx_good (rx_put [c] sc')" if n: "\<not> rx_has SC_FLUSH sc"
      proof -
        have g: "0 \<le> i" "i < int MCLBYTES + 6" "m_off (sc_m sc ! 0) = 0"
          "if sc_mc sc = 0 then int (length (m_dat (sc_m sc ! 0))) = i else MCLBYTES \<le> length (m_dat (sc_m sc ! 0)) \<and>
             m_dat (sc_m sc ! sc_mc sc) \<noteq> [] \<and> m_dat (sc_m sc ! (sc_mc sc - 1)) \<noteq> []"
          using fl [OF n] by (auto simp: rx_good_def)
        have l: "sc_ilen sc = i + 1" using len g(2) by (simp add: MCLBYTES_def)
        have h: "MCLBYTES \<le> length (m_dat (sc_m sc ! 0))" "m_dat (sc_m sc ! sc_mc sc) \<noteq> []"
          using g(3,4) full mb by (auto simp: rx_mb_def MCLBYTES_def split: if_splits)
        show ?thesis
          using h g l fresh(4,5,9) mru i(4) old [of 0] old [of "sc_mc sc"] mc' room
          by (simp add: rx_put_eq rx_good_def)
      qed
      moreover have "\<not> (0 \<le> sc_ilen sc \<and> sc_ilen sc \<le> 3)"
        using nz pos big by auto
      ultimately show "rx_mid (rx_put [c] sc')"
        using mc' room fresh by (simp add: rx_put_eq rx_mid_def rx_has_def)
    qed
    ultimately show ?thesis using mc' room fresh by (auto simp: rx_put_eq)
  qed
qed

text \<open>A character keeps the invariant, also when it flushes the frame.\<close>

lemma rx_mid_counted:
  assumes "rx_mid sc" and "j > 3 \<or> j < 0" and "rx_has SC_FLUSH sc"
  shows "rx_mid (sc\<lparr>sc_ilen := j\<rparr>)"
  using assms by (auto simp: rx_mid_def rx_has_def)

lemma rx_flush_mid: "rx_mid sc \<Longrightarrow> rx_mid (rx_flush sc)"
  by (simp add: rx_mid_def rx_flush_inv)

lemma rx_mid_inv: "rx_store sc \<Longrightarrow> rx_mid sc \<Longrightarrow> rx_inv sc"
  by (auto simp: rx_inv_def rx_mid_def)

lemma rx_data_inv:
  assumes inv: "rx_inv sc" and m: "sc_m sc \<noteq> []"
  shows "rx_inv (rx_data c sc) \<and> sc_devp (rx_data c sc) = sc_devp sc"
proof -
  define s1 where "s1 = fst (rx_first c sc)"
  define s2 where "s2 = rx_proto c s1"
  define s3 where "s3 = s2\<lparr>sc_ilen := short (sc_ilen s2 + 1)\<rparr>"
  obtain s4 f where r: "rx_room s3 = (s4, f)" by fastforce
  have 1: "rx_store s1" "rx_mid s1" "sc_devp s1 = sc_devp sc"
    using rx_first_inv [OF inv m, of c] by (simp_all add: s1_def)
  have 2: "rx_store s2" "rx_mid s2" "sc_devp s2 = sc_devp sc"
    using rx_proto_inv [OF 1(1,2), of c] 1(3) by (simp_all add: s2_def)
  have 3: "rx_store s3" "sc_devp s3 = sc_devp sc" "rx_mid (s3\<lparr>sc_ilen := sc_ilen s2\<rparr>)"
    "sc_ilen s3 = short (sc_ilen s2 + 1)" "- 32768 \<le> sc_ilen s2" "sc_ilen s2 < 32768" "0 \<le> sc_mru s3"
    using 2 rx_ilen_store by (simp_all add: s3_def rx_store_def)
  have mc: "sc_mc s3 < length (sc_m s3)" using 3(3) by (simp add: rx_mid_def)
  have eq: "rx_data c sc =
     (if snd (rx_first c sc) \<or> sc_ilen s1 = 1 \<and> c \<noteq> PPP_UI then rx_flush s1
      else if sc_ilen s2 = 3 \<and> \<not> bit c 0 then rx_flush s2
      else if sc_ilen s3 > sc_mru s3 + 6 then rx_flush s3
      else if f then rx_flush s4
      else (rx_put [c] s4)\<lparr>sc_fcs := PPP_FCS (sc_fcs s4) c\<rparr>)"
    unfolding rx_data_steps Let_def s1_def [symmetric] s2_def [symmetric] s3_def [symmetric] r fst_conv snd_conv
    by (simp add: PPP_HDRLEN_def PPP_FCSLEN_def add.assoc)
  have fl: "rx_inv (rx_flush s) \<and> sc_devp (rx_flush s) = sc_devp sc"
    if "rx_store s" "rx_mid s" "sc_devp s = sc_devp sc" for s
    using that rx_mid_inv [of "rx_flush s"] rx_flush_mid by (simp add: rx_flush_inv)
  have big: "rx_inv (rx_flush s3)" if gt: "sc_ilen s3 > sc_mru s3 + 6"
    using gt 3 mc by (intro rx_mid_inv) (simp_all add: rx_mid_def rx_flush_inv)
  have full: "rx_inv (rx_flush s4) \<and> sc_devp (rx_flush s4) = sc_devp sc" if f
    using 3(1) mc r
  proof (cases rule: rx_room_cases)
    case none
    have "\<not> (0 \<le> sc_ilen s2 \<and> sc_ilen s2 \<le> 3)"
      using rx_mid_room(3) [OF 2(1,2), of "[]"] r \<open>f\<close> by (auto simp: rx_room_def s3_def)
    then have "sc_ilen s3 = 0 \<or> \<not> (0 \<le> sc_ilen s3 \<and> sc_ilen s3 \<le> 3)"
      using 3(4-6) short_same [of "sc_ilen s2"]
      by (cases "sc_ilen s2 = 32767") (auto simp: short_def signed_take_bit_int_eq_self)
    then have "sc_ilen s3 = 0 \<or> rx_mid (rx_flush s3)"
      using mc by (auto simp: rx_mid_def rx_flush_inv)
    then show ?thesis
      using 3 mc none by (auto simp: rx_inv_def rx_flush_inv)
  qed (use that in simp_all)
  have put: "rx_inv ((rx_put [c] s4)\<lparr>sc_fcs := v\<rparr>) \<and> sc_devp ((rx_put [c] s4)\<lparr>sc_fcs := v\<rparr>) = sc_devp sc"
    if "\<not> f" "sc_ilen s3 \<le> sc_mru s3 + 6" for v
    using rx_put_mid [OF 3(1,4-6) that(2) 3(3) r that(1), of c] 3(2)
    by (auto simp: rx_inv_def rx_mid_def rx_good_def rx_has_def)
  show ?thesis
    unfolding eq using fl [OF 1] fl [OF 2] big full put 3(2) by (auto simp: rx_flush_inv)
qed

text \<open>A flag: the check sequence is always there to be removed.\<close>

lemma drop_last_eq:
  assumes "i < length (sc_m sc)" and "m_dat (sc_m sc ! i) \<noteq> []"
  shows "drop_last i sc = sc\<lparr>sc_m := (sc_m sc)[i := (sc_m sc ! i)\<lparr>m_dat := butlast (m_dat (sc_m sc ! i))\<rparr>]\<rparr>"
  using assms by (simp add: drop_last_def trap_if_def)

lemma drop_last_store:
  assumes "rx_store sc" and "i < length (sc_m sc)" and "m_dat (sc_m sc ! i) \<noteq> []"
  shows "rx_store (drop_last i sc)"
proof -
  have "list_all rx_mb (sc_m (drop_last i sc))"
    using assms by (auto simp: drop_last_eq rx_store_def list_all_length nth_list_update rx_mb_def M_WRITABLE_def)
  then show ?thesis using assms by (simp add: drop_last_eq rx_store_def)
qed

lemma rx_trim_store:
  assumes st: "rx_store sc" and mc: "sc_mc sc < length (sc_m sc)" and g: "rx_good sc" and l: "sc_ilen sc \<ge> 6"
  shows "rx_store (rx_trim (sc\<lparr>sc_ilen := 0\<rparr>)) \<and> sc_m (rx_trim (sc\<lparr>sc_ilen := 0\<rparr>)) \<noteq> [] \<and>
    PPP_HDRLEN \<le> length (m_dat (hd (sc_m (rx_trim (sc\<lparr>sc_ilen := 0\<rparr>))))) \<and>
    sc_ilen (rx_trim (sc\<lparr>sc_ilen := 0\<rparr>)) = 0 \<and> sc_devp (rx_trim (sc\<lparr>sc_ilen := 0\<rparr>)) = sc_devp sc"
proof -
  define s0 where "s0 = sc\<lparr>sc_ilen := 0\<rparr>"
  define k where "k = sc_mc sc"
  define d where "d = m_dat (sc_m sc ! k)"
  have s0: "rx_store s0" "sc_m s0 = sc_m sc" "sc_mc s0 = k" "sc_ilen s0 = 0" "sc_devp s0 = sc_devp sc"
    using st by (simp_all add: s0_def k_def rx_store_def)
  have k: "k < length (sc_m sc)" "sc_m sc \<noteq> []" using mc by (auto simp: k_def)
  have d: "d \<noteq> []" using g l by (auto simp: rx_good_def k_def d_def split: if_splits)
  have hd: "k = 0 \<Longrightarrow> 6 \<le> length d" "k > 0 \<Longrightarrow> MCLBYTES \<le> length (m_dat (sc_m sc ! 0)) \<and> m_dat (sc_m sc ! (k - 1)) \<noteq> []"
    using g l by (simp_all add: rx_good_def k_def d_def)
  define s1 where "s1 = drop_last k s0"
  have s1: "rx_store s1" "sc_m s1 = (sc_m sc)[k := (sc_m sc ! k)\<lparr>m_dat := butlast d\<rparr>]" "sc_mc s1 = k" "sc_ilen s1 = 0"
    "sc_devp s1 = sc_devp sc"
    using drop_last_store [OF s0(1), of k] s0 k d by (simp_all add: s1_def drop_last_eq d_def)
  show ?thesis
  proof (cases "butlast d = []")
    case True
    then have kp: "k > 0" using hd(1) by (cases "k = 0") (auto simp: butlast_conv_take)
    define s2 where "s2 = s1\<lparr>sc_mc := k - 1\<rparr>"
    have eq: "rx_trim s0 = drop_last (k - 1) s2"
      using True kp k s1 by (simp add: rx_trim_def Let_def s0(3) s1_def [symmetric] trap_if_def s2_def)
    have s2: "rx_store s2" "sc_m s2 = sc_m s1" "sc_ilen s2 = 0" "sc_devp s2 = sc_devp sc"
      using s1 by (simp_all add: s2_def rx_store_def)
    have n: "k - 1 < length (sc_m s2)" "m_dat (sc_m s2 ! (k - 1)) \<noteq> []"
      using k kp hd(2) s2(2) s1(2) by simp_all
    have "rx_store (drop_last (k - 1) s2)" using s2(1) n by (rule drop_last_store)
    moreover have "length (m_dat (hd (sc_m (drop_last (k - 1) s2)))) \<ge> 4"
      using n k kp hd(2) s2(2) s1(2) by (auto simp: drop_last_eq hd_conv_nth nth_list_update MCLBYTES_def)
    ultimately show ?thesis
      unfolding s0_def [symmetric] eq using n s2 by (auto simp: drop_last_eq PPP_HDRLEN_def)
  next
    case False
    have eq: "rx_trim s0 = drop_last k s1"
      using False k s1 by (simp add: rx_trim_def Let_def s0(3) s1_def [symmetric])
    have n: "k < length (sc_m s1)" "m_dat (sc_m s1 ! k) \<noteq> []"
      using k False s1(2) by simp_all
    have "rx_store (drop_last k s1)" using s1(1) n by (rule drop_last_store)
    moreover have "length (m_dat (hd (sc_m (drop_last k s1)))) \<ge> 4"
      using n k hd s1(2) by (cases "k = 0") (simp_all add: drop_last_eq hd_conv_nth nth_list_update MCLBYTES_def)
    ultimately show ?thesis
      unfolding s0_def [symmetric] eq using n s1 by (auto simp: drop_last_eq PPP_HDRLEN_def)
  qed
qed

lemma rx_deliver_store:
  assumes st: "rx_store sc" and m: "sc_m sc \<noteq> []" "PPP_HDRLEN \<le> length (m_dat (hd (sc_m sc)))"
  shows "rx_store (rx_deliver sc) \<and> sc_ilen (rx_deliver sc) = sc_ilen sc \<and> sc_devp (rx_deliver sc) = sc_devp sc"
proof -
  obtain m0 ms where c: "sc_m sc = m0 # ms" using m(1) by (cases "sc_m sc") auto
  have "rx_mb (m0\<lparr>m_errmark := True\<rparr>) = rx_mb m0" by (simp add: rx_mb_def M_WRITABLE_def)
  then show ?thesis
    using st m c
    by (auto simp: rx_deliver_def Let_def split_beta if_ppp_dequeue_def if_ppp_enqueue_def rx_event_send_def rx_store_def
        split: list.splits)
qed

lemma rx_flag_inv:
  assumes inv: "rx_inv sc" and m: "sc_m sc \<noteq> []"
  shows "rx_inv (rx_flag sc) \<and> sc_devp (rx_flag sc) = sc_devp sc"
proof -
  have st: "rx_store sc" using inv by (simp add: rx_inv_def)
  then have st0: "rx_store (sc\<lparr>sc_ilen := 0\<rparr>)" by (simp add: rx_store_def)
  have zero: "rx_inv s" if "rx_store s" "sc_ilen s = 0" for s using that by (simp add: rx_inv_def)
  show ?thesis
  proof (cases "\<not> rx_has (SC_FLUSH OR SC_ESCAPED) sc \<and> \<not> (sc_ilen sc > 0 \<and> sc_fcs sc \<noteq> PPP_GOODFCS) \<and> sc_ilen sc \<ge> 6")
    case True
    have "SC_FLUSH AND (SC_FLUSH OR SC_ESCAPED) = SC_FLUSH" by (simp add: ppp_consts)
    then have "\<not> rx_has SC_FLUSH sc"
      using True by (auto simp: rx_has_def or_eq_0_iff bit.conj_disj_distrib)
    then have t: "sc_mc sc < length (sc_m sc)" "rx_good sc"
      using inv m True by (auto simp: rx_inv_def rx_mid_def)
    have "rx_flag sc = rx_deliver (rx_trim (sc\<lparr>sc_ilen := 0\<rparr>))"
      using True by (simp add: rx_flag_def Let_def rx_has_def PPP_HDRLEN_def PPP_FCSLEN_def)
    with rx_trim_store [OF st t] True rx_deliver_store [of "rx_trim (sc\<lparr>sc_ilen := 0\<rparr>)"] zero
    show ?thesis by simp
  next
    case False
    then have "rx_store (rx_flag sc) \<and> sc_ilen (rx_flag sc) = 0 \<and> sc_devp (rx_flag sc) = sc_devp sc"
      using st0 by (auto simp: rx_flag_def Let_def rx_has_def PPP_HDRLEN_def PPP_FCSLEN_def count_ierror_def)
    with zero show ?thesis by blast
  qed
qed

lemma rx_inv_flags:
  assumes "rx_inv sc" and "f AND SC_FLUSH = sc_flags sc AND SC_FLUSH"
  shows "rx_inv (sc\<lparr>sc_stats := t, sc_flags := f\<rparr>)" "rx_inv (sc\<lparr>sc_flags := f\<rparr>)"
  using assms by (auto simp: rx_inv_def rx_mid_def rx_good_def rx_has_def)

lemma rx_flags_flush:
  "(f OR (if p then SC_RCV_B7_1 else SC_RCV_B7_0) OR (if q then SC_RCV_ODDP else SC_RCV_EVNP)) AND SC_FLUSH = f AND SC_FLUSH"
  "(f AND NOT SC_ESCAPED) AND SC_FLUSH = f AND SC_FLUSH" "(f OR SC_ESCAPED) AND SC_FLUSH = f AND SC_FLUSH"
  by (auto simp: flag_or flag_keep bit.conj_disj_distrib2 ppp_consts and.assoc)

text \<open>No character received writes outside an mbuf or follows a pointer that is not set.\<close>

lemma pppinput_inv:
  assumes inv: "rx_inv sc"
  shows "rx_inv (pppinput c tp sc) \<and> sc_devp (pppinput c tp sc) = sc_devp sc"
proof (cases "\<not> t_sc tp \<or> sc_devp sc \<noteq> Some (t_dev tp)")
  case True
  with inv show ?thesis by (simp add: pppinput_def)
next
  case False
  define s1 where "s1 = (if sc_m sc = []
    then (let (m, q) = if_ppp_dequeue (sc_freeq sc) in rx_event_send RX_EMPTY (sc\<lparr>sc_m := m, sc_freeq := q\<rparr>)) else sc)"
  have s1: "rx_inv s1" "sc_devp s1 = sc_devp sc"
    using inv False
    by (auto simp: s1_def rx_inv_def rx_store_def Let_def split_beta if_ppp_dequeue_def rx_event_send_def split: list.splits)
  have eq: "pppinput c tp sc = (if sc_m s1 = [] then s1 else if c = PPP_FLAG then rx_flag (rx_note c s1) else rx_char c (rx_note c s1))"
    using False by (simp add: pppinput_def s1_def Let_def)
  have noted: "rx_inv (rx_note c s1)" "sc_m (rx_note c s1) = sc_m s1" "sc_devp (rx_note c s1) = sc_devp sc"
    unfolding rx_note_def by (rule rx_inv_flags(1) [OF s1(1) rx_flags_flush(1)]) (simp_all add: s1(2))
  have char: "rx_inv (rx_char c s) \<and> sc_devp (rx_char c s) = sc_devp s" if "rx_inv s" "sc_m s \<noteq> []" for s
    using that rx_data_inv [of s] rx_data_inv [of "s\<lparr>sc_flags := sc_flags s AND NOT SC_ESCAPED\<rparr>"]
      rx_inv_flags(2) [OF that(1)] by (simp add: rx_char_def rx_flags_flush)
  show ?thesis
    unfolding eq using s1 noted char [of "rx_note c s1"] rx_flag_inv [of "rx_note c s1"] by auto
qed

end
