(* ===== verification/Kernel_Inv.thy ===== *)
theory Kernel_Inv
  imports Ppp_Output Kernel_Rx
begin

text \<open>
  The kernel part of PPP as a transition system: the calls of the terminal layer, of the network stack, of
  the daemon and of the serial driver, and the rounds of the two tasks, in any order. The invariant says
  that no access leaves its mbuf, that a unit without a terminal holds no packet, and that the transmit
  task is never left asleep with a packet queued.
\<close>

section \<open>Definitions\<close>

definition request_ok :: "tty_request \<Rightarrow> bool" where
  "request_ok cmd = (case cmd of SXASYNCMAP as \<Rightarrow> length as = 8 | _ \<Rightarrow> True)"

text \<open>What the network stack hands over: a packet with an IP header at its front.\<close>

definition output_ok :: "mchain \<Rightarrow> ppp_dst \<Rightarrow> bool" where
  "output_ok m0 dst \<longleftrightarrow> m0 \<noteq> [] \<and> (case dst of DST_UNSPEC h \<Rightarrow> False | _ \<Rightarrow> 2 \<le> length (m_dat (hd m0)))"

inductive kernel_step :: "tty \<times> ppp_softc \<Rightarrow> tty \<times> ppp_softc \<Rightarrow> bool" where
  k_clock: "kernel_step (tp, sc) (tp, sc\<lparr>sc_now := t\<rparr>)"
| k_open: "pppopen (tp\<lparr>t_pppdisc := True\<rparr>) sc = (e, tp', sc') \<Longrightarrow> kernel_step (tp, sc) (tp', sc')"
| k_close: "kernel_step (tp, sc) (pppclose tp sc)"
| k_input: "kernel_step (tp, sc) (tp, pppinput c tp sc)"
| k_start: "t_sc tp \<Longrightarrow> kernel_step (tp, sc) (tp, pppstart len tp sc)"
| k_read: "kernel_step (tp, sc) (tp, snd (pppread maximum tp sc))"
| k_write: "t_sc tp \<Longrightarrow> PPP_HDRLEN \<le> length p \<Longrightarrow> kernel_step (tp, sc) (tp, snd (pppwrite mcl mem p tp sc))"
| k_tioctl: "t_sc tp \<Longrightarrow> request_ok cmd \<Longrightarrow> kernel_step (tp, sc) (tp, snd (snd (ppptioctl cmd sc)))"
| k_sioctl: "kernel_step (tp, sc) (tp, snd (snd (pppsioctl req sc)))"
| k_flags: "kernel_step (tp, sc) (tp, sc\<lparr>sc_ifp := (sc_ifp sc)\<lparr>if_up := u\<rparr>\<rparr>)"
| k_output: "output_ok m0 dst \<Longrightarrow> kernel_step (tp, sc) (tp, snd (pppoutput mem m0 dst sc))"
| k_rx: "kernel_step (tp, sc) (tp, ppp_rxdaemon mem sc)"
| k_tx: "kernel_step (tp, sc) (tp, ppp_txdaemon sc)"

inductive kernel_reached :: "abi \<Rightarrow> tty \<Rightarrow> tty \<times> ppp_softc \<Rightarrow> bool" for a tp where
  kr_boot: "\<not> t_sc tp \<Longrightarrow> kernel_reached a tp (tp, ppp_attach a)"
| kr_step: "kernel_reached a tp s \<Longrightarrow> kernel_step s s' \<Longrightarrow> kernel_reached a tp s'"

text \<open>A queued packet has its header in the first mbuf.\<close>

definition chain_ok :: "mchain \<Rightarrow> bool" where
  "chain_ok ms \<longleftrightarrow> ms \<noteq> [] \<and> PPP_HDRLEN \<le> length (m_dat (hd ms))"

definition queues_ok :: "ppp_softc \<Rightarrow> bool" where
  "queues_ok sc \<longleftrightarrow>
     list_all chain_ok (sc_fastq sc) \<and> list_all chain_ok (if_snd (sc_ifp sc)) \<and> list_all chain_ok (sc_npqueue sc) \<and>
     (sc_devp sc = None \<longrightarrow> sc_fastq sc = [] \<and> if_snd (sc_ifp sc) = [] \<and> sc_npqueue sc = [])"

text \<open>The transmitter: a packet on its way has characters with the driver; otherwise the task has an
  event wherever there is something to do.\<close>

definition tx_inv :: "ppp_softc \<Rightarrow> bool" where
  "tx_inv sc \<longleftrightarrow>
     (if tx_has SC_TX_BUSY sc
      then ev_tx sc = {} \<and> sc_outm sc \<noteq> [] \<and> sc_outmc sc \<noteq> [] \<and> list_all (\<lambda>m. m_dat m \<noteq> []) (sc_outmc sc) \<and>
           sc_outfcsbuf sc \<noteq> [] \<and> tty_out sc \<noteq> [] \<and> last (tty_out sc) \<noteq> [] \<and> sc_devp sc \<noteq> None \<and>
           (sc_outoff_upd sc \<longrightarrow> sc_outoff sc < length (sc_outbuf sc))
      else (sc_outflag sc \<noteq> 0 \<or> tx_queue sc \<noteq> [] \<longrightarrow> ev_tx sc \<noteq> {}) \<and>
           (sc_outm sc \<noteq> [] \<longrightarrow> TX_TRANSMIT \<in> ev_tx sc))"

definition unit_inv :: "ppp_softc \<Rightarrow> bool" where
  "unit_inv sc \<longleftrightarrow> rx_inv sc \<and> queues_ok sc \<and> tx_inv sc \<and> sc_xfer sc = 0"

fun kernel_inv :: "tty \<times> ppp_softc \<Rightarrow> bool" where
  "kernel_inv (tp, sc) \<longleftrightarrow> unit_inv sc \<and> sc_devp sc = (if t_sc tp then Some (t_dev tp) else None)"

text \<open>What each half of the invariant depends on.\<close>

definition rx_view :: "ppp_softc \<Rightarrow> (int \<times> int \<times> mchain \<times> nat \<times> mchain list \<times> mchain list \<times> bool \<times> rx_event set \<times> bool \<times> nat option)" where
  "rx_view sc = (sc_mru sc, sc_ilen sc, sc_m sc, sc_mc sc, sc_freeq sc, sc_rawq sc, rx_has SC_FLUSH sc, ev_rx sc, sc_trap sc, sc_devp sc)"

definition tx_view :: "ppp_softc \<Rightarrow> (16 word \<times> tx_event set \<times> mchain \<times> mchain \<times> bytes \<times> bytes list \<times> nat option \<times> int \<times> bool \<times> nat \<times> bytes)" where
  "tx_view sc = (sc_outflag sc, ev_tx sc, sc_outm sc, sc_outmc sc, sc_outfcsbuf sc, tty_out sc, sc_devp sc, sc_xfer sc,
     sc_outoff_upd sc, sc_outoff sc, sc_outbuf sc)"

definition q_view :: "ppp_softc \<Rightarrow> (mchain list \<times> mchain list \<times> mchain list \<times> abi)" where
  "q_view sc = (sc_fastq sc, if_snd (sc_ifp sc), sc_npqueue sc, sc_abi sc)"

section \<open>Views\<close>

lemma rx_view_inv: "rx_view s = rx_view sc \<Longrightarrow> rx_inv s = rx_inv sc"
  by (simp add: rx_view_def rx_inv_def rx_store_def rx_mid_def rx_good_def)

lemma tx_view_inv:
  "tx_view s = tx_view sc \<Longrightarrow> q_view s = q_view sc \<Longrightarrow> tx_inv s = tx_inv sc \<and> queues_ok s = queues_ok sc \<and> sc_xfer s = sc_xfer sc"
  by (simp add: tx_view_def q_view_def tx_inv_def queues_ok_def tx_has_def tx_queue_def)

lemma unit_inv_same:
  "unit_inv sc \<Longrightarrow> rx_view s = rx_view sc \<Longrightarrow> tx_view s = tx_view sc \<Longrightarrow> q_view s = q_view sc \<Longrightarrow> unit_inv s"
  using rx_view_inv [of s sc] tx_view_inv [of s sc] by (simp add: unit_inv_def)

lemmas views = rx_view_def tx_view_def q_view_def rx_has_def

lemma rx_steps_view:
  "tx_view (rx_put bs sc) = tx_view sc" "q_view (rx_put bs sc) = q_view sc"
  "tx_view (rx_flush sc) = tx_view sc" "q_view (rx_flush sc) = q_view sc"
  "tx_view (rx_trim sc) = tx_view sc" "q_view (rx_trim sc) = q_view sc"
  "tx_view (rx_deliver sc) = tx_view sc" "q_view (rx_deliver sc) = q_view sc"
  "tx_view (rx_note c sc) = tx_view sc" "q_view (rx_note c sc) = q_view sc"
  by (simp_all add: rx_put_def rx_flush_def rx_trim_def drop_last_def rx_deliver_def rx_note_def trap_if_def count_ierror_def
      rx_event_send_def Let_def split_beta tx_view_def q_view_def)

lemma rx_room_view: "tx_view (fst (rx_room sc)) = tx_view sc" "q_view (fst (rx_room sc)) = q_view sc"
  by (simp_all add: rx_room_def rx_event_send_def Let_def split_beta tx_view_def q_view_def)

lemma rx_first_view: "tx_view (fst (rx_first c sc)) = tx_view sc" "q_view (fst (rx_first c sc)) = q_view sc"
  by (simp_all add: rx_first_def rx_put_def trap_if_def Let_def tx_view_def q_view_def)

lemma rx_proto_view: "tx_view (rx_proto c sc) = tx_view sc" "q_view (rx_proto c sc) = q_view sc"
  by (simp_all add: rx_proto_def rx_put_def trap_if_def Let_def tx_view_def q_view_def)

lemma view_ilen: "tx_view (sc\<lparr>sc_ilen := i\<rparr>) = tx_view sc" "q_view (sc\<lparr>sc_ilen := i\<rparr>) = q_view sc"
  "tx_view (sc\<lparr>sc_fcs := v\<rparr>) = tx_view sc" "q_view (sc\<lparr>sc_fcs := v\<rparr>) = q_view sc"
  "tx_view (sc\<lparr>sc_flags := f\<rparr>) = tx_view sc" "q_view (sc\<lparr>sc_flags := f\<rparr>) = q_view sc"
  "tx_view (count_ierror sc) = tx_view sc" "q_view (count_ierror sc) = q_view sc"
  by (simp_all add: tx_view_def q_view_def count_ierror_def)

lemma rx_data_view: "tx_view (rx_data c sc) = tx_view sc" "q_view (rx_data c sc) = q_view sc"
  by (simp_all add: rx_data_steps Let_def rx_steps_view rx_room_view rx_first_view rx_proto_view view_ilen)

lemma rx_flag_view: "tx_view (rx_flag sc) = tx_view sc" "q_view (rx_flag sc) = q_view sc"
  by (simp_all add: rx_flag_def Let_def rx_steps_view view_ilen)

lemma pppinput_view: "tx_view (pppinput c tp sc) = tx_view sc" "q_view (pppinput c tp sc) = q_view sc"
proof -
  have "tx_view (rx_char c s) = tx_view s" "q_view (rx_char c s) = q_view s" for s
    by (simp_all add: rx_char_def rx_data_view view_ilen)
  then show "tx_view (pppinput c tp sc) = tx_view sc" "q_view (pppinput c tp sc) = q_view sc"
    by (simp_all add: pppinput_def Let_def split_beta rx_flag_view rx_steps_view)
       (simp_all add: rx_event_send_def tx_view_def q_view_def)
qed

lemma flag_clear_or: "(x AND NOT (f OR g)) AND f = 0" for x :: "'a::len word"
  by (rule bit_word_eqI) (auto simp: bit_simps)

section \<open>The calls\<close>

lemma pppinput_unit: "unit_inv sc \<Longrightarrow> unit_inv (pppinput c tp sc)"
  using pppinput_inv [of sc c tp] tx_view_inv [OF pppinput_view [of c tp sc]] by (simp add: unit_inv_def)

lemma pppread_unit: "unit_inv sc \<Longrightarrow> unit_inv (snd (pppread maximum tp sc))"
  by (erule unit_inv_same) (simp_all add: pppread_def Let_def split_beta views)

text \<open>The driver asks for the next characters.\<close>

lemma pppstart_view: "rx_view (pppstart len tp sc) = rx_view sc" "q_view (pppstart len tp sc) = q_view sc"
  "sc_xfer (pppstart len tp sc) = sc_xfer sc" "sc_devp (pppstart len tp sc) = sc_devp sc"
proof -
  define v where "v s = (rx_view s, q_view s, sc_xfer s, sc_devp s)" for s
  have w: "v (tty_write b s) = v s" "v (tx_account len s) = v s" "v (s\<lparr>sc_outflag := f\<rparr>) = v s" "v (tx_event_send e s) = v s" for b s f e
    by (simp_all add: v_def views tty_write_def tx_account_def tx_event_send_def)
  have b: "v s' = v s" if "tx_buffer s = Some s'" for s s'
    using that by (auto simp: tx_buffer_def v_def views split: if_splits)
  have "v (snd (snd (tx_piece s))) = v s" for s
    by (simp add: tx_piece_def Let_def w)
  then have "v (tx_send tp s) = v s" for s
    by (simp add: tx_send_def Let_def split_beta) (simp add: v_def views tty_write_def)
  with w b have "v (pppstart len tp sc) = v sc"
    by (simp add: pppstart_def Let_def split: option.split)
  then show "rx_view (pppstart len tp sc) = rx_view sc" "q_view (pppstart len tp sc) = q_view sc"
    "sc_xfer (pppstart len tp sc) = sc_xfer sc" "sc_devp (pppstart len tp sc) = sc_devp sc"
    by (simp_all add: v_def)
qed

lemma tx_buffer_inv:
  assumes "tx_inv sc" and "tx_has SC_TX_BUSY sc" and "tx_buffer sc = Some sc'"
  shows "tx_inv sc' \<and> tx_has SC_TX_BUSY sc' \<and> sc_outoff sc' < length (sc_outbuf sc')"
proof (cases "sc_outoff sc < length (sc_outbuf sc)")
  case True
  with assms show ?thesis by (simp add: tx_buffer_def)
next
  case emp: False
  show ?thesis
  proof (cases "tl (sc_outmc sc) = []")
    case True
    with emp assms(3) have "sc' = tx_fcs_buffer sc" by (simp add: tx_buffer_def tx_fcs_buffer_def split: if_splits)
    moreover have "tx_has SC_TX_BUSY (tx_fcs_buffer sc)" using assms(2) by simp
    ultimately show ?thesis
      using assms(1,2) by (simp add: tx_inv_def) (simp add: tx_fcs_buffer_def)
  next
    case False
    then obtain m n ms where c: "sc_outmc sc = m # n # ms" by (metis list.exhaust list.sel(3) tl_Nil)
    with emp assms(3) have "sc' = sc\<lparr>sc_outmc := n # ms, sc_outbuf := m_dat n, sc_outoff := 0\<rparr>" by (simp add: tx_buffer_def)
    with assms(1,2) c show ?thesis by (simp add: tx_inv_def)
  qed
qed

lemma tx_send_inv:
  assumes "tx_inv sc" and "tx_has SC_TX_BUSY sc" and "sc_outoff sc < length (sc_outbuf sc)"
  shows "tx_inv (tx_send tp sc)"
proof -
  obtain b n s1 where p: "tx_piece sc = (b, n, s1)" by (cases "tx_piece sc") auto
  have b: "b \<noteq> []"
    using p assms(3) by (auto simp: tx_piece_def Let_def drop_at split: if_splits)
  have s1: "s1 = sc \<or> s1 = tx_escape sc \<or> s1 = tx_unescape sc"
    using p by (auto simp: tx_piece_def Let_def tx_escape_def tx_unescape_def split: if_splits)
  then have 1: "tx_has SC_TX_BUSY s1" "tx_inv s1"
    using assms(1,2) by (auto simp: tx_inv_def) (auto simp: tx_escape_def tx_unescape_def)
  moreover have "sc_outoff s1 < length (sc_outbuf s1)" using s1 assms(3) by auto
  ultimately show ?thesis
    using b by (simp add: tx_send_def p Let_def tx_inv_def) (simp add: tty_write_def)
qed

lemma pppstart_tx_inv:
  assumes inv: "tx_inv sc" and sc: "t_sc tp"
  shows "tx_inv (pppstart len tp sc)"
proof (cases "tx_has SC_TX_BUSY sc")
  case False
  then show ?thesis
    using inv by (simp add: pppstart_def tx_inv_def) (simp add: tty_write_def tx_queue_def)
next
  case True
  define s1 where "s1 = tx_account len sc"
  have s1: "tx_inv s1" "tx_has SC_TX_BUSY s1"
    using inv True by (simp_all add: s1_def tx_inv_def) (simp_all add: tx_account_def)
  have eq: "pppstart len tp sc = tx_core tp s1" using sc True by (simp add: pppstart_core s1_def)
  show ?thesis
  proof (cases "tx_has SC_TX_LASTCHAR s1")
    case True
    have "sc_outflag (tx_core tp s1) = sc_outflag s1 AND NOT (SC_TX_BUSY OR (SC_TX_FCS OR SC_TX_LASTCHAR))"
      using True by (simp add: tx_core_def tx_event_send_def tty_write_def or.assoc)
    then have "\<not> tx_has SC_TX_BUSY (tx_core tp s1)"
      by (simp only: tx_has_def flag_clear_or simp_thms)
    then show ?thesis
      unfolding eq using True by (simp add: tx_inv_def) (simp add: tx_core_def tx_event_send_def)
  next
    case False
    show ?thesis
    proof (cases "tx_buffer s1")
      case None
      then have "tx_core tp s1 = tty_write [PPP_FLAG] (tx_lastchar s1)"
        using False by (simp add: tx_core_def tx_lastchar_def)
      with s1 show ?thesis
        unfolding eq by (simp add: tx_inv_def) (simp add: tty_write_def tx_lastchar_def)
    next
      case (Some s2)
      note s2 = tx_buffer_inv [OF s1 Some]
      then have "tx_core tp s1 = tx_send tp s2" using False Some by (simp add: tx_core_def)
      with s2 tx_send_inv show ?thesis unfolding eq by simp
    qed
  qed
qed

lemma pppstart_unit: "unit_inv sc \<Longrightarrow> t_sc tp \<Longrightarrow> unit_inv (pppstart len tp sc)"
  using pppstart_tx_inv [of sc tp len] rx_view_inv [OF pppstart_view(1) [of len tp sc]] pppstart_view [of len tp sc]
  by (simp add: unit_inv_def queues_ok_def q_view_def)

text \<open>Output: the packet queued has its header, and the task is woken.\<close>

lemma tx_pending_flags: "SC_TX_PENDING AND SC_TX_BUSY = 0" "SC_TX_PENDING \<noteq> 0" "SC_TX_BUSY \<noteq> 0" "SC_TX_BUSY AND SC_TX_BUSY \<noteq> 0"
  by (simp_all add: ppp_consts)

lemma pppasyncstart_inv:
  assumes inv: "tx_inv sc0" and v: "tx_view sc = tx_view sc0"
  shows "tx_inv (pppasyncstart sc)"
proof (cases "sc_outflag sc = 0")
  case True
  then have "pppasyncstart sc = tx_event_send TX_PACKET (sc\<lparr>sc_outflag := SC_TX_PENDING\<rparr>)" by (simp add: pppasyncstart_def)
  moreover have "\<not> tx_has SC_TX_BUSY sc0" using True v by (simp add: tx_view_def tx_has_def)
  ultimately show ?thesis
    using inv v by (auto simp: tx_inv_def tx_view_def tx_has_def tx_pending_flags tx_event_send_def)
next
  case False
  then show ?thesis
    using inv v by (auto simp: pppasyncstart_def tx_inv_def tx_view_def tx_has_def)
qed

lemma pppasyncstart_view: "rx_view (pppasyncstart sc) = rx_view sc" "q_view (pppasyncstart sc) = q_view sc"
  "sc_xfer (pppasyncstart sc) = sc_xfer sc" "sc_devp (pppasyncstart sc) = sc_devp sc"
  by (simp_all add: pppasyncstart_def tx_event_send_def views)

lemma count_views:
  "rx_view (count_opacket n sc) = rx_view sc" "tx_view (count_opacket n sc) = tx_view sc" "q_view (count_opacket n sc) = q_view sc"
  "rx_view (count_oerror sc) = rx_view sc" "tx_view (count_oerror sc) = tx_view sc" "q_view (count_oerror sc) = q_view sc"
  "rx_view (count_iqdrop sc) = rx_view sc" "tx_view (count_iqdrop sc) = tx_view sc" "q_view (count_iqdrop sc) = q_view sc"
  "rx_view (count_oqdrop sc) = rx_view sc" "tx_view (count_oqdrop sc) = tx_view sc" "q_view (count_oqdrop sc) = q_view sc"
  by (simp_all add: count_opacket_def count_oerror_def count_iqdrop_def count_oqdrop_def views)

lemma enqueue_out_view: "rx_view (enqueue_out m sc) = rx_view sc" "tx_view (enqueue_out m sc) = tx_view sc"
  "sc_npqueue (enqueue_out m sc) = sc_npqueue sc"
  by (simp_all add: enqueue_out_def views)

lemma enqueue_out_queues:
  "queues_ok sc \<Longrightarrow> chain_ok m \<Longrightarrow> sc_devp sc \<noteq> None \<Longrightarrow> queues_ok (enqueue_out m sc)"
  by (simp add: queues_ok_def enqueue_out_def if_ppp_enqueue_def)

text \<open>A unit of which only the queues have changed, and whose task is woken.\<close>

lemma unit_inv_started:
  assumes inv: "unit_inv sc0" and v: "tx_view sc = tx_view sc0" "rx_view sc = rx_view sc0" and q: "queues_ok sc"
  shows "unit_inv (pppasyncstart sc)"
proof -
  have "tx_inv (pppasyncstart sc)" using inv v(1) pppasyncstart_inv [of sc0 sc] by (simp add: unit_inv_def)
  moreover have "queues_ok (pppasyncstart sc)"
    using q pppasyncstart_view [of sc] by (simp add: queues_ok_def q_view_def)
  moreover have "rx_inv (pppasyncstart sc)"
    using inv v(2) rx_view_inv [of "pppasyncstart sc" sc0] pppasyncstart_view(1) by (simp add: unit_inv_def)
  moreover have "sc_xfer (pppasyncstart sc) = 0"
    using inv v(1) pppasyncstart_view(3) [of sc] by (simp add: unit_inv_def tx_view_def)
  ultimately show ?thesis by (simp add: unit_inv_def)
qed

lemma output_header_length: "output_header dst m0 sc = Some (h, mode, pri) \<Longrightarrow> length h = 4"
  by (auto simp: output_header_def putshort_def split: ppp_dst.splits)

lemma add_header_ok: "length h = 4 \<Longrightarrow> chain_ok (add_header a h ms)"
  by (simp add: chain_ok_def add_header_def Let_def PPP_HDRLEN_def)

lemma pppoutput_unit:
  assumes inv: "unit_inv sc"
  shows "unit_inv (snd (pppoutput mem m0 dst sc))"
proof (cases "sc_devp sc = None \<or> output_header dst m0 sc = None")
  case True
  with inv show ?thesis by (auto simp: pppoutput_def)
next
  case False
  then obtain h mode pri where h: "output_header dst m0 sc = Some (h, mode, pri)" by auto
  define m where "m = add_header (sc_abi sc) h ((hd m0)\<lparr>m_highpri := pri\<rparr> # tl m0)"
  define s1 where "s1 = (if ppp_protocol h < 0x8000 then (microtime sc)\<lparr>sc_last_sent := sc_now sc\<rparr> else sc)"
  have m: "chain_ok m" using output_header_length [OF h] add_header_ok by (simp add: m_def)
  have v: "rx_view s1 = rx_view sc" "tx_view s1 = tx_view sc" "q_view s1 = q_view sc"
    by (simp_all add: s1_def microtime_def views)
  then have s1: "unit_inv s1" "sc_devp s1 \<noteq> None"
    using inv False unit_inv_same by (auto simp: tx_view_def)
  have drop: "unit_inv (count_oerror (count_iqdrop s1))"
    using s1(1) by (rule unit_inv_same) (simp_all add: count_views)
  have hold: "unit_inv (count_opacket len (s1\<lparr>sc_npqueue := sc_npqueue s1 @ [m]\<rparr>))" for len
  proof -
    define s2 where "s2 = count_opacket len (s1\<lparr>sc_npqueue := sc_npqueue s1 @ [m]\<rparr>)"
    have "rx_view s2 = rx_view s1" "tx_view s2 = tx_view s1" "tx_queue s2 = tx_queue s1" "queues_ok s2"
      using s1 m by (simp_all add: s2_def views count_opacket_def tx_queue_def queues_ok_def unit_inv_def)
    then have "unit_inv s2"
      using s1(1) rx_view_inv [of s2 s1] by (simp add: unit_inv_def tx_inv_def tx_view_def tx_has_def)
    then show ?thesis by (simp add: s2_def)
  qed
  have queue: "unit_inv (count_opacket len (pppasyncstart (enqueue_out m s1)))" for len
    by (rule unit_inv_same [OF unit_inv_started [OF s1(1)]])
       (use s1 m enqueue_out_queues in \<open>simp_all add: count_views enqueue_out_view unit_inv_def\<close>)
  show ?thesis
    using inv drop hold queue by (simp add: pppoutput_def h m_def [symmetric] s1_def [symmetric] Let_def)
qed

lemma pppwrite_unit:
  assumes "unit_inv sc" and "t_sc tp" and "PPP_HDRLEN \<le> length p" and "4 \<le> MLEN (sc_abi sc)"
  shows "unit_inv (snd (pppwrite mcl mem p tp sc))"
proof -
  have "4 \<le> length p" using assms(3) by (simp add: PPP_HDRLEN_def)
  then obtain m ms where "write_chain (sc_abi sc) mcl 0 p = m # ms" "4 \<le> length (m_dat m)"
    using write_chain_head [OF assms(4), of p mcl 0] by blast
  with assms(1,2) pppoutput_unit show ?thesis by (simp add: pppwrite_def Let_def PPP_HDRLEN_def)
qed

text \<open>Held packets are moved to the output queues or dropped.\<close>

lemma ppp_requeue_loop_inv:
  assumes "queues_ok (sc\<lparr>sc_npqueue := []\<rparr>)" and "list_all chain_ok q" and "sc_devp sc \<noteq> None"
    and "ppp_requeue_loop q sc = (kept, sc')"
  shows "queues_ok (sc'\<lparr>sc_npqueue := kept\<rparr>) \<and> rx_view sc' = rx_view sc \<and> tx_view sc' = tx_view sc"
  using assms
proof (induction q sc arbitrary: kept sc' rule: ppp_requeue_loop.induct)
  case (1 sc)
  then show ?case by simp
next
  case (2 m q sc)
  have q: "list_all chain_ok q" "chain_ok m" using "2.prems"(2) by simp_all
  have full: "queues_ok ((count_oerror (count_oqdrop sc))\<lparr>sc_npqueue := []\<rparr>)" "sc_devp (count_oerror (count_oqdrop sc)) \<noteq> None"
    using "2.prems"(1,3) by (auto simp: queues_ok_def count_oerror_def count_oqdrop_def)
  have enq: "queues_ok ((enqueue_out m sc)\<lparr>sc_npqueue := []\<rparr>)" "sc_devp (enqueue_out m sc) \<noteq> None"
    using "2.prems"(1,3) q(2) by (simp_all add: queues_ok_def enqueue_out_def if_ppp_enqueue_def)
  show ?case
  proof (cases "np_mode (ppp_protocol (m_dat (hd m))) sc")
    case NPMODE_PASS
    then show ?thesis
      using "2.IH"(1,2) [OF NPMODE_PASS _ _ q(1)] full enq "2.prems"(4)
      by (auto simp: count_views enqueue_out_view split: if_splits)
  next
    case NPMODE_QUEUE
    obtain k s where r: "ppp_requeue_loop q sc = (k, s)" by fastforce
    have ih: "queues_ok (s\<lparr>sc_npqueue := k\<rparr>)" "rx_view s = rx_view sc" "tx_view s = tx_view sc"
      using "2.IH"(5) [OF NPMODE_QUEUE "2.prems"(1) q(1) "2.prems"(3) r] by simp_all
    moreover have "kept = m # k" "sc' = s" using NPMODE_QUEUE "2.prems"(4) r by simp_all
    ultimately show ?thesis using q(2) "2.prems"(3) by (simp add: queues_ok_def tx_view_def)
  qed (use 2 q in simp_all)
qed

lemma ppp_requeue_unit:
  assumes inv: "unit_inv sc" and dev: "sc_devp sc \<noteq> None"
  shows "unit_inv (pppasyncstart (ppp_requeue (sc\<lparr>sc_npmode := mode\<rparr>)))"
proof -
  define s0 where "s0 = sc\<lparr>sc_npmode := mode\<rparr>"
  obtain k s where r: "ppp_requeue_loop (sc_npqueue s0) s0 = (k, s)" by fastforce
  have s0: "rx_view s0 = rx_view sc" "tx_view s0 = tx_view sc" "queues_ok s0" "sc_devp s0 \<noteq> None"
    using inv dev by (auto simp: s0_def views unit_inv_def queues_ok_def)
  have l: "queues_ok (s\<lparr>sc_npqueue := k\<rparr>)" "rx_view s = rx_view s0" "tx_view s = tx_view s0"
    using ppp_requeue_loop_inv [OF _ _ s0(4) r] s0(3) by (simp_all add: queues_ok_def)
  have "ppp_requeue s0 = s\<lparr>sc_npqueue := k\<rparr>" by (simp add: ppp_requeue_def r)
  moreover have "rx_view (s\<lparr>sc_npqueue := k\<rparr>) = rx_view sc" "tx_view (s\<lparr>sc_npqueue := k\<rparr>) = tx_view sc"
    using l s0 by (simp_all add: views)
  ultimately show ?thesis
    unfolding s0_def [symmetric] using unit_inv_started [OF inv] l(1) by simp
qed

text \<open>Requests. The internal flags of the receiver are not the daemon's to change.\<close>

lemma flush_not_masked: "SC_MASK AND SC_FLUSH = 0"
  by (simp add: ppp_consts)

lemma pppioctl_unit:
  assumes inv: "unit_inv sc" and dev: "sc_devp sc \<noteq> None"
  shows "unit_inv (snd (snd (pppioctl cmd sc)))"
proof (cases cmd)
  case (SFLAGS f)
  have "((sc_flags sc AND NOT SC_MASK) OR (f AND SC_MASK)) AND SC_FLUSH \<noteq> 0 \<longleftrightarrow> sc_flags sc AND SC_FLUSH \<noteq> 0"
    using flag_keep [OF flush_not_masked, of "sc_flags sc"] and.assoc [of f SC_MASK SC_FLUSH]
    by (simp only: flag_or flush_not_masked and_zero_eq simp_thms)
  then show ?thesis
    using unit_inv_same [OF inv] SFLAGS by (simp add: pppioctl_def views)
next
  case (SMRU n)
  have "rx_inv (sc\<lparr>sc_mru := n\<rparr>)" if "PPP_MRU \<le> n" "n < int MCLBYTES"
    using inv that by (auto simp: unit_inv_def rx_inv_def rx_store_def rx_mid_def rx_good_def rx_has_def PPP_MRU_def)
  then have "unit_inv (sc\<lparr>sc_mru := n\<rparr>)" if "PPP_MRU \<le> n" "n < int MCLBYTES"
    using inv that tx_view_inv [of "sc\<lparr>sc_mru := n\<rparr>" sc] by (simp add: unit_inv_def tx_view_def q_view_def)
  then show ?thesis using SMRU inv by (simp add: pppioctl_def)
next
  case (SNPMODE proto mode)
  then show ?thesis
    using inv ppp_requeue_unit [OF inv dev] unit_inv_same [OF inv, of "sc\<lparr>sc_npmode := mode\<rparr>"]
    by (auto simp: pppioctl_def views)
next
  case XFERUNIT
  have "sc\<lparr>sc_xfer := 0\<rparr> = sc" using inv by (simp add: unit_inv_def)
  with XFERUNIT inv show ?thesis by (simp add: pppioctl_def)
qed (use inv unit_inv_same [OF inv] in \<open>simp_all add: pppioctl_def microtime_def views\<close>)

lemma ppptioctl_unit:
  assumes inv: "unit_inv sc" and dev: "sc_devp sc \<noteq> None"
  shows "unit_inv (snd (snd (ppptioctl cmd sc)))"
  using inv pppioctl_unit [OF inv dev] unit_inv_same [OF inv]
  by (cases cmd) (simp_all add: ppptioctl_def views)

lemma pppsioctl_unit: "unit_inv sc \<Longrightarrow> unit_inv (snd (snd (pppsioctl req sc)))"
  by (erule unit_inv_same; cases req) (simp_all add: pppsioctl_def views)

text \<open>Opening and closing.\<close>

lemma pppallocmbuf_loop_mb: "list_all rx_mb ms \<Longrightarrow> list_all rx_mb (pppallocmbuf_loop a ilen ms)"
proof (induction a ilen ms rule: pppallocmbuf_loop.induct)
  case (1 a ilen ms)
  have "rx_mb (MCLGET (MGETHDR a))"
    by (simp add: rx_mb_def MCLGET_def MGETHDR_def new_mbuf_def M_WRITABLE_def)
  with 1 show ?case
    by (cases ms) (subst pppallocmbuf_loop.simps, simp)+
qed

lemma pppallocmbuf_fresh:
  assumes "0 \<le> sc_mru sc"
  shows "list_all rx_mb (pppallocmbuf sc []) \<and> pppallocmbuf sc [] \<noteq> []"
  using assms pppallocmbuf_loop_mb [of "[]" "sc_abi sc"]
  by (simp add: pppallocmbuf_def) (simp add: pppallocmbuf_loop.simps PPP_HDRLEN_def)

lemma pppopen_unit:
  assumes inv: "unit_inv sc" and dev: "sc_devp sc = (if t_sc tp then Some (t_dev tp) else None)"
    and r: "pppopen (tp\<lparr>t_pppdisc := True\<rparr>) sc = (e, tp', sc')"
  shows "unit_inv sc' \<and> sc_devp sc' = (if t_sc tp' then Some (t_dev tp') else None)"
proof (cases "t_sc tp")
  case True
  with dev r inv show ?thesis by (auto simp: pppopen_def)
next
  case False
  define s1 where "s1 = snd (pppalloc 1 sc)"
  define m where "m = pppallocmbuf s1 []"
  have none: "sc_devp sc = None" "sc_xfer sc = 0" using dev False inv by (simp_all add: unit_inv_def)
  have s1: "sc_mru s1 = PPP_MRU" "sc_freeq s1 = sc_freeq sc" "sc_rawq s1 = sc_rawq sc" "sc_trap s1 = sc_trap sc" "ev_rx s1 = ev_rx sc"
    "sc_outflag s1 = sc_outflag sc" "ev_tx s1 = ev_tx sc" "q_view s1 = ([], [], [], sc_abi sc)" "sc_xfer s1 = 0" "fst (pppalloc 1 sc)"
    using none inv by (simp_all add: s1_def pppalloc_def microtime_def unit_inv_def q_view_def queues_ok_def)
  have m: "list_all rx_mb m" "m \<noteq> []" using pppallocmbuf_fresh [of s1] s1(1) by (simp_all add: m_def PPP_MRU_def)
  have sc': "tp' = tp\<lparr>t_pppdisc := True, t_sc := True\<rparr>" "sc' = s1\<lparr>sc_ilen := 0,
      sc_asyncmap := [0xffffffff, 0, 0, 0x60000000, 0, 0, 0, 0], sc_rasyncmap := 0, sc_devp := Some (t_dev tp),
      sc_outm := [], sc_outmc := [], sc_m := m, sc_freeq := sc_freeq s1 @ replicate (NUM_MBUFQ - 1) m,
      sc_ifp := (sc_ifp s1)\<lparr>if_running := True, if_baudrate := t_ospeed tp\<rparr>\<rparr>"
    using r False s1(10) by (simp_all add: pppopen_def split_beta Let_def s1_def [symmetric] m_def [symmetric])
  have "list_all (\<lambda>ms. ms \<noteq> [] \<and> list_all rx_mb ms) (replicate n m)" for n using m by (simp add: list_all_length)
  then have "rx_inv sc'"
    using inv m s1 by (simp add: sc' unit_inv_def rx_inv_def rx_store_def MCLBYTES_def PPP_MRU_def)
  moreover have "queues_ok sc'" using s1(8) by (simp add: sc' queues_ok_def q_view_def)
  moreover have "\<not> tx_has SC_TX_BUSY sc" using inv none by (auto simp: unit_inv_def tx_inv_def)
  then have "tx_inv sc'"
    using inv s1 none by (simp add: sc' unit_inv_def tx_inv_def tx_has_def tx_queue_def q_view_def)
  ultimately show ?thesis using s1(9) by (simp add: sc' unit_inv_def)
qed

lemma pppclose_unit:
  assumes inv: "unit_inv sc" and dev: "sc_devp sc = (if t_sc tp then Some (t_dev tp) else None)"
  shows "kernel_inv (pppclose tp sc)"
proof (cases "t_sc tp")
  case True
  define s1 where "s1 = pppdealloc sc"
  have st: "rx_store sc" "tx_inv sc" using inv by (simp_all add: unit_inv_def rx_inv_def)
  have "rx_inv s1" using st(1) by (simp add: s1_def pppdealloc_def if_down_def Let_def rx_inv_def rx_store_def)
  moreover have "queues_ok s1 \<and> tx_queue s1 = []" by (simp add: s1_def pppdealloc_def if_down_def Let_def queues_ok_def tx_queue_def)
  moreover have "sc_outm s1 = [] \<and> ev_tx s1 = ev_tx sc \<and> sc_xfer s1 = 0 \<and> sc_devp s1 = None \<and>
      sc_outflag s1 = (if sc_outm sc = [] then sc_outflag sc else 0)"
    by (simp add: s1_def pppdealloc_def if_down_def Let_def)
  moreover from this have "tx_inv s1"
    using st(2) \<open>queues_ok s1 \<and> tx_queue s1 = []\<close> by (auto simp: tx_inv_def tx_has_def split: if_splits)
  moreover have "pppclose tp sc = (tp\<lparr>t_pppdisc := False, t_sc := False\<rparr>, s1)"
    using True dev by (simp add: pppclose_def s1_def)
  ultimately show ?thesis by (simp add: unit_inv_def)
qed (use inv dev in \<open>simp add: pppclose_def\<close>)

section \<open>The two tasks\<close>

lemma vj_not_flush: "(f OR SC_VJ_RESET) AND SC_FLUSH \<noteq> 0 \<longleftrightarrow> f AND SC_FLUSH \<noteq> 0"
  by (simp add: flag_or) (simp add: ppp_consts)

lemma inproc_deliver_view: "rx_view (inproc_deliver proto n m sc) = rx_view sc" "tx_view (inproc_deliver proto n m sc) = tx_view sc"
  "q_view (inproc_deliver proto n m sc) = q_view sc"
  by (simp_all add: inproc_deliver_def Let_def microtime_def count_ipacket_def count_ierror_def count_iqdrop_def pppasyncctlp_def views)

lemma ppp_inproc_view:
  assumes "PPP_HDRLEN \<le> length (m_dat (hd m))"
  shows "rx_view (snd (ppp_inproc mem m sc)) = rx_view sc" "tx_view (snd (ppp_inproc mem m sc)) = tx_view sc"
    "q_view (snd (ppp_inproc mem m sc)) = q_view sc"
  using assms vj_not_flush [of "sc_flags sc"]
  by (simp_all add: ppp_inproc_def Let_def inproc_deliver_view) (simp_all add: trap_if_def views)

lemma ppp_inproc_reused:
  assumes "m \<noteq> []" and "list_all rx_mb m" and "fst (ppp_inproc mem m sc) \<noteq> []"
  shows "list_all rx_mb (fst (ppp_inproc mem m sc))"
  using assms by (cases m) (simp_all add: ppp_inproc_def Let_def rx_mb_def M_WRITABLE_def split: if_splits)

lemma ppp_rxdaemon_unit:
  assumes inv: "unit_inv sc"
  shows "unit_inv (ppp_rxdaemon mem sc)"
proof -
  define s0 where "s0 = sc\<lparr>ev_rx := {}\<rparr>"
  have st: "rx_store sc" using inv by (simp add: unit_inv_def rx_inv_def)
  have v0: "tx_view s0 = tx_view sc" "q_view s0 = q_view sc" by (simp_all add: s0_def views)
  have keep: "unit_inv s" if "rx_view s = rx_view (sc\<lparr>sc_freeq := fq, sc_rawq := rq, ev_rx := ev\<rparr>)"
    "tx_view s = tx_view sc" "q_view s = q_view sc" "rx_store (sc\<lparr>sc_freeq := fq, sc_rawq := rq, ev_rx := ev\<rparr>)" for s fq rq ev
    using inv rx_view_inv [OF that(1)] that(4) tx_view_inv [OF that(2,3)]
    by (auto simp: unit_inv_def rx_inv_def rx_mid_def rx_good_def rx_has_def)
  show ?thesis
  proof (cases "ev_rx sc - {RX_EMPTY} = {}")
    case True
    then have "ppp_rxdaemon mem sc = s0" by (simp add: ppp_rxdaemon_def s0_def Let_def)
    moreover have "rx_store (sc\<lparr>sc_freeq := sc_freeq sc, sc_rawq := sc_rawq sc, ev_rx := {}\<rparr>)"
      using True st by (auto simp: rx_store_def)
    ultimately show ?thesis
      using keep [OF _ v0, where fq = "sc_freeq sc" and rq = "sc_rawq sc" and ev = "{}"] by (simp add: s0_def)
  next
    case False
    obtain m q where d: "if_ppp_dequeue (sc_rawq sc) = (m, q)" by fastforce
    define r where "r = (if RX_PACKET \<in> ev_rx sc
      then if m = [] then ([], s0\<lparr>sc_rawq := q\<rparr>) else ppp_inproc mem m (s0\<lparr>sc_rawq := q\<rparr>) else ([], s0))"
    define mp where "mp = (if fst r = [] then pppallocmbuf (snd r) [] else fst r)"
    define s1 where "s1 = (snd r)\<lparr>sc_freeq := if_ppp_enqueue (sc_freeq (snd r)) mp\<rparr>"
    define rq where "rq = (if RX_PACKET \<in> ev_rx sc then q else sc_rawq sc)"
    have eq: "ppp_rxdaemon mem sc = (if sc_rawq s1 \<noteq> [] then rx_event_send RX_PACKET s1 else s1)"
      unfolding ppp_rxdaemon_def Let_def using False
      by (simp add: d split_beta s1_def mp_def r_def s0_def)
    have m: "m \<noteq> [] \<Longrightarrow> PPP_HDRLEN \<le> length (m_dat (hd m)) \<and> list_all rx_mb m" "set q \<subseteq> set (sc_rawq sc)"
      using st d by (auto simp: if_ppp_dequeue_def rx_store_def split: list.splits)
    have vr: "rx_view (snd r) = rx_view (sc\<lparr>sc_rawq := rq, ev_rx := {}\<rparr>)" "tx_view (snd r) = tx_view sc" "q_view (snd r) = q_view sc"
      using m(1) ppp_inproc_view [of m mem "s0\<lparr>sc_rawq := q\<rparr>"] by (simp_all add: r_def s0_def rq_def views)
    have "fst r \<noteq> [] \<Longrightarrow> list_all rx_mb (fst r)"
      using m(1) ppp_inproc_reused by (auto simp: r_def split: if_splits)
    then have mp: "list_all rx_mb mp" "mp \<noteq> []"
      using pppallocmbuf_fresh [of "snd r"] vr(1) st by (auto simp: mp_def rx_view_def rx_store_def)
    have rq: "set rq \<subseteq> set (sc_rawq sc)" using m(2) by (simp add: rq_def)
    have store: "rx_store (sc\<lparr>sc_freeq := sc_freeq sc @ [mp], sc_rawq := rq, ev_rx := ev\<rparr>)"
      if "rq \<noteq> [] \<longrightarrow> RX_PACKET \<in> ev" for ev
      using st mp rq that by (auto simp: rx_store_def list_all_iff)
    have v1: "tx_view (rx_event_send RX_PACKET s1) = tx_view sc" "q_view (rx_event_send RX_PACKET s1) = q_view sc"
      "tx_view s1 = tx_view sc" "q_view s1 = q_view sc" "sc_rawq s1 = rq"
      using vr by (simp_all add: s1_def views rx_event_send_def)
    have "unit_inv (rx_event_send RX_PACKET s1)"
      by (rule keep [OF _ v1(1,2) store [of "{RX_PACKET}"]])
         (use vr in \<open>simp_all add: s1_def views rx_event_send_def if_ppp_enqueue_def\<close>)
    moreover have "unit_inv s1" if "rq = []"
      by (rule keep [OF _ v1(3,4) store [of "{}"]])
         (use vr that in \<open>simp_all add: s1_def views if_ppp_enqueue_def\<close>)
    ultimately show ?thesis by (simp add: eq v1(5))
  qed
qed

lemma tx_chain_parts:
  "ms \<noteq> [] \<Longrightarrow> m_dat (hd ms) \<noteq> [] \<Longrightarrow> snd (tx_chain v ms) \<noteq> [] \<and> list_all (\<lambda>m. m_dat m \<noteq> []) (snd (tx_chain v ms))"
proof (induction v ms rule: tx_chain.induct)
  case (2 v m ms)
  then show ?case by (cases ms) (simp_all add: Let_def split_beta)
qed simp

lemma compress_header_left: "4 \<le> length (m_dat m) \<Longrightarrow> m_dat (compress_header f m) \<noteq> []"
  by (auto simp: compress_header_def m_skip_def Let_def)

lemma ppp_dequeue_inv:
  assumes "queues_ok sc" and "ppp_dequeue sc = (m, s)"
  shows "queues_ok s" and "rx_view s = rx_view sc" and "tx_view s = tx_view sc"
    and "m = [] \<Longrightarrow> tx_queue s = []" and "m \<noteq> [] \<Longrightarrow> m_dat (hd m) \<noteq> [] \<and> sc_devp sc \<noteq> None"
proof -
  have "queues_ok s \<and> rx_view s = rx_view sc \<and> tx_view s = tx_view sc \<and> (m = [] \<longrightarrow> tx_queue s = []) \<and>
    (m \<noteq> [] \<longrightarrow> m_dat (hd m) \<noteq> [] \<and> sc_devp sc \<noteq> None)"
  proof (cases "tx_queue sc")
    case Nil
    then have "m = []" "s = sc\<lparr>sc_fastq := [], sc_ifp := (sc_ifp sc)\<lparr>if_snd := []\<rparr>\<rparr>"
      using assms(2) by (auto simp: ppp_dequeue_def if_ppp_dequeue_def tx_queue_def)
    with Nil assms(1) show ?thesis by (simp add: queues_ok_def views tx_queue_def)
  next
    case (Cons c q)
    have c: "chain_ok c" "sc_devp sc \<noteq> None"
      using assms(1) Cons by (auto simp: queues_ok_def tx_queue_def list_all_iff append_eq_Cons_conv)
    have s: "m = compress_header (sc_flags sc) (hd c) # tl c"
      "sc_fastq sc \<noteq> [] \<Longrightarrow> s = sc\<lparr>sc_fastq := tl (sc_fastq sc),
         sc_stats := (sc_stats sc)\<lparr>ppp_opackets := ppp_opackets (sc_stats sc) + 1\<rparr>\<rparr>"
      "sc_fastq sc = [] \<Longrightarrow> s = sc\<lparr>sc_ifp := (sc_ifp sc)\<lparr>if_snd := tl (if_snd (sc_ifp sc))\<rparr>,
         sc_stats := (sc_stats sc)\<lparr>ppp_opackets := ppp_opackets (sc_stats sc) + 1\<rparr>\<rparr>"
      using assms(2) Cons c(1)
      by (cases "sc_fastq sc"; auto simp: ppp_dequeue_def if_ppp_dequeue_def tx_queue_def chain_ok_def trap_if_def Let_def)+
    have "4 \<le> length (m_dat (hd c))" using c(1) by (simp add: chain_ok_def PPP_HDRLEN_def)
    then have "m_dat (hd m) \<noteq> []" using compress_header_left by (simp add: s(1))
    moreover have "queues_ok s \<and> rx_view s = rx_view sc \<and> tx_view s = tx_view sc"
      using assms(1) c(2) s(2,3)
      by (cases "sc_fastq sc = []"; cases "if_snd (sc_ifp sc)"; cases "sc_fastq sc") (auto simp: queues_ok_def views)
    ultimately show ?thesis using c(2) s(1) by simp
  qed
  then show "queues_ok s" and "rx_view s = rx_view sc" and "tx_view s = tx_view sc"
    and "m = [] \<Longrightarrow> tx_queue s = []" and "m \<noteq> [] \<Longrightarrow> m_dat (hd m) \<noteq> [] \<and> sc_devp sc \<noteq> None" by simp_all
qed

lemma tx_begin_inv:
  assumes "sc_outm sc \<noteq> []" and "m_dat (hd (sc_outm sc)) \<noteq> []" and "sc_devp sc \<noteq> None"
    and "sc_outflag sc = SC_TX_BUSY" and "ev_tx sc = {}"
  shows "tx_inv (tx_begin sc)" and "rx_view (tx_begin sc) = rx_view sc" and "q_view (tx_begin sc) = q_view sc"
    and "sc_xfer (tx_begin sc) = sc_xfer sc" and "sc_devp (tx_begin sc) = sc_devp sc"
proof -
  obtain v ms where c: "tx_chain PPP_INITFCS (sc_outm sc) = (v, ms)" by fastforce
  have ms: "ms \<noteq> []" "list_all (\<lambda>m. m_dat m \<noteq> []) ms"
    using tx_chain_parts [OF assms(1,2), of PPP_INITFCS] c by simp_all
  show "tx_inv (tx_begin sc)"
    using assms(3-5) ms by (auto simp: tx_begin_def c Let_def tx_inv_def tx_has_def tx_pending_flags tty_write_def)
  show "rx_view (tx_begin sc) = rx_view sc" and "q_view (tx_begin sc) = q_view sc"
    and "sc_xfer (tx_begin sc) = sc_xfer sc" and "sc_devp (tx_begin sc) = sc_devp sc"
    by (simp_all add: tx_begin_def c Let_def tty_write_def views)
qed

lemma ppp_txdaemon_unit:
  assumes inv: "unit_inv sc"
  shows "unit_inv (ppp_txdaemon sc)"
proof (cases "ev_tx sc = {}")
  case True
  then have "ppp_txdaemon sc = sc" by (simp add: ppp_txdaemon_def Let_def)
  with inv show ?thesis by simp
next
  case False
  define s1 where "s1 = (if TX_TRANSMIT \<in> ev_tx sc then sc\<lparr>ev_tx := {}, sc_outm := [], sc_outmc := []\<rparr> else sc\<lparr>ev_tx := {}\<rparr>)"
  obtain m s where d: "ppp_dequeue s1 = (m, s)" by fastforce
  have busy: "\<not> tx_has SC_TX_BUSY sc" "TX_TRANSMIT \<notin> ev_tx sc \<Longrightarrow> sc_outm sc = []"
    using inv False by (auto simp: unit_inv_def tx_inv_def split: if_splits)
  have s1: "rx_view s1 = rx_view sc" "queues_ok s1" "sc_xfer s1 = 0" "sc_outm s1 = []" "ev_tx s1 = {}" "sc_devp s1 = sc_devp sc"
    using inv busy(2) by (auto simp: s1_def unit_inv_def queues_ok_def views)
  note deq = ppp_dequeue_inv [OF s1(2) d]
  define s2 where "s2 = (if m = [] then s\<lparr>sc_outm := m, sc_outflag := 0, sc_ifp := (sc_ifp s)\<lparr>if_oactive := False\<rparr>\<rparr>
      else s\<lparr>sc_outm := m, sc_outflag := SC_TX_BUSY, sc_ifp := (sc_ifp s)\<lparr>if_oactive := True\<rparr>\<rparr>)"
  have eq: "ppp_txdaemon sc = (if m = [] then s2 else tx_begin s2)"
    using False s1(4) d by (simp add: ppp_txdaemon_def Let_def s1_def [symmetric] s2_def)
  have s2: "rx_view s2 = rx_view sc" "queues_ok s2" "sc_xfer s2 = 0" "ev_tx s2 = {}" "sc_devp s2 = sc_devp sc" "sc_outm s2 = m"
    using deq(1-3) s1 by (auto simp: s2_def views queues_ok_def)
  have rx: "rx_inv s2" using inv rx_view_inv [OF s2(1)] by (simp add: unit_inv_def)
  show ?thesis
  proof (cases "m = []")
    case True
    then have "tx_inv s2" using deq(4) s2 by (simp add: s2_def tx_inv_def tx_has_def tx_queue_def)
    with True rx s2 show ?thesis by (simp add: eq unit_inv_def)
  next
    case m: False
    then have b: "sc_outflag s2 = SC_TX_BUSY" by (simp add: s2_def)
    have "sc_devp s2 \<noteq> None" using deq(5) m s1(6) s2(5) by simp
    note t = tx_begin_inv [OF _ _ this b s2(4)]
    have t': "tx_inv (tx_begin s2)" "rx_view (tx_begin s2) = rx_view s2" "q_view (tx_begin s2) = q_view s2"
      "sc_xfer (tx_begin s2) = sc_xfer s2" "sc_devp (tx_begin s2) = sc_devp s2"
      using t m deq(5) s2(6) by simp_all
    then have "queues_ok (tx_begin s2)" using s2(2) by (simp add: queues_ok_def q_view_def)
    with t' rx s2(3) rx_view_inv [OF t'(2)] m show ?thesis by (simp add: eq unit_inv_def)
  qed
qed

section \<open>The invariant of the unit\<close>

lemma pppoutput_same: "sc_devp (snd (pppoutput mem m0 dst sc)) = sc_devp sc" "sc_abi (snd (pppoutput mem m0 dst sc)) = sc_abi sc"
  by (simp_all add: pppoutput_def Let_def microtime_def count_opacket_def count_oerror_def count_iqdrop_def pppasyncstart_def
      tx_event_send_def enqueue_out_def split: option.split)

lemma ppp_requeue_same: "sc_devp (ppp_requeue sc) = sc_devp sc" "sc_abi (ppp_requeue sc) = sc_abi sc"
proof -
  have "sc_devp (snd (ppp_requeue_loop q sc)) = sc_devp sc \<and> sc_abi (snd (ppp_requeue_loop q sc)) = sc_abi sc" for q
    by (induction q sc rule: ppp_requeue_loop.induct)
       (simp_all add: enqueue_out_def count_oerror_def count_oqdrop_def split_beta split: npmode.split)
  then show "sc_devp (ppp_requeue sc) = sc_devp sc" "sc_abi (ppp_requeue sc) = sc_abi sc"
    by (simp_all add: ppp_requeue_def split_beta)
qed

lemma pppinput_same: "sc_devp (pppinput c tp sc) = sc_devp sc" "sc_abi (pppinput c tp sc) = sc_abi sc"
  using pppinput_view [of c tp sc] by (simp_all add: tx_view_def q_view_def)

lemma ppp_inproc_same: "sc_devp (snd (ppp_inproc mem m sc)) = sc_devp sc" "sc_abi (snd (ppp_inproc mem m sc)) = sc_abi sc"
  by (simp_all add: ppp_inproc_def inproc_deliver_def Let_def microtime_def count_ipacket_def count_ierror_def count_iqdrop_def
      pppasyncctlp_def trap_if_def)

lemma ppp_rxdaemon_same: "sc_devp (ppp_rxdaemon mem sc) = sc_devp sc" "sc_abi (ppp_rxdaemon mem sc) = sc_abi sc"
  by (simp_all add: ppp_rxdaemon_def Let_def split_beta rx_event_send_def ppp_inproc_same)

lemma ppp_txdaemon_same: "sc_devp (ppp_txdaemon sc) = sc_devp sc" "sc_abi (ppp_txdaemon sc) = sc_abi sc"
proof -
  have b: "sc_abi (tx_begin s) = sc_abi s" for s by (simp add: tx_begin_def tty_write_def Let_def split: prod.split)
  have d: "sc_abi (snd (ppp_dequeue s)) = sc_abi s" for s by (simp add: ppp_dequeue_def trap_if_def Let_def split_beta)
  show "sc_devp (ppp_txdaemon sc) = sc_devp sc" "sc_abi (ppp_txdaemon sc) = sc_abi sc"
    by (simp_all add: ppp_txdaemon_def Let_def split_beta tx_begin_frame ppp_dequeue_fields b d)
qed

lemma pppioctl_same: "sc_devp (snd (snd (pppioctl cmd sc))) = sc_devp sc" "sc_abi (snd (snd (pppioctl cmd sc))) = sc_abi sc"
  by (cases cmd; simp add: pppioctl_def microtime_def pppasyncstart_def tx_event_send_def ppp_requeue_same)+

theorem kernel_step_inv:
  assumes "kernel_step s s'" and "kernel_inv s" and "4 \<le> MLEN (sc_abi (snd s))"
  shows "kernel_inv s' \<and> sc_abi (snd s') = sc_abi (snd s)"
  using assms
proof (induction rule: kernel_step.induct)
  case (k_clock tp sc t)
  then show ?case using unit_inv_same [of sc "sc\<lparr>sc_now := t\<rparr>"] by (simp add: views)
next
  case (k_open tp sc e tp' sc')
  then have "sc_abi sc' = sc_abi sc"
    by (auto simp: pppopen_def pppalloc_def microtime_def Let_def split: if_splits)
  with k_open pppopen_unit [of sc tp e tp' sc'] show ?case by simp
next
  case (k_close tp sc)
  then have "sc_abi (snd (pppclose tp sc)) = sc_abi sc" by (simp add: pppclose_def pppdealloc_def if_down_def Let_def)
  with k_close pppclose_unit [of sc tp] show ?case by simp
next
  case (k_input tp sc c)
  then show ?case using pppinput_unit [of sc c tp] by (simp add: pppinput_same)
next
  case (k_start tp sc len)
  then show ?case using pppstart_unit [of sc tp len] pppstart_view [of len tp sc] by (simp add: q_view_def)
next
  case (k_read tp sc maximum)
  then show ?case using pppread_unit [of sc maximum tp] by (simp add: pppread_def Let_def split_beta)
next
  case (k_write tp p sc mcl mem)
  then show ?case using pppwrite_unit [of sc tp p mcl mem] by (auto simp: pppwrite_def Let_def pppoutput_same)
next
  case (k_tioctl tp cmd sc)
  then show ?case using ppptioctl_unit [of sc cmd]
    by (cases cmd) (simp_all add: ppptioctl_def pppioctl_same)
next
  case (k_sioctl tp sc req)
  then show ?case using pppsioctl_unit [of sc req] by (cases req) (simp_all add: pppsioctl_def)
next
  case (k_flags tp sc u)
  then show ?case using unit_inv_same [of sc "sc\<lparr>sc_ifp := (sc_ifp sc)\<lparr>if_up := u\<rparr>\<rparr>"] by (simp add: views)
next
  case (k_output m0 dst tp sc mem)
  then show ?case using pppoutput_unit [of sc mem m0 dst] by (simp add: pppoutput_same)
next
  case (k_rx tp sc mem)
  then show ?case using ppp_rxdaemon_unit [of sc mem] by (simp add: ppp_rxdaemon_same)
next
  case (k_tx tp sc)
  then show ?case using ppp_txdaemon_unit [of sc] by (simp add: ppp_txdaemon_same)
qed

lemma kernel_boot_inv: "\<not> t_sc tp \<Longrightarrow> kernel_inv (tp, ppp_attach a)"
  by (simp add: unit_inv_def ppp_attach_def rx_inv_def rx_store_def queues_ok_def tx_inv_def tx_has_def tx_queue_def MCLBYTES_def)

theorem kernel_reached_inv:
  assumes "kernel_reached a tp0 s" and "4 \<le> MLEN a"
  shows "kernel_inv s \<and> sc_abi (snd s) = a"
  using assms(1)
proof (induction rule: kernel_reached.induct)
  case kr_boot
  then show ?case using kernel_boot_inv by (simp add: ppp_attach_def)
next
  case (kr_step s s')
  with assms(2) kernel_step_inv [of s s'] show ?case by simp
qed

end
