(* ===== verification/Kernel_Live.thy ===== *)
theory Kernel_Live
  imports Kernel_Inv
begin

text \<open>
  Transmission ends: whatever the driver sends at a time, a packet on its way is done after finitely many of
  its calls, and the task then takes the next one. From every state of the unit the output queues run
  empty in as many rounds as there are packets.
\<close>

section \<open>Definitions\<close>

text \<open>The calls of \<^verbatim>\<open>pppstart\<close> that the packet still needs, at most.\<close>

definition tx_rest :: "ppp_softc \<Rightarrow> nat" where
  "tx_rest sc =
     (length (sc_outbuf sc) - sc_outoff sc) + m_length (tl (sc_outmc sc)) +
     (if tx_has SC_TX_FCS sc then 0 else length (sc_outfcsbuf sc))"

definition tx_left :: "ppp_softc \<Rightarrow> nat" where
  "tx_left sc =
     (if tx_has SC_TX_LASTCHAR sc then 0
      else 2 * (tx_rest sc - (if sc_outoff_upd sc then 1 else 0)) + (if tx_has SC_TX_ESCAPE sc then 0 else 1) + 1)"

text \<open>Rounds of the driver and the task.\<close>

fun tx_service :: "nat list list \<Rightarrow> tty \<Rightarrow> ppp_softc \<Rightarrow> ppp_softc" where
  "tx_service [] tp sc = sc"
| "tx_service (ns # nss) tp sc = tx_service nss tp (ppp_txdaemon (snd (drive ns tp sc)))"

section \<open>The driver\<close>

lemma m_length_simps [simp]: "m_length [] = 0" "m_length (m # ms) = length (m_dat m) + m_length ms"
  by (simp_all add: m_length_def)

lemma tx_buffer_left:
  assumes "tx_buffer sc = Some sc'" and "\<not> tx_has SC_TX_LASTCHAR sc" and "\<not> sc_outoff_upd sc"
  shows "tx_left sc' = tx_left sc \<and> \<not> tx_has SC_TX_LASTCHAR sc' \<and> \<not> sc_outoff_upd sc'"
proof (cases "sc_outoff sc < length (sc_outbuf sc)")
  case True
  with assms show ?thesis by (simp add: tx_buffer_def)
next
  case emp: False
  show ?thesis
  proof (cases "tl (sc_outmc sc) = []")
    case True
    with emp assms(1) have "sc' = tx_fcs_buffer sc" "\<not> tx_has SC_TX_FCS sc"
      by (auto simp: tx_buffer_def tx_fcs_buffer_def split: if_splits)
    with emp assms True show ?thesis by (simp add: tx_left_def tx_rest_def)
  next
    case False
    then obtain m n ms where c: "sc_outmc sc = m # n # ms" by (metis list.exhaust list.sel(3) tl_Nil)
    with emp assms(1) have "sc' = sc\<lparr>sc_outmc := n # ms, sc_outbuf := m_dat n, sc_outoff := 0\<rparr>" by (simp add: tx_buffer_def)
    with assms c emp show ?thesis by (simp add: tx_left_def tx_rest_def)
  qed
qed

lemma tx_send_left:
  assumes "sc_outoff sc < length (sc_outbuf sc)" and "\<not> tx_has SC_TX_LASTCHAR sc" and "\<not> sc_outoff_upd sc"
  shows "tx_left (tx_send tp sc) < tx_left sc"
proof -
  obtain b n s1 where p: "tx_piece sc = (b, n, s1)" by (cases "tx_piece sc") auto
  have e: "n = 0 \<and> s1 = tx_escape sc \<and> \<not> tx_has SC_TX_ESCAPE sc \<or> n = 1 \<and> s1 = tx_unescape sc \<or> n \<ge> 1 \<and> s1 = sc"
    using p assms(1) by (auto simp: tx_piece_def Let_def tx_escape_def tx_unescape_def drop_at split: if_splits)
  have r: "tx_rest sc \<ge> 1" using assms(1) by (simp add: tx_rest_def)
  have off: "sc_outoff s1 < length (sc_outbuf s1)" "tx_rest s1 = tx_rest sc" "\<not> tx_has SC_TX_LASTCHAR s1"
    using e assms(1,2) by (auto simp: tx_rest_def)
  have flags: "tx_has f (tx_send tp sc) = tx_has f s1" for f by (simp add: tx_send_def p Let_def)
  have "tx_rest (tx_send tp sc) - (if sc_outoff_upd (tx_send tp sc) then 1 else 0) \<le> tx_rest s1 - (if n = 0 then 0 else 1)"
    using off(1) by (auto simp: tx_send_def p Let_def tx_rest_def)
  with e r off(2) off(3) assms(2,3) show ?thesis by (auto simp: tx_left_def flags)
qed

lemma tx_account_left:
  assumes "sc_outoff_upd sc \<longrightarrow> sc_outoff sc < length (sc_outbuf sc)" and "1 \<le> len"
  shows "tx_left (tx_account len sc) \<le> tx_left sc" and "\<not> sc_outoff_upd (tx_account len sc)"
proof -
  have "tx_rest (tx_account len sc) \<le> tx_rest sc - (if sc_outoff_upd sc then 1 else 0)"
    using assms by (auto simp: tx_account_def tx_rest_def)
  moreover show "\<not> sc_outoff_upd (tx_account len sc)" by (simp add: tx_account_def)
  ultimately show "tx_left (tx_account len sc) \<le> tx_left sc" by (simp add: tx_left_def)
qed

text \<open>Every call brings the packet nearer to its end.\<close>

lemma pppstart_left:
  assumes inv: "tx_inv sc" and busy: "tx_has SC_TX_BUSY sc" and tp: "t_sc tp" and len: "1 \<le> len"
  shows "\<not> tx_has SC_TX_BUSY (pppstart len tp sc) \<and> last (tty_out (pppstart len tp sc)) = [] \<or>
    tx_has SC_TX_BUSY (pppstart len tp sc) \<and> tx_left (pppstart len tp sc) < tx_left sc"
proof -
  define s1 where "s1 = tx_account len sc"
  have s1: "tx_inv s1" "tx_has SC_TX_BUSY s1" "tx_left s1 \<le> tx_left sc" "\<not> sc_outoff_upd s1"
    using inv busy tx_account_left [OF _ len, of sc]
    by (auto simp: s1_def tx_inv_def) (auto simp: tx_account_def split: if_splits)
  have eq: "pppstart len tp sc = tx_core tp s1" using tp busy by (simp add: pppstart_core s1_def)
  show ?thesis
  proof (cases "tx_has SC_TX_LASTCHAR s1")
    case True
    have "sc_outflag (tx_core tp s1) = sc_outflag s1 AND NOT (SC_TX_BUSY OR (SC_TX_FCS OR SC_TX_LASTCHAR))"
      using True by (simp add: tx_core_def tx_event_send_def tty_write_def or.assoc)
    then have "\<not> tx_has SC_TX_BUSY (tx_core tp s1)" by (simp only: tx_has_def flag_clear_or simp_thms)
    with True show ?thesis by (simp add: eq tx_core_def tx_event_send_def)
  next
    case False
    show ?thesis
    proof (cases "tx_buffer s1")
      case None
      then have "tx_core tp s1 = tty_write [PPP_FLAG] (tx_lastchar s1)" using False by (simp add: tx_core_def tx_lastchar_def)
      moreover have "tx_left s1 > 0" using False by (simp add: tx_left_def)
      ultimately show ?thesis using s1 by (simp add: eq tx_left_def)
    next
      case (Some s2)
      note s2 = tx_buffer_inv [OF s1(1,2) Some] tx_buffer_left [OF Some False s1(4)]
      then have c: "tx_core tp s1 = tx_send tp s2" using False Some by (simp add: tx_core_def)
      have "tx_left (tx_send tp s2) < tx_left s2" using s2 by (intro tx_send_left) simp_all
      moreover have "tx_has SC_TX_BUSY (tx_send tp s2)"
        using s2(1) by (auto simp: tx_send_def tx_piece_def Let_def tx_escape_def [symmetric] tx_unescape_def [symmetric])
      ultimately show ?thesis using s2 s1(3) by (simp add: eq c)
    qed
  qed
qed

text \<open>Enough calls of the driver end the packet.\<close>

lemma drive_stopped: "last (tty_out sc) = [] \<Longrightarrow> drive ns tp sc = ([], sc)"
  by (cases ns) simp_all

lemma drive_left:
  assumes "unit_inv sc" and "t_sc tp" and "tx_has SC_TX_BUSY sc \<longrightarrow> tx_left sc < length ns" and "ns \<noteq> []"
  shows "unit_inv (snd (drive ns tp sc)) \<and> \<not> tx_has SC_TX_BUSY (snd (drive ns tp sc)) \<and>
    q_view (snd (drive ns tp sc)) = q_view sc"
  using assms
proof (induction ns arbitrary: sc)
  case (Cons n ns)
  define b where "b = last (tty_out sc)"
  define k where "k = max 1 (min n (length b))"
  define s1 where "s1 = pppstart k tp sc"
  have s1: "unit_inv s1" "q_view s1 = q_view sc"
    using Cons.prems pppstart_unit pppstart_view by (simp_all add: s1_def)
  show ?case
  proof (cases "b = []")
    case True
    then have "\<not> tx_has SC_TX_BUSY sc" using Cons.prems(1) by (auto simp: unit_inv_def tx_inv_def b_def)
    with True Cons.prems show ?thesis by (simp add: drive_stopped b_def)
  next
    case False
    then have eq: "snd (drive (n # ns) tp sc) = snd (drive ns tp s1)"
      by (simp add: Let_def split_beta b_def k_def s1_def)
    show ?thesis
    proof (cases "tx_has SC_TX_BUSY sc")
      case True
      have "\<not> tx_has SC_TX_BUSY s1 \<and> last (tty_out s1) = [] \<or> tx_has SC_TX_BUSY s1 \<and> tx_left s1 < tx_left sc"
        unfolding s1_def by (rule pppstart_left) (use Cons.prems True in \<open>simp_all add: unit_inv_def k_def\<close>)
      then show ?thesis
      proof
        assume "\<not> tx_has SC_TX_BUSY s1 \<and> last (tty_out s1) = []"
        with s1 show ?thesis unfolding eq by (simp add: drive_stopped)
      next
        assume "tx_has SC_TX_BUSY s1 \<and> tx_left s1 < tx_left sc"
        moreover from this have "tx_left s1 < length ns" using Cons.prems(3) True by simp
        ultimately show ?thesis unfolding eq using Cons.IH [OF s1(1) Cons.prems(2)] s1(2) by (cases ns) auto
      qed
    next
      case idle: False
      then have "s1 = tty_write [] sc" by (simp add: s1_def pppstart_def)
      with idle s1 show ?thesis unfolding eq by (simp add: drive_stopped)
    qed
  qed
qed simp

section \<open>The rounds\<close>

lemma ppp_dequeue_queue:
  assumes "queues_ok sc" and "tx_queue sc = m # q"
  shows "fst (ppp_dequeue sc) = compress_header (sc_flags sc) (hd m) # tl m" and "tx_queue (snd (ppp_dequeue sc)) = q"
proof -
  have "chain_ok m" using assms by (auto simp: queues_ok_def tx_queue_def list_all_iff append_eq_Cons_conv)
  then show "fst (ppp_dequeue sc) = compress_header (sc_flags sc) (hd m) # tl m" and "tx_queue (snd (ppp_dequeue sc)) = q"
    using assms(2) by (cases "sc_fastq sc"; auto simp: ppp_dequeue_def if_ppp_dequeue_def tx_queue_def chain_ok_def trap_if_def Let_def)+
qed

lemma tx_chain_shorter: "m_length (snd (tx_chain v ms)) \<le> m_length ms"
proof (induction v ms rule: tx_chain.induct)
  case (2 v m ms)
  then show ?case by (cases ms) (simp_all add: Let_def split_beta)
qed simp

lemma compress_header_shorter: "length (m_dat (compress_header f m)) \<le> length (m_dat m)"
  by (auto simp: compress_header_def m_skip_def Let_def)

text \<open>A round of the task takes one packet, whose calls are bounded by its length.\<close>

lemma ppp_txdaemon_round:
  assumes inv: "unit_inv sc" and idle: "\<not> tx_has SC_TX_BUSY sc" and q: "tx_queue sc = m # q"
  shows "tx_queue (ppp_txdaemon sc) = q" and "tx_left (ppp_txdaemon sc) \<le> 2 * m_length m + 6"
proof -
  define s1 where "s1 = (if TX_TRANSMIT \<in> ev_tx sc then sc\<lparr>ev_tx := {}, sc_outm := [], sc_outmc := []\<rparr> else sc\<lparr>ev_tx := {}\<rparr>)"
  have ev: "ev_tx sc \<noteq> {}" "TX_TRANSMIT \<notin> ev_tx sc \<Longrightarrow> sc_outm sc = []"
    using inv idle q by (auto simp: unit_inv_def tx_inv_def)
  have s1: "queues_ok s1" "tx_queue s1 = m # q" "sc_flags s1 = sc_flags sc" "sc_outm s1 = []"
    using inv q ev by (auto simp: s1_def unit_inv_def queues_ok_def tx_queue_def)
  define ms where "ms = compress_header (sc_flags sc) (hd m) # tl m"
  obtain s where d: "ppp_dequeue s1 = (ms, s)" "tx_queue s = q"
    using ppp_dequeue_queue [OF s1(1,2)] s1(3) by (metis ms_def prod.collapse)
  define s2 where "s2 = s\<lparr>sc_outm := ms, sc_outflag := SC_TX_BUSY, sc_ifp := (sc_ifp s)\<lparr>if_oactive := True\<rparr>\<rparr>"
  have eq: "ppp_txdaemon sc = tx_begin s2"
    using ev s1(4) d by (simp add: ppp_txdaemon_def Let_def s1_def [symmetric] s2_def ms_def)
  show "tx_queue (ppp_txdaemon sc) = q"
    using d(2) by (simp add: eq tx_begin_frame) (simp add: s2_def tx_queue_def)
  obtain v cs where c: "tx_chain PPP_INITFCS ms = (v, cs)" by fastforce
  have "m_length ms \<le> m_length m"
    using compress_header_shorter [of "sc_flags sc" "hd m"] q inv
    by (cases m) (auto simp: ms_def unit_inv_def queues_ok_def tx_queue_def chain_ok_def list_all_iff append_eq_Cons_conv)
  with tx_chain_shorter [of PPP_INITFCS ms] c have cs: "m_length cs \<le> m_length m" by simp
  have "cs \<noteq> []"
    using tx_chain_parts [of ms PPP_INITFCS] ppp_dequeue_inv(5) [OF s1(1) d(1)] c by (auto simp: ms_def)
  then have "m_length cs = length (m_dat (hd cs)) + m_length (tl cs)" by (cases cs) simp_all
  moreover have "length (sc_outfcsbuf (tx_begin s2)) \<le> 2" "sc_outbuf (tx_begin s2) = m_dat (hd cs)" "sc_outmc (tx_begin s2) = cs"
    by (simp_all add: tx_begin_def s2_def c Let_def tty_write_def)
  ultimately have "tx_rest (tx_begin s2) \<le> m_length m + 2" using cs by (auto simp: tx_rest_def)
  moreover have "tx_left (tx_begin s2) \<le> 2 * tx_rest (tx_begin s2) + 2" by (auto simp: tx_left_def)
  ultimately show "tx_left (ppp_txdaemon sc) \<le> 2 * m_length m + 6" by (simp add: eq)
qed

lemma tx_service_drains:
  assumes "unit_inv sc" and "t_sc tp" and "length nss = length (tx_queue sc)"
    and "list_all (\<lambda>ns. tx_left sc < length ns \<and> (\<forall>m \<in> set (tx_queue sc). 2 * m_length m + 6 < length ns)) nss"
  shows "unit_inv (tx_service nss tp sc) \<and> tx_queue (tx_service nss tp sc) = []"
  using assms
proof (induction nss arbitrary: sc)
  case (Cons ns nss)
  define s1 where "s1 = snd (drive ns tp sc)"
  define s2 where "s2 = ppp_txdaemon s1"
  have "ns \<noteq> []" using Cons.prems(4) by auto
  then have s1: "unit_inv s1" "\<not> tx_has SC_TX_BUSY s1" "q_view s1 = q_view sc"
    using drive_left [of sc tp ns] Cons.prems by (simp_all add: s1_def)
  obtain m q where q: "tx_queue sc = m # q" using Cons.prems(3) by (cases "tx_queue sc") auto
  then have "tx_queue s1 = m # q" using s1(3) by (simp add: tx_queue_def q_view_def)
  note r = ppp_txdaemon_round [OF s1(1,2) this]
  have "unit_inv s2" using s1(1) ppp_txdaemon_unit by (simp add: s2_def)
  then have "unit_inv (tx_service nss tp s2) \<and> tx_queue (tx_service nss tp s2) = []"
    using Cons.prems r q by (intro Cons.IH) (auto simp: s2_def list_all_iff)
  then show ?case by (simp add: s1_def s2_def)
qed simp

text \<open>The receive task: one packet a round, until none is left.\<close>

lemma ppp_rxdaemon_round:
  assumes "unit_inv sc"
  shows "sc_rawq (ppp_rxdaemon mem sc) = tl (sc_rawq sc)"
proof -
  have i: "sc_rawq (snd (ppp_inproc mem m s)) = sc_rawq s" for m s
    by (simp add: ppp_inproc_def inproc_deliver_def Let_def microtime_def count_ipacket_def count_ierror_def count_iqdrop_def
        pppasyncctlp_def trap_if_def)
  have ev: "sc_rawq sc \<noteq> [] \<longrightarrow> RX_PACKET \<in> ev_rx sc" using assms by (simp add: unit_inv_def rx_inv_def rx_store_def)
  show ?thesis
  proof (cases "sc_rawq sc")
    case Nil
    then show ?thesis
      by (simp add: ppp_rxdaemon_def Let_def split_beta if_ppp_dequeue_def rx_event_send_def)
  next
    case (Cons m q)
    with ev have "\<not> ev_rx sc \<subseteq> {RX_EMPTY}" by auto
    with Cons ev show ?thesis
      by (simp add: ppp_rxdaemon_def Let_def split_beta if_ppp_dequeue_def rx_event_send_def i)
  qed
qed

lemma rx_service_drains:
  "unit_inv sc \<Longrightarrow> length (sc_rawq sc) \<le> n \<Longrightarrow> sc_rawq ((ppp_rxdaemon mem ^^ n) sc) = []"
proof (induction n arbitrary: sc)
  case (Suc n)
  have "unit_inv (ppp_rxdaemon mem sc)" using Suc.prems(1) by (rule ppp_rxdaemon_unit)
  with Suc show ?case by (simp add: ppp_rxdaemon_round funpow_Suc_right del: funpow.simps)
qed simp

end
