(* ===== verification/Spec2Isabelle.thy ===== *)
theory Spec2Isabelle
  imports Pppd_App Ipcp_Up Ipcp_Negotiation Lcp_Request Ppp_Carry Kernel_Live
begin

text \<open>
  Verification of PPP in RTEMS libbsd: the daemon (\<^verbatim>\<open>src/rtemsbsd/pppd/\<close>) and the kernel part below it
  (\<^verbatim>\<open>src/rtemsbsd/sys/net/if_ppp.c\<close>, \<^verbatim>\<open>ppp_tty.c\<close>), the part of the repository with protocol logic of its own
  (the rest is the FreeBSD kernel and other imported code, with the shims that make it run on RTEMS).

  \<^bold>\<open>The program.\<close> One task runs \<^verbatim>\<open>pppdmain\<close> (\<^verbatim>\<open>rtemsmain.c\<close>): a loop that waits for input, calls the
  timeouts that are due, and passes a received packet to the protocol it belongs to. LCP (\<^verbatim>\<open>lcp.c\<close>)
  sets up the link, PAP and CHAP (\<^verbatim>\<open>upap.c\<close>, \<^verbatim>\<open>chap.c\<close>) authenticate, IPCP (\<^verbatim>\<open>ipcp.c\<close>) configures IP, CCP (\<^verbatim>\<open>ccp.c\<close>)
  negotiates compression. LCP, IPCP and CCP run on the same automaton (\<^verbatim>\<open>fsm.c\<close>), to which each gives a
  table of callbacks; \<^verbatim>\<open>auth.c\<close> decides what starts when and takes everything down again; \<^verbatim>\<open>sys-rtems.c\<close>
  makes the system calls; \<^verbatim>\<open>demand.c\<close> queues packets while the link is down. The application configures the daemon
  with \<^verbatim>\<open>rtems_pppd_set_option\<close>, which goes through the option tables (\<^verbatim>\<open>options.c\<close>). Below the daemon, the line discipline
  (\<^verbatim>\<open>ppp_tty.c\<close>) turns packets into characters of the serial line and back, in the interrupt of the driver; two tasks
  (\<^verbatim>\<open>if_ppp.c\<close>), woken by events, start the transmission of queued packets and pass received ones to the daemon or to IP.

  \<^bold>\<open>The model.\<close> The global variables of all files are one extensible record: \<open>ppp_world\<close> (timeouts,
  outgoing packets, clock, random numbers) in \<open>Ppp_Main\<close>, extended by \<open>fsm_world\<close>, \<open>lcp_world\<close>,
  \<open>auth_world\<close>, \<open>upap_world\<close>, \<open>chap_world\<close>, \<open>sys_world\<close>, \<open>ipcp_world\<close>, \<open>ccp_world\<close>, \<open>daemon_world\<close> and \<open>opt_world\<close>, in the order
  in which the files build on each other. Every C function that changes state is a function on this
  record, with the name of the source. The environment is part of the state as the sequence of its
  answers: the readings of the clock, the states of the random number generator, the results of the
  system calls, the flags of the interface; frames given to \<^verbatim>\<open>write\<close> are appended to \<open>outq\<close>. Function pointers
  are arguments (\<open>plugins\<close>) or tables (\<open>fsm_callbacks\<close>, \<open>link_hooks\<close>, \<open>auth_hooks\<close>, \<open>protent\<close>). The MD5
  digest is an argument, since its code is not part of the daemon. Bytes and flag words are \<open>8 word\<close>,
  \<open>16 word\<close>, \<open>32 word\<close>; C's \<^verbatim>\<open>int\<close> counters are \<open>int\<close>. An access outside a buffer, which C leaves undefined,
  sets the flag \<open>oob\<close>; a loop that does not return is \<open>None\<close> (\<open>partial_function\<close>), and sets \<open>stuck\<close>
  where it is called by a function on the state. The only bound is the number of streams that files of options can
  have open at a time, an argument of the functions that open them.

  The kernel part has a state of its own, the record \<open>ppp_softc\<close> with the fields of \<^verbatim>\<open>struct ppp_softc\<close> (and \<open>tty\<close> for what it uses of the
  terminal): queues are lists of mbuf chains, an mbuf is its data with offset and capacity, events are sets, the characters given to the driver are a
  list. Whether memory is there, what the driver sends at a time and which of the entry points is called next are arguments or choices of the step relation;
  the sizes of an mbuf are the record \<open>abi\<close>. An access outside an mbuf or through a null pointer sets \<open>sc_trap\<close>. The daemon's record logs its requests
  to the kernel (\<open>drv\<close>), which \<open>drv_run\<close> carries out on the kernel's state: there the two models meet.

  \<^bold>\<open>The theories.\<close>
  \<^item> \<open>Ppp_Prelude\<close>: bytes, the \<^verbatim>\<open>GETSHORT\<close>/\<^verbatim>\<open>PUTLONG\<close> macros, buffers, shared lemmas and collections.
  \<^item> \<open>Ppp_Main\<close>: \<^verbatim>\<open>ppptimeout\<close>, \<^verbatim>\<open>pppuntimeout\<close>, \<^verbatim>\<open>calltimeout\<close>, \<^verbatim>\<open>timeleft\<close>, \<^verbatim>\<open>magic\<close>, \<^verbatim>\<open>output\<close>; the locale
    \<open>timer_service\<close>; the callout list is sorted (C6), the loop over it returns (C5).
  \<^item> \<open>Fsm\<close>: all of \<^verbatim>\<open>fsm.c\<close>. \<open>Fsm_Inv\<close>: the contract \<open>fsm_client\<close> of a callback table and the timer
    invariant (C18). \<open>Fsm_Rfc\<close>: the transition table of RFC 1661 as abstract machine and the
    simulation by the code (C12 to C17). \<open>Fsm_Wire\<close>: frames and retransmission
    (C28 to C31). \<open>Fsm_Layer\<close>: the invariant that what is above an automaton is down
    unless it is \<open>OPENED\<close>. \<open>Fsm_Keeps\<close>: what an automaton leaves alone.
  \<^item> \<open>Lcp_Options\<close>, \<open>Lcp_Negotiation\<close>, \<open>Lcp_Request\<close>: the option functions of \<^verbatim>\<open>lcp.c\<close> and what they promise
    (C20 to C23). \<open>Lcp\<close>, \<open>Lcp_Inv\<close>: LCP on the state, as client of the automaton.
  \<^item> \<open>Auth_State\<close>, \<open>Upap\<close>, \<open>Chap\<close>, \<open>Auth\<close>, \<open>Auth_Inv\<close>: authentication, the control flow of \<^verbatim>\<open>auth.c\<close>, and the
    contract \<open>ncp_table\<close> of the network protocols (C34, C35).
    \<open>Link_Observer\<close>: what LCP, PAP, CHAP and \<^verbatim>\<open>auth.c\<close> leave alone.
  \<^item> \<open>Demand\<close>, \<open>Sys_Rtems\<close>: dial on demand and the system calls (C32, C33).
  \<^item> \<open>Ipcp_Options\<close>, \<open>Ipcp_Negotiation\<close>, \<open>Ipcp\<close>, \<open>Ipcp_Inv\<close>, \<open>Ipcp_Up\<close>: IPCP, its options
    (C24, C25) and what it configures (C19).
  \<^item> \<open>Ccp_Options\<close>, \<open>Ccp_Negotiation\<close>, \<open>Ccp_Request\<close>, \<open>Ccp\<close>, \<open>Ccp_Inv\<close>: CCP, its options
    (C26, C27) and its exchange of reset requests.
  \<^item> \<open>Ncp_Table\<close>: the table of protocols with IPCP and CCP; it interprets the contracts on the
    callback tables and hooks of the daemon.
  \<^item> \<open>Ppp_Daemon\<close>: initialisation, \<^verbatim>\<open>get_input\<close>, the loop and the step relation (C4).
    \<open>Daemon_Inv\<close>: the invariants that every step keeps.
  \<^item> \<open>Opt_Words\<close>: \<^verbatim>\<open>getword\<close>, \<^verbatim>\<open>strtoul\<close> and \<^verbatim>\<open>strtol\<close>. \<open>Options\<close>: \<^verbatim>\<open>options.c\<close>, the option tables of all protocols
    and \<^verbatim>\<open>rtems_pppd_set_option\<close>. \<open>Options_Inv\<close>: the contract \<open>option_reader\<close>, the typing of the tables
    (C36) and what no option changes. \<open>Options_Files\<close>: files as lists of words
    (C37 to C39).
  \<^item> \<open>Pppd_App\<close>: the daemon together with the calls that set options; the invariants over all reachable
    states (C1 to C3).
  \<^item> \<open>Ppp_Softc\<close>: state of the kernel part, mbufs, queues, events. \<open>If_Ppp\<close>: \<^verbatim>\<open>if_ppp.c\<close>. \<open>Ppp_Tty\<close>: \<^verbatim>\<open>ppp_tty.c\<close>.
  \<^item> \<open>Tty_Transmit\<close>, \<open>Ppp_Output\<close>: the transmitter against RFC 1662, for every driver (C10). \<open>Tty_Receive\<close>: a whole frame through
    the receiver. \<open>Ppp_Link\<close>: the contract \<open>frame_receiver\<close>, interpreted on the line discipline (C11) and on the loopback
    (C33). \<open>Ppp_Carry\<close>: the daemon's requests and the way of packets from daemon to daemon (C7).
  \<^item> \<open>Kernel_Rx\<close>: the receiver stays inside its mbufs. \<open>Kernel_Inv\<close>: the step relation of the kernel part, its reachable states and their
    invariant (C8). \<open>Kernel_Live\<close>: transmission ends and the queues run empty (C9).

  \<^bold>\<open>Calls in a cycle.\<close> \<^verbatim>\<open>lcp_close\<close>, \<^verbatim>\<open>lcp_down\<close>, \<^verbatim>\<open>link_down\<close>, \<^verbatim>\<open>ipcp_close\<close>, \<^verbatim>\<open>np_finished\<close> and \<^verbatim>\<open>lcp_close\<close> call
  each other. The model resolves the cycle by what each call can reach: taking something down only
  uses the entries \<^verbatim>\<open>lowerdown\<close> and \<^verbatim>\<open>close\<close> of the table, so the functions for going down are defined first
  (\<open>lower_hooks\<close>, \<open>lcp_down_callbacks\<close>, \<open>ipcp_down_callbacks\<close>, \<open>ipcp_low\<close>) and the rest on top of them.

  \<^bold>\<open>Not modelled.\<close> The functions that print packets and messages (\<^verbatim>\<open>utils.c\<close>, the
  \<^verbatim>\<open>printpkt\<close> functions, \<^verbatim>\<open>option_error\<close>), the chat program (\<^verbatim>\<open>chat.c\<close>), callback control
  and MS-CHAP (\<^verbatim>\<open>cbcp.c\<close>, \<^verbatim>\<open>chap_ms.c\<close>, not compiled), and the terminal handling of \<^verbatim>\<open>sys-rtems.c\<close>.
  In the kernel part: the creation of the tasks, debugging output, the packet filter, and the code under the macros \<^verbatim>\<open>VJC\<close>,
  \<^verbatim>\<open>PPP_COMPRESS\<close>, \<^verbatim>\<open>PPP_FILTER\<close> and \<^verbatim>\<open>IPX\<close>, which are not defined; an entry point is one step, so that an interrupt falls between the calls
  of a task and not inside one. Outside PPP: drivers, kernel shims, and the imported code.
\<close>

section \<open>States for the witnesses\<close>

definition plain :: daemon where
  "plain = \<lparr>d_plugins = \<lparr>pap_auth_hook = None, pap_passwd_hook = None, idle_time_hook = None,
     auth_linkup_hook = False, auth_linkdown_hook = False, pap_logout_hook = False\<rparr>,
     d_md5 = (\<lambda>_. replicate 16 0), d_ip = True, d_ccp = True\<rparr>"

definition boot :: daemon_world where
  "boot = rtems_pppd_reset_options
     (static_world (\<lambda>n. \<lparr>tv_sec = int n, tv_usec = 0\<rparr>) (\<lambda>n. n) (\<lambda>_. Io_ok) (\<lambda>_. 0) None)"

abbreviation in_state :: "fsm_id \<Rightarrow> fsm_state \<Rightarrow> daemon_world" where
  "in_state i s \<equiv> set_state i s boot"

lemmas boot_defs = boot_def rtems_pppd_reset_options_def static_world_def lcp_init_def ipcp_init_def
  ccp_init_def upap_init_def ChapInit_def fsm_init_def zero_fsm_def zero_upap_def upd_fsm_def upd_upap_def
  upd_chap_def

lemma boot_state [simp]:
  "f_state (fsms boot LCP_FSM) = INITIAL" "f_state (fsms boot IPCP_FSM) = INITIAL" "callout boot = []"
  "pppd_phase boot = PHASE_DEAD" "\<not> pppd_kill_link boot" "\<not> ipcp_is_up boot" "\<not> demand boot"
  "f_flags (fsms boot i) = 0" "f_retransmits (fsms boot i) = 0" "pending f a boot = 0" "buf_ok boot"
  "peer_mru boot = 0" "outq boot = []" "f_unit (fsms boot i) = 0" "f_protocol (fsms boot LCP_FSM) = PPP_LCP"
  "lcp_gotoptions boot = lcp_zero" "ipcp_gotoptions boot = ipcp_zero" "f_state (fsms boot CCP_FSM) = INITIAL"
  "w_ioctl boot = (\<lambda>_. Io_ok)" "w_scflags boot = (\<lambda>_. 0)" "\<not> stuck boot" "ccp_localstate boot = 0"
  "bsd_compress (ccp_allowoptions boot)" "ipcp_hisoptions boot = ipcp_zero" "\<not> usepeerdns boot" "netmask boot = 0"
  "\<not> ip_up_hook boot" "num_np_up boot = 0" "idle_time_limit boot = 0" "maxconnect boot = 0"
  by (simp_all add: boot_defs Let_def pending_def buf_ok_def ppp_consts)

text \<open>The same with the variables of the options, and a system without files, hosts and devices.\<close>

definition app_boot :: opt_world where
  "app_boot = rtems_pppd_reset_options
     (static_app (\<lambda>n. \<lparr>tv_sec = int n, tv_usec = 0\<rparr>) (\<lambda>n. n) (\<lambda>_. Io_ok) (\<lambda>_. 0) None)"

definition bare :: os_env where
  "bare = \<lparr>os_fopen = (\<lambda>_. Fopen_enoent), os_stat = (\<lambda>_. Stat_enoent), os_inet_addr = (\<lambda>_. - 1),
     os_gethostbyname = (\<lambda>_. None), os_gethostname = [], os_open_excl = (\<lambda>_. (- 1, False)),
     os_open_append = (\<lambda>_. - 1), os_speed = (\<lambda>r. r)\<rparr>"

lemma app_boot_state [simp]:
  "f_state (fsms app_boot i) = INITIAL" "callout app_boot = []" "pppd_phase app_boot = PHASE_DEAD"
  "netmask app_boot = 0" "ccp_localstate app_boot = 0"
  by (simp_all add: app_boot_def static_app_def daemon_world.extend_def boot_defs Let_def)

lemma app_boot_ov: "ov app_boot = opt_vars_init"
  by (simp add: app_boot_def static_app_def daemon_world.extend_def boot_defs Let_def)

lemma app_boot_attempt:
  "app_steps bare 0 (plain, app_boot) [Link_event Attempt] (plain, attempt_start app_boot)"
  by (rule App_Cons [OF App_Link [OF Step_Attempt] App_Nil]) simp

text \<open>A line that is opened, and a packet that is written to it.\<close>

definition unit_abi :: abi where
  "unit_abi = \<lparr>MLEN = 224, MHLEN = 168, LONGSIZE = 4\<rparr>"

definition serial :: tty where
  "serial = \<lparr>t_dev = 0, t_pppdisc = True, t_sc = False, t_polled = False, t_ospeed = 9600\<rparr>"

definition opened :: "tty \<times> ppp_softc" where
  "opened = snd (pppopen serial (ppp_attach unit_abi))"

definition echo_req :: bytes where
  "echo_req = [0xff, 3, 0xc0, 0x21, 9, 1, 0, 8, 0, 0, 0, 0]"

definition written :: ppp_softc where
  "written = snd (pppwrite (\<lambda>_. True) True echo_req (fst opened) (snd opened))"


definition loop_idle :: demand_state where
  "loop_idle = demand_reset ((dmd boot)\<lparr>framemax := 1506\<rparr>)"

lemma serial_opens: "pppopen serial (ppp_attach unit_abi) = (K_OK, fst opened, snd opened)"
  by (simp add: opened_def pppopen_def pppalloc_def ppp_attach_def serial_def microtime_def Let_def)

lemma unit_abi_room: "4 \<le> MLEN unit_abi"
  by (simp add: unit_abi_def)

lemmas opened_facts = pppopen_ready [OF serial_opens unit_abi_room]

lemma opened_line [simp]: "t_sc (fst opened)" "\<not> t_polled (fst opened)" "sc_rasyncmap (snd opened) = 0"
  by (simp_all add: opened_def pppopen_def pppalloc_def ppp_attach_def serial_def microtime_def Let_def)

lemma echo_req_control: "control_packet echo_req" "ppp_packet echo_req"
  by (simp_all add: control_packet_def ppp_packet_def echo_req_def ppp_protocol_def getshort_def ppp_consts)

lemma echo_req_plain: "compress_bytes 0 echo_req = echo_req"
  by (simp add: compress_bytes_def echo_req_def)

lemma opened_ready: "rx_ready [0, 0, 0, 0x60000000, 0, 0, 0, 0] 0 (fst opened) (Suc 0) (snd opened)"
proof -
  have "rx_fits (MCLGET (MGETHDR unit_abi)) (snd opened)"
    using opened_facts by (simp add: rx_fits_def MCLGET_def MGETHDR_def new_mbuf_def M_WRITABLE_def ppp_consts)
  then show ?thesis
    using opened_facts
    by (simp add: rx_ready_def rx_has_def rx_chain_def asyncmap_ok_def list_all_iff NUM_MBUFQ_def)
qed

lemma written_state:
  "tx_free written" "list_all tx_chain_ok (tx_queue written)" "sc_devp written \<noteq> None"
  "map m_bytes (tx_queue written) = [echo_req]"
proof -
  note s = tx_start_write [OF opened_facts(1) echo_req_control(2), of "\<lambda>_. True", folded written_def]
  have "0 < MLEN (sc_abi (snd opened))" using opened_facts(1) by (simp add: tx_start_def)
  with s opened_facts(2) show "tx_free written" "list_all tx_chain_ok (tx_queue written)" "sc_devp written \<noteq> None"
    "map m_bytes (tx_queue written) = [echo_req]"
    by (simp_all add: tx_free_def tx_start_def attached_def write_chain_bytes)
qed

lemma written_queue: obtains m where "tx_queue written = [m]" "m_bytes m = echo_req"
  using written_state(4) by auto

lemma written_reached: "kernel_reached unit_abi serial (fst opened, written)"
proof -
  have "kernel_reached unit_abi serial (serial, ppp_attach unit_abi)" by (rule kr_boot) (simp add: serial_def)
  moreover have "kernel_step (serial, ppp_attach unit_abi) (fst opened, snd opened)"
    by (rule k_open [of _ _ K_OK]) (use serial_opens in \<open>simp add: serial_def\<close>)
  moreover have "kernel_step (fst opened, snd opened) (fst opened, written)"
    unfolding written_def by (rule k_write) (simp_all add: echo_req_def PPP_HDRLEN_def)
  ultimately show ?thesis by (blast intro: kr_step)
qed

lemma loop_idle_ready: "loop_ready (\<lambda>c. c = PPP_FLAG \<or> c = PPP_ESCAPE) n loop_idle" "pend_q loop_idle = []"
  by (simp_all add: loop_idle_def loop_ready_def demand_reset_def esc_ok_def boot_defs Let_def ppp_consts)


section \<open>The daemon\<close>



text \<open>
  C2. In every state that the daemon reaches, the interface is reported up only while the automaton of IPCP
  is in \<open>OPENED\<close>, and then, IPCP being enabled, LCP is in \<open>OPENED\<close> too.
\<close>

theorem reached_interface_up:
  assumes "app_steps os n (d0, rtems_pppd_reset_options (static_app c r io fl ifs)) es (d, w)"
    and "state_of IPCP_FSM w \<noteq> OPENED \<or> d_ip d \<and> state_of LCP_FSM w \<noteq> OPENED"
  shows "\<not> ipcp_is_up w"
proof -
  have ok: "link_ok (on_of d) w" "ipcp_ok w"
    using app_steps_ok [OF assms(1) app_ok_init] by (simp_all add: app_ok_def)
  have "state_of IPCP_FSM w = INITIAL" if "d_ip d" "state_of LCP_FSM w \<noteq> OPENED"
    using ok(1) that by (intro ncp_idle) (auto simp: ncp_on_def)
  with assms(2) have "state_of IPCP_FSM w \<noteq> OPENED" by auto
  with ok(2) show ?thesis
    by (auto simp: layer_inv_def split: if_splits)
qed

theorem reached_interface_up_witness:
  "app_steps bare 0 (plain, app_boot) [Link_event Attempt] (plain, attempt_start app_boot) \<and>
   \<not> ipcp_is_up (attempt_start app_boot)"
proof -
  have "state_of IPCP_FSM (attempt_start app_boot) \<noteq> OPENED"
    by (simp add: attempt_start_def new_phase_def)
  with app_boot_attempt show ?thesis
    using reached_interface_up [OF app_boot_attempt [unfolded app_boot_def], folded app_boot_def] by simp
qed

text \<open>
  C3. In every state that the daemon reaches, the timer of CCP's reset request is armed at most once, exactly while
  the flag \<^verbatim>\<open>RACK_PENDING\<close> is set, and only in \<open>OPENED\<close>; outside \<open>OPENED\<close> both flags are clear. So the routine
  of the timer never runs for a connection that is gone.
\<close>

theorem reached_rack_timer:
  assumes "app_steps os n (d0, rtems_pppd_reset_options (static_app c r io fl ifs)) es (d, w)"
  shows "pending CCP_RACK_TIMEOUT (ARG_FSM CCP_FSM) w = (if ccp_localstate w AND RACK_PENDING \<noteq> 0 then 1 else 0) \<and>
    (ccp_localstate w \<noteq> 0 \<longrightarrow> state_of CCP_FSM w = OPENED \<and> ccp_localstate w AND RACK_PENDING \<noteq> 0)"
proof -
  have "ccp_ok w"
    using app_steps_ok [OF assms app_ok_init] by (simp add: app_ok_def)
  then show ?thesis
    by (auto simp: layer_inv_def rack_lay_def rack_view_def RACK_PENDING_def RREQ_REPEAT_def split: if_splits)
qed

theorem reached_rack_timer_witness:
  "app_steps bare 0 (plain, app_boot) [Link_event Attempt] (plain, attempt_start app_boot) \<and>
   pending CCP_RACK_TIMEOUT (ARG_FSM CCP_FSM) (attempt_start app_boot) = 0"
proof -
  from app_boot_attempt reached_rack_timer [OF app_boot_attempt [unfolded app_boot_def], folded app_boot_def]
  show ?thesis by (simp add: attempt_start_def new_phase_def)
qed





text \<open>
  C6. Arming a timeout keeps the callout list sorted by time, and puts the new entry behind every
  entry that is not later; cancelling keeps it sorted.
\<close>

theorem callout_list_sorted:
  assumes "callout_sorted (callout w)"
  shows "callout_sorted (callout (ppptimeout f a t w)) \<and> callout_sorted (callout (pppuntimeout f a w)) \<and>
    (\<exists>newp. c_func newp = f \<and> c_arg newp = a \<and>
       callout (ppptimeout f a t w) =
         filter (\<lambda>p. \<not> tv_less (c_time newp) (c_time p)) (callout w) @ newp #
         filter (\<lambda>p. tv_less (c_time newp) (c_time p)) (callout w))"
proof -
  define newp where "newp = \<lparr>c_time = \<lparr>tv_sec = tv_sec (w_clock w (w_clock_idx w)) + t,
    tv_usec = tv_usec (w_clock w (w_clock_idx w))\<rparr>, c_arg = a, c_func = f\<rparr>"
  have "c_func newp = f" "c_arg newp = a"
    and new: "callout (ppptimeout f a t w) = callout_link newp (callout w)"
    by (simp_all add: ppptimeout_def gettimeofday_def newp_def)
  then show ?thesis
    using callout_sorted_link [OF assms] callout_sorted_unlink [OF assms] callout_link_split [OF assms]
    by (auto simp: new pppuntimeout_def)
qed

theorem callout_list_sorted_witness: "callout_sorted (callout (ppptimeout CHECK_IDLE ARG_NULL 7 boot))"
  using callout_list_sorted [of boot CHECK_IDLE ARG_NULL 7] by (simp add: callout_sorted_def)

section \<open>The kernel part\<close>





text \<open>
  C9. No packet is left behind. From every state that the kernel part reaches with the line open, the output queues are empty after as many
  rounds of driver and task as there are packets, for any number of characters that the driver sends at a time, and the queue of received packets
  after as many rounds of the other task: no wake-up is lost.
\<close>

theorem kernel_drains:
  assumes "kernel_reached a tp0 (tp, sc)" and "4 \<le> MLEN a" and "t_sc tp"
  shows "(\<exists>n. \<forall>nss. length nss = length (tx_queue sc) \<and> list_all (\<lambda>ns. n \<le> length ns) nss \<longrightarrow>
            tx_queue (tx_service nss tp sc) = []) \<and>
    sc_rawq ((ppp_rxdaemon mem ^^ length (sc_rawq sc)) sc) = []"
proof -
  have inv: "unit_inv sc" using kernel_reached_inv [OF assms(1,2)] by simp
  define n where "n = Suc (tx_left sc + sum_list (map (\<lambda>m. 2 * m_length m + 6) (tx_queue sc)))"
  have "2 * m_length m + 6 < n" if "m \<in> set (tx_queue sc)" for m
    using member_le_sum_list [of "2 * m_length m + 6" "map (\<lambda>m. 2 * m_length m + 6) (tx_queue sc)"] that by (auto simp: n_def)
  moreover have "tx_left sc < n" by (simp add: n_def)
  ultimately have "tx_queue (tx_service nss tp sc) = []"
    if "length nss = length (tx_queue sc)" "list_all (\<lambda>ns. n \<le> length ns) nss" for nss
    using tx_service_drains [OF inv assms(3) that(1)] that(2) by (fastforce simp: list_all_iff)
  with rx_service_drains [OF inv] show ?thesis by blast
qed

theorem kernel_drains_witness:
  "tx_queue written \<noteq> [] \<and> sc_rawq ((ppp_rxdaemon True ^^ length (sc_rawq written)) written) = []"
  using kernel_drains [OF written_reached unit_abi_room, of True] written_state(4) by auto

text \<open>
  C10. The transmitter, in pieces as large as the driver likes, puts on the line for each queued packet, in order, the frame of RFC 1662:
  flag, the packet with its header compressed as agreed and its check sequence, with the characters of the map escaped, flag.
\<close>

theorem kernel_sends_rfc1662:
  assumes "tx_free sc" and "list_all tx_chain_ok (tx_queue sc)" and "sc_devp sc \<noteq> None"
    and "t_sc tp" and "\<not> t_polled tp" and "length nss = length (tx_queue sc)"
    and "list_all2 (\<lambda>ns m. 2 * length (m_bytes m) + 6 < length ns) nss (tx_queue sc)"
  shows "fst (tx_rounds nss tp sc) =
    concat (map (\<lambda>m. rfc1662_frame (ESCAPE_P (sc_asyncmap sc)) (compress_bytes (sc_flags sc) (m_bytes m))) (tx_queue sc))"
  using tx_rounds_wire [OF assms] by (simp add: sent_frame_def wire_frame_def rfc1662_frame_def)

theorem kernel_sends_rfc1662_witness:
  "fst (tx_rounds [replicate 31 1] (fst opened) written) =
    rfc1662_frame (ESCAPE_P (sc_asyncmap written)) (compress_bytes (sc_flags written) echo_req)"
proof -
  obtain m where m: "tx_queue written = [m]" "m_bytes m = echo_req" by (rule written_queue)
  then show ?thesis
    using kernel_sends_rfc1662 [of written "fst opened" "[replicate 31 1]"] written_state by (simp add: echo_req_def)
qed

text \<open>
  C11. What a kernel sends this kernel receives: the frames of any number of packets, with whatever compression of the header and escaping
  the sender uses, become exactly those packets, in order, as long as there are buffers and the sender escapes what the receiver drops.
\<close>

theorem kernel_receives_frames:
  assumes "rx_ready maps flags tp (length ps) sc" and "list_all ppp_packet ps"
  shows "raw_packets (tty_input tp (concat (map (\<lambda>p. rfc1662_frame (ESCAPE_P maps) (compress_bytes flags p)) ps)) sc) =
    raw_packets sc @ ps"
proof -
  have "(\<lambda>p. rfc1662_frame (ESCAPE_P maps) (compress_bytes flags p)) = sent_frame maps flags"
    by (rule ext) (simp add: sent_frame_def wire_frame_def rfc1662_frame_def)
  with tty_rx.recv_packets [of maps flags tp ps 0 sc] assms show ?thesis by simp
qed

theorem kernel_receives_frames_witness:
  "raw_packets (tty_input (fst opened) (rfc1662_frame (ESCAPE_P [0, 0, 0, 0x60000000, 0, 0, 0, 0]) echo_req) (snd opened)) = [echo_req]"
  using kernel_receives_frames [of "[0, 0, 0, 0x60000000, 0, 0, 0, 0]" 0 "fst opened" "[echo_req]" "snd opened"] opened_ready
  by (simp add: echo_req_control echo_req_plain raw_packets_def opened_facts)

section \<open>The automaton\<close>


text \<open>
  C13. A Configure-Request is answered as in RFC 1661: with the event \<open>RCR_plus\<close> when the reply is an
  Ack and \<open>RCR_minus\<close> otherwise, LCP takes the transition of the table.
\<close>

theorem lcp_configure_request_rfc1661:
  fixes d :: daemon and w :: "'a ccp_world_scheme"
  defines "cb \<equiv> lcp_callbacks (link_hooks_of d)"
  assumes "state_of LCP_FSM w \<notin> {INITIAL, STARTING}"
  shows "ends_in cb LCP_FSM
    (rfc_of (fsms w LCP_FSM) (if rconfreq_code cb LCP_FSM idn inp w = CONFACK then RCR_plus else RCR_minus))
    (fsm_rconfreq cb LCP_FSM idn inp w)"
  unfolding cb_def using assms(2) by (rule tab.ll.lcp_fsm.rfc_rconfreq)

theorem lcp_configure_request_rfc1661_witness:
  "\<exists>ev. ends_in (lcp_callbacks (link_hooks_of plain)) LCP_FSM (rfc_of (fsms (in_state LCP_FSM STOPPED) LCP_FSM) ev)
     (fsm_rconfreq (lcp_callbacks (link_hooks_of plain)) LCP_FSM 1 [] (in_state LCP_FSM STOPPED))"
proof -
  have "state_of LCP_FSM (in_state LCP_FSM STOPPED) \<notin> {INITIAL, STARTING}" by simp
  from lcp_configure_request_rfc1661 [OF this] show ?thesis by blast
qed

text \<open>
  C14. A Configure-Ack for the request that is out, with exactly its options, is the event \<open>RCA\<close> of
  the table; any other Configure-Ack leaves the automaton of LCP as it was.
\<close>

theorem lcp_configure_ack_rfc1661:
  fixes d :: daemon and w :: "'a ccp_world_scheme"
  defines "cb \<equiv> lcp_callbacks (link_hooks_of d)"
  shows "if rconfack_valid cb LCP_FSM idn inp w
    then ends_in cb LCP_FSM (rfc_of (fsms w LCP_FSM) RCA) (fsm_rconfack cb LCP_FSM idn inp w)
    else fsms (fsm_rconfack cb LCP_FSM idn inp w) LCP_FSM = fsms w LCP_FSM"
  unfolding cb_def by (simp add: tab.ll.lcp_fsm.rfc_rconfack tab.ll.lcp_fsm.rfc_rconfack_invalid)



text \<open>
  C17. A Terminate-Ack in \<open>OPENED\<close>, for which RFC 1661 has \<open>REQSENT\<close>, leaves the automaton in \<open>OPENED\<close>
  with its retransmission timer armed: \<^verbatim>\<open>fsm_rtermack\<close> calls the down callback and sends a request,
  but does not change the state.
\<close>

theorem termack_in_opened_stays:
  fixes w :: "'a ccp_world_scheme" and pl :: plugins and ip cc :: bool
  assumes "timer_inv IPCP_FSM w" and "state_of IPCP_FSM w = OPENED"
  shows "state_of IPCP_FSM (fsm_rtermack (ipcp_callbacks pl (ncp_lows ip cc)) IPCP_FSM w) = OPENED \<and>
    \<not> timer_inv IPCP_FSM (fsm_rtermack (ipcp_callbacks pl (ncp_lows ip cc)) IPCP_FSM w) \<and>
    fst (rfc_of (fsms w IPCP_FSM) RTA) = REQSENT"
  using ipcp_fsm.rtermack_opened [OF assms, of pl ip cc] assms(2)
  by (simp add: timer_inv_def timed_def rfc_of_def)

theorem termack_in_opened_stays_witness:
  "state_of IPCP_FSM (fsm_rtermack (ipcp_callbacks (d_plugins plain) (ncp_lows True True)) IPCP_FSM
     (in_state IPCP_FSM OPENED)) = OPENED"
  by (rule termack_in_opened_stays [THEN conjunct1]) (simp_all add: timer_inv_def)





section \<open>LCP options\<close>

text \<open>
  C20. The Configure-Ack that LCP accepts is exactly the request it sent: same options, same values,
  same order, nothing else.
\<close>

theorem lcp_ack_is_request:
  assumes "0 \<le> mru (lcp_gotoptions w)" and "mru (lcp_gotoptions w) < 65536"
  shows "fst (lcp_ackci_cb p w) \<longleftrightarrow> p = fst (lcp_addci_cb n w)"
  using lcp_ackci_iff [OF assms] by (simp add: lcp_ackci_cb_def lcp_addci_cb_def)

theorem lcp_ack_is_request_witness:
  "fst (lcp_ackci_cb [] boot) \<longleftrightarrow> [] = fst (lcp_addci_cb 0 boot)"
  by (rule lcp_ack_is_request) (simp_all add: boot_defs Let_def lcp_zero_def)





text \<open>
  C23. Two daemons agree: when the peer allows what our request asks for, \<^verbatim>\<open>lcp_reqci\<close> of the peer
  answers the request we send with an Ack, and learns our options from it.
\<close>

theorem lcp_request_accepted:
  assumes "acceptable (lcp_gotoptions w) (lcp_allowoptions w) req"
  shows "lcp_reqci (lcp_addci req) rej w = (CONFACK, lcp_addci req, w\<lparr>lcp_hisoptions := learned req\<rparr>)"
  using lcp_req_loop_accepts [OF assms]
  by (simp add: lcp_reqci_def Let_def req_reply_def req_start_def PPP_MRU_def ppp_consts)

theorem lcp_request_accepted_witness:
  "lcp_reqci (lcp_addci (lcp_zero\<lparr>neg_pcompression := True\<rparr>)) False boot =
   (CONFACK, lcp_addci (lcp_zero\<lparr>neg_pcompression := True\<rparr>),
    boot\<lparr>lcp_hisoptions := learned (lcp_zero\<lparr>neg_pcompression := True\<rparr>)\<rparr>)"
  by (rule lcp_request_accepted) (simp add: acceptable_def boot_defs lcp_zero_def Let_def)

section \<open>IPCP options\<close>

text \<open>
  C24. \<^verbatim>\<open>ipcp_nakci\<close> returns when the options that it has not recognised as answers to ours all have
  a length of at least 1.
\<close>

theorem ipcp_nak_returns:
  assumes "cis_long 1 (fst (ipcp_nak_known go p))"
  shows "\<exists>r. ipcp_nak_try go p = Some r"
  using ipcp_nak_rest_returns [OF assms] by (simp add: ipcp_nak_try_def case_prod_unfold Let_def)

theorem ipcp_nak_returns_witness: "\<exists>r. ipcp_nak_try ipcp_zero [CI_ADDR, 6, 10, 0, 0, 1] = Some r"
proof (rule ipcp_nak_returns)
  have "fst (ipcp_nak_known ipcp_zero [CI_ADDR, 6, 10, 0, 0, 1]) = [CI_ADDR, 6, 10, 0, 0, 1]"
    by (simp add: ipcp_nak_known_def nakcidns_def nakcivj_def nakciaddr_def ipcp_zero_def Let_def)
  moreover have "cis_long 1 [CI_ADDR, 6, 10, 0, 0, 1]"
    by (rule cis_next) (auto intro: cis_end)
  ultimately show "cis_long 1 (fst (ipcp_nak_known ipcp_zero [CI_ADDR, 6, 10, 0, 0, 1]))" by simp
qed

text \<open>
  C25. On an option of an unknown type whose length byte is 0 it does not: the loop reads the same
  option for ever, and with it the daemon hangs.
\<close>

theorem ipcp_nak_hangs:
  assumes "fst (ipcp_nak_known (ipcp_gotoptions w) p) = q" and "2 < length q" and "q ! 1 = 0"
    and "q ! 0 \<notin> {CI_ADDRS, CI_COMPRESSTYPE, CI_ADDR}"
  shows "stuck (snd (ipcp_nakci p w))"
  using ipcp_nak_rest_stuck [OF assms(2-4)] assms(1)
  by (auto simp: ipcp_nakci_def ipcp_nak_try_def case_prod_unfold)

theorem ipcp_nak_hangs_witness: "stuck (snd (ipcp_nakci [5, 0, 0] boot))"
  by (rule ipcp_nak_hangs [OF refl])
    (simp_all add: ipcp_nak_known_def nakcidns_def nakcivj_def nakciaddr_def boot_defs ipcp_zero_def
      ppp_consts Let_def)

section \<open>CCP options\<close>

text \<open>
  C26. \<^verbatim>\<open>ccp_reqci\<close> returns on every request, unless the first option is BSD-Compress with fewer than 9 bits and
  we do not yet insist.
\<close>

theorem ccp_reqci_returns:
  assumes "rej \<or> \<not> small_bsd inp" and "\<not> stuck w"
  shows "\<not> stuck (snd (snd (ccp_reqci inp rej w)))"
proof -
  obtain code out ar ho v where r: "ccp_req (ccp_allowoptions w) rej inp w = Some (code, out, ar, ho, v)"
    using ccp_req_returns [OF assms(1)] by (metis prod_cases5)
  from sys_step_req [OF r] have "stuck v = stuck w"
    by (cases v; cases w) (simp add: sys_step_def)
  with assms(2) show ?thesis by (simp add: ccp_reqci_def r)
qed

theorem ccp_reqci_returns_witness: "\<not> stuck (snd (snd (ccp_reqci [CI_BSD_COMPRESS, 3, 0x2c] False boot)))"
  by (rule ccp_reqci_returns) (simp_all add: small_bsd_def BSD_NBITS_def BSD_MIN_BITS_def)



section \<open>Packets on the wire\<close>

text \<open>
  C28. \<^verbatim>\<open>fsm_sdata\<close> sends exactly one frame, the one RFC 1661 prescribes for the code, identifier and
  data, cut to the peer's MRU, and stays inside the buffer, as long as that MRU is at most
  \<^verbatim>\<open>PPP_MRU\<close>.
\<close>

theorem sdata_sends_frame:
  fixes w :: "'a fsm_world_scheme"
  assumes "buf_ok w" and "4 \<le> peer_mru w" and "peer_mru w \<le> PPP_MRU" and "0 \<le> n" and "n \<le> int (length bs)"
  shows "outq (fsm_sdata i code idn (Data bs) n w) = outq w @
      [(f_unit (fsms w i),
        control_frame (f_protocol (fsms w i)) code idn (take (nat (min n (peer_mru w - 4))) bs))] \<and>
    oob (fsm_sdata i code idn (Data bs) n w) = oob w"
  using fsm_sdata_sends [OF assms] by simp

theorem sdata_sends_frame_witness:
  "outq (fsm_sdata LCP_FSM ECHOREQ 7 (Data [1, 2, 3, 4]) 4 (boot\<lparr>peer_mru := 1500\<rparr>)) =
   [(0, control_frame PPP_LCP ECHOREQ 7 [1, 2, 3, 4])]"
proof -
  have "buf_ok (boot\<lparr>peer_mru := 1500\<rparr>)"
    using boot_state(11) by (simp add: buf_ok_def)
  from sdata_sends_frame [OF this, of 4 "[1, 2, 3, 4]" LCP_FSM ECHOREQ 7]
  show ?thesis by (simp add: PPP_MRU_def)
qed

text \<open>
  C29. With a larger MRU, which \<^verbatim>\<open>lcp_up\<close> takes over from the peer's request without an upper limit,
  data that fills it is written past the end of \<^verbatim>\<open>outpacket_buf\<close>.
\<close>

theorem sdata_overflows_buffer:
  assumes "buf_ok w" and "n > PPP_MRU - 4" and "peer_mru w - 4 \<ge> n" and "n = int (length bs)"
  shows "oob (fsm_sdata i code idn (Data bs) n w)"
  using assms by (rule fsm_sdata_overflows)

theorem sdata_overflows_buffer_witness:
  "oob (fsm_sdata LCP_FSM CODEREJ 1 (Data (replicate 1500 0)) 1500 (boot\<lparr>peer_mru := 65535\<rparr>))"
  by (rule sdata_overflows_buffer) (use boot_state(11) in \<open>simp_all add: buf_ok_def PPP_MRU_def\<close>)

text \<open>
  C30. Sending and receiving fit together: \<^verbatim>\<open>fsm_input\<close> takes the code, the identifier and exactly the
  data out of such a frame, whatever padding follows it.
\<close>

theorem input_reads_frame:
  assumes "length bs \<le> 65531" and "state_of i w \<notin> {INITIAL, STARTING}"
  shows "fsm_input cb i (drop 4 (control_frame proto code idn bs) @ pad) w =
         fsm_dispatch cb i (drop 4 (control_frame proto code idn bs) @ pad) code idn bs w"
  using assms by (rule fsm_input_control_frame)

theorem input_reads_frame_witness:
  "fsm_input (ipcp_callbacks (d_plugins plain) []) IPCP_FSM (drop 4 (control_frame PPP_IPCP TERMACK 3 [9]) @ [0])
     (in_state IPCP_FSM CLOSED) =
   fsm_dispatch (ipcp_callbacks (d_plugins plain) []) IPCP_FSM
     (drop 4 (control_frame PPP_IPCP TERMACK 3 [9]) @ [0]) TERMACK 3 [9] (in_state IPCP_FSM CLOSED)"
  by (rule input_reads_frame) simp_all

text \<open>
  C31. An automaton that hears nothing gives up: after as many timeouts as it has transmissions left,
  and one more, LCP ends in \<open>STOPPED\<close> and reports the link finished unless it is passive; and one that
  is being closed ends in \<open>CLOSED\<close>.
\<close>

theorem lcp_gives_up:
  fixes d :: daemon and w :: "'a ccp_world_scheme"
  defines "cb \<equiv> lcp_callbacks (link_hooks_of d)"
  shows "(state_of LCP_FSM w \<in> {REQSENT, ACKRCVD, ACKSENT} \<longrightarrow>
      ends_in cb LCP_FSM (STOPPED, if f_flags (fsms w LCP_FSM) AND OPT_PASSIVE = 0 then Tlf else No_Action)
        ((fsm_expire cb LCP_FSM ^^ Suc (nat (f_retransmits (fsms w LCP_FSM)))) w)) \<and>
    (state_of LCP_FSM w = CLOSING \<longrightarrow>
      ends_in cb LCP_FSM (CLOSED, Tlf)
        ((fsm_expire cb LCP_FSM ^^ Suc (nat (f_retransmits (fsms w LCP_FSM)))) w))"
  unfolding cb_def using tab.ll.lcp_fsm.expire_gives_up [OF _ refl] tab.ll.lcp_fsm.term_expire [OF _ refl]
  by blast

theorem lcp_gives_up_witness:
  "ends_in (lcp_callbacks (link_hooks_of plain)) LCP_FSM (CLOSED, Tlf)
     (fsm_expire (lcp_callbacks (link_hooks_of plain)) LCP_FSM (in_state LCP_FSM CLOSING))"
  using lcp_gives_up [of "in_state LCP_FSM CLOSING" plain] by simp

section \<open>Dial on demand\<close>

text \<open>
  C32. The table driven check sequence of \<^verbatim>\<open>demand.c\<close> is the CRC of RFC 1662 computed bit by bit, for
  every value of the register and every byte.
\<close>

theorem fcs_is_crc: "PPP_FCS v c = (fcs_bit ^^ 8) (v XOR ucast c)"
  by (rule PPP_FCS_bits)

text \<open>
  C33. The loopback of the dial-on-demand code keeps the same contract of a receiver as the line discipline: the frames of RFC 1662 of any packets that
  it queues are queued exactly as they were, in order.
\<close>

theorem loop_receives_frames:
  assumes "loop_ready esc (length ps) d" and "list_all (loop_packet tab) ps"
  shows "pend_q (loop_recv tab (concat (map (rfc1662_frame esc) ps)) d) = pend_q d @ ps"
  using loop_rx.recv_packets [where n = 0] assms by simp

theorem loop_receives_frames_witness:
  "pend_q (loop_recv [(PPP_IP, True, None)] (rfc1662_frame (\<lambda>c. c = PPP_FLAG \<or> c = PPP_ESCAPE) [0xff, 3, 0, 0x21]) loop_idle) =
     [[0xff, 3, 0, 0x21]]"
  using loop_receives_frames [of "\<lambda>c. c = PPP_FLAG \<or> c = PPP_ESCAPE" "[[0xff, 3, 0, 0x21]]" loop_idle "[(PPP_IP, True, None)]"] loop_idle_ready
  by (simp add: loop_packet_def active_packet_def frame_proto_def data_proto_def getshort_def ppp_consts)

section \<open>Authentication\<close>



text \<open>
  C35. When authentication of the peer is required and LCP has agreed on none, \<^verbatim>\<open>link_established\<close> takes
  LCP out of \<open>OPENED\<close> again and records the failure, before any network protocol is started.
\<close>

theorem unauthenticated_link_closed:
  fixes d :: daemon and w :: "'a ccp_world_scheme"
  assumes "auth_required w" and "\<not> neg_chap (lcp_gotoptions w)" and "\<not> neg_upap (lcp_gotoptions w)"
  shows "state_of LCP_FSM (link_established (d_plugins d) (ncps_of d) w) \<noteq> OPENED \<and>
    pppd_status (link_established (d_plugins d) (ncps_of d) w) = EXIT_PEER_AUTH_FAILED"
proof -
  define v where "v = fold proto_lowerup (ncps_of d) (ChapLowerUp (upap_lowerup w))"
  have q: "auth_required v = auth_required w" "lcp_gotoptions v = lcp_gotoptions w"
    using tab.fold_lowerup_quiet [of "ChapLowerUp (upap_lowerup w)" "d_plugins d" "d_ip d" "d_ccp d"]
    auth_options_lowerup(1) [of w] auth_options_lowerup(2) [of "upap_lowerup w"]
    by (simp_all add: v_def ncp_quiet_def auth_options_def)
  then show ?thesis
    using assms tab.close_link_closes unfolding link_established_def Let_def v_def [symmetric]
    by (simp add: null_login_def)
qed

theorem unauthenticated_link_closed_witness:
  "state_of LCP_FSM (link_established (d_plugins plain) (ncps_of plain) (boot\<lparr>auth_required := True\<rparr>)) \<noteq> OPENED"
  by (rule unauthenticated_link_closed [THEN conjunct1]) (simp_all add: lcp_zero_def)

section \<open>Options\<close>

text \<open>
  C36. Setting an option always returns, whatever the option, its value, the files that it makes the daemon
  read and how they name each other; and every entry of the option tables is used with the type of the
  variable that it points to: no cast in \<^verbatim>\<open>process_option\<close> reads or writes a variable as another type, and no
  string is copied past the end of its array.
\<close>

theorem options_typed:
  "(\<exists>ret w'. rtems_pppd_set_option os [] n name val w = Some (ret, w')) \<and>
   (\<exists>ret w'. options_from_list os [] n ws priv w = Some (ret, w')) \<and>
   (\<exists>ret w'. options_from_file os [] n fname must_exist priv w = Some (ret, w'))"
  using set_option_returns [of os n name val w] typed.options_from_list_good [of os n ws priv w]
    typed.options_from_file_good [of os n fname must_exist priv w] by auto

text \<open>
  C37. Reading a file of options is processing the list of its words: the interleaving of \<^verbatim>\<open>getword\<close> with the
  processing of the options makes no difference, and the privilege and the source that were current before
  are current again afterwards.
\<close>

theorem options_file_words:
  assumes "os_fopen os name = File f False" and "\<not> devnam_fixed (ov w)"
  shows "options_from_file os [] (Suc n) name must_exist priv w =
    map_option (\<lambda>(ret, w'). (ret, restore_source w w'))
      (list_loop (find_option []) (process_option (run_parser os (\<lambda>name. options_from_file os [] n name True)))
        (positional os) (words_of f) (w\<lparr>ov := (ov w)\<lparr>privileged_option := priv, option_source := name\<rparr>\<rparr>))"
  using assms by (rule options_from_file_words)

theorem options_file_words_witness:
  "options_from_file (bare\<lparr>os_fopen := \<lambda>_. File [35, 10] False\<rparr>) [] 1 [] True True app_boot = Some (True, app_boot)"
proof -
  have w: "words_of [35, 10] = []"
    by (subst words_of.simps) (simp add: getword_def)
  show ?thesis
    using options_file_words [of "bare\<lparr>os_fopen := \<lambda>_. File [35, 10] False\<rparr>" "[]" "[35, 10]" app_boot 0 True True]
    by (simp add: w restore_source_def app_boot_ov opt_vars_init_def)
qed

text \<open>
  C38. Words that are written between double quotes, with a backslash before quotes and backslashes, are read
  back by \<^verbatim>\<open>getword\<close> as they were, whatever blanks, newlines or hashes are in them.
\<close>

theorem words_round_trip:
  assumes "list_all (\<lambda>x. 0 \<notin> set x \<and> length x < MAXWORDLEN) ws"
  shows "words_of (print_words ws) = ws"
  using assms by (intro words_of_print) (simp add: list_all_iff)

theorem words_round_trip_witness:
  "words_of (print_words [[99, 97, 34, 108], [], [35, 32, 10, 92]]) = [[99, 97, 34, 108], [], [35, 32, 10, 92]]"
  by (rule words_round_trip) (simp add: ppp_consts)

text \<open>
  C39. The option \<^verbatim>\<open>call\<close> reads a file below \<^verbatim>\<open>/etc/ppp/peers/\<close>, with the rights of root, exactly when the name
  is not empty, does not start with a slash and has no component \<^verbatim>\<open>..\<close>; otherwise it is refused.
\<close>

theorem call_name_checked:
  "callfile from_file arg w =
     (if arg \<noteq> [] \<and> hd arg \<noteq> 47 \<and> [46, 46] \<notin> set (path_components arg)
      then from_file (PEERFILES @ arg) True w else Some (False, w))"
  by (simp add: callfile_def callname_ok_def no_dotdot_components)

text \<open>
  C40. The option \<^verbatim>\<open>domain\<close> writes past the end of \<^verbatim>\<open>hostname\<close> when the host name and the domain do not fit: the bound
  that \<^verbatim>\<open>strncat\<close> is given leaves no room for the zero that it appends.
\<close>

theorem setdomain_overflows:
  assumes "privileged_option (ov w)" and "arg \<noteq> []"
    and "length (os_gethostname os) < MAXNAMELEN" and "MAXNAMELEN \<le> length (os_gethostname os) + length arg"
  shows "oob (snd (setdomain os arg w))"
  using assms by (simp add: setdomain_def strncat_hostname_def Let_def)

theorem setdomain_overflows_witness:
  "oob (snd (setdomain (bare\<lparr>os_gethostname := replicate 255 120\<rparr>) [120]
     (app_boot\<lparr>ov := (ov app_boot)\<lparr>privileged_option := True\<rparr>\<rparr>)))"
  by (rule setdomain_overflows) (simp_all add: ppp_consts)

end
